(* ===== verification/E2EE_Prelude.thy ===== *)
theory E2EE_Prelude
  imports Main "HOL-Library.Char_ord" "HOL-Library.List_Lexorder" "HOL-Library.Sublist"
begin

text \<open>
  Shared vocabulary of the development: byte strings, Go's \<open>(value, error)\<close> results as a sum
  type, the early-return idioms of the source as combinators, and the simp set that turns a
  successful run of such a chain into the conjunction of the guards it passed.
\<close>

section \<open>Types\<close>

text \<open>A Go \<open>string\<close> and a Go \<open>[]byte\<close> are both sequences of bytes; HOL's \<open>char\<close> is a byte.\<close>

type_synonym bytes = "char list"

section \<open>Results\<close>

text \<open>\<open>bind_r r f\<close> is Go's \<open>x, err := r; if err != nil { return err }; f(x)\<close>.\<close>

definition bind_r :: "'e + 'a \<Rightarrow> ('a \<Rightarrow> 'e + 'b) \<Rightarrow> 'e + 'b" where
  "bind_r r f = (case r of Inl e \<Rightarrow> Inl e | Inr x \<Rightarrow> f x)"

text \<open>\<open>fail_if b e\<close> is Go's \<open>if b { return e }\<close>.\<close>

definition fail_if :: "bool \<Rightarrow> 'e \<Rightarrow> 'e + unit" where
  "fail_if b e = (if b then Inl e else Inr ())"

text \<open>\<open>opt_r o e\<close> is Go's \<open>v, ok := o; if !ok { return e }\<close>.\<close>

definition opt_r :: "'a option \<Rightarrow> 'e \<Rightarrow> 'e + 'a" where
  "opt_r v e = (case v of None \<Rightarrow> Inl e | Some x \<Rightarrow> Inr x)"

text \<open>\<open>each_r f xs\<close> is Go's \<open>for _, x := range xs { if err := f(x); err != nil { return err } }\<close>.\<close>

fun each_r :: "('a \<Rightarrow> 'e + unit) \<Rightarrow> 'a list \<Rightarrow> 'e + unit" where
  "each_r f [] = Inr ()"
| "each_r f (x # xs) = bind_r (f x) (\<lambda>_. each_r f xs)"

definition is_ok :: "'e + 'a \<Rightarrow> bool" where
  "is_ok r = (case r of Inl _ \<Rightarrow> False | Inr _ \<Rightarrow> True)"

lemma bind_r_Inl [simp]: "bind_r (Inl e) f = Inl e"
  by (simp add: bind_r_def)

lemma bind_r_Inr [simp]: "bind_r (Inr x) f = f x"
  by (simp add: bind_r_def)

lemma bind_r_eq_Inr: "bind_r r f = Inr y \<longleftrightarrow> (\<exists>x. r = Inr x \<and> f x = Inr y)"
  by (cases r) auto

lemma bind_r_eq_Inl: "bind_r r f = Inl e \<longleftrightarrow> r = Inl e \<or> (\<exists>x. r = Inr x \<and> f x = Inl e)"
  by (cases r) auto

lemma bind_r_assoc: "bind_r (bind_r r f) g = bind_r r (\<lambda>x. bind_r (f x) g)"
  by (cases r) simp_all

lemma bind_r_cong [fundef_cong]:
  "r = r' \<Longrightarrow> (\<And>x. r' = Inr x \<Longrightarrow> f x = f' x) \<Longrightarrow> bind_r r f = bind_r r' f'"
  by (cases r') auto

lemma fail_if_eq_Inr: "fail_if b e = Inr u \<longleftrightarrow> \<not> b"
  by (simp add: fail_if_def)

lemma fail_if_eq_Inl: "fail_if b e = Inl e' \<longleftrightarrow> b \<and> e' = e"
  by (auto simp: fail_if_def)

lemma fail_if_True [simp]: "fail_if True e = Inl e"
  by (simp add: fail_if_def)

lemma fail_if_False [simp]: "fail_if False e = Inr ()"
  by (simp add: fail_if_def)

lemma opt_r_eq_Inr: "opt_r v e = Inr x \<longleftrightarrow> v = Some x"
  by (auto simp: opt_r_def split: option.splits)

lemma opt_r_eq_Inl: "opt_r v e = Inl e' \<longleftrightarrow> v = None \<and> e' = e"
  by (auto simp: opt_r_def split: option.splits)

lemma opt_r_Some [simp]: "opt_r (Some x) e = Inr x"
  by (simp add: opt_r_def)

lemma opt_r_None [simp]: "opt_r None e = Inl e"
  by (simp add: opt_r_def)

lemma each_r_eq_Inr: "each_r f xs = Inr u \<longleftrightarrow> (\<forall>x\<in>set xs. f x = Inr ())"
  by (induction xs) (auto simp: bind_r_eq_Inr)

lemma each_r_cong [fundef_cong]:
  "xs = ys \<Longrightarrow> (\<And>x. x \<in> set ys \<Longrightarrow> f x = g x) \<Longrightarrow> each_r f xs = each_r g ys"
  by (induction xs arbitrary: ys) (auto intro!: bind_r_cong)

lemma is_ok_Inr [simp]: "is_ok (Inr x)"
  by (simp add: is_ok_def)

lemma is_ok_Inl [simp]: "\<not> is_ok (Inl e)"
  by (simp add: is_ok_def)

lemma is_ok_iff: "is_ok r \<longleftrightarrow> (\<exists>x. r = Inr x)"
  by (cases r) auto

lemma is_ok_unit: "is_ok (r :: 'e + unit) \<longleftrightarrow> r = Inr ()"
  by (cases r) auto

text \<open>The bundle that reads a successful chain of guards backwards.\<close>

lemmas result_inv = bind_r_eq_Inr fail_if_eq_Inr opt_r_eq_Inr each_r_eq_Inr is_ok_unit

section \<open>Lists\<close>

lemma take_append_exact: "n = length xs \<Longrightarrow> take n (xs @ ys) = xs"
  by simp

lemma drop_append_exact: "n = length xs \<Longrightarrow> drop n (xs @ ys) = ys"
  by simp

lemma append_eq_same_length:
  "length a = length b \<Longrightarrow> a @ x = b @ y \<longleftrightarrow> a = b \<and> x = y"
  by simp

lemma concat_eq_fixed_width:
  assumes "\<And>x. x \<in> set xs \<union> set ys \<Longrightarrow> length x = n" and "0 < n"
    and "concat xs = concat ys"
  shows "xs = ys"
  using assms
proof (induction xs arbitrary: ys)
  case Nil
  then show ?case by (cases ys) auto
next
  case (Cons x xs)
  show ?case
  proof (cases ys)
    case Nil
    with Cons.prems show ?thesis by auto
  next
    case (Cons y ys')
    with Cons.prems have "length x = length y" by simp
    with Cons Cons.prems(3) have "x = y" "concat xs = concat ys'" by auto
    moreover have "xs = ys'"
      using Cons Cons.prems(1,2) \<open>concat xs = concat ys'\<close> by (intro Cons.IH) auto
    ultimately show ?thesis using Cons by simp
  qed
qed

end
