(* ===== verification/Go_Map.thy ===== *)
theory Go_Map
  imports E2EE_Prelude
begin

text \<open>
  Go's \<open>map[string]V\<close>. The order of a Go map is unspecified and its JSON encoding sorts the keys,
  so a map is represented by the one association list with strictly increasing keys: two maps
  with the same entries are then the same HOL value. The interface \<open>go_map\<close> states the laws the
  rest of the development uses; the interpretation \<open>fields\<close> proves them for this representation.
\<close>

section \<open>The interface\<close>

locale go_map =
  fixes get :: "'m \<Rightarrow> string \<Rightarrow> 'v option"
    and put :: "string \<Rightarrow> 'v \<Rightarrow> 'm \<Rightarrow> 'm"
    and del :: "(string \<Rightarrow> bool) \<Rightarrow> 'm \<Rightarrow> 'm"
    and nil :: "'m"
    and wf :: "'m \<Rightarrow> bool"
  assumes get_nil: "get nil k = None"
    and get_put: "wf m \<Longrightarrow> get (put k v m) k' = (if k' = k then Some v else get m k')"
    and get_del: "get (del P m) k = (if P k then None else get m k)"
    and wf_nil: "wf nil"
    and wf_put: "wf m \<Longrightarrow> wf (put k v m)"
    and wf_del: "wf m \<Longrightarrow> wf (del P m)"
    and ext: "wf m \<Longrightarrow> wf m' \<Longrightarrow> (\<And>k. get m k = get m' k) \<Longrightarrow> m = m'"
begin

text \<open>Copying a list of fields out of a map, one assignment at a time.\<close>

lemma wf_fold_put: "wf m \<Longrightarrow> wf (fold (\<lambda>k. put k (h k)) ks m)"
  by (induction ks arbitrary: m) (auto intro: wf_put)

lemma get_fold_put:
  "wf m \<Longrightarrow> get (fold (\<lambda>k. put k (h k)) ks m) k' = (if k' \<in> set ks then Some (h k') else get m k')"
  by (induction ks arbitrary: m) (auto simp: get_put wf_put)

lemma put_absorb: "wf m \<Longrightarrow> get m k = Some v \<Longrightarrow> put k v m = m"
  by (rule ext) (auto simp: get_put wf_put)

lemma put_del: "wf m \<Longrightarrow> put k v (del (\<lambda>k'. k' = k) m) = put k v m"
  by (rule ext) (auto simp: get_put get_del wf_put wf_del)

lemma del_del: "wf m \<Longrightarrow> del P (del Q m) = del (\<lambda>k. P k \<or> Q k) m"
  by (rule ext) (auto simp: get_del wf_del)

lemma del_put: "wf m \<Longrightarrow> P k \<Longrightarrow> del P (put k v m) = del P m"
  by (rule ext) (auto simp: get_put get_del wf_put wf_del)

lemma del_none: "wf m \<Longrightarrow> (\<And>k. P k \<Longrightarrow> get m k = None) \<Longrightarrow> del P m = m"
  by (rule ext) (auto simp: get_del wf_del)

lemma put_swap: "wf m \<Longrightarrow> k \<noteq> k' \<Longrightarrow> put k v (put k' v' m) = put k' v' (put k v m)"
  by (rule ext) (auto simp: get_put wf_put)

lemma put_put: "wf m \<Longrightarrow> put k v (put k v' m) = put k v m"
  by (rule ext) (auto simp: get_put wf_put)

lemma del_put_commute: "wf m \<Longrightarrow> \<not> P k \<Longrightarrow> del P (put k v m) = put k v (del P m)"
  by (rule ext) (auto simp: get_put get_del wf_put wf_del)

end

section \<open>The representation\<close>

type_synonym 'v gomap = "(string \<times> 'v) list"

definition mget :: "'v gomap \<Rightarrow> string \<Rightarrow> 'v option" where
  "mget m k = map_of m k"

definition mhas :: "'v gomap \<Rightarrow> string \<Rightarrow> bool" where
  "mhas m k = (mget m k \<noteq> None)"

fun mput :: "string \<Rightarrow> 'v \<Rightarrow> 'v gomap \<Rightarrow> 'v gomap" where
  "mput k v [] = [(k, v)]"
| "mput k v ((k', v') # m) =
     (if k = k' then (k, v) # m
      else if k < k' then (k, v) # (k', v') # m
      else (k', v') # mput k v m)"

definition mdel :: "(string \<Rightarrow> bool) \<Rightarrow> 'v gomap \<Rightarrow> 'v gomap" where
  "mdel P m = filter (\<lambda>kv. \<not> P (fst kv)) m"

definition mwf :: "'v gomap \<Rightarrow> bool" where
  "mwf m = sorted_wrt (<) (map fst m)"

definition mkeys :: "'v gomap \<Rightarrow> string list" where
  "mkeys m = map fst m"

lemma mkeys_simps [simp]: "mkeys [] = []" "mkeys ((k, v) # m) = k # mkeys m"
  by (simp_all add: mkeys_def)

lemma mwf_Nil [simp]: "mwf []"
  by (simp add: mwf_def)

lemma mwf_Cons: "mwf ((k, v) # m) \<longleftrightarrow> mwf m \<and> (\<forall>k'\<in>set (mkeys m). k < k')"
  by (auto simp: mwf_def mkeys_def)

lemma mget_Nil [simp]: "mget [] k = None"
  by (simp add: mget_def)

lemma mget_Cons [simp]: "mget ((k, v) # m) k' = (if k = k' then Some v else mget m k')"
  by (simp add: mget_def)

lemma mget_None: "mget m k = None \<longleftrightarrow> k \<notin> set (mkeys m)"
  by (simp add: mget_def map_of_eq_None_iff mkeys_def)

lemma mget_in_keys: "mget m k = Some v \<Longrightarrow> k \<in> set (mkeys m)"
  using mget_None[of m k] by auto

lemma keys_mput: "set (mkeys (mput k v m)) = insert k (set (mkeys m))"
  by (induction k v m rule: mput.induct) auto

lemma mwf_mput: "mwf m \<Longrightarrow> mwf (mput k v m)"
proof (induction k v m rule: mput.induct)
  case (2 k v k' v' m)
  consider "k = k'" | "k < k'" | "k' < k" by fastforce
  then show ?case
  proof cases
    case 2
    then show ?thesis
      using "2.prems" by (auto simp: mwf_Cons intro: order.strict_trans)
  next
    case 3
    then show ?thesis
      using "2.prems" "2.IH" by (auto simp: mwf_Cons keys_mput)
  qed (use "2.prems" in \<open>auto simp: mwf_Cons\<close>)
qed (simp add: mwf_Cons)

lemma mget_mput: "mwf m \<Longrightarrow> mget (mput k v m) k' = (if k' = k then Some v else mget m k')"
proof (induction k v m rule: mput.induct)
  case (1 k v)
  show ?case by simp
next
  case (2 k v k0 v0 m)
  have m: "mwf m" using "2.prems" by (simp add: mwf_Cons)
  consider "k = k0" | "k \<noteq> k0" "k < k0" | "k \<noteq> k0" "\<not> k < k0" by blast
  then show ?case
  proof cases
    case 3
    then show ?thesis using "2.IH"[OF 3 m] by (cases "k' = k") simp_all
  qed simp_all
qed

lemma mdel_Nil [simp]: "mdel P [] = []"
  by (simp add: mdel_def)

lemma mdel_Cons [simp]: "mdel P ((k, v) # m) = (if P k then mdel P m else (k, v) # mdel P m)"
  by (simp add: mdel_def)

lemma keys_mdel: "set (mkeys (mdel P m)) = set (filter (\<lambda>k. \<not> P k) (mkeys m))"
proof (induction m)
  case (Cons p m)
  then show ?case by (cases p) simp
qed simp

lemma mwf_mdel: "mwf m \<Longrightarrow> mwf (mdel P m)"
proof (induction m)
  case (Cons p m)
  then show ?case
    by (cases p) (simp add: mwf_Cons keys_mdel)
qed simp

lemma mget_mdel: "mget (mdel P m) k = (if P k then None else mget m k)"
proof (induction m)
  case (Cons p m)
  then show ?case by (cases p) auto
qed simp

lemma mwf_ext:
  assumes "mwf m" "mwf m'" "\<And>k. mget m k = mget m' k"
  shows "m = m'"
  using assms
proof (induction m arbitrary: m')
  case Nil
  show ?case
  proof (cases m')
    case (Cons p m'')
    then show ?thesis using Nil.prems(3)[of "fst p"] by (cases p) simp
  qed simp
next
  case (Cons p m)
  obtain k v where p: "p = (k, v)" by (cases p)
  have kin: "k \<in> set (mkeys m')"
    using Cons.prems(3)[of k] p mget_None[of m' k] by auto
  then obtain k' v' m'' where m': "m' = (k', v') # m''"
    by (cases m') auto
  have low: "\<forall>j\<in>set (mkeys m). k < j" "mwf m" and low': "\<forall>j\<in>set (mkeys m''). k' < j" "mwf m''"
    using Cons.prems(1,2) p m' by (auto simp: mwf_Cons)
  have "k' \<in> set (mkeys (p # m))"
    using Cons.prems(3)[of k'] m' mget_None[of "p # m" k'] by auto
  then have "k = k'"
    using kin low low' p m' by fastforce
  moreover have "v = v'"
    using Cons.prems(3)[of k] p m' \<open>k = k'\<close> by simp
  moreover have "m = m''"
  proof (rule Cons.IH)
    fix j
    show "mget m j = mget m'' j"
    proof (cases "j = k")
      case True
      then have "j \<notin> set (mkeys m)" "j \<notin> set (mkeys m'')"
        using low low' \<open>k = k'\<close> by auto
      then show ?thesis by (metis mget_None)
    next
      case False
      then show ?thesis
        using Cons.prems(3)[of j] p m' \<open>k = k'\<close> by simp
    qed
  qed (use low low' in auto)
  ultimately show ?case using p m' by simp
qed

interpretation fields: go_map mget mput mdel "[]" mwf
  by unfold_locales (auto simp: mget_mput mget_mdel mwf_mput mwf_mdel intro: mwf_ext)

lemmas map_simps = mget_mput mget_mdel mwf_mput mwf_mdel

text \<open>Decoding a JSON object into a Go map assigns the members in order: the last duplicate wins.\<close>

definition map_from :: "(string \<times> 'v) list \<Rightarrow> 'v gomap" where
  "map_from kvs = fold (\<lambda>(k, v). mput k v) kvs []"

lemma mwf_fold_mput: "mwf m \<Longrightarrow> mwf (fold (\<lambda>(k, v). mput k v) kvs m)"
  by (induction kvs arbitrary: m) (auto simp: mwf_mput)

lemma mwf_map_from [simp]: "mwf (map_from kvs)"
  by (simp add: map_from_def mwf_fold_mput)

lemma mget_fold_mput:
  "mwf m \<Longrightarrow> mget (fold (\<lambda>(k, v). mput k v) kvs m) k =
     (case map_of (rev kvs) k of None \<Rightarrow> mget m k | Some v \<Rightarrow> Some v)"
  by (induction kvs arbitrary: m)
    (auto simp: mwf_mput mget_mput map_add_def split: option.splits)

lemma mget_map_from: "mget (map_from kvs) k = map_of (rev kvs) k"
  by (simp add: map_from_def mget_fold_mput split: option.splits)

lemma mwf_distinct: "mwf m \<Longrightarrow> distinct (map fst m)"
  by (auto simp: mwf_def strict_sorted_iff)

lemma map_of_rev_distinct:
  assumes "distinct (map fst xs)"
  shows "map_of (rev xs) = map_of xs"
proof (rule map_of_eqI)
  have d: "distinct (map fst (rev xs))"
    using assms by (simp add: rev_map[symmetric])
  show "\<forall>k\<in>set (map fst (rev xs)). map_of (rev xs) k = map_of xs k"
  proof
    fix k
    assume "k \<in> set (map fst (rev xs))"
    then obtain v where v: "(k, v) \<in> set xs" by auto
    then have "map_of xs k = Some v" using assms by (simp add: map_of_is_SomeI)
    moreover have "map_of (rev xs) k = Some v" using d v by (intro map_of_is_SomeI) auto
    ultimately show "map_of (rev xs) k = map_of xs k" by simp
  qed
qed simp

text \<open>Re-reading what a Go map was written as gives the same map.\<close>

lemma map_from_mwf: "mwf m \<Longrightarrow> map_from m = m"
  by (rule mwf_ext) (simp_all add: mget_map_from map_of_rev_distinct mwf_distinct, simp add: mget_def)

end
