(* ===== verification/Go_Encoding.thy ===== *)
theory Go_Encoding
  imports E2EE_Prelude
begin

text \<open>
  The parts of Go's \<open>encoding/hex\<close>, \<open>encoding/base64\<close> (URL alphabet, no padding) and \<open>strings\<close>
  that the source calls, with their round trips.
\<close>

section \<open>encoding/hex\<close>

definition hex_digit :: "nat \<Rightarrow> char" where
  "hex_digit n = char_of (if n < 10 then 48 + n else 87 + n)"

definition hex_val :: "char \<Rightarrow> nat option" where
  "hex_val c = (let n = of_char c in
     if 48 \<le> n \<and> n \<le> 57 then Some (n - 48)
     else if 97 \<le> n \<and> n \<le> 102 then Some (n - 87)
     else if 65 \<le> n \<and> n \<le> 70 then Some (n - 55)
     else None)"

fun hex_encode :: "bytes \<Rightarrow> string" where
  "hex_encode [] = []"
| "hex_encode (c # cs) = hex_digit (of_char c div 16) # hex_digit (of_char c mod 16) # hex_encode cs"

fun hex_decode :: "string \<Rightarrow> bytes option" where
  "hex_decode [] = Some []"
| "hex_decode [c] = None"
| "hex_decode (a # b # r) =
     (case hex_val a of None \<Rightarrow> None
      | Some x \<Rightarrow> (case hex_val b of None \<Rightarrow> None
         | Some y \<Rightarrow> map_option (\<lambda>bs. char_of (16 * x + y) # bs) (hex_decode r)))"

lemma of_char_less: "of_char (c :: char) < (256 :: nat)"
  by (metis of_char_mod_256 mod_less_divisor zero_less_numeral)

lemma hex_val_digit [simp]: "n < 16 \<Longrightarrow> hex_val (hex_digit n) = Some n"
  by (auto simp: hex_val_def hex_digit_def Let_def)

lemma hex_decode_encode [simp]: "hex_decode (hex_encode bs) = Some bs"
proof (induction bs)
  case (Cons c cs)
  have "of_char c div 16 < (16 :: nat)"
    by (rule less_mult_imp_div_less) (simp add: of_char_less)
  moreover have "16 * (of_char c div 16) + of_char c mod 16 = (of_char c :: nat)"
    by simp
  ultimately show ?case
    using Cons by (simp only: hex_encode.simps hex_decode.simps hex_val_digit) simp
qed simp

lemma length_hex_encode [simp]: "length (hex_encode bs) = 2 * length bs"
  by (induction bs) auto

lemma hex_encode_inj [simp]: "hex_encode a = hex_encode b \<longleftrightarrow> a = b"
  by (metis hex_decode_encode option.inject)

definition is_lower_hex :: "char \<Rightarrow> bool" where
  "is_lower_hex c = (let n = (of_char c :: nat) in (48 \<le> n \<and> n \<le> 57) \<or> (97 \<le> n \<and> n \<le> 102))"

lemma hex_digit_lower: "n < 16 \<Longrightarrow> is_lower_hex (hex_digit n)"
  by (auto simp: is_lower_hex_def hex_digit_def Let_def)

lemma hex_encode_lower: "c \<in> set (hex_encode bs) \<Longrightarrow> is_lower_hex c"
proof (induction bs)
  case (Cons b bs)
  have "of_char b div 16 < (16 :: nat)"
    by (rule less_mult_imp_div_less) (simp add: of_char_less)
  with Cons show ?case by (auto intro: hex_digit_lower)
qed simp

section \<open>base64.RawURLEncoding\<close>

definition b64_char :: "nat \<Rightarrow> char" where
  "b64_char n = char_of
     (if n < 26 then 65 + n else if n < 52 then 71 + n else if n < 62 then n - 4
      else if n = 62 then 45 else 95)"

definition b64_val :: "char \<Rightarrow> nat option" where
  "b64_val c = (let n = of_char c in
     if 65 \<le> n \<and> n \<le> 90 then Some (n - 65)
     else if 97 \<le> n \<and> n \<le> 122 then Some (n - 71)
     else if 48 \<le> n \<and> n \<le> 57 then Some (n + 4)
     else if n = 45 then Some 62 else if n = 95 then Some 63 else None)"

fun b64_sextets :: "nat list \<Rightarrow> nat list" where
  "b64_sextets [] = []"
| "b64_sextets [a] = [a div 4, (a mod 4) * 16]"
| "b64_sextets [a, b] = [a div 4, (a mod 4) * 16 + b div 16, (b mod 16) * 4]"
| "b64_sextets (a # b # c # r) =
     [a div 4, (a mod 4) * 16 + b div 16, (b mod 16) * 4 + c div 64, c mod 64] @ b64_sextets r"

definition b64_encode :: "bytes \<Rightarrow> string" where
  "b64_encode bs = map b64_char (b64_sextets (map of_char bs))"

text \<open>
  The last group may be short. \<open>Strict()\<close> also requires its unused low bits to be zero.
\<close>

fun b64_octets :: "bool \<Rightarrow> nat list \<Rightarrow> nat list option" where
  "b64_octets strict [] = Some []"
| "b64_octets strict [x] = None"
| "b64_octets strict [x, y] =
     (if strict \<and> y mod 16 \<noteq> 0 then None else Some [x * 4 + y div 16])"
| "b64_octets strict [x, y, z] =
     (if strict \<and> z mod 4 \<noteq> 0 then None
      else Some [x * 4 + y div 16, (y mod 16) * 16 + z div 4])"
| "b64_octets strict (x # y # z # w # r) =
     map_option ((@) [x * 4 + y div 16, (y mod 16) * 16 + z div 4, (z mod 4) * 64 + w])
       (b64_octets strict r)"

fun opt_all :: "'a option list \<Rightarrow> 'a list option" where
  "opt_all [] = Some []"
| "opt_all (None # xs) = None"
| "opt_all (Some x # xs) = map_option ((#) x) (opt_all xs)"

text \<open>Go's decoder skips carriage returns and line feeds wherever they stand, \<open>Strict()\<close> included.\<close>

definition is_newline :: "char \<Rightarrow> bool" where
  "is_newline c = (of_char c = (10 :: nat) \<or> of_char c = (13 :: nat))"

definition b64_decode :: "bool \<Rightarrow> string \<Rightarrow> bytes option" where
  "b64_decode strict s =
     (case opt_all (map b64_val (filter (\<lambda>c. \<not> is_newline c) s)) of None \<Rightarrow> None
      | Some xs \<Rightarrow> map_option (map char_of) (b64_octets strict xs))"

lemma opt_all_map_Some: "(\<And>x. x \<in> set xs \<Longrightarrow> f x = Some (g x)) \<Longrightarrow> opt_all (map f xs) = Some (map g xs)"
proof (induction xs)
  case (Cons x xs)
  then have "f x = Some (g x)" "opt_all (map f xs) = Some (map g xs)" by simp_all
  then show ?case by simp
qed simp

lemma b64_val_char [simp]: "n < 64 \<Longrightarrow> b64_val (b64_char n) = Some n"
  by (auto simp: b64_val_def b64_char_def Let_def)

lemma b64_char_not_newline [simp]: "n < 64 \<Longrightarrow> \<not> is_newline (b64_char n)"
  by (auto simp: is_newline_def b64_char_def)

lemma b64_sextets_less: "x \<in> set (b64_sextets as) \<Longrightarrow> \<forall>a\<in>set as. a < 256 \<Longrightarrow> x < 64"
  by (induction as rule: b64_sextets.induct) auto

lemma b64_octets_sextets: "\<forall>a\<in>set as. a < 256 \<Longrightarrow> b64_octets strict (b64_sextets as) = Some as"
  by (induction as rule: b64_sextets.induct) auto

lemma b64_decode_encode [simp]: "b64_decode strict (b64_encode bs) = Some bs"
proof -
  let ?as = "map of_char bs :: nat list"
  have lt: "\<forall>a\<in>set ?as. a < 256" by (auto simp: of_char_less)
  have sx: "x < 64" if "x \<in> set (b64_sextets ?as)" for x
    using that lt by (rule b64_sextets_less)
  have "filter (\<lambda>c. \<not> is_newline c) (b64_encode bs) = b64_encode bs"
    unfolding b64_encode_def by (rule filter_True) (use sx in auto)
  moreover have "opt_all (map b64_val (b64_encode bs)) = Some (b64_sextets ?as)"
    unfolding b64_encode_def map_map
    using opt_all_map_Some[of "b64_sextets ?as" "b64_val \<circ> b64_char" id] sx by simp
  ultimately show ?thesis
    using b64_octets_sextets[OF lt] by (simp add: b64_decode_def comp_def)
qed

lemma b64_encode_inj [simp]: "b64_encode a = b64_encode b \<longleftrightarrow> a = b"
  by (metis b64_decode_encode option.inject)

lemma b64_encode_eq_Nil [simp]: "b64_encode bs = [] \<longleftrightarrow> bs = []"
  by (cases "map of_char bs :: nat list" rule: b64_sextets.cases) (auto simp: b64_encode_def)

lemma b64_encode_Nil [simp]: "b64_encode [] = []"
  by simp

lemma b64_encode_chars: "c \<in> set (b64_encode bs) \<Longrightarrow> b64_val c \<noteq> None"
  using b64_sextets_less[of _ "map of_char bs"] by (auto simp: b64_encode_def of_char_less)

section \<open>strings\<close>

text \<open>\<open>strings.TrimSpace\<close>: the UTF-8 encodings of the code points Go's \<open>unicode.IsSpace\<close> accepts.\<close>

definition space_encodings :: "bytes list" where
  "space_encodings =
     [[CHR 0x09], [CHR 0x0A], [CHR 0x0B], [CHR 0x0C], [CHR 0x0D], [CHR 0x20],
      [CHR 0xC2, CHR 0x85], [CHR 0xC2, CHR 0xA0], [CHR 0xE1, CHR 0x9A, CHR 0x80]]
     @ map (\<lambda>n. [CHR 0xE2, CHR 0x80, char_of (128 + n)]) [0..<11]
     @ [[CHR 0xE2, CHR 0x80, CHR 0xA8], [CHR 0xE2, CHR 0x80, CHR 0xA9],
        [CHR 0xE2, CHR 0x80, CHR 0xAF], [CHR 0xE2, CHR 0x81, CHR 0x9F],
        [CHR 0xE3, CHR 0x80, CHR 0x80]]"

function trim_with :: "bytes list \<Rightarrow> bytes \<Rightarrow> bytes" where
  "trim_with ws s =
     (case find (\<lambda>w. w \<noteq> [] \<and> prefix w s) ws of
        None \<Rightarrow> s | Some w \<Rightarrow> trim_with ws (drop (length w) s))"
  by pat_completeness auto
termination
proof (relation "measure (length \<circ> snd)", goal_cases)
  case (2 ws s w)
  then have "w \<noteq> []" "prefix w s" by (auto simp: find_Some_iff)
  then show ?case by (cases s) (auto simp: prefix_def)
qed simp

declare trim_with.simps [simp del]

definition trim_left :: "bytes \<Rightarrow> bytes" where
  "trim_left s = trim_with space_encodings s"

definition trim_right :: "bytes \<Rightarrow> bytes" where
  "trim_right s = rev (trim_with (map rev space_encodings) (rev s))"

definition trim_space :: "bytes \<Rightarrow> bytes" where
  "trim_space s = trim_right (trim_left s)"

text \<open>
  \<open>strings.EqualFold\<close>, and the key folding of \<open>encoding/json\<close>: simple case folding, in which the
  long s (U+017F) and the Kelvin sign (U+212A) fold to ASCII letters. Exact where one side is
  ASCII, which is the only use the source makes of it (hexadecimal addresses and JSON tag names).
\<close>

definition lower_char :: "char \<Rightarrow> char" where
  "lower_char c = (let n = (of_char c :: nat) in if 65 \<le> n \<and> n \<le> 90 then char_of (n + 32) else c)"

fun fold_case :: "bytes \<Rightarrow> bytes" where
  "fold_case s =
     (case s of [] \<Rightarrow> []
      | c # r \<Rightarrow>
         if prefix [CHR 0xC5, CHR 0xBF] s then CHR ''s'' # fold_case (drop 2 s)
         else if prefix [CHR 0xE2, CHR 0x84, CHR 0xAA] s then CHR ''k'' # fold_case (drop 3 s)
         else lower_char c # fold_case r)"

declare fold_case.simps [simp del]

definition equal_fold :: "bytes \<Rightarrow> bytes \<Rightarrow> bool" where
  "equal_fold a b = (fold_case a = fold_case b)"

lemma equal_fold_refl [simp]: "equal_fold a a"
  by (simp add: equal_fold_def)

lemma equal_fold_sym: "equal_fold a b \<Longrightarrow> equal_fold b a"
  by (simp add: equal_fold_def)

text \<open>\<open>strings.SplitN(s, sep, n)\<close> for a one-byte separator.\<close>

fun cut_at :: "char \<Rightarrow> bytes \<Rightarrow> (bytes \<times> bytes) option" where
  "cut_at c [] = None"
| "cut_at c (x # xs) =
     (if x = c then Some ([], xs) else map_option (\<lambda>(a, b). (x # a, b)) (cut_at c xs))"

fun split_n :: "nat \<Rightarrow> char \<Rightarrow> bytes \<Rightarrow> bytes list" where
  "split_n 0 c s = []"
| "split_n (Suc 0) c s = [s]"
| "split_n (Suc (Suc n)) c s =
     (case cut_at c s of None \<Rightarrow> [s] | Some (a, b) \<Rightarrow> a # split_n (Suc n) c b)"

lemma cut_at_append: "c \<notin> set a \<Longrightarrow> cut_at c (a @ c # b) = Some (a, b)"
  by (induction a) auto

lemma cut_at_None: "c \<notin> set a \<Longrightarrow> cut_at c a = None"
  by (induction a) auto

lemma cut_at_Some: "cut_at c s = Some (a, b) \<Longrightarrow> s = a @ c # b \<and> c \<notin> set a"
  by (induction s arbitrary: a) (auto split: if_splits)

text \<open>Splitting at the last occurrence of a byte (\<open>strings.LastIndex\<close>).\<close>

definition cut_last :: "char \<Rightarrow> bytes \<Rightarrow> (bytes \<times> bytes) option" where
  "cut_last c s = map_option (\<lambda>(a, b). (rev b, rev a)) (cut_at c (rev s))"

lemma cut_last_append: "c \<notin> set b \<Longrightarrow> cut_last c (a @ c # b) = Some (a, b)"
  by (simp add: cut_last_def cut_at_append)

lemma cut_last_Some: "cut_last c s = Some (a, b) \<Longrightarrow> s = a @ c # b \<and> c \<notin> set b"
proof -
  assume "cut_last c s = Some (a, b)"
  then obtain a' b' where "cut_at c (rev s) = Some (a', b')" "a = rev b'" "b = rev a'"
    by (auto simp: cut_last_def)
  then have "rev s = a' @ c # b'" "c \<notin> set a'"
    using cut_at_Some[of c "rev s" a' b'] by simp_all
  then have "s = rev (a' @ c # b')" by (metis rev_rev_ident)
  then show ?thesis
    using \<open>a = rev b'\<close> \<open>b = rev a'\<close> \<open>c \<notin> set a'\<close> by simp
qed

end
