(* ===== verification/Go_Json.thy ===== *)
theory Go_Json
  imports Go_Map Go_Encoding
begin

text \<open>
  Go's \<open>encoding/json\<close>. A \<open>json.RawMessage\<close> of the source is represented by the JSON value it
  holds: member order and duplicate members are kept, and a number is kept as its literal, since
  the width it is read at is decided by the reader. Every raw message of the program comes out of
  a decoder, so it is always well-formed text. Strings are taken to be valid UTF-8.

  The printer and the parser below are the text form; the parser accepts the whole grammar.
\<close>

section \<open>Values\<close>

datatype json =
    JNull
  | JBool bool
  | JNum string
  | JStr string
  | JArr "json list"
  | JObj "(string \<times> json) list"

section \<open>Number literals\<close>

definition is_digit :: "char \<Rightarrow> bool" where
  "is_digit c = (let n = (of_char c :: nat) in 48 \<le> n \<and> n \<le> 57)"

definition num_char :: "char \<Rightarrow> bool" where
  "num_char c = (is_digit c \<or> c \<in> set ''+-.eE'')"

record num_parts =
  num_neg :: bool
  num_int :: string
  num_frac :: string
  num_exp :: "(bool \<times> string) option"

definition split_digits :: "string \<Rightarrow> string \<times> string" where
  "split_digits s = (takeWhile is_digit s, dropWhile is_digit s)"

definition parse_exp :: "string \<Rightarrow> (bool \<times> string) option option" where
  "parse_exp s =
     (if s = [] then Some None
      else if hd s \<noteq> CHR ''e'' \<and> hd s \<noteq> CHR ''E'' then None
      else let r = tl s;
               neg = (r \<noteq> [] \<and> hd r = CHR ''-'');
               ds = (if r \<noteq> [] \<and> (hd r = CHR ''-'' \<or> hd r = CHR ''+'') then tl r else r)
           in if ds \<noteq> [] \<and> list_all is_digit ds then Some (Some (neg, ds)) else None)"

definition parse_frac :: "string \<Rightarrow> (string \<times> string) option" where
  "parse_frac s =
     (if s \<noteq> [] \<and> hd s = CHR ''.''
      then (let (ds, r) = split_digits (tl s) in if ds = [] then None else Some (ds, r))
      else Some ([], s))"

text \<open>RFC 8259 \<open>number\<close>: no leading zeros, digits on both sides of the point.\<close>

definition parse_num :: "string \<Rightarrow> num_parts option" where
  "parse_num s =
     (let neg = (s \<noteq> [] \<and> hd s = CHR ''-'');
          (ds, r) = split_digits (if neg then tl s else s)
      in if ds = [] \<or> (hd ds = CHR ''0'' \<and> length ds \<noteq> 1) then None
         else case parse_frac r of None \<Rightarrow> None
           | Some (fs, r') \<Rightarrow> map_option
               (\<lambda>e. \<lparr>num_neg = neg, num_int = ds, num_frac = fs, num_exp = e\<rparr>) (parse_exp r'))"

definition digits_nat :: "string \<Rightarrow> nat" where
  "digits_nat ds = foldl (\<lambda>n c. 10 * n + (of_char c - 48)) 0 ds"

text \<open>\<open>strconv.ParseInt(lit, 10, 64)\<close>: an integer literal in the range of \<open>int64\<close>.\<close>

definition parse_int64 :: "string \<Rightarrow> int option" where
  "parse_int64 s =
     (case parse_num s of None \<Rightarrow> None
      | Some p \<Rightarrow>
          if num_frac p \<noteq> [] \<or> num_exp p \<noteq> None then None
          else let n = (if num_neg p then - int (digits_nat (num_int p))
                        else int (digits_nat (num_int p)))
               in if - (2 ^ 63) \<le> n \<and> n < 2 ^ 63 then Some n else None)"

section \<open>Text\<close>

fun skip_ws :: "bytes \<Rightarrow> bytes" where
  "skip_ws [] = []"
| "skip_ws (c # cs) =
     (if c \<in> {CHR 0x20, CHR 0x09, CHR 0x0A, CHR 0x0D} then skip_ws cs else c # cs)"

definition utf8_encode :: "nat \<Rightarrow> bytes" where
  "utf8_encode n =
     map char_of
      (if n < 0x80 then [n]
       else if n < 0x800 then [0xC0 + n div 64, 0x80 + n mod 64]
       else if n < 0x10000 then [0xE0 + n div 4096, 0x80 + n div 64 mod 64, 0x80 + n mod 64]
       else [0xF0 + n div 262144, 0x80 + n div 4096 mod 64, 0x80 + n div 64 mod 64, 0x80 + n mod 64])"

definition hex4 :: "bytes \<Rightarrow> (nat \<times> bytes) option" where
  "hex4 s = (if length s < 4 then None
     else map_option (\<lambda>ds. (foldl (\<lambda>n d. 16 * n + d) 0 ds, drop 4 s))
            (opt_all (map hex_val (take 4 s))))"

definition simple_escape :: "char \<Rightarrow> char option" where
  "simple_escape c =
     map_of [(CHR 0x22, CHR 0x22), (CHR 0x5C, CHR 0x5C), (CHR 0x2F, CHR 0x2F),
             (CHR ''b'', CHR 0x08), (CHR ''f'', CHR 0x0C), (CHR ''n'', CHR 0x0A),
             (CHR ''r'', CHR 0x0D), (CHR ''t'', CHR 0x09)] c"

text \<open>An unpaired surrogate is read as U+FFFD.\<close>

definition parse_unicode :: "bytes \<Rightarrow> (bytes \<times> bytes) option" where
  "parse_unicode s =
     (case hex4 s of None \<Rightarrow> None
      | Some (n, r) \<Rightarrow>
          if n < 0xD800 \<or> 0xE000 \<le> n then Some (utf8_encode n, r)
          else if n < 0xDC00 \<and> prefix [CHR 0x5C, CHR ''u''] r then
            (case hex4 (drop 2 r) of
               Some (m, r') \<Rightarrow>
                 if 0xDC00 \<le> m \<and> m < 0xE000
                 then Some (utf8_encode (0x10000 + (n - 0xD800) * 1024 + (m - 0xDC00)), r')
                 else Some (utf8_encode 0xFFFD, r)
             | None \<Rightarrow> Some (utf8_encode 0xFFFD, r))
          else Some (utf8_encode 0xFFFD, r))"

definition parse_escape :: "bytes \<Rightarrow> (bytes \<times> bytes) option" where
  "parse_escape s =
     (case s of [] \<Rightarrow> None
      | e # r \<Rightarrow> if e = CHR ''u'' then parse_unicode r
                else map_option (\<lambda>x. ([x], r)) (simple_escape e))"

lemma parse_unicode_shorter: "parse_unicode s = Some (x, r) \<Longrightarrow> length r \<le> length s"
  by (auto simp: parse_unicode_def hex4_def split: option.splits if_splits)

lemma parse_escape_shorter: "parse_escape s = Some (x, r) \<Longrightarrow> length r \<le> length s"
  by (auto simp: parse_escape_def dest: parse_unicode_shorter split: list.splits if_splits)

function parse_str :: "bytes \<Rightarrow> (bytes \<times> bytes) option" where
  "parse_str s =
     (case s of [] \<Rightarrow> None
      | c # r \<Rightarrow>
          if c = CHR 0x22 then Some ([], r)
          else if c = CHR 0x5C then
            (case parse_escape r of None \<Rightarrow> None
             | Some (x, r') \<Rightarrow> map_option (\<lambda>(t, u). (x @ t, u)) (parse_str r'))
          else if (of_char c :: nat) < 32 then None
          else map_option (\<lambda>(t, u). (c # t, u)) (parse_str r))"
  by pat_completeness auto
termination
  by (relation "measure length") (auto dest: parse_escape_shorter)

declare parse_str.simps [simp del]

fun parse_val :: "nat \<Rightarrow> bytes \<Rightarrow> (json \<times> bytes) option"
and parse_elems :: "nat \<Rightarrow> bytes \<Rightarrow> (json list \<times> bytes) option"
and parse_members :: "nat \<Rightarrow> bytes \<Rightarrow> ((string \<times> json) list \<times> bytes) option" where
  "parse_val 0 s = None"
| "parse_val (Suc n) s =
     (case s of [] \<Rightarrow> None
      | c # r \<Rightarrow>
          if c = CHR ''{'' then
            (case skip_ws r of [] \<Rightarrow> None
             | d # r' \<Rightarrow> if d = CHR ''}'' then Some (JObj [], r')
                        else map_option (\<lambda>(kvs, u). (JObj kvs, u)) (parse_members n (d # r')))
          else if c = CHR ''['' then
            (case skip_ws r of [] \<Rightarrow> None
             | d # r' \<Rightarrow> if d = CHR '']'' then Some (JArr [], r')
                        else map_option (\<lambda>(vs, u). (JArr vs, u)) (parse_elems n (d # r')))
          else if c = CHR 0x22 then map_option (\<lambda>(t, u). (JStr t, u)) (parse_str r)
          else if prefix ''true'' s then Some (JBool True, drop 4 s)
          else if prefix ''false'' s then Some (JBool False, drop 5 s)
          else if prefix ''null'' s then Some (JNull, drop 4 s)
          else (let t = takeWhile num_char s
                in if parse_num t \<noteq> None then Some (JNum t, dropWhile num_char s) else None))"
| "parse_elems 0 s = None"
| "parse_elems (Suc n) s =
     (case parse_val n s of None \<Rightarrow> None
      | Some (v, r) \<Rightarrow>
          (case skip_ws r of [] \<Rightarrow> None
           | d # r' \<Rightarrow> if d = CHR '']'' then Some ([v], r')
                      else if d = CHR '','' then
                        map_option (\<lambda>(vs, u). (v # vs, u)) (parse_elems n (skip_ws r'))
                      else None))"
| "parse_members 0 s = None"
| "parse_members (Suc n) s =
     (case s of [] \<Rightarrow> None
      | c # r \<Rightarrow>
          if c \<noteq> CHR 0x22 then None
          else (case parse_str r of None \<Rightarrow> None
            | Some (k, r1) \<Rightarrow>
               (case skip_ws r1 of [] \<Rightarrow> None
                | d # r2 \<Rightarrow>
                   if d \<noteq> CHR '':'' then None
                   else (case parse_val n (skip_ws r2) of None \<Rightarrow> None
                     | Some (v, r3) \<Rightarrow>
                        (case skip_ws r3 of [] \<Rightarrow> None
                         | e # r4 \<Rightarrow>
                            if e = CHR ''}'' then Some ([(k, v)], r4)
                            else if e = CHR '','' then
                              map_option (\<lambda>(kvs, u). ((k, v) # kvs, u))
                                (parse_members n (skip_ws r4))
                            else None)))))"

text \<open>The nesting of a text is at most its length, so its length is enough fuel.\<close>

definition json_parse :: "bytes \<Rightarrow> json option" where
  "json_parse s =
     (case parse_val (Suc (length s)) (skip_ws s) of None \<Rightarrow> None
      | Some (v, r) \<Rightarrow> if skip_ws r = [] then Some v else None)"

definition escape_char :: "char \<Rightarrow> bytes" where
  "escape_char c =
     (if c = CHR 0x22 then [CHR 0x5C, CHR 0x22]
      else if c = CHR 0x5C then [CHR 0x5C, CHR 0x5C]
      else if (of_char c :: nat) < 32
      then [CHR 0x5C, CHR ''u'', CHR ''0'', CHR ''0'',
            hex_digit (of_char c div 16), hex_digit (of_char c mod 16)]
      else [c])"

definition print_str :: "string \<Rightarrow> bytes" where
  "print_str s = CHR 0x22 # concat (map escape_char s) @ [CHR 0x22]"

fun json_print :: "json \<Rightarrow> bytes"
and print_elems :: "json list \<Rightarrow> bytes"
and print_members :: "(string \<times> json) list \<Rightarrow> bytes" where
  "json_print JNull = ''null''"
| "json_print (JBool b) = (if b then ''true'' else ''false'')"
| "json_print (JNum t) = t"
| "json_print (JStr s) = print_str s"
| "json_print (JArr vs) = CHR ''['' # (if vs = [] then '']'' else print_elems vs)"
| "json_print (JObj kvs) = CHR ''{'' # (if kvs = [] then ''}'' else print_members kvs)"
| "print_elems [] = []"
| "print_elems (v # vs) =
     json_print v @ (if vs = [] then '']'' else CHR '','' # print_elems vs)"
| "print_members [] = []"
| "print_members ((k, v) # kvs) =
     print_str k @ CHR '':'' # json_print v
       @ (if kvs = [] then ''}'' else CHR '','' # print_members kvs)"

fun json_ok :: "json \<Rightarrow> bool" where
  "json_ok (JNum t) = (parse_num t \<noteq> None)"
| "json_ok (JArr vs) = (\<forall>v\<in>set vs. json_ok v)"
| "json_ok (JObj kvs) = (\<forall>kv\<in>set kvs. json_ok (snd kv))"
| "json_ok _ = True"

declare json_print.simps [simp del]

end
