(* ===== verification/Go_Float.thy ===== *)
theory Go_Float
  imports Go_Json Complex_Main "HOL-Library.Log_Nat"
begin

text \<open>
  \<open>strconv.ParseFloat(lit, 64)\<close> and \<open>strconv.FormatFloat(x, 'g', -1, 64)\<close>: IEEE 754 double
  precision with round-half-to-even, computed on exact rationals. A finite double is its sign and
  the rational magnitude it denotes.
\<close>

type_synonym f64 = "bool \<times> rat"

definition f64_value :: "f64 \<Rightarrow> rat" where
  "f64_value x = (if fst x then - snd x else snd x)"

definition pow2 :: "int \<Rightarrow> rat" where
  "pow2 e = (if 0 \<le> e then 2 ^ nat e else 1 / 2 ^ nat (- e))"

definition pow10 :: "int \<Rightarrow> rat" where
  "pow10 e = (if 0 \<le> e then 10 ^ nat e else 1 / 10 ^ nat (- e))"

definition num_rat :: "num_parts \<Rightarrow> rat" where
  "num_rat p =
     (let ex = (case num_exp p of None \<Rightarrow> 0
                | Some (neg, ds) \<Rightarrow> (if neg then - int (digits_nat ds) else int (digits_nat ds)))
      in of_nat (digits_nat (num_int p @ num_frac p)) * pow10 (ex - int (length (num_frac p))))"

text \<open>The exponent of the leading binary digit of a positive rational.\<close>

definition ilog2 :: "rat \<Rightarrow> int" where
  "ilog2 x =
     (let (a, b) = quotient_of x; k = bitlen a - bitlen b
      in if pow2 k \<le> x then k else k - 1)"

definition round_half_even :: "rat \<Rightarrow> int" where
  "round_half_even x =
     (let f = \<lfloor>x\<rfloor>; d = x - of_int f
      in if d < 1 / 2 \<or> (d = 1 / 2 \<and> even f) then f else f + 1)"

text \<open>53 significant bits, a smallest exponent of -1074, and \<open>None\<close> for an overflow.\<close>

definition round_f64 :: "rat \<Rightarrow> rat option" where
  "round_f64 x =
     (if x \<le> 0 then Some 0
      else let e = max (-1074) (ilog2 x - 52);
               y = of_int (round_half_even (x / pow2 e)) * pow2 e
           in if pow2 1024 \<le> y then None else Some y)"

definition parse_float :: "string \<Rightarrow> f64 option" where
  "parse_float s =
     (case parse_num s of None \<Rightarrow> None
      | Some p \<Rightarrow> map_option (\<lambda>m. (num_neg p, m)) (round_f64 (num_rat p)))"

section \<open>Shortest formatting\<close>

text \<open>The exponent of the leading decimal digit, found by search from the binary one.\<close>

definition ilog10 :: "rat \<Rightarrow> int" where
  "ilog10 x =
     (let est = ilog2 x * 30103 div 100000
      in case find (\<lambda>k. pow10 k \<le> x \<and> x < pow10 (k + 1)) [est - 1, est, est + 1, est + 2] of
           Some k \<Rightarrow> k | None \<Rightarrow> est)"

text \<open>
  The decimal of \<open>n\<close> digits nearest to \<open>x\<close> among the two neighbours that read back as \<open>x\<close>, as
  digits and the exponent of the first one.
\<close>

definition try_digits :: "rat \<Rightarrow> nat \<Rightarrow> (int \<times> int) option" where
  "try_digits x n =
     (let e = ilog10 x - int n + 1;
          lo = \<lfloor>x / pow10 e\<rfloor>;
          near = round_half_even (x / pow10 e);
          far = (if near = lo then lo + 1 else lo);
          ok = (\<lambda>m. round_f64 (of_int m * pow10 e) = Some x)
      in if ok near then Some (near, e) else if ok far then Some (far, e) else None)"

fun first_some :: "('a \<Rightarrow> 'b option) \<Rightarrow> 'a list \<Rightarrow> 'b option" where
  "first_some f [] = None"
| "first_some f (x # xs) = (case f x of None \<Rightarrow> first_some f xs | Some y \<Rightarrow> Some y)"

definition digit_char :: "nat \<Rightarrow> char" where
  "digit_char n = char_of (48 + n)"

fun show_nat :: "nat \<Rightarrow> string" where
  "show_nat n = (if n < 10 then [digit_char n] else show_nat (n div 10) @ [digit_char (n mod 10)])"

declare show_nat.simps [simp del]

definition show_int :: "int \<Rightarrow> string" where
  "show_int n = (if n < 0 then CHR ''-'' # show_nat (nat (- n)) else show_nat (nat n))"

definition strip_zeros :: "string \<Rightarrow> string" where
  "strip_zeros s = rev (dropWhile (\<lambda>c. c = CHR ''0'') (rev s))"

text \<open>
  \<open>%e\<close> form when the decimal exponent is below -4 or at least 6 (the precision Go decides
  with when the digits are the shortest ones), and \<open>%f\<close> form otherwise.
\<close>

definition fmt_exp :: "int \<Rightarrow> string" where
  "fmt_exp x = (if x < 0 then ''-'' else ''+'')
     @ (if \<bar>x\<bar> < 10 then ''0'' else []) @ show_nat (nat \<bar>x\<bar>)"

definition format_float :: "f64 \<Rightarrow> string" where
  "format_float f =
     (let x = snd f; sign = (if fst f then ''-'' else [])
      in if x = 0 then sign @ ''0''
         else case first_some (try_digits x) [1..<18] of
            None \<Rightarrow> sign @ ''0''
          | Some (m, e) \<Rightarrow>
              let ds = strip_zeros (show_nat (nat m));
                  nd = int (length ds);
                  dp = e + int (length (show_nat (nat m)));
                  ex = dp - 1
              in if ex < -4 \<or> 6 \<le> ex
                 then sign @ take 1 ds @ (if 1 < nd then CHR ''.'' # drop 1 ds else [])
                        @ ''e'' @ fmt_exp ex
                 else if dp \<le> 0
                 then sign @ ''0.'' @ replicate (nat (- dp)) (CHR ''0'') @ ds
                 else if nd \<le> dp
                 then sign @ ds @ replicate (nat (dp - nd)) (CHR ''0'')
                 else sign @ take (nat dp) ds @ CHR ''.'' # drop (nat dp) ds)"

section \<open>A formatted number starts with a sign or a digit\<close>

definition num_start :: "string \<Rightarrow> bool" where
  "num_start s = (s \<noteq> [] \<and> (hd s = CHR ''-'' \<or> is_digit (hd s)))"

lemma digit_char_digit [simp]: "n < 10 \<Longrightarrow> is_digit (digit_char n)"
  by (simp add: is_digit_def digit_char_def)

lemma show_nat_digits: "s = show_nat n \<Longrightarrow> s \<noteq> [] \<and> list_all is_digit s"
proof (induction n arbitrary: s rule: show_nat.induct)
  case (1 n)
  then show ?case
    by (cases "n < 10") (simp_all add: show_nat.simps[of n])
qed

lemma num_start_neg: "num_start (CHR ''-'' # s)"
  by (simp add: num_start_def)

lemma num_start_digits: "list_all is_digit ds \<Longrightarrow> ds \<noteq> [] \<Longrightarrow> num_start (ds @ s)"
  by (cases ds) (auto simp: num_start_def)

end
