(* ===== verification/Hpke_Seal.thy ===== *)
theory Hpke_Seal
  imports E2EE_Prelude
begin

text \<open>
  protocol/crypto/seal.go: the wrapper over the HPKE library (github.com/cloudflare/circl, which
  is not part of the repository). The library is a parameter, the record \<open>hpke\<close>: key parsing,
  context set-up in base mode and in mode_psk, and the two stateful operations of a context. The
  fresh randomness of a sender set-up is an explicit argument.

  What the protocol relies on is stated as named hypotheses at the end: set-up and opening invert
  each other, an opener accepts only what the sealer at its position emits, and a ciphertext
  determines what was sealed.
\<close>

section \<open>The library\<close>

datatype hpke_fail = NewFailed | SetupFailed

record ('pk, 'sk, 'ctx) hpke =
  lib_pub :: "bytes \<Rightarrow> 'pk option"
  lib_priv :: "bytes \<Rightarrow> 'sk option"
  lib_keygen :: "bytes \<Rightarrow> ('pk \<times> 'sk) option"
  lib_pub_bytes :: "'pk \<Rightarrow> bytes option"
  lib_priv_bytes :: "'sk \<Rightarrow> bytes option"
  lib_send :: "'pk \<Rightarrow> bytes \<Rightarrow> bytes \<Rightarrow> hpke_fail + bytes \<times> 'ctx"
  lib_recv :: "'sk \<Rightarrow> bytes \<Rightarrow> bytes \<Rightarrow> hpke_fail + 'ctx"
  lib_send_psk :: "'pk \<Rightarrow> bytes \<Rightarrow> bytes \<Rightarrow> bytes \<Rightarrow> bytes \<Rightarrow> hpke_fail + bytes \<times> 'ctx"
  lib_recv_psk :: "'sk \<Rightarrow> bytes \<Rightarrow> bytes \<Rightarrow> bytes \<Rightarrow> bytes \<Rightarrow> hpke_fail + 'ctx"
  lib_seal :: "'ctx \<Rightarrow> bytes \<Rightarrow> bytes \<Rightarrow> (bytes \<times> 'ctx) option"
  lib_open :: "'ctx \<Rightarrow> bytes \<Rightarrow> bytes \<Rightarrow> (bytes \<times> 'ctx) option"

section \<open>The wrapper\<close>

datatype hpke_err =
    GenerateKeypair | MarshalPublicKey | MarshalPrivateKey
  | BadRecipientPublicKey | BadRecipientPrivateKey
  | ContextSetup hpke_fail
  | SealFailed | OpenFailed
  | PskTooShort nat | PskIdEmpty

record Sealed =
  Enc :: bytes
  Ciphertext :: bytes

definition GenerateRecipientKey ::
    "('pk, 'sk, 'ctx) hpke \<Rightarrow> bytes \<Rightarrow> hpke_err + bytes \<times> bytes" where
  "GenerateRecipientKey H rnd =
     bind_r (opt_r (lib_keygen H rnd) GenerateKeypair) (\<lambda>(pk, sk).
     bind_r (opt_r (lib_pub_bytes H pk) MarshalPublicKey) (\<lambda>pub.
     bind_r (opt_r (lib_priv_bytes H sk) MarshalPrivateKey) (\<lambda>priv.
     Inr (priv, pub))))"

definition SealerSeal ::
    "('pk, 'sk, 'ctx) hpke \<Rightarrow> 'ctx \<Rightarrow> bytes \<Rightarrow> bytes \<Rightarrow> hpke_err + bytes \<times> 'ctx" where
  "SealerSeal H s plaintext aad = opt_r (lib_seal H s plaintext aad) SealFailed"

definition OpenerOpen ::
    "('pk, 'sk, 'ctx) hpke \<Rightarrow> 'ctx \<Rightarrow> bytes \<Rightarrow> bytes \<Rightarrow> hpke_err + bytes \<times> 'ctx" where
  "OpenerOpen H o1 ciphertext aad = opt_r (lib_open H o1 ciphertext aad) OpenFailed"

definition wrap_setup :: "hpke_fail + 'a \<Rightarrow> hpke_err + 'a" where
  "wrap_setup r = (case r of Inl f \<Rightarrow> Inl (ContextSetup f) | Inr x \<Rightarrow> Inr x)"

definition SetupSender ::
    "('pk, 'sk, 'ctx) hpke \<Rightarrow> bytes \<Rightarrow> bytes \<Rightarrow> bytes \<Rightarrow> hpke_err + bytes \<times> 'ctx" where
  "SetupSender H pub info rnd =
     bind_r (opt_r (lib_pub H pub) BadRecipientPublicKey) (\<lambda>pk.
     wrap_setup (lib_send H pk info rnd))"

definition SetupReceiver ::
    "('pk, 'sk, 'ctx) hpke \<Rightarrow> bytes \<Rightarrow> bytes \<Rightarrow> bytes \<Rightarrow> hpke_err + 'ctx" where
  "SetupReceiver H priv enc info =
     bind_r (opt_r (lib_priv H priv) BadRecipientPrivateKey) (\<lambda>sk.
     wrap_setup (lib_recv H sk info enc))"

definition minPSKLen :: nat where
  "minPSKLen = 32"

definition checkPSKInputs :: "bytes \<Rightarrow> bytes \<Rightarrow> hpke_err + unit" where
  "checkPSKInputs psk pskID =
     bind_r (fail_if (length psk < minPSKLen) (PskTooShort (length psk))) (\<lambda>_.
     fail_if (pskID = []) PskIdEmpty)"

definition SetupSenderPSK ::
    "('pk, 'sk, 'ctx) hpke \<Rightarrow> bytes \<Rightarrow> bytes \<Rightarrow> bytes \<Rightarrow> bytes \<Rightarrow> bytes \<Rightarrow> hpke_err + bytes \<times> 'ctx" where
  "SetupSenderPSK H pub info psk pskID rnd =
     bind_r (checkPSKInputs psk pskID) (\<lambda>_.
     bind_r (opt_r (lib_pub H pub) BadRecipientPublicKey) (\<lambda>pk.
     wrap_setup (lib_send_psk H pk info rnd psk pskID)))"

definition SetupReceiverPSK ::
    "('pk, 'sk, 'ctx) hpke \<Rightarrow> bytes \<Rightarrow> bytes \<Rightarrow> bytes \<Rightarrow> bytes \<Rightarrow> bytes \<Rightarrow> hpke_err + 'ctx" where
  "SetupReceiverPSK H priv enc info psk pskID =
     bind_r (checkPSKInputs psk pskID) (\<lambda>_.
     bind_r (opt_r (lib_priv H priv) BadRecipientPrivateKey) (\<lambda>sk.
     wrap_setup (lib_recv_psk H sk info enc psk pskID)))"

definition SealOnce ::
    "('pk, 'sk, 'ctx) hpke \<Rightarrow> bytes \<Rightarrow> bytes \<Rightarrow> bytes \<Rightarrow> bytes \<Rightarrow> bytes \<Rightarrow> hpke_err + Sealed" where
  "SealOnce H pub plaintext aad info rnd =
     bind_r (SetupSender H pub info rnd) (\<lambda>(enc, s).
     bind_r (SealerSeal H s plaintext aad) (\<lambda>(ct, _).
     Inr \<lparr>Enc = enc, Ciphertext = ct\<rparr>))"

definition OpenOnce ::
    "('pk, 'sk, 'ctx) hpke \<Rightarrow> bytes \<Rightarrow> Sealed \<Rightarrow> bytes \<Rightarrow> bytes \<Rightarrow> hpke_err + bytes" where
  "OpenOnce H priv s aad info =
     bind_r (SetupReceiver H priv (Enc s) info) (\<lambda>o1.
     bind_r (OpenerOpen H o1 (Ciphertext s) aad) (\<lambda>(pt, _).
     Inr pt))"

section \<open>What the protocol relies on\<close>

text \<open>\<open>R cs cr\<close>: the sealer \<open>cs\<close> and the opener \<open>cr\<close> are at the same position of one channel.\<close>

definition pairs_base ::
    "('pk, 'sk, 'ctx) hpke \<Rightarrow> ('ctx \<Rightarrow> 'ctx \<Rightarrow> bool) \<Rightarrow> bytes \<Rightarrow> bytes \<Rightarrow> bool" where
  "pairs_base H R pub priv \<longleftrightarrow>
     (\<forall>info rnd enc cs. SetupSender H pub info rnd = Inr (enc, cs) \<longrightarrow>
        (\<exists>cr. SetupReceiver H priv enc info = Inr cr \<and> R cs cr))"

definition pairs_psk ::
    "('pk, 'sk, 'ctx) hpke \<Rightarrow> ('ctx \<Rightarrow> 'ctx \<Rightarrow> bool) \<Rightarrow> bytes \<Rightarrow> bytes \<Rightarrow> bool" where
  "pairs_psk H R pub priv \<longleftrightarrow>
     (\<forall>info psk pskID rnd enc cs. SetupSenderPSK H pub info psk pskID rnd = Inr (enc, cs) \<longrightarrow>
        (\<exists>cr. SetupReceiverPSK H priv enc info psk pskID = Inr cr \<and> R cs cr))"

definition opens_sealed ::
    "('pk, 'sk, 'ctx) hpke \<Rightarrow> ('ctx \<Rightarrow> 'ctx \<Rightarrow> bool) \<Rightarrow> bool" where
  "opens_sealed H R \<longleftrightarrow>
     (\<forall>cs cr pt aad ct cs'. R cs cr \<longrightarrow> SealerSeal H cs pt aad = Inr (ct, cs') \<longrightarrow>
        (\<exists>cr'. OpenerOpen H cr ct aad = Inr (pt, cr') \<and> R cs' cr'))"

text \<open>
  The AEAD is deterministic in its position: what opens is exactly what the sealer at that
  position would have emitted, and one ciphertext is not the sealing of two different inputs.
\<close>

definition opens_only_sealed ::
    "('pk, 'sk, 'ctx) hpke \<Rightarrow> ('ctx \<Rightarrow> 'ctx \<Rightarrow> bool) \<Rightarrow> bool" where
  "opens_only_sealed H R \<longleftrightarrow>
     (\<forall>cs cr pt aad ct cr'. R cs cr \<longrightarrow> OpenerOpen H cr ct aad = Inr (pt, cr') \<longrightarrow>
        (\<exists>cs'. SealerSeal H cs pt aad = Inr (ct, cs') \<and> R cs' cr'))"

definition seal_commits :: "('pk, 'sk, 'ctx) hpke \<Rightarrow> bool" where
  "seal_commits H \<longleftrightarrow>
     (\<forall>cs pt aad pt' aad' ct cs' cs''.
        SealerSeal H cs pt aad = Inr (ct, cs') \<longrightarrow> SealerSeal H cs pt' aad' = Inr (ct, cs'') \<longrightarrow>
        pt' = pt \<and> aad' = aad)"

text \<open>
  What an opener accepts was emitted by some sealer at its position, a ciphertext determines the
  context position it was sealed at, positions advance with every message, and a receiver context
  in mode_psk is only ever paired with a sender context set up with the same psk.
\<close>

definition opens_some_sealed ::
    "('pk, 'sk, 'ctx) hpke \<Rightarrow> ('ctx \<Rightarrow> 'ctx \<Rightarrow> bool) \<Rightarrow> bool" where
  "opens_some_sealed H R \<longleftrightarrow>
     (\<forall>cr pt aad ct cr'. OpenerOpen H cr ct aad = Inr (pt, cr') \<longrightarrow>
        (\<exists>cs cs'. R cs cr \<and> SealerSeal H cs pt aad = Inr (ct, cs') \<and> R cs' cr'))"

definition seal_binds :: "('pk, 'sk, 'ctx) hpke \<Rightarrow> bool" where
  "seal_binds H \<longleftrightarrow>
     (\<forall>c1 c2 pt1 pt2 aad1 aad2 ct c1' c2'.
        SealerSeal H c1 pt1 aad1 = Inr (ct, c1') \<longrightarrow> SealerSeal H c2 pt2 aad2 = Inr (ct, c2') \<longrightarrow>
        c1 = c2 \<and> pt1 = pt2 \<and> aad1 = aad2)"

definition seal_counts :: "('pk, 'sk, 'ctx) hpke \<Rightarrow> ('ctx \<Rightarrow> nat) \<Rightarrow> bool" where
  "seal_counts H seq \<longleftrightarrow>
     (\<forall>c pt aad ct c'. SealerSeal H c pt aad = Inr (ct, c') \<longrightarrow> seq c' = Suc (seq c))"

definition psk_separates ::
    "('pk, 'sk, 'ctx) hpke \<Rightarrow> ('ctx \<Rightarrow> 'ctx \<Rightarrow> bool) \<Rightarrow> bool" where
  "psk_separates H R \<longleftrightarrow>
     (\<forall>priv enc info psk pid cr cs. SetupReceiverPSK H priv enc info psk pid = Inr cr \<longrightarrow> R cs cr \<longrightarrow>
        (\<forall>pub info' rnd enc'. SetupSender H pub info' rnd \<noteq> Inr (enc', cs))
        \<and> (\<forall>pub info' psk' pid' rnd enc'.
              SetupSenderPSK H pub info' psk' pid' rnd = Inr (enc', cs) \<longrightarrow> psk' = psk))"

lemma psk_separates_base:
  "psk_separates H R \<Longrightarrow> SetupReceiverPSK H priv enc info psk pid = Inr cr \<Longrightarrow> R cs cr \<Longrightarrow>
   SetupSender H pub info' rnd \<noteq> Inr (enc', cs)"
  unfolding psk_separates_def by blast

lemma psk_separates_psk:
  "psk_separates H R \<Longrightarrow> SetupReceiverPSK H priv enc info psk pid = Inr cr \<Longrightarrow> R cs cr \<Longrightarrow>
   SetupSenderPSK H pub info' psk' pid' rnd = Inr (enc', cs) \<Longrightarrow> psk' = psk"
  unfolding psk_separates_def by blast

lemma seal_countsD:
  "seal_counts H seq \<Longrightarrow> SealerSeal H c pt aad = Inr (ct, c') \<Longrightarrow> seq c' = Suc (seq c)"
  unfolding seal_counts_def by blast

lemma opens_only_sealedD:
  "opens_only_sealed H R \<Longrightarrow> R cs cr \<Longrightarrow> OpenerOpen H cr ct aad = Inr (pt, cr') \<Longrightarrow>
   \<exists>cs'. SealerSeal H cs pt aad = Inr (ct, cs') \<and> R cs' cr'"
  unfolding opens_only_sealed_def by blast

lemma opens_some_sealedD:
  "opens_some_sealed H R \<Longrightarrow> OpenerOpen H cr ct aad = Inr (pt, cr') \<Longrightarrow>
   \<exists>cs cs'. R cs cr \<and> SealerSeal H cs pt aad = Inr (ct, cs') \<and> R cs' cr'"
  unfolding opens_some_sealed_def by blast

lemma seal_bindsD:
  "seal_binds H \<Longrightarrow> SealerSeal H c1 pt1 aad1 = Inr (ct, c1') \<Longrightarrow>
   SealerSeal H c2 pt2 aad2 = Inr (ct, c2') \<Longrightarrow> c1 = c2 \<and> pt1 = pt2 \<and> aad1 = aad2"
  unfolding seal_binds_def by blast

lemma pairs_baseD:
  "pairs_base H R pub priv \<Longrightarrow> SetupSender H pub info rnd = Inr (enc, cs) \<Longrightarrow>
   \<exists>cr. SetupReceiver H priv enc info = Inr cr \<and> R cs cr"
  by (simp add: pairs_base_def)

lemma pairs_pskD:
  "pairs_psk H R pub priv \<Longrightarrow> SetupSenderPSK H pub info psk pskID rnd = Inr (enc, cs) \<Longrightarrow>
   \<exists>cr. SetupReceiverPSK H priv enc info psk pskID = Inr cr \<and> R cs cr"
  by (simp add: pairs_psk_def)

lemma opens_sealedD:
  "opens_sealed H R \<Longrightarrow> R cs cr \<Longrightarrow> SealerSeal H cs pt aad = Inr (ct, cs') \<Longrightarrow>
   \<exists>cr'. OpenerOpen H cr ct aad = Inr (pt, cr') \<and> R cs' cr'"
  by (simp add: opens_sealed_def)

text \<open>Any change to the associated data of a sealed message is refused.\<close>

lemma open_binds_aad:
  assumes "opens_only_sealed H R" "seal_commits H" "R cs cr"
    and "SealerSeal H cs pt aad = Inr (ct, cs')"
    and "OpenerOpen H cr ct aad' = Inr (pt', cr')"
  shows "pt' = pt \<and> aad' = aad"
proof -
  obtain cs'' where "SealerSeal H cs pt' aad' = Inr (ct, cs'')"
    using assms(1,3,5) by (force simp: opens_only_sealed_def)
  with assms(2,4) show ?thesis by (simp add: seal_commits_def) blast
qed

lemma checkPSKInputs_ok:
  "checkPSKInputs psk pskID = Inr () \<longleftrightarrow> 32 \<le> length psk \<and> pskID \<noteq> []"
  by (auto simp: checkPSKInputs_def result_inv minPSKLen_def)

text \<open>The one-shot forms invert each other.\<close>

lemma OpenOnce_SealOnce:
  assumes "pairs_base H R pub priv" "opens_sealed H R"
    and "SealOnce H pub pt aad info rnd = Inr s"
  shows "OpenOnce H priv s aad info = Inr pt"
proof -
  obtain enc cs ct cs' where
    *: "SetupSender H pub info rnd = Inr (enc, cs)" "SealerSeal H cs pt aad = Inr (ct, cs')"
       "s = \<lparr>Enc = enc, Ciphertext = ct\<rparr>"
    using assms(3) by (auto simp: SealOnce_def result_inv)
  then obtain cr where cr: "SetupReceiver H priv enc info = Inr cr" "R cs cr"
    using pairs_baseD[OF assms(1)] by blast
  then obtain cr' where "OpenerOpen H cr ct aad = Inr (pt, cr')"
    using opens_sealedD[OF assms(2)] *(2) by blast
  with cr * show ?thesis by (simp add: OpenOnce_def)
qed

end
