(* ===== verification/Wire_Profile.thy ===== *)
theory Wire_Profile
  imports Go_Json Go_Float Hpke_Seal
begin

text \<open>
  protocol/wire/envelope.go, the declarative half: the constants, the profiles and what each of
  them declares (payload, pins, response payload, frame taxonomy, billable quantities, protected
  and bound response fields), and the resolution of a profile name to its declaration.
  A Go \<open>map[string]json.RawMessage\<close> is a \<open>json gomap\<close>.
\<close>

section \<open>Errors\<close>

text \<open>
  The errors of protocol/wire, one constructor per error site, grouped by what is being checked.
  A constructor carries the values the message of the source interpolates and the callers need.
\<close>

text \<open>A field set, a pin or a sealing parameter is not acceptable for the profile.\<close>

datatype set_err =
    UnknownProfile string | NoSealedFields | EmptyName | ReservedName | DuplicateField string
  | MissingPayload string | PinSealed string | PinUnbound string | PinAbsent string
  | PinComposite string | PinValue string string | CleartextPayload string
  | BothSealedAndUnbound string | BadSignerAddr string | BadEphPubLen nat

text \<open>An envelope cannot be built or read.\<close>

datatype env_err =
    FieldAbsent string | HasE2EE | NoE2EE | DecodeE2EE | UnboundNotStrings | CanonicalFailed
  | BadVersion int | BadKem string | BadEnc | BadCiphertext | PlaintextNotObject | KeysMismatch
  | PlaintextE2EE | Collision string | NoCiphertext

text \<open>A response frame breaks a rule of its profile.\<close>

datatype frame_err =
    NoDiscriminator string | DiscriminatorNotString string | UnknownShape string
  | MustStayBound string | MustStayCleartext string | NotAnObject string | NotAnArray string
  | CleartextElements string string nat | FramesAreTyped | SealsNothing string
  | FrameMustSeal string | CleartextContent string | LineBreak string

text \<open>A billable quantity is missing, unreadable or stated twice.\<close>

datatype quantity_err =
    NullBlock string | NotWhole string | NotNumber string | NullNumber string
  | NegativeNumber string | QuantityMissing string | QuantityDisagrees string

text \<open>The response binding is missing or malformed.\<close>

datatype bind_err =
    NeedsBind | NotFinal | BindReserved | BadEphPrivLen nat | NoBind | BindNotString
  | BindEncoding | BadBindLen nat | MissingEnc

text \<open>An asynchronous job id or result frame is malformed.\<close>

datatype async_err =
    ResultHasBind | NotCompleted string | UnboundOutside string | OtherJob | NoKeySegment
  | JobIDEmpty | JobIDTooLong | JobIDChars | KeyEncoding | BadKeyLen nat
  | NoSuchField string | FieldNotString string | FieldEmpty string

datatype werr =
    SetErr set_err | EnvErr env_err | FrameErr frame_err | QuantityErr quantity_err
  | BindErr bind_err | AsyncErr async_err | CryptoErr hpke_err

text \<open>Errors of the crypto wrapper are passed on.\<close>

definition crypto_r :: "hpke_err + 'a \<Rightarrow> werr + 'a" where
  "crypto_r r = (case r of Inl e \<Rightarrow> Inl (CryptoErr e) | Inr x \<Rightarrow> Inr x)"

lemma crypto_r_simps [simp]: "crypto_r (Inr x) = Inr x" "crypto_r (Inl e) = Inl (CryptoErr e)"
  by (simp_all add: crypto_r_def)

lemma crypto_r_eq_Inr: "crypto_r r = Inr x \<longleftrightarrow> r = Inr x"
  by (cases r) simp_all

section \<open>Messages\<close>

type_synonym Request = "json gomap"
type_synonym Response = "json gomap"
type_synonym Profile = string

section \<open>Constants\<close>

definition Version :: int where [simp]: "Version = 1"
definition KEMID :: string where [simp]: "KEMID = ''0x0020''"
definition SealInfo :: string where [simp]: "SealInfo = ''0g-pc/v1/seal''"
definition e2eeKey :: string where [simp]: "e2eeKey = ''_e2ee''"
definition fieldMessages :: string where [simp]: "fieldMessages = ''messages''"
definition fieldPrompt :: string where [simp]: "fieldPrompt = ''prompt''"
definition fieldInput :: string where [simp]: "fieldInput = ''input''"
definition fieldTools :: string where [simp]: "fieldTools = ''tools''"
definition fieldToolChoice :: string where [simp]: "fieldToolChoice = ''tool_choice''"
definition fieldSystem :: string where [simp]: "fieldSystem = ''system''"
definition fieldResponseFormat :: string where [simp]: "fieldResponseFormat = ''response_format''"
definition fieldChoices :: string where [simp]: "fieldChoices = ''choices''"
definition fieldData :: string where [simp]: "fieldData = ''data''"
definition fieldContent :: string where [simp]: "fieldContent = ''content''"
definition fieldContentBlock :: string where [simp]: "fieldContentBlock = ''content_block''"
definition fieldDelta :: string where [simp]: "fieldDelta = ''delta''"
definition fieldErr :: string where [simp]: "fieldErr = ''error''"
definition fieldType :: string where [simp]: "fieldType = ''type''"
definition fieldMessage :: string where [simp]: "fieldMessage = ''message''"
definition fieldStopSequence :: string where [simp]: "fieldStopSequence = ''stop_sequence''"
definition fieldUsage :: string where [simp]: "fieldUsage = ''usage''"
definition fieldOutputImages :: string where [simp]: "fieldOutputImages = ''output_images''"
definition fieldPromptTokens :: string where [simp]: "fieldPromptTokens = ''prompt_tokens''"
definition fieldFileBase64 :: string where [simp]: "fieldFileBase64 = ''file_base64''"
definition fieldFilename :: string where [simp]: "fieldFilename = ''filename''"
definition fieldLanguage :: string where [simp]: "fieldLanguage = ''language''"
definition fieldStream :: string where [simp]: "fieldStream = ''stream''"
definition fieldText :: string where [simp]: "fieldText = ''text''"
definition fieldSegments :: string where [simp]: "fieldSegments = ''segments''"
definition fieldWords :: string where [simp]: "fieldWords = ''words''"
definition fieldSeconds :: string where [simp]: "fieldSeconds = ''seconds''"
definition fieldDuration :: string where [simp]: "fieldDuration = ''duration''"
definition clientEphPubLen :: nat where [simp]: "clientEphPubLen = 32"
definition fieldBind :: string where [simp]: "fieldBind = ''_bind''"
definition fieldJobID :: string where [simp]: "fieldJobID = ''jobId''"
definition fieldStatus :: string where [simp]: "fieldStatus = ''status''"

definition ProfileChat :: Profile where [simp]: "ProfileChat = ''chat''"
definition ProfileImage :: Profile where [simp]: "ProfileImage = ''image''"
definition ProfileAnthropic :: Profile where [simp]: "ProfileAnthropic = ''anthropic''"
definition ProfileSpeech :: Profile where [simp]: "ProfileSpeech = ''speech''"
definition ProfileEmbedding :: Profile where [simp]: "ProfileEmbedding = ''embedding''"
definition ProfileAsyncImage :: Profile where [simp]: "ProfileAsyncImage = ''async-image''"

section \<open>What a profile declares\<close>

record payloadField =
  pf_name :: string
  pf_optional :: bool

record pinnedField =
  pin_field :: string
  pin_permitted :: "string list"
  pin_optional :: bool

record protectedCleartext =
  prot_field :: string
  prot_emptyArrays :: "string list"

record cleartextNumber =
  cn_field :: string
  cn_key :: string

datatype numberKind = numberWhole | numberFractional

record cleartextQuantity =
  cq_locators :: "cleartextNumber list"
  cq_kind :: numberKind
  cq_what :: string

record frameShape =
  fs_content :: string
  fs_terminal :: bool
  fs_sealIfPresent :: "string list"

record responseFrameRule =
  rf_discriminator :: string
  rf_shapes :: "(string \<times> frameShape) list"

record profileSpec =
  ps_payload :: "payloadField list"
  ps_responsePayload :: "payloadField list"
  ps_responseFrames :: "responseFrameRule option"
  ps_pinned :: "pinnedField list"
  ps_requiredResponseCleartext :: "cleartextQuantity list"
  ps_protected :: "protectedCleartext list"
  ps_bound :: "string list"

definition requiresBind :: "profileSpec \<Rightarrow> bool" where
  "requiresBind s = list_ex (\<lambda>f. pf_name f = fieldBind \<and> \<not> pf_optional f) (ps_payload s)"

definition cleartextNumber_String :: "cleartextNumber \<Rightarrow> string" where
  "cleartextNumber_String c = (if cn_key c = [] then cn_field c else cn_field c @ ''.'' @ cn_key c)"

fun join_or :: "string list \<Rightarrow> string" where
  "join_or [] = []"
| "join_or [s] = s"
| "join_or (s # ss) = s @ '' or '' @ join_or ss"

definition cleartextQuantity_String :: "cleartextQuantity \<Rightarrow> string" where
  "cleartextQuantity_String q = join_or (map cleartextNumber_String (cq_locators q))"

section \<open>The Anthropic frame taxonomy\<close>

abbreviation shape0 :: frameShape where
  "shape0 \<equiv> \<lparr>fs_content = [], fs_terminal = False, fs_sealIfPresent = []\<rparr>"

definition anthropicFrames :: responseFrameRule where
  "anthropicFrames = \<lparr>
     rf_discriminator = fieldType,
     rf_shapes =
      [(''message'', shape0\<lparr>fs_content := fieldContent, fs_sealIfPresent := [fieldStopSequence]\<rparr>),
       (''message_start'', shape0),
       (''content_block_start'', shape0\<lparr>fs_content := fieldContentBlock\<rparr>),
       (''content_block_delta'', shape0\<lparr>fs_content := fieldDelta\<rparr>),
       (''content_block_stop'', shape0),
       (''message_delta'', shape0\<lparr>fs_content := fieldDelta\<rparr>),
       (''message_stop'', shape0\<lparr>fs_terminal := True\<rparr>),
       (''ping'', shape0),
       (''error'', shape0\<lparr>fs_content := fieldErr, fs_terminal := True\<rparr>)]\<rparr>"

definition add_field :: "string \<Rightarrow> string list \<Rightarrow> string list" where
  "add_field f acc = (if f \<noteq> [] \<and> f \<notin> set acc then acc @ [f] else acc)"

definition contentFields :: "responseFrameRule \<Rightarrow> string list" where
  "contentFields r =
     sort (fold (\<lambda>(_, s) acc. fold add_field (fs_sealIfPresent s) (add_field (fs_content s) acc))
             (rf_shapes r) [])"

definition sealedFieldsFor :: "frameShape \<Rightarrow> Response \<Rightarrow> string list" where
  "sealedFieldsFor s frame =
     (if fs_content s \<noteq> [] then [fs_content s] else [])
       @ filter (\<lambda>f. mhas frame f) (fs_sealIfPresent s)"

section \<open>The profiles\<close>

abbreviation required :: "string \<Rightarrow> payloadField" where
  "required f \<equiv> \<lparr>pf_name = f, pf_optional = False\<rparr>"

abbreviation optional :: "string \<Rightarrow> payloadField" where
  "optional f \<equiv> \<lparr>pf_name = f, pf_optional = True\<rparr>"

abbreviation pin_required :: "string \<Rightarrow> string list \<Rightarrow> pinnedField" where
  "pin_required f vs \<equiv> \<lparr>pin_field = f, pin_permitted = vs, pin_optional = False\<rparr>"

abbreviation spec0 :: profileSpec where
  "spec0 \<equiv> \<lparr>ps_payload = [], ps_responsePayload = [], ps_responseFrames = None, ps_pinned = [],
     ps_requiredResponseCleartext = [], ps_protected = [], ps_bound = []\<rparr>"

definition spec_async_image :: profileSpec where
  "spec_async_image = spec0\<lparr>
     ps_payload := [required fieldPrompt, required fieldBind],
     ps_responsePayload := [required fieldData],
     ps_pinned := [pin_required fieldResponseFormat [''b64_json'']],
     ps_requiredResponseCleartext := [\<lparr>
       cq_locators = [\<lparr>cn_field = fieldUsage, cn_key = fieldOutputImages\<rparr>],
       cq_kind = numberWhole,
       cq_what = ''the count of images actually delivered''\<rparr>],
     ps_bound := [fieldJobID, fieldStatus]\<rparr>"

definition spec_chat :: profileSpec where
  "spec_chat = spec0\<lparr>
     ps_payload := [required fieldMessages, optional fieldTools, optional fieldToolChoice],
     ps_responsePayload := [required fieldChoices]\<rparr>"

definition spec_image :: profileSpec where
  "spec_image = spec0\<lparr>
     ps_payload := [required fieldPrompt],
     ps_responsePayload := [required fieldData],
     ps_pinned := [pin_required fieldResponseFormat [''b64_json'']],
     ps_requiredResponseCleartext := [\<lparr>
       cq_locators = [\<lparr>cn_field = fieldUsage, cn_key = fieldOutputImages\<rparr>],
       cq_kind = numberWhole,
       cq_what = ''the count of images actually delivered''\<rparr>]\<rparr>"

definition spec_anthropic :: profileSpec where
  "spec_anthropic = spec0\<lparr>
     ps_payload := [required fieldMessages, optional fieldSystem, optional fieldTools,
                    optional fieldToolChoice],
     ps_responseFrames := Some anthropicFrames,
     ps_protected := [\<lparr>prot_field = fieldMessage, prot_emptyArrays = [fieldContent]\<rparr>]\<rparr>"

definition spec_speech :: profileSpec where
  "spec_speech = spec0\<lparr>
     ps_payload := [required fieldFileBase64, optional fieldFilename, optional fieldLanguage,
                    optional fieldPrompt],
     ps_responsePayload := [required fieldText, optional fieldSegments, optional fieldWords,
                            optional fieldLanguage],
     ps_pinned := [pin_required fieldResponseFormat [''json'', ''verbose_json''],
                   \<lparr>pin_field = fieldStream, pin_permitted = [''false''], pin_optional = True\<rparr>],
     ps_requiredResponseCleartext := [\<lparr>
       cq_locators = [\<lparr>cn_field = fieldUsage, cn_key = fieldSeconds\<rparr>,
                      \<lparr>cn_field = fieldDuration, cn_key = []\<rparr>],
       cq_kind = numberFractional,
       cq_what = ''the billable duration of the audio actually processed, in seconds''\<rparr>]\<rparr>"

definition spec_embedding :: profileSpec where
  "spec_embedding = spec0\<lparr>
     ps_payload := [required fieldInput],
     ps_responsePayload := [required fieldData],
     ps_requiredResponseCleartext := [\<lparr>
       cq_locators = [\<lparr>cn_field = fieldUsage, cn_key = fieldPromptTokens\<rparr>],
       cq_kind = numberWhole,
       cq_what = ''the billable count of input tokens actually embedded''\<rparr>]\<rparr>"

definition profiles :: "(Profile \<times> profileSpec) list" where
  "profiles =
     [(ProfileAsyncImage, spec_async_image), (ProfileChat, spec_chat), (ProfileImage, spec_image),
      (ProfileAnthropic, spec_anthropic), (ProfileSpeech, spec_speech),
      (ProfileEmbedding, spec_embedding)]"

definition profile_spec :: "Profile \<Rightarrow> werr + profileSpec" where
  "profile_spec p = opt_r (map_of profiles p) (SetErr (UnknownProfile p))"

definition Profiles :: "Profile list" where
  "Profiles = sort (map fst profiles)"

definition defaultRequestSealed :: "profileSpec \<Rightarrow> string list" where
  "defaultRequestSealed s = map pf_name (ps_payload s)"

definition DefaultSealedFieldsFor :: "Profile \<Rightarrow> string list" where
  "DefaultSealedFieldsFor p =
     (case profile_spec p of Inl _ \<Rightarrow> [] | Inr s \<Rightarrow> defaultRequestSealed s)"

definition DefaultSealedFields :: "string list" where
  "DefaultSealedFields = DefaultSealedFieldsFor ProfileChat"

definition DefaultUnboundFields :: "string list" where
  "DefaultUnboundFields = [''model'']"

definition pinFor :: "profileSpec \<Rightarrow> string \<Rightarrow> pinnedField option" where
  "pinFor s field = List.find (\<lambda>p. pin_field p = field) (ps_pinned s)"

lemmas spec_defs = spec_async_image_def spec_chat_def spec_image_def spec_anthropic_def
  spec_speech_def spec_embedding_def

section \<open>Facts about the table\<close>

text \<open>A profile resolves exactly when it is one of the six, to its own declaration.\<close>

lemma profile_spec_cases:
  assumes "profile_spec p = Inr s"
  obtains "p = ProfileAsyncImage" "s = spec_async_image" | "p = ProfileChat" "s = spec_chat"
    | "p = ProfileImage" "s = spec_image" | "p = ProfileAnthropic" "s = spec_anthropic"
    | "p = ProfileSpeech" "s = spec_speech" | "p = ProfileEmbedding" "s = spec_embedding"
  using assms by (auto simp: profile_spec_def profiles_def opt_r_eq_Inr split: if_splits)

lemma profile_spec_table [simp]:
  "profile_spec ''async-image'' = Inr spec_async_image" "profile_spec ''chat'' = Inr spec_chat"
  "profile_spec ''image'' = Inr spec_image" "profile_spec ''anthropic'' = Inr spec_anthropic"
  "profile_spec ''speech'' = Inr spec_speech" "profile_spec ''embedding'' = Inr spec_embedding"
  by (simp_all add: profile_spec_def profiles_def)

lemma pinFor_Some: "pinFor s f = Some p \<Longrightarrow> p \<in> set (ps_pinned s) \<and> pin_field p = f"
  by (auto simp: pinFor_def find_Some_iff)

lemma pinFor_None: "pinFor s f = None \<longleftrightarrow> (\<forall>p\<in>set (ps_pinned s). pin_field p \<noteq> f)"
  by (auto simp: pinFor_def find_None_iff)

lemma requiresBind_payload:
  "requiresBind s \<longleftrightarrow> (\<exists>f\<in>set (ps_payload s). pf_name f = ''_bind'' \<and> \<not> pf_optional f)"
  by (simp add: requiresBind_def list_ex_iff)

lemma requiresBind_iff:
  "profile_spec p = Inr s \<Longrightarrow> requiresBind s \<longleftrightarrow> p = ProfileAsyncImage"
  by (erule profile_spec_cases) (simp_all add: requiresBind_def spec_defs)

text \<open>No profile gives the reserved metadata key a role of its own.\<close>

lemma payload_not_reserved:
  "profile_spec p = Inr s \<Longrightarrow> f \<in> set (ps_payload s) \<Longrightarrow> pf_name f \<noteq> e2eeKey"
  by (erule profile_spec_cases) (auto simp: spec_defs)

lemma pinned_not_reserved:
  "profile_spec p = Inr s \<Longrightarrow> q \<in> set (ps_pinned s) \<Longrightarrow> pin_field q \<noteq> e2eeKey"
  by (erule profile_spec_cases) (auto simp: spec_defs)

lemma set_add_field: "set (add_field f acc) = (if f = [] then set acc else insert f (set acc))"
  by (auto simp: add_field_def)

lemma set_fold_add_field: "set (fold add_field fs acc) = set acc \<union> (set fs - {[]})"
  by (induction fs arbitrary: acc) (auto simp: set_add_field)

lemma set_fold_shapes:
  "set (fold (\<lambda>(_, s) acc. fold add_field (fs_sealIfPresent s) (add_field (fs_content s) acc)) ss acc0)
     = set acc0 \<union> ((\<Union>(n, s)\<in>set ss. insert (fs_content s) (set (fs_sealIfPresent s))) - {[]})"
proof (induction ss arbitrary: acc0)
  case (Cons p ss)
  obtain n s where p: "p = (n, s)" by (cases p)
  show ?case
    unfolding p fold_simps comp_def split_conv Cons.IH
    by (auto simp: set_fold_add_field set_add_field)
qed simp

text \<open>The union the mislabelling check rests on: every field any shape seals.\<close>

lemma set_contentFields:
  "set (contentFields r) =
     (\<Union>(n, s)\<in>set (rf_shapes r). insert (fs_content s) (set (fs_sealIfPresent s))) - {[]}"
  by (simp add: contentFields_def set_fold_shapes)

lemma sealedFieldsFor_content:
  "fs_content s \<noteq> [] \<Longrightarrow> fs_content s \<in> set (sealedFieldsFor s frame)"
  by (simp add: sealedFieldsFor_def)

end
