(* ===== verification/Go_Json_Text.thy ===== *)
theory Go_Json_Text
  imports Go_Json
begin

text \<open>
  Reading back what was written: the parser inverts the printer on every value whose number
  literals are numbers. The interface \<open>text_codec\<close> states what the protocol relies on when it
  seals a JSON object as bytes; the interpretation \<open>json_codec\<close> proves it for this text form.
\<close>

declare json_print.simps [simp]

section \<open>The interface\<close>

locale text_codec =
  fixes enc :: "'v \<Rightarrow> bytes"
    and dec :: "bytes \<Rightarrow> 'v option"
    and ok :: "'v \<Rightarrow> bool"
  assumes dec_enc: "ok v \<Longrightarrow> dec (enc v) = Some v"
begin

lemma enc_inj: "ok v \<Longrightarrow> ok w \<Longrightarrow> enc v = enc w \<Longrightarrow> v = w"
  by (metis dec_enc option.inject)

end

section \<open>Strings\<close>

lemma parse_str_Nil: "parse_str [] = None"
  by (simp add: parse_str.simps)

lemma parse_str_quote: "parse_str (CHR 0x22 # r) = Some ([], r)"
  by (simp add: parse_str.simps)

lemma parse_str_plain:
  "c \<noteq> CHR 0x22 \<Longrightarrow> c \<noteq> CHR 0x5C \<Longrightarrow> \<not> (of_char c :: nat) < 32 \<Longrightarrow>
   parse_str (c # r) = map_option (\<lambda>(t, u). (c # t, u)) (parse_str r)"
  by (subst parse_str.simps) simp

lemma parse_str_escape:
  "parse_escape r = Some (x, r') \<Longrightarrow>
   parse_str (CHR 0x5C # r) = map_option (\<lambda>(t, u). (x @ t, u)) (parse_str r')"
  by (subst parse_str.simps) simp

lemma parse_escape_simple:
  "e \<noteq> CHR ''u'' \<Longrightarrow> simple_escape e = Some x \<Longrightarrow> parse_escape (e # r) = Some ([x], r)"
  by (simp add: parse_escape_def)

lemma hex_val_0: "hex_val (CHR ''0'') = Some 0"
  by (simp add: hex_val_def)

lemma parse_escape_control:
  assumes "(of_char c :: nat) < 32"
  shows "parse_escape (CHR ''u'' # CHR ''0'' # CHR ''0'' #
           hex_digit (of_char c div 16) # hex_digit (of_char c mod 16) # r) = Some ([c], r)"
proof -
  let ?n = "of_char c :: nat"
  have "?n div 16 < 16" using assms by simp
  then have "hex4 (CHR ''0'' # CHR ''0'' # hex_digit (?n div 16) # hex_digit (?n mod 16) # r) = Some (?n, r)"
    by (simp add: hex4_def hex_val_0)
  moreover have "utf8_encode ?n = [c]"
    using assms by (simp add: utf8_encode_def)
  ultimately show ?thesis
    using assms by (simp add: parse_escape_def parse_unicode_def)
qed

lemma parse_str_escape_char:
  "parse_str (escape_char c @ r) = map_option (\<lambda>(t, u). (c # t, u)) (parse_str r)"
proof -
  consider "c = CHR 0x22" | "c = CHR 0x5C" | "(of_char c :: nat) < 32" "c \<noteq> CHR 0x22" "c \<noteq> CHR 0x5C"
    | "c \<noteq> CHR 0x22" "c \<noteq> CHR 0x5C" "\<not> (of_char c :: nat) < 32" by blast
  then show ?thesis
  proof cases
    case 1
    have "parse_escape (CHR 0x22 # r) = Some ([CHR 0x22], r)"
      by (rule parse_escape_simple) (simp_all add: simple_escape_def)
    then show ?thesis by (simp add: 1 escape_char_def parse_str_escape)
  next
    case 2
    have "parse_escape (CHR 0x5C # r) = Some ([CHR 0x5C], r)"
      by (rule parse_escape_simple) (simp_all add: simple_escape_def)
    then show ?thesis by (simp add: 2 escape_char_def parse_str_escape)
  next
    case 3
    then show ?thesis
      using parse_str_escape[OF parse_escape_control[OF 3(1)]] by (simp add: escape_char_def)
  next
    case 4
    then show ?thesis by (simp add: escape_char_def parse_str_plain)
  qed
qed

lemma parse_str_print: "parse_str (concat (map escape_char s) @ CHR 0x22 # r) = Some (s, r)"
  by (induction s) (simp_all add: parse_str_quote parse_str_escape_char)

section \<open>Numbers\<close>

definition num_stop :: "bytes \<Rightarrow> bool" where
  "num_stop r = (r = [] \<or> \<not> num_char (hd r))"

lemma num_stop_simps [simp]:
  "num_stop []" "num_stop (CHR '','' # r)" "num_stop (CHR '']'' # r)" "num_stop (CHR ''}'' # r)"
  by (simp_all add: num_stop_def num_char_def is_digit_def)

lemma digit_num_char: "is_digit c \<Longrightarrow> num_char c"
  by (simp add: num_char_def)

lemma parse_exp_chars: "parse_exp s \<noteq> None \<Longrightarrow> list_all num_char s"
proof -
  assume *: "parse_exp s \<noteq> None"
  show ?thesis
  proof (cases s)
    case (Cons c r)
    then have c: "num_char c" and ds: "list_all is_digit (if r \<noteq> [] \<and> (hd r = CHR ''-'' \<or> hd r = CHR ''+'') then tl r else r)"
      using * by (auto simp: parse_exp_def Let_def num_char_def split: if_splits)
    have "list_all num_char r"
    proof (cases "r \<noteq> [] \<and> (hd r = CHR ''-'' \<or> hd r = CHR ''+'')")
      case True
      then obtain h t where "r = h # t" "h = CHR ''-'' \<or> h = CHR ''+''" by (cases r) auto
      with ds show ?thesis
        by (auto simp: num_char_def list_all_iff)
    next
      case False
      with ds show ?thesis by (auto simp: list_all_iff digit_num_char)
    qed
    with c Cons show ?thesis by simp
  qed simp
qed

lemma split_digits_chars:
  "split_digits s = (ds, r) \<Longrightarrow> list_all num_char r \<Longrightarrow> list_all num_char s"
proof -
  assume "split_digits s = (ds, r)" "list_all num_char r"
  moreover have "s = takeWhile is_digit s @ dropWhile is_digit s" by simp
  moreover have "list_all num_char (takeWhile is_digit s)"
    by (auto simp: list_all_iff dest: set_takeWhileD digit_num_char)
  ultimately show ?thesis
    by (metis list_all_append split_digits_def Pair_inject)
qed

lemma parse_frac_chars:
  "parse_frac s = Some (fs, r) \<Longrightarrow> list_all num_char r \<Longrightarrow> list_all num_char s"
  by (cases s)
    (auto simp: parse_frac_def num_char_def split: if_splits prod.splits dest: split_digits_chars)

lemma parse_num_chars: "parse_num s \<noteq> None \<Longrightarrow> list_all num_char s"
proof -
  assume *: "parse_num s \<noteq> None"
  let ?neg = "s \<noteq> [] \<and> hd s = CHR ''-''"
  obtain ds r where sd: "split_digits (if ?neg then tl s else s) = (ds, r)" by fastforce
  then obtain fs r' where "parse_frac r = Some (fs, r')" "parse_exp r' \<noteq> None"
    using * by (auto simp: parse_num_def Let_def split: if_splits option.splits)
  then have "list_all num_char (if ?neg then tl s else s)"
    using sd by (blast intro: split_digits_chars parse_frac_chars parse_exp_chars)
  then show ?thesis
    by (cases s) (auto simp: num_char_def split: if_splits)
qed

lemma parse_num_hd: "parse_num s \<noteq> None \<Longrightarrow> s \<noteq> [] \<and> (hd s = CHR ''-'' \<or> is_digit (hd s))"
proof -
  assume *: "parse_num s \<noteq> None"
  then have "s \<noteq> []" by (auto simp: parse_num_def split_digits_def)
  then obtain c r where s: "s = c # r" by (cases s) auto
  show ?thesis
    using * by (auto simp: s parse_num_def split_digits_def Let_def split: if_splits)
qed

lemma takeWhile_num: "list_all num_char t \<Longrightarrow> num_stop r \<Longrightarrow> takeWhile num_char (t @ r) = t"
  by (induction t) (cases r; auto simp: num_stop_def)+

lemma dropWhile_num: "list_all num_char t \<Longrightarrow> num_stop r \<Longrightarrow> dropWhile num_char (t @ r) = r"
  by (induction t) (cases r; auto simp: num_stop_def)+

lemma parse_val_num:
  assumes "parse_num t \<noteq> None" "num_stop r"
  shows "parse_val (Suc n) (t @ r) = Some (JNum t, r)"
proof -
  obtain c u where t: "t = c # u" and c: "c = CHR ''-'' \<or> is_digit c"
    using parse_num_hd[OF assms(1)] by (cases t) auto
  have all: "list_all num_char t" by (rule parse_num_chars[OF assms(1)])
  have "c \<noteq> CHR ''{''" "c \<noteq> CHR ''[''" "c \<noteq> CHR 0x22" "c \<noteq> CHR ''t''" "c \<noteq> CHR ''f''" "c \<noteq> CHR ''n''"
    using c by (auto simp: is_digit_def)
  then have "parse_val (Suc n) (t @ r) =
      (let t' = takeWhile num_char (t @ r)
       in if parse_num t' \<noteq> None then Some (JNum t', dropWhile num_char (t @ r)) else None)"
    unfolding t by (simp del: takeWhile.simps dropWhile.simps add: Let_def)
  also have "\<dots> = Some (JNum t, r)"
    using assms all by (simp only: Let_def takeWhile_num dropWhile_num) simp
  finally show ?thesis .
qed

section \<open>Values\<close>

definition starts_value :: "bytes \<Rightarrow> bool" where
  "starts_value s = (s \<noteq> [] \<and> hd s \<notin> {CHR 0x20, CHR 0x09, CHR 0x0A, CHR 0x0D, CHR '']'', CHR ''}''})"

lemma skip_ws_starts: "starts_value s \<Longrightarrow> skip_ws (s @ r) = s @ r"
  by (cases s) (auto simp: starts_value_def)

lemma starts_value_print: "json_ok v \<Longrightarrow> starts_value (json_print v)"
proof (cases v)
  case (JNum t)
  moreover assume "json_ok v"
  ultimately have "t \<noteq> []" "hd t = CHR ''-'' \<or> is_digit (hd t)"
    using parse_num_hd[of t] by auto
  with JNum show ?thesis by (auto simp: starts_value_def is_digit_def)
qed (auto simp: starts_value_def print_str_def)

lemma starts_value_elems:
  assumes "json_ok v"
  shows "starts_value (print_elems (v # vs))"
  using starts_value_print[OF assms] by (auto simp: starts_value_def)

lemma starts_value_members: "starts_value (print_members ((k, v) # kvs))"
  by (simp add: starts_value_def print_str_def)

lemma starts_value_Cons: "starts_value s \<Longrightarrow> \<exists>c t. s = c # t \<and> c \<noteq> CHR '']'' \<and> c \<noteq> CHR ''}''"
  by (cases s) (auto simp: starts_value_def)

lemma skip_ws_delim [simp]:
  "skip_ws (CHR '','' # r) = CHR '','' # r" "skip_ws (CHR '']'' # r) = CHR '']'' # r"
  "skip_ws (CHR ''}'' # r) = CHR ''}'' # r" "skip_ws (CHR '':'' # r) = CHR '':'' # r"
  by simp_all

lemma skip_ws_elems:
  "json_ok v \<Longrightarrow> skip_ws (print_elems (v # vs) @ r) = print_elems (v # vs) @ r"
  by (rule skip_ws_starts[OF starts_value_elems])

lemma skip_ws_members:
  "skip_ws (print_members ((k, v) # kvs) @ r) = print_members ((k, v) # kvs) @ r"
  by (rule skip_ws_starts[OF starts_value_members])

lemma parse_print_mutual:
  "json_ok v \<Longrightarrow> num_stop r \<Longrightarrow> length (json_print v) \<le> n \<Longrightarrow>
     parse_val n (json_print v @ r) = Some (v, r)"
  "\<forall>v\<in>set vs. json_ok v \<Longrightarrow> vs \<noteq> [] \<Longrightarrow> length (print_elems vs) \<le> n \<Longrightarrow>
     parse_elems n (print_elems vs @ r) = Some (vs, r)"
  "\<forall>kv\<in>set kvs. json_ok (snd kv) \<Longrightarrow> kvs \<noteq> [] \<Longrightarrow> length (print_members kvs) \<le> n \<Longrightarrow>
     parse_members n (print_members kvs @ r) = Some (kvs, r)"
proof (induction v and vs and kvs arbitrary: n r and n r and n r
    rule: json_print_print_elems_print_members.induct)
  case 1
  then show ?case by (cases n) simp_all
next
  case (2 b)
  then show ?case by (cases n; cases b) simp_all
next
  case (3 t)
  then have "n \<noteq> 0" using parse_num_hd[of t] by (cases t) auto
  with 3 show ?case by (cases n) (simp_all del: parse_val.simps add: parse_val_num)
next
  case (4 s)
  then show ?case by (cases n) (simp_all add: print_str_def parse_str_print)
next
  case (5 vs)
  then obtain m where n: "n = Suc m" by (cases n) auto
  show ?case
  proof (cases vs)
    case Nil
    then show ?thesis by (simp add: n)
  next
    case (Cons w ws)
    have sv: "starts_value (print_elems vs)"
      using 5 Cons starts_value_elems[of w ws] by simp
    then obtain c t where ct: "print_elems vs = c # t" "c \<noteq> CHR '']''"
      using starts_value_Cons by blast
    have "parse_elems m (print_elems vs @ r) = Some (vs, r)"
      using 5 Cons n by simp
    moreover have "skip_ws (print_elems vs @ r) = print_elems vs @ r"
      by (rule skip_ws_starts[OF sv])
    ultimately show ?thesis
      using Cons ct by (simp add: n del: print_elems.simps)
  qed
next
  case (6 kvs)
  then obtain m where n: "n = Suc m" by (cases n) auto
  show ?case
  proof (cases kvs)
    case Nil
    then show ?thesis by (simp add: n)
  next
    case (Cons kv ws)
    obtain k w where kv: "kv = (k, w)" by (cases kv)
    have sv: "starts_value (print_members kvs)"
      unfolding Cons kv by (rule starts_value_members)
    then obtain c t where ct: "print_members kvs = c # t" "c \<noteq> CHR ''}''"
      using starts_value_Cons by blast
    have "parse_members m (print_members kvs @ r) = Some (kvs, r)"
      using 6 Cons n by simp
    moreover have "skip_ws (print_members kvs @ r) = print_members kvs @ r"
      by (rule skip_ws_starts[OF sv])
    ultimately show ?thesis
      using Cons ct by (simp add: n del: print_members.simps)
  qed
next
  case 7
  then show ?case by simp
next
  case (8 v vs)
  let ?tail = "if vs = [] then '']'' else CHR '','' # print_elems vs"
  obtain m where n: "n = Suc m"
    using 8 starts_value_print[of v] by (cases n) (auto simp: starts_value_def)
  have len: "length (json_print v) \<le> m" "vs \<noteq> [] \<Longrightarrow> length (print_elems vs) \<le> m"
    using 8 n by (auto split: if_splits)
  have "num_stop (?tail @ r)" by simp
  then have "parse_val m (json_print v @ ?tail @ r) = Some (v, ?tail @ r)"
    using 8 len by simp
  moreover have "vs \<noteq> [] \<Longrightarrow> parse_elems m (print_elems vs @ r) = Some (vs, r)"
    using 8 len by simp
  moreover have "vs \<noteq> [] \<Longrightarrow> skip_ws (print_elems vs @ r) = print_elems vs @ r"
    using 8 skip_ws_elems[of "hd vs" "tl vs" r] by (cases vs) auto
  ultimately show ?case
    by (simp add: n)
next
  case 9
  then show ?case by simp
next
  case (10 k v kvs)
  let ?tail = "if kvs = [] then ''}'' else CHR '','' # print_members kvs"
  obtain m where n: "n = Suc m"
    using 10 by (cases n) auto
  have len: "length (json_print v) \<le> m" "kvs \<noteq> [] \<Longrightarrow> length (print_members kvs) \<le> m"
    using 10 n by (auto split: if_splits)
  have "num_stop (?tail @ r)" by simp
  then have "parse_val m (json_print v @ ?tail @ r) = Some (v, ?tail @ r)"
    using 10 len by simp
  moreover have "skip_ws (json_print v @ ?tail @ r) = json_print v @ ?tail @ r"
    using 10 by (intro skip_ws_starts starts_value_print) simp
  moreover have "kvs \<noteq> [] \<Longrightarrow> parse_members m (print_members kvs @ r) = Some (kvs, r)"
    using 10 len by simp
  moreover have "kvs \<noteq> [] \<Longrightarrow> skip_ws (print_members kvs @ r) = print_members kvs @ r"
    using skip_ws_members[of "fst (hd kvs)" "snd (hd kvs)" "tl kvs" r] by (cases kvs) auto
  ultimately show ?case
    by (simp add: n print_str_def parse_str_print)
qed

lemma json_parse_print: "json_ok v \<Longrightarrow> json_parse (json_print v) = Some v"
proof -
  assume ok: "json_ok v"
  have "skip_ws (json_print v) = json_print v"
    using skip_ws_starts[OF starts_value_print[OF ok], of "[]"] by simp
  moreover have "parse_val (Suc (length (json_print v))) (json_print v @ []) = Some (v, [])"
    by (rule parse_print_mutual(1)) (use ok in simp_all)
  ultimately show ?thesis by (simp add: json_parse_def del: parse_val.simps)
qed

interpretation json_codec: text_codec json_print json_parse json_ok
  by unfold_locales (rule json_parse_print)

text \<open>From here on printed text is opaque: it is reasoned about through the codec only.\<close>

declare json_print.simps [simp del]

end
