(* ===== verification/Wire_Json.thy ===== *)
theory Wire_Json
  imports Wire_Profile Go_Json_Text
begin

text \<open>
  \<open>json.Unmarshal\<close> into the Go types protocol/wire decodes: the scalar pointers, \<open>string\<close>,
  \<open>[]string\<close>, \<open>map[string]json.RawMessage\<close>, and structs. A struct member is matched by its exact
  name and otherwise case-insensitively, a JSON \<open>null\<close> leaves a scalar unchanged and makes a slice
  nil, and a later member overwrites an earlier one. Not modelled: a \<open>null\<close> element in a repeated
  array member, where Go keeps what the earlier member left in the slice.
\<close>

section \<open>Decoders\<close>

definition str_into :: "json \<Rightarrow> string \<Rightarrow> string option" where
  "str_into v old = (case v of JNull \<Rightarrow> Some old | JStr s \<Rightarrow> Some s | _ \<Rightarrow> None)"

definition as_string :: "json \<Rightarrow> string option" where
  "as_string v = str_into v []"

definition as_strings :: "json \<Rightarrow> string list option" where
  "as_strings v = (case v of JNull \<Rightarrow> Some [] | JArr vs \<Rightarrow> opt_all (map as_string vs) | _ \<Rightarrow> None)"

definition int_into :: "json \<Rightarrow> int \<Rightarrow> int option" where
  "int_into v old = (case v of JNull \<Rightarrow> Some old | JNum t \<Rightarrow> parse_int64 t | _ \<Rightarrow> None)"

definition bool_into :: "json \<Rightarrow> bool \<Rightarrow> bool option" where
  "bool_into v old = (case v of JNull \<Rightarrow> Some old | JBool b \<Rightarrow> Some b | _ \<Rightarrow> None)"

text \<open>A decoded map is \<open>None\<close> when it is nil.\<close>

definition as_object :: "json \<Rightarrow> json gomap option option" where
  "as_object v =
     (case v of JNull \<Rightarrow> Some None | JObj kvs \<Rightarrow> Some (Some (map_from kvs)) | _ \<Rightarrow> None)"

definition as_array :: "json \<Rightarrow> json list option" where
  "as_array v = (case v of JNull \<Rightarrow> Some [] | JArr vs \<Rightarrow> Some vs | _ \<Rightarrow> None)"

definition as_int64 :: "json \<Rightarrow> int option option" where
  "as_int64 v =
     (case v of JNull \<Rightarrow> Some None | JNum t \<Rightarrow> map_option Some (parse_int64 t) | _ \<Rightarrow> None)"

definition as_float64 :: "json \<Rightarrow> f64 option option" where
  "as_float64 v =
     (case v of JNull \<Rightarrow> Some None | JNum t \<Rightarrow> map_option Some (parse_float t) | _ \<Rightarrow> None)"

definition nil_map :: "'v gomap option \<Rightarrow> 'v gomap" where
  "nil_map m = (case m of None \<Rightarrow> [] | Some m' \<Rightarrow> m')"

definition struct_field :: "string list \<Rightarrow> string \<Rightarrow> string option" where
  "struct_field names k =
     (if k \<in> set names then Some k else List.find (\<lambda>n. equal_fold n k) names)"

fun fold_opt :: "('a \<Rightarrow> 'b \<Rightarrow> 'b option) \<Rightarrow> 'a list \<Rightarrow> 'b \<Rightarrow> 'b option" where
  "fold_opt f [] x = Some x"
| "fold_opt f (a # as) x = (case f a x of None \<Rightarrow> None | Some y \<Rightarrow> fold_opt f as y)"

definition decode_struct ::
    "string list \<Rightarrow> (string \<Rightarrow> json \<Rightarrow> 'r \<Rightarrow> 'r option) \<Rightarrow> 'r \<Rightarrow> json \<Rightarrow> 'r option" where
  "decode_struct names setf zero v =
     (case v of
        JNull \<Rightarrow> Some zero
      | JObj kvs \<Rightarrow> fold_opt (\<lambda>(k, x) r. case struct_field names k of
                                None \<Rightarrow> Some r | Some n \<Rightarrow> setf n x r) kvs zero
      | _ \<Rightarrow> None)"

section \<open>Encoders\<close>

definition str_array :: "string list \<Rightarrow> json" where
  "str_array ss = JArr (map JStr ss)"

definition omit_empty :: "bool \<Rightarrow> (string \<times> json) \<Rightarrow> (string \<times> json) list" where
  "omit_empty b kv = (if b then [] else [kv])"

section \<open>Facts\<close>

lemma str_into_JStr [simp]: "str_into (JStr s) old = Some s"
  by (simp add: str_into_def)

lemma as_string_JStr [simp]: "as_string (JStr s) = Some s"
  by (simp add: as_string_def)

lemma bool_into_JBool [simp]: "bool_into (JBool b) old = Some b"
  by (simp add: bool_into_def)

lemma as_strings_array [simp]: "as_strings (str_array ss) = Some ss"
proof -
  have "opt_all (map (\<lambda>s. as_string (JStr s)) ss) = Some (map (\<lambda>s. s) ss)"
    by (rule opt_all_map_Some) simp
  then show ?thesis by (simp add: as_strings_def str_array_def comp_def)
qed

lemma as_object_JObj [simp]: "as_object (JObj kvs) = Some (Some (map_from kvs))"
  by (simp add: as_object_def)

lemma nil_map_simps [simp]: "nil_map None = []" "nil_map (Some m) = m"
  by (simp_all add: nil_map_def)

lemma as_object_wf: "as_object v = Some m \<Longrightarrow> mwf (nil_map m)"
  by (auto simp: as_object_def split: json.splits)

lemma json_ok_str_array [simp]: "json_ok (str_array ss)"
  by (auto simp: str_array_def)

lemma struct_field_exact: "k \<in> set names \<Longrightarrow> struct_field names k = Some k"
  by (simp add: struct_field_def)

lemma fold_opt_append:
  "fold_opt f (xs @ ys) x = (case fold_opt f xs x of None \<Rightarrow> None | Some y \<Rightarrow> fold_opt f ys y)"
  by (induction xs arbitrary: x) (auto split: option.splits)

lemma in_mget: "mwf m \<Longrightarrow> (k, v) \<in> set m \<longleftrightarrow> mget m k = Some v"
  by (simp add: mget_def mwf_distinct)

lemma json_ok_map: "mwf m \<Longrightarrow> json_ok (JObj m) \<longleftrightarrow> (\<forall>k v. mget m k = Some v \<longrightarrow> json_ok v)"
  by (simp add: in_mget[symmetric]) force

lemma json_ok_mput: "mwf m \<Longrightarrow> json_ok (JObj m) \<Longrightarrow> json_ok v \<Longrightarrow> json_ok (JObj (mput k v m))"
  unfolding json_ok_map[OF mwf_mput] json_ok_map by (auto simp: map_simps split: if_splits)

lemma json_ok_mdel: "mwf m \<Longrightarrow> json_ok (JObj m) \<Longrightarrow> json_ok (JObj (mdel P m))"
  unfolding json_ok_map[OF mwf_mdel] json_ok_map by (auto simp: map_simps split: if_splits)

text \<open>An object written out and read back is the same map.\<close>

lemma parse_object:
  "mwf m \<Longrightarrow> json_ok (JObj m) \<Longrightarrow> json_parse (json_print (JObj m)) = Some (JObj m) \<and> map_from m = m"
  using json_parse_print[of "JObj m"] map_from_mwf[of m] by simp

end
