(* ===== verification/Go_Sha256.thy ===== *)
theory Go_Sha256
  imports E2EE_Prelude "HOL-Library.Word"
begin

unbundle bit_operations_syntax

text \<open>
  Go's \<open>crypto/sha256\<close> (FIPS 180-4) on 32-bit words, and \<open>crypto/hkdf\<close> over it (RFC 5869). What
  the protocol uses of the hash beyond its bytes is that a digest has 32 of them; the interface
  \<open>digest32\<close> states that, proves what concatenated digests give, and is interpreted here.
\<close>

section \<open>The interface\<close>

locale digest32 =
  fixes h :: "bytes \<Rightarrow> bytes"
  assumes length_h: "length (h b) = 32"
begin

text \<open>Two digests side by side have unambiguous boundaries.\<close>

lemma digest_pair_inj: "h a @ h b = h c @ h d \<longleftrightarrow> h a = h c \<and> h b = h d"
  by (simp add: length_h)

lemma digest_concat_inj:
  assumes "concat (map h as) = concat (map h bs)"
  shows "map h as = map h bs"
  by (rule concat_eq_fixed_width[OF _ _ assms, of 32]) (auto simp: length_h)

lemma digest_pair_length: "length (h a @ h b) = 64"
  by (simp add: length_h)

end

section \<open>SHA-256\<close>

type_synonym w32 = "32 word"

text \<open>The round constants, in decimal: the fractions of the cube roots of the first 64 primes.\<close>

definition sha_k :: "w32 list" where
  "sha_k =
   [1116352408, 1899447441, 3049323471, 3921009573, 961987163, 1508970993, 2453635748, 2870763221,
    3624381080, 310598401, 607225278, 1426881987, 1925078388, 2162078206, 2614888103, 3248222580,
    3835390401, 4022224774, 264347078, 604807628, 770255983, 1249150122, 1555081692, 1996064986,
    2554220882, 2821834349, 2952996808, 3210313671, 3336571891, 3584528711, 113926993, 338241895,
    666307205, 773529912, 1294757372, 1396182291, 1695183700, 1986661051, 2177026350, 2456956037,
    2730485921, 2820302411, 3259730800, 3345764771, 3516065817, 3600352804, 4094571909, 275423344,
    430227734, 506948616, 659060556, 883997877, 958139571, 1322822218, 1537002063, 1747873779,
    1955562222, 2024104815, 2227730452, 2361852424, 2428436474, 2756734187, 3204031479, 3329325298]"

type_synonym sha_state = "w32 \<times> w32 \<times> w32 \<times> w32 \<times> w32 \<times> w32 \<times> w32 \<times> w32"

definition sha_init :: sha_state where
  "sha_init =
   (1779033703, 3144134277, 1013904242, 2773480762, 1359893119, 2600822924, 528734635, 1541459225)"

definition rotr32 :: "nat \<Rightarrow> w32 \<Rightarrow> w32" where
  "rotr32 n x = drop_bit n x OR push_bit (32 - n) x"

definition be32_word :: "bytes \<Rightarrow> w32" where
  "be32_word bs = foldl (\<lambda>w c. push_bit 8 w OR of_nat (of_char c)) 0 bs"

definition be32_bytes :: "w32 \<Rightarrow> bytes" where
  "be32_bytes w = map (\<lambda>i. char_of (uint (drop_bit (8 * i) w) mod 256)) [3, 2, 1, 0]"

definition be64_bytes :: "64 word \<Rightarrow> bytes" where
  "be64_bytes w = map (\<lambda>i. char_of (uint (drop_bit (8 * i) w) mod 256)) [7, 6, 5, 4, 3, 2, 1, 0]"

function chunks :: "nat \<Rightarrow> 'a list \<Rightarrow> 'a list list" where
  "chunks n xs = (if n = 0 \<or> xs = [] then [] else take n xs # chunks n (drop n xs))"
  by pat_completeness auto
termination
  by (relation "measure (length \<circ> snd)") auto

declare chunks.simps [simp del]

definition sha_extend :: "w32 list \<Rightarrow> w32 list" where
  "sha_extend w =
     (let t = length w; x = w ! (t - 15); y = w ! (t - 2);
          s0 = rotr32 7 x XOR rotr32 18 x XOR drop_bit 3 x;
          s1 = rotr32 17 y XOR rotr32 19 y XOR drop_bit 10 y
      in w @ [w ! (t - 16) + s0 + w ! (t - 7) + s1])"

definition sha_round :: "sha_state \<Rightarrow> w32 \<times> w32 \<Rightarrow> sha_state" where
  "sha_round st kw =
     (case st of (a, b, c, d, e, f, g, h) \<Rightarrow>
      let s1 = rotr32 6 e XOR rotr32 11 e XOR rotr32 25 e;
          ch = (e AND f) XOR ((NOT e) AND g);
          t1 = h + s1 + ch + fst kw + snd kw;
          s0 = rotr32 2 a XOR rotr32 13 a XOR rotr32 22 a;
          maj = (a AND b) XOR (a AND c) XOR (b AND c);
          t2 = s0 + maj
      in (t1 + t2, a, b, c, d + t1, e, f, g))"

definition sha_add :: "sha_state \<Rightarrow> sha_state \<Rightarrow> sha_state" where
  "sha_add s t =
     (case s of (a, b, c, d, e, f, g, h) \<Rightarrow> case t of (a', b', c', d', e', f', g', h') \<Rightarrow>
      (a + a', b + b', c + c', d + d', e + e', f + f', g + g', h + h'))"

definition sha_block :: "sha_state \<Rightarrow> bytes \<Rightarrow> sha_state" where
  "sha_block st block =
     (let w = (sha_extend ^^ 48) (map be32_word (chunks 4 block))
      in sha_add st (foldl sha_round st (zip sha_k w)))"

definition sha_pad :: "bytes \<Rightarrow> bytes" where
  "sha_pad m = m @ CHR 0x80 # replicate ((119 - length m mod 64) mod 64) (CHR 0x00)
                @ be64_bytes (8 * of_nat (length m))"

definition sha_bytes :: "sha_state \<Rightarrow> bytes" where
  "sha_bytes st = (case st of (a, b, c, d, e, f, g, h) \<Rightarrow>
     concat (map be32_bytes [a, b, c, d, e, f, g, h]))"

definition sha256 :: "bytes \<Rightarrow> bytes" where
  "sha256 m = sha_bytes (foldl sha_block sha_init (chunks 64 (sha_pad m)))"

lemma length_be32_bytes [simp]: "length (be32_bytes w) = 4"
  by (simp add: be32_bytes_def)

lemma length_sha_bytes [simp]: "length (sha_bytes st) = 32"
  by (simp add: sha_bytes_def split: prod.splits)

lemma length_sha256 [simp]: "length (sha256 m) = 32"
  by (simp add: sha256_def)

lemma sha256_nonempty [simp]: "sha256 m \<noteq> []"
  by (metis length_sha256 list.size(3) zero_neq_numeral)

text \<open>The padded message is a whole number of 64-byte blocks.\<close>

lemma sha_pad_blocks: "length (sha_pad m) mod 64 = 0"
proof -
  have eq: "(m + (119 - m) mod 64 + 9) mod 64 = 0" if "m < 64" for m :: nat
  proof (cases "m \<le> 55")
    case True
    then have "(119 - m) mod 64 = 55 - m"
      by (simp add: mod_if)
    with True show ?thesis by simp
  next
    case False
    then have "(119 - m) mod 64 = 119 - m" using that by simp
    with that show ?thesis by simp
  qed
  have "(length m + ((119 - length m mod 64) mod 64 + 9)) mod 64
      = (length m mod 64 + ((119 - length m mod 64) mod 64 + 9)) mod 64"
    by (rule mod_add_left_eq[symmetric])
  also have "\<dots> = 0"
    using eq[of "length m mod 64"] by (simp add: add.assoc)
  finally show ?thesis
    by (simp add: sha_pad_def be64_bytes_def ac_simps)
qed

interpretation sha: digest32 sha256
  by unfold_locales simp

section \<open>HMAC and HKDF\<close>

definition xor_bytes :: "nat \<Rightarrow> bytes \<Rightarrow> bytes" where
  "xor_bytes n bs = map (\<lambda>c. char_of (of_char c XOR n)) bs"

definition hmac_sha256 :: "bytes \<Rightarrow> bytes \<Rightarrow> bytes" where
  "hmac_sha256 key msg =
     (let k0 = (if 64 < length key then sha256 key else key);
          k = k0 @ replicate (64 - length k0) (CHR 0x00)
      in sha256 (xor_bytes 0x5c k @ sha256 (xor_bytes 0x36 k @ msg)))"

text \<open>
  \<open>hkdf.Key(sha256.New, secret, nil, info, 32)\<close>: a nil salt is 32 zero bytes, and 32 bytes of
  output are the first expansion block.
\<close>

definition hkdf_key32 :: "bytes \<Rightarrow> string \<Rightarrow> bytes" where
  "hkdf_key32 secret info =
     hmac_sha256 (hmac_sha256 (replicate 32 (CHR 0x00)) secret) (info @ [CHR 0x01])"

lemma length_hmac [simp]: "length (hmac_sha256 k m) = 32"
  by (simp add: hmac_sha256_def Let_def)

lemma length_hkdf [simp]: "length (hkdf_key32 s i) = 32"
  by (simp add: hkdf_key32_def)

end
