(* ===== verification/Wire_Envelope.thy ===== *)
theory Wire_Envelope
  imports Wire_Json Go_Sha256
begin

text \<open>
  protocol/wire/envelope.go, the operations: the validators of a request's field sets, pins and
  payload, the \<open>_e2ee\<close> object, the associated data, and sealing and opening a request; and
  protocol/wire/binding.go, the two artifacts a response signature hashes. The HPKE library \<open>H\<close>
  and the RFC 8785 canonicalizer \<open>J\<close> (github.com/gowebpki/jcs) are parameters; the randomness of
  the HPKE set-up is the argument \<open>rnd\<close>. Where the source ranges over a Go map, whose order is
  unspecified, the model visits the keys in order; the order can only change which of several
  errors is reported.
\<close>

section \<open>Field sets\<close>

definition validatePinnedNotSealed :: "profileSpec \<Rightarrow> string list \<Rightarrow> werr + unit" where
  "validatePinnedNotSealed spec sealed =
     each_r (\<lambda>f. fail_if (pinFor spec f \<noteq> None) (SetErr (PinSealed f))) sealed"

definition validatePinnedNotUnbound :: "profileSpec \<Rightarrow> string list \<Rightarrow> werr + unit" where
  "validatePinnedNotUnbound spec unbound =
     each_r (\<lambda>f. fail_if (pinFor spec f \<noteq> None) (SetErr (PinUnbound f))) unbound"

text \<open>The loop over a set of names with its \<open>seen\<close> map, and one more check per name.\<close>

fun check_names ::
    "(string \<Rightarrow> werr + unit) \<Rightarrow> (string \<Rightarrow> werr + unit) \<Rightarrow> string list \<Rightarrow> string list \<Rightarrow> werr + unit" where
  "check_names pre post seen [] = Inr ()"
| "check_names pre post seen (f # fs) =
     bind_r (fail_if (f = []) (SetErr EmptyName)) (\<lambda>_.
     bind_r (fail_if (f = e2eeKey) (SetErr ReservedName)) (\<lambda>_.
     bind_r (pre f) (\<lambda>_.
     bind_r (fail_if (f \<in> set seen) (SetErr (DuplicateField f))) (\<lambda>_.
     bind_r (post f) (\<lambda>_.
     check_names pre post (f # seen) fs)))))"

abbreviation no_check :: "string \<Rightarrow> werr + unit" where
  "no_check \<equiv> (\<lambda>_. Inr ())"

definition ValidateSealedFieldsFor :: "Profile \<Rightarrow> string list \<Rightarrow> werr + unit" where
  "ValidateSealedFieldsFor p fs =
     bind_r (profile_spec p) (\<lambda>spec.
     bind_r (fail_if (fs = []) (SetErr NoSealedFields)) (\<lambda>_.
     bind_r (validatePinnedNotSealed spec fs) (\<lambda>_.
     bind_r (check_names no_check no_check [] fs) (\<lambda>_.
     each_r (\<lambda>f. fail_if (\<not> pf_optional f \<and> pf_name f \<notin> set fs)
                   (SetErr (MissingPayload (pf_name f)))) (ps_payload spec)))))"

definition ValidateSealedFields :: "string list \<Rightarrow> werr + unit" where
  "ValidateSealedFields fs = ValidateSealedFieldsFor ProfileChat fs"

definition ValidateUnboundFields :: "string list \<Rightarrow> string list \<Rightarrow> werr + unit" where
  "ValidateUnboundFields unbound sealed =
     (if unbound = [] then Inr ()
      else check_names no_check
             (\<lambda>f. fail_if (f \<in> set sealed) (SetErr (BothSealedAndUnbound f))) [] unbound)"

definition ValidateUnboundFieldsFor ::
    "Profile \<Rightarrow> string list \<Rightarrow> string list \<Rightarrow> werr + unit" where
  "ValidateUnboundFieldsFor p unbound sealed =
     bind_r (profile_spec p) (\<lambda>spec.
     bind_r (validatePinnedNotUnbound spec unbound) (\<lambda>_.
     ValidateUnboundFields unbound sealed))"

definition is_hex_char :: "char \<Rightarrow> bool" where
  "is_hex_char c = (let n = (of_char c :: nat) in
     (48 \<le> n \<and> n \<le> 57) \<or> (97 \<le> n \<and> n \<le> 102) \<or> (65 \<le> n \<and> n \<le> 70))"

definition isSignerAddr :: "string \<Rightarrow> bool" where
  "isSignerAddr s =
     (length s = 42 \<and> s ! 0 = CHR ''0'' \<and> s ! 1 = CHR ''x'' \<and> list_all is_hex_char (drop 2 s))"

definition validateSealInputs ::
    "Profile \<Rightarrow> profileSpec \<Rightarrow> string list \<Rightarrow> string list \<Rightarrow> string \<Rightarrow> bytes \<Rightarrow> werr + unit" where
  "validateSealInputs p spec sealed unbound signerAddr clientEphPub =
     bind_r (ValidateSealedFieldsFor p sealed) (\<lambda>_.
     bind_r (validatePinnedNotUnbound spec unbound) (\<lambda>_.
     bind_r (ValidateUnboundFields unbound sealed) (\<lambda>_.
     bind_r (fail_if (\<not> isSignerAddr signerAddr) (SetErr (BadSignerAddr signerAddr))) (\<lambda>_.
     fail_if (length clientEphPub \<noteq> clientEphPubLen)
       (SetErr (BadEphPubLen (length clientEphPub)))))))"

section \<open>Values and payload\<close>

definition cleartextToken :: "json \<Rightarrow> string option" where
  "cleartextToken raw =
     (case raw of
        JBool b \<Rightarrow> Some (if b then ''true'' else ''false'')
      | JStr s \<Rightarrow> Some s
      | JNum t \<Rightarrow> map_option format_float (parse_float t)
      | JNull \<Rightarrow> Some ''null''
      | _ \<Rightarrow> None)"

definition validatePinnedValues :: "profileSpec \<Rightarrow> Request \<Rightarrow> werr + unit" where
  "validatePinnedValues spec req =
     each_r (\<lambda>p. case mget req (pin_field p) of
         None \<Rightarrow> fail_if (\<not> pin_optional p) (SetErr (PinAbsent (pin_field p)))
       | Some raw \<Rightarrow>
           bind_r (opt_r (cleartextToken raw) (SetErr (PinComposite (pin_field p)))) (\<lambda>got.
           fail_if (got \<notin> set (pin_permitted p)) (SetErr (PinValue (pin_field p) got))))
       (ps_pinned spec)"

definition validatePayloadSealedFor :: "Profile \<Rightarrow> string list \<Rightarrow> Request \<Rightarrow> werr + unit" where
  "validatePayloadSealedFor p fs msg =
     bind_r (profile_spec p) (\<lambda>spec.
     bind_r (each_r (\<lambda>f. fail_if (mhas msg (pf_name f) \<and> pf_name f \<notin> set fs)
                            (SetErr (CleartextPayload (pf_name f)))) (ps_payload spec)) (\<lambda>_.
     fail_if (mhas msg fieldBind \<and> fieldBind \<notin> set fs) (SetErr (CleartextPayload fieldBind))))"

definition validateSealableRequest ::
    "Profile \<Rightarrow> profileSpec \<Rightarrow> string list \<Rightarrow> Request \<Rightarrow> werr + unit" where
  "validateSealableRequest p spec sealed req =
     bind_r (validatePayloadSealedFor p sealed req) (\<lambda>_.
     validatePinnedValues spec req)"

definition presentSubset :: "string list \<Rightarrow> Request \<Rightarrow> string list" where
  "presentSubset fs req = filter (\<lambda>f. mhas req f) fs"

section \<open>The metadata object\<close>

record E2EE =
  e_V :: int
  e_KEMID :: string
  e_KeyID :: string
  e_SignerAddr :: string
  e_ClientEphPub :: string
  e_Enc :: string
  e_SealedFields :: "string list"
  e_UnboundFields :: "string list"
  e_Ciphertext :: string

definition e2ee_zero :: E2EE where
  "e2ee_zero = \<lparr>e_V = 0, e_KEMID = [], e_KeyID = [], e_SignerAddr = [], e_ClientEphPub = [],
     e_Enc = [], e_SealedFields = [], e_UnboundFields = [], e_Ciphertext = []\<rparr>"

definition e2ee_names :: "string list" where
  "e2ee_names = [''v'', ''kem_id'', ''key_id'', ''signer_addr'', ''client_eph_pub'', ''enc'',
     ''sealed_fields'', ''unbound_fields'', ''ciphertext'']"

definition e2ee_set :: "string \<Rightarrow> json \<Rightarrow> E2EE \<Rightarrow> E2EE option" where
  "e2ee_set n x e =
     (if n = ''v'' then map_option (\<lambda>i. e\<lparr>e_V := i\<rparr>) (int_into x (e_V e))
      else if n = ''kem_id'' then map_option (\<lambda>s. e\<lparr>e_KEMID := s\<rparr>) (str_into x (e_KEMID e))
      else if n = ''key_id'' then map_option (\<lambda>s. e\<lparr>e_KeyID := s\<rparr>) (str_into x (e_KeyID e))
      else if n = ''signer_addr''
        then map_option (\<lambda>s. e\<lparr>e_SignerAddr := s\<rparr>) (str_into x (e_SignerAddr e))
      else if n = ''client_eph_pub''
        then map_option (\<lambda>s. e\<lparr>e_ClientEphPub := s\<rparr>) (str_into x (e_ClientEphPub e))
      else if n = ''enc'' then map_option (\<lambda>s. e\<lparr>e_Enc := s\<rparr>) (str_into x (e_Enc e))
      else if n = ''sealed_fields'' then map_option (\<lambda>ss. e\<lparr>e_SealedFields := ss\<rparr>) (as_strings x)
      else if n = ''unbound_fields''
        then map_option (\<lambda>ss. e\<lparr>e_UnboundFields := ss\<rparr>) (as_strings x)
      else map_option (\<lambda>s. e\<lparr>e_Ciphertext := s\<rparr>) (str_into x (e_Ciphertext e)))"

definition decodeE2EE :: "Request \<Rightarrow> werr + E2EE" where
  "decodeE2EE r =
     bind_r (opt_r (mget r e2eeKey) (EnvErr NoE2EE)) (\<lambda>raw.
     opt_r (decode_struct e2ee_names e2ee_set e2ee_zero raw) (EnvErr DecodeE2EE))"

definition e2ee_json :: "E2EE \<Rightarrow> json" where
  "e2ee_json e = JObj
     ([(''v'', JNum (show_int (e_V e))), (''kem_id'', JStr (e_KEMID e)),
       (''key_id'', JStr (e_KeyID e)), (''signer_addr'', JStr (e_SignerAddr e)),
       (''client_eph_pub'', JStr (e_ClientEphPub e)), (''enc'', JStr (e_Enc e)),
       (''sealed_fields'', str_array (e_SealedFields e))]
      @ omit_empty (e_UnboundFields e = []) (''unbound_fields'', str_array (e_UnboundFields e))
      @ [(''ciphertext'', JStr (e_Ciphertext e))])"

definition setE2EE :: "E2EE \<Rightarrow> Request \<Rightarrow> Request" where
  "setE2EE e r = mput e2eeKey (e2ee_json e) r"

section \<open>Associated data\<close>

definition canonicalJSON :: "(bytes \<Rightarrow> bytes option) \<Rightarrow> json \<Rightarrow> werr + bytes" where
  "canonicalJSON J v = opt_r (J (json_print v)) (EnvErr CanonicalFailed)"

text \<open>The object whose canonical form is the associated data.\<close>

definition aad_object :: "json gomap \<Rightarrow> werr + json gomap" where
  "aad_object env =
     bind_r (opt_r (mget env e2eeKey) (EnvErr NoE2EE)) (\<lambda>rawE2EE.
     bind_r (opt_r (as_object rawE2EE) (EnvErr DecodeE2EE)) (\<lambda>e2ee.
     bind_r (case mget (nil_map e2ee) ''unbound_fields'' of
               None \<Rightarrow> Inr []
             | Some rawUnbound \<Rightarrow> opt_r (as_strings rawUnbound) (EnvErr UnboundNotStrings)) (\<lambda>unbound.
     let out = mdel (\<lambda>f. f \<in> set unbound) env;
         cleaned = (case e2ee of None \<Rightarrow> JNull | Some m \<Rightarrow> JObj (mdel (\<lambda>k. k = ''ciphertext'') m))
     in Inr (mput e2eeKey cleaned out))))"

definition aadFromEnvelope :: "(bytes \<Rightarrow> bytes option) \<Rightarrow> json gomap \<Rightarrow> werr + bytes" where
  "aadFromEnvelope J env = bind_r (aad_object env) (\<lambda>out. canonicalJSON J (JObj out))"

definition keyID :: "bytes \<Rightarrow> bytes" where
  "keyID encPub = take 8 (sha256 encPub)"

section \<open>Sealing\<close>

fun sealed_object :: "json gomap \<Rightarrow> string list \<Rightarrow> json gomap \<Rightarrow> werr + json gomap" where
  "sealed_object m [] acc = Inr acc"
| "sealed_object m (f # fs) acc =
     bind_r (opt_r (mget m f) (EnvErr (FieldAbsent f))) (\<lambda>v. sealed_object m fs (mput f v acc))"

definition resolve_sealed :: "Profile \<Rightarrow> Request \<Rightarrow> string list option \<Rightarrow> string list" where
  "resolve_sealed profile req sealedFields =
     (case sealedFields of
        Some fs \<Rightarrow> fs
      | None \<Rightarrow>
          let fs = presentSubset (DefaultSealedFieldsFor profile) req
          in if mhas req fieldBind \<and> fieldBind \<notin> set fs then fs @ [fieldBind] else fs)"

definition SealRequestFor ::
    "('pk, 'sk, 'ctx) hpke \<Rightarrow> (bytes \<Rightarrow> bytes option) \<Rightarrow> Profile \<Rightarrow> bytes \<Rightarrow> Request \<Rightarrow>
     string list option \<Rightarrow> string \<Rightarrow> bytes \<Rightarrow> string list \<Rightarrow> bytes \<Rightarrow> werr + Request" where
  "SealRequestFor H J profile encPub req sealedFields0 signerAddr clientEphPub unboundFields rnd =
     bind_r (profile_spec profile) (\<lambda>spec.
     let sealedFields = resolve_sealed profile req sealedFields0 in
     bind_r (validateSealInputs profile spec sealedFields unboundFields signerAddr clientEphPub) (\<lambda>_.
     bind_r (validateSealableRequest profile spec sealedFields req) (\<lambda>_.
     bind_r (sealed_object req sealedFields []) (\<lambda>sealedObj.
     let pt = json_print (JObj sealedObj) in
     bind_r (crypto_r (SetupSender H encPub SealInfo rnd)) (\<lambda>(enc, sealer).
     bind_r (fail_if (mhas req e2eeKey) (EnvErr HasE2EE)) (\<lambda>_.
     let env = mdel (\<lambda>k. k \<in> set sealedFields) req;
         e2ee = \<lparr>e_V = Version, e_KEMID = KEMID, e_KeyID = b64_encode (keyID encPub),
                 e_SignerAddr = signerAddr, e_ClientEphPub = b64_encode clientEphPub,
                 e_Enc = b64_encode enc, e_SealedFields = sealedFields,
                 e_UnboundFields = unboundFields, e_Ciphertext = []\<rparr> in
     bind_r (aadFromEnvelope J (setE2EE e2ee env)) (\<lambda>aad.
     bind_r (crypto_r (SealerSeal H sealer pt aad)) (\<lambda>(ct, _).
     Inr (setE2EE (e2ee\<lparr>e_Ciphertext := b64_encode ct\<rparr>) env)))))))))"

definition SealRequest ::
    "('pk, 'sk, 'ctx) hpke \<Rightarrow> (bytes \<Rightarrow> bytes option) \<Rightarrow> bytes \<Rightarrow> Request \<Rightarrow>
     string list option \<Rightarrow> string \<Rightarrow> bytes \<Rightarrow> string list \<Rightarrow> bytes \<Rightarrow> werr + Request" where
  "SealRequest H J = SealRequestFor H J ProfileChat"

section \<open>Opening\<close>

definition validatePinnedFor :: "Profile \<Rightarrow> Request \<Rightarrow> werr + unit" where
  "validatePinnedFor p env =
     bind_r (profile_spec p) (\<lambda>spec.
     if ps_pinned spec = [] then Inr ()
     else
     bind_r (decodeE2EE env) (\<lambda>e2ee.
     bind_r (validatePinnedNotSealed spec (e_SealedFields e2ee)) (\<lambda>_.
     bind_r (validatePinnedNotUnbound spec (e_UnboundFields e2ee)) (\<lambda>_.
     validatePinnedValues spec env))))"

definition sameKeys :: "json gomap \<Rightarrow> string list \<Rightarrow> bool" where
  "sameKeys obj fs = (length obj = length fs \<and> list_all (\<lambda>f. mhas obj f) fs)"

fun merge_sealed :: "json gomap \<Rightarrow> (string \<times> json) list \<Rightarrow> werr + json gomap" where
  "merge_sealed out [] = Inr out"
| "merge_sealed out ((k, v) # obj) =
     bind_r (fail_if (k = e2eeKey) (EnvErr PlaintextE2EE)) (\<lambda>_.
     bind_r (fail_if (mhas out k) (EnvErr (Collision k))) (\<lambda>_.
     merge_sealed (mput k v out) obj))"

text \<open>The part of opening after decryption, which a request and a response frame share.\<close>

definition reconstruct :: "json gomap \<Rightarrow> string list \<Rightarrow> bytes \<Rightarrow> werr + json gomap" where
  "reconstruct env sealedFields pt =
     bind_r (opt_r (Option.bind (json_parse pt) as_object) (EnvErr PlaintextNotObject)) (\<lambda>sealedObj.
     bind_r (fail_if (\<not> sameKeys (nil_map sealedObj) sealedFields) (EnvErr KeysMismatch)) (\<lambda>_.
     merge_sealed (mdel (\<lambda>k. k = e2eeKey) env) (nil_map sealedObj)))"

definition OpenRequest ::
    "('pk, 'sk, 'ctx) hpke \<Rightarrow> (bytes \<Rightarrow> bytes option) \<Rightarrow> bytes \<Rightarrow> Request \<Rightarrow> werr + Request" where
  "OpenRequest H J priv env =
     bind_r (decodeE2EE env) (\<lambda>e2ee.
     bind_r (fail_if (e_V e2ee \<noteq> Version) (EnvErr (BadVersion (e_V e2ee)))) (\<lambda>_.
     bind_r (fail_if (e_KEMID e2ee \<noteq> KEMID) (EnvErr (BadKem (e_KEMID e2ee)))) (\<lambda>_.
     bind_r (opt_r (b64_decode False (e_Enc e2ee)) (EnvErr BadEnc)) (\<lambda>enc.
     bind_r (opt_r (b64_decode False (e_Ciphertext e2ee)) (EnvErr BadCiphertext)) (\<lambda>ct.
     bind_r (aadFromEnvelope J env) (\<lambda>aad.
     bind_r (crypto_r (SetupReceiver H priv enc SealInfo)) (\<lambda>opener.
     bind_r (crypto_r (OpenerOpen H opener ct aad)) (\<lambda>(pt, _).
     reconstruct env (e_SealedFields e2ee) pt))))))))"

definition OpenRequestFor ::
    "('pk, 'sk, 'ctx) hpke \<Rightarrow> (bytes \<Rightarrow> bytes option) \<Rightarrow> Profile \<Rightarrow> bytes \<Rightarrow> Request \<Rightarrow>
     werr + Request" where
  "OpenRequestFor H J profile priv env =
     bind_r (profile_spec profile) (\<lambda>_.
     bind_r (decodeE2EE env) (\<lambda>e2ee.
     bind_r (ValidateSealedFieldsFor profile (e_SealedFields e2ee)) (\<lambda>_.
     bind_r (validatePayloadSealedFor profile (e_SealedFields e2ee) env) (\<lambda>_.
     bind_r (validatePinnedFor profile env) (\<lambda>_.
     OpenRequest H J priv env)))))"

section \<open>The artifacts a signature hashes\<close>

definition FrameBinding ::
    "(bytes \<Rightarrow> bytes option) \<Rightarrow> json gomap \<Rightarrow> werr + bytes \<times> bytes" where
  "FrameBinding J env =
     bind_r (aadFromEnvelope J env) (\<lambda>aad.
     bind_r (opt_r (mget env e2eeKey) (EnvErr NoE2EE)) (\<lambda>rawE2EE.
     bind_r (opt_r (decode_struct [''ciphertext''] (\<lambda>_ x s. str_into x s) [] rawE2EE)
               (EnvErr DecodeE2EE)) (\<lambda>ciphertext.
     bind_r (fail_if (ciphertext = []) (EnvErr NoCiphertext)) (\<lambda>_.
     bind_r (opt_r (b64_decode False ciphertext) (EnvErr BadCiphertext)) (\<lambda>ct.
     Inr (aad, ct))))))"

end
