(* ===== verification/Wire_Facts.thy ===== *)
theory Wire_Facts
  imports Wire_Envelope
begin

text \<open>
  What the operations of \<open>Wire_Envelope\<close> compute: the field-set validators as conjunctions, the
  \<open>_e2ee\<close> object read back, the associated data of a sealed envelope, and the reconstruction of a
  message from its cleartext half and its decrypted half. Requests and response frames share them.
\<close>

section \<open>Validators\<close>

lemma check_names_ok:
  "check_names pre post seen fs = Inr () \<longleftrightarrow>
     (\<forall>f\<in>set fs. f \<noteq> [] \<and> f \<noteq> e2eeKey \<and> pre f = Inr () \<and> post f = Inr ())
     \<and> distinct fs \<and> set fs \<inter> set seen = {}"
proof (induction fs arbitrary: seen)
  case (Cons f fs)
  have "check_names pre post seen (f # fs) = Inr () \<longleftrightarrow>
      (f \<noteq> [] \<and> f \<noteq> e2eeKey \<and> pre f = Inr () \<and> f \<notin> set seen \<and> post f = Inr ())
      \<and> check_names pre post (f # seen) fs = Inr ()"
    by (simp add: result_inv)
  then show ?case unfolding Cons.IH by auto
qed simp

lemma validatePinnedNotSealed_ok:
  "validatePinnedNotSealed spec fs = Inr () \<longleftrightarrow> (\<forall>f\<in>set fs. pinFor spec f = None)"
  by (simp add: validatePinnedNotSealed_def result_inv)

lemma validatePinnedNotUnbound_ok:
  "validatePinnedNotUnbound spec fs = Inr () \<longleftrightarrow> (\<forall>f\<in>set fs. pinFor spec f = None)"
  by (simp add: validatePinnedNotUnbound_def result_inv)

text \<open>The abstract content of the sealed-set rule and of the unbound-set rule.\<close>

definition sealed_set_ok :: "profileSpec \<Rightarrow> string list \<Rightarrow> bool" where
  "sealed_set_ok spec fs \<longleftrightarrow>
     fs \<noteq> [] \<and> distinct fs \<and> [] \<notin> set fs \<and> e2eeKey \<notin> set fs \<and> (\<forall>f\<in>set fs. pinFor spec f = None)
     \<and> (\<forall>f\<in>set (ps_payload spec). \<not> pf_optional f \<longrightarrow> pf_name f \<in> set fs)"

definition unbound_set_ok :: "string list \<Rightarrow> string list \<Rightarrow> bool" where
  "unbound_set_ok unbound sealed \<longleftrightarrow>
     distinct unbound \<and> [] \<notin> set unbound \<and> e2eeKey \<notin> set unbound
     \<and> set unbound \<inter> set sealed = {}"

lemma ValidateSealedFieldsFor_ok:
  "ValidateSealedFieldsFor p fs = Inr () \<longleftrightarrow>
     (\<exists>spec. profile_spec p = Inr spec \<and> sealed_set_ok spec fs)"
  by (auto simp: ValidateSealedFieldsFor_def result_inv validatePinnedNotSealed_ok check_names_ok
      sealed_set_ok_def)

lemma ValidateUnboundFields_ok:
  "ValidateUnboundFields unbound sealed = Inr () \<longleftrightarrow> unbound_set_ok unbound sealed"
  by (auto simp: ValidateUnboundFields_def check_names_ok unbound_set_ok_def result_inv)

lemma validateSealInputs_ok:
  "validateSealInputs p spec sealed unbound a k = Inr () \<longleftrightarrow>
     ValidateSealedFieldsFor p sealed = Inr () \<and> (\<forall>f\<in>set unbound. pinFor spec f = None)
     \<and> unbound_set_ok unbound sealed \<and> isSignerAddr a \<and> length k = clientEphPubLen"
  by (auto simp: validateSealInputs_def result_inv validatePinnedNotUnbound_ok
      ValidateUnboundFields_ok)

lemma validatePayloadSealedFor_ok:
  "validatePayloadSealedFor p fs msg = Inr () \<longleftrightarrow>
     (\<exists>spec. profile_spec p = Inr spec
        \<and> (\<forall>f\<in>set (ps_payload spec). mhas msg (pf_name f) \<longrightarrow> pf_name f \<in> set fs)
        \<and> (mhas msg fieldBind \<longrightarrow> fieldBind \<in> set fs))"
  by (auto simp: validatePayloadSealedFor_def result_inv)

text \<open>A pinned field holds a permitted value, or is absent where the pin allows that.\<close>

definition pin_holds :: "pinnedField \<Rightarrow> Request \<Rightarrow> bool" where
  "pin_holds p req \<longleftrightarrow>
     (case mget req (pin_field p) of
        None \<Rightarrow> pin_optional p
      | Some v \<Rightarrow> (\<exists>t\<in>set (pin_permitted p). cleartextToken v = Some t))"

lemma validatePinnedValues_ok:
  "validatePinnedValues spec req = Inr () \<longleftrightarrow> (\<forall>p\<in>set (ps_pinned spec). pin_holds p req)"
  by (auto simp: validatePinnedValues_def pin_holds_def result_inv split: option.splits)

section \<open>Building and reading the two halves\<close>

lemma sealed_object_eq:
  "sealed_object m fs acc = Inr obj \<longleftrightarrow>
     (\<forall>f\<in>set fs. mhas m f) \<and> obj = fold (\<lambda>f. mput f (the (mget m f))) fs acc"
proof (induction fs arbitrary: acc)
  case (Cons f fs)
  show ?case
  proof (cases "mget m f")
    case None
    then show ?thesis by (simp add: mhas_def)
  next
    case (Some v)
    then show ?thesis using Cons.IH[of "mput f v acc"] by (simp add: mhas_def)
  qed
qed auto

lemma sealed_object_ok:
  assumes "sealed_object m fs [] = Inr obj"
  shows "mwf obj" "\<And>k. mget obj k = (if k \<in> set fs then mget m k else None)"
    "\<And>f. f \<in> set fs \<Longrightarrow> mhas m f"
  using assms
  by (auto simp: sealed_object_eq fields.wf_fold_put fields.get_fold_put mhas_def)

lemma map_from_swap: "map_of (rev m) = map_of m" if "mwf m"
  using that by (simp add: map_of_rev_distinct mwf_distinct)

lemma merge_sealed_eq:
  "mwf out \<Longrightarrow> distinct (map fst obj) \<Longrightarrow>
   merge_sealed out obj = Inr r \<longleftrightarrow>
     e2eeKey \<notin> set (map fst obj) \<and> (\<forall>k\<in>set (map fst obj). mget out k = None)
     \<and> r = fold (\<lambda>(k, v). mput k v) obj out"
proof (induction obj arbitrary: out)
  case (Cons p obj)
  obtain k v where p: "p = (k, v)" by (cases p)
  have "merge_sealed out (p # obj) = Inr r \<longleftrightarrow>
      k \<noteq> e2eeKey \<and> mget out k = None \<and> merge_sealed (mput k v out) obj = Inr r"
    by (simp add: p result_inv mhas_def)
  also have "\<dots> \<longleftrightarrow> k \<noteq> e2eeKey \<and> mget out k = None \<and> e2eeKey \<notin> set (map fst obj)
      \<and> (\<forall>j\<in>set (map fst obj). mget (mput k v out) j = None)
      \<and> r = fold (\<lambda>(k, v). mput k v) obj (mput k v out)"
    using Cons.IH[of "mput k v out"] Cons.prems by (simp add: p mwf_mput)
  also have "(\<forall>j\<in>set (map fst obj). mget (mput k v out) j = None) \<longleftrightarrow>
      (\<forall>j\<in>set (map fst obj). mget out j = None)"
    using Cons.prems by (auto simp: p mget_mput)
  finally show ?case by (auto simp: p)
qed auto

lemma merge_sealed_ok:
  assumes "mwf out" "mwf obj"
  shows "merge_sealed out obj = Inr r \<longleftrightarrow>
     mget obj e2eeKey = None \<and> (\<forall>k. mget obj k \<noteq> None \<longrightarrow> mget out k = None)
     \<and> mwf r \<and> (\<forall>k. mget r k = (case mget obj k of None \<Rightarrow> mget out k | Some v \<Rightarrow> Some v))"
proof -
  let ?r = "fold (\<lambda>(k, v). mput k v) obj out"
  have r: "mwf ?r" "\<And>k. mget ?r k = (case mget obj k of None \<Rightarrow> mget out k | Some v \<Rightarrow> Some v)"
    using assms by (simp_all add: mwf_fold_mput mget_fold_mput map_from_swap mget_def[of obj])
  have keys: "k \<in> set (map fst obj) \<longleftrightarrow> mget obj k \<noteq> None" for k
    by (simp add: mget_None mkeys_def)
  have "r = ?r \<longleftrightarrow> mwf r \<and> (\<forall>k. mget r k = (case mget obj k of None \<Rightarrow> mget out k | Some v \<Rightarrow> Some v))"
    using r by (auto intro: mwf_ext)
  moreover have "(\<forall>k\<in>set (map fst obj). mget out k = None) \<longleftrightarrow>
      (\<forall>k. mget obj k \<noteq> None \<longrightarrow> mget out k = None)"
    using keys by blast
  ultimately show ?thesis
    using merge_sealed_eq[OF assms(1) mwf_distinct[OF assms(2)], of r] keys[of e2eeKey] by auto
qed

lemma sameKeys_exact:
  assumes "mwf obj" "distinct fs" "\<And>k. mget obj k \<noteq> None \<longleftrightarrow> k \<in> set fs"
  shows "sameKeys obj fs"
proof -
  have "set (map fst obj) = set fs"
    using assms(3) mget_None[of obj] by (auto simp: mkeys_def)
  then have "length obj = length fs"
    using assms(1,2) mwf_distinct[of obj] by (metis distinct_card length_map)
  then show ?thesis
    using assms(3) by (simp add: sameKeys_def mhas_def list_all_iff)
qed

lemma sameKeys_keys:
  assumes "mwf obj" "sameKeys obj fs" "distinct fs"
  shows "mget obj k \<noteq> None \<longleftrightarrow> k \<in> set fs"
proof -
  have sub: "set fs \<subseteq> set (map fst obj)"
    using assms(2) mget_None[of obj] by (auto simp: sameKeys_def mhas_def list_all_iff mkeys_def)
  moreover have "card (set fs) = card (set (map fst obj))"
    using assms mwf_distinct[of obj] by (metis distinct_card length_map sameKeys_def)
  ultimately have "set fs = set (map fst obj)" by (simp add: card_subset_eq)
  then show ?thesis using mget_None[of obj k] by (simp add: mkeys_def)
qed

text \<open>Opening undoes sealing on the field level, whatever rides in the unbound fields.\<close>

lemma reconstruct_sealed:
  assumes obj: "sealed_object m fs [] = Inr obj" and m: "mwf m" "json_ok (JObj m)"
    and fs: "distinct fs" "e2eeKey \<notin> set fs"
    and env: "mwf env" "\<And>k. k \<in> set fs \<Longrightarrow> mget env k = None"
  shows "\<exists>r. reconstruct env fs (json_print (JObj obj)) = Inr r \<and> mwf r \<and>
     (\<forall>k. mget r k = (if k \<in> set fs then mget m k
                      else if k = e2eeKey then None else mget env k))"
proof -
  note o = sealed_object_ok[OF obj]
  have ok: "json_ok (JObj obj)"
    using m unfolding json_ok_map[OF o(1)] json_ok_map[OF m(1)] by (simp add: o(2) split: if_splits)
  have keys: "sameKeys obj fs"
    using o fs by (intro sameKeys_exact) (auto simp: mhas_def)
  let ?out = "mdel (\<lambda>k. k = e2eeKey) env"
  let ?r = "fold (\<lambda>(k, v). mput k v) obj ?out"
  have ex: "mwf ?r \<and> (\<forall>k. mget ?r k = (case mget obj k of None \<Rightarrow> mget ?out k | Some v \<Rightarrow> Some v))"
    using o(1) mwf_mdel[OF env(1)]
    by (simp add: mwf_fold_mput mget_fold_mput map_from_swap mget_def[of obj] del: e2eeKey_def)
  have r: "merge_sealed ?out obj = Inr ?r"
    unfolding merge_sealed_ok[OF mwf_mdel[OF env(1)] o(1)]
    using ex env(2) fs(2) by (simp add: o(2) mget_mdel)
  have "reconstruct env fs (json_print (JObj obj)) = Inr ?r"
    using parse_object[OF o(1) ok] keys r by (simp add: reconstruct_def)
  moreover have "mget ?r k = (if k \<in> set fs then mget m k
      else if k = e2eeKey then None else mget env k)" for k
  proof (cases "k \<in> set fs")
    case True
    then show ?thesis using ex o(2,3)[of k] by (auto simp: mhas_def)
  next
    case False
    then show ?thesis using ex o(2)[of k] by (simp add: mget_mdel)
  qed
  ultimately show ?thesis using ex by blast
qed

text \<open>What a successful reconstruction says about the message and its two halves.\<close>

lemma reconstruct_ok:
  assumes "reconstruct env fs pt = Inr r" "mwf env" "distinct fs"
  obtains obj where "Option.bind (json_parse pt) as_object = Some obj"
    "\<And>k. mget (nil_map obj) k \<noteq> None \<longleftrightarrow> k \<in> set fs" "e2eeKey \<notin> set fs" "mwf r"
    "\<And>k. k \<in> set fs \<Longrightarrow> mget env k = None"
    "\<And>k. mget r k = (if k \<in> set fs then mget (nil_map obj) k
                      else if k = e2eeKey then None else mget env k)"
proof -
  obtain obj where obj: "Option.bind (json_parse pt) as_object = Some obj"
    "sameKeys (nil_map obj) fs"
    and mg: "merge_sealed (mdel (\<lambda>k. k = e2eeKey) env) (nil_map obj) = Inr r"
    using assms(1) by (auto simp: reconstruct_def bind_r_eq_Inr opt_r_eq_Inr fail_if_eq_Inr)
  have wf: "mwf (nil_map obj)"
    using obj(1) by (auto simp: Option.bind_eq_Some_conv intro: as_object_wf)
  have ks: "mget (nil_map obj) k \<noteq> None \<longleftrightarrow> k \<in> set fs" for k
    using sameKeys_keys[OF wf obj(2) assms(3)] .
  note mr = mg[unfolded merge_sealed_ok[OF mwf_mdel[OF assms(2)] wf]]
  have no: "e2eeKey \<notin> set fs" using mr ks[of e2eeKey] by simp
  have clear: "mget env k = None" if "k \<in> set fs" for k
  proof -
    have "k \<noteq> e2eeKey" using that no by auto
    then show ?thesis using mr ks[of k] that by (auto simp: mget_mdel)
  qed
  have "mget r k = (if k \<in> set fs then mget (nil_map obj) k
      else if k = e2eeKey then None else mget env k)" for k
  proof (cases "mget (nil_map obj) k")
    case None
    then show ?thesis using mr ks[of k] by (simp add: mget_mdel)
  next
    case (Some v)
    then show ?thesis using mr ks[of k] by simp
  qed
  then show ?thesis using that[OF obj(1) ks no _ clear] mr by blast
qed

end
