(* ===== verification/Wire_Aad.thy ===== *)
theory Wire_Aad
  imports Wire_Facts
begin

text \<open>
  The \<open>_e2ee\<close> object read back after it was written, the associated data of an envelope that was
  just built, and what two envelopes with the same associated data have in common. The last rests
  on the one promise of RFC 8785 the protocol uses: the canonical form determines the JSON data.
\<close>

section \<open>Reading the metadata back\<close>

lemma parse_int_Version [simp]: "parse_int64 (show_int 1) = Some 1"
  by code_simp

lemma int_into_Version [simp]: "int_into (JNum (show_int 1)) old = Some 1"
  by (simp add: int_into_def)

lemma show_int_num: "parse_num (show_int 1) \<noteq> None"
  by code_simp

text \<open>What is written without the ciphertext, which is the part inside the associated data.\<close>

definition e2ee_head :: "E2EE \<Rightarrow> (string \<times> json) list" where
  "e2ee_head e =
     [(''v'', JNum (show_int (e_V e))), (''kem_id'', JStr (e_KEMID e)),
      (''key_id'', JStr (e_KeyID e)), (''signer_addr'', JStr (e_SignerAddr e)),
      (''client_eph_pub'', JStr (e_ClientEphPub e)), (''enc'', JStr (e_Enc e)),
      (''sealed_fields'', str_array (e_SealedFields e))]
      @ omit_empty (e_UnboundFields e = []) (''unbound_fields'', str_array (e_UnboundFields e))"

lemma e2ee_json_head:
  "e2ee_json e = JObj (e2ee_head e @ [(''ciphertext'', JStr (e_Ciphertext e))])"
  by (simp add: e2ee_json_def e2ee_head_def)

lemma e2ee_head_ciphertext [simp]: "e2ee_head (e\<lparr>e_Ciphertext := c\<rparr>) = e2ee_head e"
  by (simp add: e2ee_head_def)

lemma e2ee_head_keys:
  "map_of (rev (e2ee_head e)) ''ciphertext'' = None"
  "map_of (rev (e2ee_head e)) ''unbound_fields'' =
     (if e_UnboundFields e = [] then None else Some (str_array (e_UnboundFields e)))"
  by (simp_all add: e2ee_head_def omit_empty_def)

lemma decode_e2ee_json:
  assumes "e_V e = 1"
  shows "decode_struct e2ee_names e2ee_set e2ee_zero (e2ee_json e) = Some e"
  using assms
  by (cases e) (simp add: decode_struct_def e2ee_json_def struct_field_exact e2ee_names_def
      e2ee_set_def e2ee_zero_def omit_empty_def fold_opt_append)

lemma decodeE2EE_setE2EE: "mwf m \<Longrightarrow> e_V e = 1 \<Longrightarrow> decodeE2EE (setE2EE e m) = Inr e"
  by (simp add: decodeE2EE_def setE2EE_def mget_mput decode_e2ee_json)

lemma json_ok_e2ee_json: "e_V e = 1 \<Longrightarrow> json_ok (e2ee_json e)"
  using show_int_num by (auto simp: e2ee_json_def omit_empty_def)

section \<open>The associated data of a new envelope\<close>

lemma map_from_snoc: "map_from (kvs @ [(k, v)]) = mput k v (map_from kvs)"
  by (simp add: map_from_def)

lemma aad_object_meta:
  assumes m: "mwf m" and pre: "map_of (rev pre) ''ciphertext'' = None"
    and unb: "map_of (rev pre) ''unbound_fields'' = (if U = [] then None else Some (str_array U))"
  shows "aad_object (mput e2eeKey (JObj (pre @ [(''ciphertext'', c)])) m)
     = Inr (mput e2eeKey (JObj (map_from pre)) (mdel (\<lambda>f. f \<in> set U) m))"
proof -
  let ?M = "map_from pre"
  have u: "(case mget (mput ''ciphertext'' c ?M) ''unbound_fields'' of
      None \<Rightarrow> Inr [] | Some raw \<Rightarrow> opt_r (as_strings raw) (EnvErr UnboundNotStrings)) = Inr U"
    using unb by (simp add: mget_mput mget_map_from)
  have d: "mdel (\<lambda>k. k = ''ciphertext'') (mput ''ciphertext'' c ?M) = ?M"
    by (rule mwf_ext) (use pre in \<open>auto simp: map_simps mget_map_from\<close>)
  have e: "mput e2eeKey (JObj ?M) (mdel (\<lambda>f. f \<in> set U) (mput e2eeKey x m))
      = mput e2eeKey (JObj ?M) (mdel (\<lambda>f. f \<in> set U) m)" for x
    by (rule mwf_ext) (use m in \<open>auto simp: map_simps\<close>)
  show ?thesis
    unfolding aad_object_def using m d e u
    by (simp add: mget_mput map_from_snoc Let_def)
qed

lemma aad_object_setE2EE:
  assumes "mwf m"
  shows "aad_object (setE2EE e m)
     = Inr (mput e2eeKey (JObj (map_from (e2ee_head e))) (mdel (\<lambda>f. f \<in> set (e_UnboundFields e)) m))"
  unfolding setE2EE_def e2ee_json_head
  by (rule aad_object_meta[OF assms e2ee_head_keys])

text \<open>
  An intermediary may add, change or remove the fields declared unbound: the associated data stays
  what it was, for a request as for a response.
\<close>

lemma aad_object_unbound_any:
  assumes at: "\<And>x. mwf x \<Longrightarrow>
      aad_object (mput e2eeKey j x) = Inr (mput e2eeKey h (mdel (\<lambda>f. f \<in> set U) x))"
    and wf: "mwf m" "mwf env'" and no: "e2eeKey \<notin> set U"
    and agree: "\<And>k. k \<notin> set U \<Longrightarrow> mget env' k = mget (mput e2eeKey j m) k"
  shows "aad_object env' = aad_object (mput e2eeKey j m)"
proof -
  define m' where "m' = mdel (\<lambda>k. k = e2eeKey) env'"
  have "env' = mput e2eeKey j m'"
    by (rule mwf_ext) (use wf no agree[of e2eeKey] in \<open>auto simp: m'_def map_simps\<close>)
  moreover have "mdel (\<lambda>f. f \<in> set U) m' = mdel (\<lambda>f. f \<in> set U) (mdel (\<lambda>k. k = e2eeKey) m)"
  proof (rule mwf_ext)
    fix k
    show "mget (mdel (\<lambda>f. f \<in> set U) m') k =
        mget (mdel (\<lambda>f. f \<in> set U) (mdel (\<lambda>k. k = e2eeKey) m)) k"
      using agree[of k] wf by (auto simp: m'_def map_simps)
  qed (use wf in \<open>auto simp: m'_def map_simps\<close>)
  ultimately show ?thesis
    using wf at[of m'] at[of m] by (auto simp: m'_def mwf_mdel intro!: mwf_ext simp: map_simps)
qed

lemma aad_object_unbound:
  assumes "mwf m" "mwf env'" "e2eeKey \<notin> set (e_UnboundFields e)"
    and "\<And>k. k \<notin> set (e_UnboundFields e) \<Longrightarrow> mget env' k = mget (setE2EE e m) k"
  shows "aad_object env' = aad_object (setE2EE e m)"
  unfolding setE2EE_def
  by (rule aad_object_unbound_any[OF aad_object_setE2EE[unfolded setE2EE_def] assms[unfolded setE2EE_def]])

section \<open>Canonical form\<close>

text \<open>The same JSON data, as RFC 8785 reads it: a number is the double its literal denotes.\<close>

definition same_number :: "string \<Rightarrow> string \<Rightarrow> bool" where
  "same_number t u =
     (t = u \<or> (case (parse_float t, parse_float u) of
                 (Some x, Some y) \<Rightarrow> f64_value x = f64_value y | _ \<Rightarrow> False))"

inductive jeq :: "json \<Rightarrow> json \<Rightarrow> bool" where
  jeq_null: "jeq JNull JNull"
| jeq_bool: "jeq (JBool b) (JBool b)"
| jeq_num: "same_number t u \<Longrightarrow> jeq (JNum t) (JNum u)"
| jeq_str: "jeq (JStr s) (JStr s)"
| jeq_arr: "list_all2 jeq vs ws \<Longrightarrow> jeq (JArr vs) (JArr ws)"
| jeq_obj: "(\<And>k. rel_option jeq (mget (map_from a) k) (mget (map_from b) k)) \<Longrightarrow>
            jeq (JObj a) (JObj b)"
monos list_all2_mono option.rel_mono

inductive_cases jeq_objE: "jeq (JObj a) v"
inductive_cases jeq_arrE: "jeq (JArr a) v"
inductive_cases jeq_strE: "jeq (JStr a) v"
inductive_simps jeq_str_simp: "jeq (JStr a) v"

definition canonical_faithful :: "(bytes \<Rightarrow> bytes option) \<Rightarrow> bool" where
  "canonical_faithful J \<longleftrightarrow>
     (\<forall>v w t. json_ok v \<longrightarrow> json_ok w \<longrightarrow> J (json_print v) = Some t \<longrightarrow> J (json_print w) = Some t \<longrightarrow> jeq v w)"

lemma jeq_refl [simp]: "jeq v v"
proof (induction v)
  case (JArr vs)
  then show ?case by (intro jeq_arr) (simp add: list.rel_refl_strong)
next
  case (JObj kvs)
  show ?case
  proof (rule jeq_obj)
    fix k
    show "rel_option jeq (mget (map_from kvs) k) (mget (map_from kvs) k)"
    proof (cases "mget (map_from kvs) k")
      case (Some v)
      then have "(k, v) \<in> set kvs" by (auto simp: mget_map_from dest: map_of_SomeD)
      then have "jeq v v" using JObj by (force simp: snds.simps)
      with Some show ?thesis by simp
    qed simp
  qed
qed (auto intro: jeq.intros simp: same_number_def)

text \<open>The hypothesis can hold: text that is already printed the same way is the same data.\<close>

lemma canonical_faithful_Some: "canonical_faithful Some"
  unfolding canonical_faithful_def using json_codec.enc_inj by fastforce

lemma jeq_strings:
  assumes "jeq v w"
  shows "as_strings v = as_strings w"
proof -
  have s: "as_string x = as_string y" if "jeq x y" for x y
    using that by cases (simp_all add: as_string_def str_into_def)
  have l: "map as_string vs = map as_string ws" if "list_all2 jeq vs ws" for vs ws
    using that by (induction rule: list_all2_induct) (simp_all add: s)
  from assms show ?thesis by cases (simp_all add: as_strings_def l)
qed

lemma jeq_map:
  assumes "jeq (JObj a) (JObj b)" "mwf a" "mwf b"
  shows "rel_option jeq (mget a k) (mget b k)"
  using assms by (auto elim!: jeq_objE simp: map_from_mwf)

lemma json_ok_map_from: "json_ok (JObj kvs) \<Longrightarrow> json_ok (JObj (map_from kvs))"
  unfolding json_ok_map[OF mwf_map_from]
  by (force simp: mget_map_from dest!: map_of_SomeD)

lemma aad_object_inv:
  assumes "aad_object env = Inr a"
  obtains raw M U where "mget env e2eeKey = Some raw" "as_object raw = Some M"
    "(case mget (nil_map M) ''unbound_fields'' of
        None \<Rightarrow> Inr [] | Some r \<Rightarrow> opt_r (as_strings r) (EnvErr UnboundNotStrings)) = Inr U"
    "a = mput e2eeKey (case M of None \<Rightarrow> JNull | Some m \<Rightarrow> JObj (mdel (\<lambda>k. k = ''ciphertext'') m))
           (mdel (\<lambda>f. f \<in> set U) env)"
  using assms by (auto simp: aad_object_def Let_def bind_r_eq_Inr opt_r_eq_Inr)

lemma aad_object_wf:
  assumes "aad_object env = Inr a" "mwf env" "json_ok (JObj env)"
  shows "mwf a" "json_ok (JObj a)"
proof -
  obtain raw M U where *: "mget env e2eeKey = Some raw" "as_object raw = Some M"
    "a = mput e2eeKey (case M of None \<Rightarrow> JNull | Some m \<Rightarrow> JObj (mdel (\<lambda>k. k = ''ciphertext'') m))
           (mdel (\<lambda>f. f \<in> set U) env)"
    using aad_object_inv[OF assms(1)] by metis
  show "mwf a" using * assms by (simp add: mwf_mput mwf_mdel)
  have "json_ok raw" using *(1) assms(2,3) json_ok_map by blast
  then have "json_ok (case M of None \<Rightarrow> JNull | Some m \<Rightarrow> JObj (mdel (\<lambda>k. k = ''ciphertext'') m))"
    using *(2) json_ok_mdel[OF mwf_map_from json_ok_map_from]
    by (auto simp: as_object_def split: json.splits)
  then show "json_ok (JObj a)"
    unfolding *(3) using assms by (intro json_ok_mput json_ok_mdel) (simp_all add: mwf_mdel)
qed

lemma aad_same_object:
  assumes J: "canonical_faithful J"
    and env: "mwf env" "json_ok (JObj env)" "mwf env'" "json_ok (JObj env')"
    and aad: "aadFromEnvelope J env = Inr aad" "aadFromEnvelope J env' = Inr aad"
  shows "\<exists>a a'. aad_object env = Inr a \<and> aad_object env' = Inr a' \<and> mwf a \<and> mwf a'
           \<and> (\<forall>k. rel_option jeq (mget a k) (mget a' k))"
proof -
  obtain a a' where a: "aad_object env = Inr a" "aad_object env' = Inr a'"
    "J (json_print (JObj a)) = Some aad" "J (json_print (JObj a')) = Some aad"
    using aad by (auto simp: aadFromEnvelope_def canonicalJSON_def opt_r_eq_Inr bind_r_eq_Inr)
  note wf = aad_object_wf[OF a(1) env(1,2)] aad_object_wf[OF a(2) env(3,4)]
  have "jeq (JObj a) (JObj a')"
    using J a wf by (auto simp: canonical_faithful_def)
  then show ?thesis using a wf jeq_map by blast
qed

text \<open>
  An envelope with the associated data of a sealed one excludes the same fields from it, carries
  the same data in every other field, and the same metadata apart from the ciphertext.
\<close>

lemma aad_determines_meta:
  assumes J: "canonical_faithful J" and m: "mwf m"
    and pre: "map_of (rev pre) ''ciphertext'' = None"
    and unb: "map_of (rev pre) ''unbound_fields'' = (if UB = [] then None else Some (str_array UB))"
    and env: "env = mput e2eeKey (JObj (pre @ [(''ciphertext'', c)])) m" "json_ok (JObj env)"
    and env': "mwf env'" "json_ok (JObj env')"
    and aad: "aadFromEnvelope J env = Inr aad" "aadFromEnvelope J env' = Inr aad"
  shows "\<exists>raw meta. mget env' e2eeKey = Some raw \<and> as_object raw = Some (Some meta)
      \<and> (\<forall>k. k \<noteq> ''ciphertext'' \<longrightarrow> rel_option jeq (mget (map_from pre) k) (mget meta k))
      \<and> (\<forall>k. k \<noteq> e2eeKey \<longrightarrow> k \<notin> set UB \<longrightarrow> rel_option jeq (mget m k) (mget env' k))"
proof -
  let ?h = "map_from pre"
  have wenv: "mwf env" unfolding env(1) by (rule mwf_mput[OF m])
  obtain a' where a': "aad_object env' = Inr a'" "mwf a'"
    and rel: "\<And>k. rel_option jeq (mget (mput e2eeKey (JObj ?h) (mdel (\<lambda>f. f \<in> set UB) m)) k) (mget a' k)"
    using aad_same_object[OF J wenv env(2) env' aad] aad_object_meta[OF m pre unb, of c] env(1) by auto
  obtain raw M U where inv: "mget env' e2eeKey = Some raw" "as_object raw = Some M"
    "(case mget (nil_map M) ''unbound_fields'' of
        None \<Rightarrow> Inr [] | Some r \<Rightarrow> opt_r (as_strings r) (EnvErr UnboundNotStrings)) = Inr U"
    "a' = mput e2eeKey (case M of None \<Rightarrow> JNull | Some m \<Rightarrow> JObj (mdel (\<lambda>k. k = ''ciphertext'') m))
           (mdel (\<lambda>f. f \<in> set U) env')"
    using aad_object_inv[OF a'(1)] by metis
  have "jeq (JObj ?h) (case M of None \<Rightarrow> JNull | Some m \<Rightarrow> JObj (mdel (\<lambda>k. k = ''ciphertext'') m))"
    using rel[of e2eeKey] m env' by (simp add: inv(4) mget_mput mwf_mdel del: e2eeKey_def)
  then obtain meta where meta: "M = Some meta" "jeq (JObj ?h) (JObj (mdel (\<lambda>k. k = ''ciphertext'') meta))"
    by (cases M) (auto elim: jeq_objE)
  have wf: "mwf meta" using as_object_wf[OF inv(2)] meta(1) by simp
  have mrel: "rel_option jeq (mget ?h k) (mget meta k)" if "k \<noteq> ''ciphertext''" for k
    using jeq_map[OF meta(2), of k] that wf by (simp add: mwf_mdel mget_mdel)
  have U: "U = UB"
    using mrel[of "''unbound_fields''"] inv(3) unb
    by (auto simp: meta(1) mget_map_from opt_r_eq_Inr dest!: jeq_strings
        split: option.splits if_splits)
  have "rel_option jeq (mget m k) (mget env' k)" if "k \<noteq> e2eeKey" "k \<notin> set UB" for k
    using rel[of k] that m env' by (simp add: inv(4) U map_simps)
  then show ?thesis using inv(1,2) meta(1) mrel by blast
qed

lemma aad_determines:
  assumes J: "canonical_faithful J" and m: "mwf m" "json_ok (JObj m)" "e_V e = 1"
    and env': "mwf env'" "json_ok (JObj env')"
    and aad: "aadFromEnvelope J (setE2EE e m) = Inr aad" "aadFromEnvelope J env' = Inr aad"
  shows "\<exists>raw meta. mget env' e2eeKey = Some raw \<and> as_object raw = Some (Some meta)
      \<and> (\<forall>k. k \<noteq> ''ciphertext'' \<longrightarrow> rel_option jeq (mget (map_from (e2ee_head e)) k) (mget meta k))
      \<and> (\<forall>k. k \<noteq> e2eeKey \<longrightarrow> k \<notin> set (e_UnboundFields e) \<longrightarrow> rel_option jeq (mget m k) (mget env' k))"
proof (rule aad_determines_meta[OF J m(1) e2ee_head_keys _ _ env' aad])
  show "setE2EE e m = mput e2eeKey (JObj (e2ee_head e @ [(''ciphertext'', JStr (e_Ciphertext e))])) m"
    by (simp add: setE2EE_def e2ee_json_head)
  show "json_ok (JObj (setE2EE e m))"
    unfolding setE2EE_def by (rule json_ok_mput[OF m(1,2) json_ok_e2ee_json[OF m(3)]])
qed

end
