(* ===== verification/Wire_RespRules.thy ===== *)
theory Wire_RespRules
  imports Wire_Aad
begin

text \<open>
  protocol/wire/response.go, the rules a response frame is held to on both ends: what it must seal,
  what must stay readable, what must stay inside the associated data, and the billable quantities
  the final frame states in cleartext.
\<close>

section \<open>What a frame must seal\<close>

definition alwaysSealedResponseFields :: "profileSpec \<Rightarrow> string list" where
  "alwaysSealedResponseFields s =
     map pf_name (filter (\<lambda>f. \<not> pf_optional f) (ps_responsePayload s))"

definition hasOptionalResponsePayload :: "profileSpec \<Rightarrow> bool" where
  "hasOptionalResponsePayload s = list_ex pf_optional (ps_responsePayload s)"

definition DefaultResponseSealedFieldsFor :: "Profile \<Rightarrow> string list" where
  "DefaultResponseSealedFieldsFor p =
     (case profile_spec p of
        Inl _ \<Rightarrow> []
      | Inr s \<Rightarrow> if ps_responseFrames s \<noteq> None \<or> hasOptionalResponsePayload s then []
                 else alwaysSealedResponseFields s)"

definition shapeOf :: "responseFrameRule \<Rightarrow> Response \<Rightarrow> werr + string \<times> frameShape" where
  "shapeOf r frame =
     bind_r (opt_r (mget frame (rf_discriminator r))
               (FrameErr (NoDiscriminator (rf_discriminator r)))) (\<lambda>raw.
     bind_r (opt_r (as_string raw) (FrameErr (DiscriminatorNotString (rf_discriminator r)))) (\<lambda>kind.
     bind_r (opt_r (map_of (rf_shapes r) kind) (FrameErr (UnknownShape kind))) (\<lambda>shape.
     Inr (kind, shape))))"

definition responseFieldsFor :: "profileSpec \<Rightarrow> Response \<Rightarrow> string list" where
  "responseFieldsFor s frame =
     map pf_name (filter (\<lambda>f. \<not> (pf_optional f \<and> \<not> mhas frame (pf_name f))) (ps_responsePayload s))"

definition ResponseSealedFieldsForFrame :: "Profile \<Rightarrow> Response \<Rightarrow> werr + string list" where
  "ResponseSealedFieldsForFrame p frame =
     bind_r (profile_spec p) (\<lambda>spec.
     case ps_responseFrames spec of
       None \<Rightarrow> Inr (responseFieldsFor spec frame)
     | Some rule \<Rightarrow> bind_r (shapeOf rule frame) (\<lambda>(_, shape). Inr (sealedFieldsFor shape frame)))"

definition IsTerminalResponseFrame :: "Profile \<Rightarrow> Response \<Rightarrow> werr + bool" where
  "IsTerminalResponseFrame p frame =
     bind_r (profile_spec p) (\<lambda>spec.
     case ps_responseFrames spec of
       None \<Rightarrow> Inr False
     | Some rule \<Rightarrow> bind_r (shapeOf rule frame) (\<lambda>(_, shape). Inr (fs_terminal shape)))"

definition ResponseFramesAreTyped :: "Profile \<Rightarrow> bool" where
  "ResponseFramesAreTyped p =
     (case profile_spec p of Inl _ \<Rightarrow> False | Inr spec \<Rightarrow> ps_responseFrames spec \<noteq> None)"

definition ResponseEventName :: "Profile \<Rightarrow> Response \<Rightarrow> werr + string" where
  "ResponseEventName p frame =
     bind_r (profile_spec p) (\<lambda>spec.
     case ps_responseFrames spec of
       None \<Rightarrow> Inr []
     | Some rule \<Rightarrow> bind_r (shapeOf rule frame) (\<lambda>(kind, _).
         bind_r (fail_if (list_ex is_newline kind) (FrameErr (LineBreak kind))) (\<lambda>_. Inr kind)))"

section \<open>What must stay readable and bound\<close>

definition mustStayCleartextInResponse :: "string list" where
  "mustStayCleartextInResponse = [''usage'', ''model'']"

definition mustStayBoundInResponse :: "string list" where
  "mustStayBoundInResponse = [''usage'']"

definition validateResponseUnboundFields :: "string list \<Rightarrow> werr + unit" where
  "validateResponseUnboundFields unbound =
     each_r (\<lambda>f. fail_if (f \<in> set mustStayBoundInResponse) (FrameErr (MustStayBound f))) unbound"

definition validateResponseUnboundFieldsFor :: "Profile \<Rightarrow> string list \<Rightarrow> werr + unit" where
  "validateResponseUnboundFieldsFor p unbound =
     bind_r (validateResponseUnboundFields unbound) (\<lambda>_.
     bind_r (profile_spec p) (\<lambda>spec.
     bind_r (case ps_responseFrames spec of
               None \<Rightarrow> Inr ()
             | Some rule \<Rightarrow> fail_if (rf_discriminator rule \<in> set unbound)
                 (FrameErr (MustStayBound (rf_discriminator rule)))) (\<lambda>_.
     bind_r (each_r (\<lambda>pc. fail_if (prot_field pc \<in> set unbound)
                (FrameErr (MustStayBound (prot_field pc)))) (ps_protected spec)) (\<lambda>_.
     bind_r (each_r (\<lambda>f. fail_if (f \<in> set unbound) (FrameErr (MustStayBound f))) (ps_bound spec)) (\<lambda>_.
     each_r (\<lambda>q. each_r (\<lambda>loc. fail_if (cn_field loc \<in> set unbound)
                (FrameErr (MustStayBound (cn_field loc)))) (cq_locators q))
       (ps_requiredResponseCleartext spec))))))"

definition validateProtectedCleartextFor ::
    "profileSpec \<Rightarrow> Response \<Rightarrow> string list \<Rightarrow> werr + unit" where
  "validateProtectedCleartextFor spec frame fs =
     each_r (\<lambda>pc.
       bind_r (fail_if (prot_field pc \<in> set fs) (FrameErr (MustStayCleartext (prot_field pc)))) (\<lambda>_.
       case mget frame (prot_field pc) of
         None \<Rightarrow> Inr ()
       | Some raw \<Rightarrow>
           bind_r (opt_r (as_object raw) (FrameErr (NotAnObject (prot_field pc)))) (\<lambda>obj.
           each_r (\<lambda>key. case mget (nil_map obj) key of
               None \<Rightarrow> Inr ()
             | Some v \<Rightarrow>
                 bind_r (opt_r (as_array v) (FrameErr (NotAnArray key))) (\<lambda>arr.
                 fail_if (arr \<noteq> []) (FrameErr (CleartextElements (prot_field pc) key (length arr)))))
             (prot_emptyArrays pc))))
       (ps_protected spec)"

section \<open>The sealed set of a frame\<close>

definition validateResponseSealedFieldNames :: "string list \<Rightarrow> werr + unit" where
  "validateResponseSealedFieldNames fs =
     check_names (\<lambda>f. fail_if (f \<in> set mustStayCleartextInResponse) (FrameErr (MustStayCleartext f)))
       no_check [] fs"

definition validateResponseSealedFields :: "string list \<Rightarrow> werr + unit" where
  "validateResponseSealedFields fs =
     bind_r (fail_if (fs = []) (SetErr NoSealedFields)) (\<lambda>_.
     validateResponseSealedFieldNames fs)"

definition validateResponseSealedFieldsFor :: "Profile \<Rightarrow> string list \<Rightarrow> werr + unit" where
  "validateResponseSealedFieldsFor p fs =
     bind_r (profile_spec p) (\<lambda>spec.
     bind_r (fail_if (ps_responseFrames spec \<noteq> None) (FrameErr FramesAreTyped)) (\<lambda>_.
     bind_r (validateResponseSealedFields fs) (\<lambda>_.
     each_r (\<lambda>f. fail_if (\<not> pf_optional f \<and> pf_name f \<notin> set fs) (SetErr (MissingPayload (pf_name f))))
       (ps_responsePayload spec))))"

definition validateQuantityLocatorsNotSealed :: "profileSpec \<Rightarrow> string list \<Rightarrow> werr + unit" where
  "validateQuantityLocatorsNotSealed spec fs =
     each_r (\<lambda>q. each_r (\<lambda>loc.
         if cn_field loc \<in> set mustStayCleartextInResponse then Inr ()
         else fail_if (cn_field loc \<in> set fs) (FrameErr (MustStayCleartext (cn_field loc))))
       (cq_locators q)) (ps_requiredResponseCleartext spec)"

definition validateResponseSealedIfPresent ::
    "profileSpec \<Rightarrow> Response \<Rightarrow> string list \<Rightarrow> werr + unit" where
  "validateResponseSealedIfPresent spec frame fs =
     each_r (\<lambda>f. fail_if (pf_optional f \<and> mhas frame (pf_name f) \<and> pf_name f \<notin> set fs)
                   (FrameErr (CleartextContent (pf_name f)))) (ps_responsePayload spec)"

definition validateNoCleartextContent ::
    "responseFrameRule \<Rightarrow> Response \<Rightarrow> string list \<Rightarrow> werr + unit" where
  "validateNoCleartextContent rule frame fs =
     each_r (\<lambda>f. fail_if (mhas frame f \<and> f \<notin> set fs) (FrameErr (CleartextContent f)))
       (contentFields rule)"

definition validateResponseSealedFieldsForFrame ::
    "Profile \<Rightarrow> Response \<Rightarrow> string list \<Rightarrow> werr + unit" where
  "validateResponseSealedFieldsForFrame p frame fs =
     bind_r (profile_spec p) (\<lambda>spec.
     bind_r (validateProtectedCleartextFor spec frame fs) (\<lambda>_.
     bind_r (validateQuantityLocatorsNotSealed spec fs) (\<lambda>_.
     bind_r (each_r (\<lambda>f. fail_if (f \<in> set fs) (FrameErr (MustStayCleartext f))) (ps_bound spec)) (\<lambda>_.
     case ps_responseFrames spec of
       None \<Rightarrow>
         bind_r (validateResponseSealedFieldsFor p fs) (\<lambda>_.
         validateResponseSealedIfPresent spec frame fs)
     | Some rule \<Rightarrow>
         bind_r (fail_if (rf_discriminator rule \<in> set fs)
                   (FrameErr (MustStayCleartext (rf_discriminator rule)))) (\<lambda>_.
         bind_r (validateResponseSealedFieldNames fs) (\<lambda>_.
         bind_r (shapeOf rule frame) (\<lambda>(kind, shape).
         let required = sealedFieldsFor shape frame in
         bind_r (fail_if (required = [] \<and> fs \<noteq> []) (FrameErr (SealsNothing kind))) (\<lambda>_.
         bind_r (each_r (\<lambda>f. fail_if (f \<notin> set fs) (FrameErr (FrameMustSeal f))) required) (\<lambda>_.
         validateNoCleartextContent rule frame fs)))))))))"

section \<open>Billable quantities\<close>

definition float_of_int64 :: "int \<Rightarrow> rat" where
  "float_of_int64 n = (case round_f64 (of_int n) of Some x \<Rightarrow> x | None \<Rightarrow> of_int n)"

definition parseCleartextNumber ::
    "cleartextQuantity \<Rightarrow> cleartextNumber \<Rightarrow> json \<Rightarrow> werr + rat" where
  "parseCleartextNumber q loc raw =
     (let name = cleartextNumber_String loc in
      case cq_kind q of
        numberWhole \<Rightarrow>
          bind_r (opt_r (as_int64 raw) (QuantityErr (NotWhole name))) (\<lambda>r.
          bind_r (opt_r r (QuantityErr (NullNumber name))) (\<lambda>n.
          bind_r (fail_if (n < 0) (QuantityErr (NegativeNumber name))) (\<lambda>_.
          Inr (float_of_int64 n))))
      | numberFractional \<Rightarrow>
          bind_r (opt_r (as_float64 raw) (QuantityErr (NotNumber name))) (\<lambda>r.
          bind_r (opt_r r (QuantityErr (NullNumber name))) (\<lambda>x.
          bind_r (fail_if (f64_value x < 0) (QuantityErr (NegativeNumber name))) (\<lambda>_.
          Inr (f64_value x)))))"

text \<open>One locator: \<open>None\<close> when the frame does not carry it.\<close>

definition read_locator ::
    "cleartextQuantity \<Rightarrow> Response \<Rightarrow> cleartextNumber \<Rightarrow> werr + rat option" where
  "read_locator q frame loc =
     (case mget frame (cn_field loc) of
        None \<Rightarrow> Inr None
      | Some raw \<Rightarrow>
          if cn_key loc = [] then bind_r (parseCleartextNumber q loc raw) (\<lambda>n. Inr (Some n))
          else
            bind_r (opt_r (as_object raw) (FrameErr (NotAnObject (cn_field loc)))) (\<lambda>o1.
            bind_r (opt_r o1 (QuantityErr (NullBlock (cn_field loc)))) (\<lambda>obj.
            case mget obj (cn_key loc) of
              None \<Rightarrow> Inr None
            | Some inner \<Rightarrow> bind_r (parseCleartextNumber q loc inner) (\<lambda>n. Inr (Some n)))))"

fun read_locators ::
    "cleartextQuantity \<Rightarrow> Response \<Rightarrow> cleartextNumber list \<Rightarrow> werr + (cleartextNumber \<times> rat) list" where
  "read_locators q frame [] = Inr []"
| "read_locators q frame (loc # locs) =
     bind_r (read_locator q frame loc) (\<lambda>n.
     bind_r (read_locators q frame locs) (\<lambda>found.
     Inr (case n of None \<Rightarrow> found | Some v \<Rightarrow> (loc, v) # found)))"

definition validateCleartextQuantity :: "cleartextQuantity \<Rightarrow> Response \<Rightarrow> werr + unit" where
  "validateCleartextQuantity q frame =
     bind_r (read_locators q frame (cq_locators q)) (\<lambda>found.
     bind_r (fail_if (found = []) (QuantityErr (QuantityMissing (cq_what q)))) (\<lambda>_.
     each_r (\<lambda>r. fail_if (snd r \<noteq> snd (hd found)) (QuantityErr (QuantityDisagrees (cq_what q))))
       (tl found)))"

definition validateResponseCleartextFor :: "Profile \<Rightarrow> Response \<Rightarrow> werr + unit" where
  "validateResponseCleartextFor p frame =
     bind_r (profile_spec p) (\<lambda>spec.
     each_r (\<lambda>q. validateCleartextQuantity q frame) (ps_requiredResponseCleartext spec))"

end
