(* ===== verification/Wire_Response.thy ===== *)
theory Wire_Response
  imports Wire_RespRules
begin

text \<open>
  protocol/wire/response.go, the stateful half, and protocol/wire/respbind.go: a sealer and an
  opener of a sequence of frames under one HPKE context, in base mode or in mode_psk keyed by the
  binding value of the request. Every operation returns the updated sealer or opener; an operation
  that fails leaves it as it was.
\<close>

section \<open>The metadata object of a frame\<close>

definition RespInfo :: string where [simp]: "RespInfo = ''0g-pc/v1/resp''"
definition RespBindInfo :: string where [simp]: "RespBindInfo = ''0g-pc/v1/resp-bind''"
definition RespBindPSKID :: string where [simp]: "RespBindPSKID = ''0g-pc/v1/resp-bind''"
definition respBindLen :: nat where [simp]: "respBindLen = 32"
definition ephPrivLen :: nat where [simp]: "ephPrivLen = 32"

record ResponseE2EE =
  re_V :: int
  re_Enc :: string
  re_SealedFields :: "string list"
  re_UnboundFields :: "string list"
  re_Final :: bool
  re_Ciphertext :: string

definition re_zero :: ResponseE2EE where
  "re_zero = \<lparr>re_V = 0, re_Enc = [], re_SealedFields = [], re_UnboundFields = [],
     re_Final = False, re_Ciphertext = []\<rparr>"

definition re_names :: "string list" where
  "re_names = [''v'', ''enc'', ''sealed_fields'', ''unbound_fields'', ''final'', ''ciphertext'']"

definition re_set :: "string \<Rightarrow> json \<Rightarrow> ResponseE2EE \<Rightarrow> ResponseE2EE option" where
  "re_set n x e =
     (if n = ''v'' then map_option (\<lambda>i. e\<lparr>re_V := i\<rparr>) (int_into x (re_V e))
      else if n = ''enc'' then map_option (\<lambda>s. e\<lparr>re_Enc := s\<rparr>) (str_into x (re_Enc e))
      else if n = ''sealed_fields'' then map_option (\<lambda>ss. e\<lparr>re_SealedFields := ss\<rparr>) (as_strings x)
      else if n = ''unbound_fields''
        then map_option (\<lambda>ss. e\<lparr>re_UnboundFields := ss\<rparr>) (as_strings x)
      else if n = ''final'' then map_option (\<lambda>b. e\<lparr>re_Final := b\<rparr>) (bool_into x (re_Final e))
      else map_option (\<lambda>s. e\<lparr>re_Ciphertext := s\<rparr>) (str_into x (re_Ciphertext e)))"

definition decodeResponseE2EE :: "Response \<Rightarrow> werr + ResponseE2EE" where
  "decodeResponseE2EE r =
     bind_r (opt_r (mget r e2eeKey) (EnvErr NoE2EE)) (\<lambda>raw.
     opt_r (decode_struct re_names re_set re_zero raw) (EnvErr DecodeE2EE))"

definition re_json :: "ResponseE2EE \<Rightarrow> json" where
  "re_json e = JObj
     (omit_empty (re_V e = 0) (''v'', JNum (show_int (re_V e)))
      @ omit_empty (re_Enc e = []) (''enc'', JStr (re_Enc e))
      @ [(''sealed_fields'', str_array (re_SealedFields e))]
      @ omit_empty (re_UnboundFields e = []) (''unbound_fields'', str_array (re_UnboundFields e))
      @ [(''final'', JBool (re_Final e)), (''ciphertext'', JStr (re_Ciphertext e))])"

definition setResponseE2EE :: "ResponseE2EE \<Rightarrow> Response \<Rightarrow> Response" where
  "setResponseE2EE e r = mput e2eeKey (re_json e) r"

section \<open>Sealing\<close>

record 'ctx ResponseSealer =
  rs_sealer :: 'ctx
  rs_enc :: string
  rs_first :: bool
  rs_unbound :: "string list"
  rs_profile :: Profile
  rs_nonConforming :: bool

definition rs_validateSealedFields ::
    "'ctx ResponseSealer \<Rightarrow> Response \<Rightarrow> string list \<Rightarrow> werr + unit" where
  "rs_validateSealedFields rs frame sealedFields =
     (if rs_nonConforming rs then validateResponseSealedFields sealedFields
      else validateResponseSealedFieldsForFrame (rs_profile rs) frame sealedFields)"

definition newResponseSealer ::
    "('pk, 'sk, 'ctx) hpke \<Rightarrow> Profile \<Rightarrow> bytes \<Rightarrow> bytes option \<Rightarrow> string list \<Rightarrow> bytes \<Rightarrow>
     werr + 'ctx ResponseSealer" where
  "newResponseSealer H profile clientEphPub psk unboundFields rnd =
     bind_r (profile_spec profile) (\<lambda>spec.
     bind_r (fail_if (psk = None \<and> requiresBind spec) (BindErr NeedsBind)) (\<lambda>_.
     bind_r (validateResponseUnboundFieldsFor profile unboundFields) (\<lambda>_.
     bind_r (crypto_r (case psk of
                Some k \<Rightarrow> SetupSenderPSK H clientEphPub RespInfo k RespBindPSKID rnd
              | None \<Rightarrow> SetupSender H clientEphPub RespInfo rnd)) (\<lambda>(enc, s).
     Inr \<lparr>rs_sealer = s, rs_enc = b64_encode enc, rs_first = True, rs_unbound = unboundFields,
          rs_profile = profile, rs_nonConforming = False\<rparr>))))"

definition NewResponseSealerFor ::
    "('pk, 'sk, 'ctx) hpke \<Rightarrow> Profile \<Rightarrow> bytes \<Rightarrow> string list \<Rightarrow> bytes \<Rightarrow>
     werr + 'ctx ResponseSealer" where
  "NewResponseSealerFor H profile clientEphPub unboundFields rnd =
     newResponseSealer H profile clientEphPub None unboundFields rnd"

definition SealFrame ::
    "('pk, 'sk, 'ctx) hpke \<Rightarrow> (bytes \<Rightarrow> bytes option) \<Rightarrow> 'ctx ResponseSealer \<Rightarrow> Response \<Rightarrow>
     string list option \<Rightarrow> bool \<Rightarrow> werr + Response \<times> 'ctx ResponseSealer" where
  "SealFrame H J rs frame sealedFields0 fin =
     bind_r (case sealedFields0 of
               None \<Rightarrow> ResponseSealedFieldsForFrame (rs_profile rs) frame
             | Some fs \<Rightarrow> Inr fs) (\<lambda>sealedFields.
     bind_r (rs_validateSealedFields rs frame sealedFields) (\<lambda>_.
     bind_r (ValidateUnboundFields (rs_unbound rs) sealedFields) (\<lambda>_.
     bind_r (if fin \<and> \<not> rs_nonConforming rs then validateResponseCleartextFor (rs_profile rs) frame
             else Inr ()) (\<lambda>_.
     bind_r (sealed_object frame sealedFields []) (\<lambda>sealedObj.
     bind_r (fail_if (mhas frame e2eeKey) (EnvErr HasE2EE)) (\<lambda>_.
     let pt = json_print (JObj sealedObj);
         out = mdel (\<lambda>k. k \<in> set sealedFields) frame;
         e2ee = \<lparr>re_V = (if rs_first rs then Version else 0),
                 re_Enc = (if rs_first rs then rs_enc rs else []),
                 re_SealedFields = sealedFields, re_UnboundFields = rs_unbound rs,
                 re_Final = fin, re_Ciphertext = []\<rparr> in
     bind_r (aadFromEnvelope J (setResponseE2EE e2ee out)) (\<lambda>aad.
     bind_r (crypto_r (SealerSeal H (rs_sealer rs) pt aad)) (\<lambda>(ct, s').
     Inr (setResponseE2EE (e2ee\<lparr>re_Ciphertext := b64_encode ct\<rparr>) out,
          rs\<lparr>rs_sealer := s', rs_first := False\<rparr>)))))))))"

section \<open>Opening\<close>

record 'ctx ResponseOpener =
  ro_opener :: 'ctx
  ro_profile :: Profile

definition newResponseOpener ::
    "('pk, 'sk, 'ctx) hpke \<Rightarrow> Profile \<Rightarrow> bytes \<Rightarrow> Response \<Rightarrow> bytes option \<Rightarrow>
     werr + 'ctx ResponseOpener" where
  "newResponseOpener H profile clientEphPriv firstFrame psk =
     bind_r (profile_spec profile) (\<lambda>spec.
     bind_r (fail_if (psk = None \<and> requiresBind spec) (BindErr NeedsBind)) (\<lambda>_.
     bind_r (decodeResponseE2EE firstFrame) (\<lambda>e2ee.
     bind_r (fail_if (re_V e2ee \<noteq> Version) (EnvErr (BadVersion (re_V e2ee)))) (\<lambda>_.
     bind_r (fail_if (re_Enc e2ee = []) (BindErr MissingEnc)) (\<lambda>_.
     bind_r (opt_r (b64_decode False (re_Enc e2ee)) (EnvErr BadEnc)) (\<lambda>enc.
     bind_r (crypto_r (case psk of
                Some k \<Rightarrow> SetupReceiverPSK H clientEphPriv enc RespInfo k RespBindPSKID
              | None \<Rightarrow> SetupReceiver H clientEphPriv enc RespInfo)) (\<lambda>opener.
     Inr \<lparr>ro_opener = opener, ro_profile = profile\<rparr>)))))))"

definition NewResponseOpenerFor ::
    "('pk, 'sk, 'ctx) hpke \<Rightarrow> Profile \<Rightarrow> bytes \<Rightarrow> Response \<Rightarrow> werr + 'ctx ResponseOpener" where
  "NewResponseOpenerFor H profile clientEphPriv firstFrame =
     newResponseOpener H profile clientEphPriv firstFrame None"

definition OpenFrame ::
    "('pk, 'sk, 'ctx) hpke \<Rightarrow> (bytes \<Rightarrow> bytes option) \<Rightarrow> 'ctx ResponseOpener \<Rightarrow> Response \<Rightarrow>
     werr + Response \<times> 'ctx ResponseOpener" where
  "OpenFrame H J ro frame =
     bind_r (decodeResponseE2EE frame) (\<lambda>e2ee.
     bind_r (validateResponseUnboundFieldsFor (ro_profile ro) (re_UnboundFields e2ee)) (\<lambda>_.
     bind_r (validateResponseSealedFieldsForFrame (ro_profile ro) frame (re_SealedFields e2ee)) (\<lambda>_.
     bind_r (if re_Final e2ee then validateResponseCleartextFor (ro_profile ro) frame
             else Inr ()) (\<lambda>_.
     bind_r (opt_r (b64_decode False (re_Ciphertext e2ee)) (EnvErr BadCiphertext)) (\<lambda>ct.
     bind_r (aadFromEnvelope J frame) (\<lambda>aad.
     bind_r (crypto_r (OpenerOpen H (ro_opener ro) ct aad)) (\<lambda>(pt, o').
     bind_r (reconstruct frame (re_SealedFields e2ee) pt) (\<lambda>out.
     Inr (out, ro\<lparr>ro_opener := o'\<rparr>)))))))))"

section \<open>Single-frame responses\<close>

definition SealResponseFor ::
    "('pk, 'sk, 'ctx) hpke \<Rightarrow> (bytes \<Rightarrow> bytes option) \<Rightarrow> Profile \<Rightarrow> bytes \<Rightarrow> Response \<Rightarrow>
     string list option \<Rightarrow> string list \<Rightarrow> bytes \<Rightarrow> werr + Response" where
  "SealResponseFor H J profile clientEphPub resp sealedFields unboundFields rnd =
     bind_r (NewResponseSealerFor H profile clientEphPub unboundFields rnd) (\<lambda>rs.
     bind_r (SealFrame H J rs resp sealedFields True) (\<lambda>(out, _). Inr out))"

definition OpenResponseFor ::
    "('pk, 'sk, 'ctx) hpke \<Rightarrow> (bytes \<Rightarrow> bytes option) \<Rightarrow> Profile \<Rightarrow> bytes \<Rightarrow> Response \<Rightarrow>
     werr + Response" where
  "OpenResponseFor H J profile clientEphPriv resp =
     bind_r (decodeResponseE2EE resp) (\<lambda>e2ee.
     bind_r (fail_if (\<not> re_Final e2ee) (BindErr NotFinal)) (\<lambda>_.
     bind_r (NewResponseOpenerFor H profile clientEphPriv resp) (\<lambda>ro.
     bind_r (OpenFrame H J ro resp) (\<lambda>(out, _). Inr out))))"

text \<open>The chat-profile shorthands.\<close>

definition NewResponseSealer ::
    "('pk, 'sk, 'ctx) hpke \<Rightarrow> bytes \<Rightarrow> string list \<Rightarrow> bytes \<Rightarrow> werr + 'ctx ResponseSealer" where
  "NewResponseSealer H clientEphPub unboundFields rnd =
     NewResponseSealerFor H ProfileChat clientEphPub unboundFields rnd"

definition NewResponseOpener ::
    "('pk, 'sk, 'ctx) hpke \<Rightarrow> bytes \<Rightarrow> Response \<Rightarrow> werr + 'ctx ResponseOpener" where
  "NewResponseOpener H clientEphPriv firstFrame =
     NewResponseOpenerFor H ProfileChat clientEphPriv firstFrame"

definition SealResponse ::
    "('pk, 'sk, 'ctx) hpke \<Rightarrow> (bytes \<Rightarrow> bytes option) \<Rightarrow> bytes \<Rightarrow> Response \<Rightarrow>
     string list option \<Rightarrow> string list \<Rightarrow> bytes \<Rightarrow> werr + Response" where
  "SealResponse H J clientEphPub resp sealedFields unboundFields rnd =
     SealResponseFor H J ProfileChat clientEphPub resp sealedFields unboundFields rnd"

definition OpenResponse ::
    "('pk, 'sk, 'ctx) hpke \<Rightarrow> (bytes \<Rightarrow> bytes option) \<Rightarrow> bytes \<Rightarrow> Response \<Rightarrow> werr + Response" where
  "OpenResponse H J clientEphPriv resp = OpenResponseFor H J ProfileChat clientEphPriv resp"

section \<open>The response binding\<close>

definition ResponseBindApplies :: "Profile \<Rightarrow> bool" where
  "ResponseBindApplies profile =
     (case profile_spec profile of Inl _ \<Rightarrow> False | Inr spec \<Rightarrow> \<not> requiresBind spec)"

definition DeriveResponseBind :: "bytes \<Rightarrow> werr + bytes" where
  "DeriveResponseBind ephPriv =
     bind_r (fail_if (length ephPriv \<noteq> ephPrivLen) (BindErr (BadEphPrivLen (length ephPriv)))) (\<lambda>_.
     Inr (hkdf_key32 ephPriv RespBindInfo))"

definition AttachResponseBind :: "Profile \<Rightarrow> Request \<Rightarrow> bytes \<Rightarrow> werr + Request" where
  "AttachResponseBind profile req ephPriv =
     bind_r (profile_spec profile) (\<lambda>_.
     bind_r (fail_if (mhas req fieldBind) (BindErr BindReserved)) (\<lambda>_.
     bind_r (DeriveResponseBind ephPriv) (\<lambda>bind.
     Inr (mput fieldBind (JStr (b64_encode bind)) req))))"

definition decodeBind :: "json \<Rightarrow> werr + bytes" where
  "decodeBind raw =
     bind_r (opt_r (as_string raw) (BindErr BindNotString)) (\<lambda>s.
     bind_r (opt_r (b64_decode True s) (BindErr BindEncoding)) (\<lambda>b.
     bind_r (fail_if (length b \<noteq> respBindLen) (BindErr (BadBindLen (length b)))) (\<lambda>_.
     Inr b)))"

definition TakeResponseBind :: "Profile \<Rightarrow> Request \<Rightarrow> werr + bytes option \<times> Request" where
  "TakeResponseBind profile opened =
     bind_r (profile_spec profile) (\<lambda>spec.
     case mget opened fieldBind of
       None \<Rightarrow> bind_r (fail_if (requiresBind spec) (BindErr NoBind)) (\<lambda>_. Inr (None, opened))
     | Some raw \<Rightarrow> bind_r (decodeBind raw) (\<lambda>bind.
         Inr (Some bind, mdel (\<lambda>k. k = fieldBind) opened)))"

definition NewBoundResponseSealerFor ::
    "('pk, 'sk, 'ctx) hpke \<Rightarrow> Profile \<Rightarrow> bytes \<Rightarrow> bytes \<Rightarrow> string list \<Rightarrow> bytes \<Rightarrow>
     werr + 'ctx ResponseSealer" where
  "NewBoundResponseSealerFor H profile clientEphPub bind unboundFields rnd =
     bind_r (fail_if (length bind \<noteq> respBindLen) (BindErr (BadBindLen (length bind)))) (\<lambda>_.
     newResponseSealer H profile clientEphPub (Some bind) unboundFields rnd)"

definition SealBoundResponseFor ::
    "('pk, 'sk, 'ctx) hpke \<Rightarrow> (bytes \<Rightarrow> bytes option) \<Rightarrow> Profile \<Rightarrow> bytes \<Rightarrow> bytes \<Rightarrow> Response \<Rightarrow>
     string list option \<Rightarrow> string list \<Rightarrow> bytes \<Rightarrow> werr + Response" where
  "SealBoundResponseFor H J profile clientEphPub bind resp sealedFields unboundFields rnd =
     bind_r (NewBoundResponseSealerFor H profile clientEphPub bind unboundFields rnd) (\<lambda>rs.
     bind_r (SealFrame H J rs resp sealedFields True) (\<lambda>(out, _). Inr out))"

definition NewBoundResponseOpenerFor ::
    "('pk, 'sk, 'ctx) hpke \<Rightarrow> Profile \<Rightarrow> bytes \<Rightarrow> Response \<Rightarrow> werr + 'ctx ResponseOpener" where
  "NewBoundResponseOpenerFor H profile clientEphPriv firstFrame =
     bind_r (DeriveResponseBind clientEphPriv) (\<lambda>bind.
     newResponseOpener H profile clientEphPriv firstFrame (Some bind))"

definition OpenBoundResponseFor ::
    "('pk, 'sk, 'ctx) hpke \<Rightarrow> (bytes \<Rightarrow> bytes option) \<Rightarrow> Profile \<Rightarrow> bytes \<Rightarrow> Response \<Rightarrow>
     werr + Response" where
  "OpenBoundResponseFor H J profile clientEphPriv resp =
     bind_r (decodeResponseE2EE resp) (\<lambda>e2ee.
     bind_r (fail_if (\<not> re_Final e2ee) (BindErr NotFinal)) (\<lambda>_.
     bind_r (NewBoundResponseOpenerFor H profile clientEphPriv resp) (\<lambda>ro.
     bind_r (OpenFrame H J ro resp) (\<lambda>(out, _). Inr out))))"

section \<open>Diagnostics\<close>

record FrameDebug =
  fd_Version :: int
  fd_HasEnc :: bool
  fd_Final :: bool
  fd_SealedFields :: "string list"
  fd_UnboundFields :: "string list"
  fd_CleartextKeys :: "string list"
  fd_CiphertextLen :: int
  fd_E2EEErr :: "werr option"

definition Debug :: "Response \<Rightarrow> FrameDebug" where
  "Debug r =
     (let d = \<lparr>fd_Version = 0, fd_HasEnc = False, fd_Final = False, fd_SealedFields = [],
               fd_UnboundFields = [], fd_CleartextKeys = sort (filter (\<lambda>k. k \<noteq> e2eeKey) (mkeys r)),
               fd_CiphertextLen = -1, fd_E2EEErr = None\<rparr> in
      case decodeResponseE2EE r of
        Inl err \<Rightarrow> d\<lparr>fd_E2EEErr := Some err\<rparr>
      | Inr e \<Rightarrow>
          d\<lparr>fd_Version := re_V e, fd_HasEnc := re_Enc e \<noteq> [], fd_Final := re_Final e,
            fd_SealedFields := re_SealedFields e, fd_UnboundFields := re_UnboundFields e,
            fd_CiphertextLen := (case b64_decode False (re_Ciphertext e) of
                                   Some ct \<Rightarrow> int (length ct) | None \<Rightarrow> -1)\<rparr>)"

end
