(* ===== verification/Wire_RespFacts.thy ===== *)
theory Wire_RespFacts
  imports Wire_Response
begin

text \<open>
  What the rules of a response frame amount to, that they hold of the sealed frame whenever they
  held of the plain one, and the metadata of a frame read back after it was written.
\<close>

section \<open>The rules as conjunctions\<close>

text \<open>A protected field is unsealed, an object where present, and its named arrays are empty.\<close>

definition protected_ok :: "protectedCleartext \<Rightarrow> Response \<Rightarrow> string list \<Rightarrow> bool" where
  "protected_ok pc frame fs \<longleftrightarrow> prot_field pc \<notin> set fs
     \<and> (\<forall>raw. mget frame (prot_field pc) = Some raw \<longrightarrow>
          (\<exists>obj. as_object raw = Some obj
             \<and> (\<forall>key\<in>set (prot_emptyArrays pc). \<forall>v. mget (nil_map obj) key = Some v \<longrightarrow> as_array v = Some [])))"

lemma validateProtectedCleartextFor_ok:
  "validateProtectedCleartextFor spec frame fs = Inr () \<longleftrightarrow>
     (\<forall>pc\<in>set (ps_protected spec). protected_ok pc frame fs)"
  by (auto simp: validateProtectedCleartextFor_def protected_ok_def result_inv split: option.splits)

lemma validateResponseSealedFieldNames_ok:
  "validateResponseSealedFieldNames fs = Inr () \<longleftrightarrow>
     distinct fs \<and> [] \<notin> set fs \<and> e2eeKey \<notin> set fs \<and> ''usage'' \<notin> set fs \<and> ''model'' \<notin> set fs"
  by (auto simp: validateResponseSealedFieldNames_def check_names_ok result_inv
      mustStayCleartextInResponse_def)

definition bound_set_ok :: "profileSpec \<Rightarrow> string list \<Rightarrow> bool" where
  "bound_set_ok spec unbound \<longleftrightarrow> ''usage'' \<notin> set unbound
     \<and> (\<forall>rule. ps_responseFrames spec = Some rule \<longrightarrow> rf_discriminator rule \<notin> set unbound)
     \<and> (\<forall>pc\<in>set (ps_protected spec). prot_field pc \<notin> set unbound)
     \<and> set (ps_bound spec) \<inter> set unbound = {}
     \<and> (\<forall>q\<in>set (ps_requiredResponseCleartext spec). \<forall>loc\<in>set (cq_locators q). cn_field loc \<notin> set unbound)"

lemma validateResponseUnboundFieldsFor_ok:
  "validateResponseUnboundFieldsFor p unbound = Inr () \<longleftrightarrow>
     (\<exists>spec. profile_spec p = Inr spec \<and> bound_set_ok spec unbound)"
  by (auto simp: validateResponseUnboundFieldsFor_def validateResponseUnboundFields_def result_inv
      mustStayBoundInResponse_def bound_set_ok_def split: option.splits)

text \<open>The sealed-set rule of a frame: the part every profile shares, and the two kinds of profile.\<close>

definition common_set_ok :: "profileSpec \<Rightarrow> Response \<Rightarrow> string list \<Rightarrow> bool" where
  "common_set_ok spec frame fs \<longleftrightarrow>
     (\<forall>pc\<in>set (ps_protected spec). protected_ok pc frame fs)
     \<and> distinct fs \<and> [] \<notin> set fs \<and> e2eeKey \<notin> set fs \<and> ''usage'' \<notin> set fs \<and> ''model'' \<notin> set fs
     \<and> (\<forall>q\<in>set (ps_requiredResponseCleartext spec). \<forall>loc\<in>set (cq_locators q). cn_field loc \<notin> set fs)
     \<and> set (ps_bound spec) \<inter> set fs = {}"

definition single_set_ok :: "profileSpec \<Rightarrow> Response \<Rightarrow> string list \<Rightarrow> bool" where
  "single_set_ok spec frame fs \<longleftrightarrow> fs \<noteq> []
     \<and> (\<forall>f\<in>set (ps_responsePayload spec). \<not> pf_optional f \<or> mhas frame (pf_name f) \<longrightarrow> pf_name f \<in> set fs)"

definition typed_set_ok :: "responseFrameRule \<Rightarrow> Response \<Rightarrow> string list \<Rightarrow> bool" where
  "typed_set_ok rule frame fs \<longleftrightarrow> rf_discriminator rule \<notin> set fs
     \<and> (\<exists>kind shape. shapeOf rule frame = Inr (kind, shape)
          \<and> (sealedFieldsFor shape frame = [] \<longrightarrow> fs = [])
          \<and> set (sealedFieldsFor shape frame) \<subseteq> set fs)
     \<and> (\<forall>f\<in>set (contentFields rule). mhas frame f \<longrightarrow> f \<in> set fs)"

definition frame_set_ok :: "profileSpec \<Rightarrow> Response \<Rightarrow> string list \<Rightarrow> bool" where
  "frame_set_ok spec frame fs \<longleftrightarrow> common_set_ok spec frame fs
     \<and> (case ps_responseFrames spec of
          None \<Rightarrow> single_set_ok spec frame fs | Some rule \<Rightarrow> typed_set_ok rule frame fs)"

lemma validateQuantityLocatorsNotSealed_ok:
  "validateQuantityLocatorsNotSealed spec fs = Inr () \<longleftrightarrow>
     (\<forall>q\<in>set (ps_requiredResponseCleartext spec). \<forall>loc\<in>set (cq_locators q).
        cn_field loc \<noteq> ''usage'' \<and> cn_field loc \<noteq> ''model'' \<longrightarrow> cn_field loc \<notin> set fs)"
  by (auto simp: validateQuantityLocatorsNotSealed_def result_inv mustStayCleartextInResponse_def)

lemma quantity_names:
  "''usage'' \<notin> A \<Longrightarrow> ''model'' \<notin> A \<Longrightarrow>
   (\<forall>q\<in>Q. \<forall>loc\<in>set (cq_locators q).
      cn_field loc \<noteq> ''usage'' \<and> cn_field loc \<noteq> ''model'' \<longrightarrow> cn_field loc \<notin> A) \<longleftrightarrow>
   (\<forall>q\<in>Q. \<forall>loc\<in>set (cq_locators q). cn_field loc \<notin> A)"
  by metis

lemma single_rule_ok:
  "bind_r (validateResponseSealedFieldsFor p fs) (\<lambda>_. validateResponseSealedIfPresent spec frame fs) = Inr ()
   \<longleftrightarrow> validateResponseSealedFieldNames fs = Inr () \<and> single_set_ok spec frame fs"
  if "profile_spec p = Inr spec" "ps_responseFrames spec = None"
  using that
  by (auto simp: validateResponseSealedFieldsFor_def validateResponseSealedFields_def result_inv
      validateResponseSealedIfPresent_def single_set_ok_def)

lemma validateResponseSealedFieldsForFrame_ok:
  "validateResponseSealedFieldsForFrame p frame fs = Inr () \<longleftrightarrow>
     (\<exists>spec. profile_spec p = Inr spec \<and> frame_set_ok spec frame fs)"
proof (cases "profile_spec p")
  case (Inr spec)
  note common = validateProtectedCleartextFor_ok validateQuantityLocatorsNotSealed_ok
    validateResponseSealedFieldNames_ok common_set_ok_def frame_set_ok_def
  show ?thesis
  proof (cases "ps_responseFrames spec")
    case None
    have "validateResponseSealedFieldsForFrame p frame fs = Inr () \<longleftrightarrow>
        validateProtectedCleartextFor spec frame fs = Inr ()
        \<and> validateQuantityLocatorsNotSealed spec fs = Inr () \<and> set (ps_bound spec) \<inter> set fs = {}
        \<and> validateResponseSealedFieldNames fs = Inr () \<and> single_set_ok spec frame fs"
      using single_rule_ok[OF Inr None, of fs frame] Inr None
      by (auto simp: validateResponseSealedFieldsForFrame_def bind_r_eq_Inr each_r_eq_Inr fail_if_eq_Inr)
    also have "\<dots> \<longleftrightarrow> frame_set_ok spec frame fs"
      using None quantity_names[of "set fs" "set (ps_requiredResponseCleartext spec)"]
      by (simp add: common) blast
    finally show ?thesis using Inr by simp
  next
    case (Some rule)
    have "validateResponseSealedFieldsForFrame p frame fs = Inr () \<longleftrightarrow>
        validateProtectedCleartextFor spec frame fs = Inr ()
        \<and> validateQuantityLocatorsNotSealed spec fs = Inr () \<and> set (ps_bound spec) \<inter> set fs = {}
        \<and> validateResponseSealedFieldNames fs = Inr () \<and> typed_set_ok rule frame fs"
      using Inr Some
      by (auto simp: validateResponseSealedFieldsForFrame_def result_inv Let_def typed_set_ok_def
          validateNoCleartextContent_def)
    also have "\<dots> \<longleftrightarrow> frame_set_ok spec frame fs"
      using Some quantity_names[of "set fs" "set (ps_requiredResponseCleartext spec)"]
      by (simp add: common) blast
    finally show ?thesis using Inr by simp
  qed
qed (simp add: validateResponseSealedFieldsForFrame_def)

section \<open>From the plain frame to the sealed one\<close>

text \<open>\<open>halves frame fs out\<close>: \<open>out\<close> is \<open>frame\<close> without \<open>fs\<close>, apart from the metadata.\<close>

definition halves :: "Response \<Rightarrow> string list \<Rightarrow> Response \<Rightarrow> bool" where
  "halves frame fs out \<longleftrightarrow>
     (\<forall>k. k \<noteq> e2eeKey \<longrightarrow> mget out k = (if k \<in> set fs then None else mget frame k))"

lemma halvesD: "halves frame fs out \<Longrightarrow> k \<noteq> e2eeKey \<Longrightarrow> k \<notin> set fs \<Longrightarrow> mget out k = mget frame k"
  by (simp add: halves_def)

lemma halves_has: "halves frame fs out \<Longrightarrow> k \<noteq> e2eeKey \<Longrightarrow> mhas out k \<Longrightarrow> mhas frame k \<and> k \<notin> set fs"
  by (auto simp: halves_def mhas_def split: if_splits)

lemma response_names_not_reserved:
  assumes "profile_spec p = Inr spec"
  shows "\<forall>f\<in>set (ps_responsePayload spec). pf_name f \<noteq> e2eeKey"
    "\<forall>pc\<in>set (ps_protected spec). prot_field pc \<noteq> e2eeKey"
    "\<forall>q\<in>set (ps_requiredResponseCleartext spec). \<forall>loc\<in>set (cq_locators q). cn_field loc \<noteq> e2eeKey"
    "ps_responseFrames spec = None \<or> ps_responseFrames spec = Some anthropicFrames"
  using assms by (auto elim!: profile_spec_cases simp: spec_defs)

lemma anthropic_shapes:
  assumes "map_of (rf_shapes anthropicFrames) kind = Some shape"
  shows "fs_content shape = [] \<Longrightarrow> fs_sealIfPresent shape = []"
    "e2eeKey \<notin> set (fs_sealIfPresent shape)" "[] \<notin> set (fs_sealIfPresent shape)"
  using assms by (auto simp: anthropicFrames_def split: if_splits)

lemma anthropic_fields:
  "set (contentFields anthropicFrames) =
     {''content'', ''stop_sequence'', ''content_block'', ''delta'', ''error''}"
  by (auto simp: set_contentFields anthropicFrames_def)

lemma sealedFieldsFor_halves:
  assumes "halves frame fs out" "map_of (rf_shapes anthropicFrames) kind = Some shape"
  shows "set (sealedFieldsFor shape out) \<subseteq> set (sealedFieldsFor shape frame)"
    "sealedFieldsFor shape out = [] \<longleftrightarrow> fs_content shape = []"
    "sealedFieldsFor shape frame = [] \<longleftrightarrow> fs_content shape = []"
proof -
  note sh = anthropic_shapes[OF assms(2)]
  have "mhas frame f" if "f \<in> set (fs_sealIfPresent shape)" "mhas out f" for f
    using halves_has[OF assms(1), of f] that sh(2) by blast
  then show "set (sealedFieldsFor shape out) \<subseteq> set (sealedFieldsFor shape frame)"
    by (auto simp: sealedFieldsFor_def)
  show "sealedFieldsFor shape out = [] \<longleftrightarrow> fs_content shape = []"
    "sealedFieldsFor shape frame = [] \<longleftrightarrow> fs_content shape = []"
    using sh(1) by (cases "fs_content shape = []"; simp add: sealedFieldsFor_def)+
qed

lemma frame_set_ok_halves:
  assumes sp: "profile_spec p = Inr spec" and ok: "frame_set_ok spec frame fs" and h: "halves frame fs out"
  shows "frame_set_ok spec out fs"
proof -
  note names = response_names_not_reserved[OF sp]
  have "protected_ok pc out fs" if "pc \<in> set (ps_protected spec)" "protected_ok pc frame fs" for pc
    using that halvesD[OF h, of "prot_field pc"] names(2) by (auto simp: protected_ok_def)
  then have c: "common_set_ok spec out fs"
    using ok by (simp add: frame_set_ok_def common_set_ok_def)
  show ?thesis
  proof (cases "ps_responseFrames spec")
    case None
    then have "single_set_ok spec frame fs" using ok by (simp add: frame_set_ok_def)
    then have "single_set_ok spec out fs"
      using halves_has[OF h] names(1) unfolding single_set_ok_def by blast
    then show ?thesis using c None by (simp add: frame_set_ok_def)
  next
    case (Some rule)
    then have rule: "rule = anthropicFrames" and t: "typed_set_ok rule frame fs"
      using ok names(4) by (auto simp: frame_set_ok_def)
    then obtain kind shape where sh: "shapeOf rule frame = Inr (kind, shape)"
      and seal: "sealedFieldsFor shape frame = [] \<longrightarrow> fs = []" "set (sealedFieldsFor shape frame) \<subseteq> set fs"
      and d: "rf_discriminator rule \<notin> set fs"
      by (auto simp: typed_set_ok_def)
    have sh': "shapeOf rule out = Inr (kind, shape)"
      using sh halvesD[OF h _ d] by (simp add: shapeOf_def rule anthropicFrames_def)
    have "map_of (rf_shapes anthropicFrames) kind = Some shape"
      using sh by (auto simp: shapeOf_def bind_r_eq_Inr opt_r_eq_Inr rule)
    note sf = sealedFieldsFor_halves[OF h this]
    have "\<forall>f\<in>set (contentFields rule). mhas out f \<longrightarrow> f \<in> set fs"
      using t halves_has[OF h] by (auto simp: typed_set_ok_def rule anthropic_fields)
    then have "typed_set_ok rule out fs"
      using sh' sf seal d unfolding typed_set_ok_def by auto
    then show ?thesis using c Some by (simp add: frame_set_ok_def)
  qed
qed

lemma read_locators_cong:
  "(\<And>loc. loc \<in> set locs \<Longrightarrow> mget out (cn_field loc) = mget frame (cn_field loc)) \<Longrightarrow>
   read_locators q out locs = read_locators q frame locs"
  by (induction locs) (auto simp: read_locator_def intro!: bind_r_cong)

lemma cleartext_halves:
  assumes sp: "profile_spec p = Inr spec" and ok: "frame_set_ok spec frame fs" and h: "halves frame fs out"
  shows "validateResponseCleartextFor p out = validateResponseCleartextFor p frame"
proof -
  have "mget out (cn_field loc) = mget frame (cn_field loc)"
    if "q \<in> set (ps_requiredResponseCleartext spec)" "loc \<in> set (cq_locators q)" for q loc
    using that ok halvesD[OF h] response_names_not_reserved(3)[OF sp]
    by (auto simp: frame_set_ok_def common_set_ok_def)
  then have "validateCleartextQuantity q out = validateCleartextQuantity q frame"
    if "q \<in> set (ps_requiredResponseCleartext spec)" for q
    using that read_locators_cong[of "cq_locators q" out frame q]
    by (simp add: validateCleartextQuantity_def)
  then show ?thesis
    using sp by (simp add: validateResponseCleartextFor_def cong: each_r_cong)
qed

section \<open>Metadata\<close>

definition re_head :: "ResponseE2EE \<Rightarrow> (string \<times> json) list" where
  "re_head e =
     omit_empty (re_V e = 0) (''v'', JNum (show_int (re_V e)))
      @ omit_empty (re_Enc e = []) (''enc'', JStr (re_Enc e))
      @ [(''sealed_fields'', str_array (re_SealedFields e))]
      @ omit_empty (re_UnboundFields e = []) (''unbound_fields'', str_array (re_UnboundFields e))
      @ [(''final'', JBool (re_Final e))]"

lemma re_json_head: "re_json e = JObj (re_head e @ [(''ciphertext'', JStr (re_Ciphertext e))])"
  by (simp add: re_json_def re_head_def)

lemma re_head_ciphertext [simp]: "re_head (e\<lparr>re_Ciphertext := c\<rparr>) = re_head e"
  by (simp add: re_head_def)

lemma re_head_keys:
  "map_of (rev (re_head e)) ''ciphertext'' = None"
  "map_of (rev (re_head e)) ''unbound_fields'' =
     (if re_UnboundFields e = [] then None else Some (str_array (re_UnboundFields e)))"
  by (simp_all add: re_head_def omit_empty_def)

lemma decode_re_json:
  assumes "re_V e = 1 \<or> re_V e = 0"
  shows "decode_struct re_names re_set re_zero (re_json e) = Some e"
  using assms
  by (cases e) (auto simp: decode_struct_def re_json_def struct_field_exact re_names_def re_set_def
      re_zero_def omit_empty_def fold_opt_append)

lemma json_ok_re_json: "re_V e = 1 \<or> re_V e = 0 \<Longrightarrow> json_ok (re_json e)"
  using show_int_num by (auto simp: re_json_def omit_empty_def)

lemma aad_setResponseE2EE:
  assumes "mwf m"
  shows "aad_object (setResponseE2EE e m)
     = Inr (mput e2eeKey (JObj (map_from (re_head e))) (mdel (\<lambda>f. f \<in> set (re_UnboundFields e)) m))"
  unfolding setResponseE2EE_def re_json_head
  by (rule aad_object_meta[OF assms re_head_keys])

lemma aad_response_ciphertext:
  "mwf m \<Longrightarrow> aadFromEnvelope J (setResponseE2EE (e\<lparr>re_Ciphertext := c\<rparr>) m)
     = aadFromEnvelope J (setResponseE2EE e m)"
  by (simp add: aadFromEnvelope_def aad_setResponseE2EE)

lemma aad_object_response_unbound:
  assumes "mwf m" "mwf env'" "e2eeKey \<notin> set (re_UnboundFields e)"
    and "\<And>k. k \<notin> set (re_UnboundFields e) \<Longrightarrow> mget env' k = mget (setResponseE2EE e m) k"
  shows "aad_object env' = aad_object (setResponseE2EE e m)"
  unfolding setResponseE2EE_def
  by (rule aad_object_unbound_any[OF aad_setResponseE2EE[unfolded setResponseE2EE_def]
        assms[unfolded setResponseE2EE_def]])

end
