(* ===== verification/Hpke_Ideal.thy ===== *)
theory Hpke_Ideal
  imports Hpke_Seal Go_Json_Text
begin

text \<open>
  An ideal HPKE, the concrete library at which the hypotheses of \<open>Hpke_Seal\<close> are discharged: keys
  are 32-byte names, a context is the list of everything it was set up from and a message counter,
  and a ciphertext is the text that spells out context, counter, associated data and plaintext.
\<close>

type_synonym ideal_ctx = "bytes list \<times> nat"

definition ideal_key :: "bytes \<Rightarrow> bytes option" where
  "ideal_key b = (if length b = 32 then Some b else None)"

definition ideal_text :: "ideal_ctx \<Rightarrow> bytes \<Rightarrow> bytes \<Rightarrow> json" where
  "ideal_text c pt aad =
     JArr [JStr pt, JStr aad, JStr (replicate (snd c) (CHR ''i'')), JArr (map JStr (fst c))]"

definition ideal_seal :: "ideal_ctx \<Rightarrow> bytes \<Rightarrow> bytes \<Rightarrow> (bytes \<times> ideal_ctx) option" where
  "ideal_seal c pt aad = Some (json_print (ideal_text c pt aad), (fst c, Suc (snd c)))"

definition ideal_open :: "ideal_ctx \<Rightarrow> bytes \<Rightarrow> bytes \<Rightarrow> (bytes \<times> ideal_ctx) option" where
  "ideal_open c ct aad =
     (case json_parse ct of
        Some (JArr (JStr pt # _)) \<Rightarrow>
          if ct = json_print (ideal_text c pt aad) then Some (pt, (fst c, Suc (snd c))) else None
      | _ \<Rightarrow> None)"

definition ideal_hpke :: "(bytes, bytes, ideal_ctx) hpke" where
  "ideal_hpke = \<lparr>
     lib_pub = ideal_key, lib_priv = ideal_key,
     lib_keygen = (\<lambda>rnd. map_option (\<lambda>k. (k, k)) (ideal_key rnd)),
     lib_pub_bytes = Some, lib_priv_bytes = Some,
     lib_send = (\<lambda>pk info rnd. Inr (rnd, ([''base'', pk, info, rnd], 0))),
     lib_recv = (\<lambda>sk info enc. Inr ([''base'', sk, info, enc], 0)),
     lib_send_psk = (\<lambda>pk info rnd psk pid.
       if rnd = [] then Inl SetupFailed else Inr (rnd, ([''psk'', pk, info, rnd, psk, pid], 0))),
     lib_recv_psk = (\<lambda>sk info enc psk pid. Inr ([''psk'', sk, info, enc, psk, pid], 0)),
     lib_seal = ideal_seal, lib_open = ideal_open\<rparr>"

lemma ideal_text_ok [simp]: "json_ok (ideal_text c pt aad)"
  by (auto simp: ideal_text_def)

lemma ideal_text_inj [simp]:
  "json_print (ideal_text c pt aad) = json_print (ideal_text c' pt' aad') \<longleftrightarrow>
     pt = pt' \<and> aad = aad' \<and> c = c'"
proof -
  have "json_print (ideal_text c pt aad) = json_print (ideal_text c' pt' aad') \<longleftrightarrow>
      ideal_text c pt aad = ideal_text c' pt' aad'"
    by (metis ideal_text_ok json_parse_print option.inject)
  also have "\<dots> \<longleftrightarrow> pt = pt' \<and> aad = aad' \<and> c = c'"
  proof -
    have "replicate (snd c) (CHR ''i'') = replicate (snd c') (CHR ''i'') \<longleftrightarrow> snd c = snd c'"
      by (metis length_replicate)
    moreover have "map JStr (fst c) = map JStr (fst c') \<longleftrightarrow> fst c = fst c'"
      by (metis inj_def inj_map_eq_map json.inject(3))
    ultimately show ?thesis by (auto simp: ideal_text_def prod_eq_iff)
  qed
  finally show ?thesis .
qed

lemma ideal_open_iff:
  "ideal_open c ct aad = Some (pt, c') \<longleftrightarrow>
     ct = json_print (ideal_text c pt aad) \<and> c' = (fst c, Suc (snd c))"
proof
  assume "ideal_open c ct aad = Some (pt, c')"
  then show "ct = json_print (ideal_text c pt aad) \<and> c' = (fst c, Suc (snd c))"
    by (auto simp: ideal_open_def split: option.splits json.splits list.splits if_splits)
next
  assume "ct = json_print (ideal_text c pt aad) \<and> c' = (fst c, Suc (snd c))"
  moreover have "json_parse (json_print (ideal_text c pt aad)) = Some (ideal_text c pt aad)"
    by (rule json_parse_print) simp
  ultimately show "ideal_open c ct aad = Some (pt, c')"
    by (simp add: ideal_open_def) (simp add: ideal_text_def)
qed

lemma ideal_seal_iff:
  "SealerSeal ideal_hpke c pt aad = Inr (ct, c') \<longleftrightarrow>
     ct = json_print (ideal_text c pt aad) \<and> c' = (fst c, Suc (snd c))"
  by (auto simp: SealerSeal_def ideal_hpke_def ideal_seal_def opt_r_eq_Inr)

lemma ideal_opener_iff:
  "OpenerOpen ideal_hpke c ct aad = Inr (pt, c') \<longleftrightarrow>
     ct = json_print (ideal_text c pt aad) \<and> c' = (fst c, Suc (snd c))"
  by (simp add: OpenerOpen_def ideal_hpke_def opt_r_eq_Inr ideal_open_iff)

lemma ideal_sender: "length k = 32 \<Longrightarrow>
   SetupSender ideal_hpke k info rnd = Inr (rnd, ([''base'', k, info, rnd], 0))"
  by (simp add: SetupSender_def ideal_hpke_def ideal_key_def wrap_setup_def)

lemma ideal_receiver: "length k = 32 \<Longrightarrow>
   SetupReceiver ideal_hpke k enc info = Inr ([''base'', k, info, enc], 0)"
  by (simp add: SetupReceiver_def ideal_hpke_def ideal_key_def wrap_setup_def)

lemma ideal_sender_psk: "length k = 32 \<Longrightarrow> 32 \<le> length psk \<Longrightarrow> pid \<noteq> [] \<Longrightarrow> rnd \<noteq> [] \<Longrightarrow>
   SetupSenderPSK ideal_hpke k info psk pid rnd = Inr (rnd, ([''psk'', k, info, rnd, psk, pid], 0))"
  by (simp add: SetupSenderPSK_def ideal_hpke_def ideal_key_def wrap_setup_def checkPSKInputs_def
      minPSKLen_def)

lemma ideal_receiver_psk: "length k = 32 \<Longrightarrow> 32 \<le> length psk \<Longrightarrow> pid \<noteq> [] \<Longrightarrow>
   SetupReceiverPSK ideal_hpke k enc info psk pid = Inr ([''psk'', k, info, enc, psk, pid], 0)"
  by (simp add: SetupReceiverPSK_def ideal_hpke_def ideal_key_def wrap_setup_def checkPSKInputs_def
      minPSKLen_def)

lemma ideal_pairs_base: "pairs_base ideal_hpke (=) k k"
  by (auto simp: pairs_base_def SetupSender_def SetupReceiver_def ideal_hpke_def wrap_setup_def
      result_inv)

lemma ideal_pairs_psk: "pairs_psk ideal_hpke (=) k k"
  by (auto simp: pairs_psk_def SetupSenderPSK_def SetupReceiverPSK_def ideal_hpke_def
      wrap_setup_def result_inv split: if_splits)

lemma ideal_opens_sealed: "opens_sealed ideal_hpke (=)"
  by (simp add: opens_sealed_def ideal_seal_iff ideal_opener_iff)

lemma ideal_opens_only_sealed: "opens_only_sealed ideal_hpke (=)"
  by (simp add: opens_only_sealed_def ideal_seal_iff ideal_opener_iff)

lemma ideal_seal_commits: "seal_commits ideal_hpke"
  by (auto simp: seal_commits_def ideal_seal_iff)

lemma ideal_opens_some_sealed: "opens_some_sealed ideal_hpke (=)"
  by (simp add: opens_some_sealed_def ideal_seal_iff ideal_opener_iff)

lemma ideal_seal_binds: "seal_binds ideal_hpke"
  by (auto simp: seal_binds_def ideal_seal_iff)

lemma ideal_seal_counts: "seal_counts ideal_hpke snd"
  by (auto simp: seal_counts_def ideal_seal_iff)

lemma ideal_psk_separates: "psk_separates ideal_hpke (=)"
  by (auto simp: psk_separates_def SetupSender_def SetupSenderPSK_def SetupReceiverPSK_def
      ideal_hpke_def wrap_setup_def result_inv split: if_splits)

lemmas ideal_hyps = ideal_pairs_base ideal_pairs_psk ideal_opens_sealed ideal_opens_only_sealed
  ideal_seal_commits

end
