(* ===== verification/Wire_Stream.thy ===== *)
theory Wire_Stream
  imports Wire_RespFacts Hpke_Ideal
begin

text \<open>
  Response frames end to end: one frame sealed and opened, a whole stream, what a receiver accepts,
  and which sealer's frames it accepts.
\<close>

section \<open>One frame\<close>

text \<open>A sealer and an opener at the same position of one channel.\<close>

definition in_sync ::
    "('ctx \<Rightarrow> 'ctx \<Rightarrow> bool) \<Rightarrow> 'ctx ResponseSealer \<Rightarrow> 'ctx ResponseOpener \<Rightarrow> bool" where
  "in_sync R rs ro \<longleftrightarrow> R (rs_sealer rs) (ro_opener ro) \<and> ro_profile ro = rs_profile rs
     \<and> \<not> rs_nonConforming rs
     \<and> validateResponseUnboundFieldsFor (rs_profile rs) (rs_unbound rs) = Inr ()"

definition frame_e2ee :: "'ctx ResponseSealer \<Rightarrow> string list \<Rightarrow> bool \<Rightarrow> bytes \<Rightarrow> ResponseE2EE" where
  "frame_e2ee rs fs fin ct =
     \<lparr>re_V = (if rs_first rs then Version else 0), re_Enc = (if rs_first rs then rs_enc rs else []),
      re_SealedFields = fs, re_UnboundFields = rs_unbound rs, re_Final = fin,
      re_Ciphertext = b64_encode ct\<rparr>"

lemma frame_e2ee_simps [simp]:
  "re_SealedFields (frame_e2ee rs fs fin ct) = fs"
  "re_UnboundFields (frame_e2ee rs fs fin ct) = rs_unbound rs"
  "re_Final (frame_e2ee rs fs fin ct) = fin"
  "re_Ciphertext (frame_e2ee rs fs fin ct) = b64_encode ct"
  "re_V (frame_e2ee rs fs fin ct) = (if rs_first rs then 1 else 0)"
  "re_Enc (frame_e2ee rs fs fin ct) = (if rs_first rs then rs_enc rs else [])"
  by (simp_all add: frame_e2ee_def)

lemma SealFrameE:
  assumes "SealFrame H J rs frame sf fin = Inr (out, rs')"
  obtains fs obj ct s' aad where
    "case sf of None \<Rightarrow> ResponseSealedFieldsForFrame (rs_profile rs) frame = Inr fs | Some g \<Rightarrow> fs = g"
    "rs_validateSealedFields rs frame fs = Inr ()" "unbound_set_ok (rs_unbound rs) fs"
    "fin \<and> \<not> rs_nonConforming rs \<longrightarrow> validateResponseCleartextFor (rs_profile rs) frame = Inr ()"
    "sealed_object frame fs [] = Inr obj" "mget frame e2eeKey = None"
    "\<And>c. mwf frame \<Longrightarrow> aadFromEnvelope J
        (setResponseE2EE (frame_e2ee rs fs fin c) (mdel (\<lambda>k. k \<in> set fs) frame)) = Inr aad"
    "SealerSeal H (rs_sealer rs) (json_print (JObj obj)) aad = Inr (ct, s')"
    "out = setResponseE2EE (frame_e2ee rs fs fin ct) (mdel (\<lambda>k. k \<in> set fs) frame)"
    "rs' = rs\<lparr>rs_sealer := s', rs_first := False\<rparr>"
proof -
  obtain fs obj ct s' aad e where
    1: "case sf of None \<Rightarrow> ResponseSealedFieldsForFrame (rs_profile rs) frame = Inr fs | Some g \<Rightarrow> fs = g"
    "rs_validateSealedFields rs frame fs = Inr ()" "unbound_set_ok (rs_unbound rs) fs"
    "fin \<and> \<not> rs_nonConforming rs \<longrightarrow> validateResponseCleartextFor (rs_profile rs) frame = Inr ()"
    "sealed_object frame fs [] = Inr obj" "mget frame e2eeKey = None"
    and e: "e = frame_e2ee rs fs fin []"
    and aad: "aadFromEnvelope J (setResponseE2EE e (mdel (\<lambda>k. k \<in> set fs) frame)) = Inr aad"
    and 2: "SealerSeal H (rs_sealer rs) (json_print (JObj obj)) aad = Inr (ct, s')"
    and out: "out = setResponseE2EE (e\<lparr>re_Ciphertext := b64_encode ct\<rparr>) (mdel (\<lambda>k. k \<in> set fs) frame)"
    and 3: "rs' = rs\<lparr>rs_sealer := s', rs_first := False\<rparr>"
    using assms
    by (auto simp: SealFrame_def Let_def bind_r_eq_Inr fail_if_eq_Inr crypto_r_eq_Inr
        ValidateUnboundFields_ok mhas_def frame_e2ee_def split: option.splits if_splits)
  have ct: "e\<lparr>re_Ciphertext := b64_encode c\<rparr> = frame_e2ee rs fs fin c" for c
    by (simp add: e frame_e2ee_def)
  have "aadFromEnvelope J (setResponseE2EE (frame_e2ee rs fs fin c) (mdel (\<lambda>k. k \<in> set fs) frame)) = Inr aad"
    if "mwf frame" for c
    using aad by (simp add: ct[symmetric] aad_response_ciphertext[OF mwf_mdel[OF that]])
  then show ?thesis using that 1 2 3 out ct by simp
qed

lemma sealed_frame_facts:
  assumes "mwf frame" "e2eeKey \<notin> set fs"
    and "out = setResponseE2EE e (mdel (\<lambda>k. k \<in> set fs) frame)" "re_V e = 1 \<or> re_V e = 0"
  shows "mwf out" "decodeResponseE2EE out = Inr e" "halves frame fs out"
    "\<And>k. k \<in> set fs \<Longrightarrow> mget out k = None"
    "json_ok (JObj frame) \<Longrightarrow> json_ok (JObj out)"
proof -
  have m: "mwf (mdel (\<lambda>k. k \<in> set fs) frame)" using assms(1) by (rule mwf_mdel)
  show "mwf out" unfolding assms(3) setResponseE2EE_def by (rule mwf_mput[OF m])
  show "decodeResponseE2EE out = Inr e"
    using m assms by (simp add: decodeResponseE2EE_def setResponseE2EE_def mget_mput decode_re_json)
  show h: "halves frame fs out"
    using m assms by (simp add: halves_def setResponseE2EE_def mget_mput mget_mdel)
  show "mget out k = None" if "k \<in> set fs" for k
  proof -
    have "k \<noteq> e2eeKey" using that assms(2) by auto
    then show ?thesis using h that by (simp add: halves_def)
  qed
  show "json_ok (JObj out)" if "json_ok (JObj frame)"
    unfolding assms(3) setResponseE2EE_def
    by (rule json_ok_mput[OF m json_ok_mdel[OF assms(1) that] json_ok_re_json[OF assms(4)]])
qed

lemma frame_set_names:
  "frame_set_ok spec frame fs \<Longrightarrow> distinct fs \<and> e2eeKey \<notin> set fs"
  by (simp add: frame_set_ok_def common_set_ok_def)

lemma OpenFrame_SealFrame:
  assumes s: "SealFrame H J rs frame sf fin = Inr (out, rs')"
    and f: "mwf frame" "json_ok (JObj frame)" and y: "in_sync R rs ro" and H: "opens_sealed H R"
  shows "\<exists>ro'. OpenFrame H J ro out = Inr (frame, ro') \<and> in_sync R rs' ro'"
  using s
proof (rule SealFrameE)
  fix fs obj ct s' aad
  assume val: "rs_validateSealedFields rs frame fs = Inr ()"
    and fin: "fin \<and> \<not> rs_nonConforming rs \<longrightarrow> validateResponseCleartextFor (rs_profile rs) frame = Inr ()"
    and obj: "sealed_object frame fs [] = Inr obj" and no: "mget frame e2eeKey = None"
    and aad: "\<And>c. mwf frame \<Longrightarrow> aadFromEnvelope J
        (setResponseE2EE (frame_e2ee rs fs fin c) (mdel (\<lambda>k. k \<in> set fs) frame)) = Inr aad"
    and sl: "SealerSeal H (rs_sealer rs) (json_print (JObj obj)) aad = Inr (ct, s')"
    and out: "out = setResponseE2EE (frame_e2ee rs fs fin ct) (mdel (\<lambda>k. k \<in> set fs) frame)"
    and rs': "rs' = rs\<lparr>rs_sealer := s', rs_first := False\<rparr>"
  obtain spec where sp: "profile_spec (rs_profile rs) = Inr spec" and ok: "frame_set_ok spec frame fs"
    using val y by (auto simp: rs_validateSealedFields_def in_sync_def
        validateResponseSealedFieldsForFrame_ok)
  note names = frame_set_names[OF ok, THEN conjunct1] frame_set_names[OF ok, THEN conjunct2]
  note o = sealed_frame_facts[OF f(1) names(2) out]
  have op: "\<exists>cr'. OpenerOpen H (ro_opener ro) ct aad = Inr (json_print (JObj obj), cr') \<and> R s' cr'"
    using opens_sealedD[OF H _ sl] y by (simp add: in_sync_def)
  then obtain cr' where cr: "OpenerOpen H (ro_opener ro) ct aad = Inr (json_print (JObj obj), cr')" "R s' cr'"
    by blast
  have V: "re_V (frame_e2ee rs fs fin ct) = 1 \<or> re_V (frame_e2ee rs fs fin ct) = 0" by simp
  obtain r where r: "reconstruct out fs (json_print (JObj obj)) = Inr r" "mwf r"
    "\<And>k. mget r k = (if k \<in> set fs then mget frame k else if k = e2eeKey then None else mget out k)"
    using reconstruct_sealed[OF obj f names(1,2) o(1)[OF V] o(4)[OF V]] by blast
  have "r = frame"
  proof (rule mwf_ext[OF r(2) f(1)])
    fix k
    show "mget r k = mget frame k"
      using r(3)[of k] halvesD[OF o(3)[OF V], of k] no by (cases "k = e2eeKey") auto
  qed
  moreover have "validateResponseSealedFieldsForFrame (rs_profile rs) out fs = Inr ()"
    using sp frame_set_ok_halves[OF sp ok o(3)[OF V]] by (simp add: validateResponseSealedFieldsForFrame_ok)
  moreover have "fin \<longrightarrow> validateResponseCleartextFor (rs_profile rs) out = Inr ()"
    using fin cleartext_halves[OF sp ok o(3)[OF V]] y by (simp add: in_sync_def)
  ultimately have "OpenFrame H J ro out = Inr (frame, ro\<lparr>ro_opener := cr'\<rparr>)"
    using o(2)[OF V] y r(1) cr(1) aad[OF f(1), of ct]
    by (simp add: OpenFrame_def in_sync_def out[symmetric])
  moreover have "in_sync R rs' (ro\<lparr>ro_opener := cr'\<rparr>)"
    using y cr(2) by (simp add: in_sync_def rs')
  ultimately show ?thesis by blast
qed

section \<open>Streams\<close>

text \<open>The frames of one response, with the sealed set and the final mark given for each.\<close>

fun seal_stream ::
    "('pk, 'sk, 'ctx) hpke \<Rightarrow> (bytes \<Rightarrow> bytes option) \<Rightarrow> 'ctx ResponseSealer \<Rightarrow>
     (Response \<times> string list option \<times> bool) list \<Rightarrow> werr + Response list \<times> 'ctx ResponseSealer" where
  "seal_stream H J rs [] = Inr ([], rs)"
| "seal_stream H J rs ((frame, sf, fin) # items) =
     bind_r (SealFrame H J rs frame sf fin) (\<lambda>(out, rs').
     bind_r (seal_stream H J rs' items) (\<lambda>(outs, rs'').
     Inr (out # outs, rs'')))"

fun open_stream ::
    "('pk, 'sk, 'ctx) hpke \<Rightarrow> (bytes \<Rightarrow> bytes option) \<Rightarrow> 'ctx ResponseOpener \<Rightarrow> Response list \<Rightarrow>
     werr + Response list \<times> 'ctx ResponseOpener" where
  "open_stream H J ro [] = Inr ([], ro)"
| "open_stream H J ro (f # fs) =
     bind_r (OpenFrame H J ro f) (\<lambda>(out, ro').
     bind_r (open_stream H J ro' fs) (\<lambda>(outs, ro'').
     Inr (out # outs, ro'')))"

lemma open_seal_stream:
  assumes "opens_sealed H R"
  shows "seal_stream H J rs items = Inr (outs, rs') \<Longrightarrow> in_sync R rs ro \<Longrightarrow>
     (\<forall>i\<in>set items. mwf (fst i) \<and> json_ok (JObj (fst i))) \<Longrightarrow>
     \<exists>ro'. open_stream H J ro outs = Inr (map fst items, ro')"
proof (induction items arbitrary: rs ro outs)
  case (Cons i items)
  obtain frame sf fin where i: "i = (frame, sf, fin)" by (cases i)
  obtain out rs1 outs1 where s: "SealFrame H J rs frame sf fin = Inr (out, rs1)"
    "seal_stream H J rs1 items = Inr (outs1, rs')" "outs = out # outs1"
    using Cons.prems(1) by (auto simp: i bind_r_eq_Inr)
  obtain ro1 where ro1: "OpenFrame H J ro out = Inr (frame, ro1)" "in_sync R rs1 ro1"
    using OpenFrame_SealFrame[OF s(1) _ _ Cons.prems(2) assms] Cons.prems(3) by (auto simp: i)
  then show ?case
    using Cons.IH[OF s(2) ro1(2)] Cons.prems(3) by (auto simp: s(3) i)
qed simp

lemma new_sealer_facts:
  assumes "newResponseSealer H p pub psk U rnd = Inr rs"
  obtains spec enc where "profile_spec p = Inr spec" "psk = None \<longrightarrow> \<not> requiresBind spec"
    "validateResponseUnboundFieldsFor p U = Inr ()"
    "case psk of None \<Rightarrow> SetupSender H pub RespInfo rnd = Inr (enc, rs_sealer rs)
       | Some k \<Rightarrow> SetupSenderPSK H pub RespInfo k RespBindPSKID rnd = Inr (enc, rs_sealer rs)"
    "rs_enc rs = b64_encode enc" "rs_first rs" "rs_unbound rs = U" "rs_profile rs = p"
    "\<not> rs_nonConforming rs"
  using assms
  by (auto simp: newResponseSealer_def bind_r_eq_Inr fail_if_eq_Inr crypto_r_eq_Inr split: option.splits)

lemma SealFrame_first:
  assumes "SealFrame H J rs frame sf fin = Inr (out, rs')" "mwf frame" "rs_first rs" "\<not> rs_nonConforming rs"
  shows "\<exists>e. decodeResponseE2EE out = Inr e \<and> re_V e = 1 \<and> re_Enc e = rs_enc rs \<and> re_Final e = fin"
  using assms(1)
proof (rule SealFrameE)
  fix fs ct
  assume val: "rs_validateSealedFields rs frame fs = Inr ()"
    and out: "out = setResponseE2EE (frame_e2ee rs fs fin ct) (mdel (\<lambda>k. k \<in> set fs) frame)"
  have "e2eeKey \<notin> set fs"
    using val assms(4) frame_set_names
    by (auto simp: rs_validateSealedFields_def validateResponseSealedFieldsForFrame_ok)
  then show ?thesis
    using sealed_frame_facts(2)[OF assms(2) _ out] assms(3) by auto
qed

lemma open_new_stream:
  assumes new: "newResponseSealer H p pub psk U rnd = Inr rs" "rs_enc rs \<noteq> []"
    and first: "SealFrame H J rs frame sf fin = Inr (out, rs')" "mwf frame"
    and H: "pairs_base H R pub priv" "pairs_psk H R pub priv"
  shows "\<exists>ro. newResponseOpener H p priv out psk = Inr ro \<and> in_sync R rs ro"
  using new(1)
proof (rule new_sealer_facts)
  fix spec enc
  assume sp: "profile_spec p = Inr spec" and b: "psk = None \<longrightarrow> \<not> requiresBind spec"
    and u: "validateResponseUnboundFieldsFor p U = Inr ()"
    and set: "case psk of None \<Rightarrow> SetupSender H pub RespInfo rnd = Inr (enc, rs_sealer rs)
       | Some k \<Rightarrow> SetupSenderPSK H pub RespInfo k RespBindPSKID rnd = Inr (enc, rs_sealer rs)"
    and rs: "rs_enc rs = b64_encode enc" "rs_first rs" "rs_unbound rs = U" "rs_profile rs = p"
      "\<not> rs_nonConforming rs"
  obtain e where e: "decodeResponseE2EE out = Inr e" "re_V e = 1" "re_Enc e = rs_enc rs"
    using SealFrame_first[OF first rs(2,5)] by blast
  have "\<exists>cr. R (rs_sealer rs) cr \<and> (case psk of None \<Rightarrow> SetupReceiver H priv enc RespInfo = Inr cr
       | Some k \<Rightarrow> SetupReceiverPSK H priv enc RespInfo k RespBindPSKID = Inr cr)"
  proof (cases psk)
    case None
    with set have "SetupSender H pub RespInfo rnd = Inr (enc, rs_sealer rs)" by simp
    from pairs_baseD[OF H(1) this] show ?thesis using None by auto
  next
    case (Some k)
    with set have "SetupSenderPSK H pub RespInfo k RespBindPSKID rnd = Inr (enc, rs_sealer rs)" by simp
    from pairs_pskD[OF H(2) this] show ?thesis using Some by auto
  qed
  then obtain cr where cr: "R (rs_sealer rs) cr"
    "case psk of None \<Rightarrow> SetupReceiver H priv enc RespInfo = Inr cr
       | Some k \<Rightarrow> SetupReceiverPSK H priv enc RespInfo k RespBindPSKID = Inr cr"
    by blast
  then have "newResponseOpener H p priv out psk = Inr \<lparr>ro_opener = cr, ro_profile = p\<rparr>"
    using sp b e rs new(2) by (auto simp: newResponseOpener_def split: option.splits)
  then show ?thesis using cr u rs by (simp add: in_sync_def)
qed

text \<open>
  C25: A response stream comes through. For every profile, in base mode and in mode_psk, the frames a
  sealer emits for a response open, in order, to exactly the frames it was given, whatever mixture
  of sealed sets the frames used.
\<close>

theorem open_stream_seal_stream:
  assumes "newResponseSealer H p pub psk U rnd = Inr rs" "rs_enc rs \<noteq> []"
    and "seal_stream H J rs items = Inr (outs, rs')" "items \<noteq> []"
    and "\<forall>i\<in>set items. mwf (fst i) \<and> json_ok (JObj (fst i))"
    and "pairs_base H R pub priv" "pairs_psk H R pub priv" "opens_sealed H R"
  shows "\<exists>ro ro'. newResponseOpener H p priv (hd outs) psk = Inr ro
     \<and> open_stream H J ro outs = Inr (map fst items, ro')"
proof -
  obtain frame sf fin rest where i: "items = (frame, sf, fin) # rest"
    using assms(4) by (cases items) auto
  obtain out rs1 outs1 where s: "SealFrame H J rs frame sf fin = Inr (out, rs1)" "outs = out # outs1"
    using assms(3) by (auto simp: i bind_r_eq_Inr)
  obtain ro where "newResponseOpener H p priv out psk = Inr ro" "in_sync R rs ro"
    using open_new_stream[OF assms(1,2) s(1) _ assms(6,7)] assms(5) by (auto simp: i)
  then show ?thesis
    using open_seal_stream[OF assms(8,3) _ assms(5)] s(2) by auto
qed

section \<open>Which frames are accepted, and where\<close>

text \<open>The ciphertext of a frame, as it is opened.\<close>

definition frame_ct :: "Response \<Rightarrow> bytes option" where
  "frame_ct f = (case decodeResponseE2EE f of Inl _ \<Rightarrow> None
                 | Inr e \<Rightarrow> b64_decode False (re_Ciphertext e))"

lemma OpenFrame_ct:
  assumes "OpenFrame H J ro f = Inr (out, ro')"
  obtains ct aad pt where "frame_ct f = Some ct" "aadFromEnvelope J f = Inr aad"
    "OpenerOpen H (ro_opener ro) ct aad = Inr (pt, ro_opener ro')" "ro_profile ro' = ro_profile ro"
  using assms
  by (auto simp: OpenFrame_def bind_r_eq_Inr opt_r_eq_Inr crypto_r_eq_Inr frame_ct_def)

lemma SealFrame_ct:
  assumes "SealFrame H J rs frame sf fin = Inr (out, rs')" "mwf frame" "\<not> rs_nonConforming rs"
  obtains ct aad pt where "frame_ct out = Some ct" "aadFromEnvelope J out = Inr aad"
    "SealerSeal H (rs_sealer rs) pt aad = Inr (ct, rs_sealer rs')" "\<not> rs_nonConforming rs'"
  using assms(1)
proof (rule SealFrameE)
  fix fs obj ct s' aad
  assume val: "rs_validateSealedFields rs frame fs = Inr ()"
    and aad: "\<And>c. mwf frame \<Longrightarrow> aadFromEnvelope J
        (setResponseE2EE (frame_e2ee rs fs fin c) (mdel (\<lambda>k. k \<in> set fs) frame)) = Inr aad"
    and sl: "SealerSeal H (rs_sealer rs) (json_print (JObj obj)) aad = Inr (ct, s')"
    and out: "out = setResponseE2EE (frame_e2ee rs fs fin ct) (mdel (\<lambda>k. k \<in> set fs) frame)"
    and rs': "rs' = rs\<lparr>rs_sealer := s', rs_first := False\<rparr>"
  have "e2eeKey \<notin> set fs"
    using val assms(3) frame_set_names
    by (auto simp: rs_validateSealedFields_def validateResponseSealedFieldsForFrame_ok)
  then have "decodeResponseE2EE out = Inr (frame_e2ee rs fs fin ct)"
    using sealed_frame_facts(2)[OF assms(2) _ out] by auto
  then have "frame_ct out = Some ct" by (simp add: frame_ct_def)
  then show ?thesis
    using that[of ct aad "json_print (JObj obj)"] aad[OF assms(2), of ct] sl rs' assms(3) out by simp
qed

lemma seal_stream_positions:
  assumes "seal_stream H J rs items = Inr (outs, rs')" "\<not> rs_nonConforming rs"
    and "\<forall>i\<in>set items. mwf (fst i)"
  shows "\<exists>c. c 0 = rs_sealer rs \<and> (\<forall>i<length outs. \<exists>ct aad pt. frame_ct (outs ! i) = Some ct
     \<and> SealerSeal H (c i) pt aad = Inr (ct, c (Suc i)))"
  using assms
proof (induction items arbitrary: rs outs)
  case Nil
  then show ?case by auto
next
  case (Cons i items)
  obtain frame sf fin where i: "i = (frame, sf, fin)" by (cases i)
  obtain out rs1 outs1 where s: "SealFrame H J rs frame sf fin = Inr (out, rs1)"
    "seal_stream H J rs1 items = Inr (outs1, rs')" "outs = out # outs1"
    using Cons.prems(1) by (auto simp: i bind_r_eq_Inr)
  obtain ct aad pt where f: "frame_ct out = Some ct"
    "SealerSeal H (rs_sealer rs) pt aad = Inr (ct, rs_sealer rs1)" "\<not> rs_nonConforming rs1"
  proof -
    have wf: "mwf frame" using Cons.prems(3) by (simp add: i)
    then show ?thesis using SealFrame_ct[OF s(1) wf Cons.prems(2)] that by metis
  qed
  obtain c where c: "c 0 = rs_sealer rs1" "\<forall>i<length outs1. \<exists>ct aad pt. frame_ct (outs1 ! i) = Some ct
     \<and> SealerSeal H (c i) pt aad = Inr (ct, c (Suc i))"
    using Cons.IH[OF s(2) f(3)] Cons.prems(3) by auto
  let ?c = "\<lambda>n. case n of 0 \<Rightarrow> rs_sealer rs | Suc m \<Rightarrow> c m"
  have "\<exists>ct aad pt. frame_ct (outs ! j) = Some ct \<and> SealerSeal H (?c j) pt aad = Inr (ct, ?c (Suc j))"
    if "j < length outs" for j
  proof (cases j)
    case 0
    then show ?thesis using f c(1) s(3) by auto
  next
    case (Suc m)
    then show ?thesis using c(2) that s(3) by simp
  qed
  then show ?case by (intro exI[of _ ?c]) simp
qed

lemma accepted_from_position:
  assumes H: "opens_only_sealed H R" "seal_binds H" "seal_counts H seq"
    and pos: "\<forall>i<length outs. \<exists>ct aad pt. frame_ct (outs ! i) = Some ct
                \<and> SealerSeal H (c i) pt aad = Inr (ct, c (Suc i))"
  shows "open_stream H J ro got = Inr (res, ro') \<Longrightarrow> set got \<subseteq> set outs \<Longrightarrow> i \<le> length outs \<Longrightarrow>
     R (c i) (ro_opener ro) \<Longrightarrow> take (length got) (drop i outs) = got"
proof (induction got arbitrary: ro res i)
  case (Cons f got)
  have seq: "n \<le> length outs \<Longrightarrow> seq (c n) = seq (c 0) + n" for n
  proof (induction n)
    case (Suc n)
    have "n < length outs" using Suc.prems by simp
    with pos obtain ct aad pt where "SealerSeal H (c n) pt aad = Inr (ct, c (Suc n))"
      by blast
    from seal_countsD[OF H(3) this] show ?case using Suc.IH Suc.prems by simp
  qed simp
  obtain out ro1 res1 where o: "OpenFrame H J ro f = Inr (out, ro1)"
    "open_stream H J ro1 got = Inr (res1, ro')"
    using Cons.prems(1) by (auto simp: bind_r_eq_Inr)
  obtain ct aad pt where f: "frame_ct f = Some ct"
    "OpenerOpen H (ro_opener ro) ct aad = Inr (pt, ro_opener ro1)"
    using OpenFrame_ct[OF o(1)] by metis
  obtain cs' where cs: "SealerSeal H (c i) pt aad = Inr (ct, cs')" "R cs' (ro_opener ro1)"
    using opens_only_sealedD[OF H(1) Cons.prems(4) f(2)] by blast
  have "f \<in> set outs" using Cons.prems(2) by simp
  then obtain j where j: "j < length outs" "f = outs ! j"
    unfolding in_set_conv_nth by blast
  obtain ct2 aad2 pt2 where "frame_ct (outs ! j) = Some ct2"
    "SealerSeal H (c j) pt2 aad2 = Inr (ct2, c (Suc j))"
    using pos j(1) by blast
  then have s2: "SealerSeal H (c j) pt2 aad2 = Inr (ct, c (Suc j))"
    using f(1) j(2) by simp
  note same = seal_bindsD[OF H(2) cs(1) s2]
  have "cs' = c (Suc j)" using same cs(1) s2 by simp
  have "i = j"
  proof -
    have "seq (c 0) + i = seq (c i)" by (rule seq[OF Cons.prems(3), symmetric])
    also have "\<dots> = seq (c j)" by (rule arg_cong[OF same[THEN conjunct1]])
    also have "\<dots> = seq (c 0) + j" by (rule seq[OF less_imp_le[OF j(1)]])
    finally show ?thesis by (rule add_left_imp_eq)
  qed
  have next_pos: "R (c (Suc i)) (ro_opener ro1)"
    using cs(2) \<open>i = j\<close> \<open>cs' = c (Suc j)\<close> by blast
  have sub: "set got \<subseteq> set outs" "Suc i \<le> length outs"
    using Cons.prems(2) j(1) \<open>i = j\<close> by simp_all
  have tail: "take (length got) (drop (Suc i) outs) = got"
    by (rule Cons.IH[OF o(2) sub next_pos])
  have "drop i outs = f # drop (Suc i) outs"
    unfolding j(2) \<open>i = j\<close> by (rule Cons_nth_drop_Suc[symmetric, OF j(1)])
  then show ?case using tail by simp
qed simp

text \<open>
  C15: Frames cannot be dropped, repeated or reordered. Whatever an intermediary delivers out of the
  genuine frames of a stream, in whatever order and however often, what a receiver that started with
  the stream accepts without an error is a prefix of it.
\<close>

theorem accepted_frames_are_a_prefix:
  assumes "seal_stream H J rs items = Inr (outs, rs')" "\<forall>i\<in>set items. mwf (fst i)"
    and "in_sync R rs ro" "open_stream H J ro got = Inr (res, ro')" "set got \<subseteq> set outs"
    and "opens_only_sealed H R" "seal_binds H" "seal_counts H seq"
  shows "got = take (length got) outs"
proof -
  obtain c where c: "c 0 = rs_sealer rs" "\<forall>i<length outs. \<exists>ct aad pt. frame_ct (outs ! i) = Some ct
     \<and> SealerSeal H (c i) pt aad = Inr (ct, c (Suc i))"
    using seal_stream_positions[OF assms(1) _ assms(2)] assms(3) by (auto simp: in_sync_def)
  then show ?thesis
    using accepted_from_position[OF assms(6-8) c(2) assms(4,5), of 0] assms(3)
    by (simp add: in_sync_def c(1))
qed

text \<open>
  C16: Only the binding value opens a bound response. If an opener set up with the binding value
  derived from the client's ephemeral private key accepts a frame, and some sealer built by this
  protocol emitted that frame, then that sealer was set up in mode_psk with exactly this value: a
  frame sealed in base mode to the public key in the clear, or under another binding value, is
  refused.
\<close>

theorem bound_opener_refuses_foreign_frames:
  assumes "NewBoundResponseOpenerFor H p priv first = Inr ro"
    and "OpenFrame H J ro out = Inr (opened, ro')"
    and "newResponseSealer H p2 pub2 psk U rnd = Inr rs"
    and "SealFrame H J rs frame sf fin = Inr (out, rs')" "mwf frame"
    and "opens_some_sealed H R" "seal_binds H" "psk_separates H R"
  shows "psk = Some (hkdf_key32 priv RespBindInfo) \<and> length priv = 32"
  using assms(3)
proof (rule new_sealer_facts)
  fix spec enc
  assume set: "case psk of None \<Rightarrow> SetupSender H pub2 RespInfo rnd = Inr (enc, rs_sealer rs)
       | Some k \<Rightarrow> SetupSenderPSK H pub2 RespInfo k RespBindPSKID rnd = Inr (enc, rs_sealer rs)"
    and nc: "\<not> rs_nonConforming rs"
  obtain encb where recv: "SetupReceiverPSK H priv encb RespInfo (hkdf_key32 priv RespBindInfo) RespBindPSKID
      = Inr (ro_opener ro)" and len: "length priv = 32"
    using assms(1)
    by (auto simp: NewBoundResponseOpenerFor_def DeriveResponseBind_def newResponseOpener_def
        bind_r_eq_Inr fail_if_eq_Inr opt_r_eq_Inr crypto_r_eq_Inr)
  obtain ct aad pt where o: "frame_ct out = Some ct" "aadFromEnvelope J out = Inr aad"
    "OpenerOpen H (ro_opener ro) ct aad = Inr (pt, ro_opener ro')"
    using OpenFrame_ct[OF assms(2)] by metis
  obtain aad2 pt2 where s: "SealerSeal H (rs_sealer rs) pt2 aad2 = Inr (ct, rs_sealer rs')"
    using SealFrame_ct[OF assms(4,5) nc] o(1) by (metis option.inject)
  obtain cs cs' where cs: "R cs (ro_opener ro)" "SealerSeal H cs pt aad = Inr (ct, cs')"
    using opens_some_sealedD[OF assms(6) o(3)] by blast
  have "cs = rs_sealer rs"
    using seal_bindsD[OF assms(7) cs(2) s] by blast
  then have "R (rs_sealer rs) (ro_opener ro)" using cs(1) by simp
  note sep = psk_separates_base[OF assms(8) recv this] psk_separates_psk[OF assms(8) recv this]
  show ?thesis
  proof (cases psk)
    case None
    then show ?thesis using set sep(1) by auto
  next
    case (Some k)
    then show ?thesis using set sep(2) len by auto
  qed
qed

end
