(* ===== verification/Wire_Accept.thy ===== *)
theory Wire_Accept
  imports Wire_Stream
begin

text \<open>
  What a receiver's acceptance of a response frame guarantees, what a sealer can emit, and the
  billable quantities of a final frame.
\<close>

section \<open>Generated content\<close>

text \<open>The fields that carry generated content under a profile, whatever a frame calls itself.\<close>

definition generated_fields :: "profileSpec \<Rightarrow> string list" where
  "generated_fields spec =
     (case ps_responseFrames spec of
        None \<Rightarrow> map pf_name (ps_responsePayload spec) | Some rule \<Rightarrow> contentFields rule)"

lemma generated_fields_covered:
  assumes "frame_set_ok spec frame fs" "f \<in> set (generated_fields spec)" "mhas frame f"
  shows "f \<in> set fs"
  using assms
  by (cases "ps_responseFrames spec")
    (auto simp: frame_set_ok_def single_set_ok_def typed_set_ok_def generated_fields_def)

text \<open>
  What is known of a frame by its sealed set \<open>fs\<close>, its unbound set and its two halves: no generated
  content is in the clear, the mandatory content is sealed, a frame of a typed profile has a known
  shape and seals what the shape requires or, for a sequencing shape, nothing.
\<close>

definition content_protected ::
    "profileSpec \<Rightarrow> Response \<Rightarrow> string list \<Rightarrow> string list \<Rightarrow> bool" where
  "content_protected spec frame fs unbound \<longleftrightarrow>
     (\<forall>f\<in>set (generated_fields spec). mget frame f = None)
     \<and> (\<forall>f\<in>set (ps_responsePayload spec). \<not> pf_optional f \<longrightarrow> pf_name f \<in> set fs)
     \<and> (\<forall>rule. ps_responseFrames spec = Some rule \<longrightarrow>
          (\<exists>kind shape. shapeOf rule frame = Inr (kind, shape)
             \<and> (fs_content shape \<noteq> [] \<longrightarrow> fs_content shape \<in> set fs)
             \<and> (fs_content shape = [] \<longrightarrow> fs = []))
          \<and> rf_discriminator rule \<notin> set unbound)
     \<and> ''usage'' \<notin> set fs \<and> ''usage'' \<notin> set unbound
     \<and> (\<forall>pc\<in>set (ps_protected spec). protected_ok pc frame fs \<and> prot_field pc \<notin> set unbound)
     \<and> (\<forall>f\<in>set (ps_bound spec). f \<notin> set fs \<and> f \<notin> set unbound)"

lemma content_protectedI:
  assumes sp: "profile_spec p = Inr spec" and ok: "frame_set_ok spec frame fs"
    and b: "bound_set_ok spec unbound" and gone: "\<And>f. f \<in> set fs \<Longrightarrow> mget frame f = None"
  shows "content_protected spec frame fs unbound"
proof -
  have "mget frame f = None" if "f \<in> set (generated_fields spec)" for f
    using generated_fields_covered[OF ok that] gone[of f] by (cases "mget frame f") (auto simp: mhas_def)
  moreover have "\<exists>kind shape. shapeOf rule frame = Inr (kind, shape)
        \<and> (fs_content shape \<noteq> [] \<longrightarrow> fs_content shape \<in> set fs) \<and> (fs_content shape = [] \<longrightarrow> fs = [])"
    if r: "ps_responseFrames spec = Some rule" for rule
  proof -
    have rule: "rule = anthropicFrames" using response_names_not_reserved(4)[OF sp] r by simp
    obtain kind shape where sh: "shapeOf rule frame = Inr (kind, shape)"
      "sealedFieldsFor shape frame = [] \<longrightarrow> fs = []" "set (sealedFieldsFor shape frame) \<subseteq> set fs"
      using ok r by (auto simp: frame_set_ok_def typed_set_ok_def)
    have "map_of (rf_shapes anthropicFrames) kind = Some shape"
      using sh(1) by (auto simp: shapeOf_def bind_r_eq_Inr opt_r_eq_Inr rule)
    from anthropic_shapes(1)[OF this] show ?thesis
      using sh by (auto simp: sealedFieldsFor_def)
  qed
  moreover have "\<forall>f\<in>set (ps_responsePayload spec). \<not> pf_optional f \<longrightarrow> pf_name f \<in> set fs"
    using ok response_names_not_reserved(4)[OF sp] sp
    by (cases "ps_responseFrames spec")
      (auto simp: frame_set_ok_def single_set_ok_def spec_defs elim!: profile_spec_cases)
  ultimately show ?thesis
    using ok b unfolding content_protected_def frame_set_ok_def common_set_ok_def bound_set_ok_def
    by blast
qed

lemma opened_frame:
  assumes "OpenFrame H J ro frame = Inr (out, ro')" "mwf frame"
  shows "\<exists>spec e. profile_spec (ro_profile ro) = Inr spec \<and> decodeResponseE2EE frame = Inr e
     \<and> content_protected spec frame (re_SealedFields e) (re_UnboundFields e)
     \<and> (re_Final e \<longrightarrow> validateResponseCleartextFor (ro_profile ro) frame = Inr ())
     \<and> (\<forall>f. mhas out f \<longleftrightarrow> f \<in> set (re_SealedFields e) \<or> (f \<noteq> e2eeKey \<and> mhas frame f))
     \<and> (\<forall>f. f \<notin> set (re_SealedFields e) \<longrightarrow> f \<noteq> e2eeKey \<longrightarrow> mget out f = mget frame f)"
proof -
  obtain e pt where e: "decodeResponseE2EE frame = Inr e"
    and u: "validateResponseUnboundFieldsFor (ro_profile ro) (re_UnboundFields e) = Inr ()"
    and s: "validateResponseSealedFieldsForFrame (ro_profile ro) frame (re_SealedFields e) = Inr ()"
    and fin: "re_Final e \<longrightarrow> validateResponseCleartextFor (ro_profile ro) frame = Inr ()"
    and rc: "reconstruct frame (re_SealedFields e) pt = Inr out"
    using assms(1) by (auto simp: OpenFrame_def bind_r_eq_Inr split: if_splits)
  obtain spec where sp: "profile_spec (ro_profile ro) = Inr spec"
    and ok: "frame_set_ok spec frame (re_SealedFields e)" and b: "bound_set_ok spec (re_UnboundFields e)"
    using u s by (auto simp: validateResponseUnboundFieldsFor_ok validateResponseSealedFieldsForFrame_ok)
  note dist = frame_set_names[OF ok, THEN conjunct1]
  from rc assms(2) dist show ?thesis
  proof (rule reconstruct_ok)
    fix obj
    assume ks: "\<And>k. mget (nil_map obj) k \<noteq> None \<longleftrightarrow> k \<in> set (re_SealedFields e)"
      and cl: "\<And>k. k \<in> set (re_SealedFields e) \<Longrightarrow> mget frame k = None"
      and get: "\<And>k. mget out k = (if k \<in> set (re_SealedFields e) then mget (nil_map obj) k
                      else if k = e2eeKey then None else mget frame k)"
    have "mhas out f \<longleftrightarrow> f \<in> set (re_SealedFields e) \<or> (f \<noteq> e2eeKey \<and> mhas frame f)" for f
      using get[of f] ks[of f] by (auto simp: mhas_def)
    then show ?thesis
      using sp e fin content_protectedI[OF sp ok b cl] get by (intro exI[of _ spec] exI[of _ e]) auto
  qed
qed


text \<open>
  What an enclave can emit. A frame built by \<open>SealFrame\<close>, for whatever sealed set the caller
  chose, carries no generated content in the clear and keeps the router's and the receiver's fields
  readable and authenticated; a shape that may not carry content seals nothing.
\<close>

theorem SealFrame_no_leak:
  assumes "SealFrame H J rs frame sf fin = Inr (out, rs')" "mwf frame" "in_sync R rs ro"
  shows "\<exists>spec e. profile_spec (rs_profile rs) = Inr spec \<and> decodeResponseE2EE out = Inr e
     \<and> content_protected spec out (re_SealedFields e) (re_UnboundFields e)
     \<and> re_Final e = fin
     \<and> (\<forall>f. f \<noteq> e2eeKey \<longrightarrow>
          mget out f = (if f \<in> set (re_SealedFields e) then None else mget frame f))"
  using assms(1)
proof (rule SealFrameE)
  fix fs ct
  assume val: "rs_validateSealedFields rs frame fs = Inr ()"
    and out: "out = setResponseE2EE (frame_e2ee rs fs fin ct) (mdel (\<lambda>k. k \<in> set fs) frame)"
  obtain spec where sp: "profile_spec (rs_profile rs) = Inr spec" and ok: "frame_set_ok spec frame fs"
    using val assms(3) by (auto simp: rs_validateSealedFields_def in_sync_def
        validateResponseSealedFieldsForFrame_ok)
  have b: "bound_set_ok spec (rs_unbound rs)"
    using assms(3) sp by (auto simp: in_sync_def validateResponseUnboundFieldsFor_ok)
  have V: "re_V (frame_e2ee rs fs fin ct) = 1 \<or> re_V (frame_e2ee rs fs fin ct) = 0" by simp
  note o = sealed_frame_facts[OF assms(2) frame_set_names[OF ok, THEN conjunct2] out V]
  show ?thesis
    using sp o(2) content_protectedI[OF sp frame_set_ok_halves[OF sp ok o(3)] b o(4)] o(3)
    by (auto simp: halves_def)
qed

text \<open>
  Response frames are tamper-evident. If the receiver at a frame's position accepts anything that
  carries the frame's ciphertext, it carries the same JSON data in every field the sealer did not
  declare unbound and the same metadata.
\<close>

theorem OpenFrame_tamper_evident:
  assumes "SealFrame H J rs frame sf fin = Inr (out, rs')" "mwf frame" "json_ok (JObj frame)"
    and "in_sync R rs ro" "opens_only_sealed H R" "seal_commits H" "canonical_faithful J"
    and "mwf out'" "json_ok (JObj out')" "frame_ct out' = frame_ct out"
    and "OpenFrame H J ro out' = Inr (opened, ro')" "decodeResponseE2EE out = Inr e"
  shows "(\<forall>f. f \<noteq> e2eeKey \<longrightarrow> f \<notin> set (rs_unbound rs) \<longrightarrow> rel_option jeq (mget out f) (mget out' f))
     \<and> (\<exists>raw meta. mget out' e2eeKey = Some raw \<and> as_object raw = Some (Some meta)
          \<and> (\<forall>n. n \<noteq> ''ciphertext'' \<longrightarrow>
               rel_option jeq (mget (map_from (re_head e)) n) (mget meta n)))"
  using assms(1)
proof (rule SealFrameE)
  fix fs obj ct s' aad
  assume val: "rs_validateSealedFields rs frame fs = Inr ()"
    and aad: "\<And>c. mwf frame \<Longrightarrow> aadFromEnvelope J
        (setResponseE2EE (frame_e2ee rs fs fin c) (mdel (\<lambda>k. k \<in> set fs) frame)) = Inr aad"
    and sl: "SealerSeal H (rs_sealer rs) (json_print (JObj obj)) aad = Inr (ct, s')"
    and out: "out = setResponseE2EE (frame_e2ee rs fs fin ct) (mdel (\<lambda>k. k \<in> set fs) frame)"
  let ?e = "frame_e2ee rs fs fin ct" and ?m = "mdel (\<lambda>k. k \<in> set fs) frame"
  have no: "e2eeKey \<notin> set fs"
    using val assms(4) frame_set_names
    by (auto simp: rs_validateSealedFields_def in_sync_def validateResponseSealedFieldsForFrame_ok)
  have V: "re_V ?e = 1 \<or> re_V ?e = 0" by simp
  note o = sealed_frame_facts[OF assms(2) no out V]
  have e: "e = ?e" using o(2) assms(12) by simp
  have "frame_ct out' = Some ct" using assms(10) o(2) by (simp add: frame_ct_def)
  then obtain aad' pt where op: "aadFromEnvelope J out' = Inr aad'"
    "OpenerOpen H (ro_opener ro) ct aad' = Inr (pt, ro_opener ro')"
    using OpenFrame_ct[OF assms(11)] by (metis option.inject)
  have "R (rs_sealer rs) (ro_opener ro)" using assms(4) by (simp add: in_sync_def)
  from open_binds_aad[OF assms(5,6) this sl op(2)] have "aadFromEnvelope J out' = Inr aad"
    using op(1) by simp
  moreover have "aadFromEnvelope J out = Inr aad" using aad[OF assms(2), of ct] by (simp add: out)
  moreover have "out = mput e2eeKey (JObj (re_head ?e @ [(''ciphertext'', JStr (re_Ciphertext ?e))])) ?m"
    by (simp add: out setResponseE2EE_def re_json_head)
  ultimately obtain raw meta where r: "mget out' e2eeKey = Some raw" "as_object raw = Some (Some meta)"
      "\<forall>k. k \<noteq> ''ciphertext'' \<longrightarrow> rel_option jeq (mget (map_from (re_head ?e)) k) (mget meta k)"
      "\<forall>k. k \<noteq> e2eeKey \<longrightarrow> k \<notin> set (re_UnboundFields ?e) \<longrightarrow> rel_option jeq (mget ?m k) (mget out' k)"
    using aad_determines_meta[OF assms(7) mwf_mdel[OF assms(2)] re_head_keys _ o(5)[OF assms(3)]
        assms(8,9)] by blast
  have "mget out f = mget ?m f" if "f \<noteq> e2eeKey" for f
    using that mwf_mdel[OF assms(2)] by (simp add: out setResponseE2EE_def mget_mput)
  then show ?thesis using r by (auto simp: e)
qed

section \<open>Billable quantities\<close>

lemma read_locators_ok:
  "read_locators q frame locs = Inr found \<Longrightarrow>
     (\<forall>loc\<in>set locs. \<exists>r. read_locator q frame loc = Inr r)
     \<and> snd ` set found = {v. \<exists>loc\<in>set locs. read_locator q frame loc = Inr (Some v)}"
proof (induction locs arbitrary: found)
  case (Cons loc locs)
  obtain r fnd where r: "read_locator q frame loc = Inr r" "read_locators q frame locs = Inr fnd"
    "found = (case r of None \<Rightarrow> fnd | Some v \<Rightarrow> (loc, v) # fnd)"
    using Cons.prems by (auto simp: bind_r_eq_Inr)
  then show ?case
    using Cons.IH[OF r(2)] by (cases r) auto
qed simp

lemma read_locators_total:
  "\<forall>loc\<in>set locs. \<exists>r. read_locator q frame loc = Inr r \<Longrightarrow> \<exists>found. read_locators q frame locs = Inr found"
  by (induction locs) auto

text \<open>
  A quantity is accepted exactly when every locator the frame carries reads as a number and all of
  them state one value.
\<close>

lemma validateCleartextQuantity_ok:
  "validateCleartextQuantity q frame = Inr () \<longleftrightarrow>
     (\<exists>v. (\<exists>loc\<in>set (cq_locators q). read_locator q frame loc = Inr (Some v))
        \<and> (\<forall>loc\<in>set (cq_locators q). read_locator q frame loc \<in> {Inr None, Inr (Some v)}))"
    (is "?l \<longleftrightarrow> ?r")
proof
  assume ?l
  then obtain found where f: "read_locators q frame (cq_locators q) = Inr found" "found \<noteq> []"
    and same: "\<forall>r\<in>set (tl found). snd r = snd (hd found)"
    by (auto simp: validateCleartextQuantity_def result_inv)
  have "snd ` set found = {snd (hd found)}"
    using f(2) same by (cases found) auto
  with read_locators_ok[OF f(1)]
  have ok: "\<forall>loc\<in>set (cq_locators q). \<exists>r. read_locator q frame loc = Inr r"
    and vals: "{v. \<exists>loc\<in>set (cq_locators q). read_locator q frame loc = Inr (Some v)} = {snd (hd found)}"
    by auto
  have "read_locator q frame loc \<in> {Inr None, Inr (Some (snd (hd found)))}"
    if l: "loc \<in> set (cq_locators q)" for loc
  proof -
    obtain r where r: "read_locator q frame loc = Inr r" using ok l by blast
    show ?thesis
    proof (cases r)
      case (Some v)
      then have "v \<in> {snd (hd found)}" using vals l r by blast
      then show ?thesis using r Some by simp
    qed (simp add: r)
  qed
  moreover have "\<exists>loc\<in>set (cq_locators q). read_locator q frame loc = Inr (Some (snd (hd found)))"
    using vals by blast
  ultimately show ?r by blast
next
  assume ?r
  then obtain v where v: "\<exists>loc\<in>set (cq_locators q). read_locator q frame loc = Inr (Some v)"
    "\<forall>loc\<in>set (cq_locators q). read_locator q frame loc \<in> {Inr None, Inr (Some v)}"
    by blast
  then obtain found where f: "read_locators q frame (cq_locators q) = Inr found"
    using read_locators_total[of "cq_locators q" q frame] by blast
  have "snd ` set found = {v}"
  proof -
    have "w = v" if "loc \<in> set (cq_locators q)" "read_locator q frame loc = Inr (Some w)" for w loc
      using v(2) that by fastforce
    then have "{w. \<exists>loc\<in>set (cq_locators q). read_locator q frame loc = Inr (Some w)} = {v}"
      using v(1) by blast
    then show ?thesis using read_locators_ok[OF f] by simp
  qed
  moreover from this obtain r rs where "found = r # rs" by (cases found) auto
  ultimately show ?l using f by (auto simp: validateCleartextQuantity_def result_inv)
qed

lemma parse_whole:
  "cq_kind q = numberWhole \<Longrightarrow> parseCleartextNumber q loc raw = Inr v \<longleftrightarrow>
     (\<exists>t n. raw = JNum t \<and> parse_int64 t = Some n \<and> 0 \<le> n \<and> v = float_of_int64 n)"
  by (auto simp: parseCleartextNumber_def Let_def result_inv as_int64_def not_less split: json.splits)

lemma parse_fractional:
  "cq_kind q = numberFractional \<Longrightarrow> parseCleartextNumber q loc raw = Inr v \<longleftrightarrow>
     (\<exists>t x. raw = JNum t \<and> parse_float t = Some x \<and> 0 \<le> f64_value x \<and> v = f64_value x)"
  by (auto simp: parseCleartextNumber_def Let_def result_inv as_float64_def not_less split: json.splits)

lemma read_nested:
  "cn_key loc \<noteq> [] \<Longrightarrow> read_locator q frame loc = Inr (Some v) \<longleftrightarrow>
     (\<exists>kvs inner. mget frame (cn_field loc) = Some (JObj kvs)
        \<and> mget (map_from kvs) (cn_key loc) = Some inner \<and> parseCleartextNumber q loc inner = Inr v)"
  "cn_key loc \<noteq> [] \<Longrightarrow> read_locator q frame loc = Inr None \<longleftrightarrow>
     mget frame (cn_field loc) = None \<or>
     (\<exists>kvs. mget frame (cn_field loc) = Some (JObj kvs) \<and> mget (map_from kvs) (cn_key loc) = None)"
  by (auto simp: read_locator_def result_inv as_object_def split: option.splits json.splits)

lemma read_top:
  "cn_key loc = [] \<Longrightarrow> read_locator q frame loc = Inr (Some v) \<longleftrightarrow>
     (\<exists>raw. mget frame (cn_field loc) = Some raw \<and> parseCleartextNumber q loc raw = Inr v)"
  "cn_key loc = [] \<Longrightarrow> read_locator q frame loc = Inr None \<longleftrightarrow> mget frame (cn_field loc) = None"
  by (auto simp: read_locator_def bind_r_eq_Inr split: option.splits)

text \<open>
  The image count is billable. A final frame of either image profile passes the cleartext check
  exactly when \<open>usage\<close> is an object whose \<open>output_images\<close> is an integer literal in the range of
  int64 and not negative; an absent, null, quoted, fractional or exponent form is refused.
\<close>

theorem image_count_required:
  assumes "p = ProfileImage \<or> p = ProfileAsyncImage"
  shows "validateResponseCleartextFor p frame = Inr () \<longleftrightarrow>
     (\<exists>kvs t n. mget frame fieldUsage = Some (JObj kvs)
        \<and> mget (map_from kvs) fieldOutputImages = Some (JNum t) \<and> parse_int64 t = Some n \<and> 0 \<le> n)"
proof -
  let ?q = "\<lparr>cq_locators = [\<lparr>cn_field = ''usage'', cn_key = ''output_images''\<rparr>],
             cq_kind = numberWhole, cq_what = ''the count of images actually delivered''\<rparr>"
  have "validateResponseCleartextFor p frame = Inr () \<longleftrightarrow> validateCleartextQuantity ?q frame = Inr ()"
    using assms by (auto simp: validateResponseCleartextFor_def spec_image_def spec_async_image_def
        result_inv)
  also have "\<dots> \<longleftrightarrow> (\<exists>v. read_locator ?q frame \<lparr>cn_field = ''usage'', cn_key = ''output_images''\<rparr> = Inr (Some v))"
    by (auto simp: validateCleartextQuantity_ok)
  finally show ?thesis
    by (auto simp: read_nested parse_whole)
qed

text \<open>
  The audio length is stated once. A final speech frame passes the cleartext check exactly when
  there is one non-negative number that \<open>usage.seconds\<close> and a top-level \<open>duration\<close> both denote
  wherever they appear, at least one of them appears, and \<open>usage\<close>, if present, is an object: the
  client and the router cannot read two different lengths out of one response.
\<close>

theorem audio_length_agrees:
  "validateResponseCleartextFor ProfileSpeech frame = Inr () \<longleftrightarrow>
     (\<exists>v\<ge>0. (\<forall>raw. mget frame fieldDuration = Some raw \<longrightarrow>
               (\<exists>t x. raw = JNum t \<and> parse_float t = Some x \<and> f64_value x = v))
        \<and> (\<forall>raw. mget frame fieldUsage = Some raw \<longrightarrow>
             (\<exists>kvs. raw = JObj kvs \<and> (\<forall>s. mget (map_from kvs) fieldSeconds = Some s \<longrightarrow>
                (\<exists>t x. s = JNum t \<and> parse_float t = Some x \<and> f64_value x = v))))
        \<and> (mhas frame fieldDuration \<or>
             (\<exists>kvs. mget frame fieldUsage = Some (JObj kvs) \<and> mhas (map_from kvs) fieldSeconds)))"
    (is "?l \<longleftrightarrow> (\<exists>v\<ge>0. ?D v \<and> ?U v \<and> ?some)")
proof -
  let ?q = "\<lparr>cq_locators = [\<lparr>cn_field = ''usage'', cn_key = ''seconds''\<rparr>,
                            \<lparr>cn_field = ''duration'', cn_key = []\<rparr>],
             cq_kind = numberFractional,
             cq_what = ''the billable duration of the audio actually processed, in seconds''\<rparr>"
  let ?R = "read_locator ?q frame"
  let ?u = "\<lparr>cn_field = ''usage'', cn_key = ''seconds''\<rparr>" and ?d = "\<lparr>cn_field = ''duration'', cn_key = []\<rparr>"
  have d: "?R ?d \<in> {Inr None, Inr (Some v)} \<longleftrightarrow>
      (mget frame fieldDuration = None \<or> (?D v \<and> 0 \<le> v))" for v
    by (cases "mget frame ''duration''") (auto simp: read_top parse_fractional)
  have u: "?R ?u \<in> {Inr None, Inr (Some v)} \<longleftrightarrow>
      (mget frame fieldUsage = None
       \<or> (\<exists>kvs. mget frame fieldUsage = Some (JObj kvs)
            \<and> (mget (map_from kvs) fieldSeconds = None \<or> (?U v \<and> 0 \<le> v))))" for v
  proof (cases "mget frame ''usage''")
    case (Some raw)
    show ?thesis
    proof (cases "\<exists>kvs. raw = JObj kvs")
      case True
      then obtain kvs where kvs: "raw = JObj kvs" by blast
      show ?thesis
        using Some kvs by (cases "mget (map_from kvs) ''seconds''") (auto simp: read_nested parse_fractional)
    qed (use Some in \<open>auto simp: read_nested\<close>)
  qed (simp add: read_nested)
  have "?l \<longleftrightarrow> validateCleartextQuantity ?q frame = Inr ()"
    by (auto simp: validateResponseCleartextFor_def spec_speech_def result_inv)
  also have "\<dots> \<longleftrightarrow> (\<exists>v. (?R ?u = Inr (Some v) \<or> ?R ?d = Inr (Some v))
      \<and> ?R ?u \<in> {Inr None, Inr (Some v)} \<and> ?R ?d \<in> {Inr None, Inr (Some v)})"
    by (simp add: validateCleartextQuantity_ok)
  also have "\<dots> \<longleftrightarrow> (\<exists>v\<ge>0. ?D v \<and> ?U v \<and> ?some)"
  proof
    assume "\<exists>v. (?R ?u = Inr (Some v) \<or> ?R ?d = Inr (Some v))
      \<and> ?R ?u \<in> {Inr None, Inr (Some v)} \<and> ?R ?d \<in> {Inr None, Inr (Some v)}"
    then obtain v where v: "?R ?u = Inr (Some v) \<or> ?R ?d = Inr (Some v)"
      "?R ?u \<in> {Inr None, Inr (Some v)}" "?R ?d \<in> {Inr None, Inr (Some v)}" by blast
    have "0 \<le> v" "?some"
      using v(1) by (auto simp: read_nested read_top parse_fractional mhas_def)
    moreover have "?D v" using v(3) unfolding d by auto
    moreover have "?U v" using v(2) unfolding u by auto
    ultimately show "\<exists>v\<ge>0. ?D v \<and> ?U v \<and> ?some" by blast
  next
    assume "\<exists>v\<ge>0. ?D v \<and> ?U v \<and> ?some"
    then obtain v where v: "0 \<le> v" "?D v" "?U v" "?some" by blast
    have "?R ?u \<in> {Inr None, Inr (Some v)}"
    proof (cases "mget frame fieldUsage")
      case None
      then show ?thesis unfolding u by blast
    next
      case (Some raw)
      then obtain kvs where "raw = JObj kvs" using v(3) by blast
      then show ?thesis unfolding u using Some v(1,3) by blast
    qed
    moreover have "?R ?d \<in> {Inr None, Inr (Some v)}" unfolding d using v by auto
    moreover have "?R ?u = Inr (Some v) \<or> ?R ?d = Inr (Some v)"
      using v by (fastforce simp: read_nested read_top parse_fractional mhas_def)
    ultimately show "\<exists>v. (?R ?u = Inr (Some v) \<or> ?R ?d = Inr (Some v))
      \<and> ?R ?u \<in> {Inr None, Inr (Some v)} \<and> ?R ?d \<in> {Inr None, Inr (Some v)}" by blast
  qed
  finally show ?thesis .
qed

end
