(* ===== verification/Wire_Request.thy ===== *)
theory Wire_Request
  imports Wire_Aad Hpke_Ideal
begin

text \<open>
  The request side of protocol/wire: what a client can seal, what an enclave accepts, and that the
  two agree. The facts about a successful run of \<open>SealRequestFor\<close> come first; the properties
  follow, each with an instance at the ideal HPKE and a concrete chat request.
\<close>

section \<open>A successful seal\<close>

definition request_e2ee ::
    "bytes \<Rightarrow> string list \<Rightarrow> string \<Rightarrow> bytes \<Rightarrow> string list \<Rightarrow> bytes \<Rightarrow> E2EE" where
  "request_e2ee encPub sealed signerAddr clientEphPub unbound enc =
     \<lparr>e_V = Version, e_KEMID = KEMID, e_KeyID = b64_encode (keyID encPub),
      e_SignerAddr = signerAddr, e_ClientEphPub = b64_encode clientEphPub,
      e_Enc = b64_encode enc, e_SealedFields = sealed, e_UnboundFields = unbound,
      e_Ciphertext = []\<rparr>"

lemma SealRequestForE:
  assumes "SealRequestFor H J p pub req sf a k U rnd = Inr env"
  obtains spec sealed obj enc s aad ct s' e m where
    "profile_spec p = Inr spec" "sealed = resolve_sealed p req sf"
    "sealed_set_ok spec sealed" "unbound_set_ok U sealed" "\<forall>f\<in>set U. pinFor spec f = None"
    "\<forall>f\<in>set (ps_payload spec). mhas req (pf_name f) \<longrightarrow> pf_name f \<in> set sealed"
    "mhas req fieldBind \<longrightarrow> fieldBind \<in> set sealed"
    "\<forall>q\<in>set (ps_pinned spec). pin_holds q req"
    "sealed_object req sealed [] = Inr obj" "mget req e2eeKey = None"
    "SetupSender H pub SealInfo rnd = Inr (enc, s)"
    "e = request_e2ee pub sealed a k U enc" "m = mdel (\<lambda>k. k \<in> set sealed) req"
    "aadFromEnvelope J (setE2EE e m) = Inr aad"
    "SealerSeal H s (json_print (JObj obj)) aad = Inr (ct, s')"
    "env = setE2EE (e\<lparr>e_Ciphertext := b64_encode ct\<rparr>) m"
    "isSignerAddr a" "length k = clientEphPubLen"
  using assms
  by (auto simp: SealRequestFor_def Let_def bind_r_eq_Inr fail_if_eq_Inr crypto_r_eq_Inr
      validateSealInputs_ok validateSealableRequest_def ValidateSealedFieldsFor_ok
      validatePayloadSealedFor_ok validatePinnedValues_ok mhas_def request_e2ee_def)

lemma SealRequestFor_succeeds:
  assumes "profile_spec p = Inr spec" "sealed = resolve_sealed p req sf"
    and "sealed_set_ok spec sealed" "unbound_set_ok U sealed" "\<forall>f\<in>set U. pinFor spec f = None"
    and "\<forall>f\<in>set (ps_payload spec). mhas req (pf_name f) \<longrightarrow> pf_name f \<in> set sealed"
    and "mhas req fieldBind \<longrightarrow> fieldBind \<in> set sealed"
    and "\<forall>q\<in>set (ps_pinned spec). pin_holds q req"
    and "\<forall>f\<in>set sealed. mhas req f" "\<not> mhas req e2eeKey" "mwf req"
    and "isSignerAddr a" "length k = clientEphPubLen"
    and "SetupSender H pub SealInfo rnd = Inr (enc, s)"
    and seal: "\<And>pt aad. \<exists>r. SealerSeal H s pt aad = Inr r"
    and canon: "\<And>v. \<exists>t. J (json_print v) = Some t"
  shows "\<exists>env. SealRequestFor H J p pub req sf a k U rnd = Inr env"
proof -
  obtain obj where obj: "sealed_object req sealed [] = Inr obj"
    using assms(9) by (auto simp: sealed_object_eq)
  let ?m = "mdel (\<lambda>k. k \<in> set sealed) req" and ?e = "request_e2ee pub sealed a k U enc"
  obtain aad where aad: "aadFromEnvelope J (setE2EE ?e ?m) = Inr aad"
    using canon aad_object_setE2EE[OF mwf_mdel[OF assms(11)], of ?e "\<lambda>k. k \<in> set sealed"]
    by (auto simp: aadFromEnvelope_def canonicalJSON_def opt_r_eq_Inr)
  obtain ct s' where "SealerSeal H s (json_print (JObj obj)) aad = Inr (ct, s')"
    using seal by (metis surj_pair)
  moreover have "validateSealInputs p spec sealed U a k = Inr ()"
    "validateSealableRequest p spec sealed req = Inr ()"
    using assms by (auto simp: validateSealInputs_ok ValidateSealedFieldsFor_ok result_inv
        validateSealableRequest_def validatePayloadSealedFor_ok validatePinnedValues_ok)
  ultimately show ?thesis
    using assms obj aad
    by (simp add: SealRequestFor_def Let_def request_e2ee_def)
qed

lemma aad_ciphertext:
  "mwf m \<Longrightarrow> aadFromEnvelope J (setE2EE (e\<lparr>e_Ciphertext := c\<rparr>) m) = aadFromEnvelope J (setE2EE e m)"
  by (simp add: aadFromEnvelope_def aad_object_setE2EE)

lemma request_e2ee_simps [simp]:
  "e_V (request_e2ee pub sealed a k U enc) = 1"
  "e_KEMID (request_e2ee pub sealed a k U enc) = ''0x0020''"
  "e_Enc (request_e2ee pub sealed a k U enc) = b64_encode enc"
  "e_SealedFields (request_e2ee pub sealed a k U enc) = sealed"
  "e_UnboundFields (request_e2ee pub sealed a k U enc) = U"
  by (simp_all add: request_e2ee_def)

text \<open>Reading a sealed envelope, however its unbound fields were edited.\<close>

lemma open_sealed_envelope:
  assumes m: "mwf m" "e = request_e2ee pub sealed a k U enc"
    and env': "mwf env'" "\<And>k. k \<notin> set U \<Longrightarrow>
                 mget env' k = mget (setE2EE (e\<lparr>e_Ciphertext := b64_encode ct\<rparr>) m) k"
    and U: "unbound_set_ok U sealed"
    and aad: "aadFromEnvelope J (setE2EE e m) = Inr aad"
  shows "decodeE2EE env' = Inr (e\<lparr>e_Ciphertext := b64_encode ct\<rparr>)"
    "aadFromEnvelope J env' = Inr aad"
proof -
  let ?e = "e\<lparr>e_Ciphertext := b64_encode ct\<rparr>"
  have "mget env' e2eeKey = Some (e2ee_json ?e)"
    using env'(2)[of e2eeKey] U m by (auto simp: setE2EE_def mget_mput unbound_set_ok_def)
  then show "decodeE2EE env' = Inr ?e"
    using m by (simp add: decodeE2EE_def decode_e2ee_json)
  have "aad_object env' = aad_object (setE2EE ?e m)"
    using env' U m by (intro aad_object_unbound) (auto simp: unbound_set_ok_def)
  then have "aadFromEnvelope J env' = aadFromEnvelope J (setE2EE ?e m)"
    by (simp add: aadFromEnvelope_def)
  then show "aadFromEnvelope J env' = Inr aad"
    using aad aad_ciphertext[OF m(1)] by simp
qed

section \<open>Sealing and opening agree\<close>

lemma open_edited_envelope:
  assumes "SealRequestFor H J p pub req sf a k U rnd = Inr env"
    and "mwf req" "json_ok (JObj req)"
    and "pairs_base H R pub priv" "opens_sealed H R"
    and "mwf env'" "\<forall>f. f \<notin> set U \<longrightarrow> mget env' f = mget env f"
  shows "\<exists>req'. OpenRequest H J priv env' = Inr req' \<and> mwf req' \<and>
     (\<forall>f. mget req' f = (if f \<in> set U then mget env' f else mget req f))"
  using assms(1)
proof (rule SealRequestForE)
  fix spec sealed obj enc s aad ct s' e m
  assume sok: "sealed_set_ok spec sealed" and U: "unbound_set_ok U sealed"
    and obj: "sealed_object req sealed [] = Inr obj" and no: "mget req e2eeKey = None"
    and snd: "SetupSender H pub SealInfo rnd = Inr (enc, s)"
    and e: "e = request_e2ee pub sealed a k U enc" and m: "m = mdel (\<lambda>k. k \<in> set sealed) req"
    and aad: "aadFromEnvelope J (setE2EE e m) = Inr aad"
    and sl: "SealerSeal H s (json_print (JObj obj)) aad = Inr (ct, s')"
    and env: "env = setE2EE (e\<lparr>e_Ciphertext := b64_encode ct\<rparr>) m"
  have wm: "mwf m" using assms(2) by (simp add: m mwf_mdel)
  note rd = open_sealed_envelope[OF wm e assms(6) _ U aad, of ct]
  have agree: "mget env' f = mget (setE2EE (e\<lparr>e_Ciphertext := b64_encode ct\<rparr>) m) f"
    if "f \<notin> set U" for f using assms(7) that by (simp add: env)
  obtain cr where cr: "SetupReceiver H priv enc SealInfo = Inr cr" "R s cr"
    using pairs_baseD[OF assms(4) snd] by blast
  obtain cr' where op: "OpenerOpen H cr ct aad = Inr (json_print (JObj obj), cr')"
    using opens_sealedD[OF assms(5) cr(2) sl] by blast
  have gone: "mget env' f = None" if "f \<in> set sealed" for f
  proof -
    have "f \<notin> set U" "f \<noteq> e2eeKey"
      using that U sok by (auto simp: unbound_set_ok_def sealed_set_ok_def)
    then show ?thesis
      using agree[of f] that wm by (simp add: setE2EE_def mget_mput) (simp add: m mget_mdel)
  qed
  obtain r where r: "reconstruct env' sealed (json_print (JObj obj)) = Inr r" "mwf r"
    "\<And>f. mget r f = (if f \<in> set sealed then mget req f
                      else if f = e2eeKey then None else mget env' f)"
    using reconstruct_sealed[OF obj assms(2,3) _ _ assms(6) gone] sok
    by (auto simp: sealed_set_ok_def)
  have "OpenRequest H J priv env' = Inr r"
    using rd[OF agree] cr op r(1) by (simp add: OpenRequest_def e)
  moreover have "mget r f = (if f \<in> set U then mget env' f else mget req f)" for f
    using r(3)[of f] agree[of f] U no assms(2)
    by (auto simp: m setE2EE_def map_simps unbound_set_ok_def)
  ultimately show ?thesis using r(2) by blast
qed

text \<open>
  A sealed request survives transit. Whatever an intermediary writes into, or removes from, the
  fields the client declared unbound, the holder of the private key opens the envelope, and gets
  every sealed field and every bound field with the value the client sent; an unbound field has the
  value it arrived with.
\<close>

theorem OpenRequest_after_transit:
  assumes "SealRequestFor H J p pub req sf a k U rnd = Inr env"
    and "mwf req" "json_ok (JObj req)"
    and "pairs_base H R pub priv" "opens_sealed H R"
    and "mwf env'" "\<forall>f. f \<notin> set U \<longrightarrow> mget env' f = mget env f"
  shows "\<exists>req'. OpenRequest H J priv env' = Inr req' \<and> mwf req' \<and>
     (\<forall>f. mget req' f = (if f \<in> set U then mget env' f else mget req f))"
  using assms by (rule open_edited_envelope)

lemma open_for_sealed:
  assumes "SealRequestFor H J p pub req sf a k U rnd = Inr env"
    and "mwf req" "json_ok (JObj req)"
    and "pairs_base H R pub priv" "opens_sealed H R"
  shows "OpenRequestFor H J p priv env = Inr req"
  using assms(1)
proof (rule SealRequestForE)
  fix spec sealed obj enc s aad ct s' e m
  assume sp: "profile_spec p = Inr spec" and sok: "sealed_set_ok spec sealed"
    and U: "unbound_set_ok U sealed" and pU: "\<forall>f\<in>set U. pinFor spec f = None"
    and pay: "\<forall>f\<in>set (ps_payload spec). mhas req (pf_name f) \<longrightarrow> pf_name f \<in> set sealed"
    and bind: "mhas req fieldBind \<longrightarrow> fieldBind \<in> set sealed"
    and pins: "\<forall>q\<in>set (ps_pinned spec). pin_holds q req"
    and obj: "sealed_object req sealed [] = Inr obj" and no: "mget req e2eeKey = None"
    and snd: "SetupSender H pub SealInfo rnd = Inr (enc, s)"
    and e: "e = request_e2ee pub sealed a k U enc" and m: "m = mdel (\<lambda>k. k \<in> set sealed) req"
    and aad: "aadFromEnvelope J (setE2EE e m) = Inr aad"
    and sl: "SealerSeal H s (json_print (JObj obj)) aad = Inr (ct, s')"
    and env: "env = setE2EE (e\<lparr>e_Ciphertext := b64_encode ct\<rparr>) m"
  have wm: "mwf m" "mwf env" using assms(2) by (simp_all add: m mwf_mdel env setE2EE_def mwf_mput)
  obtain r where r: "OpenRequest H J priv env = Inr r" "mwf r" "\<And>f. mget r f = mget req f \<or> f \<in> set U"
      "\<And>f. f \<in> set U \<Longrightarrow> mget r f = mget env f"
    using open_edited_envelope[OF assms wm(2)] by force
  have "mget env f = mget req f" if "f \<in> set U" for f
    using that U assms(2)
    by (auto simp: env m setE2EE_def map_simps unbound_set_ok_def)
  then have "r = req" using r assms(2) by (metis mwf_ext)
  moreover have dec: "decodeE2EE env = Inr (e\<lparr>e_Ciphertext := b64_encode ct\<rparr>)"
    unfolding env by (rule decodeE2EE_setE2EE[OF wm(1)]) (simp add: e)
  moreover have clear: "mget env f = (if f \<in> set sealed then None else mget req f)" if "f \<noteq> e2eeKey" for f
    using that assms(2) by (simp add: env m setE2EE_def map_simps)
  have "validatePayloadSealedFor p sealed env = Inr ()"
    unfolding validatePayloadSealedFor_ok
    using sp pay bind clear payload_not_reserved[OF sp] by (auto simp: mhas_def split: if_splits)
  moreover have "pin_holds q env" if q: "q \<in> set (ps_pinned spec)" for q
  proof -
    have "pin_field q \<noteq> e2eeKey" "pin_field q \<notin> set sealed"
      using q sok pinned_not_reserved[OF sp q] by (auto simp: sealed_set_ok_def pinFor_None)
    then show ?thesis using pins q clear by (simp add: pin_holds_def)
  qed
  ultimately show ?thesis
    using sp sok pU r(1)
    by (auto simp: OpenRequestFor_def validatePinnedFor_def ValidateSealedFieldsFor_ok
        validatePinnedNotSealed_ok validatePinnedNotUnbound_ok validatePinnedValues_ok
        result_inv sealed_set_ok_def e)
qed

text \<open>
  C24: An envelope built by \<open>SealRequestFor\<close> passes every check of the enclave's entry point
  \<open>OpenRequestFor\<close> under the same profile, and what comes out is exactly the request that was
  sealed.
\<close>

theorem OpenRequestFor_SealRequestFor:
  assumes "SealRequestFor H J p pub req sf a k U rnd = Inr env"
    and "mwf req" "json_ok (JObj req)"
    and "pairs_base H R pub priv" "opens_sealed H R"
  shows "OpenRequestFor H J p priv env = Inr req"
  using assms by (rule open_for_sealed)

section \<open>What can leak, and what can be changed\<close>

text \<open>
  C1: No envelope that \<open>SealRequestFor\<close> builds carries payload in the clear, whatever sealed set the
  caller chose: every field the profile declares as payload, and the response-binding value, is
  absent from the cleartext half; every mandatory one is inside the ciphertext; the pinned fields
  are still readable with a permitted value and cannot be edited in transit.
\<close>

theorem SealRequestFor_no_leak:
  assumes "SealRequestFor H J p pub req sf a k U rnd = Inr env" "mwf req"
  shows "\<exists>spec e. profile_spec p = Inr spec \<and> decodeE2EE env = Inr e
     \<and> (\<forall>f\<in>set (ps_payload spec). mget env (pf_name f) = None)
     \<and> mget env fieldBind = None
     \<and> (\<forall>f\<in>set (ps_payload spec). \<not> pf_optional f \<longrightarrow> pf_name f \<in> set (e_SealedFields e))
     \<and> (\<forall>q\<in>set (ps_pinned spec). pin_holds q env \<and> pin_field q \<notin> set (e_UnboundFields e))
     \<and> (\<forall>f. f \<noteq> e2eeKey \<longrightarrow> mget env f = (if f \<in> set (e_SealedFields e) then None else mget req f))"
  using assms(1)
proof (rule SealRequestForE)
  fix spec sealed obj enc s aad ct s' e m
  assume sp: "profile_spec p = Inr spec" and sok: "sealed_set_ok spec sealed"
    and pU: "\<forall>f\<in>set U. pinFor spec f = None"
    and pay: "\<forall>f\<in>set (ps_payload spec). mhas req (pf_name f) \<longrightarrow> pf_name f \<in> set sealed"
    and bind: "mhas req fieldBind \<longrightarrow> fieldBind \<in> set sealed"
    and pins: "\<forall>q\<in>set (ps_pinned spec). pin_holds q req"
    and e: "e = request_e2ee pub sealed a k U enc" and m: "m = mdel (\<lambda>k. k \<in> set sealed) req"
    and env: "env = setE2EE (e\<lparr>e_Ciphertext := b64_encode ct\<rparr>) m"
  have wm: "mwf m" using assms(2) by (simp add: m mwf_mdel)
  have clear: "mget env f = (if f \<in> set sealed then None else mget req f)" if "f \<noteq> e2eeKey" for f
    using that assms(2) by (simp add: env m setE2EE_def map_simps)
  have "decodeE2EE env = Inr (e\<lparr>e_Ciphertext := b64_encode ct\<rparr>)"
    unfolding env by (rule decodeE2EE_setE2EE[OF wm]) (simp add: e)
  moreover have "mget env (pf_name f) = None" if "f \<in> set (ps_payload spec)" for f
    using that pay clear[of "pf_name f"] payload_not_reserved[OF sp that] by (auto simp: mhas_def)
  moreover have "mget env fieldBind = None"
    using bind clear[of fieldBind] by (auto simp: mhas_def)
  moreover have "pin_holds q env \<and> pin_field q \<notin> set U" if q: "q \<in> set (ps_pinned spec)" for q
  proof -
    have "pin_field q \<noteq> e2eeKey" "pin_field q \<notin> set sealed" "pin_field q \<notin> set U"
      using q sok pU pinned_not_reserved[OF sp q] by (auto simp: sealed_set_ok_def pinFor_None)
    then show ?thesis using pins q clear by (simp add: pin_holds_def)
  qed
  ultimately show ?thesis
    using sp sok clear by (auto simp: e sealed_set_ok_def)
qed


text \<open>
  What the enclave accepts. When \<open>OpenRequestFor\<close> returns a request, each mandatory payload
  field came out of the ciphertext and no payload field, optional ones and the binding value
  included, was readable in transit; each pinned field of the returned request holds a permitted
  value and was neither sealed nor left outside the authenticated data.
\<close>

theorem OpenRequestFor_accepts:
  assumes "OpenRequestFor H J p priv env = Inr req" "mwf env"
  shows "\<exists>spec e. profile_spec p = Inr spec \<and> decodeE2EE env = Inr e
     \<and> e_V e = Version \<and> e_KEMID e = KEMID
     \<and> (\<forall>f\<in>set (ps_payload spec). mget env (pf_name f) = None \<and> (\<not> pf_optional f \<longrightarrow> mhas req (pf_name f)))
     \<and> mget env fieldBind = None
     \<and> (\<forall>q\<in>set (ps_pinned spec). pin_holds q req \<and> pin_field q \<notin> set (e_UnboundFields e)
          \<and> pin_field q \<notin> set (e_SealedFields e))
     \<and> (\<forall>f. mhas req f \<longleftrightarrow> f \<in> set (e_SealedFields e) \<or> (f \<noteq> e2eeKey \<and> mhas env f))"
proof -
  obtain spec e where sp: "profile_spec p = Inr spec" and dec: "decodeE2EE env = Inr e"
    and sok: "sealed_set_ok spec (e_SealedFields e)"
    and pay: "\<forall>f\<in>set (ps_payload spec). mhas env (pf_name f) \<longrightarrow> pf_name f \<in> set (e_SealedFields e)"
    and bind: "mhas env fieldBind \<longrightarrow> fieldBind \<in> set (e_SealedFields e)"
    and pin: "validatePinnedFor p env = Inr ()" and op: "OpenRequest H J priv env = Inr req"
    using assms(1)
    by (auto simp: OpenRequestFor_def bind_r_eq_Inr ValidateSealedFieldsFor_ok
        validatePayloadSealedFor_ok)
  obtain pt where V: "e_V e = Version" "e_KEMID e = KEMID"
    and rc: "reconstruct env (e_SealedFields e) pt = Inr req"
    using op dec by (auto simp: OpenRequest_def bind_r_eq_Inr fail_if_eq_Inr)
  have dist: "distinct (e_SealedFields e)" using sok by (simp add: sealed_set_ok_def)
  from rc assms(2) dist show ?thesis
  proof (rule reconstruct_ok)
    fix obj
    assume ks: "\<And>k. mget (nil_map obj) k \<noteq> None \<longleftrightarrow> k \<in> set (e_SealedFields e)"
      and cl: "\<And>k. k \<in> set (e_SealedFields e) \<Longrightarrow> mget env k = None"
      and get: "\<And>k. mget req k = (if k \<in> set (e_SealedFields e) then mget (nil_map obj) k
                      else if k = e2eeKey then None else mget env k)"
    have has: "mhas req f \<longleftrightarrow> f \<in> set (e_SealedFields e) \<or> (f \<noteq> e2eeKey \<and> mhas env f)" for f
      using get[of f] ks[of f] by (auto simp: mhas_def)
    have pins: "pin_holds q req \<and> pin_field q \<notin> set (e_UnboundFields e) \<and> pin_field q \<notin> set (e_SealedFields e)"
      if q: "q \<in> set (ps_pinned spec)" for q
    proof -
      have "ps_pinned spec \<noteq> []" using q by auto
      then have "pin_holds q env" "pin_field q \<notin> set (e_UnboundFields e)"
          "pin_field q \<notin> set (e_SealedFields e)"
        using pin sp dec q
        by (auto simp: validatePinnedFor_def result_inv validatePinnedNotSealed_ok
            validatePinnedNotUnbound_ok validatePinnedValues_ok pinFor_None)
      then show ?thesis
        using get[of "pin_field q"] pinned_not_reserved[OF sp q] by (simp add: pin_holds_def)
    qed
    have "mget env (pf_name f) = None \<and> (\<not> pf_optional f \<longrightarrow> mhas req (pf_name f))"
      if "f \<in> set (ps_payload spec)" for f
      using that pay cl sok has by (auto simp: mhas_def sealed_set_ok_def)
    moreover have "mget env fieldBind = None"
      using bind cl by (auto simp: mhas_def)
    ultimately show ?thesis using sp dec V pins has by blast
  qed
qed

section \<open>Defaults\<close>

lemma default_set_ok:
  assumes "profile_spec p = Inr s"
  shows "DefaultSealedFieldsFor p = map pf_name (ps_payload s)"
    "distinct (map pf_name (ps_payload s))" "[] \<notin> pf_name ` set (ps_payload s)"
    "\<exists>f\<in>set (ps_payload s). \<not> pf_optional f"
    "\<forall>f\<in>set (ps_payload s). pinFor s (pf_name f) = None" "pinFor s fieldBind = None"
  using assms
  by (auto simp: DefaultSealedFieldsFor_def defaultRequestSealed_def pinFor_None
      elim!: profile_spec_cases simp: spec_defs)

lemma set_resolve_default:
  assumes "profile_spec p = Inr s"
  shows "set (resolve_sealed p req None) =
      {f \<in> insert fieldBind (pf_name ` set (ps_payload s)). mhas req f}"
    "distinct (resolve_sealed p req None)"
  using default_set_ok[OF assms]
  by (auto simp: resolve_sealed_def presentSubset_def Let_def)

text \<open>
  The default sealed set, which a caller gets by passing nil, is one an ordinary request can
  meet: it is accepted exactly when the request carries the mandatory payload of the profile, and it
  always covers all payload the request carries, the response-binding value included.
\<close>

theorem default_sealed_set_satisfiable:
  assumes "profile_spec p = Inr spec"
  shows "(ValidateSealedFieldsFor p (resolve_sealed p req None) = Inr () \<longleftrightarrow>
        (\<forall>f\<in>set (ps_payload spec). \<not> pf_optional f \<longrightarrow> mhas req (pf_name f)))
    \<and> validatePayloadSealedFor p (resolve_sealed p req None) req = Inr ()"
proof -
  let ?R = "resolve_sealed p req None"
    and ?carried = "\<forall>f\<in>set (ps_payload spec). \<not> pf_optional f \<longrightarrow> mhas req (pf_name f)"
  note d = default_set_ok[OF assms] and r = set_resolve_default[OF assms, of req]
  have names: "x \<noteq> [] \<and> x \<noteq> e2eeKey \<and> pinFor spec x = None" if "x \<in> set ?R" for x
  proof -
    have "x = fieldBind \<or> (\<exists>f\<in>set (ps_payload spec). x = pf_name f)" using that r(1) by blast
    then show ?thesis using d(3,5,6) payload_not_reserved[OF assms] by force
  qed
  have "?R \<noteq> []" if c: ?carried
  proof -
    obtain f where "f \<in> set (ps_payload spec)" "\<not> pf_optional f" using d(4) by blast
    then have "pf_name f \<in> set ?R" using r(1) c by blast
    then show ?thesis by auto
  qed
  moreover have "(\<forall>f\<in>set (ps_payload spec). \<not> pf_optional f \<longrightarrow> pf_name f \<in> set ?R) \<longleftrightarrow> ?carried"
    unfolding r(1) by blast
  ultimately have "sealed_set_ok spec ?R \<longleftrightarrow> ?carried"
    using names r(2) by (auto simp: sealed_set_ok_def)
  moreover have "validatePayloadSealedFor p ?R req = Inr ()"
    unfolding validatePayloadSealedFor_ok using assms r(1) by auto
  ultimately show ?thesis using assms by (simp add: ValidateSealedFieldsFor_ok)
qed

text \<open>
  Validating an unbound set once at start-up, against the default sealed set, predicts the
  verdict of every later request sealed with the default, with one exception: an unbound set naming
  the binding field passes at start-up under a profile that does not declare it, and is refused for
  each request that carries it.
\<close>

theorem startup_unbound_verdict:
  assumes "ValidateUnboundFieldsFor p unbound (DefaultSealedFieldsFor p) = Inr ()"
  shows "ValidateUnboundFieldsFor p unbound (resolve_sealed p req None) = Inr () \<longleftrightarrow>
      \<not> (fieldBind \<in> set unbound \<and> mhas req fieldBind)"
proof -
  obtain spec where sp: "profile_spec p = Inr spec"
    and pn: "validatePinnedNotUnbound spec unbound = Inr ()"
    and u: "unbound_set_ok unbound (DefaultSealedFieldsFor p)"
    using assms by (auto simp: ValidateUnboundFieldsFor_def bind_r_eq_Inr ValidateUnboundFields_ok)
  have "unbound_set_ok unbound (resolve_sealed p req None) \<longleftrightarrow>
      \<not> (fieldBind \<in> set unbound \<and> mhas req fieldBind)"
    using u set_resolve_default(1)[OF sp, of req] default_set_ok(1)[OF sp]
    by (fastforce simp: unbound_set_ok_def)
  then show ?thesis
    using sp pn by (simp add: ValidateUnboundFieldsFor_def ValidateUnboundFields_ok)
qed

section \<open>A concrete request\<close>

definition demo_key :: bytes where "demo_key = replicate 32 (CHR ''k'')"

definition demo_addr :: string where "demo_addr = ''0x'' @ replicate 40 (CHR ''a'')"

definition demo_req :: Request where
  "demo_req = [(''messages'', JStr ''hi''), (''model'', JStr ''m1'')]"

lemma demo_req_ok [simp]: "mwf demo_req" "json_ok (JObj demo_req)"
  by (simp_all add: demo_req_def mwf_def)

lemma demo_lengths [simp]: "length demo_key = 32" "isSignerAddr demo_addr"
  by (simp_all add: demo_key_def demo_addr_def isSignerAddr_def is_hex_char_def list_all_iff)

lemma demo_spec: "profile_spec ''chat'' = Inr spec_chat"
  by simp

lemma demo_resolve: "resolve_sealed ''chat'' demo_req None = [''messages'']"
  by (simp add: resolve_sealed_def presentSubset_def DefaultSealedFieldsFor_def
      defaultRequestSealed_def spec_chat_def demo_req_def mhas_def)

lemma demo_seal:
  "\<exists>env. SealRequestFor ideal_hpke Some ''chat'' demo_key demo_req None demo_addr demo_key [''model''] rnd
     = Inr env"
proof (rule SealRequestFor_succeeds[OF demo_spec demo_resolve[symmetric]])
  show "SetupSender ideal_hpke demo_key SealInfo rnd
      = Inr (rnd, ([''base'', demo_key, SealInfo, rnd], 0))"
    by (rule ideal_sender) simp
  show "\<exists>r. SealerSeal ideal_hpke ([''base'', demo_key, SealInfo, rnd], 0) pt aad = Inr r" for pt aad
    by (metis ideal_seal_iff)
qed (auto simp: sealed_set_ok_def unbound_set_ok_def pinFor_def spec_chat_def demo_req_def mhas_def
      mwf_def)

definition demo_env :: Request where
  "demo_env = (case SealRequestFor ideal_hpke Some ''chat'' demo_key demo_req None demo_addr demo_key
                 [''model''] [] of Inr env \<Rightarrow> env | Inl _ \<Rightarrow> [])"

lemma demo_env:
  "SealRequestFor ideal_hpke Some ''chat'' demo_key demo_req None demo_addr demo_key [''model''] []
     = Inr demo_env"
  using demo_seal[of "[]"] by (auto simp: demo_env_def)

lemma sealed_request_wf:
  assumes "SealRequestFor H J p pub req sf a k U rnd = Inr env" "mwf req" "json_ok (JObj req)"
  shows "mwf env \<and> json_ok (JObj env) \<and> (\<exists>e. decodeE2EE env = Inr e)"
  using assms(1)
proof (rule SealRequestForE)
  fix sealed enc ct e m
  assume e: "e = request_e2ee pub sealed a k U enc" and m: "m = mdel (\<lambda>k. k \<in> set sealed) req"
    and env: "env = setE2EE (e\<lparr>e_Ciphertext := b64_encode ct\<rparr>) m"
  have wm: "mwf m" "json_ok (JObj m)"
    using assms(2,3) by (simp_all only: m mwf_mdel json_ok_mdel)
  have V: "e_V (e\<lparr>e_Ciphertext := b64_encode ct\<rparr>) = 1" by (simp add: e)
  show ?thesis
    using decodeE2EE_setE2EE[OF wm(1) V] mwf_mput[OF wm(1)] json_ok_mput[OF wm json_ok_e2ee_json[OF V]]
    by (simp add: env setE2EE_def)
qed

lemmas demo_env_ok = sealed_request_wf[OF demo_env demo_req_ok]

lemma demo_pairs: "pairs_base ideal_hpke (=) demo_key demo_key" "opens_sealed ideal_hpke (=)"
  by (rule ideal_hyps)+

lemma demo_opens: "OpenRequestFor ideal_hpke Some ''chat'' demo_key demo_env = Inr demo_req"
  by (rule open_for_sealed[OF demo_env demo_req_ok demo_pairs])

definition demo_edited :: Request where
  "demo_edited = mput ''model'' (JStr ''m2'') demo_env"

lemma demo_edited_ok: "mwf demo_edited" "json_ok (JObj demo_edited)"
  using demo_env_ok by (simp_all add: demo_edited_def mwf_mput json_ok_mput del: json_ok.simps(3))

lemma demo_edited_get: "mget demo_edited f = (if f = ''model'' then Some (JStr ''m2'') else mget demo_env f)"
  using demo_env_ok by (simp add: demo_edited_def mget_mput)

theorem OpenRequest_after_transit_witness:
  "\<exists>r. OpenRequest ideal_hpke Some demo_key demo_edited = Inr r
     \<and> mget r ''model'' = Some (JStr ''m2'') \<and> mget r ''messages'' = Some (JStr ''hi'')"
  using OpenRequest_after_transit[OF demo_env demo_req_ok demo_pairs demo_edited_ok(1)]
  by (force simp: demo_edited_get demo_req_def)

theorem OpenRequestFor_SealRequestFor_witness:
  "OpenRequestFor ideal_hpke Some ''chat'' demo_key demo_env = Inr demo_req"
  by (rule OpenRequestFor_SealRequestFor[OF demo_env demo_req_ok demo_pairs])

theorem SealRequestFor_no_leak_witness:
  "mget demo_env ''messages'' = None \<and> mget demo_env ''_bind'' = None"
  using SealRequestFor_no_leak[OF demo_env demo_req_ok(1)] by (auto simp: spec_chat_def)


theorem OpenRequestFor_accepts_witness:
  "mget demo_env ''messages'' = None \<and> mhas demo_req ''messages''"
proof -
  have "mwf demo_env" using demo_env_ok by blast
  then show ?thesis
    using OpenRequestFor_accepts[OF demo_opens] by (auto simp: spec_chat_def)
qed

theorem default_sealed_set_satisfiable_witness:
  "ValidateSealedFieldsFor ''chat'' (resolve_sealed ''chat'' demo_req None) = Inr ()"
  using default_sealed_set_satisfiable[OF demo_spec, of demo_req]
  by (simp add: spec_chat_def demo_req_def mhas_def)

theorem startup_unbound_verdict_witness:
  "ValidateUnboundFieldsFor ''chat'' [''_bind''] (DefaultSealedFieldsFor ''chat'') = Inr ()
   \<and> ValidateUnboundFieldsFor ''chat'' [''_bind''] (resolve_sealed ''chat'' [(''_bind'', JStr ''x'')] None)
       \<noteq> Inr ()"
proof -
  have "ValidateUnboundFieldsFor ''chat'' [''_bind''] (DefaultSealedFieldsFor ''chat'') = Inr ()"
    by (simp add: ValidateUnboundFieldsFor_def ValidateUnboundFields_ok validatePinnedNotUnbound_ok
        bind_r_eq_Inr unbound_set_ok_def DefaultSealedFieldsFor_def defaultRequestSealed_def
        spec_chat_def pinFor_def)
  then show ?thesis
    using startup_unbound_verdict[of "''chat''" "[''_bind'']" "[(''_bind'', JStr ''x'')]"]
    by (simp add: mhas_def)
qed

end
