(* ===== verification/Wire_Demo.thy ===== *)
theory Wire_Demo
  imports Wire_Accept Wire_Request
begin

text \<open>
  The response properties at a concrete chat response of two frames, sealed with the ideal HPKE in
  base mode and in mode_psk.
\<close>

lemma SealFrame_succeeds:
  assumes "profile_spec (rs_profile rs) = Inr spec" "\<not> rs_nonConforming rs"
    and "ResponseSealedFieldsForFrame (rs_profile rs) frame = Inr fs" "frame_set_ok spec frame fs"
    and "unbound_set_ok (rs_unbound rs) fs"
    and "fin \<longrightarrow> validateResponseCleartextFor (rs_profile rs) frame = Inr ()"
    and "\<forall>f\<in>set fs. mhas frame f" "\<not> mhas frame e2eeKey" "mwf frame"
    and seal: "\<And>c pt aad. \<exists>r. SealerSeal H c pt aad = Inr r"
    and canon: "\<And>v. \<exists>t. J (json_print v) = Some t"
  shows "\<exists>out s'. SealFrame H J rs frame None fin = Inr (out, rs\<lparr>rs_sealer := s', rs_first := False\<rparr>)"
proof -
  obtain obj where obj: "sealed_object frame fs [] = Inr obj"
    using assms(7) by (auto simp: sealed_object_eq)
  let ?m = "mdel (\<lambda>k. k \<in> set fs) frame" and ?e = "frame_e2ee rs fs fin []"
  obtain aad where aad: "aadFromEnvelope J (setResponseE2EE ?e ?m) = Inr aad"
    using canon aad_setResponseE2EE[OF mwf_mdel[OF assms(9)], of ?e "\<lambda>k. k \<in> set fs"]
    by (auto simp: aadFromEnvelope_def canonicalJSON_def opt_r_eq_Inr)
  obtain ct s' where "SealerSeal H (rs_sealer rs) (json_print (JObj obj)) aad = Inr (ct, s')"
    using seal by (metis surj_pair)
  moreover have "rs_validateSealedFields rs frame fs = Inr ()"
    "ValidateUnboundFields (rs_unbound rs) fs = Inr ()"
    using assms by (auto simp: rs_validateSealedFields_def validateResponseSealedFieldsForFrame_ok
        ValidateUnboundFields_ok)
  ultimately show ?thesis
    using assms(2,3,6,8) obj aad
    by (auto simp: SealFrame_def Let_def frame_e2ee_def)
qed

definition demo_frame :: Response where
  "demo_frame = [(''choices'', JStr ''hi''), (''id'', JStr ''1'')]"

lemma demo_frame_ok [simp]: "mwf demo_frame" "json_ok (JObj demo_frame)"
  by (simp_all add: demo_frame_def mwf_def)

lemma demo_frame_seals:
  assumes "rs_profile rs = ''chat''" "\<not> rs_nonConforming rs" "rs_unbound rs = [''model'']"
  shows "\<exists>out s'. SealFrame ideal_hpke Some rs demo_frame None fin
     = Inr (out, rs\<lparr>rs_sealer := s', rs_first := False\<rparr>)"
proof (rule SealFrame_succeeds)
  show "profile_spec (rs_profile rs) = Inr spec_chat" using assms by simp
  show "ResponseSealedFieldsForFrame (rs_profile rs) demo_frame = Inr [''choices'']"
    using assms by (simp add: ResponseSealedFieldsForFrame_def spec_chat_def responseFieldsFor_def)
  show "frame_set_ok spec_chat demo_frame [''choices'']"
    by (simp add: frame_set_ok_def common_set_ok_def single_set_ok_def spec_chat_def)
  show "unbound_set_ok (rs_unbound rs) [''choices'']"
    using assms by (simp add: unbound_set_ok_def)
  show "fin \<longrightarrow> validateResponseCleartextFor (rs_profile rs) demo_frame = Inr ()"
    using assms by (simp add: validateResponseCleartextFor_def spec_chat_def)
  show "\<exists>r. SealerSeal ideal_hpke c pt aad = Inr r" for c pt aad by (metis ideal_seal_iff)
qed (use assms in \<open>auto simp: demo_frame_def mhas_def mwf_def\<close>)

text \<open>The sealer of each mode.\<close>

definition demo_psk :: bytes where "demo_psk = hkdf_key32 demo_key RespBindInfo"

definition demo_rs :: "bytes option \<Rightarrow> ideal_ctx ResponseSealer" where
  "demo_rs psk =
     \<lparr>rs_sealer = (case psk of None \<Rightarrow> ([''base'', demo_key, RespInfo, ''r''], 0)
        | Some k \<Rightarrow> ([''psk'', demo_key, RespInfo, ''r'', k, RespBindPSKID], 0)),
      rs_enc = b64_encode ''r'', rs_first = True, rs_unbound = [''model''],
      rs_profile = ''chat'', rs_nonConforming = False\<rparr>"

lemma demo_rs_fields [simp]:
  "rs_enc (demo_rs psk) \<noteq> []" "rs_first (demo_rs psk)" "rs_unbound (demo_rs psk) = [''model'']"
  "rs_profile (demo_rs psk) = ''chat''" "\<not> rs_nonConforming (demo_rs psk)"
  by (simp_all add: demo_rs_def)

lemma demo_unbound: "validateResponseUnboundFieldsFor ''chat'' [''model''] = Inr ()"
  by (simp add: validateResponseUnboundFieldsFor_ok bound_set_ok_def spec_chat_def)

lemma demo_new_rs:
  assumes "psk = None \<or> psk = Some demo_psk"
  shows "newResponseSealer ideal_hpke ''chat'' demo_key psk [''model''] ''r'' = Inr (demo_rs psk)"
  using assms
  by (auto simp: newResponseSealer_def demo_unbound demo_rs_def ideal_sender ideal_sender_psk
      demo_psk_def requiresBind_def spec_chat_def)

lemma demo_stream:
  "\<exists>outs rs'. seal_stream ideal_hpke Some (demo_rs psk) [(demo_frame, None, False), (demo_frame, None, True)]
     = Inr (outs, rs') \<and> outs \<noteq> []"
proof -
  obtain out1 s1 where 1: "SealFrame ideal_hpke Some (demo_rs psk) demo_frame None False
      = Inr (out1, (demo_rs psk)\<lparr>rs_sealer := s1, rs_first := False\<rparr>)"
    using demo_frame_seals[of "demo_rs psk" False] by auto
  obtain out2 s2 where "SealFrame ideal_hpke Some ((demo_rs psk)\<lparr>rs_sealer := s1, rs_first := False\<rparr>)
      demo_frame None True = Inr (out2, (demo_rs psk)\<lparr>rs_sealer := s2, rs_first := False\<rparr>)"
    using demo_frame_seals[of "(demo_rs psk)\<lparr>rs_sealer := s1, rs_first := False\<rparr>" True] by auto
  then show ?thesis using 1 by simp
qed

lemma demo_one:
  obtains out rs' ro where "SealFrame ideal_hpke Some (demo_rs psk) demo_frame None True = Inr (out, rs')"
    "in_sync (=) (demo_rs psk) ro" "mwf out" "json_ok (JObj out)"
    "\<exists>ro'. OpenFrame ideal_hpke Some ro out = Inr (demo_frame, ro')"
    "\<exists>e. decodeResponseE2EE out = Inr e \<and> re_Final e"
proof -
  obtain out s1 where 1: "SealFrame ideal_hpke Some (demo_rs psk) demo_frame None True
      = Inr (out, (demo_rs psk)\<lparr>rs_sealer := s1, rs_first := False\<rparr>)"
    using demo_frame_seals[of "demo_rs psk" True] by auto
  let ?ro = "\<lparr>ro_opener = rs_sealer (demo_rs psk), ro_profile = ''chat''\<rparr>"
  have y: "in_sync (=) (demo_rs psk) ?ro" by (simp add: in_sync_def demo_unbound)
  have op: "\<exists>ro'. OpenFrame ideal_hpke Some ?ro out = Inr (demo_frame, ro')"
    using OpenFrame_SealFrame[OF 1 demo_frame_ok y ideal_opens_sealed] by blast
  have e: "\<exists>e. decodeResponseE2EE out = Inr e \<and> re_Final e"
    using SealFrame_first[OF 1 demo_frame_ok(1)] by auto
  have wf: "mwf out \<and> json_ok (JObj out)"
    using 1
  proof (rule SealFrameE)
    fix fs ct
    assume val: "rs_validateSealedFields (demo_rs psk) demo_frame fs = Inr ()"
      and out: "out = setResponseE2EE (frame_e2ee (demo_rs psk) fs True ct) (mdel (\<lambda>k. k \<in> set fs) demo_frame)"
    have "e2eeKey \<notin> set fs"
      using val frame_set_names
      by (auto simp: rs_validateSealedFields_def validateResponseSealedFieldsForFrame_ok)
    then show ?thesis using sealed_frame_facts[OF demo_frame_ok(1) _ out] demo_frame_ok(2)
      by (simp del: json_ok.simps)
  qed
  show ?thesis using that 1 y op e wf by blast
qed

theorem open_stream_seal_stream_witness:
  "\<exists>outs rs' ro ro'. seal_stream ideal_hpke Some (demo_rs (Some demo_psk))
       [(demo_frame, None, False), (demo_frame, None, True)] = Inr (outs, rs')
     \<and> newResponseOpener ideal_hpke ''chat'' demo_key (hd outs) (Some demo_psk) = Inr ro
     \<and> open_stream ideal_hpke Some ro outs = Inr ([demo_frame, demo_frame], ro')"
proof -
  obtain outs rs' where s: "seal_stream ideal_hpke Some (demo_rs (Some demo_psk))
       [(demo_frame, None, False), (demo_frame, None, True)] = Inr (outs, rs')"
    using demo_stream by blast
  have new: "newResponseSealer ideal_hpke ''chat'' demo_key (Some demo_psk) [''model''] ''r''
      = Inr (demo_rs (Some demo_psk))" by (rule demo_new_rs) simp
  show ?thesis
    using open_stream_seal_stream[OF new demo_rs_fields(1) s _ _ ideal_pairs_base ideal_pairs_psk
        ideal_opens_sealed] s by (simp del: json_ok.simps)
qed

theorem accepted_frames_are_a_prefix_witness:
  "\<exists>outs rs' ro ro'. seal_stream ideal_hpke Some (demo_rs None)
       [(demo_frame, None, False), (demo_frame, None, True)] = Inr (outs, rs')
     \<and> open_stream ideal_hpke Some ro outs = Inr ([demo_frame, demo_frame], ro')
     \<and> outs = take 2 outs \<and> \<not> is_ok (open_stream ideal_hpke Some ro (outs @ [hd outs]))"
proof -
  obtain outs rs' where s: "seal_stream ideal_hpke Some (demo_rs None)
       [(demo_frame, None, False), (demo_frame, None, True)] = Inr (outs, rs')"
    using demo_stream by blast
  let ?ro = "\<lparr>ro_opener = rs_sealer (demo_rs None), ro_profile = ''chat''\<rparr>"
  have y: "in_sync (=) (demo_rs None) ?ro" by (simp add: in_sync_def demo_unbound)
  have wf: "\<forall>i\<in>set [(demo_frame, None, False), (demo_frame, None, True)]. mwf (fst i)" by simp
  obtain ro' where all: "open_stream ideal_hpke Some ?ro outs = Inr ([demo_frame, demo_frame], ro')"
    using open_seal_stream[OF ideal_opens_sealed s y] by (auto simp del: json_ok.simps)
  note pre = accepted_frames_are_a_prefix[OF s wf y _ _ ideal_opens_only_sealed ideal_seal_binds
      ideal_seal_counts]
  have len: "length outs = 2" using s by (auto simp: bind_r_eq_Inr)
  have "outs = take 2 outs" using pre[OF all] len by simp
  moreover have "\<not> is_ok (open_stream ideal_hpke Some ?ro (outs @ [hd outs]))"
  proof
    assume "is_ok (open_stream ideal_hpke Some ?ro (outs @ [hd outs]))"
    then obtain res ro'' where "open_stream ideal_hpke Some ?ro (outs @ [hd outs]) = Inr (res, ro'')"
      by (auto simp: is_ok_iff)
    moreover have "outs \<noteq> []" using len by auto
    ultimately have "outs @ [hd outs] = take (length (outs @ [hd outs])) outs"
      by (intro pre) auto
    then show False by simp
  qed
  ultimately show ?thesis using s all by blast
qed

theorem bound_opener_refuses_foreign_frames_witness:
  "\<exists>out ro. NewBoundResponseOpenerFor ideal_hpke ''chat'' demo_key out = Inr ro
     \<and> is_ok (SealFrame ideal_hpke Some (demo_rs None) demo_frame None True)
     \<and> (\<exists>rs'. SealFrame ideal_hpke Some (demo_rs None) demo_frame None True = Inr (out, rs'))
     \<and> \<not> is_ok (OpenFrame ideal_hpke Some ro out)"
proof -
  obtain out rs' where s: "SealFrame ideal_hpke Some (demo_rs None) demo_frame None True = Inr (out, rs')"
    using demo_one[of None] by blast
  obtain e where e: "decodeResponseE2EE out = Inr e" "re_V e = 1" "re_Enc e = b64_encode ''r''"
    using SealFrame_first[OF s demo_frame_ok(1)] by (auto simp: demo_rs_def)
  let ?ro = "\<lparr>ro_opener = ([''psk'', demo_key, RespInfo, ''r'', demo_psk, RespBindPSKID], 0),
              ro_profile = ''chat''\<rparr>"
  have ro: "NewBoundResponseOpenerFor ideal_hpke ''chat'' demo_key out = Inr ?ro"
    using e by (simp add: NewBoundResponseOpenerFor_def DeriveResponseBind_def newResponseOpener_def
        ideal_receiver_psk demo_psk_def)
  have new: "newResponseSealer ideal_hpke ''chat'' demo_key None [''model''] ''r'' = Inr (demo_rs None)"
    by (rule demo_new_rs) simp
  have "\<not> is_ok (OpenFrame ideal_hpke Some ?ro out)"
  proof
    assume "is_ok (OpenFrame ideal_hpke Some ?ro out)"
    then obtain opened ro' where "OpenFrame ideal_hpke Some ?ro out = Inr (opened, ro')"
      by (auto simp: is_ok_iff)
    from bound_opener_refuses_foreign_frames[OF ro this new s demo_frame_ok(1) ideal_opens_some_sealed
        ideal_seal_binds ideal_psk_separates]
    show False by simp
  qed
  then show ?thesis using s ro by auto
qed


theorem SealFrame_no_leak_witness:
  "\<exists>out rs'. SealFrame ideal_hpke Some (demo_rs None) demo_frame None True = Inr (out, rs')
     \<and> mget out ''choices'' = None"
proof -
  obtain out rs' ro where o: "SealFrame ideal_hpke Some (demo_rs None) demo_frame None True = Inr (out, rs')"
    "in_sync (=) (demo_rs None) ro"
    using demo_one[of None] by blast
  then show ?thesis
    using SealFrame_no_leak[OF o(1) demo_frame_ok(1) o(2)]
    by (auto simp: content_protected_def generated_fields_def spec_chat_def)
qed

theorem OpenFrame_tamper_evident_witness:
  "\<exists>out rs'. SealFrame ideal_hpke Some (demo_rs None) demo_frame None True = Inr (out, rs')
     \<and> rel_option jeq (mget out ''id'') (mget out ''id'')"
proof -
  obtain out rs' ro ro' e where o: "SealFrame ideal_hpke Some (demo_rs None) demo_frame None True = Inr (out, rs')"
    "in_sync (=) (demo_rs None) ro" "mwf out" "json_ok (JObj out)"
    "OpenFrame ideal_hpke Some ro out = Inr (demo_frame, ro')" "decodeResponseE2EE out = Inr e"
    using demo_one[of None] by metis
  then show ?thesis
    using OpenFrame_tamper_evident[OF o(1) demo_frame_ok o(2) ideal_opens_only_sealed ideal_seal_commits
        canonical_faithful_Some o(3,4) refl o(5,6)] by auto
qed

theorem image_count_required_witness:
  "validateResponseCleartextFor ''image'' [(''usage'', JObj [(''output_images'', JNum ''1'')])] = Inr ()"
proof -
  have "parse_int64 ''1'' = Some 1" by code_simp
  then show ?thesis
    using image_count_required[of "''image''" "[(''usage'', JObj [(''output_images'', JNum ''1'')])]"]
    by (simp add: mget_map_from)
qed

theorem audio_length_agrees_witness:
  "validateResponseCleartextFor ProfileSpeech
       [(''duration'', JNum ''0.0''), (''usage'', JObj [(''seconds'', JNum ''0'')])] = Inr ()
   \<and> validateResponseCleartextFor ProfileSpeech [(''duration'', JStr ''0'')] \<noteq> Inr ()"
proof -
  have p: "parse_num ''0'' \<noteq> None \<and> num_rat (the (parse_num ''0'')) = 0 \<and> \<not> num_neg (the (parse_num ''0''))"
    "parse_num ''0.0'' \<noteq> None \<and> num_rat (the (parse_num ''0.0'')) = 0 \<and> \<not> num_neg (the (parse_num ''0.0''))" by code_simp+
  have q: "parse_float ''0'' = Some (False, 0)" "parse_float ''0.0'' = Some (False, 0)"
    using p by (auto simp: parse_float_def round_f64_def)
  have v: "f64_value (False, 0) = 0" by (simp add: f64_value_def)
  show ?thesis
    unfolding audio_length_agrees
    by (auto simp: q v mget_def mhas_def map_from_def intro!: exI[of _ 0])
qed

end
