(* ===== verification/Wire_Async.thy ===== *)
theory Wire_Async
  imports Wire_Demo
begin

text \<open>
  protocol/wire/async.go: the asynchronous image result frame, and the job id the user keeps, which
  carries the ephemeral private key.
\<close>

section \<open>Operations\<close>

definition AsyncStatusCompleted :: string where [simp]: "AsyncStatusCompleted = ''completed''"
definition userJobIDSep :: char where [simp]: "userJobIDSep = CHR ''.''"
definition maxJobIDLen :: nat where [simp]: "maxJobIDLen = 128"

definition asyncImageResultUnbound :: "string list" where
  "asyncImageResultUnbound = [''model'', ''x_0g_trace'']"

definition AttachAsyncBind :: "Request \<Rightarrow> bytes \<Rightarrow> werr + Request" where
  "AttachAsyncBind req ephPriv = AttachResponseBind ProfileAsyncImage req ephPriv"

definition TakeAsyncBind :: "Request \<Rightarrow> werr + bytes option \<times> Request" where
  "TakeAsyncBind opened = TakeResponseBind ProfileAsyncImage opened"

definition cleartextString :: "Response \<Rightarrow> string \<Rightarrow> werr + string" where
  "cleartextString frame field =
     bind_r (opt_r (mget frame field) (AsyncErr (NoSuchField field))) (\<lambda>raw.
     bind_r (opt_r (as_string raw) (AsyncErr (FieldNotString field))) (\<lambda>s.
     bind_r (fail_if (s = []) (AsyncErr (FieldEmpty field))) (\<lambda>_. Inr s)))"

definition SealAsyncImageResult ::
    "('pk, 'sk, 'ctx) hpke \<Rightarrow> (bytes \<Rightarrow> bytes option) \<Rightarrow> bytes \<Rightarrow> Response \<Rightarrow> bytes \<Rightarrow> bytes \<Rightarrow>
     werr + Response" where
  "SealAsyncImageResult H J clientEphPub result bind rnd =
     bind_r (fail_if (mhas result fieldBind) (AsyncErr ResultHasBind)) (\<lambda>_.
     bind_r (cleartextString result fieldJobID) (\<lambda>_.
     bind_r (cleartextString result fieldStatus) (\<lambda>status.
     bind_r (fail_if (status \<noteq> AsyncStatusCompleted) (AsyncErr (NotCompleted status))) (\<lambda>_.
     SealBoundResponseFor H J ProfileAsyncImage clientEphPub bind result None
       asyncImageResultUnbound rnd))))"

definition OpenAsyncImageResult ::
    "('pk, 'sk, 'ctx) hpke \<Rightarrow> (bytes \<Rightarrow> bytes option) \<Rightarrow> bytes \<Rightarrow> Response \<Rightarrow> string \<Rightarrow>
     werr + Response" where
  "OpenAsyncImageResult H J ephPriv frame wantJobID =
     bind_r (fail_if (length ephPriv \<noteq> ephPrivLen) (BindErr (BadEphPrivLen (length ephPriv)))) (\<lambda>_.
     bind_r (decodeResponseE2EE frame) (\<lambda>e2ee.
     bind_r (each_r (\<lambda>f. fail_if (f \<notin> set asyncImageResultUnbound) (AsyncErr (UnboundOutside f)))
               (re_UnboundFields e2ee)) (\<lambda>_.
     bind_r (cleartextString frame fieldStatus) (\<lambda>status.
     bind_r (fail_if (status \<noteq> AsyncStatusCompleted) (AsyncErr (NotCompleted status))) (\<lambda>_.
     bind_r (cleartextString frame fieldJobID) (\<lambda>jobID.
     bind_r (fail_if (jobID \<noteq> wantJobID) (AsyncErr OtherJob)) (\<lambda>_.
     OpenBoundResponseFor H J ProfileAsyncImage ephPriv frame)))))))"

definition job_char :: "char \<Rightarrow> bool" where
  "job_char c = (let n = (of_char c :: nat) in
     (97 \<le> n \<and> n \<le> 122) \<or> (65 \<le> n \<and> n \<le> 90) \<or> (48 \<le> n \<and> n \<le> 57) \<or> n = 45 \<or> n = 95)"

definition validateJobID :: "string \<Rightarrow> werr + unit" where
  "validateJobID jobID =
     bind_r (fail_if (jobID = []) (AsyncErr JobIDEmpty)) (\<lambda>_.
     bind_r (fail_if (length jobID > maxJobIDLen) (AsyncErr JobIDTooLong)) (\<lambda>_.
     each_r (\<lambda>c. fail_if (\<not> job_char c) (AsyncErr JobIDChars)) jobID))"

definition UserJobID :: "string \<Rightarrow> bytes \<Rightarrow> werr + string" where
  "UserJobID jobID ephPriv =
     bind_r (validateJobID jobID) (\<lambda>_.
     bind_r (fail_if (length ephPriv \<noteq> ephPrivLen) (BindErr (BadEphPrivLen (length ephPriv)))) (\<lambda>_.
     Inr (jobID @ userJobIDSep # b64_encode ephPriv)))"

definition ParseUserJobID :: "string \<Rightarrow> werr + string \<times> bytes" where
  "ParseUserJobID s =
     bind_r (opt_r (cut_last userJobIDSep s) (AsyncErr NoKeySegment)) (\<lambda>(jobID, keyPart).
     bind_r (validateJobID jobID) (\<lambda>_.
     bind_r (opt_r (b64_decode True keyPart) (AsyncErr KeyEncoding)) (\<lambda>key.
     bind_r (fail_if (length key \<noteq> ephPrivLen) (AsyncErr (BadKeyLen (length key)))) (\<lambda>_.
     Inr (jobID, key)))))"

definition HasUserJobIDKey :: "string \<Rightarrow> bool" where
  "HasUserJobIDKey s = (userJobIDSep \<in> set s)"

section \<open>The job id\<close>

lemma validateJobID_ok:
  "validateJobID j = Inr () \<longleftrightarrow> j \<noteq> [] \<and> length j \<le> 128 \<and> list_all job_char j"
  by (auto simp: validateJobID_def result_inv list_all_iff)

lemma sep_not_job_char: "list_all job_char j \<Longrightarrow> CHR ''.'' \<notin> set j"
  by (auto simp: list_all_iff job_char_def)

lemma sep_not_b64: "CHR ''.'' \<notin> set (b64_encode k)"
proof
  assume "CHR ''.'' \<in> set (b64_encode k)"
  then have "b64_val (CHR ''.'') \<noteq> None" by (rule b64_encode_chars)
  then show False by (simp add: b64_val_def)
qed

lemma user_job_id_parses:
  assumes "UserJobID jobID ephPriv = Inr s"
  shows "ParseUserJobID s = Inr (jobID, ephPriv)" "HasUserJobIDKey s"
proof -
  have v: "validateJobID jobID = Inr ()" and k: "length ephPriv = 32"
    and s: "s = jobID @ CHR ''.'' # b64_encode ephPriv"
    using assms by (auto simp: UserJobID_def result_inv)
  show "ParseUserJobID s = Inr (jobID, ephPriv)" "HasUserJobIDKey s"
    using v k cut_last_append[OF sep_not_b64]
    by (simp_all add: s ParseUserJobID_def HasUserJobIDKey_def)
qed

text \<open>
  The id a user keeps round-trips: it parses back to exactly the job id and the private key it
  was made of, whatever the key bytes are, and it is recognised as carrying a key.
\<close>

theorem ParseUserJobID_UserJobID:
  assumes "UserJobID jobID ephPriv = Inr s"
  shows "ParseUserJobID s = Inr (jobID, ephPriv) \<and> HasUserJobIDKey s"
  using user_job_id_parses[OF assms] by simp

theorem ParseUserJobID_UserJobID_witness:
  "\<exists>s. UserJobID ''job-1'' demo_key = Inr s \<and> ParseUserJobID s = Inr (''job-1'', demo_key)"
proof -
  obtain s where s: "UserJobID ''job-1'' demo_key = Inr s"
    by (auto simp: UserJobID_def validateJobID_ok job_char_def bind_r_eq_Inr)
  then show ?thesis using ParseUserJobID_UserJobID[OF s] by blast
qed

text \<open>
  What parsing accepts: one id determines one job and one key of 32 bytes, the job half is 1 to
  128 characters of the job alphabet, and the key half is the text after the last separator.
  The key half is not the one unpadded base64url text of the key, as the comment on the function
  says: line breaks in it are skipped, so several ids name the same job and key.
\<close>

theorem ParseUserJobID_accepts:
  "ParseUserJobID s = Inr (jobID, key) \<longleftrightarrow>
     (\<exists>keyPart. s = jobID @ CHR ''.'' # keyPart \<and> CHR ''.'' \<notin> set keyPart
        \<and> jobID \<noteq> [] \<and> length jobID \<le> 128 \<and> list_all job_char jobID
        \<and> b64_decode True keyPart = Some key \<and> length key = 32)"
  by (auto simp: ParseUserJobID_def result_inv validateJobID_ok cut_last_append dest!: cut_last_Some)

section \<open>The result frame\<close>

lemma cleartextString_ok:
  "cleartextString frame f = Inr s \<longleftrightarrow> mget frame f = Some (JStr s) \<and> s \<noteq> []"
proof (cases "mget frame f")
  case (Some raw)
  then show ?thesis
    by (cases raw) (auto simp: cleartextString_def result_inv as_string_def str_into_def)
qed (simp add: cleartextString_def)


section \<open>The binding end to end\<close>

lemma attach_bind:
  assumes "AttachResponseBind p req priv = Inr req'"
  shows "req' = mput fieldBind (JStr (b64_encode (hkdf_key32 priv RespBindInfo))) req"
    "mget req fieldBind = None" "length priv = 32" "\<exists>spec. profile_spec p = Inr spec"
  using assms by (auto simp: AttachResponseBind_def DeriveResponseBind_def result_inv mhas_def)

lemma take_attached_bind:
  assumes "AttachResponseBind p req priv = Inr req'" "mwf req"
  shows "TakeResponseBind p req' = Inr (Some (hkdf_key32 priv RespBindInfo), req)"
proof -
  note a = attach_bind[OF assms(1)]
  have "mdel (\<lambda>k. k = fieldBind) req' = req"
    unfolding a(1)
    using fields.del_put[OF assms(2), of "\<lambda>k. k = fieldBind" fieldBind]
      fields.del_none[OF assms(2), of "\<lambda>k. k = fieldBind"] a(2) by simp
  then show ?thesis
    using a(4) assms(2) by (auto simp: TakeResponseBind_def decodeBind_def a(1) mget_mput)
qed

text \<open>
  The binding value reaches the enclave. What \<open>AttachResponseBind\<close> put into a request,
  \<open>TakeResponseBind\<close> takes out again: the enclave gets the value derived from the client's
  ephemeral private key, and forwards upstream exactly the request the client started from.
\<close>

theorem TakeResponseBind_AttachResponseBind:
  assumes "AttachResponseBind p req priv = Inr req'" "mwf req"
  shows "TakeResponseBind p req' = Inr (Some (hkdf_key32 priv RespBindInfo), req)"
  using assms by (rule take_attached_bind)

lemma demo_attach:
  "\<exists>r. AttachResponseBind ''chat'' demo_req demo_key = Inr r"
  by (simp add: AttachResponseBind_def DeriveResponseBind_def demo_req_def mhas_def)

theorem TakeResponseBind_AttachResponseBind_witness:
  "\<exists>r. AttachResponseBind ''chat'' demo_req demo_key = Inr r
     \<and> TakeResponseBind ''chat'' r = Inr (Some demo_psk, demo_req)"
proof -
  obtain r where r: "AttachResponseBind ''chat'' demo_req demo_key = Inr r" using demo_attach by blast
  then show ?thesis
    using TakeResponseBind_AttachResponseBind[OF r demo_req_ok(1)] by (simp add: demo_psk_def)
qed

text \<open>A bound response opens under the private key its binding value was derived from.\<close>

definition enc_present :: "('pk, 'sk, 'ctx) hpke \<Rightarrow> bytes \<Rightarrow> bool" where
  "enc_present H pub \<longleftrightarrow>
     (\<forall>info psk pid rnd enc cs. SetupSenderPSK H pub info psk pid rnd = Inr (enc, cs) \<longrightarrow> enc \<noteq> [])"

lemma OpenBound_SealBound:
  assumes "SealBoundResponseFor H J p pub (hkdf_key32 priv RespBindInfo) resp sf U rnd = Inr out"
    and "length priv = 32" "mwf resp" "json_ok (JObj resp)"
    and "pairs_base H R pub priv" "pairs_psk H R pub priv" "opens_sealed H R" "enc_present H pub"
  shows "OpenBoundResponseFor H J p priv out = Inr resp"
proof -
  let ?k = "hkdf_key32 priv RespBindInfo"
  obtain rs rs' where new: "newResponseSealer H p pub (Some ?k) U rnd = Inr rs"
    and s: "SealFrame H J rs resp sf True = Inr (out, rs')"
    using assms(1) by (auto simp: SealBoundResponseFor_def NewBoundResponseSealerFor_def bind_r_eq_Inr)
  have f: "rs_first rs" "\<not> rs_nonConforming rs" "rs_enc rs \<noteq> []"
  proof -
    from new have "\<exists>enc. rs_enc rs = b64_encode enc \<and> rs_first rs \<and> \<not> rs_nonConforming rs
      \<and> SetupSenderPSK H pub RespInfo ?k RespBindPSKID rnd = Inr (enc, rs_sealer rs)"
      by (rule new_sealer_facts) auto
    then obtain enc where "rs_enc rs = b64_encode enc" "rs_first rs" "\<not> rs_nonConforming rs"
      "SetupSenderPSK H pub RespInfo ?k RespBindPSKID rnd = Inr (enc, rs_sealer rs)" by blast
    moreover from this(4) have "enc \<noteq> []"
      using assms(8) unfolding enc_present_def by blast
    ultimately show "rs_first rs" "\<not> rs_nonConforming rs" "rs_enc rs \<noteq> []" by simp_all
  qed
  obtain e where e: "decodeResponseE2EE out = Inr e" "re_Final e"
    using SealFrame_first[OF s assms(3) f(1,2)] by blast
  obtain ro where ro: "newResponseOpener H p priv out (Some ?k) = Inr ro" "in_sync R rs ro"
    using open_new_stream[OF new f(3) s assms(3,5,6)] by blast
  obtain ro' where "OpenFrame H J ro out = Inr (resp, ro')"
    using OpenFrame_SealFrame[OF s assms(3,4) ro(2) assms(7)] by blast
  then show ?thesis
    using e ro(1) assms(2)
    by (simp add: OpenBoundResponseFor_def NewBoundResponseOpenerFor_def DeriveResponseBind_def)
qed

lemma sealed_result_opens:
  assumes "SealAsyncImageResult H J pub result (hkdf_key32 priv RespBindInfo) rnd = Inr frame"
    and "length priv = 32" "mwf result" "json_ok (JObj result)"
    and "mget result fieldJobID = Some (JStr jobID)"
    and "pairs_base H R pub priv" "pairs_psk H R pub priv" "opens_sealed H R" "enc_present H pub"
  shows "OpenAsyncImageResult H J priv frame jobID = Inr result"
proof -
  let ?k = "hkdf_key32 priv RespBindInfo"
  have sb: "SealBoundResponseFor H J ''async-image'' pub ?k result None asyncImageResultUnbound rnd = Inr frame"
    and js: "cleartextString result ''jobId'' = Inr jobID" "cleartextString result ''status'' = Inr ''completed''"
    using assms(1,5) by (auto simp: SealAsyncImageResult_def result_inv cleartextString_ok)
  obtain rs rs' where new: "newResponseSealer H ''async-image'' pub (Some ?k) asyncImageResultUnbound rnd = Inr rs"
    and s: "SealFrame H J rs result None True = Inr (frame, rs')"
    using sb by (auto simp: SealBoundResponseFor_def NewBoundResponseSealerFor_def bind_r_eq_Inr)
  have f: "rs_unbound rs = asyncImageResultUnbound" "rs_profile rs = ''async-image''" "\<not> rs_nonConforming rs"
    using new by (auto elim!: new_sealer_facts)
  obtain fs ct where val: "rs_validateSealedFields rs result fs = Inr ()"
    and out: "frame = setResponseE2EE (frame_e2ee rs fs True ct) (mdel (\<lambda>k. k \<in> set fs) result)"
    using s by (rule SealFrameE) blast
  have ok: "frame_set_ok spec_async_image result fs"
    using val f by (auto simp: rs_validateSealedFields_def validateResponseSealedFieldsForFrame_ok)
  have V: "re_V (frame_e2ee rs fs True ct) = 1 \<or> re_V (frame_e2ee rs fs True ct) = 0" by simp
  note o = sealed_frame_facts[OF assms(3) frame_set_names[OF ok, THEN conjunct2] out V]
  have "''jobId'' \<notin> set fs" "''status'' \<notin> set fs"
    using ok by (auto simp: frame_set_ok_def common_set_ok_def spec_async_image_def)
  then have "cleartextString frame ''jobId'' = Inr jobID" "cleartextString frame ''status'' = Inr ''completed''"
    using js halvesD[OF o(3)] by (simp_all add: cleartextString_ok)
  moreover have "OpenBoundResponseFor H J ''async-image'' priv frame = Inr result"
    by (rule OpenBound_SealBound[OF sb assms(2-4,6-9)])
  ultimately show ?thesis
    using o(2) assms(2) by (simp add: OpenAsyncImageResult_def f asyncImageResultUnbound_def)
qed

text \<open>
  A completed job's result reaches the user. What the enclave seals with the job's binding value
  opens, for the job it names, under the ephemeral private key that value was derived from, to
  exactly the poll response the broker had.
\<close>

theorem OpenAsyncImageResult_SealAsyncImageResult:
  assumes "SealAsyncImageResult H J pub result (hkdf_key32 priv RespBindInfo) rnd = Inr frame"
    and "length priv = 32" "mwf result" "json_ok (JObj result)"
    and "mget result fieldJobID = Some (JStr jobID)"
    and "pairs_base H R pub priv" "pairs_psk H R pub priv" "opens_sealed H R" "enc_present H pub"
  shows "OpenAsyncImageResult H J priv frame jobID = Inr result"
  using assms by (rule sealed_result_opens)

section \<open>A concrete job\<close>

lemma ideal_enc_present: "enc_present ideal_hpke k"
  by (auto simp: enc_present_def SetupSenderPSK_def ideal_hpke_def wrap_setup_def result_inv
      split: if_splits)

definition demo_result :: Response where
  "demo_result = [(''data'', JStr ''png''), (''jobId'', JStr ''j1''), (''status'', JStr ''completed''),
     (''usage'', JObj [(''output_images'', JNum ''1'')])]"

lemma demo_result_ok [simp]: "mwf demo_result" "json_ok (JObj demo_result)"
proof -
  show "mwf demo_result" by (simp add: demo_result_def mwf_def)
  have "parse_num ''1'' \<noteq> None" by code_simp
  then show "json_ok (JObj demo_result)" by (simp add: demo_result_def)
qed

lemma demo_result_count: "validateResponseCleartextFor ''async-image'' demo_result = Inr ()"
proof -
  have "parse_int64 ''1'' = Some 1" by code_simp
  then have "read_locator \<lparr>cq_locators = [\<lparr>cn_field = ''usage'', cn_key = ''output_images''\<rparr>],
      cq_kind = numberWhole, cq_what = ''the count of images actually delivered''\<rparr> demo_result
      \<lparr>cn_field = ''usage'', cn_key = ''output_images''\<rparr> = Inr (Some (float_of_int64 1))"
    by (simp add: read_nested parse_whole demo_result_def mget_map_from)
  then show ?thesis
    by (auto simp: validateResponseCleartextFor_def spec_async_image_def result_inv
        validateCleartextQuantity_ok)
qed

lemma demo_result_seals:
  "\<exists>frame. SealAsyncImageResult ideal_hpke Some demo_key demo_result demo_psk ''r'' = Inr frame"
proof -
  let ?rs = "\<lparr>rs_sealer = ([''psk'', demo_key, RespInfo, ''r'', demo_psk, RespBindPSKID], 0),
    rs_enc = b64_encode ''r'', rs_first = True, rs_unbound = asyncImageResultUnbound,
    rs_profile = ''async-image'', rs_nonConforming = False\<rparr>"
  have "validateResponseUnboundFieldsFor ''async-image'' asyncImageResultUnbound = Inr ()"
    by (simp add: validateResponseUnboundFieldsFor_ok bound_set_ok_def spec_async_image_def
        asyncImageResultUnbound_def)
  then have new: "NewBoundResponseSealerFor ideal_hpke ''async-image'' demo_key demo_psk
      asyncImageResultUnbound ''r'' = Inr ?rs"
    by (simp add: NewBoundResponseSealerFor_def newResponseSealer_def ideal_sender_psk demo_psk_def)
  have "\<exists>out s'. SealFrame ideal_hpke Some ?rs demo_result None True
      = Inr (out, ?rs\<lparr>rs_sealer := s', rs_first := False\<rparr>)"
  proof (rule SealFrame_succeeds)
    show "profile_spec (rs_profile ?rs) = Inr spec_async_image" by simp
    show "ResponseSealedFieldsForFrame (rs_profile ?rs) demo_result = Inr [''data'']"
      by (simp add: ResponseSealedFieldsForFrame_def spec_async_image_def responseFieldsFor_def)
    show "frame_set_ok spec_async_image demo_result [''data'']"
      by (simp add: frame_set_ok_def common_set_ok_def single_set_ok_def spec_async_image_def)
    show "unbound_set_ok (rs_unbound ?rs) [''data'']"
      by (simp add: unbound_set_ok_def asyncImageResultUnbound_def)
    show "True \<longrightarrow> validateResponseCleartextFor (rs_profile ?rs) demo_result = Inr ()"
      by (simp add: demo_result_count)
    show "\<exists>r. SealerSeal ideal_hpke c pt aad = Inr r" for c pt aad by (metis ideal_seal_iff)
  qed (auto simp: demo_result_def mhas_def mwf_def)
  then show ?thesis
    using new by (auto simp: SealAsyncImageResult_def SealBoundResponseFor_def cleartextString_ok
        demo_result_def mhas_def bind_r_eq_Inr fail_if_eq_Inr)
qed

lemma demo_result_opens:
  assumes "SealAsyncImageResult ideal_hpke Some demo_key demo_result demo_psk ''r'' = Inr frame"
  shows "SealAsyncImageResult ideal_hpke Some demo_key demo_result (hkdf_key32 demo_key RespBindInfo) ''r''
     = Inr frame" "mget demo_result fieldJobID = Some (JStr ''j1'')"
  using assms by (simp_all add: demo_psk_def demo_result_def)

theorem OpenAsyncImageResult_SealAsyncImageResult_witness:
  "\<exists>frame. SealAsyncImageResult ideal_hpke Some demo_key demo_result demo_psk ''r'' = Inr frame
     \<and> OpenAsyncImageResult ideal_hpke Some demo_key frame ''j1'' = Inr demo_result"
proof -
  obtain frame where f: "SealAsyncImageResult ideal_hpke Some demo_key demo_result demo_psk ''r'' = Inr frame"
    using demo_result_seals by blast
  show ?thesis
    using f OpenAsyncImageResult_SealAsyncImageResult[OF demo_result_opens(1)[OF f] demo_lengths(1)
        demo_result_ok demo_result_opens(2)[OF f] ideal_pairs_base ideal_pairs_psk ideal_opens_sealed
        ideal_enc_present] by blast
qed

lemma async_frame_wf:
  assumes "SealAsyncImageResult H J pub result bind rnd = Inr frame" "mwf result"
  shows "mwf frame"
proof -
  obtain rs rs' where "SealFrame H J rs result None True = Inr (frame, rs')"
    using assms(1) by (auto simp: SealAsyncImageResult_def SealBoundResponseFor_def bind_r_eq_Inr)
  then show ?thesis
    by (rule SealFrameE) (simp add: setResponseE2EE_def mwf_mput mwf_mdel assms(2))
qed


end
