(* ===== verification/Proof_Sig.thy ===== *)
theory Proof_Sig
  imports Wire_Async
begin

text \<open>
  protocol/proof: the text a TEE signs for a sealed exchange, as a digest of the associated data and
  the ciphertext of each envelope, and the verification of such a signature. Recovering the signer
  of a signature (secp256k1 and Keccak, injected by the caller) is a parameter, an optional function.
\<close>

section \<open>The signed text\<close>

datatype perr =
    ReqBinding werr | RespBinding werr | FrameAt nat werr | MalformedText | NotHash string
  | NoRecover | NoSigner | UnexpectedScheme string | ContentMismatch | SigNotHex | SigLength nat
  | RecoverFailed | WrongSigner string

definition SchemeE2EECiphertext :: string where
  [simp]: "SchemeE2EECiphertext = ''zg-sig-v1/e2ee-ct''"
definition SchemeE2EECiphertextStream :: string where
  [simp]: "SchemeE2EECiphertextStream = ''zg-sig-v1/e2ee-ct-stream''"
definition SchemePlaintext :: string where
  [simp]: "SchemePlaintext = ''zg-sig-v1/plain''"

record ChatSignature =
  cs_Text :: string
  cs_Signature :: string
  cs_SigningAddress :: string
  cs_SigningAlgo :: string

definition BindingHash :: "bytes \<Rightarrow> bytes \<Rightarrow> bytes" where
  "BindingHash aad ct = sha256 (sha256 aad @ sha256 ct)"

definition FrameBindingHash :: "(bytes \<Rightarrow> bytes option) \<Rightarrow> json gomap \<Rightarrow> werr + bytes" where
  "FrameBindingHash J env =
     bind_r (FrameBinding J env) (\<lambda>(aad, ct). Inr (BindingHash aad ct))"

definition formatText :: "string \<Rightarrow> bytes \<Rightarrow> bytes \<Rightarrow> string" where
  "formatText scheme reqH respH = scheme @ '':'' @ hex_encode reqH @ '':'' @ hex_encode respH"

definition map_err :: "('e \<Rightarrow> 'f) \<Rightarrow> 'e + 'a \<Rightarrow> 'f + 'a" where
  "map_err g r = (case r of Inl e \<Rightarrow> Inl (g e) | Inr x \<Rightarrow> Inr x)"

definition SignedTextE2EEFromHashes :: "bytes \<Rightarrow> bytes \<Rightarrow> string" where
  "SignedTextE2EEFromHashes reqH respH = formatText SchemeE2EECiphertext reqH respH"

definition SignedTextE2EE ::
    "(bytes \<Rightarrow> bytes option) \<Rightarrow> json gomap \<Rightarrow> json gomap \<Rightarrow> perr + string" where
  "SignedTextE2EE J reqEnv respEnv =
     bind_r (map_err ReqBinding (FrameBindingHash J reqEnv)) (\<lambda>reqH.
     bind_r (map_err RespBinding (FrameBindingHash J respEnv)) (\<lambda>respH.
     Inr (SignedTextE2EEFromHashes reqH respH)))"

record StreamBinder =
  sb_reqH :: bytes
  sb_agg :: bytes

definition NewStreamBinderFromReqHash :: "bytes \<Rightarrow> StreamBinder" where
  "NewStreamBinderFromReqHash reqH = \<lparr>sb_reqH = reqH, sb_agg = []\<rparr>"

definition NewStreamBinder ::
    "(bytes \<Rightarrow> bytes option) \<Rightarrow> json gomap \<Rightarrow> perr + StreamBinder" where
  "NewStreamBinder J reqEnv =
     bind_r (map_err ReqBinding (FrameBindingHash J reqEnv)) (\<lambda>reqH.
     Inr (NewStreamBinderFromReqHash reqH))"

definition AddFrame ::
    "(bytes \<Rightarrow> bytes option) \<Rightarrow> StreamBinder \<Rightarrow> json gomap \<Rightarrow> werr + StreamBinder" where
  "AddFrame J s frameEnv =
     bind_r (FrameBindingHash J frameEnv) (\<lambda>h. Inr (s\<lparr>sb_agg := sb_agg s @ h\<rparr>))"

definition StreamText :: "StreamBinder \<Rightarrow> string" where
  "StreamText s = formatText SchemeE2EECiphertextStream (sb_reqH s) (sha256 (sb_agg s))"

fun add_frames ::
    "(bytes \<Rightarrow> bytes option) \<Rightarrow> nat \<Rightarrow> StreamBinder \<Rightarrow> json gomap list \<Rightarrow> perr + StreamBinder" where
  "add_frames J i b [] = Inr b"
| "add_frames J i b (f # fs) =
     bind_r (map_err (FrameAt i) (AddFrame J b f)) (\<lambda>b'. add_frames J (Suc i) b' fs)"

definition SignedTextE2EEStream ::
    "(bytes \<Rightarrow> bytes option) \<Rightarrow> json gomap \<Rightarrow> json gomap list \<Rightarrow> perr + string" where
  "SignedTextE2EEStream J reqEnv respFrames =
     bind_r (NewStreamBinder J reqEnv) (\<lambda>b.
     bind_r (add_frames J 0 b respFrames) (\<lambda>b'. Inr (StreamText b')))"

definition parseScheme :: "string \<Rightarrow> perr + string" where
  "parseScheme text =
     (let parts = split_n 3 (CHR '':'') text in
     bind_r (fail_if (length parts \<noteq> 3) MalformedText) (\<lambda>_.
     bind_r (each_r (\<lambda>h. fail_if (map_option length (hex_decode h) \<noteq> Some 32) (NotHash h))
               (tl parts)) (\<lambda>_.
     Inr (hd parts))))"

section \<open>Verification\<close>

definition decodeSignature :: "string \<Rightarrow> perr + bytes" where
  "decodeSignature s =
     (let t = trim_space s; h = (if prefix ''0x'' t then drop 2 t else t) in
     bind_r (opt_r (hex_decode h) SigNotHex) (\<lambda>b.
     bind_r (fail_if (length b \<noteq> 65) (SigLength (length b))) (\<lambda>_. Inr b)))"

definition addrEqual :: "string \<Rightarrow> string \<Rightarrow> bool" where
  "addrEqual a b = equal_fold (trim_space a) (trim_space b)"

definition verify ::
    "ChatSignature \<Rightarrow> string \<Rightarrow> string \<Rightarrow> string \<Rightarrow> (string \<Rightarrow> bytes \<Rightarrow> string option) option \<Rightarrow>
     perr + unit" where
  "verify sig want wantScheme expectedSigner recover =
     bind_r (opt_r recover NoRecover) (\<lambda>rec.
     bind_r (fail_if (trim_space expectedSigner = []) NoSigner) (\<lambda>_.
     bind_r (parseScheme (cs_Text sig)) (\<lambda>scheme.
     bind_r (fail_if (scheme \<noteq> wantScheme) (UnexpectedScheme scheme)) (\<lambda>_.
     bind_r (fail_if (cs_Text sig \<noteq> want) ContentMismatch) (\<lambda>_.
     bind_r (decodeSignature (cs_Signature sig)) (\<lambda>raw.
     bind_r (opt_r (rec (cs_Text sig) raw) RecoverFailed) (\<lambda>addr.
     fail_if (\<not> addrEqual addr expectedSigner) (WrongSigner addr))))))))"

definition VerifyE2EE ::
    "(bytes \<Rightarrow> bytes option) \<Rightarrow> ChatSignature \<Rightarrow> json gomap \<Rightarrow> json gomap \<Rightarrow> string \<Rightarrow>
     (string \<Rightarrow> bytes \<Rightarrow> string option) option \<Rightarrow> perr + unit" where
  "VerifyE2EE J sig reqEnv respEnv expectedSigner recover =
     bind_r (SignedTextE2EE J reqEnv respEnv) (\<lambda>want.
     verify sig want SchemeE2EECiphertext expectedSigner recover)"

definition VerifyE2EEStream ::
    "(bytes \<Rightarrow> bytes option) \<Rightarrow> ChatSignature \<Rightarrow> json gomap \<Rightarrow> json gomap list \<Rightarrow> string \<Rightarrow>
     (string \<Rightarrow> bytes \<Rightarrow> string option) option \<Rightarrow> perr + unit" where
  "VerifyE2EEStream J sig reqEnv respFrames expectedSigner recover =
     bind_r (SignedTextE2EEStream J reqEnv respFrames) (\<lambda>want.
     verify sig want SchemeE2EECiphertextStream expectedSigner recover)"

definition VerifyBoundText ::
    "ChatSignature \<Rightarrow> string \<Rightarrow> string \<Rightarrow> string \<Rightarrow> (string \<Rightarrow> bytes \<Rightarrow> string option) option \<Rightarrow>
     perr + unit" where
  "VerifyBoundText sig want wantScheme expectedSigner recover =
     verify sig want wantScheme expectedSigner recover"

section \<open>The text determines the exchange\<close>

lemma map_err_simps [simp]: "map_err g (Inl e) = Inl (g e)" "map_err g (Inr x) = Inr x"
  by (simp_all add: map_err_def)

lemma map_err_eq_Inr: "map_err g r = Inr x \<longleftrightarrow> r = Inr x"
  by (cases r) simp_all

lemma colon_not_hex: "CHR '':'' \<notin> set (hex_encode bs)"
  using hex_encode_lower[of "CHR '':''" bs] by (auto simp: is_lower_hex_def)

lemma colon_schemes:
  "CHR '':'' \<notin> set SchemeE2EECiphertext" "CHR '':'' \<notin> set SchemeE2EECiphertextStream"
  by simp_all

lemma length_BindingHash [simp]: "length (BindingHash aad ct) = 32"
  by (simp add: BindingHash_def sha.length_h)

lemma split_formatText:
  "CHR '':'' \<notin> set s \<Longrightarrow> split_n 3 (CHR '':'') (formatText s a b) = [s, hex_encode a, hex_encode b]"
  by (simp add: formatText_def numeral_3_eq_3 cut_at_append colon_not_hex)

lemma formatText_inj:
  assumes "formatText s a b = formatText s' a' b'" "CHR '':'' \<notin> set s" "CHR '':'' \<notin> set s'"
  shows "s = s' \<and> a = a' \<and> b = b'"
proof -
  have "[s, hex_encode a, hex_encode b] = [s', hex_encode a', hex_encode b']"
    unfolding split_formatText[OF assms(2), symmetric] split_formatText[OF assms(3), symmetric]
    by (rule arg_cong[OF assms(1)])
  then show ?thesis by simp
qed

text \<open>
  The scheme tag cannot be confused with the rest of the signed text: a text assembled from a
  scheme without a colon and two 32-byte digests parses back to that scheme, and no other triple
  gives the same text.
\<close>

theorem parseScheme_formatText:
  assumes "CHR '':'' \<notin> set scheme" "length reqH = 32" "length respH = 32"
  shows "parseScheme (formatText scheme reqH respH) = Inr scheme
     \<and> (\<forall>s a b. CHR '':'' \<notin> set s \<longrightarrow> formatText s a b = formatText scheme reqH respH \<longrightarrow>
          s = scheme \<and> a = reqH \<and> b = respH)"
proof -
  have "parseScheme (formatText scheme reqH respH) = Inr scheme"
    using assms(2,3) by (simp add: parseScheme_def split_formatText[OF assms(1)])
  moreover have "s = scheme \<and> a = reqH \<and> b = respH"
    if "CHR '':'' \<notin> set s" "formatText s a b = formatText scheme reqH respH" for s a b
    by (rule formatText_inj[OF that(2,1) assms(1)])
  ultimately show ?thesis by blast
qed

theorem parseScheme_formatText_witness:
  "parseScheme (formatText ''zg'' (replicate 32 (CHR ''a'')) (replicate 32 (CHR ''b''))) = Inr ''zg''"
  using parseScheme_formatText[of "''zg''" "replicate 32 (CHR ''a'')" "replicate 32 (CHR ''b'')"]
  by simp

lemma add_frames_ok:
  "add_frames J i b fs = Inr b' \<longleftrightarrow>
     (\<exists>hs. map (FrameBindingHash J) fs = map Inr hs \<and> b' = b\<lparr>sb_agg := sb_agg b @ concat hs\<rparr>)"
proof (induction fs arbitrary: i b)
  case (Cons f fs)
  show ?case
  proof (cases "FrameBindingHash J f")
    case (Inr h)
    then have "add_frames J i b (f # fs) = Inr b' \<longleftrightarrow>
        (\<exists>hs. map (FrameBindingHash J) fs = map Inr hs
           \<and> b' = b\<lparr>sb_agg := (sb_agg b @ h) @ concat hs\<rparr>)"
      by (simp add: AddFrame_def Cons.IH)
    also have "\<dots> \<longleftrightarrow> (\<exists>hs. map (FrameBindingHash J) (f # fs) = map Inr hs
        \<and> b' = b\<lparr>sb_agg := sb_agg b @ concat hs\<rparr>)"
    proof
      assume "\<exists>hs. map (FrameBindingHash J) fs = map Inr hs
         \<and> b' = b\<lparr>sb_agg := (sb_agg b @ h) @ concat hs\<rparr>"
      then obtain hs where "map (FrameBindingHash J) fs = map Inr hs"
        "b' = b\<lparr>sb_agg := (sb_agg b @ h) @ concat hs\<rparr>" by blast
      then show "\<exists>hs. map (FrameBindingHash J) (f # fs) = map Inr hs
        \<and> b' = b\<lparr>sb_agg := sb_agg b @ concat hs\<rparr>"
        using Inr by (intro exI[of _ "h # hs"]) simp
    next
      assume "\<exists>hs. map (FrameBindingHash J) (f # fs) = map Inr hs
        \<and> b' = b\<lparr>sb_agg := sb_agg b @ concat hs\<rparr>"
      then show "\<exists>hs. map (FrameBindingHash J) fs = map Inr hs
         \<and> b' = b\<lparr>sb_agg := (sb_agg b @ h) @ concat hs\<rparr>"
        using Inr by (auto simp: Cons_eq_map_conv)
    qed
    finally show ?thesis .
  qed (auto simp: AddFrame_def Cons_eq_map_conv)
qed auto

lemma stream_text:
  "SignedTextE2EEStream J reqEnv fs = Inr t \<longleftrightarrow>
     (\<exists>reqH hs. FrameBindingHash J reqEnv = Inr reqH \<and> map (FrameBindingHash J) fs = map Inr hs
        \<and> t = formatText SchemeE2EECiphertextStream reqH (sha256 (concat hs)))"
  by (auto simp: SignedTextE2EEStream_def NewStreamBinder_def NewStreamBinderFromReqHash_def
      bind_r_eq_Inr map_err_eq_Inr add_frames_ok StreamText_def)

text \<open>
  C28: Binding a stream frame by frame gives the text of the whole: the text exists exactly when every
  envelope has a binding, and is the stream scheme over the request's digest and the digest of the
  frames' digests in delivery order.
\<close>

theorem SignedTextE2EEStream_incremental:
  "SignedTextE2EEStream J reqEnv fs = Inr t \<longleftrightarrow>
     (\<exists>reqH hs. FrameBindingHash J reqEnv = Inr reqH \<and> map (FrameBindingHash J) fs = map Inr hs
        \<and> t = formatText SchemeE2EECiphertextStream reqH (sha256 (concat hs)))"
  by (rule stream_text)

section \<open>What a signature binds\<close>

definition collides :: "bytes \<Rightarrow> bytes \<Rightarrow> bool" where
  "collides x y \<longleftrightarrow> x \<noteq> y \<and> sha256 x = sha256 y"

text \<open>Every message hashed on the way to a binding, and to the text of an exchange.\<close>

definition hashed :: "bytes \<times> bytes \<Rightarrow> bytes set" where
  "hashed b = {fst b, snd b, sha256 (fst b) @ sha256 (snd b)}"

definition hashed_exchange :: "bytes \<times> bytes \<Rightarrow> (bytes \<times> bytes) list \<Rightarrow> bytes set" where
  "hashed_exchange req resps =
     insert (concat (map (\<lambda>(aad, ct). BindingHash aad ct) resps)) (hashed req \<union> (\<Union>b\<in>set resps. hashed b))"

lemma BindingHash_eq:
  assumes "BindingHash (fst b) (snd b) = BindingHash (fst c) (snd c)"
  shows "b = c \<or> (\<exists>x\<in>hashed b. \<exists>y\<in>hashed c. collides x y)"
proof (cases "sha256 (fst b) @ sha256 (snd b) = sha256 (fst c) @ sha256 (snd c)")
  case True
  then have "sha256 (fst b) = sha256 (fst c)" "sha256 (snd b) = sha256 (snd c)"
    by (simp_all add: sha.digest_pair_inj)
  then show ?thesis
    by (cases b; cases c) (auto simp: hashed_def collides_def)
next
  case False
  then show ?thesis using assms by (auto simp: hashed_def collides_def BindingHash_def)
qed

lemma FrameBindingHash_ok:
  "FrameBindingHash J env = Inr h \<longleftrightarrow>
     (\<exists>b. FrameBinding J env = Inr b \<and> h = BindingHash (fst b) (snd b))"
  by (auto simp: FrameBindingHash_def bind_r_eq_Inr)

lemma frame_hashes_ok:
  "map (FrameBindingHash J) fs = map Inr hs \<longleftrightarrow>
     (\<exists>bs. map (FrameBinding J) fs = map Inr bs \<and> hs = map (\<lambda>(aad, ct). BindingHash aad ct) bs)"
proof (induction fs arbitrary: hs)
  case (Cons f fs)
  show ?case
  proof
    assume "map (FrameBindingHash J) (f # fs) = map Inr hs"
    then obtain h hs' where h: "hs = h # hs'" "FrameBindingHash J f = Inr h"
      "map (FrameBindingHash J) fs = map Inr hs'" by (auto simp: Cons_eq_map_conv)
    obtain b where b: "FrameBinding J f = Inr b" "h = BindingHash (fst b) (snd b)"
      using h(2) by (auto simp: FrameBindingHash_ok)
    obtain bs where "map (FrameBinding J) fs = map Inr bs" "hs' = map (\<lambda>(aad, ct). BindingHash aad ct) bs"
      using h(3) Cons.IH by blast
    then show "\<exists>bs. map (FrameBinding J) (f # fs) = map Inr bs \<and> hs = map (\<lambda>(aad, ct). BindingHash aad ct) bs"
      using b h(1) by (intro exI[of _ "b # bs"]) (simp add: case_prod_beta)
  next
    assume "\<exists>bs. map (FrameBinding J) (f # fs) = map Inr bs \<and> hs = map (\<lambda>(aad, ct). BindingHash aad ct) bs"
    then obtain b bs where "FrameBinding J f = Inr b" "map (FrameBinding J) fs = map Inr bs"
      "hs = BindingHash (fst b) (snd b) # map (\<lambda>(aad, ct). BindingHash aad ct) bs"
      by (auto simp: Cons_eq_map_conv case_prod_beta)
    then show "map (FrameBindingHash J) (f # fs) = map Inr hs"
      using Cons.IH[of "map (\<lambda>(aad, ct). BindingHash aad ct) bs"] by (auto simp: FrameBindingHash_ok)
  qed
qed auto

lemma BindingHash_list_eq:
  assumes "map (\<lambda>(aad, ct). BindingHash aad ct) bs = map (\<lambda>(aad, ct). BindingHash aad ct) cs"
  shows "bs = cs \<or> (\<exists>b\<in>set bs. \<exists>c\<in>set cs. \<exists>x\<in>hashed b. \<exists>y\<in>hashed c. collides x y)"
  using assms
proof (induction bs arbitrary: cs)
  case (Cons b bs)
  then obtain c cs' where cs: "cs = c # cs'" by (cases cs) auto
  have "BindingHash (fst b) (snd b) = BindingHash (fst c) (snd c)"
    using Cons.prems by (simp add: cs case_prod_beta)
  from BindingHash_eq[OF this] Cons.IH[of cs'] Cons.prems show ?case
    by (auto simp: cs)
qed simp

text \<open>
  One signed text fits one exchange. If the same text is what two exchanges give, then the two
  requests have the same associated data and ciphertext and so have the two sequences of response
  frames, frame by frame in the same order and number; otherwise two of the messages hashed for them
  are a collision of SHA-256.
\<close>

theorem stream_text_binds_exchange:
  assumes "SignedTextE2EEStream J req fs = Inr t" "SignedTextE2EEStream J req' fs' = Inr t"
  shows "\<exists>b b' bs bs'. FrameBinding J req = Inr b \<and> FrameBinding J req' = Inr b'
     \<and> map (FrameBinding J) fs = map Inr bs \<and> map (FrameBinding J) fs' = map Inr bs'
     \<and> ((b = b' \<and> bs = bs')
        \<or> (\<exists>x\<in>hashed_exchange b bs. \<exists>y\<in>hashed_exchange b' bs'. collides x y))"
proof -
  let ?BH = "map (\<lambda>(aad, ct). BindingHash aad ct)"
  obtain b bs where b: "FrameBinding J req = Inr b" "map (FrameBinding J) fs = map Inr bs"
    "t = formatText SchemeE2EECiphertextStream (BindingHash (fst b) (snd b)) (sha256 (concat (?BH bs)))"
    using assms(1) unfolding stream_text FrameBindingHash_ok frame_hashes_ok by blast
  obtain b' bs' where b': "FrameBinding J req' = Inr b'" "map (FrameBinding J) fs' = map Inr bs'"
    "t = formatText SchemeE2EECiphertextStream (BindingHash (fst b') (snd b')) (sha256 (concat (?BH bs')))"
    using assms(2) unfolding stream_text FrameBindingHash_ok frame_hashes_ok by blast
  have eq: "BindingHash (fst b) (snd b) = BindingHash (fst b') (snd b')"
    "sha256 (concat (?BH bs)) = sha256 (concat (?BH bs'))"
    using formatText_inj[OF b(3)[unfolded b'(3)] colon_schemes(2) colon_schemes(2)] by simp_all
  have "bs = bs' \<or> (\<exists>x\<in>hashed_exchange b bs. \<exists>y\<in>hashed_exchange b' bs'. collides x y)"
  proof (cases "concat (?BH bs) = concat (?BH bs')")
    case True
    have "?BH bs = ?BH bs'"
      by (rule concat_eq_fixed_width[OF _ _ True, of 32]) auto
    from BindingHash_list_eq[OF this] show ?thesis by (auto simp: hashed_exchange_def)
  next
    case False
    then have "collides (concat (?BH bs)) (concat (?BH bs'))"
      using eq(2) by (simp add: collides_def)
    then show ?thesis unfolding hashed_exchange_def by blast
  qed
  then have "(b = b' \<and> bs = bs')
        \<or> (\<exists>x\<in>hashed_exchange b bs. \<exists>y\<in>hashed_exchange b' bs'. collides x y)"
    using BindingHash_eq[OF eq(1)] unfolding hashed_exchange_def by blast
  then show ?thesis using b(1,2) b'(1,2) by blast
qed

lemma verify_ok:
  "verify sig want scheme signer recover = Inr () \<longleftrightarrow>
     trim_space signer \<noteq> [] \<and> cs_Text sig = want \<and> parseScheme want = Inr scheme
     \<and> (\<exists>rec raw addr. recover = Some rec \<and> decodeSignature (cs_Signature sig) = Inr raw
          \<and> rec want raw = Some addr \<and> addrEqual addr signer)"
  by (auto simp: verify_def result_inv)

text \<open>
  What a verified response signature means. \<open>VerifyE2EE\<close> succeeds exactly when the signed text
  is the text recomputed from the envelopes the client holds, and the signature over that text was
  made by an address equal to the expected on-chain signer; the address the signature reports for
  itself plays no part.
\<close>

theorem VerifyE2EE_iff:
  "VerifyE2EE J sig reqEnv respEnv signer recover = Inr () \<longleftrightarrow>
     trim_space signer \<noteq> []
     \<and> (\<exists>b c rec raw addr. FrameBinding J reqEnv = Inr b \<and> FrameBinding J respEnv = Inr c
          \<and> cs_Text sig = formatText SchemeE2EECiphertext (BindingHash (fst b) (snd b)) (BindingHash (fst c) (snd c))
          \<and> recover = Some rec \<and> decodeSignature (cs_Signature sig) = Inr raw
          \<and> rec (cs_Text sig) raw = Some addr \<and> addrEqual addr signer)"
proof -
  have "parseScheme (formatText SchemeE2EECiphertext (BindingHash a c) (BindingHash a' c'))
      = Inr SchemeE2EECiphertext" for a c a' c'
    by (simp add: parseScheme_def split_formatText)
  then show ?thesis
    by (auto simp: VerifyE2EE_def SignedTextE2EE_def bind_r_eq_Inr map_err_eq_Inr FrameBindingHash_ok
        SignedTextE2EEFromHashes_def verify_ok simp del: SchemeE2EECiphertext_def)
qed

section \<open>In transit\<close>

lemma FrameBinding_same_meta:
  assumes "mget env' e2eeKey = mget env e2eeKey" "aadFromEnvelope J env' = aadFromEnvelope J env"
  shows "FrameBinding J env' = FrameBinding J env"
  using assms by (simp add: FrameBinding_def)

text \<open>
  C26: Both ends compute the same signed text. An intermediary may rewrite the unbound fields of the
  request on its way in and of the response frame on its way out; the text the enclave signs, from
  the request it received and the frame it sent, is the text the client verifies, from the request
  it sent and the frame it received.
\<close>

theorem signed_text_survives_transit:
  assumes "SealRequestFor H J p pub req sf a k U rnd = Inr env" "mwf req"
    and "mwf env'" "\<forall>f. f \<notin> set U \<longrightarrow> mget env' f = mget env f"
    and "SealFrame H J rs frame sf2 fin = Inr (out, rs')" "mwf frame" "in_sync R rs ro"
    and "mwf out'" "\<forall>f. f \<notin> set (rs_unbound rs) \<longrightarrow> mget out' f = mget out f"
  shows "SignedTextE2EE J env' out = SignedTextE2EE J env out'"
proof -
  have "FrameBinding J env' = FrameBinding J env"
    using assms(1)
  proof (rule SealRequestForE)
    fix sealed enc ct e m aad
    assume U: "unbound_set_ok U sealed" and e: "e = request_e2ee pub sealed a k U enc"
      and m: "m = mdel (\<lambda>k. k \<in> set sealed) req"
      and env: "env = setE2EE (e\<lparr>e_Ciphertext := b64_encode ct\<rparr>) m"
    have no: "e2eeKey \<notin> set U" using U by (simp add: unbound_set_ok_def)
    have "aad_object env' = aad_object env"
      unfolding env
      by (rule aad_object_unbound)
        (use assms(2-4) no in \<open>simp_all add: m mwf_mdel env e\<close>)
    then show ?thesis
      using assms(4) no by (intro FrameBinding_same_meta) (auto simp: aadFromEnvelope_def)
  qed
  moreover have "FrameBinding J out' = FrameBinding J out"
    using assms(5)
  proof (rule SealFrameE)
    fix fs ct
    assume ub: "unbound_set_ok (rs_unbound rs) fs"
      and out: "out = setResponseE2EE (frame_e2ee rs fs fin ct) (mdel (\<lambda>k. k \<in> set fs) frame)"
    have no: "e2eeKey \<notin> set (rs_unbound rs)" using ub by (simp add: unbound_set_ok_def)
    have "aad_object out' = aad_object out"
      unfolding out
      by (rule aad_object_response_unbound)
        (use assms(6,8,9) no in \<open>simp_all add: mwf_mdel out\<close>)
    then show ?thesis
      using assms(9) no by (intro FrameBinding_same_meta) (auto simp: aadFromEnvelope_def)
  qed
  ultimately show ?thesis by (simp add: SignedTextE2EE_def FrameBindingHash_def)
qed

text \<open>An envelope whose model is unbound, under two models.\<close>

definition demo_envelope :: "string \<Rightarrow> json gomap" where
  "demo_envelope m =
     [(''_e2ee'', JObj [(''ciphertext'', JStr ''AA''), (''unbound_fields'', JArr [JStr ''model''])]),
      (''model'', JStr m)]"

lemma demo_envelope_wf [simp]: "mwf (demo_envelope m)"
  by (simp add: mwf_def demo_envelope_def)

lemma demo_envelope_binding:
  "FrameBinding Some (demo_envelope m) = FrameBinding Some (demo_envelope [])"
  "is_ok (FrameBinding Some (demo_envelope []))"
proof -
  have e: "mget (demo_envelope m) e2eeKey =
      Some (JObj [(''ciphertext'', JStr ''AA''), (''unbound_fields'', JArr [JStr ''model''])])" for m
    by (simp add: demo_envelope_def mget_def)
  have d: "mdel (\<lambda>f. f \<in> set [''model'']) (demo_envelope m) = mdel (\<lambda>f. f \<in> set [''model'']) (demo_envelope [])" for m
    by (simp add: demo_envelope_def mdel_def)
  have u: "as_strings (JArr [JStr ''model'']) = Some [''model'']"
    using as_strings_array[of "[''model'']"] by (simp add: str_array_def)
  have o: "aad_object (demo_envelope m) = aad_object (demo_envelope [])" "is_ok (aad_object (demo_envelope m))" for m
    unfolding aad_object_def using d[of m] by (simp_all add: e mget_map_from u Let_def del: e2eeKey_def)
  have b: "b64_decode False ''AA'' \<noteq> None" "\<not> equal_fold ''ciphertext'' ''unbound_fields''" by code_simp+
  show "FrameBinding Some (demo_envelope m) = FrameBinding Some (demo_envelope [])"
    by (rule FrameBinding_same_meta) (simp_all add: e aadFromEnvelope_def o(1)[of m] del: e2eeKey_def)
  show "is_ok (FrameBinding Some (demo_envelope []))"
    using o(2)[of "[]"] b
    by (auto simp: FrameBinding_def aadFromEnvelope_def canonicalJSON_def e is_ok_iff decode_struct_def
        struct_field_def simp del: e2eeKey_def)
qed

theorem stream_text_binds_exchange_witness:
  "\<exists>t b bs. SignedTextE2EEStream Some (demo_envelope ''m1'') [demo_envelope ''m2''] = Inr t
     \<and> SignedTextE2EEStream Some (demo_envelope ''m2'') [demo_envelope ''m1''] = Inr t
     \<and> FrameBinding Some (demo_envelope ''m1'') = Inr b \<and> [b] = bs
     \<and> map (FrameBinding Some) [demo_envelope ''m2''] = map Inr bs"
proof -
  note same = demo_envelope_binding(1)
  obtain c where c: "FrameBinding Some (demo_envelope []) = Inr c"
    using demo_envelope_binding(2) by (auto simp: is_ok_iff)
  let ?h = "BindingHash (fst c) (snd c)"
  have t: "SignedTextE2EEStream Some (demo_envelope x) [demo_envelope y]
      = Inr (formatText SchemeE2EECiphertextStream ?h (sha256 ?h))" for x y
    unfolding stream_text FrameBindingHash_ok frame_hashes_ok same[of x]
    by (intro exI[of _ ?h] exI[of _ "[?h]"] conjI) (auto simp: c same[of y] case_prod_beta intro!: exI[of _ "[c]"])
  show ?thesis
    using stream_text_binds_exchange[OF t[of "''m1''" "''m2''"] t[of "''m2''" "''m1''"]]
    by (auto simp: t c same[of "''m1''"] same[of "''m2''"])
qed

theorem signed_text_survives_transit_witness:
  "\<exists>out rs'. SealFrame ideal_hpke Some (demo_rs None) demo_frame None True = Inr (out, rs')
     \<and> SignedTextE2EE Some demo_edited out = SignedTextE2EE Some demo_env (mput ''model'' (JStr ''m2'') out)"
proof -
  obtain out rs' ro where o: "SealFrame ideal_hpke Some (demo_rs None) demo_frame None True = Inr (out, rs')"
    "in_sync (=) (demo_rs None) ro" "mwf out" using demo_one[of None] by metis
  have "SignedTextE2EE Some demo_edited out = SignedTextE2EE Some demo_env (mput ''model'' (JStr ''m2'') out)"
    by (rule signed_text_survives_transit[OF demo_env demo_req_ok(1) demo_edited_ok(1) _ o(1) demo_frame_ok(1) o(2)])
      (simp_all add: demo_edited_get mwf_mput o(3) mget_mput)
  then show ?thesis using o(1) by blast
qed

end
