(* ===== verification/Attest_Quote.thy ===== *)
theory Attest_Quote
  imports Go_Sha256 Go_Encoding
begin

text \<open>
  protocol/attest, the fixed layouts: the registers of a TDX quote (tdxquote.go), the report_data
  that binds a provider's keys (reportdata.go), the report_data of an evidence quote, the
  mr_config_id register (dstack.go) and the boot chain (measurement.go).
  A Go array \<open>[n]byte\<close> is a byte list of length \<open>n\<close>.
\<close>

datatype aerr =
    QuoteTooShort nat | RDLength nat | RDVersion "32 word" | RDReserved | EmptyQuote
  | QuoteVerification aerr | ErrQuoteVerifierNotConfigured | ParserFailed string
  | ErrMeasurementPolicyNotConfigured | ErrUntrustedMeasurement
  | MRConfigVersionUnsupported nat | MRConfigPadding | ComposeHashZero
  | EvidenceDigest | EvidencePadding

abbreviation zeros :: "nat \<Rightarrow> bytes" where
  "zeros n \<equiv> replicate n (CHR 0x00)"

text \<open>A slice \<open>s[i:j]\<close>.\<close>

definition go_slice :: "nat \<Rightarrow> nat \<Rightarrow> bytes \<Rightarrow> bytes" where
  "go_slice i j s = take (j - i) (drop i s)"

section \<open>Measurement registers\<close>

definition measurementRegLen :: nat where [simp]: "measurementRegLen = 48"

record Measurement =
  MRTD :: bytes
  RTMR0 :: bytes
  RTMR1 :: bytes
  RTMR2 :: bytes
  RTMR3 :: bytes

record BootChain =
  bc_MRTD :: bytes
  bc_RTMR1 :: bytes
  bc_RTMR2 :: bytes

definition BootChainOf :: "Measurement \<Rightarrow> BootChain" where
  "BootChainOf m = \<lparr>bc_MRTD = MRTD m, bc_RTMR1 = RTMR1 m, bc_RTMR2 = RTMR2 m\<rparr>"

definition BootChain_IsZero :: "BootChain \<Rightarrow> bool" where
  "BootChain_IsZero b =
     (b = \<lparr>bc_MRTD = zeros measurementRegLen, bc_RTMR1 = zeros measurementRegLen,
           bc_RTMR2 = zeros measurementRegLen\<rparr>)"

record BootChainPolicy =
  bp_Allowed :: "BootChain list"
  bp_Names :: "BootChain \<Rightarrow> string option"

definition Permits :: "BootChainPolicy \<Rightarrow> BootChain \<Rightarrow> bool" where
  "Permits p b = (if BootChain_IsZero b then False else list_ex (\<lambda>a. a = b) (bp_Allowed p))"

definition Name :: "BootChainPolicy \<Rightarrow> BootChain \<Rightarrow> string" where
  "Name p b =
     (if \<not> Permits p b then []
      else case bp_Names p b of None \<Rightarrow> [] | Some n \<Rightarrow> n)"

definition Configured :: "BootChainPolicy \<Rightarrow> bool" where
  "Configured p = (length (bp_Allowed p) > 0)"

lemma Permits_iff: "Permits p b \<longleftrightarrow> \<not> BootChain_IsZero b \<and> b \<in> set (bp_Allowed p)"
  by (auto simp: Permits_def list_ex_iff)

section \<open>The quote\<close>

definition quoteHeaderLen :: nat where [simp]: "quoteHeaderLen = 48"
definition tdBodyLen :: nat where [simp]: "tdBodyLen = 584"
definition minQuoteLen :: nat where "minQuoteLen = quoteHeaderLen + tdBodyLen"
definition mrtdOff :: nat where [simp]: "mrtdOff = 184"
definition mrConfigIDOff :: nat where [simp]: "mrConfigIDOff = 232"
definition rtmr0Off :: nat where [simp]: "rtmr0Off = 376"
definition rtmr1Off :: nat where [simp]: "rtmr1Off = 424"
definition rtmr2Off :: nat where [simp]: "rtmr2Off = 472"
definition rtmr3Off :: nat where [simp]: "rtmr3Off = 520"
definition reportDataOff :: nat where [simp]: "reportDataOff = 568"
definition mrConfigIDLen :: nat where [simp]: "mrConfigIDLen = 48"
definition reportDataLen :: nat where [simp]: "reportDataLen = 64"

record QuoteBody =
  qb_Measurement :: Measurement
  qb_MRConfigID :: bytes
  qb_ReportData :: bytes

definition ParseTDXQuoteBody :: "bytes \<Rightarrow> aerr + QuoteBody" where
  "ParseTDXQuoteBody raw =
     bind_r (fail_if (length raw < minQuoteLen) (QuoteTooShort (length raw))) (\<lambda>_.
     Inr \<lparr>qb_Measurement =
            \<lparr>MRTD = go_slice mrtdOff (mrtdOff + measurementRegLen) raw,
             RTMR0 = go_slice rtmr0Off (rtmr0Off + measurementRegLen) raw,
             RTMR1 = go_slice rtmr1Off (rtmr1Off + measurementRegLen) raw,
             RTMR2 = go_slice rtmr2Off (rtmr2Off + measurementRegLen) raw,
             RTMR3 = go_slice rtmr3Off (rtmr3Off + measurementRegLen) raw\<rparr>,
          qb_MRConfigID = go_slice mrConfigIDOff (mrConfigIDOff + mrConfigIDLen) raw,
          qb_ReportData = go_slice reportDataOff (reportDataOff + reportDataLen) raw\<rparr>)"

section \<open>The report_data of a provider\<close>

definition ReportDataVersion :: "32 word" where [simp]: "ReportDataVersion = 1"
definition encPubOff :: nat where [simp]: "encPubOff = 0"
definition encPubLen :: nat where [simp]: "encPubLen = 32"
definition signerOff :: nat where [simp]: "signerOff = 32"
definition signerLen :: nat where [simp]: "signerLen = 20"
definition versionOff :: nat where [simp]: "versionOff = 52"
definition versionLen :: nat where [simp]: "versionLen = 4"
definition reservedOff :: nat where [simp]: "reservedOff = 56"
definition reservedLen :: nat where [simp]: "reservedLen = 8"

record ReportData =
  rd_EncPub :: bytes
  rd_SignerAddr :: string
  rd_Version :: "32 word"

definition ParseReportData :: "bytes \<Rightarrow> aerr + ReportData" where
  "ParseReportData rd =
     bind_r (fail_if (length rd \<noteq> reportDataLen) (RDLength (length rd))) (\<lambda>_.
     let version = be32_word (go_slice versionOff (versionOff + versionLen) rd) in
     bind_r (fail_if (version \<noteq> ReportDataVersion) (RDVersion version)) (\<lambda>_.
     bind_r (each_r (\<lambda>b. fail_if (b \<noteq> CHR 0x00) RDReserved)
               (go_slice reservedOff (reservedOff + reservedLen) rd)) (\<lambda>_.
     Inr \<lparr>rd_EncPub = go_slice encPubOff (encPubOff + encPubLen) rd,
          rd_SignerAddr = ''0x'' @ hex_encode (go_slice signerOff (signerOff + signerLen) rd),
          rd_Version = version\<rparr>)))"

section \<open>The register mr_config_id\<close>

definition MRConfigV1 :: nat where [simp]: "MRConfigV1 = 1"
definition ComposeHashLen :: nat where [simp]: "ComposeHashLen = 32"
definition AppIDLen :: nat where [simp]: "AppIDLen = 20"

definition ComposeHashFromMRConfigID :: "bytes \<Rightarrow> aerr + bytes" where
  "ComposeHashFromMRConfigID mrConfigID =
     (let version = of_char (mrConfigID ! 0) :: nat in
      bind_r (fail_if (version \<noteq> MRConfigV1) (MRConfigVersionUnsupported version)) (\<lambda>_.
      bind_r (each_r (\<lambda>b. fail_if (b \<noteq> CHR 0x00) MRConfigPadding)
                (drop (1 + ComposeHashLen) mrConfigID)) (\<lambda>_.
      let out = go_slice 1 (1 + ComposeHashLen) mrConfigID in
      bind_r (fail_if (out = zeros ComposeHashLen) ComposeHashZero) (\<lambda>_. Inr out))))"

definition AppIDFromComposeHash :: "bytes \<Rightarrow> string" where
  "AppIDFromComposeHash composeHash = hex_encode (take AppIDLen composeHash)"

section \<open>The report_data of an evidence quote\<close>

definition evidenceManifestHashLen :: nat where [simp]: "evidenceManifestHashLen = 32"

definition EvidenceReportData :: "bytes \<Rightarrow> bytes" where
  "EvidenceReportData manifest =
     sha256 manifest @ zeros (reportDataLen - evidenceManifestHashLen)"

definition VerifyEvidenceReportData :: "bytes \<Rightarrow> bytes \<Rightarrow> aerr + unit" where
  "VerifyEvidenceReportData rd manifest =
     (let want = EvidenceReportData manifest in
      bind_r (fail_if (take evidenceManifestHashLen rd \<noteq> take evidenceManifestHashLen want)
                EvidenceDigest) (\<lambda>_.
      each_r (\<lambda>b. fail_if (b \<noteq> CHR 0x00) EvidencePadding) (drop evidenceManifestHashLen rd)))"

section \<open>Layouts\<close>

unbundle bit_operations_syntax
lemma be32_step: "push_bit 8 (w :: 32 word) OR of_nat (of_char c) = of_nat (unat w * 256 + of_char c)"
proof -
  have "push_bit 8 w OR of_nat (of_char c) = push_bit 8 w + of_nat (of_char (c::char))"
  proof (rule disjunctive_add[symmetric])
    fix n
    show "\<not> bit (push_bit 8 w) n \<or> \<not> bit (of_nat (of_char c) :: 32 word) n"
    proof (cases "n < 8")
      case False
      have "(of_char c :: nat) < 2 ^ 8" using of_char_less[of c] by simp
      then have "\<not> bit (of_char c :: nat) n" using False
        by (metis bit_take_bit_iff take_bit_nat_eq_self)
      then show ?thesis by (simp add: bit_of_nat_iff)
    qed (simp add: bit_push_bit_iff)
  qed
  then show ?thesis by (simp add: push_bit_eq_mult mult.commute)
qed

lemma be32_word_one:
  assumes "length s = 4"
  shows "be32_word s = 1 \<longleftrightarrow> s = [CHR 0x00, CHR 0x00, CHR 0x00, CHR 0x01]"
proof -
  obtain a b c d where s: "s = [a, b, c, d]"
    using assms by (auto simp: length_Suc_conv numeral_eq_Suc)
  let ?n = "\<lambda>x :: char. of_char x :: nat"
  let ?v = "((?n a * 256 + ?n b) * 256 + ?n c) * 256 + ?n d"
  note lt = of_char_less[of a] of_char_less[of b] of_char_less[of c] of_char_less[of d]
  have u: "unat (of_nat k :: 32 word) = k" if "k < 2 ^ 32" for k
    using that by (simp add: unat_of_nat take_bit_nat_eq_self)
  have "be32_word s = of_nat ?v"
    using lt by (simp add: be32_word_def s be32_step u)
  moreover have "?v < 2 ^ 32"
  proof -
    have "((x * 256 + y) * 256 + z) * 256 + w < 2 ^ 32"
      if "x < 256" "y < 256" "z < 256" "w < 256" for x y z w :: nat
      using that by simp
    then show ?thesis using lt by blast
  qed
  ultimately have "be32_word s = 1 \<longleftrightarrow> ?v = 1"
    using u[of ?v] by (metis of_nat_1 unat_1)
  also have "\<dots> \<longleftrightarrow> ?n a = 0 \<and> ?n b = 0 \<and> ?n c = 0 \<and> ?n d = 1"
  proof -
    have "((x * 256 + y) * 256 + z) * 256 + w = 1 \<longleftrightarrow> x = 0 \<and> y = 0 \<and> z = 0 \<and> w = 1"
      for x y z w :: nat by (cases x; cases y; cases z) auto
    then show ?thesis by blast
  qed
  also have "\<dots> \<longleftrightarrow> s = [CHR 0x00, CHR 0x00, CHR 0x00, CHR 0x01]"
    unfolding s by (auto simp flip: of_char_eq_iff[where 'a = nat])
  finally show ?thesis .
qed

lemma go_slice_skip: "length a \<le> i \<Longrightarrow> go_slice i j (a @ b) = go_slice (i - length a) (j - length a) b"
  by (simp add: go_slice_def)

lemma go_slice_first: "length a = j \<Longrightarrow> go_slice 0 j (a @ b) = a" "length a = j \<Longrightarrow> go_slice 0 j a = a"
  by (simp_all add: go_slice_def)

lemma all_zero: "length s = n \<Longrightarrow> (\<forall>b\<in>set s. b = CHR 0x00) \<longleftrightarrow> s = zeros n"
  by (metis in_set_replicate replicate_eqI)

end
