(* ===== verification/Attest_Verify.thy ===== *)
theory Attest_Verify
  imports Attest_Quote Wire_Json
begin

text \<open>
  protocol/attest, the decisions: verification of a provider's quote against an allowlist of boot
  chains (verify.go), and the transport shapes of a quote reply (dstack.go). The check of the
  quote's signature chain is a parameter, the quote parser a \<open>Verifier\<close> is built with.
\<close>

section \<open>Verifier\<close>

text \<open>A mode is a Go \<open>int\<close>; every value other than \<open>ModeEnforce\<close> tolerates a miss.\<close>

definition ModeEnforce :: int where [simp]: "ModeEnforce = 0"
definition ModeWarn :: int where [simp]: "ModeWarn = 1"

type_synonym quoteParser = "bytes \<Rightarrow> aerr + Measurement \<times> bytes"

definition notConfigured :: quoteParser where
  "notConfigured q = Inl ErrQuoteVerifierNotConfigured"

record Verifier =
  v_policy :: BootChainPolicy
  v_parse :: quoteParser
  v_mode :: int

definition WithMeasurementMode :: "int \<Rightarrow> Verifier \<Rightarrow> Verifier" where
  "WithMeasurementMode m v = v\<lparr>v_mode := m\<rparr>"

definition WithQuoteParser :: "quoteParser option \<Rightarrow> Verifier \<Rightarrow> Verifier" where
  "WithQuoteParser p v = (case p of None \<Rightarrow> v | Some f \<Rightarrow> v\<lparr>v_parse := f\<rparr>)"

definition New :: "BootChainPolicy \<Rightarrow> (Verifier \<Rightarrow> Verifier) list \<Rightarrow> Verifier" where
  "New policy opts =
     foldl (\<lambda>v opt. opt v) \<lparr>v_policy = policy, v_parse = notConfigured, v_mode = ModeEnforce\<rparr> opts"

definition MeasurementBaselineConfigured :: "Verifier \<Rightarrow> bool" where
  "MeasurementBaselineConfigured v = Configured (v_policy v)"

record Verified =
  vd_EncPub :: bytes
  vd_SignerAddr :: string
  vd_Measurement :: Measurement
  vd_MeasurementTrusted :: bool
  vd_MeasurementImage :: string

definition Verify :: "Verifier \<Rightarrow> bytes \<Rightarrow> aerr + Verified" where
  "Verify v rawQuote =
     bind_r (fail_if (length rawQuote = 0) EmptyQuote) (\<lambda>_.
     bind_r (case v_parse v rawQuote of Inl e \<Rightarrow> Inl (QuoteVerification e) | Inr x \<Rightarrow> Inr x)
       (\<lambda>(measurement, reportData).
     let bootChain = BootChainOf measurement; trusted = Permits (v_policy v) bootChain in
     bind_r (if \<not> trusted \<and> v_mode v = ModeEnforce
             then (if \<not> Configured (v_policy v) then Inl ErrMeasurementPolicyNotConfigured
                   else Inl ErrUntrustedMeasurement)
             else Inr ()) (\<lambda>_.
     bind_r (ParseReportData reportData) (\<lambda>rd.
     Inr \<lparr>vd_EncPub = rd_EncPub rd, vd_SignerAddr = rd_SignerAddr rd,
          vd_Measurement = measurement, vd_MeasurementTrusted = trusted,
          vd_MeasurementImage = Name (v_policy v) bootChain\<rparr>))))"

section \<open>The reply of a quote endpoint\<close>

datatype qerr =
    QuoteJSON | NoQuote | QuoteHex | TCBInfoWrapper | TCBInfoJSON | ErrNoAppCompose

definition str_field :: "string \<Rightarrow> json \<Rightarrow> string option" where
  "str_field n v = decode_struct [n] (\<lambda>_ x s. str_into x s) [] v"

definition DecodeQuoteResponse :: "bytes \<Rightarrow> qerr + bytes" where
  "DecodeQuoteResponse body =
     bind_r (opt_r (Option.bind (json_parse body) (str_field ''quote'')) QuoteJSON) (\<lambda>quote.
     bind_r (fail_if (quote = []) NoQuote) (\<lambda>_.
     opt_r (hex_decode quote) QuoteHex))"

definition UnwrapJSONString :: "bytes \<Rightarrow> bytes option" where
  "UnwrapJSONString raw =
     (let trimmed = trim_space raw in
      if length trimmed = 0 \<or> trimmed ! 0 \<noteq> CHR 0x22 then Some trimmed
      else Option.bind (json_parse trimmed) as_string)"

text \<open>
  A \<open>json.RawMessage\<close> member holds the text of its value, here as the value printed again; the
  source only decodes it. An absent member is the empty text.
\<close>

definition raw_field :: "string \<Rightarrow> json \<Rightarrow> bytes option" where
  "raw_field n v = decode_struct [n] (\<lambda>_ x _. Some (json_print x)) [] v"

definition AppComposeFromQuoteResponse :: "bytes \<Rightarrow> qerr + bytes" where
  "AppComposeFromQuoteResponse body =
     bind_r (opt_r (Option.bind (json_parse body) (raw_field ''tcb_info'')) QuoteJSON) (\<lambda>outer.
     bind_r (opt_r (UnwrapJSONString outer) TCBInfoWrapper) (\<lambda>tcbInfo.
     bind_r (fail_if (length tcbInfo = 0) ErrNoAppCompose) (\<lambda>_.
     bind_r (opt_r (Option.bind (json_parse tcbInfo) (str_field ''app_compose'')) TCBInfoJSON)
       (\<lambda>appCompose.
     bind_r (fail_if (appCompose = []) ErrNoAppCompose) (\<lambda>_. Inr appCompose)))))"

section \<open>Layouts\<close>

text \<open>
  The quote layout. Of a quote that follows Intel's v4 layout, header, the fields before the
  measurement registers, the registers in their order and report_data, followed by anything, the
  parser returns exactly the fields at their places; it succeeds on every input of at least 632
  bytes and on no shorter one.
\<close>

theorem ParseTDXQuoteBody_layout:
  assumes "length hdr = 48" "length svn = 16" "length seam = 48" "length seamsigner = 48"
    and "length seamattr = 8" "length tdattr = 8" "length xfam = 8" "length mrtd = 48"
    and "length cfg = 48" "length owner = 48" "length ownercfg = 48" "length r0 = 48"
    and "length r1 = 48" "length r2 = 48" "length r3 = 48" "length rd = 64"
  shows "ParseTDXQuoteBody (hdr @ svn @ seam @ seamsigner @ seamattr @ tdattr @ xfam @ mrtd @ cfg @
           owner @ ownercfg @ r0 @ r1 @ r2 @ r3 @ rd @ sig)
       = Inr \<lparr>qb_Measurement = \<lparr>MRTD = mrtd, RTMR0 = r0, RTMR1 = r1, RTMR2 = r2, RTMR3 = r3\<rparr>,
              qb_MRConfigID = cfg, qb_ReportData = rd\<rparr>
     \<and> (is_ok (ParseTDXQuoteBody raw) \<longleftrightarrow> 632 \<le> length raw)"
proof
  show "is_ok (ParseTDXQuoteBody raw) \<longleftrightarrow> 632 \<le> length raw"
    by (auto simp: ParseTDXQuoteBody_def minQuoteLen_def is_ok_iff bind_r_eq_Inr fail_if_eq_Inr)
qed (use assms in \<open>simp add: ParseTDXQuoteBody_def minQuoteLen_def go_slice_skip go_slice_first\<close>)

theorem ParseTDXQuoteBody_layout_witness:
  "ParseTDXQuoteBody (zeros 48 @ zeros 16 @ zeros 48 @ zeros 48 @ zeros 8 @ zeros 8 @ zeros 8
      @ replicate 48 (CHR ''m'') @ replicate 48 (CHR ''c'') @ zeros 48 @ zeros 48
      @ replicate 48 (CHR ''0'') @ replicate 48 (CHR ''1'') @ replicate 48 (CHR ''2'')
      @ replicate 48 (CHR ''3'') @ replicate 64 (CHR ''d'') @ ''signature'')
    = Inr \<lparr>qb_Measurement = \<lparr>MRTD = replicate 48 (CHR ''m''), RTMR0 = replicate 48 (CHR ''0''),
             RTMR1 = replicate 48 (CHR ''1''), RTMR2 = replicate 48 (CHR ''2''),
             RTMR3 = replicate 48 (CHR ''3'')\<rparr>,
           qb_MRConfigID = replicate 48 (CHR ''c''), qb_ReportData = replicate 64 (CHR ''d'')\<rparr>"
  by (rule ParseTDXQuoteBody_layout[THEN conjunct1]) (rule length_replicate)+

lemma report_data_layout:
  "ParseReportData rd = Inr r \<longleftrightarrow>
     (\<exists>pub addr. length pub = 32 \<and> length addr = 20
        \<and> rd = pub @ addr @ [CHR 0x00, CHR 0x00, CHR 0x00, CHR 0x01] @ zeros 8
        \<and> r = \<lparr>rd_EncPub = pub, rd_SignerAddr = ''0x'' @ hex_encode addr, rd_Version = 1\<rparr>)"
proof
  assume "ParseReportData rd = Inr r"
  then have len: "length rd = 64" and ver: "be32_word (take 4 (drop 52 rd)) = 1"
    and res: "\<forall>b\<in>set (take 8 (drop 56 rd)). b = CHR 0x00"
    and r: "r = \<lparr>rd_EncPub = take 32 rd, rd_SignerAddr = ''0x'' @ hex_encode (take 20 (drop 32 rd)),
                 rd_Version = 1\<rparr>"
    by (auto simp: ParseReportData_def Let_def result_inv go_slice_def)
  have "take 4 (drop 52 rd) = [CHR 0x00, CHR 0x00, CHR 0x00, CHR 0x01]"
    using ver len by (simp add: be32_word_one)
  moreover have "take 8 (drop 56 rd) = zeros 8"
    using res all_zero[of "take 8 (drop 56 rd)" 8] len by simp
  moreover have "rd = take 32 rd @ take 20 (drop 32 rd) @ take 4 (drop 52 rd) @ take 8 (drop 56 rd)"
  proof -
    have "take 8 (drop 56 rd) = drop 56 rd" using len by simp
    moreover have "drop 52 rd = take 4 (drop 52 rd) @ drop 56 rd"
      "drop 32 rd = take 20 (drop 32 rd) @ drop 52 rd" "rd = take 32 rd @ drop 32 rd"
      using append_take_drop_id[of 4 "drop 52 rd"] append_take_drop_id[of 20 "drop 32 rd"] by simp_all
    ultimately show ?thesis by metis
  qed
  ultimately show "\<exists>pub addr. length pub = 32 \<and> length addr = 20
        \<and> rd = pub @ addr @ [CHR 0x00, CHR 0x00, CHR 0x00, CHR 0x01] @ zeros 8
        \<and> r = \<lparr>rd_EncPub = pub, rd_SignerAddr = ''0x'' @ hex_encode addr, rd_Version = 1\<rparr>"
    using len r by (intro exI[of _ "take 32 rd"] exI[of _ "take 20 (drop 32 rd)"]) simp
next
  assume "\<exists>pub addr. length pub = 32 \<and> length addr = 20
        \<and> rd = pub @ addr @ [CHR 0x00, CHR 0x00, CHR 0x00, CHR 0x01] @ zeros 8
        \<and> r = \<lparr>rd_EncPub = pub, rd_SignerAddr = ''0x'' @ hex_encode addr, rd_Version = 1\<rparr>"
  then obtain pub addr where p: "length pub = 32" "length addr = 20"
    "rd = pub @ addr @ [CHR 0x00, CHR 0x00, CHR 0x00, CHR 0x01] @ zeros 8"
    "r = \<lparr>rd_EncPub = pub, rd_SignerAddr = ''0x'' @ hex_encode addr, rd_Version = 1\<rparr>" by blast
  have "be32_word [CHR 0x00, CHR 0x00, CHR 0x00, CHR 0x01] = 1"
    by (subst be32_word_one) simp_all
  moreover have "go_slice 52 56 rd = [CHR 0x00, CHR 0x00, CHR 0x00, CHR 0x01]" "go_slice 56 64 rd = zeros 8"
    "go_slice 0 32 rd = pub" "go_slice 32 52 rd = addr" "length rd = 64"
    unfolding p(3) using p(1,2) by (simp_all only: go_slice_skip go_slice_first length_append) (simp_all add: go_slice_def)
  ultimately show "ParseReportData rd = Inr r"
    using p(4) by (auto simp: ParseReportData_def Let_def result_inv)
qed

text \<open>
  A key is read out of report_data only from the version-1 layout: the encryption key, the
  20 bytes of the signer address, the version word and eight zero bytes, nothing before, between or
  after. The bytes determine the keys and the keys determine the bytes.
\<close>

theorem ParseReportData_iff:
  "ParseReportData rd = Inr r \<longleftrightarrow>
     (\<exists>pub addr. length pub = 32 \<and> length addr = 20
        \<and> rd = pub @ addr @ [CHR 0x00, CHR 0x00, CHR 0x00, CHR 0x01] @ zeros 8
        \<and> r = \<lparr>rd_EncPub = pub, rd_SignerAddr = ''0x'' @ hex_encode addr, rd_Version = 1\<rparr>)"
  by (rule report_data_layout)

text \<open>
  The two report_data layouts are never crossed. The report_data of an evidence quote, for any
  manifest whatever, is refused by the parser of a provider's report_data, so no key can be read out
  of a quote that binds none.
\<close>

theorem evidence_is_no_key_binding:
  "\<not> is_ok (ParseReportData (EvidenceReportData manifest))"
proof -
  have "drop 52 (EvidenceReportData manifest) = zeros 12"
    by (simp add: EvidenceReportData_def)
  then have "go_slice 52 56 (EvidenceReportData manifest) = zeros 4" by (simp add: go_slice_def)
  moreover have "be32_word (zeros 4) \<noteq> 1"
    by (subst be32_word_one) (simp_all add: numeral_eq_Suc)
  ultimately show ?thesis
    by (simp add: ParseReportData_def is_ok_iff result_inv)
qed

text \<open>
  An evidence quote binds one manifest. The check accepts exactly the report_data computed from
  the manifest, so a report_data accepted for two manifests exhibits a collision of SHA-256.
\<close>

theorem VerifyEvidenceReportData_iff:
  assumes "length rd = 64"
  shows "(VerifyEvidenceReportData rd manifest = Inr () \<longleftrightarrow> rd = EvidenceReportData manifest)
     \<and> (VerifyEvidenceReportData rd manifest = Inr () \<longrightarrow> VerifyEvidenceReportData rd other = Inr () \<longrightarrow>
          sha256 manifest = sha256 other)"
proof -
  have iff: "VerifyEvidenceReportData rd m = Inr () \<longleftrightarrow> rd = EvidenceReportData m" for m
  proof -
    have "VerifyEvidenceReportData rd m = Inr () \<longleftrightarrow> take 32 rd = sha256 m \<and> drop 32 rd = zeros 32"
      using all_zero[of "drop 32 rd" 32] assms
      by (simp add: VerifyEvidenceReportData_def EvidenceReportData_def Let_def result_inv)
    also have "\<dots> \<longleftrightarrow> rd = sha256 m @ zeros 32"
      by (metis append_take_drop_id append_eq_conv_conj length_sha256)
    finally show ?thesis by (simp add: EvidenceReportData_def)
  qed
  then show ?thesis by (auto simp: EvidenceReportData_def)
qed

theorem VerifyEvidenceReportData_iff_witness:
  "VerifyEvidenceReportData (EvidenceReportData ''sums'') ''sums'' = Inr ()"
proof -
  have "length (EvidenceReportData ''sums'') = 64" by (simp add: EvidenceReportData_def)
  from VerifyEvidenceReportData_iff[OF this, of "''sums''"] show ?thesis by blast
qed

text \<open>
  A compose hash is read out of mr_config_id only where it stands in the clear: exactly when the
  register is version 1, the hash, and zeros to the end, and the hash is not the all-zero value.
\<close>

theorem ComposeHashFromMRConfigID_iff:
  assumes "length cfg = 48"
  shows "ComposeHashFromMRConfigID cfg = Inr h \<longleftrightarrow>
     length h = 32 \<and> h \<noteq> zeros 32 \<and> cfg = [CHR 0x01] @ h @ zeros 15"
proof -
  obtain v r where cfg: "cfg = v # r" "length r = 47" using assms by (cases cfg) auto
  have v: "(of_char v :: nat) = 1 \<longleftrightarrow> v = CHR 0x01"
    by (auto simp flip: of_char_eq_iff[where 'a = nat])
  have "ComposeHashFromMRConfigID cfg = Inr h \<longleftrightarrow>
      v = CHR 0x01 \<and> drop 32 r = zeros 15 \<and> h = take 32 r \<and> h \<noteq> zeros 32"
    using all_zero[of "drop 32 r" 15] cfg(2) v
    by (auto simp: ComposeHashFromMRConfigID_def cfg(1) Let_def result_inv go_slice_def)
  also have "\<dots> \<longleftrightarrow> v = CHR 0x01 \<and> length h = 32 \<and> h \<noteq> zeros 32 \<and> r = h @ zeros 15"
  proof -
    have "drop 32 r = zeros 15 \<and> h = take 32 r \<longleftrightarrow> length h = 32 \<and> r = h @ zeros 15"
      proof
      assume "drop 32 r = zeros 15 \<and> h = take 32 r"
      moreover have "length (take 32 r) = 32" using cfg(2) by simp
      ultimately show "length h = 32 \<and> r = h @ zeros 15" by (metis append_take_drop_id)
    next
      assume "length h = 32 \<and> r = h @ zeros 15"
      then show "drop 32 r = zeros 15 \<and> h = take 32 r" by simp
    qed
    then show ?thesis by blast
  qed
  finally show ?thesis using cfg(1) by auto
qed

theorem ComposeHashFromMRConfigID_iff_witness:
  "ComposeHashFromMRConfigID ([CHR 0x01] @ replicate 32 (CHR ''h'') @ zeros 15)
     = Inr (replicate 32 (CHR ''h''))"
  by (subst ComposeHashFromMRConfigID_iff) simp_all

section \<open>The decision\<close>

lemma Verify_ok:
  "Verify v q = Inr r \<longleftrightarrow>
     q \<noteq> [] \<and> (\<exists>m d k. v_parse v q = Inr (m, d) \<and> ParseReportData d = Inr k
       \<and> (v_mode v \<noteq> ModeEnforce \<or> Permits (v_policy v) (BootChainOf m))
       \<and> r = \<lparr>vd_EncPub = rd_EncPub k, vd_SignerAddr = rd_SignerAddr k, vd_Measurement = m,
              vd_MeasurementTrusted = Permits (v_policy v) (BootChainOf m),
              vd_MeasurementImage = Name (v_policy v) (BootChainOf m)\<rparr>)"
  by (auto simp: Verify_def Let_def result_inv split: sum.splits if_splits)

lemma Name_matched: "Name p b \<noteq> [] \<Longrightarrow> Permits p b \<and> bp_Names p b = Some (Name p b)"
  by (auto simp: Name_def split: if_splits option.splits)

text \<open>
  C27: What a verified quote means. \<open>Verify\<close> returns keys only for a non-empty quote the parser
  authenticated; the keys are those its report_data binds; the measurement is trusted exactly when
  its boot chain is in the allowlist and not all zero, which under \<open>ModeEnforce\<close> is always so; and
  an image name, where one is returned, is the label of the very boot chain that was allowlisted.
\<close>

theorem Verify_sound:
  assumes "Verify v q = Inr r"
  shows "q \<noteq> [] \<and> (\<exists>d k. v_parse v q = Inr (vd_Measurement r, d) \<and> ParseReportData d = Inr k
        \<and> vd_EncPub r = rd_EncPub k \<and> vd_SignerAddr r = rd_SignerAddr k)
     \<and> (vd_MeasurementTrusted r \<longleftrightarrow>
          BootChainOf (vd_Measurement r) \<in> set (bp_Allowed (v_policy v))
          \<and> \<not> BootChain_IsZero (BootChainOf (vd_Measurement r)))
     \<and> (v_mode v = ModeEnforce \<longrightarrow> vd_MeasurementTrusted r)
     \<and> (vd_MeasurementImage r \<noteq> [] \<longrightarrow> vd_MeasurementTrusted r
          \<and> bp_Names (v_policy v) (BootChainOf (vd_Measurement r)) = Some (vd_MeasurementImage r))"
  using assms Name_matched by (auto simp: Verify_ok Permits_iff)

definition demo_measurement :: Measurement where
  "demo_measurement = \<lparr>MRTD = replicate 48 (CHR ''m''), RTMR0 = zeros 48, RTMR1 = zeros 48,
     RTMR2 = zeros 48, RTMR3 = zeros 48\<rparr>"

definition demo_verifier :: Verifier where
  "demo_verifier = New \<lparr>bp_Allowed = [BootChainOf demo_measurement],
       bp_Names = (\<lambda>_. None)(BootChainOf demo_measurement := Some ''image'')\<rparr>
     [WithQuoteParser (Some (\<lambda>q. Inr (demo_measurement, q)))]"

theorem Verify_sound_witness:
  "\<exists>r. Verify demo_verifier
         (replicate 32 (CHR ''k'') @ replicate 20 (CHR ''s'') @ [CHR 0x00, CHR 0x00, CHR 0x00, CHR 0x01] @ zeros 8)
       = Inr r \<and> vd_MeasurementTrusted r \<and> vd_MeasurementImage r = ''image''"
proof -
  let ?q = "replicate 32 (CHR ''k'') @ replicate 20 (CHR ''s'') @ [CHR 0x00, CHR 0x00, CHR 0x00, CHR 0x01] @ zeros 8"
  have k: "\<exists>k. ParseReportData ?q = Inr k"
    unfolding report_data_layout
    by (rule exI, intro exI[of _ "replicate 32 (CHR ''k'')"] exI[of _ "replicate 20 (CHR ''s'')"]) simp
  have z: "\<not> BootChain_IsZero (BootChainOf demo_measurement)"
    by (simp add: BootChain_IsZero_def BootChainOf_def demo_measurement_def)
  have v: "v_policy demo_verifier = \<lparr>bp_Allowed = [BootChainOf demo_measurement],
       bp_Names = (\<lambda>_. None)(BootChainOf demo_measurement := Some ''image'')\<rparr>"
    "v_parse demo_verifier = (\<lambda>q. Inr (demo_measurement, q))" "v_mode demo_verifier = ModeEnforce"
    by (simp_all add: demo_verifier_def New_def WithQuoteParser_def)
  have "Permits (v_policy demo_verifier) (BootChainOf demo_measurement)"
    by (simp add: Permits_iff v z)
  then obtain r where r: "Verify demo_verifier ?q = Inr r" "vd_MeasurementImage r = ''image''"
    using k by (auto simp: Verify_ok v Name_def)
  then show ?thesis using Verify_sound[OF r(1)] v(3) by blast
qed

section \<open>Transport\<close>

lemma trim_with_id: "s = [] \<or> (\<forall>w\<in>set ws. w \<noteq> [] \<longrightarrow> hd w \<noteq> hd s) \<Longrightarrow> trim_with ws s = s"
proof -
  assume a: "s = [] \<or> (\<forall>w\<in>set ws. w \<noteq> [] \<longrightarrow> hd w \<noteq> hd s)"
  have "find (\<lambda>w. w \<noteq> [] \<and> prefix w s) ws = None"
    unfolding find_None_iff
  proof clarify
    fix w assume w: "w \<in> set ws" "w \<noteq> []" "prefix w s"
    then have "hd w = hd s" "s \<noteq> []" by (auto simp: prefix_def)
    then show False using a w by blast
  qed
  then show ?thesis by (subst trim_with.simps) simp
qed

lemma trim_space_id:
  assumes "\<forall>w\<in>set space_encodings. hd w \<noteq> a" "\<forall>w\<in>set space_encodings. last w \<noteq> z"
  shows "trim_space (a # m @ [z]) = a # m @ [z]"
proof -
  have ne: "\<forall>w\<in>set space_encodings. w \<noteq> []" by (simp add: space_encodings_def)
  have "trim_left (a # m @ [z]) = a # m @ [z]"
    unfolding trim_left_def by (rule trim_with_id) (use assms(1) in auto)
  moreover have "trim_with (map rev space_encodings) (z # rev m @ [a]) = z # rev m @ [a]"
    by (rule trim_with_id) (use assms(2) ne in \<open>auto simp: hd_rev\<close>)
  ultimately show ?thesis by (simp add: trim_space_def trim_right_def)
qed

lemma trim_quoted: "trim_space (CHR 0x22 # m @ [CHR 0x22]) = CHR 0x22 # m @ [CHR 0x22]"
  by (rule trim_space_id; code_simp)

lemma trim_braced: "trim_space (CHR ''{'' # m @ [CHR ''}'']) = CHR ''{'' # m @ [CHR ''}'']"
  by (rule trim_space_id; code_simp)

lemma print_members_end: "kvs \<noteq> [] \<Longrightarrow> \<exists>m. print_members kvs = m @ ''}''"
  by (induction kvs) (auto simp: json_print.simps)

lemma print_obj_braced: "\<exists>m. json_print (JObj kvs) = CHR ''{'' # m @ ''}''"
  using print_members_end[of kvs] by (cases "kvs = []") (auto simp: json_print.simps)

lemma print_str_quoted: "\<exists>m. json_print (JStr s) = CHR 0x22 # m @ [CHR 0x22]"
  by (auto simp: json_print.simps print_str_def)

lemma unwrap_obj: "UnwrapJSONString (json_print (JObj kvs)) = Some (json_print (JObj kvs))"
  using print_obj_braced[of kvs] by (auto simp: UnwrapJSONString_def Let_def trim_braced)

lemma unwrap_str: "UnwrapJSONString (json_print (JStr s)) = Some s"
  using print_str_quoted[of s] json_parse_print[of "JStr s"] by (auto simp: UnwrapJSONString_def Let_def trim_quoted)

lemma raw_tcb: "json_ok v \<Longrightarrow> raw_field ''tcb_info'' (JObj [(''tcb_info'', v)]) = Some (json_print v)"
  by (simp add: raw_field_def decode_struct_def struct_field_exact)

text \<open>
  The app-compose text is recovered byte for byte, whichever of its two shapes the reply has:
  \<open>tcb_info\<close> as an object, or as a string that holds the same object's text.
\<close>

theorem AppCompose_both_shapes:
  assumes "json_ok (JObj tcb)" "str_field ''app_compose'' (JObj tcb) = Some c" "c \<noteq> []"
  shows "AppComposeFromQuoteResponse (json_print (JObj [(''tcb_info'', JObj tcb)])) = Inr c
     \<and> AppComposeFromQuoteResponse (json_print (JObj [(''tcb_info'', JStr (json_print (JObj tcb)))])) = Inr c"
proof -
  have ne: "json_print (JObj tcb) \<noteq> []" using print_obj_braced[of tcb] by auto
  have "json_parse (json_print (JObj tcb)) = Some (JObj tcb)"
    by (rule json_parse_print[OF assms(1)])
  moreover have "json_parse (json_print (JObj [(''tcb_info'', v)])) = Some (JObj [(''tcb_info'', v)])"
    if "json_ok v" for v
    by (rule json_parse_print) (use that in simp)
  moreover have "json_ok (JStr x)" for x by simp
  ultimately show ?thesis
    using assms ne
    by (simp add: AppComposeFromQuoteResponse_def raw_tcb unwrap_obj unwrap_str del: json_ok.simps)
qed

theorem AppCompose_both_shapes_witness:
  "AppComposeFromQuoteResponse (json_print (JObj [(''tcb_info'', JObj [(''app_compose'', JStr ''text'')])]))
     = Inr ''text''"
  using AppCompose_both_shapes[of "[(''app_compose'', JStr ''text'')]" "''text''"]
  by (simp add: str_field_def decode_struct_def struct_field_exact)

lemma New_parse:
  "set opts \<subseteq> insert (WithQuoteParser None) (range WithMeasurementMode) \<Longrightarrow>
   v_parse (New policy opts) = notConfigured"
proof (induction opts rule: rev_induct)
  case (snoc opt opts)
  then have "v_parse (New policy opts) = notConfigured" by simp
  then show ?case using snoc.prems by (auto simp: New_def WithMeasurementMode_def WithQuoteParser_def)
qed (simp add: New_def)

text \<open>
  A verifier nobody gave a quote parser trusts nothing: whatever policy and mode it is built
  with, every quote is refused.
\<close>

theorem New_fails_closed:
  assumes "set opts \<subseteq> insert (WithQuoteParser None) (range WithMeasurementMode)"
  shows "\<not> is_ok (Verify (New policy opts) q)"
  by (auto simp: is_ok_iff Verify_ok New_parse[OF assms] notConfigured_def)

theorem New_fails_closed_witness:
  "\<not> is_ok (Verify (New \<lparr>bp_Allowed = [], bp_Names = \<lambda>_. None\<rparr> [WithMeasurementMode ModeWarn, WithQuoteParser None]) ''q'')"
  by (rule New_fails_closed) simp

end
