(* ===== verification/Go_Sha384.thy ===== *)
theory Go_Sha384
  imports Go_Sha256
begin

text \<open>
  Go's \<open>crypto/sha512\<close> as far as \<open>New384\<close> (FIPS 180-4) on 64-bit words, and the interface of a
  measurement register: a value of fixed width that is extended by hashing itself with a digest of
  the same width. What a register says about the sequence that extended it is proved once from the
  width of the hash, and holds for RTMR3 by interpretation.
\<close>

section \<open>A register extended by digests\<close>

text \<open>The messages hashed while a register is extended, starting at \<open>mr\<close>.\<close>

fun chain_inputs :: "(bytes \<Rightarrow> bytes) \<Rightarrow> bytes \<Rightarrow> bytes list \<Rightarrow> bytes list" where
  "chain_inputs h mr [] = []"
| "chain_inputs h mr (d # ds) = (mr @ d) # chain_inputs h (h (mr @ d)) ds"

definition extend_all :: "(bytes \<Rightarrow> bytes) \<Rightarrow> bytes \<Rightarrow> bytes list \<Rightarrow> bytes" where
  "extend_all h mr ds = foldl (\<lambda>m d. h (m @ d)) mr ds"

text \<open>Two messages of the given lists with the same digest.\<close>

definition clash :: "(bytes \<Rightarrow> bytes) \<Rightarrow> bytes list \<Rightarrow> bytes list \<Rightarrow> bool" where
  "clash h xs ys \<longleftrightarrow> (\<exists>x\<in>set xs. \<exists>y\<in>set ys. x \<noteq> y \<and> h x = h y)"

locale register =
  fixes h :: "bytes \<Rightarrow> bytes" and n :: nat
  assumes width: "length (h b) = n"
begin

lemma extend_snoc: "extend_all h mr (ds @ [d]) = h (extend_all h mr ds @ d)"
  by (simp add: extend_all_def)

lemma inputs_snoc: "chain_inputs h mr (ds @ [d]) = chain_inputs h mr ds @ [extend_all h mr ds @ d]"
  by (induction ds arbitrary: mr) (simp_all add: extend_all_def)

lemma extend_width: "length mr = n \<Longrightarrow> length (extend_all h mr ds) = n"
  by (cases ds rule: rev_cases) (simp_all add: extend_snoc width, simp add: extend_all_def)

text \<open>
  A register determines the digests that extended it from its start value, unless the hash collides
  on two of the messages involved or maps one of them to the start value.
\<close>

lemma extend_inj:
  assumes "length mr = n" "\<forall>d\<in>set ds \<union> set es. length d = n"
    and "extend_all h mr ds = extend_all h mr es"
  shows "ds = es \<or> clash h (chain_inputs h mr ds) (chain_inputs h mr es)
     \<or> mr \<in> h ` set (chain_inputs h mr ds @ chain_inputs h mr es)"
  using assms(2,3)
proof (induction ds arbitrary: es rule: rev_induct)
  case Nil
  show ?case
  proof (cases es rule: rev_cases)
    case (snoc es' e)
    then have "mr = h (extend_all h mr es' @ e)"
      using Nil.prems(2) by (simp add: extend_snoc) (simp add: extend_all_def)
    then show ?thesis by (simp add: snoc inputs_snoc)
  qed simp
next
  case (snoc d ds)
  show ?case
  proof (cases es rule: rev_cases)
    case Nil
    then have "mr = h (extend_all h mr ds @ d)"
      using snoc.prems(2) by (simp add: extend_snoc) (simp add: extend_all_def)
    then show ?thesis by (simp add: inputs_snoc)
  next
    case es: (snoc es' e)
    let ?x = "extend_all h mr ds @ d" and ?y = "extend_all h mr es' @ e"
    have eq: "h ?x = h ?y" using snoc.prems(2) by (simp add: es extend_snoc)
    show ?thesis
    proof (cases "?x = ?y")
      case True
      then have "extend_all h mr ds = extend_all h mr es'" "d = e"
        using extend_width[OF assms(1)] by simp_all
      then show ?thesis
        using snoc.IH[of es'] snoc.prems(1) by (auto simp: es inputs_snoc clash_def)
    next
      case False
      then show ?thesis using eq by (auto simp: es inputs_snoc clash_def)
    qed
  qed
qed

end

section \<open>SHA-384\<close>

type_synonym w64 = "64 word"

definition sha5_k :: "w64 list" where
  "sha5_k =
   [4794697086780616226, 8158064640168781261, 13096744586834688815, 16840607885511220156,
    4131703408338449720, 6480981068601479193, 10538285296894168987, 12329834152419229976,
    15566598209576043074, 1334009975649890238, 2608012711638119052, 6128411473006802146,
    8268148722764581231, 9286055187155687089, 11230858885718282805, 13951009754708518548,
    16472876342353939154, 17275323862435702243, 1135362057144423861, 2597628984639134821,
    3308224258029322869, 5365058923640841347, 6679025012923562964, 8573033837759648693,
    10970295158949994411, 12119686244451234320, 12683024718118986047, 13788192230050041572,
    14330467153632333762, 15395433587784984357, 489312712824947311, 1452737877330783856,
    2861767655752347644, 3322285676063803686, 5560940570517711597, 5996557281743188959,
    7280758554555802590, 8532644243296465576, 9350256976987008742, 10552545826968843579,
    11727347734174303076, 12113106623233404929, 14000437183269869457, 14369950271660146224,
    15101387698204529176, 15463397548674623760, 17586052441742319658, 1182934255886127544,
    1847814050463011016, 2177327727835720531, 2830643537854262169, 3796741975233480872,
    4115178125766777443, 5681478168544905931, 6601373596472566643, 7507060721942968483,
    8399075790359081724, 8693463985226723168, 9568029438360202098, 10144078919501101548,
    10430055236837252648, 11840083180663258601, 13761210420658862357, 14299343276471374635,
    14566680578165727644, 15097957966210449927, 16922976911328602910, 17689382322260857208,
    500013540394364858, 748580250866718886, 1242879168328830382, 1977374033974150939,
    2944078676154940804, 3659926193048069267, 4368137639120453308, 4836135668995329356,
    5532061633213252278, 6448918945643986474, 6902733635092675308, 7801388544844847127]"

type_synonym sha5_state = "w64 \<times> w64 \<times> w64 \<times> w64 \<times> w64 \<times> w64 \<times> w64 \<times> w64"

definition sha384_init :: sha5_state where
  "sha384_init =
   (14680500436340154072, 7105036623409894663, 10473403895298186519, 1526699215303891257,
    7436329637833083697, 10282925794625328401, 15784041429090275239, 5167115440072839076)"

definition rotr64 :: "nat \<Rightarrow> w64 \<Rightarrow> w64" where
  "rotr64 n x = drop_bit n x OR push_bit (64 - n) x"

definition be64_word :: "bytes \<Rightarrow> w64" where
  "be64_word bs = foldl (\<lambda>w c. push_bit 8 w OR of_nat (of_char c)) 0 bs"

definition sha5_extend :: "w64 list \<Rightarrow> w64 list" where
  "sha5_extend w =
     (let t = length w; x = w ! (t - 15); y = w ! (t - 2)
      in w @ [w ! (t - 16) + (rotr64 1 x XOR rotr64 8 x XOR drop_bit 7 x)
              + w ! (t - 7) + (rotr64 19 y XOR rotr64 61 y XOR drop_bit 6 y)])"

definition sha5_round :: "sha5_state \<Rightarrow> w64 \<times> w64 \<Rightarrow> sha5_state" where
  "sha5_round st kw =
     (case st of (a, b, c, d, e, f, g, h) \<Rightarrow>
      let t1 = h + (rotr64 14 e XOR rotr64 18 e XOR rotr64 41 e)
               + ((e AND f) XOR ((NOT e) AND g)) + fst kw + snd kw;
          t2 = (rotr64 28 a XOR rotr64 34 a XOR rotr64 39 a)
               + ((a AND b) XOR (a AND c) XOR (b AND c))
      in (t1 + t2, a, b, c, d + t1, e, f, g))"

definition sha5_block :: "sha5_state \<Rightarrow> bytes \<Rightarrow> sha5_state" where
  "sha5_block st block =
     (let w = (sha5_extend ^^ 64) (map be64_word (chunks 8 block))
      in case foldl sha5_round st (zip sha5_k w) of (a, b, c, d, e, f, g, h) \<Rightarrow>
         case st of (a0, b0, c0, d0, e0, f0, g0, h0) \<Rightarrow>
           (a0 + a, b0 + b, c0 + c, d0 + d, e0 + e, f0 + f, g0 + g, h0 + h))"

definition sha5_pad :: "bytes \<Rightarrow> bytes" where
  "sha5_pad m = m @ CHR 0x80 # replicate ((239 - length m mod 128) mod 128) (CHR 0x00)
                @ replicate 8 (CHR 0x00) @ be64_bytes (8 * of_nat (length m))"

definition sha384 :: "bytes \<Rightarrow> bytes" where
  "sha384 m =
     (case foldl sha5_block sha384_init (chunks 128 (sha5_pad m)) of (a, b, c, d, e, f, g, h) \<Rightarrow>
        concat (map be64_bytes [a, b, c, d, e, f]))"

lemma length_sha384 [simp]: "length (sha384 m) = 48"
  by (simp add: sha384_def be64_bytes_def split: prod.splits)

interpretation rtmr: register sha384 48
  by unfold_locales simp

end
