(* ===== verification/Go_Strings.thy ===== *)
theory Go_Strings
  imports Go_Encoding Go_Float
begin

text \<open>
  More of Go's \<open>strings\<close> and \<open>strconv\<close>: splitting at every occurrence of a byte, trimming one byte,
  prefixes, ASCII lower case, and decimal numbers, with the facts the parsers rest on.
\<close>

section \<open>strings\<close>

text \<open>\<open>strings.Split(s, sep)\<close> for a one-byte separator.\<close>

fun split_all :: "char \<Rightarrow> bytes \<Rightarrow> bytes list" where
  "split_all c [] = [[]]"
| "split_all c (x # xs) =
     (if x = c then [] # split_all c xs
      else case split_all c xs of [] \<Rightarrow> [[x]] | p # ps \<Rightarrow> (x # p) # ps)"

definition join_with :: "bytes \<Rightarrow> bytes list \<Rightarrow> bytes" where
  "join_with sep ps =
     (case ps of [] \<Rightarrow> [] | p # qs \<Rightarrow> p @ concat (map (\<lambda>q. sep @ q) qs))"

text \<open>\<open>strings.TrimRight(s, string(c))\<close>, \<open>strings.Trim\<close> and \<open>strings.TrimSuffix\<close>.\<close>

definition trim_right_char :: "char \<Rightarrow> bytes \<Rightarrow> bytes" where
  "trim_right_char c s = rev (dropWhile (\<lambda>x. x = c) (rev s))"

definition trim_char :: "char \<Rightarrow> bytes \<Rightarrow> bytes" where
  "trim_char c s = trim_right_char c (dropWhile (\<lambda>x. x = c) s)"

text \<open>\<open>strings.CutPrefix\<close>; a missing prefix is \<open>None\<close>.\<close>

definition cut_prefix :: "bytes \<Rightarrow> bytes \<Rightarrow> bytes option" where
  "cut_prefix p s = (if prefix p s then Some (drop (length p) s) else None)"

definition trim_prefix :: "bytes \<Rightarrow> bytes \<Rightarrow> bytes" where
  "trim_prefix p s = (if prefix p s then drop (length p) s else s)"

definition trim_suffix :: "bytes \<Rightarrow> bytes \<Rightarrow> bytes" where
  "trim_suffix p s = (if suffix p s then take (length s - length p) s else s)"

text \<open>\<open>strings.Cut(s, sep)\<close> and \<open>strings.Contains\<close> for a separator of any length.\<close>

fun cut_str :: "bytes \<Rightarrow> bytes \<Rightarrow> (bytes \<times> bytes) option" where
  "cut_str sep [] = (if sep = [] then Some ([], []) else None)"
| "cut_str sep (x # xs) =
     (if prefix sep (x # xs) then Some ([], drop (length sep) (x # xs))
      else map_option (\<lambda>(a, b). (x # a, b)) (cut_str sep xs))"

definition contains_str :: "bytes \<Rightarrow> bytes \<Rightarrow> bool" where
  "contains_str sep s = (cut_str sep s \<noteq> None)"

text \<open>\<open>strings.ToLower\<close>, exact on ASCII text, which is what the source lowers.\<close>

definition to_lower :: "bytes \<Rightarrow> bytes" where
  "to_lower s = map lower_char s"

section \<open>strconv\<close>

definition digits_val :: "bytes \<Rightarrow> nat" where
  "digits_val ds = foldl (\<lambda>n c. 10 * n + (of_char c - 48)) 0 ds"

text \<open>\<open>strconv.Atoi\<close> on a 64-bit platform.\<close>

definition atoi :: "bytes \<Rightarrow> int option" where
  "atoi s =
     (let (neg, ds) = (case s of [] \<Rightarrow> (False, [])
                       | c # r \<Rightarrow> if c = CHR ''-'' then (True, r)
                                  else if c = CHR ''+'' then (False, r) else (False, s));
          v = (if neg then - int (digits_val ds) else int (digits_val ds))
      in if ds = [] \<or> \<not> list_all is_digit ds \<or> v < - (2 ^ 63) \<or> 2 ^ 63 \<le> v then None else Some v)"

section \<open>Facts\<close>

lemma split_all_no_sep: "c \<notin> set s \<Longrightarrow> split_all c s = [s]"
  by (induction s) auto

lemma split_all_ne [simp]: "split_all c s \<noteq> []"
  by (induction s) (auto split: list.splits)

lemma split_all_append: "c \<notin> set a \<Longrightarrow> split_all c (a @ c # b) = a # split_all c b"
  by (induction a) auto

lemma join_split: "join_with [c] (split_all c s) = s"
proof (induction s)
  case (Cons x xs)
  then show ?case
    by (cases "split_all c xs") (auto simp: join_with_def split: list.splits)
qed (simp add: join_with_def)

lemma split_all_parts: "p \<in> set (split_all c s) \<Longrightarrow> c \<notin> set p"
proof (induction s arbitrary: p)
  case (Cons x xs)
  then show ?case
    by (cases "split_all c xs") (auto split: if_splits)
qed simp

text \<open>Splitting and joining invert each other, on parts without the separator.\<close>

lemma split_join:
  "ps \<noteq> [] \<Longrightarrow> \<forall>p\<in>set ps. c \<notin> set p \<Longrightarrow> split_all c (join_with [c] ps) = ps"
proof (induction ps)
  case (Cons p qs)
  show ?case
  proof (cases qs)
    case Nil
    then show ?thesis using Cons.prems by (simp add: join_with_def split_all_no_sep)
  next
    case (Cons q rs)
    then have "join_with [c] (p # qs) = p @ c # join_with [c] qs" by (simp add: join_with_def)
    then show ?thesis
      using Cons.IH Cons.prems Cons by (simp add: split_all_append)
  qed
qed simp

lemma split_all_eq: "split_all c s = ps \<longleftrightarrow> ps \<noteq> [] \<and> s = join_with [c] ps \<and> (\<forall>p\<in>set ps. c \<notin> set p)"
  using split_join join_split split_all_parts split_all_ne by metis

lemma cut_prefix_Some: "cut_prefix p s = Some r \<longleftrightarrow> s = p @ r"
  by (auto simp: cut_prefix_def prefix_def)

lemma cut_at_eq: "cut_at c s = Some (a, b) \<longleftrightarrow> s = a @ c # b \<and> c \<notin> set a"
  using cut_at_append cut_at_Some by blast

lemma trim_right_char_id: "s = [] \<or> last s \<noteq> c \<Longrightarrow> trim_right_char c s = s"
  by (cases s rule: rev_cases) (auto simp: trim_right_char_def)

lemma set_trim_right_char: "set (trim_right_char c s) \<subseteq> set s"
  using set_dropWhileD[of _ "\<lambda>x. x = c" "rev s"] by (auto simp: trim_right_char_def)

text \<open>A byte that occurs in no space survives trimming.\<close>

lemma trim_with_keeps:
  "c \<in> set s \<Longrightarrow> \<forall>w\<in>set ws. c \<notin> set w \<Longrightarrow> c \<in> set (trim_with ws s)"
proof (induction ws s rule: trim_with.induct)
  case (1 ws s)
  show ?case
  proof (cases "find (\<lambda>w. w \<noteq> [] \<and> prefix w s) ws")
    case None
    then show ?thesis using "1.prems" by (subst trim_with.simps) simp
  next
    case (Some w)
    then have w: "w \<in> set ws" "prefix w s" by (auto simp: find_Some_iff)
    then have "c \<in> set (drop (length w) s)" using "1.prems" by (auto simp: prefix_def)
    then show ?thesis
      using "1.IH"[OF Some] "1.prems"(2) Some by (subst trim_with.simps) simp
  qed
qed

lemma trim_space_keeps:
  assumes "c \<in> set s" "\<forall>w\<in>set space_encodings. c \<notin> set w"
  shows "trim_space s \<noteq> []"
proof -
  have "c \<in> set (trim_left s)"
    unfolding trim_left_def by (rule trim_with_keeps[OF assms])
  then have "c \<in> set (trim_with (map rev space_encodings) (rev (trim_left s)))"
    by (intro trim_with_keeps) (use assms(2) in auto)
  then show ?thesis by (auto simp: trim_space_def trim_right_def)
qed

lemma space_bytes: "w \<in> set space_encodings \<Longrightarrow> c \<in> set w \<Longrightarrow> of_char c \<le> (32::nat) \<or> 128 \<le> (of_char c::nat)"
  by (auto simp: space_encodings_def)

lemma lower_hex_not_space: "is_lower_hex c \<Longrightarrow> \<forall>w\<in>set space_encodings. c \<notin> set w"
  using space_bytes[of _ c] by (force simp: is_lower_hex_def Let_def)

lemma trim_space_Nil [simp]: "trim_space [] = []"
  by code_simp

end
