(* ===== verification/Evid_Replay.thy ===== *)
theory Evid_Replay
  imports Attest_Verify Go_Sha384 Go_Strings
begin

text \<open>
  client/evidence/rtmr3.go, the anchor: the event log of a quote reply and its replay to the
  measurement register RTMR3 of the verified quote.
\<close>

section \<open>The event lg\<close>

datatype lerr =
    ReplyNotJSON | EventLogWrapper | ReplyTCBInfo | TCBEventLog | NoEventLog | EventLogEntries
  | PayloadNotHex nat string | LogNotReplayed

definition RTMRLen :: nat where [simp]: "RTMRLen = 48"

record eventEntry =
  ee_IMR :: int
  ee_EventType :: "32 word"
  ee_Event :: string
  ee_Payload :: string

definition uint32_into :: "json \<Rightarrow> 32 word \<Rightarrow> 32 word option" where
  "uint32_into v old =
     (case v of
        JNull \<Rightarrow> Some old
      | JNum t \<Rightarrow>
          (if prefix ''-'' t then None
           else case parse_int64 t of
                  None \<Rightarrow> None
                | Some n \<Rightarrow> if n < 2 ^ 32 then Some (of_int n) else None)
      | _ \<Rightarrow> None)"

definition event_set :: "string \<Rightarrow> json \<Rightarrow> eventEntry \<Rightarrow> eventEntry option" where
  "event_set k x e =
     (if k = ''imr'' then map_option (\<lambda>n. e\<lparr>ee_IMR := n\<rparr>) (int_into x (ee_IMR e))
      else if k = ''event_type'' then map_option (\<lambda>n. e\<lparr>ee_EventType := n\<rparr>) (uint32_into x (ee_EventType e))
      else if k = ''event'' then map_option (\<lambda>s. e\<lparr>ee_Event := s\<rparr>) (str_into x (ee_Event e))
      else if k = ''event_payload'' then map_option (\<lambda>s. e\<lparr>ee_Payload := s\<rparr>) (str_into x (ee_Payload e))
      else Some e)"

definition event_zero :: eventEntry where
  "event_zero = \<lparr>ee_IMR = 0, ee_EventType = 0, ee_Event = [], ee_Payload = []\<rparr>"

definition as_events :: "json \<Rightarrow> eventEntry list option" where
  "as_events v =
     Option.bind (as_array v)
       (\<lambda>vs. opt_all (map (decode_struct [''imr'', ''event_type'', ''event'', ''event_payload'']
                             event_set event_zero) vs))"

definition isAbsent :: "bytes \<Rightarrow> bool" where
  "isAbsent raw =
     (let t = trim_space raw in length t = 0 \<or> t = ''null'' \<or> t = [CHR 0x22, CHR 0x22])"

text \<open>The two raw members of a reply, the event log and \<open>tcb_info\<close>, as in \<open>raw_field\<close>.\<close>

definition reply_raw :: "json \<Rightarrow> (bytes \<times> bytes) option" where
  "reply_raw v =
     decode_struct [''event_log'', ''tcb_info'']
       (\<lambda>k x (a, b). Some (if k = ''event_log'' then (json_print x, b) else (a, json_print x)))
       ([], []) v"

definition eventLogOf :: "bytes \<Rightarrow> lerr + eventEntry list" where
  "eventLogOf reply =
     bind_r (opt_r (Option.bind (json_parse reply) reply_raw) ReplyNotJSON) (\<lambda>(evlog, tcbInfo).
     bind_r (opt_r (UnwrapJSONString evlog) EventLogWrapper) (\<lambda>raw0.
     bind_r (if isAbsent raw0
             then bind_r (opt_r (UnwrapJSONString tcbInfo) ReplyTCBInfo) (\<lambda>tcb.
                  if \<not> isAbsent tcb
                  then bind_r (opt_r (Option.bind (json_parse tcb) (raw_field ''event_log'')) ReplyTCBInfo)
                         (\<lambda>t. opt_r (UnwrapJSONString t) TCBEventLog)
                  else Inr raw0)
             else Inr raw0) (\<lambda>raw.
     bind_r (fail_if (isAbsent raw) NoEventLog) (\<lambda>_.
     opt_r (Option.bind (json_parse raw) as_events) EventLogEntries))))"

section \<open>The replay\<close>

definition le32_bytes :: "32 word \<Rightarrow> bytes" where
  "le32_bytes w = rev (be32_bytes w)"

definition event_preimage :: "32 word \<Rightarrow> string \<Rightarrow> bytes \<Rightarrow> bytes" where
  "event_preimage eventType event payload =
     le32_bytes eventType @ '':'' @ event @ '':'' @ payload"

definition EventDigest :: "32 word \<Rightarrow> string \<Rightarrow> bytes \<Rightarrow> bytes" where
  "EventDigest eventType event payload = sha384 (event_preimage eventType event payload)"

record rtmr3Entry =
  le_entry :: eventEntry
  le_payload :: bytes

text \<open>The loop of \<open>replayRTMR3\<close>: \<open>i\<close> is the position, \<open>mr\<close> the register so far.\<close>

fun replay_entries :: "nat \<Rightarrow> bytes \<Rightarrow> eventEntry list \<Rightarrow> lerr + bytes \<times> rtmr3Entry list" where
  "replay_entries i mr [] = Inr (mr, [])"
| "replay_entries i mr (e # es) =
     (if ee_IMR e \<noteq> 3 then replay_entries (Suc i) mr es
      else bind_r (opt_r (hex_decode (ee_Payload e)) (PayloadNotHex i (ee_Event e))) (\<lambda>payload.
           let d = EventDigest (ee_EventType e) (ee_Event e) payload in
           bind_r (replay_entries (Suc i) (sha384 (mr @ d)) es) (\<lambda>(mr', lg).
           Inr (mr', \<lparr>le_entry = e, le_payload = payload\<rparr> # lg))))"

definition replayRTMR3 :: "bytes \<Rightarrow> bytes \<Rightarrow> lerr + rtmr3Entry list" where
  "replayRTMR3 reply rtmr3 =
     bind_r (eventLogOf reply) (\<lambda>entries.
     bind_r (replay_entries 0 (zeros RTMRLen) entries) (\<lambda>(mr, lg).
     bind_r (fail_if (mr \<noteq> rtmr3) LogNotReplayed) (\<lambda>_. Inr lg)))"

section \<open>What a register says about a lg\<close>

definition logged :: "rtmr3Entry \<Rightarrow> bytes" where
  "logged e = event_preimage (ee_EventType (le_entry e)) (ee_Event (le_entry e)) (le_payload e)"

definition record_of :: "rtmr3Entry \<Rightarrow> 32 word \<times> string \<times> bytes" where
  "record_of e = (ee_EventType (le_entry e), ee_Event (le_entry e), le_payload e)"

text \<open>Everything hashed when a log is replayed.\<close>

definition replay_inputs :: "rtmr3Entry list \<Rightarrow> bytes list" where
  "replay_inputs lg =
     map logged lg @ chain_inputs sha384 (zeros 48) (map (\<lambda>e. sha384 (logged e)) lg)"

lemma replay_entries_register:
  "replay_entries i mr es = Inr (mr', lg) \<Longrightarrow> mr' = extend_all sha384 mr (map (\<lambda>e. sha384 (logged e)) lg)"
proof (induction es arbitrary: i mr mr' lg)
  case (Cons e es)
  show ?case
  proof (cases "ee_IMR e = 3")
    case True
    then obtain p lg' where p: "hex_decode (ee_Payload e) = Some p"
      "replay_entries (Suc i) (sha384 (mr @ EventDigest (ee_EventType e) (ee_Event e) p)) es = Inr (mr', lg')"
      "lg = \<lparr>le_entry = e, le_payload = p\<rparr> # lg'"
      using Cons.prems by (auto simp: result_inv Let_def)
    from Cons.IH[OF p(2)] show ?thesis
      by (simp add: p(3) logged_def EventDigest_def extend_all_def)
  qed (use Cons in auto)
qed (simp add: extend_all_def)

lemma replay_register:
  "replayRTMR3 reply q = Inr lg \<Longrightarrow> q = extend_all sha384 (zeros 48) (map (\<lambda>e. sha384 (logged e)) lg)"
  using replay_entries_register by (fastforce simp: replayRTMR3_def result_inv)

lemma map_clash:
  assumes "map h xs = map h ys"
  shows "xs = ys \<or> clash h xs ys"
  using assms
proof (induction xs arbitrary: ys)
  case (Cons x xs)
  then obtain y ys' where ys: "ys = y # ys'" by (cases ys) auto
  then have "xs = ys' \<or> clash h xs ys'" "h x = h y" using Cons by auto
  then show ?case by (auto simp: ys clash_def)
qed simp

lemma clash_mono: "clash h xs ys \<Longrightarrow> set xs \<subseteq> set xs' \<Longrightarrow> set ys \<subseteq> set ys' \<Longrightarrow> clash h xs' ys'"
  by (auto simp: clash_def)

lemma be32_bytes_inj:
  assumes eq: "be32_bytes a = be32_bytes b"
  shows "a = b"
proof (rule bit_word_eqI)
  fix n
  assume n: "n < LENGTH(32)"
  let ?i = "n div 8" and ?c = "\<lambda>w i. char_of (uint (drop_bit (8 * i) w) mod 256) :: char"
  have "n div 8 < 4" using n by auto
  then have "?i \<in> set [3, 2, 1, 0]" by auto
  then have "?c a ?i = ?c b ?i"
    using eq unfolding be32_bytes_def map_eq_conv by blast
  then have "(of_char (?c a ?i) :: int) = of_char (?c b ?i)" by (rule arg_cong)
  then have "take_bit 8 (uint (drop_bit (8 * ?i) a)) = take_bit 8 (uint (drop_bit (8 * ?i) b))"
    by (simp only: of_char_of mod_mod_trivial take_bit_eq_mod) simp
  then have "bit (take_bit 8 (uint (drop_bit (8 * ?i) a))) (n mod 8)
      = bit (take_bit 8 (uint (drop_bit (8 * ?i) b))) (n mod 8)" by (rule arg_cong)
  then have "bit a (8 * ?i + n mod 8) = bit b (8 * ?i + n mod 8)"
    by (simp only: bit_take_bit_iff bit_uint_iff bit_drop_bit_eq comp_def) (use n in auto)
  then show "bit a n = bit b n" by simp
qed

lemma le32_inj [simp]: "le32_bytes a = le32_bytes b \<longleftrightarrow> a = b"
  using be32_bytes_inj by (auto simp: le32_bytes_def)

lemma length_le32 [simp]: "length (le32_bytes a) = 4"
  by (simp add: le32_bytes_def)

lemma split_at_colon:
  "CHR '':'' \<notin> set a \<Longrightarrow> CHR '':'' \<notin> set b \<Longrightarrow> a @ CHR '':'' # x = b @ CHR '':'' # y \<longleftrightarrow> a = b \<and> x = y"
  using cut_at_append[of "CHR '':''" a x] cut_at_append[of "CHR '':''" b y] by (metis option.inject prod.inject)

lemma logged_inj:
  assumes "logged e = logged e'" "CHR '':'' \<notin> set (ee_Event (le_entry e))" "CHR '':'' \<notin> set (ee_Event (le_entry e'))"
  shows "record_of e = record_of e'"
  using assms by (simp add: logged_def event_preimage_def record_of_def split_at_colon)

text \<open>
  C20: A measurement register determines the event log. If the logs of two replies replay to the same
  register, then entry by entry the hashed bytes (type, event and payload, joined by colons) are the
  same, and where no event name contains a colon so are type, event and payload; otherwise the
  replays exhibit two messages with the same SHA-384 digest, or one whose digest is the zero value
  the register starts from.
\<close>

theorem replay_binds_log:
  assumes "replayRTMR3 reply q = Inr lg" "replayRTMR3 reply' q = Inr lg'"
  shows "(map logged lg = map logged lg'
       \<and> ((\<forall>e\<in>set lg \<union> set lg'. CHR '':'' \<notin> set (ee_Event (le_entry e))) \<longrightarrow>
            map record_of lg = map record_of lg'))
     \<or> clash sha384 (replay_inputs lg) (replay_inputs lg')
     \<or> zeros 48 \<in> sha384 ` set (replay_inputs lg @ replay_inputs lg')"
proof -
  let ?d = "map (\<lambda>e. sha384 (logged e))"
  have eq: "extend_all sha384 (zeros 48) (?d lg) = extend_all sha384 (zeros 48) (?d lg')"
    using replay_register[OF assms(1)] replay_register[OF assms(2)] by simp
  have "?d lg = ?d lg' \<or> clash sha384 (chain_inputs sha384 (zeros 48) (?d lg)) (chain_inputs sha384 (zeros 48) (?d lg'))
     \<or> zeros 48 \<in> sha384 ` set (chain_inputs sha384 (zeros 48) (?d lg) @ chain_inputs sha384 (zeros 48) (?d lg'))"
    by (rule rtmr.extend_inj[OF _ _ eq]) auto
  then consider "?d lg = ?d lg'" | "clash sha384 (replay_inputs lg) (replay_inputs lg')"
    | "zeros 48 \<in> sha384 ` set (replay_inputs lg @ replay_inputs lg')"
  proof (elim disjE)
    assume "clash sha384 (chain_inputs sha384 (zeros 48) (?d lg)) (chain_inputs sha384 (zeros 48) (?d lg'))"
    then show thesis by (intro that(2)) (rule clash_mono, auto simp: replay_inputs_def)
  next
    assume "zeros 48 \<in> sha384 ` set (chain_inputs sha384 (zeros 48) (?d lg) @ chain_inputs sha384 (zeros 48) (?d lg'))"
    then show thesis by (intro that(3)) (auto simp: replay_inputs_def simp del: chain_inputs.simps)
  qed (rule that(1))
  then show ?thesis
  proof cases
    case 1
    then have "map sha384 (map logged lg) = map sha384 (map logged lg')" by (simp add: comp_def)
    from map_clash[OF this] show ?thesis
    proof
      assume l: "map logged lg = map logged lg'"
      have "map record_of lg = map record_of lg'"
        if c: "\<forall>e\<in>set lg \<union> set lg'. CHR '':'' \<notin> set (ee_Event (le_entry e))"
        using l c
      proof (induction lg arbitrary: lg')
        case (Cons e es)
        then obtain e' es' where "lg' = e' # es'" by (cases lg') auto
        with Cons logged_inj[of e e'] show ?case by auto
      qed simp
      with l show ?thesis by blast
    next
      assume "clash sha384 (map logged lg) (map logged lg')"
      then have "clash sha384 (replay_inputs lg) (replay_inputs lg')"
        by (rule clash_mono) (auto simp: replay_inputs_def)
      then show ?thesis by blast
    qed
  qed blast+
qed

section \<open>A log that replays\<close>

text \<open>The reply that carries a list of runtime entries (name and payload), and its register.\<close>

definition entry_json :: "string \<times> bytes \<Rightarrow> json" where
  "entry_json = (\<lambda>(name, payload).
     JObj [(''imr'', JNum ''3''), (''event_type'', JNum ''134217729''), (''event'', JStr name),
           (''event_payload'', JStr (hex_encode payload))])"

definition log_reply :: "(string \<times> bytes) list \<Rightarrow> bytes" where
  "log_reply rs = json_print (JObj [(''event_log'', JArr (map entry_json rs))])"

definition log_entry :: "string \<times> bytes \<Rightarrow> rtmr3Entry" where
  "log_entry = (\<lambda>(name, payload).
     \<lparr>le_entry = \<lparr>ee_IMR = 3, ee_EventType = 0x08000001, ee_Event = name, ee_Payload = hex_encode payload\<rparr>,
      le_payload = payload\<rparr>)"

definition log_register :: "rtmr3Entry list \<Rightarrow> bytes" where
  "log_register lg = extend_all sha384 (zeros 48) (map (\<lambda>e. sha384 (logged e)) lg)"

lemma entry_numbers [simp]:
  "parse_int64 ''3'' = Some 3" "parse_int64 ''134217729'' = Some 134217729"
  "parse_num ''3'' \<noteq> None" "parse_num ''134217729'' \<noteq> None"
  by (simp_all add: parse_int64_def parse_num_def split_digits_def is_digit_def parse_frac_def parse_exp_def
      digits_nat_def Let_def)

lemma log_entry_sel [simp]:
  "le_entry (log_entry (n, p)) =
     \<lparr>ee_IMR = 3, ee_EventType = 0x08000001, ee_Event = n, ee_Payload = hex_encode p\<rparr>"
  "le_payload (log_entry (n, p)) = p"
  by (simp_all add: log_entry_def)

lemma entry_decodes:
  "decode_struct [''imr'', ''event_type'', ''event'', ''event_payload''] event_set event_zero (entry_json r)
     = Some (le_entry (log_entry r))"
  by (cases r) (simp add: entry_json_def decode_struct_def struct_field_exact event_set_def
      event_zero_def int_into_def uint32_into_def str_into_def)

lemma entries_decode:
  "opt_all (map (decode_struct [''imr'', ''event_type'', ''event'', ''event_payload''] event_set event_zero)
     (map entry_json rs)) = Some (map (\<lambda>r. le_entry (log_entry r)) rs)"
  by (induction rs) (simp_all add: entry_decodes)

lemma print_arr_bracketed: "\<exists>m. json_print (JArr vs) = CHR ''['' # m @ '']''"
proof -
  have "vs \<noteq> [] \<Longrightarrow> \<exists>m. print_elems vs = m @ '']''" by (induction vs) (auto simp: json_print.simps)
  then show ?thesis by (cases "vs = []") (auto simp: json_print.simps)
qed

lemma trim_bracketed: "trim_space (CHR ''['' # m @ '']'') = CHR ''['' # m @ '']''"
  by (rule trim_space_id; code_simp)

lemma eventLogOf_reply: "eventLogOf (log_reply rs) = Inr (map (\<lambda>r. le_entry (log_entry r)) rs)"
proof -
  let ?a = "JArr (map entry_json rs)"
  have ok: "json_ok ?a" by (auto simp: entry_json_def)
  obtain m where m: "json_print ?a = CHR ''['' # m @ '']''" using print_arr_bracketed by blast
  have u: "UnwrapJSONString (json_print ?a) = Some (json_print ?a)" "\<not> isAbsent (json_print ?a)"
    unfolding m by (simp_all add: UnwrapJSONString_def isAbsent_def trim_bracketed Let_def)
  have "json_parse (log_reply rs) = Some (JObj [(''event_log'', ?a)])"
    unfolding log_reply_def by (rule json_parse_print) (use ok in auto)
  moreover have "json_parse (json_print ?a) = Some ?a" by (rule json_parse_print[OF ok])
  ultimately show ?thesis
    using u by (simp add: eventLogOf_def reply_raw_def decode_struct_def struct_field_exact as_events_def as_array_def
        entries_decode del: map_map)
qed

lemma replay_log_entries:
  "replay_entries i mr (map (\<lambda>r. le_entry (log_entry r)) rs)
     = Inr (extend_all sha384 mr (map (\<lambda>e. sha384 (logged e)) (map log_entry rs)), map log_entry rs)"
proof (induction rs arbitrary: i mr)
  case (Cons r rs)
  obtain n p where r: "r = (n, p)" by (cases r)
  have "log_entry r = \<lparr>le_entry = le_entry (log_entry r), le_payload = p\<rparr>" by (simp add: r log_entry_def)
  then show ?case
    by (simp add: r Cons.IH EventDigest_def logged_def extend_all_def Let_def del: map_map)
qed (simp add: extend_all_def)

lemma replay_log_reply:
  "replayRTMR3 (log_reply rs) (log_register (map log_entry rs)) = Inr (map log_entry rs)"
  by (simp add: replayRTMR3_def eventLogOf_reply replay_log_entries log_register_def del: map_map)

theorem replay_binds_log_witness:
  "(let lg = map log_entry [(''system-ready'', [])] in
     (map logged lg = map logged lg
       \<and> ((\<forall>e\<in>set lg \<union> set lg. CHR '':'' \<notin> set (ee_Event (le_entry e))) \<longrightarrow>
            map record_of lg = map record_of lg))
     \<or> clash sha384 (replay_inputs lg) (replay_inputs lg)
     \<or> zeros 48 \<in> sha384 ` set (replay_inputs lg @ replay_inputs lg))"
  unfolding Let_def
  by (rule replay_binds_log[OF replay_log_reply[of "[(''system-ready'', [])]"] replay_log_reply[of "[(''system-ready'', [])]"]])

end
