(* ===== verification/Go_Url.thy ===== *)
theory Go_Url
  imports Go_Strings
begin

text \<open>
  Go's \<open>net/url.Parse\<close> with the accessors the source uses (\<open>Hostname\<close>, \<open>Port\<close>, \<open>EscapedPath\<close>), for
  texts of printable ASCII without a percent sign; a text with one is \<open>None\<close> here. The one caller
  modelled refuses every text outside this range itself.
\<close>

section \<open>Characters\<close>

definition in_range :: "nat \<Rightarrow> nat \<Rightarrow> char \<Rightarrow> bool" where
  "in_range a b c = (let n = of_char c in a \<le> n \<and> n \<le> b)"

definition ascii_alnum :: "char \<Rightarrow> bool" where
  "ascii_alnum c = (in_range 48 57 c \<or> in_range 65 90 c \<or> in_range 97 122 c)"

definition ascii_letter :: "char \<Rightarrow> bool" where
  "ascii_letter c = (in_range 65 90 c \<or> in_range 97 122 c)"

text \<open>\<open>shouldEscape\<close> in the two modes that matter, and the bytes \<open>validEncoded\<close> lets through.\<close>

definition host_char :: "char \<Rightarrow> bool" where
  "host_char c = (ascii_alnum c \<or> c \<in> set ''-_.~!$&()*+,;=:[]<>'' \<or> c = CHR 0x27 \<or> c = CHR 0x22
     \<or> \<not> in_range 0 127 c)"

definition path_plain :: "char \<Rightarrow> bool" where
  "path_plain c = (ascii_alnum c \<or> c \<in> set ''-_.~$&+,/:;=@'')"

definition path_valid :: "char \<Rightarrow> bool" where
  "path_valid c = (path_plain c \<or> c \<in> set ''!()*[]%'' \<or> c = CHR 0x27)"

section \<open>IPv6 literals\<close>

definition hex_group :: "bytes \<Rightarrow> bool" where
  "hex_group g = (1 \<le> length g \<and> length g \<le> 4 \<and> list_all (\<lambda>c. hex_val c \<noteq> None) g)"

definition ipv4_octet :: "bytes \<Rightarrow> bool" where
  "ipv4_octet p = (1 \<le> length p \<and> length p \<le> 3 \<and> list_all is_digit p \<and> digits_val p \<le> 255
     \<and> (length p > 1 \<longrightarrow> hd p \<noteq> CHR ''0''))"

definition ipv4_ok :: "bytes \<Rightarrow> bool" where
  "ipv4_ok s = (let ps = split_all (CHR ''.'') s in length ps = 4 \<and> list_all ipv4_octet ps)"

text \<open>The number of 16-bit fields a colon-separated text stands for.\<close>

definition ipv6_fields :: "bool \<Rightarrow> bytes \<Rightarrow> nat option" where
  "ipv6_fields last_side s =
     (if s = [] then Some 0
      else let ps = split_all (CHR '':'') s in
           if \<not> list_all hex_group (butlast ps) then None
           else if hex_group (last ps) then Some (length ps)
           else if last_side \<and> ipv4_ok (last ps) then Some (Suc (length ps))
           else None)"

definition ipv6_ok :: "bytes \<Rightarrow> bool" where
  "ipv6_ok s =
     (case cut_str ''::'' s of
        None \<Rightarrow> s \<noteq> [] \<and> ipv6_fields True s = Some 8
      | Some (l, r) \<Rightarrow>
          (case (ipv6_fields False l, ipv6_fields True r) of
             (Some a, Some b) \<Rightarrow> a + b \<le> 7 | _ \<Rightarrow> False))"

section \<open>Parse\<close>

record URL =
  u_Scheme :: string
  u_Opaque :: string
  u_HasUser :: bool
  u_Host :: string
  u_Path :: string
  u_ForceQuery :: bool
  u_RawQuery :: string

text \<open>The scheme and the rest; \<open>None\<close> for a text that starts with a colon.\<close>

fun scheme_scan :: "bytes \<Rightarrow> bytes \<Rightarrow> bytes \<Rightarrow> (bytes \<times> bytes) option" where
  "scheme_scan whole acc [] = Some ([], whole)"
| "scheme_scan whole acc (c # cs) =
     (if ascii_letter c then scheme_scan whole (acc @ [c]) cs
      else if in_range 48 57 c \<or> c \<in> set ''+-.'' then
        (if acc = [] then Some ([], whole) else scheme_scan whole (acc @ [c]) cs)
      else if c = CHR '':'' then (if acc = [] then None else Some (acc, cs))
      else Some ([], whole))"

definition validOptionalPort :: "bytes \<Rightarrow> bool" where
  "validOptionalPort p = (p = [] \<or> (hd p = CHR '':'' \<and> list_all is_digit (tl p)))"

definition parse_host :: "bytes \<Rightarrow> bytes option" where
  "parse_host h =
     (if prefix ''['' h then
        (case cut_last (CHR '']'') h of
           None \<Rightarrow> None
         | Some (a, port) \<Rightarrow>
             if validOptionalPort port \<and> ipv6_ok (tl a) then Some h else None)
      else if CHR ''['' \<in> set h \<or> (case cut_last (CHR '':'') h of
                None \<Rightarrow> False
              | Some (a, port) \<Rightarrow> CHR '':'' \<in> set a \<or> \<not> list_all is_digit port) then None
      else if list_all host_char h then Some h else None)"

definition valid_userinfo :: "bytes \<Rightarrow> bool" where
  "valid_userinfo s =
     list_all (\<lambda>c. ascii_alnum c \<or> c \<in> set ''-._:~!$&()*+,;=%@'' \<or> c = CHR 0x27) s"

definition parse_authority :: "bytes \<Rightarrow> (bool \<times> bytes) option" where
  "parse_authority a =
     (case cut_last (CHR ''@'') a of
        None \<Rightarrow> map_option (Pair False) (parse_host a)
      | Some (user, h) \<Rightarrow>
          (case parse_host h of
             None \<Rightarrow> None
           | Some h' \<Rightarrow> if valid_userinfo user then Some (True, h') else None))"

text \<open>After the scheme: the query is cut off, then authority and path.\<close>

definition parse_rest :: "string \<Rightarrow> bytes \<Rightarrow> URL option" where
  "parse_rest scheme rest0 =
     (let force = (suffix ''?'' rest0 \<and> length (filter (\<lambda>c. c = CHR ''?'') rest0) = 1);
          (rest, query) = (if force then (butlast rest0, [])
             else case cut_at (CHR ''?'') rest0 of None \<Rightarrow> (rest0, []) | Some (a, b) \<Rightarrow> (a, b));
          u = \<lparr>u_Scheme = scheme, u_Opaque = [], u_HasUser = False, u_Host = [], u_Path = [],
               u_ForceQuery = force, u_RawQuery = query\<rparr>
      in if \<not> prefix ''/'' rest \<and> scheme \<noteq> [] then Some (u\<lparr>u_Opaque := rest\<rparr>)
         else if \<not> prefix ''/'' rest
              \<and> CHR '':'' \<in> set (case cut_at (CHR ''/'') rest of None \<Rightarrow> rest | Some (a, _) \<Rightarrow> a)
         then None
         else if prefix ''//'' rest \<and> (scheme \<noteq> [] \<or> \<not> prefix ''///'' rest) then
           (let auth0 = drop 2 rest;
                (auth, path) = (case cut_at (CHR ''/'') auth0 of
                                  None \<Rightarrow> (auth0, []) | Some (a, b) \<Rightarrow> (a, CHR ''/'' # b))
            in map_option (\<lambda>(user, host). u\<lparr>u_HasUser := user, u_Host := host, u_Path := path\<rparr>)
                 (parse_authority auth))
         else Some (u\<lparr>u_Path := rest\<rparr>))"

definition url_parse :: "bytes \<Rightarrow> URL option" where
  "url_parse s =
     (let u = (case cut_at (CHR ''#'') s of None \<Rightarrow> s | Some (a, _) \<Rightarrow> a) in
      if \<not> list_all (in_range 32 126) s \<or> CHR ''%'' \<in> set s then None
      else if u = ''*'' then Some \<lparr>u_Scheme = [], u_Opaque = [], u_HasUser = False, u_Host = [],
             u_Path = ''*'', u_ForceQuery = False, u_RawQuery = []\<rparr>
      else case scheme_scan u [] u of
             None \<Rightarrow> None
           | Some (scheme, rest) \<Rightarrow> parse_rest (to_lower scheme) rest)"

section \<open>Accessors\<close>

definition split_host_port :: "bytes \<Rightarrow> bytes \<times> bytes" where
  "split_host_port h =
     (let (host, port) = (case cut_last (CHR '':'') h of
                            Some (a, p) \<Rightarrow> if list_all is_digit p then (a, p) else (h, [])
                          | None \<Rightarrow> (h, []))
      in if prefix ''['' host \<and> suffix '']'' host then (butlast (tl host), port) else (host, port))"

definition u_Hostname :: "URL \<Rightarrow> string" where
  "u_Hostname u = fst (split_host_port (u_Host u))"

definition u_Port :: "URL \<Rightarrow> string" where
  "u_Port u = snd (split_host_port (u_Host u))"

definition upper_hex :: "nat \<Rightarrow> char" where
  "upper_hex n = (if n < 10 then char_of (48 + n) else char_of (55 + n))"

definition escape_path_char :: "char \<Rightarrow> bytes" where
  "escape_path_char c =
     (if path_plain c then [c]
      else [CHR ''%'', upper_hex (of_char c div 16), upper_hex (of_char c mod 16)])"

definition u_EscapedPath :: "URL \<Rightarrow> bytes" where
  "u_EscapedPath u =
     (if list_all path_valid (u_Path u) then u_Path u else concat (map escape_path_char (u_Path u)))"

end
