(* ===== verification/Evid_Records.thy ===== *)
theory Evid_Records
  imports Evid_Replay Go_Url Go_Map
begin

text \<open>
  client/evidence/rtmr3.go, the records: the grammar of what the controller writes after system-ready,
  the state its records describe, and the judgement of that state.
\<close>

section \<open>Data\<close>

datatype rerr =
    LogErr lerr | NoSystemReady | RecordType nat string "32 word"
  | ImageFields nat | ImageNotRepoDigest | ImageDigest | ImageSigner | ImageEncPub
  | ConfigNotHash | InstanceGrammar | UpstreamErr string

definition runtimeEventType :: "32 word" where [simp]: "runtimeEventType = 0x08000001"
definition systemReady :: string where [simp]: "systemReady = ''system-ready''"
definition recImageUpdate :: string where [simp]: "recImageUpdate = ''zg-image-update''"
definition recConfigUpdate :: string where [simp]: "recConfigUpdate = ''zg-config-update''"
definition recUpstreamSet :: string where [simp]: "recUpstreamSet = ''zg-upstream-set''"
definition recEngineSet :: string where [simp]: "recEngineSet = ''zg-engine-set''"
definition recInstanceConfigUpdate :: string where
  [simp]: "recInstanceConfigUpdate = ''zg-instance-config-update''"
definition maxUpstreamLine :: nat where [simp]: "maxUpstreamLine = 4096"
definition maxUpstreamMembers :: int where [simp]: "maxUpstreamMembers = 1024"

record ImageRecord =
  im_Repository :: string
  im_Digest :: string
  im_Signer :: string
  im_EncPub :: bytes
  im_Index :: nat

record Upstream =
  up_Name :: string
  up_URL :: string
  up_Identity :: string
  up_Provider :: string

record UpstreamSet =
  us_Invalidated :: bool
  us_Members :: "Upstream list"

record RuntimeState =
  st_Entries :: nat
  st_Runtime :: nat
  st_Ignored :: "string list"
  st_Image :: "ImageRecord option"
  st_ImageUpdates :: nat
  st_ConfigUpdates :: nat
  st_LastConfig :: string
  st_Upstreams :: "UpstreamSet option"
  st_Engines :: nat
  st_Instances :: "string gomap"
  st_Unknown :: "string list"

section \<open>Grammar\<close>

definition isLowerHex :: "string \<Rightarrow> nat \<Rightarrow> bool" where
  "isLowerHex s n = (length s = n \<and> list_all is_lower_hex s)"

definition parseImageUpdate :: "bytes \<Rightarrow> rerr + ImageRecord" where
  "parseImageUpdate payload =
     (let fs = split_all (CHR '' '') payload in
      bind_r (fail_if (length fs \<noteq> 3) (ImageFields (length fs))) (\<lambda>_.
      bind_r (opt_r (cut_at (CHR ''@'') (fs ! 0)) ImageNotRepoDigest) (\<lambda>(repo, digest).
      bind_r (fail_if (repo = [] \<or> (\<exists>c\<in>set repo. c = CHR ''@'' \<or> c = CHR 0x09 \<or> c = CHR 0x0A))
                ImageNotRepoDigest) (\<lambda>_.
      bind_r (fail_if (\<not> prefix ''sha256:'' digest \<or> \<not> isLowerHex (trim_prefix ''sha256:'' digest) 64)
                ImageDigest) (\<lambda>_.
      bind_r (fail_if (\<not> prefix ''0x'' (fs ! 1) \<or> \<not> isLowerHex (trim_prefix ''0x'' (fs ! 1)) 40)
                ImageSigner) (\<lambda>_.
      bind_r (fail_if (\<not> isLowerHex (fs ! 2) 64) ImageEncPub) (\<lambda>_.
      Inr \<lparr>im_Repository = repo, im_Digest = digest, im_Signer = fs ! 1,
           im_EncPub = (case hex_decode (fs ! 2) of Some b \<Rightarrow> b | None \<Rightarrow> []), im_Index = 0\<rparr>)))))))"

text \<open>The regular expressions for an upstream's name and provider.\<close>

definition low_alnum :: "char \<Rightarrow> bool" where
  "low_alnum c = (in_range 48 57 c \<or> in_range 97 122 c)"

definition upstreamName :: "string \<Rightarrow> bool" where
  "upstreamName s =
     (1 \<le> length s \<and> length s \<le> 63 \<and> low_alnum (hd s) \<and> low_alnum (last s)
      \<and> list_all (\<lambda>c. low_alnum c \<or> c = CHR ''_'' \<or> c = CHR ''-'') s)"

definition upstreamProvider :: "string \<Rightarrow> bool" where
  "upstreamProvider s = (prefix ''provider=0x'' s \<and> isLowerHex (drop 11 s) 40)"

definition checkBaseURL :: "string \<Rightarrow> bool" where
  "checkBaseURL s =
     (list_all (\<lambda>c. \<not> (of_char c \<le> (32::nat) \<or> 127 \<le> (of_char c::nat))) s
      \<and> (case url_parse s of
           None \<Rightarrow> False
         | Some u \<Rightarrow>
             let (scheme, rest) = (case cut_str ''://'' s of None \<Rightarrow> (s, []) | Some p \<Rightarrow> p);
                 host = u_Host u; path = u_Path u; port = u_Port u
             in (scheme = ''http'' \<or> scheme = ''https'')
              \<and> u_Opaque u = [] \<and> host \<noteq> []
              \<and> \<not> u_HasUser u \<and> CHR ''@'' \<notin> set (hd (split_n 2 (CHR ''/'') rest))
              \<and> u_RawQuery u = [] \<and> \<not> u_ForceQuery u \<and> CHR ''#'' \<notin> set s
              \<and> host = to_lower host
              \<and> \<not> (scheme = ''http'' \<and> port = ''80'') \<and> \<not> (scheme = ''https'' \<and> port = ''443'')
              \<and> CHR ''%'' \<notin> set (u_EscapedPath u) \<and> CHR ''%'' \<notin> set s
              \<and> path \<noteq> ''/'' \<and> \<not> suffix ''/'' path
              \<and> list_all (\<lambda>seg. seg \<noteq> ''.'' \<and> seg \<noteq> ''..'') (split_all (CHR ''/'') path)
              \<and> (port = [] \<or> (case atoi port of
                                None \<Rightarrow> False
                              | Some n \<Rightarrow> 1 \<le> n \<and> n \<le> 65535 \<and> show_int n = port))))"

text \<open>
  One member line, given the members so far and whether they name providers. \<open>seen\<close> is the source's
  set of provider and name pairs.
\<close>

definition parse_member :: "Upstream list \<Rightarrow> bool \<Rightarrow> string list \<Rightarrow> bytes \<Rightarrow> rerr + Upstream" where
  "parse_member members withProvider seen m =
     (let f0 = split_all (CHR '' '') m;
          tagged = (2 < length f0 \<and> prefix ''provider='' (last f0)) in
      bind_r (fail_if (tagged \<and> \<not> upstreamProvider (last f0)) (UpstreamErr ''provider'')) (\<lambda>_.
      let provider = (if tagged then trim_prefix ''provider='' (last f0) else []);
          f = (if tagged then butlast f0 else f0) in
      bind_r (fail_if (length f \<noteq> 2 \<and> length f \<noteq> 3) (UpstreamErr ''fields'')) (\<lambda>_.
      bind_r (fail_if (\<not> upstreamName (f ! 0)) (UpstreamErr ''name'')) (\<lambda>_.
      bind_r (fail_if (members \<noteq> [] \<and> (provider \<noteq> []) \<noteq> withProvider) (UpstreamErr ''some providers'')) (\<lambda>_.
      bind_r (fail_if ((provider @ '' '' @ f ! 0) \<in> set seen) (UpstreamErr ''twice'')) (\<lambda>_.
      bind_r (fail_if (\<not> checkBaseURL (f ! 1)) (UpstreamErr ''url'')) (\<lambda>_.
      bind_r (fail_if (length f = 3 \<and> f ! 2 = []) (UpstreamErr ''identity'')) (\<lambda>_.
      Inr \<lparr>up_Name = f ! 0, up_URL = f ! 1,
           up_Identity = (if length f = 3 then f ! 2 else []), up_Provider = provider\<rparr>))))))))"

fun parse_members_from ::
    "Upstream list \<Rightarrow> bool \<Rightarrow> string list \<Rightarrow> bytes list \<Rightarrow> rerr + Upstream list" where
  "parse_members_from members withProvider seen [] = Inr members"
| "parse_members_from members withProvider seen (m # ms) =
     bind_r (parse_member members withProvider seen m) (\<lambda>u.
     parse_members_from (members @ [u]) (withProvider \<or> up_Provider u \<noteq> [])
       ((up_Provider u @ '' '' @ up_Name u) # seen) ms)"

definition parseUpstreamSet :: "bytes \<Rightarrow> rerr + UpstreamSet" where
  "parseUpstreamSet payload =
     (if payload = ''invalidated'' then Inr \<lparr>us_Invalidated = True, us_Members = []\<rparr>
      else let ls = split_all (CHR 0x0A) payload in
        bind_r (fail_if (list_ex (\<lambda>l. maxUpstreamLine < length l) ls) (UpstreamErr ''line'')) (\<lambda>_.
        bind_r (opt_r (Option.bind (cut_prefix ''count='' (hd ls))
                  (\<lambda>t. Option.bind (atoi t) (\<lambda>n. if 0 \<le> n \<and> show_int n = t then Some n else None)))
                (UpstreamErr ''count'')) (\<lambda>n.
        let members = (if n = 0 \<and> tl ls = [[]] then [] else tl ls) in
        bind_r (fail_if (maxUpstreamMembers < n) (UpstreamErr ''cap'')) (\<lambda>_.
        bind_r (fail_if (int (length members) \<noteq> n) (UpstreamErr ''members'')) (\<lambda>_.
        bind_r (parse_members_from [] False [] members) (\<lambda>us.
        Inr \<lparr>us_Invalidated = False, us_Members = us\<rparr>))))))"

definition Host :: "Upstream \<Rightarrow> string" where
  "Host u = (case url_parse (up_URL u) of None \<Rightarrow> [] | Some p \<Rightarrow> u_Hostname p)"

section \<open>The state\<close>

definition apply_record :: "RuntimeState \<Rightarrow> nat \<Rightarrow> string \<Rightarrow> bytes \<Rightarrow> rerr + RuntimeState" where
  "apply_record st n name payload =
     (if name = recImageUpdate then
        bind_r (parseImageUpdate payload) (\<lambda>rec.
        Inr (st\<lparr>st_Image := Some (rec\<lparr>im_Index := n\<rparr>), st_ImageUpdates := st_ImageUpdates st + 1\<rparr>))
      else if name = recConfigUpdate then
        bind_r (fail_if (\<not> isLowerHex payload 64) ConfigNotHash) (\<lambda>_.
        Inr (st\<lparr>st_LastConfig := payload, st_ConfigUpdates := st_ConfigUpdates st + 1\<rparr>))
      else if name = recUpstreamSet then
        bind_r (parseUpstreamSet payload) (\<lambda>us. Inr (st\<lparr>st_Upstreams := Some us\<rparr>))
      else if name = recEngineSet then Inr (st\<lparr>st_Engines := st_Engines st + 1\<rparr>)
      else if name = recInstanceConfigUpdate then
        bind_r (opt_r (cut_at (CHR '' '') payload) InstanceGrammar) (\<lambda>(inst, value).
        bind_r (fail_if (inst = [] \<or> (\<exists>c\<in>set inst. c = CHR '' '' \<or> c = CHR 0x09 \<or> c = CHR 0x0A)
                         \<or> (value \<noteq> ''unknown'' \<and> \<not> isLowerHex value 64)) InstanceGrammar) (\<lambda>_.
        Inr (st\<lparr>st_Instances := mput inst value (st_Instances st)\<rparr>)))
      else Inr (st\<lparr>st_Unknown := st_Unknown st @ [name]\<rparr>))"

definition is_zg :: "string \<Rightarrow> bool" where
  "is_zg event = prefix ''zg-'' event"

text \<open>The second loop of \<open>ReadRuntimeState\<close>, over the entries after system-ready.\<close>

fun apply_records :: "RuntimeState \<Rightarrow> nat \<Rightarrow> rtmr3Entry list \<Rightarrow> rerr + RuntimeState" where
  "apply_records st n [] = Inr st"
| "apply_records st n (e # es) =
     (let st' = st\<lparr>st_Runtime := st_Runtime st + 1\<rparr>; name = ee_Event (le_entry e) in
      if \<not> is_zg name then apply_records st' (Suc n) es
      else bind_r (fail_if (ee_EventType (le_entry e) \<noteq> runtimeEventType)
                     (RecordType n name (ee_EventType (le_entry e)))) (\<lambda>_.
           bind_r (apply_record st' n name (le_payload e)) (\<lambda>st''. apply_records st'' (Suc n) es)))"

definition state_zero :: RuntimeState where
  "state_zero = \<lparr>st_Entries = 0, st_Runtime = 0, st_Ignored = [], st_Image = None,
     st_ImageUpdates = 0, st_ConfigUpdates = 0, st_LastConfig = [], st_Upstreams = None,
     st_Engines = 0, st_Instances = [], st_Unknown = []\<rparr>"

definition is_ready :: "rtmr3Entry \<Rightarrow> bool" where
  "is_ready e = (ee_Event (le_entry e) = systemReady)"

definition ReadRuntimeState :: "bytes \<Rightarrow> bytes \<Rightarrow> rerr + RuntimeState" where
  "ReadRuntimeState reply rtmr3 =
     bind_r (case replayRTMR3 reply rtmr3 of Inl e \<Rightarrow> Inl (LogErr e) | Inr l \<Rightarrow> Inr l) (\<lambda>l.
     let before = takeWhile (\<lambda>e. \<not> is_ready e) l; rest = dropWhile (\<lambda>e. \<not> is_ready e) l;
         st = state_zero\<lparr>st_Entries := length l,
                st_Ignored := filter is_zg (map (\<lambda>e. ee_Event (le_entry e)) before)\<rparr>
     in (case rest of
           [] \<Rightarrow> Inl NoSystemReady
         | _ # after \<Rightarrow> apply_records st 1 after))"

section \<open>The judgement\<close>

datatype ReleaseStatus = ReleaseRejected | ReleaseAccepted | ReleaseUnavailable

record BrokerRelease =
  br_Version :: string
  br_Digest :: string
  br_Commit :: string

record ReleaseVerdict =
  rv_Status :: ReleaseStatus
  rv_Release :: "BrokerRelease option"
  rv_Reason :: string

record ReleaseVerifier =
  rvf_Repository :: string
  rvf_Verify :: "string \<Rightarrow> string \<Rightarrow> ReleaseVerdict"

definition VerifyRelease :: "ReleaseVerifier option \<Rightarrow> string \<Rightarrow> string \<Rightarrow> ReleaseVerdict" where
  "VerifyRelease rels repository digest =
     (case rels of
        None \<Rightarrow> \<lparr>rv_Status = ReleaseUnavailable, rv_Release = None,
                 rv_Reason = ''no release verifier was configured''\<rparr>
      | Some r \<Rightarrow> rvf_Verify r repository digest)"

datatype finding =
    BuildUnchecked string string | BuildNotRelease string string nat | SignerDiffers string
  | EncPubDiffers bytes | EngineRecords nat | UnknownRecords "string list"
  | UpstreamsInvalidated | InstanceAborted string

record RuntimeCheck =
  rc_State :: RuntimeState
  rc_Release :: "ReleaseVerdict option"
  rc_KeysBound :: bool
  rc_Failures :: "finding list"
  rc_Unverified :: "finding list"

fun dedupe :: "string list \<Rightarrow> string list" where
  "dedupe [] = []"
| "dedupe (s # ss) = s # filter (\<lambda>t. t \<noteq> s) (dedupe ss)"

definition check_image ::
    "ImageRecord option \<Rightarrow> ReleaseVerifier option \<Rightarrow> string \<Rightarrow> bytes \<Rightarrow> RuntimeCheck \<Rightarrow> RuntimeCheck" where
  "check_image im rels signer encPub c =
     (case im of
        None \<Rightarrow> c
      | Some i \<Rightarrow>
         (let v = VerifyRelease rels (im_Repository i) (im_Digest i);
              sameSigner = equal_fold (im_Signer i) signer; sameKey = (im_EncPub i = encPub)
          in c\<lparr>rc_Release := Some v, rc_KeysBound := (sameSigner \<and> sameKey),
               rc_Unverified := rc_Unverified c
                 @ (if rv_Status v = ReleaseUnavailable
                    then [BuildUnchecked (im_Repository i) (im_Digest i)] else []),
               rc_Failures := rc_Failures c
                 @ (if rv_Status v = ReleaseRejected
                    then [BuildNotRelease (im_Repository i) (im_Digest i) (im_Index i)] else [])
                 @ (if \<not> sameSigner then [SignerDiffers (im_Signer i)] else [])
                 @ (if \<not> sameKey then [EncPubDiffers (im_EncPub i)] else [])\<rparr>))"

definition CheckRuntime ::
    "RuntimeState \<Rightarrow> ReleaseVerifier option \<Rightarrow> string \<Rightarrow> bytes \<Rightarrow> RuntimeCheck" where
  "CheckRuntime st rels signer encPub =
     (let c = check_image (st_Image st) rels signer encPub
                \<lparr>rc_State = st, rc_Release = None, rc_KeysBound = False, rc_Failures = [],
                 rc_Unverified = []\<rparr>
      in c\<lparr>rc_Failures := rc_Failures c @ (if 0 < st_Engines st then [EngineRecords (st_Engines st)] else []),
           rc_Unverified := rc_Unverified c
             @ (if st_Unknown st \<noteq> [] then [UnknownRecords (dedupe (st_Unknown st))] else [])
             @ (case st_Upstreams st of
                  Some us \<Rightarrow> if us_Invalidated us then [UpstreamsInvalidated] else [] | None \<Rightarrow> [])
             @ map InstanceAborted (filter (\<lambda>i. mget (st_Instances st) i = Some ''unknown'')
                                      (mkeys (st_Instances st)))\<rparr>)"

section \<open>Facts about the grammar\<close>

lemma trim_prefix_append [simp]: "trim_prefix p (p @ s) = s"
  by (simp add: trim_prefix_def)

lemma hex_val_lower:
  assumes "is_lower_hex c"
  shows "\<exists>x<16. hex_val c = Some x \<and> hex_digit x = c"
proof -
  let ?n = "of_char c :: nat"
  have c: "char_of ?n = c" by simp
  consider "48 \<le> ?n \<and> ?n \<le> 57" | "97 \<le> ?n \<and> ?n \<le> 102"
    using assms by (auto simp: is_lower_hex_def Let_def)
  then show ?thesis
  proof cases
    case 1
    then have k: "?n - 48 < 10" "48 + (?n - 48) = ?n" by linarith+
    have "hex_val c = Some (?n - 48)" "hex_digit (?n - 48) = c"
      using 1 k c by (simp_all add: hex_val_def hex_digit_def Let_def del: diff_is_0_eq)
    moreover have "?n - 48 < 16" using k(1) by linarith
    ultimately show ?thesis by blast
  next
    case 2
    then have k: "\<not> ?n - 87 < 10" "?n - 87 < 16" "87 + (?n - 87) = ?n" by linarith+
    have "hex_val c = Some (?n - 87)" using 2 by (simp add: hex_val_def Let_def)
    moreover have "hex_digit (?n - 87) = c" using k(1,3) c by (simp add: hex_digit_def)
    ultimately show ?thesis using k(2) by blast
  qed
qed

lemma hex_lower:
  "list_all is_lower_hex s \<Longrightarrow> even (length s) \<Longrightarrow> \<exists>b. hex_decode s = Some b \<and> hex_encode b = s"
proof (induction s rule: hex_decode.induct)
  case (3 a b r)
  obtain x where x: "x < 16" "hex_val a = Some x" "hex_digit x = a" using hex_val_lower[of a] "3.prems" by auto
  obtain y where y: "y < 16" "hex_val b = Some y" "hex_digit y = b" using hex_val_lower[of b] "3.prems" by auto
  obtain bs where bs: "hex_decode r = Some bs" "hex_encode bs = r"
    using "3.IH"[OF x(2) y(2)] "3.prems" by auto
  have "(16 * x + y) mod 256 = 16 * x + y" "(16 * x + y) div 16 = x" "(16 * x + y) mod 16 = y"
    using x(1) y(1) by simp_all
  then show ?case using x y bs by (simp add: of_char_of)
qed simp_all

lemma hex_decode_lower:
  assumes "isLowerHex s (2 * n)"
  shows "\<exists>b. hex_decode s = Some b \<and> length b = n \<and> hex_encode b = s"
proof -
  obtain b where b: "hex_decode s = Some b" "hex_encode b = s"
    using hex_lower[of s] assms by (auto simp: isLowerHex_def)
  have "length b = n" using assms length_hex_encode[of b] by (simp add: b(2) isLowerHex_def)
  with b show ?thesis by blast
qed

lemma lower_hex_free: "isLowerHex s n \<Longrightarrow> \<not> is_lower_hex c \<Longrightarrow> c \<notin> set s"
  by (auto simp: isLowerHex_def list_all_iff)

lemma not_hex [simp]: "\<not> is_lower_hex (CHR '' '')" "\<not> is_lower_hex (CHR ''@'')"
  by (simp_all add: is_lower_hex_def)

text \<open>A repository as it can stand in a record.\<close>

definition repo_ok :: "string \<Rightarrow> bool" where
  "repo_ok r \<longleftrightarrow> r \<noteq> [] \<and> (\<forall>c\<in>set r. c \<noteq> CHR ''@'' \<and> c \<noteq> CHR '' '' \<and> c \<noteq> CHR 0x09 \<and> c \<noteq> CHR 0x0A)"

definition image_line :: "string \<Rightarrow> string \<Rightarrow> string \<Rightarrow> bytes \<Rightarrow> bytes" where
  "image_line repo digest signer key =
     repo @ ''@sha256:'' @ digest @ '' 0x'' @ signer @ '' '' @ hex_encode key"

lemma image_line_split:
  assumes "repo_ok repo" "isLowerHex digest 64" "isLowerHex signer 40"
  shows "split_all (CHR '' '') (image_line repo digest signer key)
     = [repo @ ''@sha256:'' @ digest, ''0x'' @ signer, hex_encode key]"
proof -
  have "CHR '' '' \<notin> set repo" "CHR '' '' \<notin> set digest" "CHR '' '' \<notin> set signer" "CHR '' '' \<notin> set (hex_encode key)"
    using assms lower_hex_free[OF assms(2)] lower_hex_free[OF assms(3)] hex_encode_lower[of "CHR '' ''" key]
    by (auto simp: repo_ok_def)
  then show ?thesis
    by (subst split_all_eq) (auto simp: image_line_def join_with_def)
qed

text \<open>
  An image record has one spelling: the repository, an at sign and a sha256 digest, the signer address
  and the encryption key, in lowercase hexadecimal with single spaces.
\<close>

lemma parse_image_iff:
  "parseImageUpdate p = Inr r \<longleftrightarrow>
     (\<exists>repo digest signer key. repo_ok repo \<and> isLowerHex digest 64 \<and> isLowerHex signer 40 \<and> length key = 32
        \<and> p = image_line repo digest signer key
        \<and> r = \<lparr>im_Repository = repo, im_Digest = ''sha256:'' @ digest, im_Signer = ''0x'' @ signer,
               im_EncPub = key, im_Index = 0\<rparr>)"
proof
  assume "parseImageUpdate p = Inr r"
  then obtain repo d where *: "length (split_all (CHR '' '') p) = 3"
    "cut_at (CHR ''@'') (split_all (CHR '' '') p ! 0) = Some (repo, d)"
    "repo \<noteq> []" "\<forall>c\<in>set repo. c \<noteq> CHR ''@'' \<and> c \<noteq> CHR 0x09 \<and> c \<noteq> CHR 0x0A"
    "prefix ''sha256:'' d" "isLowerHex (trim_prefix ''sha256:'' d) 64"
    "prefix ''0x'' (split_all (CHR '' '') p ! 1)" "isLowerHex (trim_prefix ''0x'' (split_all (CHR '' '') p ! 1)) 40"
    "isLowerHex (split_all (CHR '' '') p ! 2) 64"
    "r = \<lparr>im_Repository = repo, im_Digest = d, im_Signer = split_all (CHR '' '') p ! 1,
          im_EncPub = (case hex_decode (split_all (CHR '' '') p ! 2) of Some b \<Rightarrow> b | None \<Rightarrow> []), im_Index = 0\<rparr>"
    by (auto simp: parseImageUpdate_def Let_def result_inv)
  obtain f0 f1 f2 where f: "split_all (CHR '' '') p = [f0, f1, f2]"
    using *(1) by (auto simp: length_Suc_conv numeral_3_eq_3)
  obtain digest where digest: "d = ''sha256:'' @ digest" using *(5) by (auto simp: prefix_def)
  obtain signer where signer: "f1 = ''0x'' @ signer" using *(7) f by (auto simp: prefix_def)
  obtain key where key: "hex_decode f2 = Some key" "length key = 32" "hex_encode key = f2"
    using hex_decode_lower[of f2 32] *(9) f by auto
  have h2: "isLowerHex digest 64" "isLowerHex signer 40"
    using *(6,8) f trim_prefix_append[of "''sha256:''" digest] trim_prefix_append[of "''0x''" signer]
    unfolding digest signer by (simp_all add: signer del: trim_prefix_append)
  have f0: "f0 = repo @ CHR ''@'' # d" using *(2) f by (simp add: cut_at_eq)
  moreover have "CHR '' '' \<notin> set f0" using split_all_parts[of f0 "CHR '' ''" p] f by simp
  ultimately have "repo_ok repo" using *(3,4) by (auto simp: repo_ok_def)
  moreover have "p = image_line repo digest signer key"
    using join_split[of "CHR '' ''" p] by (simp add: f f0 digest signer key(3)[symmetric] join_with_def image_line_def)
  ultimately show "\<exists>repo digest signer key. repo_ok repo \<and> isLowerHex digest 64 \<and> isLowerHex signer 40
      \<and> length key = 32 \<and> p = image_line repo digest signer key
        \<and> r = \<lparr>im_Repository = repo, im_Digest = ''sha256:'' @ digest, im_Signer = ''0x'' @ signer,
               im_EncPub = key, im_Index = 0\<rparr>"
    using h2 *(10) f key digest signer
    by - (rule exI[of _ repo], rule exI[of _ digest], rule exI[of _ signer], rule exI[of _ key], simp)
next
  assume "\<exists>repo digest signer key. repo_ok repo \<and> isLowerHex digest 64 \<and> isLowerHex signer 40 \<and> length key = 32
        \<and> p = image_line repo digest signer key
        \<and> r = \<lparr>im_Repository = repo, im_Digest = ''sha256:'' @ digest, im_Signer = ''0x'' @ signer,
               im_EncPub = key, im_Index = 0\<rparr>"
  then obtain repo digest signer key where *: "repo_ok repo" "isLowerHex digest 64" "isLowerHex signer 40"
    "length key = 32" "p = image_line repo digest signer key"
    "r = \<lparr>im_Repository = repo, im_Digest = ''sha256:'' @ digest, im_Signer = ''0x'' @ signer,
               im_EncPub = key, im_Index = 0\<rparr>" by blast
  have "cut_at (CHR ''@'') (repo @ ''@sha256:'' @ digest) = Some (repo, ''sha256:'' @ digest)"
    using *(1) by (auto simp: cut_at_eq repo_ok_def)
  moreover have "isLowerHex (hex_encode key) 64"
    using *(4) hex_encode_lower by (auto simp: isLowerHex_def list_all_iff)
  ultimately show "parseImageUpdate p = Inr r"
    using * trim_prefix_append[of "''sha256:''" digest] trim_prefix_append[of "''0x''" signer]
    by (auto simp: parseImageUpdate_def Let_def image_line_split result_inv repo_ok_def simp del: trim_prefix_append)
qed

section \<open>Facts about the state\<close>

lemma apply_records_append:
  "apply_records st n (xs @ ys) = bind_r (apply_records st n xs) (\<lambda>st'. apply_records st' (n + length xs) ys)"
proof (induction xs arbitrary: st n)
  case (Cons x xs)
  show ?case using Cons.IH by (simp add: Let_def bind_r_assoc)
qed simp

definition last_of :: "string \<Rightarrow> rtmr3Entry list \<Rightarrow> bytes option" where
  "last_of name es =
     (case rev (filter (\<lambda>e. ee_Event (le_entry e) = name) es) of [] \<Rightarrow> None | e # _ \<Rightarrow> Some (le_payload e))"

definition count_of :: "string \<Rightarrow> rtmr3Entry list \<Rightarrow> nat" where
  "count_of name es = length (filter (\<lambda>e. ee_Event (le_entry e) = name) es)"

definition known_records :: "string list" where
  "known_records = [''zg-image-update'', ''zg-config-update'', ''zg-upstream-set'', ''zg-engine-set'',
     ''zg-instance-config-update'']"

lemma last_of_snoc:
  "last_of name (es @ [e]) = (if ee_Event (le_entry e) = name then Some (le_payload e) else last_of name es)"
  by (simp add: last_of_def)

lemma count_of_snoc: "count_of name (es @ [e]) = count_of name es + (if ee_Event (le_entry e) = name then 1 else 0)"
  by (simp add: count_of_def)

text \<open>The state after a list of entries, from the list alone.\<close>

definition state_of :: "rtmr3Entry list \<Rightarrow> RuntimeState \<Rightarrow> bool" where
  "state_of es st \<longleftrightarrow>
     (case last_of ''zg-image-update'' es of
        None \<Rightarrow> st_Image st = None
      | Some p \<Rightarrow> \<exists>r k. parseImageUpdate p = Inr r \<and> st_Image st = Some (r\<lparr>im_Index := k\<rparr>))
     \<and> (case last_of ''zg-config-update'' es of None \<Rightarrow> st_LastConfig st = [] | Some p \<Rightarrow> st_LastConfig st = p)
     \<and> (case last_of ''zg-upstream-set'' es of
          None \<Rightarrow> st_Upstreams st = None
        | Some p \<Rightarrow> \<exists>us. parseUpstreamSet p = Inr us \<and> st_Upstreams st = Some us)
     \<and> st_Engines st = count_of ''zg-engine-set'' es
     \<and> st_ImageUpdates st = count_of ''zg-image-update'' es
     \<and> st_ConfigUpdates st = count_of ''zg-config-update'' es
     \<and> st_Runtime st = length es
     \<and> st_Unknown st =
          filter (\<lambda>n. is_zg n \<and> n \<notin> set known_records) (map (\<lambda>e. ee_Event (le_entry e)) es)"

lemma zg_known: "n \<in> set known_records \<Longrightarrow> is_zg n"
  by (auto simp: known_records_def is_zg_def)

lemma state_of_step:
  assumes "state_of es st" "apply_records st n [e] = Inr st'"
  shows "state_of (es @ [e]) st'"
proof (cases "is_zg (ee_Event (le_entry e))")
  case False
  then have st': "st' = st\<lparr>st_Runtime := st_Runtime st + 1\<rparr>" using assms(2) by (simp add: Let_def)
  have "ee_Event (le_entry e) \<notin> set known_records" using False zg_known by blast
  then show ?thesis
    using assms(1) False
    by (simp add: state_of_def st' last_of_snoc count_of_snoc known_records_def cong: option.case_cong)
next
  case True
  let ?n = "ee_Event (le_entry e)"
  have ap: "apply_record (st\<lparr>st_Runtime := st_Runtime st + 1\<rparr>) n ?n (le_payload e) = Inr st'"
    using assms(2) True by (simp add: Let_def bind_r_eq_Inr)
  note defs = state_of_def last_of_snoc count_of_snoc known_records_def
  consider "?n = ''zg-image-update''" | "?n = ''zg-config-update''" | "?n = ''zg-upstream-set''"
    | "?n = ''zg-engine-set''" | "?n = ''zg-instance-config-update''" | "?n \<notin> set known_records"
    by (auto simp: known_records_def)
  then show ?thesis
  proof cases
    case 1
    then obtain r where "parseImageUpdate (le_payload e) = Inr r"
      "st' = st\<lparr>st_Runtime := st_Runtime st + 1, st_Image := Some (r\<lparr>im_Index := n\<rparr>),
                st_ImageUpdates := st_ImageUpdates st + 1\<rparr>"
      using ap by (auto simp: apply_record_def result_inv)
    then show ?thesis using assms(1) by (auto simp: defs 1 cong: option.case_cong)
  next
    case 2
    then have "st' = st\<lparr>st_Runtime := st_Runtime st + 1, st_LastConfig := le_payload e,
                st_ConfigUpdates := st_ConfigUpdates st + 1\<rparr>"
      using ap by (auto simp: apply_record_def result_inv)
    then show ?thesis using assms(1) by (simp add: defs 2 cong: option.case_cong)
  next
    case 3
    then obtain us where "parseUpstreamSet (le_payload e) = Inr us"
      "st' = st\<lparr>st_Runtime := st_Runtime st + 1, st_Upstreams := Some us\<rparr>"
      using ap by (auto simp: apply_record_def result_inv)
    then show ?thesis using assms(1) by (simp add: defs 3 cong: option.case_cong)
  next
    case 4
    then have "st' = st\<lparr>st_Runtime := st_Runtime st + 1, st_Engines := st_Engines st + 1\<rparr>"
      using ap by (auto simp: apply_record_def result_inv)
    then show ?thesis using assms(1) by (simp add: defs 4 cong: option.case_cong)
  next
    case 5
    then obtain i v where "st' = st\<lparr>st_Runtime := st_Runtime st + 1, st_Instances := mput i v (st_Instances st)\<rparr>"
      using ap by (auto simp: apply_record_def result_inv)
    then show ?thesis using assms(1) by (simp add: defs 5 cong: option.case_cong)
  next
    case 6
    then have "st' = st\<lparr>st_Runtime := st_Runtime st + 1, st_Unknown := st_Unknown st @ [?n]\<rparr>"
      using ap by (auto simp: apply_record_def known_records_def)
    then show ?thesis using assms(1) 6 True by (simp add: defs cong: option.case_cong)
  qed
qed

lemma apply_records_state:
  assumes "apply_records st0 n es = Inr st" "state_of [] st0"
  shows "state_of es st"
  using assms(1)
proof (induction es arbitrary: st rule: rev_induct)
  case (snoc e es)
  then obtain st1 where "apply_records st0 n es = Inr st1" "apply_records st1 (n + length es) [e] = Inr st"
    by (auto simp: apply_records_append bind_r_eq_Inr simp del: apply_records.simps)
  then show ?case using snoc.IH state_of_step by blast
qed (use assms(2) in simp)

section \<open>Properties\<close>

text \<open>What a state that is read says of the log.\<close>

lemma ReadRuntimeState_log:
  assumes "ReadRuntimeState reply q = Inr st"
  shows "\<exists>boot r after. replayRTMR3 reply q = Inr (boot @ r # after) \<and> is_ready r
     \<and> (\<forall>e\<in>set boot. \<not> is_ready e) \<and> state_of after st"
proof -
  obtain l where l: "replayRTMR3 reply q = Inr l"
    using assms by (auto simp: ReadRuntimeState_def bind_r_eq_Inr split: sum.splits)
  let ?b = "takeWhile (\<lambda>e. \<not> is_ready e) l"
  obtain r after where d: "dropWhile (\<lambda>e. \<not> is_ready e) l = r # after"
    using assms l by (cases "dropWhile (\<lambda>e. \<not> is_ready e) l") (auto simp: ReadRuntimeState_def)
  then have "is_ready r" using hd_dropWhile[of "\<lambda>e. \<not> is_ready e" l] by auto
  moreover have "l = ?b @ r # after" using takeWhile_dropWhile_id[of "\<lambda>e. \<not> is_ready e" l] d by simp
  moreover have "\<forall>e\<in>set ?b. \<not> is_ready e" using set_takeWhileD by fast
  moreover have "state_of after st"
  proof (rule apply_records_state)
    show "apply_records (state_zero\<lparr>st_Entries := length l,
        st_Ignored := filter is_zg (map (\<lambda>e. ee_Event (le_entry e)) ?b)\<rparr>) 1 after = Inr st"
      using assms l d by (simp add: ReadRuntimeState_def Let_def)
  qed (simp add: state_of_def state_zero_def last_of_def count_of_def)
  ultimately show ?thesis using l by metis
qed


text \<open>
  What a clean verdict on a running provider means. The check reports nothing, neither a failure
  nor something it could not decide, exactly when the image the records name, if they name one, is an
  accepted release whose signer and encryption key are the ones in report_data; no engine record and
  no unknown record was written; the upstream set was not invalidated; and no instance change
  aborted.
\<close>

theorem CheckRuntime_clean:
  "rc_Failures (CheckRuntime st rels signer encPub) = [] \<and> rc_Unverified (CheckRuntime st rels signer encPub) = []
     \<longleftrightarrow> (\<forall>im. st_Image st = Some im \<longrightarrow>
            rv_Status (VerifyRelease rels (im_Repository im) (im_Digest im)) = ReleaseAccepted
            \<and> equal_fold (im_Signer im) signer \<and> im_EncPub im = encPub)
       \<and> st_Engines st = 0 \<and> st_Unknown st = []
       \<and> (\<forall>us. st_Upstreams st = Some us \<longrightarrow> \<not> us_Invalidated us)
       \<and> (\<forall>i. mget (st_Instances st) i \<noteq> Some ''unknown'')"
proof -
  have d: "dedupe ss = [] \<longleftrightarrow> ss = []" for ss by (cases ss) simp_all
  have m: "filter (\<lambda>i. mget (st_Instances st) i = Some ''unknown'') (mkeys (st_Instances st)) = []
      \<longleftrightarrow> (\<forall>i. mget (st_Instances st) i \<noteq> Some ''unknown'')"
    unfolding filter_empty_conv by (blast dest: mget_in_keys)
  show ?thesis
  proof (cases "st_Image st")
    case None
    then show ?thesis
      by (auto simp: CheckRuntime_def check_image_def Let_def d m split: option.splits)
  next
    case (Some im)
    then show ?thesis
      by (cases "rv_Status (VerifyRelease rels (im_Repository im) (im_Digest im))")
        (auto simp: CheckRuntime_def check_image_def Let_def d m split: option.splits)
  qed
qed

lemma ready_only:
  "ReadRuntimeState (log_reply ((''system-ready'', []) # rs)) (log_register (map log_entry ((''system-ready'', []) # rs)))
     = apply_records (state_zero\<lparr>st_Entries := Suc (length rs)\<rparr>) 1 (map log_entry rs)"
  unfolding ReadRuntimeState_def replay_log_reply
  by (simp add: is_ready_def Let_def state_zero_def)




theorem CheckRuntime_clean_witness:
  "rc_Failures (CheckRuntime state_zero None ''0xab'' []) = [] \<and> rc_Unverified (CheckRuntime state_zero None ''0xab'' []) = []"
  unfolding CheckRuntime_clean by (simp add: state_zero_def mget_def)

end
