(* ===== verification/Evid_Manifest.thy ===== *)
theory Evid_Manifest
  imports Go_Strings
begin

text \<open>
  client/evidence/manifest.go: the checksum manifest of an evidence bundle, the file whose digest a
  cert-binding quote commits to.
\<close>

section \<open>Operations\<close>

datatype merr =
    EscapedName | NotSumLine | BadSeparator | NotDigest | EmptyFilename | PathSeparator
  | DotName | DashName | DuplicateName string | NoEntries | NoCertEntry | NoAccountEntry

definition manifestName :: string where [simp]: "manifestName = ''sha256sum.txt''"
definition quoteName :: string where [simp]: "quoteName = ''quote.json''"
definition accountName :: string where [simp]: "accountName = ''acme-account.json''"

record ManifestEntry =
  me_Name :: string
  me_Digest :: bytes

definition checkBasename :: "string \<Rightarrow> merr + unit" where
  "checkBasename name =
     (if name = [] then Inl EmptyFilename
      else if CHR ''/'' \<in> set name \<or> CHR 0x5C \<in> set name then Inl PathSeparator
      else if name = ''.'' \<or> name = ''..'' then Inl DotName
      else if prefix ''-'' name then Inl DashName
      else Inr ())"

text \<open>One line that is not blank, its carriage returns trimmed.\<close>

definition parse_line :: "bytes \<Rightarrow> merr + ManifestEntry" where
  "parse_line line =
     bind_r (fail_if (prefix [CHR 0x5C] line) EscapedName) (\<lambda>_.
     bind_r (opt_r (cut_at (CHR '' '') line) NotSumLine) (\<lambda>(hexDigest, rest).
     bind_r (case cut_prefix '' '' rest of
               Some n \<Rightarrow> Inr n | None \<Rightarrow> opt_r (cut_prefix ''*'' rest) BadSeparator) (\<lambda>name.
     bind_r (opt_r (hex_decode hexDigest) NotDigest) (\<lambda>raw.
     bind_r (fail_if (length raw \<noteq> 32) NotDigest) (\<lambda>_.
     bind_r (checkBasename name) (\<lambda>_.
     Inr \<lparr>me_Name = name, me_Digest = raw\<rparr>))))))"

fun manifest_lines :: "string set \<Rightarrow> bytes list \<Rightarrow> merr + ManifestEntry list" where
  "manifest_lines seen [] = Inr []"
| "manifest_lines seen (l # ls) =
     (let line = trim_right_char (CHR 0x0D) l in
      if trim_space line = [] then manifest_lines seen ls
      else bind_r (parse_line line) (\<lambda>e.
           bind_r (fail_if (me_Name e \<in> seen) (DuplicateName (me_Name e))) (\<lambda>_.
           bind_r (manifest_lines (insert (me_Name e) seen) ls) (\<lambda>es. Inr (e # es)))))"

definition parseManifest :: "bytes \<Rightarrow> merr + ManifestEntry list" where
  "parseManifest b =
     bind_r (manifest_lines {} (split_all (CHR 0x0A) b)) (\<lambda>entries.
     bind_r (fail_if (length entries = 0) NoEntries) (\<lambda>_. Inr entries))"

definition certName :: "string \<Rightarrow> string" where
  "certName domain = ''cert-'' @ domain @ ''.pem''"

definition requireEntries :: "ManifestEntry list \<Rightarrow> string \<Rightarrow> merr + unit" where
  "requireEntries entries name =
     bind_r (fail_if (certName name \<notin> me_Name ` set entries) NoCertEntry) (\<lambda>_.
     fail_if (accountName \<notin> me_Name ` set entries) NoAccountEntry)"

section \<open>Facts\<close>

text \<open>A name that can only address a file inside the bundle.\<close>

definition plain_name :: "string \<Rightarrow> bool" where
  "plain_name n \<longleftrightarrow> n \<noteq> [] \<and> CHR ''/'' \<notin> set n \<and> CHR 0x5C \<notin> set n \<and> n \<noteq> ''.'' \<and> n \<noteq> ''..''
     \<and> hd n \<noteq> CHR ''-''"

lemma checkBasename_ok: "checkBasename n = Inr () \<longleftrightarrow> plain_name n"
  by (cases n) (auto simp: checkBasename_def plain_name_def)

definition entry_ok :: "ManifestEntry \<Rightarrow> bool" where
  "entry_ok e \<longleftrightarrow> plain_name (me_Name e) \<and> length (me_Digest e) = 32"

lemma parse_line_ok:
  "parse_line line = Inr e \<longleftrightarrow>
     (\<exists>h sep. line = h @ '' '' @ sep @ me_Name e \<and> sep \<in> {'' '', ''*''} \<and> CHR '' '' \<notin> set h
        \<and> \<not> prefix [CHR 0x5C] line \<and> hex_decode h = Some (me_Digest e) \<and> entry_ok e)"
proof
  assume "parse_line line = Inr e"
  then obtain h rest n where *: "\<not> prefix [CHR 0x5C] line" "line = h @ CHR '' '' # rest" "CHR '' '' \<notin> set h"
    "rest = '' '' @ n \<or> rest = ''*'' @ n" "hex_decode h = Some (me_Digest e)"
    "length (me_Digest e) = 32" "checkBasename n = Inr ()" "n = me_Name e"
    by (auto simp: parse_line_def result_inv cut_at_eq cut_prefix_Some split: option.splits)
  then show "\<exists>h sep. line = h @ '' '' @ sep @ me_Name e \<and> sep \<in> {'' '', ''*''} \<and> CHR '' '' \<notin> set h
        \<and> \<not> prefix [CHR 0x5C] line \<and> hex_decode h = Some (me_Digest e) \<and> entry_ok e"
    unfolding entry_ok_def checkBasename_ok by fastforce
next
  assume "\<exists>h sep. line = h @ '' '' @ sep @ me_Name e \<and> sep \<in> {'' '', ''*''} \<and> CHR '' '' \<notin> set h
        \<and> \<not> prefix [CHR 0x5C] line \<and> hex_decode h = Some (me_Digest e) \<and> entry_ok e"
  then obtain h sep where *: "line = h @ CHR '' '' # sep @ me_Name e" "sep \<in> {'' '', ''*''}" "CHR '' '' \<notin> set h"
    "\<not> prefix [CHR 0x5C] line" "hex_decode h = Some (me_Digest e)" "entry_ok e" by auto
  have "cut_at (CHR '' '') line = Some (h, sep @ me_Name e)" using *(1,3) by (simp add: cut_at_eq)
  moreover have "(case cut_prefix '' '' (sep @ me_Name e) of
      Some n \<Rightarrow> Inr n | None \<Rightarrow> opt_r (cut_prefix ''*'' (sep @ me_Name e)) BadSeparator) = Inr (me_Name e)"
    using *(2) by (auto simp: cut_prefix_def)
  moreover have "checkBasename (me_Name e) = Inr ()" "length (me_Digest e) = 32"
    using *(6) by (simp_all add: entry_ok_def checkBasename_ok)
  ultimately show "parse_line line = Inr e" using *(4,5) by (simp add: parse_line_def)
qed

lemma manifest_lines_sound:
  "manifest_lines seen ls = Inr es \<Longrightarrow>
     distinct (map me_Name es) \<and> seen \<inter> me_Name ` set es = {} \<and> list_all entry_ok es"
proof (induction ls arbitrary: seen es)
  case (Cons l ls)
  show ?case
  proof (cases "trim_space (trim_right_char (CHR 0x0D) l) = []")
    case False
    then obtain e es' where e: "parse_line (trim_right_char (CHR 0x0D) l) = Inr e" "me_Name e \<notin> seen"
      "manifest_lines (insert (me_Name e) seen) ls = Inr es'" "es = e # es'"
      using Cons.prems by (auto simp: Let_def result_inv)
    from e(1) have "entry_ok e" unfolding parse_line_ok by blast
    with Cons.IH[OF e(3)] e(2,4) show ?thesis by auto
  qed (use Cons in simp)
qed simp

text \<open>What \<open>sha256sum\<close> writes.\<close>

definition sum_line :: "ManifestEntry \<Rightarrow> bytes" where
  "sum_line e = hex_encode (me_Digest e) @ ''  '' @ me_Name e @ [CHR 0x0A]"

definition one_line :: "string \<Rightarrow> bool" where
  "one_line n \<longleftrightarrow> CHR 0x0A \<notin> set n \<and> last n \<noteq> CHR 0x0D"

lemma sum_line_parses:
  assumes "entry_ok e"
  shows "parse_line (hex_encode (me_Digest e) @ ''  '' @ me_Name e) = Inr e"
    and "trim_space (hex_encode (me_Digest e) @ ''  '' @ me_Name e) \<noteq> []"
proof -
  let ?h = "hex_encode (me_Digest e)"
  have len: "length ?h = 64" using assms by (simp add: entry_ok_def)
  then obtain c r where h: "?h = c # r" by (cases ?h) auto
  have hex: "is_lower_hex x" if "x \<in> set ?h" for x using hex_encode_lower that by blast
  have sp: "CHR '' '' \<notin> set ?h" using hex[of "CHR '' ''"] by (auto simp: is_lower_hex_def Let_def)
  have "c \<noteq> CHR 0x5C" using hex[of c] h by (auto simp: is_lower_hex_def Let_def)
  then have np: "\<not> prefix [CHR 0x5C] (?h @ ''  '' @ me_Name e)" using h by simp
  show "parse_line (?h @ ''  '' @ me_Name e) = Inr e"
    unfolding parse_line_ok
    by (rule exI[of _ ?h], rule exI[of _ "'' ''"]) (use assms np sp in simp)
  have "c \<in> set (?h @ ''  '' @ me_Name e)" using h by simp
  then show "trim_space (?h @ ''  '' @ me_Name e) \<noteq> []"
    by (rule trim_space_keeps) (rule lower_hex_not_space[OF hex], simp add: h)
qed

lemma split_sum_lines:
  "list_all entry_ok es \<Longrightarrow> list_all (one_line \<circ> me_Name) es \<Longrightarrow>
   split_all (CHR 0x0A) (concat (map sum_line es))
     = map (\<lambda>e. hex_encode (me_Digest e) @ ''  '' @ me_Name e) es @ [[]]"
proof (induction es)
  case (Cons e es)
  let ?l = "hex_encode (me_Digest e) @ ''  '' @ me_Name e"
  have "CHR 0x0A \<notin> set (hex_encode (me_Digest e))"
    using hex_encode_lower[of "CHR 0x0A"] by (auto simp: is_lower_hex_def Let_def)
  then have l: "CHR 0x0A \<notin> set ?l" using Cons.prems(2) by (simp add: one_line_def)
  have "concat (map sum_line (e # es)) = ?l @ CHR 0x0A # concat (map sum_line es)"
    by (simp add: sum_line_def)
  then have "split_all (CHR 0x0A) (concat (map sum_line (e # es)))
      = ?l # split_all (CHR 0x0A) (concat (map sum_line es))"
    by (simp only: split_all_append[OF l])
  then show ?case using Cons by simp
qed simp

lemma manifest_lines_sum:
  "list_all entry_ok es \<Longrightarrow> list_all (one_line \<circ> me_Name) es \<Longrightarrow> distinct (map me_Name es) \<Longrightarrow>
   seen \<inter> me_Name ` set es = {} \<Longrightarrow>
   manifest_lines seen (map (\<lambda>e. hex_encode (me_Digest e) @ ''  '' @ me_Name e) es @ [[]]) = Inr es"
proof (induction es arbitrary: seen)
  case Nil
  have "trim_space [] = []" by code_simp
  then show ?case by (simp add: trim_right_char_def)
next
  case (Cons e es)
  let ?l = "hex_encode (me_Digest e) @ ''  '' @ me_Name e"
  have ok: "entry_ok e" "one_line (me_Name e)" using Cons.prems by simp_all
  then have "me_Name e \<noteq> []" by (simp add: entry_ok_def plain_name_def)
  then have "trim_right_char (CHR 0x0D) ?l = ?l"
    using ok(2) by (intro trim_right_char_id) (simp add: one_line_def)
  moreover have "manifest_lines (insert (me_Name e) seen)
      (map (\<lambda>e. hex_encode (me_Digest e) @ ''  '' @ me_Name e) es @ [[]]) = Inr es"
    using Cons.prems by (intro Cons.IH) auto
  moreover have "me_Name e \<notin> seen" using Cons.prems(4) by auto
  ultimately show ?case
    using sum_line_parses[OF ok(1)] by (simp add: Let_def)
qed

lemma parse_sum_lines:
  assumes "es \<noteq> []" "distinct (map me_Name es)" "list_all entry_ok es" "list_all (one_line \<circ> me_Name) es"
  shows "parseManifest (concat (map sum_line es)) = Inr es"
  using manifest_lines_sum[OF assms(3,4,2), of "{}"] assms
  by (simp add: parseManifest_def split_sum_lines)

text \<open>
  The manifest reads back as what was hashed, and names nothing outside the bundle. What
  \<open>sha256sum\<close> writes over distinct plain file names parses to exactly those names and digests; and
  whatever text is accepted, the names are distinct, each is a plain file name that no path
  separator or dot segment can redirect, and each digest has 32 bytes.
\<close>

theorem parseManifest_sum_lines:
  "(es \<noteq> [] \<and> distinct (map me_Name es) \<and> list_all entry_ok es \<and> list_all (one_line \<circ> me_Name) es
          \<longrightarrow> parseManifest (concat (map sum_line es)) = Inr es)
     \<and> (parseManifest b = Inr fs \<longrightarrow> fs \<noteq> [] \<and> distinct (map me_Name fs) \<and> list_all entry_ok fs)"
proof (intro conjI impI; (elim conjE)?)
  assume "es \<noteq> []" "distinct (map me_Name es)" "list_all entry_ok es" "list_all (one_line \<circ> me_Name) es"
  then show "parseManifest (concat (map sum_line es)) = Inr es" by (rule parse_sum_lines)
next
  assume "parseManifest b = Inr fs"
  then show "fs \<noteq> []" "distinct (map me_Name fs)" "list_all entry_ok fs"
    using manifest_lines_sound[of "{}" _ fs] by (auto simp: parseManifest_def result_inv)
qed

theorem parseManifest_sum_lines_witness:
  "parseManifest (sum_line \<lparr>me_Name = ''cert-a.pem'', me_Digest = replicate 32 (CHR 0x07)\<rparr>)
     = Inr [\<lparr>me_Name = ''cert-a.pem'', me_Digest = replicate 32 (CHR 0x07)\<rparr>]"
  using parseManifest_sum_lines[THEN conjunct1, of "[\<lparr>me_Name = ''cert-a.pem'', me_Digest = replicate 32 (CHR 0x07)\<rparr>]"]
  by (simp add: entry_ok_def plain_name_def one_line_def)

end
