(* ===== verification/Evid_Boot.thy ===== *)
theory Evid_Boot
  imports Evid_Replay Go_Map
begin

text \<open>
  client/evidence/mrconfig.go: the boot entries of a replayed event log, the documents a version-3
  mr_config_id can commit to, and the compose hash read out of either version of the register.
\<close>

section \<open>Data\<close>

definition mrConfigV3Domain :: string where [simp]: "mrConfigV3Domain = ''dstack-mr-config-v3:''"

definition evAppID :: string where [simp]: "evAppID = ''app-id''"
definition evComposeHash :: string where [simp]: "evComposeHash = ''compose-hash''"
definition evInitScriptHash :: string where [simp]: "evInitScriptHash = ''init-script-hash''"
definition evGPUPolicyHash :: string where [simp]: "evGPUPolicyHash = ''gpu-policy-hash''"
definition evInstanceID :: string where [simp]: "evInstanceID = ''instance-id''"
definition evKeyProvider :: string where [simp]: "evKeyProvider = ''key-provider''"

definition keyProviderKinds :: "string \<Rightarrow> string option" where
  "keyProviderKinds = map_of
     [(''none'', ''none''), (''kms'', ''kms''), (''local-sgx'', ''local''), (''tpm'', ''tpm'')]"

datatype berr =
    BootTwice string | KeyProviderJSON | KeyProviderName string | KeyProviderID | BootNotReady
  | BootComposeHash nat | NoKeyProvider

record bootLog =
  bl_appID :: bytes
  bl_composeHash :: bytes
  bl_gpuPolicyHash :: bytes
  bl_instanceID :: bytes
  bl_haveGPUPolicyHash :: bool
  bl_initScriptHashes :: "bytes list"
  bl_keyProvider :: string
  bl_keyProviderID :: string

definition boot_zero :: bootLog where
  "boot_zero = \<lparr>bl_appID = [], bl_composeHash = [], bl_gpuPolicyHash = [], bl_instanceID = [],
     bl_haveGPUPolicyHash = False, bl_initScriptHashes = [], bl_keyProvider = [], bl_keyProviderID = []\<rparr>"

section \<open>Reading the boot entries\<close>

definition once_events :: "string list" where
  "once_events = [evAppID, evComposeHash, evGPUPolicyHash, evInstanceID, evKeyProvider]"

definition key_provider :: "json \<Rightarrow> (string \<times> string) option" where
  "key_provider v =
     decode_struct [''name'', ''id'']
       (\<lambda>k x (a, b). if k = ''name'' then map_option (\<lambda>s. (s, b)) (str_into x a)
                      else map_option (\<lambda>s. (a, s)) (str_into x b)) ([], []) v"

definition boot_event :: "bootLog \<Rightarrow> rtmr3Entry \<Rightarrow> berr + bootLog" where
  "boot_event b e =
     (let name = ee_Event (le_entry e); payload = le_payload e in
      if name = evAppID then Inr (b\<lparr>bl_appID := payload\<rparr>)
      else if name = evComposeHash then Inr (b\<lparr>bl_composeHash := payload\<rparr>)
      else if name = evGPUPolicyHash then Inr (b\<lparr>bl_gpuPolicyHash := payload, bl_haveGPUPolicyHash := True\<rparr>)
      else if name = evInstanceID then Inr (b\<lparr>bl_instanceID := payload\<rparr>)
      else if name = evInitScriptHash then Inr (b\<lparr>bl_initScriptHashes := bl_initScriptHashes b @ [payload]\<rparr>)
      else if name = evKeyProvider then
        bind_r (opt_r (Option.bind (json_parse payload) key_provider) KeyProviderJSON) (\<lambda>(n, i).
        bind_r (opt_r (keyProviderKinds n) (KeyProviderName n)) (\<lambda>kind.
        bind_r (opt_r (hex_decode i) KeyProviderID) (\<lambda>_.
        Inr (b\<lparr>bl_keyProvider := kind, bl_keyProviderID := i\<rparr>))))
      else Inr b)"

text \<open>The loop up to system-ready; the flag is whether that entry was met.\<close>

fun boot_loop :: "bootLog \<Rightarrow> string list \<Rightarrow> rtmr3Entry list \<Rightarrow> berr + bootLog \<times> bool" where
  "boot_loop b seen [] = Inr (b, False)"
| "boot_loop b seen (e # es) =
     (let name = ee_Event (le_entry e) in
      if name = ''system-ready'' then Inr (b, True)
      else bind_r (fail_if (name \<in> set once_events \<and> name \<in> set seen) (BootTwice name)) (\<lambda>_.
           bind_r (boot_event b e) (\<lambda>b'.
           boot_loop b' (if name \<in> set once_events then name # seen else seen) es)))"

definition bootEvents :: "rtmr3Entry list \<Rightarrow> berr + bootLog" where
  "bootEvents lg =
     bind_r (boot_loop boot_zero [] lg) (\<lambda>(b, ready).
     bind_r (fail_if (\<not> ready) BootNotReady) (\<lambda>_.
     bind_r (fail_if (length (bl_composeHash b) \<noteq> ComposeHashLen)
               (BootComposeHash (length (bl_composeHash b)))) (\<lambda>_.
     bind_r (fail_if (bl_keyProvider b = []) NoKeyProvider) (\<lambda>_. Inr b))))"

section \<open>The version-3 documents\<close>

definition jcs :: "json gomap \<Rightarrow> bytes" where
  "jcs doc = json_print (JObj doc)"

definition optional_fields :: "bootLog \<Rightarrow> (string \<times> json) list" where
  "optional_fields b =
     (if bl_appID b \<noteq> [] then [(''app_id'', JStr (hex_encode (bl_appID b)))] else [])
     @ (if bl_haveGPUPolicyHash b then [(''gpu_policy_hash'', JStr (hex_encode (bl_gpuPolicyHash b)))] else [])
     @ (if bl_keyProviderID b \<noteq> [] then [(''key_provider_id'', JStr (bl_keyProviderID b))] else [])
     @ [(''init_script_hashes'', str_array (map hex_encode (bl_initScriptHashes b)))]"

text \<open>The document that contains the optional field number \<open>i\<close> where bit \<open>i\<close> of the mask is set.\<close>

definition v3_document :: "bootLog \<Rightarrow> nat \<Rightarrow> json gomap" where
  "v3_document b sel =
     (let base = mput ''key_provider'' (JStr (bl_keyProvider b))
                  (mput ''compose_hash'' (JStr (hex_encode (bl_composeHash b)))
                  (mput ''version'' (JNum ''3'') []));
          doc = (if bl_instanceID b \<noteq> [] then mput ''instance_id'' (JStr (hex_encode (bl_instanceID b))) base
                 else base)
      in fold (\<lambda>(i, k, v) d. if bit sel i then mput k v d else d)
           (zip [0..<length (optional_fields b)] (optional_fields b)) doc)"

definition v3Candidates :: "bootLog \<Rightarrow> bytes list" where
  "v3Candidates b = map (\<lambda>sel. jcs (v3_document b sel)) [0..<2 ^ length (optional_fields b)]"

definition v3_preimage :: "bytes \<Rightarrow> bytes" where
  "v3_preimage document = mrConfigV3Domain @ [CHR 0x00] @ document"

definition mrConfigIDV3 :: "bytes \<Rightarrow> bytes" where
  "mrConfigIDV3 document = CHR 0x03 # sha256 (v3_preimage document) @ zeros 15"

section \<open>The compose hash\<close>

datatype cherr = MRConfigV1Err aerr | V3Log lerr | V3Boot berr | V3NoDocument nat

definition ComposeHashOf :: "bytes \<Rightarrow> bytes \<Rightarrow> bytes \<Rightarrow> cherr + bytes" where
  "ComposeHashOf mrConfigID reply rtmr3 =
     (if mrConfigID ! 0 \<noteq> CHR 0x03 then
        (case ComposeHashFromMRConfigID mrConfigID of Inl e \<Rightarrow> Inl (MRConfigV1Err e) | Inr h \<Rightarrow> Inr h)
      else
        bind_r (case replayRTMR3 reply rtmr3 of Inl e \<Rightarrow> Inl (V3Log e) | Inr l \<Rightarrow> Inr l) (\<lambda>l.
        bind_r (case bootEvents l of Inl e \<Rightarrow> Inl (V3Boot e) | Inr b \<Rightarrow> Inr b) (\<lambda>ev.
        let docs = v3Candidates ev in
        if list_ex (\<lambda>doc. mrConfigIDV3 doc = mrConfigID) docs then Inr (bl_composeHash ev)
        else Inl (V3NoDocument (length docs)))))"

datatype iderr = IDLog lerr | IDBoot berr | IDLength nat

definition LoggedAppID :: "bytes \<Rightarrow> bytes \<Rightarrow> iderr + string" where
  "LoggedAppID reply rtmr3 =
     bind_r (case replayRTMR3 reply rtmr3 of Inl e \<Rightarrow> Inl (IDLog e) | Inr l \<Rightarrow> Inr l) (\<lambda>l.
     bind_r (case bootEvents l of Inl e \<Rightarrow> Inl (IDBoot e) | Inr b \<Rightarrow> Inr b) (\<lambda>ev.
     bind_r (fail_if (length (bl_appID ev) \<noteq> AppIDLen) (IDLength (length (bl_appID ev)))) (\<lambda>_.
     Inr (hex_encode (bl_appID ev)))))"

section \<open>Facts\<close>

lemma boot_event_compose:
  "boot_event b e = Inr b' \<Longrightarrow>
   bl_composeHash b' = (if ee_Event (le_entry e) = ''compose-hash'' then le_payload e else bl_composeHash b)"
  by (auto simp: boot_event_def Let_def result_inv split: if_splits)

definition compose_entries :: "rtmr3Entry list \<Rightarrow> bytes list" where
  "compose_entries lg =
     map le_payload (filter (\<lambda>e. ee_Event (le_entry e) = ''compose-hash'')
       (takeWhile (\<lambda>e. ee_Event (le_entry e) \<noteq> ''system-ready'') lg))"

lemma boot_loop_compose:
  assumes "boot_loop b seen lg = Inr (b', True)"
  shows "(compose_entries lg = [] \<and> bl_composeHash b' = bl_composeHash b)
     \<or> (compose_entries lg = [bl_composeHash b'] \<and> ''compose-hash'' \<notin> set seen)"
  using assms
proof (induction b seen lg rule: boot_loop.induct)
  case (2 b seen e es)
  let ?n = "ee_Event (le_entry e)" and ?s = "if ee_Event (le_entry e) \<in> set once_events then ee_Event (le_entry e) # seen else seen"
  show ?case
  proof (cases "?n = ''system-ready''")
    case True
    then show ?thesis using 2(2) by (simp add: compose_entries_def)
  next
    case False
    then obtain b1 where b1: "\<not> (?n \<in> set once_events \<and> ?n \<in> set seen)" "boot_event b e = Inr b1"
      "boot_loop b1 ?s es = Inr (b', True)"
      using 2(2) by (auto simp: Let_def result_inv)
    have IH: "(compose_entries es = [] \<and> bl_composeHash b' = bl_composeHash b1)
     \<or> (compose_entries es = [bl_composeHash b'] \<and> ''compose-hash'' \<notin> set ?s)"
      using 2(1)[OF refl False _ b1(2,3)] b1(1) by simp
    show ?thesis
    proof (cases "?n = ''compose-hash''")
      case True
      then have "''compose-hash'' \<in> set once_events" by (simp add: once_events_def)
      with True IH b1 boot_event_compose[OF b1(2)] show ?thesis by (auto simp: compose_entries_def)
    next
      case False
      with IH \<open>?n \<noteq> ''system-ready''\<close> boot_event_compose[OF b1(2)] show ?thesis
        by (auto simp: compose_entries_def split: if_splits)
    qed
  qed
qed simp

lemma bootEvents_compose:
  assumes "bootEvents lg = Inr b"
  shows "compose_entries lg = [bl_composeHash b] \<and> length (bl_composeHash b) = 32"
proof -
  have "boot_loop boot_zero [] lg = Inr (b, True)" "length (bl_composeHash b) = 32"
    using assms by (auto simp: bootEvents_def result_inv)
  with boot_loop_compose[OF this(1)] show ?thesis by (auto simp: boot_zero_def)
qed

lemma optional_keys:
  "(k, v) \<in> set (optional_fields b) \<Longrightarrow> k \<noteq> ''compose_hash'' \<and> json_ok v"
  by (auto simp: optional_fields_def str_array_def split: if_splits)

lemma v3_fold_hash:
  assumes "mwf d" "\<forall>x\<in>set fs. fst (snd x) \<noteq> ''compose_hash''"
  shows "mget (fold (\<lambda>(i, k, v) d. if bit sel i then mput k v d else d) fs d) ''compose_hash'' = mget d ''compose_hash''"
  using assms
proof (induction fs arbitrary: d)
  case (Cons f fs)
  then show ?case by (cases f) (auto simp: mwf_mput mget_mput)
qed simp

lemma v3_document_hash:
  "mget (v3_document b sel) ''compose_hash'' = Some (JStr (hex_encode (bl_composeHash b)))"
proof -
  have "\<forall>x\<in>set (zip [0..<length (optional_fields b)] (optional_fields b)). fst (snd x) \<noteq> ''compose_hash''"
    using optional_keys by (auto dest!: set_zip_rightD)
  then show ?thesis
    unfolding v3_document_def Let_def
    by (subst v3_fold_hash) (auto simp: mwf_mput mget_mput simp del: mput.simps)
qed

lemma set_mput: "set (mput k v m) \<subseteq> insert (k, v) (set m)"
  by (induction k v m rule: mput.induct) auto

lemma json_ok_put:
  "json_ok (JObj m) \<Longrightarrow> json_ok v \<Longrightarrow> json_ok (JObj (mput k v m))"
  using set_mput[of k v m] by fastforce

lemma json_ok_fold:
  "json_ok (JObj d) \<Longrightarrow> \<forall>x\<in>set fs. json_ok (snd (snd x)) \<Longrightarrow>
   json_ok (JObj (fold (\<lambda>(i, k, v) d. if bit sel i then mput k v d else d) fs d))"
proof (induction fs arbitrary: d)
  case (Cons f fs)
  then show ?case using json_ok_put by (cases f) (auto simp del: json_ok.simps)
qed simp

lemma v3_document_ok: "json_ok (JObj (v3_document b sel))"
proof -
  have "\<forall>x\<in>set (zip [0..<length (optional_fields b)] (optional_fields b)). json_ok (snd (snd x))"
    using optional_keys by (auto dest!: set_zip_rightD simp del: json_ok.simps)
  moreover have "json_ok (JStr t)" "json_ok (JNum ''3'')" "json_ok (JObj [])" for t by simp_all
  ultimately show ?thesis
    unfolding v3_document_def Let_def
    by (intro json_ok_fold) (auto intro!: json_ok_put simp del: json_ok.simps mput.simps)
qed

text \<open>The document determines the compose hash.\<close>

lemma jcs_hash:
  assumes "jcs (v3_document b sel) = jcs (v3_document b' sel')"
  shows "bl_composeHash b = bl_composeHash b'"
proof -
  have "v3_document b sel = v3_document b' sel'"
    using json_codec.enc_inj[OF v3_document_ok v3_document_ok] assms unfolding jcs_def by blast
  then have "hex_encode (bl_composeHash b) = hex_encode (bl_composeHash b')"
    using v3_document_hash[of b sel] v3_document_hash[of b' sel'] by simp
  then show ?thesis by (metis hex_decode_encode option.inject)
qed

text \<open>The messages hashed when a version-3 register is compared: one for each document of the log.\<close>

definition v3_inputs :: "bytes \<Rightarrow> bytes \<Rightarrow> bytes list" where
  "v3_inputs reply rtmr3 =
     (case replayRTMR3 reply rtmr3 of
        Inl _ \<Rightarrow> []
      | Inr l \<Rightarrow> (case bootEvents l of Inl _ \<Rightarrow> [] | Inr b \<Rightarrow> map v3_preimage (v3Candidates b)))"

lemma ComposeHashOf_v3:
  assumes "ComposeHashOf cfg reply q = Inr h" "cfg ! 0 = CHR 0x03"
  shows "\<exists>lg b sel. replayRTMR3 reply q = Inr lg \<and> bootEvents lg = Inr b \<and> h = bl_composeHash b
     \<and> sel < 2 ^ length (optional_fields b) \<and> cfg = mrConfigIDV3 (jcs (v3_document b sel))
     \<and> v3_preimage (jcs (v3_document b sel)) \<in> set (v3_inputs reply q)"
proof -
  obtain lg where lg: "replayRTMR3 reply q = Inr lg"
    using assms by (cases "replayRTMR3 reply q") (auto simp: ComposeHashOf_def)
  obtain b where b: "bootEvents lg = Inr b"
    using assms lg by (cases "bootEvents lg") (auto simp: ComposeHashOf_def)
  have "list_ex (\<lambda>doc. mrConfigIDV3 doc = cfg) (v3Candidates b) \<and> h = bl_composeHash b"
    using assms lg b by (simp add: ComposeHashOf_def Let_def split: if_splits)
  then obtain doc where doc: "doc \<in> set (v3Candidates b)" "cfg = mrConfigIDV3 doc" "h = bl_composeHash b"
    unfolding list_ex_iff by blast
  then obtain sel where sel: "sel < 2 ^ length (optional_fields b)" "doc = jcs (v3_document b sel)"
    unfolding v3Candidates_def set_map set_upt by (elim imageE) (rule that, simp_all only: atLeastLessThan_iff)
  have "v3_preimage doc \<in> set (v3_inputs reply q)"
    using doc(1) by (simp add: v3_inputs_def lg b)
  then show ?thesis using lg b doc sel by blast
qed

lemma ComposeHashFromMRConfigID_length:
  assumes "length cfg = 48" "ComposeHashFromMRConfigID cfg = Inr h"
  shows "length h = 32"
proof -
  have "h = go_slice 1 (1 + ComposeHashLen) cfg"
    using assms(2) unfolding ComposeHashFromMRConfigID_def Let_def bind_r_eq_Inr by (elim exE conjE) simp
  then show ?thesis using assms(1) unfolding go_slice_def by simp
qed

text \<open>
  C21: The register mr_config_id commits to the compose hash, in either version. Two replies checked
  against the same register give the same compose hash of 32 bytes, whatever event logs they carry
  and whatever RTMR3 those replay to, unless the two lists of version-3 documents exhibit a
  collision of SHA-256; and under version 3 the hash is the payload of the one compose-hash entry
  before system-ready in the replayed log.
\<close>

theorem ComposeHashOf_committed:
  assumes "length cfg = 48" "ComposeHashOf cfg reply q = Inr h" "ComposeHashOf cfg reply' q' = Inr h'"
  shows "(h = h' \<or> clash sha256 (v3_inputs reply q) (v3_inputs reply' q')) \<and> length h = 32
     \<and> (cfg ! 0 = CHR 0x03 \<longrightarrow> (\<exists>lg. replayRTMR3 reply q = Inr lg \<and> compose_entries lg = [h]))"
proof (cases "cfg ! 0 = CHR 0x03")
  case False
  then have "ComposeHashFromMRConfigID cfg = Inr h" "ComposeHashFromMRConfigID cfg = Inr h'"
    using assms(2,3) unfolding ComposeHashOf_def by (simp_all split: sum.splits)
  moreover from this(1) have "length h = 32"
    using ComposeHashFromMRConfigID_length[OF assms(1)] by blast
  ultimately show ?thesis using False by simp
next
  case True
  obtain lg b s where b: "replayRTMR3 reply q = Inr lg" "bootEvents lg = Inr b" "h = bl_composeHash b"
    "cfg = mrConfigIDV3 (jcs (v3_document b s))" "v3_preimage (jcs (v3_document b s)) \<in> set (v3_inputs reply q)"
    using ComposeHashOf_v3[OF assms(2) True] by blast
  obtain b' s' where b': "h' = bl_composeHash b'" "cfg = mrConfigIDV3 (jcs (v3_document b' s'))"
    "v3_preimage (jcs (v3_document b' s')) \<in> set (v3_inputs reply' q')"
    using ComposeHashOf_v3[OF assms(3) True] by blast
  have "mrConfigIDV3 (jcs (v3_document b s)) = mrConfigIDV3 (jcs (v3_document b' s'))" using b(4) b'(2) by (rule subst)
  then have eq: "sha256 (v3_preimage (jcs (v3_document b s))) = sha256 (v3_preimage (jcs (v3_document b' s')))"
    by (simp add: mrConfigIDV3_def)
  have "h = h' \<or> clash sha256 (v3_inputs reply q) (v3_inputs reply' q')"
  proof (cases "v3_preimage (jcs (v3_document b s)) = v3_preimage (jcs (v3_document b' s'))")
    case True
    then have "jcs (v3_document b s) = jcs (v3_document b' s')" by (simp add: v3_preimage_def)
    then show ?thesis using jcs_hash b(3) b'(1) by blast
  next
    case False
    then show ?thesis using eq b(5) b'(3) unfolding clash_def by blast
  qed
  then show ?thesis using bootEvents_compose[OF b(2)] b(1,3) by blast
qed

text \<open>A log for a version-3 register.\<close>

definition demo_boot :: bootLog where
  "demo_boot = boot_zero\<lparr>bl_composeHash := replicate 32 (CHR ''h''), bl_keyProvider := ''kms''\<rparr>"

definition demo_kp :: json where
  "demo_kp = JObj [(''name'', JStr ''kms''), (''id'', JStr [])]"

definition demo_boot_log :: "(string \<times> bytes) list" where
  "demo_boot_log = [(''compose-hash'', replicate 32 (CHR ''h'')), (''key-provider'', json_print demo_kp),
     (''system-ready'', [])]"

lemma demo_bootEvents: "bootEvents (map log_entry demo_boot_log) = Inr demo_boot"
proof -
  have "json_parse (json_print demo_kp) = Some demo_kp" by (rule json_parse_print) (simp add: demo_kp_def)
  moreover have "key_provider demo_kp = Some (''kms'', [])"
    by (simp add: key_provider_def demo_kp_def decode_struct_def struct_field_exact str_into_def)
  ultimately show ?thesis
    by (simp add: bootEvents_def demo_boot_log_def boot_event_def once_events_def Let_def keyProviderKinds_def
        demo_boot_def boot_zero_def del: replicate.simps)
qed

lemma demo_compose_hash:
  "ComposeHashOf (mrConfigIDV3 (jcs (v3_document demo_boot 0))) (log_reply demo_boot_log)
     (log_register (map log_entry demo_boot_log)) = Inr (replicate 32 (CHR ''h''))"
proof -
  have "jcs (v3_document demo_boot 0) \<in> set (v3Candidates demo_boot)"
    unfolding v3Candidates_def by (simp only: set_map set_upt) (rule imageI, simp)
  then have l: "list_ex (\<lambda>doc. mrConfigIDV3 doc = mrConfigIDV3 (jcs (v3_document demo_boot 0))) (v3Candidates demo_boot)"
    unfolding list_ex_iff by blast
  have v3: "mrConfigIDV3 doc ! 0 = CHR 0x03" for doc by (simp add: mrConfigIDV3_def)
  show ?thesis
    unfolding ComposeHashOf_def v3 replay_log_reply using l demo_bootEvents
    by (simp add: Let_def demo_boot_def)
qed

theorem ComposeHashOf_committed_witness:
  "\<exists>lg. replayRTMR3 (log_reply demo_boot_log) (log_register (map log_entry demo_boot_log)) = Inr lg
     \<and> compose_entries lg = [replicate 32 (CHR ''h'')]"
proof -
  have "length (mrConfigIDV3 (jcs (v3_document demo_boot 0))) = 48" by (simp add: mrConfigIDV3_def)
  from ComposeHashOf_committed[OF this demo_compose_hash demo_compose_hash]
  show ?thesis by (simp add: mrConfigIDV3_def)
qed

end
