(* ===== verification/Evid_Images.thy ===== *)
theory Evid_Images
  imports Attest_Verify Go_Strings
begin

text \<open>
  client/evidence/osimage.go and brokerimage.go: the allowlist of OS images and the judgement of a
  boot chain; client/evidence/imageorigin.go: whose image a reference names.
\<close>

section \<open>Lower case\<close>

text \<open>
  \<open>strings.ToLower\<close> as far as it decides equality with an ASCII text: two letters outside ASCII
  have an ASCII lower case, U+0130 (to i) and the Kelvin sign U+212A (to k).
\<close>

fun lower_text :: "bytes \<Rightarrow> bytes" where
  "lower_text s =
     (case s of [] \<Rightarrow> []
      | c # r \<Rightarrow>
          if prefix [CHR 0xC4, CHR 0xB0] s then CHR ''i'' # lower_text (drop 2 s)
          else if prefix [CHR 0xE2, CHR 0x84, CHR 0xAA] s then CHR ''k'' # lower_text (drop 3 s)
          else lower_char c # lower_text r)"

declare lower_text.simps [simp del]

section \<open>The OS-image allowlist\<close>

record OSImage =
  oi_Name :: string
  oi_OSImageHash :: string
  oi_BootChain :: BootChain

record osImageEntry =
  oe_Name :: string
  oe_OSImageHash :: string
  oe_MRTD :: string
  oe_RTMR1 :: string
  oe_RTMR2 :: string

datatype oerr =
    OSImagesJSON | OSImageName nat | OSRegisterHex nat string | OSRegisterLength nat string nat | OSImageZero nat

definition os_set :: "string \<Rightarrow> json \<Rightarrow> osImageEntry \<Rightarrow> osImageEntry option" where
  "os_set k x e =
     (if k = ''name'' then map_option (\<lambda>s. e\<lparr>oe_Name := s\<rparr>) (str_into x (oe_Name e))
      else if k = ''os_image_hash'' then map_option (\<lambda>s. e\<lparr>oe_OSImageHash := s\<rparr>) (str_into x (oe_OSImageHash e))
      else if k = ''mrtd'' then map_option (\<lambda>s. e\<lparr>oe_MRTD := s\<rparr>) (str_into x (oe_MRTD e))
      else if k = ''rtmr1'' then map_option (\<lambda>s. e\<lparr>oe_RTMR1 := s\<rparr>) (str_into x (oe_RTMR1 e))
      else if k = ''rtmr2'' then map_option (\<lambda>s. e\<lparr>oe_RTMR2 := s\<rparr>) (str_into x (oe_RTMR2 e))
      else Some e)"

definition os_entry :: "json \<Rightarrow> osImageEntry option" where
  "os_entry =
     decode_struct [''name'', ''os_image_hash'', ''mrtd'', ''rtmr1'', ''rtmr2''] os_set
       \<lparr>oe_Name = [], oe_OSImageHash = [], oe_MRTD = [], oe_RTMR1 = [], oe_RTMR2 = []\<rparr>"

definition os_file :: "json \<Rightarrow> osImageEntry list option" where
  "os_file =
     decode_struct [''images''] (\<lambda>_ x _. Option.bind (as_array x) (\<lambda>vs. opt_all (map os_entry vs))) []"

definition os_register :: "nat \<Rightarrow> string \<Rightarrow> string \<Rightarrow> oerr + bytes" where
  "os_register i name h =
     bind_r (opt_r (hex_decode (trim_space h)) (OSRegisterHex i name)) (\<lambda>b.
     bind_r (fail_if (length b \<noteq> measurementRegLen) (OSRegisterLength i name (length b))) (\<lambda>_. Inr b))"

definition os_image :: "nat \<Rightarrow> osImageEntry \<Rightarrow> oerr + OSImage" where
  "os_image i e =
     bind_r (fail_if (trim_space (oe_Name e) = []) (OSImageName i)) (\<lambda>_.
     bind_r (os_register i ''mrtd'' (oe_MRTD e)) (\<lambda>m.
     bind_r (os_register i ''rtmr1'' (oe_RTMR1 e)) (\<lambda>r1.
     bind_r (os_register i ''rtmr2'' (oe_RTMR2 e)) (\<lambda>r2.
     let bc = \<lparr>bc_MRTD = m, bc_RTMR1 = r1, bc_RTMR2 = r2\<rparr> in
     bind_r (fail_if (BootChain_IsZero bc) (OSImageZero i)) (\<lambda>_.
     Inr \<lparr>oi_Name = oe_Name e, oi_OSImageHash = oe_OSImageHash e, oi_BootChain = bc\<rparr>)))))"

fun os_images :: "nat \<Rightarrow> osImageEntry list \<Rightarrow> oerr + OSImage list" where
  "os_images i [] = Inr []"
| "os_images i (e # es) =
     bind_r (os_image i e) (\<lambda>x. bind_r (os_images (Suc i) es) (\<lambda>xs. Inr (x # xs)))"

definition ParseOSImages :: "bytes \<Rightarrow> oerr + OSImage list" where
  "ParseOSImages raw = bind_r (opt_r (Option.bind (json_parse raw) os_file) OSImagesJSON) (os_images 0)"

text \<open>
  The allowlists of the gateway's own images and of the providers' images: the same parser on two
  embedded files, whose text is a parameter.
\<close>

definition BuiltinOSImages :: "bytes \<Rightarrow> oerr + OSImage list" where
  "BuiltinOSImages osimages = ParseOSImages osimages"

definition BuiltinBrokerImages :: "bytes \<Rightarrow> oerr + OSImage list" where
  "BuiltinBrokerImages brokerimages = ParseOSImages brokerimages"

record OSImageCheck =
  oc_Configured :: bool
  oc_Matched :: string
  oc_Err :: "string list option"
  oc_Observed :: BootChain

definition OSImageCheck_OK :: "OSImageCheck \<Rightarrow> bool" where
  "OSImageCheck_OK c = (\<not> oc_Configured c \<or> oc_Err c = None)"

fun policy_names :: "(BootChain \<Rightarrow> string option) \<Rightarrow> OSImage list \<Rightarrow> BootChain \<Rightarrow> string option" where
  "policy_names names [] = names"
| "policy_names names (i # is) =
     policy_names (if names (oi_BootChain i) = None then names(oi_BootChain i \<mapsto> oi_Name i) else names) is"

definition BootChainPolicyOf :: "OSImage list \<Rightarrow> BootChainPolicy" where
  "BootChainPolicyOf allowed =
     \<lparr>bp_Allowed = map oi_BootChain allowed, bp_Names = policy_names (\<lambda>_. None) allowed\<rparr>"

definition CheckOSImage :: "OSImage list \<Rightarrow> Measurement \<Rightarrow> OSImageCheck" where
  "CheckOSImage allowed m =
     (let out = \<lparr>oc_Configured = 0 < length allowed, oc_Matched = [], oc_Err = None, oc_Observed = BootChainOf m\<rparr> in
      if \<not> oc_Configured out then out
      else let policy = BootChainPolicyOf allowed; matched = Name policy (oc_Observed out) in
        if matched \<noteq> [] then out\<lparr>oc_Matched := matched\<rparr>
        else if Permits policy (oc_Observed out) then out
        else out\<lparr>oc_Err := Some (map oi_Name allowed)\<rparr>)"

section \<open>Whose image\<close>

datatype ImageOrigin = OriginNone | OriginFirstParty | OriginThirdParty | OriginForeignRegistry

definition FirstPartyNamespace :: string where [simp]: "FirstPartyNamespace = ''0gfoundation''"

definition firstPartyRegistries :: "string \<Rightarrow> bool" where
  "firstPartyRegistries r = (r = ''ghcr.io'')"

definition SplitRegistry :: "string \<Rightarrow> string \<times> string" where
  "SplitRegistry img =
     (case cut_at (CHR ''/'') img of
        None \<Rightarrow> ([], img)
      | Some (first, rest) \<Rightarrow>
          if CHR ''.'' \<in> set first \<or> CHR '':'' \<in> set first \<or> first = ''localhost'' then (first, rest)
          else ([], img))"

definition ClassifyImageOrigin :: "string \<Rightarrow> ImageOrigin" where
  "ClassifyImageOrigin img =
     (let (registry, repo) = SplitRegistry (trim_space img) in
      if repo = [] then OriginNone
      else case cut_at (CHR ''/'') repo of
          None \<Rightarrow> OriginThirdParty
        | Some (ns, _) \<Rightarrow>
            if \<not> equal_fold FirstPartyNamespace ns then OriginThirdParty
            else if firstPartyRegistries (lower_text registry) then OriginFirstParty
            else OriginForeignRegistry)"

section \<open>Facts\<close>

definition os_image_ok :: "OSImage \<Rightarrow> bool" where
  "os_image_ok x \<longleftrightarrow> oi_Name x \<noteq> [] \<and> \<not> BootChain_IsZero (oi_BootChain x)
     \<and> length (bc_MRTD (oi_BootChain x)) = 48 \<and> length (bc_RTMR1 (oi_BootChain x)) = 48
     \<and> length (bc_RTMR2 (oi_BootChain x)) = 48"

lemma os_image_sound: "os_image i e = Inr x \<Longrightarrow> os_image_ok x"
  by (auto simp: os_image_def os_register_def result_inv Let_def os_image_ok_def)

lemma os_images_sound: "os_images i es = Inr xs \<Longrightarrow> list_all os_image_ok xs"
  by (induction es arbitrary: i xs) (auto simp: bind_r_eq_Inr dest: os_image_sound)

lemma ParseOSImages_sound: "ParseOSImages raw = Inr xs \<Longrightarrow> list_all os_image_ok xs"
  by (auto simp: ParseOSImages_def bind_r_eq_Inr dest: os_images_sound)

lemma policy_names_first:
  "policy_names names imgs b =
     (case names b of Some n \<Rightarrow> Some n
      | None \<Rightarrow> map_option oi_Name (find (\<lambda>i. oi_BootChain i = b) imgs))"
  by (induction imgs arbitrary: names) (auto split: option.splits)

lemma CheckOSImage_ok:
  assumes ok: "list_all os_image_ok allowed"
  shows "OSImageCheck_OK (CheckOSImage allowed m) \<longleftrightarrow>
           allowed = [] \<or> BootChainOf m \<in> set (map oi_BootChain allowed)"
    and "allowed \<noteq> [] \<Longrightarrow> OSImageCheck_OK (CheckOSImage allowed m) \<Longrightarrow>
           map_option oi_Name (find (\<lambda>i. oi_BootChain i = BootChainOf m) allowed)
             = Some (oc_Matched (CheckOSImage allowed m))"
proof -
  let ?b = "BootChainOf m" and ?p = "BootChainPolicyOf allowed"
  have perm: "Permits ?p ?b \<longleftrightarrow> ?b \<in> set (map oi_BootChain allowed)"
    using ok by (auto simp: Permits_iff BootChainPolicyOf_def os_image_ok_def list_all_iff)
  have found: "\<exists>i. find (\<lambda>i. oi_BootChain i = ?b) allowed = Some i \<and> Name ?p ?b = oi_Name i \<and> oi_Name i \<noteq> []"
    if in_list: "?b \<in> set (map oi_BootChain allowed)"
  proof -
    obtain i where i: "find (\<lambda>i. oi_BootChain i = ?b) allowed = Some i"
      using in_list by (cases "find (\<lambda>i. oi_BootChain i = ?b) allowed") (auto simp: find_None_iff)
    then have "i \<in> set allowed" by (auto simp: find_Some_iff)
    then have "oi_Name i \<noteq> []" using ok by (simp add: os_image_ok_def list_all_iff)
    moreover have "Name ?p ?b = oi_Name i"
      using in_list perm i by (simp add: Name_def BootChainPolicyOf_def policy_names_first)
    ultimately show ?thesis using i by blast
  qed
  show iff: "OSImageCheck_OK (CheckOSImage allowed m) \<longleftrightarrow>
      allowed = [] \<or> ?b \<in> set (map oi_BootChain allowed)"
  proof (cases "?b \<in> set (map oi_BootChain allowed)")
    case True
    then show ?thesis using found[OF True] by (auto simp: CheckOSImage_def OSImageCheck_OK_def Let_def)
  next
    case False
    then have "\<not> Permits ?p ?b" using perm by simp
    then show ?thesis using False by (auto simp: CheckOSImage_def OSImageCheck_OK_def Let_def Name_def)
  qed
  show "map_option oi_Name (find (\<lambda>i. oi_BootChain i = ?b) allowed) = Some (oc_Matched (CheckOSImage allowed m))"
    if "allowed \<noteq> []" "OSImageCheck_OK (CheckOSImage allowed m)"
  proof -
    have "?b \<in> set (map oi_BootChain allowed)" using iff that by blast
    from found[OF this] show ?thesis using that(1) by (auto simp: CheckOSImage_def Let_def)
  qed
qed

text \<open>
  One letter outside ASCII has an ASCII lower case, so a registry host spelt with it is taken for the
  first-party registry.
\<close>

lemma first_party_dotted_i:
  "ClassifyImageOrigin ''evil.io/0gfoundation/broker'' = OriginForeignRegistry"
  "ClassifyImageOrigin (''ghcr.'' @ [CHR 0xC4, CHR 0xB0] @ ''o/0gfoundation/broker'') = OriginFirstParty"
  by code_simp+

end
