(* ===== verification/Evid_Compose.thy ===== *)
theory Evid_Compose
  imports Attest_Verify Go_Url Go_Sha384
begin

text \<open>
  client/evidence/appcompose.go: the app-compose gate and the comparison of compose texts;
  client/evidence/appid.go: where an app_id comes from. Name resolution and the HTTP client are
  parameters; domain names are ASCII text, and a URL is read as Go_Url reads it.
\<close>

section \<open>net.SplitHostPort\<close>

definition net_split :: "bytes \<Rightarrow> (bytes \<times> bytes) option" where
  "net_split s =
     (case cut_last (CHR '':'') s of
        None \<Rightarrow> None
      | Some (h, port) \<Rightarrow>
          if prefix ''['' s then
            (case cut_at (CHR '']'') s of
               None \<Rightarrow> None
             | Some (a, rest) \<Rightarrow>
                 if rest = CHR '':'' # port \<and> CHR ''['' \<notin> set (tl a @ rest) \<and> CHR '']'' \<notin> set rest
                 then Some (tl a, port) else None)
          else if CHR '':'' \<in> set h \<or> CHR ''['' \<in> set s \<or> CHR '']'' \<in> set s then None
          else Some (h, port))"

section \<open>The app-compose gate\<close>

record AppCompose =
  ac_Name :: string
  ac_DockerComposeFile :: string
  ac_AllowedEnvs :: "string list"

datatype acerr = ComposeDigest bytes bytes | ComposeJSON | NoDockerCompose AppCompose

definition GateAppCompose :: "bytes \<Rightarrow> bytes \<Rightarrow> acerr + unit" where
  "GateAppCompose raw composeHash = fail_if (sha256 raw \<noteq> composeHash) (ComposeDigest (sha256 raw) composeHash)"

definition compose_set :: "string \<Rightarrow> json \<Rightarrow> AppCompose \<Rightarrow> AppCompose option" where
  "compose_set k x a =
     (if k = ''name'' then map_option (\<lambda>s. a\<lparr>ac_Name := s\<rparr>) (str_into x (ac_Name a))
      else if k = ''docker_compose_file'' then
        map_option (\<lambda>s. a\<lparr>ac_DockerComposeFile := s\<rparr>) (str_into x (ac_DockerComposeFile a))
      else map_option (\<lambda>ss. a\<lparr>ac_AllowedEnvs := ss\<rparr>) (as_strings x))"

definition app_compose :: "json \<Rightarrow> AppCompose option" where
  "app_compose =
     decode_struct [''name'', ''docker_compose_file'', ''allowed_envs''] compose_set
       \<lparr>ac_Name = [], ac_DockerComposeFile = [], ac_AllowedEnvs = []\<rparr>"

definition VerifyAppCompose :: "bytes \<Rightarrow> bytes \<Rightarrow> acerr + AppCompose" where
  "VerifyAppCompose raw composeHash =
     bind_r (GateAppCompose raw composeHash) (\<lambda>_.
     bind_r (opt_r (Option.bind (json_parse raw) app_compose) ComposeJSON) (\<lambda>ac.
     bind_r (fail_if (trim_space (ac_DockerComposeFile ac) = []) (NoDockerCompose ac)) (\<lambda>_. Inr ac)))"

section \<open>The guest agent\<close>

definition guestAgentPort :: string where [simp]: "guestAgentPort = ''8090''"
definition maxAppComposeBytes :: nat where [simp]: "maxAppComposeBytes = 4194304"

definition appIDHost :: "string \<Rightarrow> string \<Rightarrow> string" where
  "appIDHost appID baseDomain =
     (let d0 = trim_space baseDomain in
      if d0 = [] then []
      else
        let d1 = (if contains_str ''://'' d0
                  then (case url_parse d0 of Some u \<Rightarrow> if u_Host u \<noteq> [] then u_Host u else d0 | None \<Rightarrow> d0)
                  else d0);
            d = trim_prefix ''gw.'' (trim_prefix ''_.'' (trim_char (CHR ''/'') d1))
        in if d = [] then []
           else to_lower (trim_space appID) @ ''-'' @ guestAgentPort @ ''.'' @ to_lower d)"

datatype ferr =
    NoAppID | NoAgentHost | FetchFailed string | FetchStatus int | FetchTooLarge | AgentInfo | AgentTCB
  | NoTCBInfo | NoTCBAppCompose

definition tcbInfo :: "json \<Rightarrow> string option" where
  "tcbInfo = decode_struct [''compose_hash'', ''app_compose'']
     (\<lambda>k x r. if k = ''compose_hash'' then map_option (\<lambda>_. r) (str_into x []) else str_into x r) []"

text \<open>
  \<open>hc url\<close> is the reply of a GET request, its status and body, or \<open>None\<close> when the request or
  reading the body failed.
\<close>

definition FetchAppCompose ::
    "(string \<Rightarrow> (int \<times> bytes) option) \<Rightarrow> string \<Rightarrow> string \<Rightarrow> ferr + bytes" where
  "FetchAppCompose hc appID baseDomain =
     (let host = appIDHost appID baseDomain; u = ''https://'' @ host @ ''/prpc/Info'' in
      bind_r (fail_if (trim_space appID = []) NoAppID) (\<lambda>_.
      bind_r (fail_if (host = []) NoAgentHost) (\<lambda>_.
      bind_r (opt_r (hc u) (FetchFailed host)) (\<lambda>(status, full).
      let body = take (maxAppComposeBytes + 1) full in
      bind_r (fail_if (status \<noteq> 200) (FetchStatus status)) (\<lambda>_.
      bind_r (fail_if (maxAppComposeBytes < length body) FetchTooLarge) (\<lambda>_.
      bind_r (opt_r (Option.bind (json_parse body)
                (decode_struct [''app_id'', ''tcb_info'']
                   (\<lambda>k x r. if k = ''app_id'' then map_option (\<lambda>_. r) (str_into x []) else Some (json_print x)) []))
                AgentInfo) (\<lambda>tcbRaw.
      bind_r (opt_r (UnwrapJSONString tcbRaw) AgentTCB) (\<lambda>tcbDoc.
      bind_r (fail_if (trim_space tcbDoc = []) NoTCBInfo) (\<lambda>_.
      bind_r (opt_r (Option.bind (json_parse tcbDoc)
                tcbInfo)
                AgentTCB) (\<lambda>appCompose.
      bind_r (fail_if (appCompose = []) NoTCBAppCompose) (\<lambda>_. Inr appCompose)))))))))))"

definition maxCNAMEHops :: nat where [simp]: "maxCNAMEHops = 8"

definition lower_name :: "string \<Rightarrow> string" where
  "lower_name s = trim_suffix ''.'' (to_lower s)"

text \<open>The CNAME walk; \<open>None\<close> when a lookup fails.\<close>

fun cname_walk :: "nat \<Rightarrow> (string \<Rightarrow> string option) \<Rightarrow> string \<Rightarrow> string option" where
  "cname_walk 0 lookup here = Some here"
| "cname_walk (Suc n) lookup here =
     (case lookup here of
        None \<Rightarrow> None
      | Some c \<Rightarrow> let cname = lower_name c in
          if cname = [] \<or> cname = here then Some here else cname_walk n lookup cname)"

definition deriveBaseDomain :: "string \<Rightarrow> (string \<Rightarrow> string option) \<Rightarrow> string option" where
  "deriveBaseDomain domain lookupCNAME =
     (let n0 = lower_name (trim_space domain);
          name = (case net_split n0 of Some (h, _) \<Rightarrow> h | None \<Rightarrow> n0)
      in if name = [] then None
         else Option.bind (cname_walk maxCNAMEHops lookupCNAME name) (\<lambda>end_name.
              Option.bind (case cut_prefix ''gw.'' end_name of Some b \<Rightarrow> Some b | None \<Rightarrow> cut_prefix ''_.'' end_name)
                (\<lambda>base. if base = [] then None else Some base)))"

section \<open>Comparing compose texts\<close>

fun crlf_to_lf :: "bytes \<Rightarrow> bytes" where
  "crlf_to_lf (a # b # s) =
     (if a = CHR 0x0D \<and> b = CHR 0x0A then CHR 0x0A # crlf_to_lf s else a # crlf_to_lf (b # s))"
| "crlf_to_lf s = s"

definition splitLines :: "bytes \<Rightarrow> bytes list" where
  "splitLines b =
     (let ls = split_all (CHR 0x0A) (crlf_to_lf b) in if last ls = [] then butlast ls else ls)"

definition truncate :: "string \<Rightarrow> string" where
  "truncate s = (if length s \<le> 100 then s else take 100 s @ [CHR 0xE2, CHR 0x80, CHR 0xA6])"

datatype cdiff = DiffersAt nat string string | ExtraLines nat nat string | MissingLines nat nat string

fun first_difference :: "nat \<Rightarrow> bytes list \<Rightarrow> bytes list \<Rightarrow> cdiff option" where
  "first_difference i (a # as) (b # bs) =
     (if a \<noteq> b then Some (DiffersAt (i + 1) (truncate a) (truncate b)) else first_difference (i + 1) as bs)"
| "first_difference i _ _ = None"

definition diffComposeFile :: "bytes \<Rightarrow> bytes \<Rightarrow> cdiff option" where
  "diffComposeFile got want =
     (let g = splitLines got; w = splitLines want in
      if length g = length w \<and> g = w then None
      else case first_difference 0 g w of
          Some d \<Rightarrow> Some d
        | None \<Rightarrow>
            if length w < length g
            then Some (ExtraLines (length g - length w) (length w) (truncate (g ! length w)))
            else Some (MissingLines (length w - length g) (length g) (truncate (w ! length g))))"

record ExpectedCompose =
  ec_Label :: string
  ec_Content :: bytes

datatype mcerr = NoCandidates | NoMatch "string list" "cdiff option"

definition MatchCompose :: "bytes \<Rightarrow> ExpectedCompose list \<Rightarrow> mcerr + string" where
  "MatchCompose got candidates =
     (case find (\<lambda>c. diffComposeFile got (ec_Content c) = None) candidates of
        Some c \<Rightarrow> Inr (ec_Label c)
      | None \<Rightarrow>
          (case candidates of
             [] \<Rightarrow> Inl NoCandidates
           | c # _ \<Rightarrow> Inl (NoMatch (map ec_Label candidates) (diffComposeFile got (ec_Content c)))))"

section \<open>The app_id\<close>

definition appAddressPrefix :: string where [simp]: "appAddressPrefix = ''_dstack-app-address''"
definition appAddressWildcardPrefix :: string where
  [simp]: "appAddressWildcardPrefix = ''_dstack-app-address-wildcard''"
definition appIDHexLen :: nat where [simp]: "appIDHexLen = 2 * AppIDLen"

datatype iderror =
    NoDomain | TXTFailed string | NoTXT string | NotAddress string | NotAppID string | NoUsable "iderror list"

definition validAppID :: "string \<Rightarrow> bool" where
  "validAppID s = (length s = appIDHexLen \<and> list_all (\<lambda>c. is_digit c \<or> in_range 97 102 c) s)"

definition normalizeAppID :: "string \<Rightarrow> string" where
  "normalizeAppID s = trim_prefix ''0x'' (to_lower (trim_space s))"

definition parseAppAddress :: "string \<Rightarrow> iderror + string" where
  "parseAppAddress rec =
     (let s = trim_space rec in
      case cut_at (CHR '':'') s of
        None \<Rightarrow> Inl (NotAddress s)
      | Some (i, _) \<Rightarrow>
          let appid = to_lower (trim_space i) in if validAppID appid then Inr appid else Inl (NotAppID s))"

text \<open>The first record that parses; otherwise the errors of all of them.\<close>

fun first_ok :: "('a \<Rightarrow> 'e + 'b) \<Rightarrow> 'a list \<Rightarrow> 'e list + 'b" where
  "first_ok f [] = Inl []"
| "first_ok f (x # xs) =
     (case f x of
        Inr y \<Rightarrow> Inr y
      | Inl e \<Rightarrow> (case first_ok f xs of Inr y \<Rightarrow> Inr y | Inl es \<Rightarrow> Inl (e # es)))"

definition appAddressFromTXT :: "(string \<Rightarrow> string list option) \<Rightarrow> string \<Rightarrow> iderror + string" where
  "appAddressFromTXT lookupTXT name =
     (case lookupTXT name of
        None \<Rightarrow> Inl (TXTFailed name)
      | Some [] \<Rightarrow> Inl (NoTXT name)
      | Some rs \<Rightarrow> (case first_ok parseAppAddress rs of Inr a \<Rightarrow> Inr a | Inl es \<Rightarrow> Inl (NoUsable es)))"

record dnsResolver =
  dns_TXT :: "string \<Rightarrow> string list option"
  dns_CNAME :: "(string \<Rightarrow> string option) option"

definition appAddressAt :: "dnsResolver \<Rightarrow> string \<Rightarrow> iderror + string" where
  "appAddressAt r name =
     (case appAddressFromTXT (dns_TXT r) name of
        Inr a \<Rightarrow> Inr a
      | Inl direct \<Rightarrow>
          (case dns_CNAME r of
             None \<Rightarrow> Inl direct
           | Some lookupCNAME \<Rightarrow>
               (case lookupCNAME name of
                  None \<Rightarrow> Inl direct
                | Some t \<Rightarrow>
                    let target = trim_suffix ''.'' (to_lower (trim_space t)) in
                    if target = [] \<or> target = name then Inl direct
                    else (case appAddressFromTXT (dns_TXT r) target of
                            Inr a \<Rightarrow> Inr a | Inl e \<Rightarrow> Inl (NoUsable [direct, e])))))"

definition bareHost :: "string \<Rightarrow> string" where
  "bareHost domain =
     (let n0 = trim_suffix ''.'' (to_lower (trim_space domain));
          n1 = (if contains_str ''://'' n0
                then (case url_parse n0 of Some u \<Rightarrow> if u_Host u \<noteq> [] then u_Host u else n0 | None \<Rightarrow> n0) else n0);
          n2 = trim_char (CHR ''/'') n1
      in case net_split n2 of Some (h, _) \<Rightarrow> h | None \<Rightarrow> n2)"

definition parentDomain :: "string \<Rightarrow> string" where
  "parentDomain name =
     (case cut_at (CHR ''.'') name of
        None \<Rightarrow> [] | Some (_, rest) \<Rightarrow> if CHR ''.'' \<in> set rest then rest else [])"

definition discoverAppID :: "string \<Rightarrow> dnsResolver \<Rightarrow> iderror + string" where
  "discoverAppID domain r =
     (let name = bareHost domain; parent = parentDomain name in
      if name = [] then Inl NoDomain
      else let queries = (appAddressPrefix @ ''.'' @ name)
                 # (if parent \<noteq> [] then [appAddressWildcardPrefix @ ''.'' @ parent] else [])
        in case first_ok (appAddressAt r) queries of Inr a \<Rightarrow> Inr a | Inl es \<Rightarrow> Inl (NoUsable es))"

section \<open>Facts\<close>

text \<open>The gate: what is decoded is what the hash commits to.\<close>

lemma VerifyAppCompose_bound: "VerifyAppCompose raw h = Inr ac \<Longrightarrow> sha256 raw = h \<and> ac_DockerComposeFile ac \<noteq> []"
  by (auto simp: VerifyAppCompose_def GateAppCompose_def result_inv)

lemma VerifyAppCompose_same:
  "VerifyAppCompose raw h = Inr ac \<Longrightarrow> VerifyAppCompose raw' h = Inr ac' \<Longrightarrow> ac = ac' \<or> clash sha256 [raw] [raw']"
  using VerifyAppCompose_bound[of raw h ac] VerifyAppCompose_bound[of raw' h ac'] by (auto simp: clash_def)

text \<open>The comparison: equal after line endings are normalised, and total.\<close>

lemma first_difference_None:
  "first_difference i g w = None \<longleftrightarrow> prefix g w \<or> prefix w g"
  by (induction i g w rule: first_difference.induct) (auto simp: prefix_def)

lemma diffComposeFile_iff: "diffComposeFile got want = None \<longleftrightarrow> splitLines got = splitLines want"
  by (auto simp: diffComposeFile_def Let_def split: option.splits)

text \<open>Where neither list has a differing line, the one read past is the longer one.\<close>

lemma diffComposeFile_in_range:
  "first_difference 0 g w = None \<Longrightarrow> g \<noteq> w \<Longrightarrow> \<not> length w < length g \<Longrightarrow> length g < length w"
  by (auto simp: first_difference_None prefix_def)

lemma MatchCompose_first:
  "MatchCompose got cs = Inr l \<longleftrightarrow>
     (\<exists>c. find (\<lambda>c. splitLines got = splitLines (ec_Content c)) cs = Some c \<and> l = ec_Label c)"
  by (auto simp: MatchCompose_def diffComposeFile_iff split: option.splits list.splits)

text \<open>Line endings: lines joined by either ending, with or without a last one, split to the same.\<close>

definition clean_line :: "bytes \<Rightarrow> bool" where
  "clean_line l \<longleftrightarrow> CHR 0x0A \<notin> set l \<and> CHR 0x0D \<notin> set l"

fun ended_lines :: "(bytes \<times> bool) list \<Rightarrow> bytes" where
  "ended_lines [] = []"
| "ended_lines ((l, crlf) # ls) = l @ (if crlf then [CHR 0x0D, CHR 0x0A] else [CHR 0x0A]) @ ended_lines ls"

lemma crlf_clean: "clean_line l \<Longrightarrow> crlf_to_lf (l @ CHR 0x0A # s) = l @ CHR 0x0A # crlf_to_lf s"
proof (induction l)
  case Nil
  then show ?case by (cases s) simp_all
next
  case (Cons c l)
  then have "crlf_to_lf ((c # l) @ CHR 0x0A # s) = c # crlf_to_lf (l @ CHR 0x0A # s)"
    by (cases l) (auto simp: clean_line_def)
  with Cons show ?case by (simp add: clean_line_def)
qed

lemma crlf_clean_crlf:
  "clean_line l \<Longrightarrow> crlf_to_lf (l @ CHR 0x0D # CHR 0x0A # s) = l @ CHR 0x0A # crlf_to_lf s"
proof (induction l)
  case (Cons c l)
  then have "crlf_to_lf ((c # l) @ CHR 0x0D # CHR 0x0A # s) = c # crlf_to_lf (l @ CHR 0x0D # CHR 0x0A # s)"
    by (cases l) (auto simp: clean_line_def)
  with Cons show ?case by (simp add: clean_line_def)
qed simp

lemma split_ended:
  "\<forall>(l, _)\<in>set ls. clean_line l \<Longrightarrow> split_all (CHR 0x0A) (crlf_to_lf (ended_lines ls)) = map fst ls @ [[]]"
proof (induction ls)
  case (Cons x ls)
  obtain l e where x: "x = (l, e)" by (cases x)
  then have "clean_line l" using Cons.prems by auto
  then show ?case
    using Cons x crlf_clean[of l "ended_lines ls"] crlf_clean_crlf[of l "ended_lines ls"]
    by (auto simp: clean_line_def split_all_append)
qed simp

lemma splitLines_endings: "\<forall>(l, _)\<in>set ls. clean_line l \<Longrightarrow> splitLines (ended_lines ls) = map fst ls"
  by (simp add: splitLines_def split_ended)

text \<open>An app_id that is found is forty lowercase hexadecimal digits.\<close>

lemma first_ok_Inr: "first_ok f xs = Inr y \<Longrightarrow> \<exists>x\<in>set xs. f x = Inr y"
  by (induction xs) (auto split: sum.splits)

lemma appAddressFromTXT_valid: "appAddressFromTXT t n = Inr a \<Longrightarrow> validAppID a"
  by (auto simp: appAddressFromTXT_def parseAppAddress_def Let_def split: option.splits list.splits sum.splits if_splits
      dest!: first_ok_Inr)

lemma appAddressAt_valid: "appAddressAt r n = Inr a \<Longrightarrow> validAppID a"
  by (auto simp: appAddressAt_def Let_def split: sum.splits option.splits if_splits dest: appAddressFromTXT_valid)

lemma discoverAppID_valid: "discoverAppID domain r = Inr a \<Longrightarrow> validAppID a"
  by (auto simp: discoverAppID_def Let_def split: if_splits sum.splits dest!: first_ok_Inr dest: appAddressAt_valid)

end
