(* ===== verification/Evid_Cloud.thy ===== *)
theory Evid_Cloud
  imports Evid_Compose
begin

text \<open>
  client/evidence/cloudcompose.go: the app-compose looked up at the platform's API, where the
  instance is chosen by digest.
\<close>

section \<open>Data\<close>

definition DefaultCloudAPIBase :: string where
  [simp]: "DefaultCloudAPIBase = ''https://cloud-api.phala.com/api/v1''"
definition maxCloudAttestationsBytes :: nat where [simp]: "maxCloudAttestationsBytes = 16777216"

record cloudInstance =
  ci_Name :: string
  ci_TCBInfo :: bytes
  ci_ComposeFile :: string

definition instance_set :: "string \<Rightarrow> json \<Rightarrow> cloudInstance \<Rightarrow> cloudInstance option" where
  "instance_set k x c =
     (if k = ''name'' then map_option (\<lambda>s. c\<lparr>ci_Name := s\<rparr>) (str_into x (ci_Name c))
      else if k = ''status'' then map_option (\<lambda>_. c) (str_into x [])
      else if k = ''tcb_info'' then Some (c\<lparr>ci_TCBInfo := json_print x\<rparr>)
      else map_option (\<lambda>s. c\<lparr>ci_ComposeFile := s\<rparr>) (str_into x (ci_ComposeFile c)))"

definition cloud_instance :: "json \<Rightarrow> cloudInstance option" where
  "cloud_instance = decode_struct [''name'', ''status'', ''tcb_info'', ''compose_file''] instance_set
     \<lparr>ci_Name = [], ci_TCBInfo = [], ci_ComposeFile = []\<rparr>"

definition cloudAttestations :: "json \<Rightarrow> cloudInstance list option" where
  "cloudAttestations = decode_struct [''app_id'', ''instances'']
     (\<lambda>k x r. if k = ''app_id'' then map_option (\<lambda>_. r) (str_into x [])
              else Option.bind (as_array x) (\<lambda>vs. opt_all (map cloud_instance vs))) []"

datatype tcberr = TCBAbsent | TCBDecode | TCBEmpty | TCBNoAppCompose

datatype offer = NotOffered string tcberr | Offered string string bytes

datatype clouderr =
    CloudNoAppID | CloudBadAppID string | CloudFetch string | CloudStatus int | CloudTooLarge | CloudDecode
  | CloudNoInstances | CloudNone "offer list"

section \<open>Operations\<close>

definition tcbInfoAppCompose :: "bytes \<Rightarrow> tcberr + bytes" where
  "tcbInfoAppCompose raw =
     bind_r (fail_if (trim_space raw = []) TCBAbsent) (\<lambda>_.
     bind_r (opt_r (UnwrapJSONString raw) TCBDecode) (\<lambda>doc.
     bind_r (fail_if (trim_space doc = [] \<or> trim_space doc = ''null'') TCBEmpty) (\<lambda>_.
     bind_r (opt_r (Option.bind (json_parse doc) tcbInfo) TCBDecode) (\<lambda>appCompose.
     bind_r (fail_if (appCompose = []) TCBNoAppCompose) (\<lambda>_. Inr appCompose)))))"

definition cloudInstanceAppCompose :: "cloudInstance \<Rightarrow> tcberr + (string \<times> bytes) list" where
  "cloudInstanceAppCompose inst =
     (let tcb = tcbInfoAppCompose (ci_TCBInfo inst);
          file = [(''compose_file'', ci_ComposeFile inst)]
      in case tcb of
           Inr raw \<Rightarrow>
             Inr ((''tcb_info.app_compose'', raw)
               # (if ci_ComposeFile inst \<noteq> [] \<and> raw \<noteq> ci_ComposeFile inst then file else []))
         | Inl e \<Rightarrow> if ci_ComposeFile inst \<noteq> [] then Inr file else Inl e)"

definition instance_label :: "nat \<Rightarrow> nat \<Rightarrow> cloudInstance \<Rightarrow> string" where
  "instance_label i many inst =
     ''instance '' @ show_int (int i + 1) @ '' of '' @ show_int (int many)
     @ (if ci_Name inst \<noteq> [] then '' ('' @ ci_Name inst @ '')'' else [])"

fun pick_instances ::
    "nat \<Rightarrow> nat \<Rightarrow> bytes \<Rightarrow> offer list \<Rightarrow> cloudInstance list \<Rightarrow> offer list + bytes \<times> string" where
  "pick_instances i many composeHash seen [] = Inl seen"
| "pick_instances i many composeHash seen (inst # is) =
     (let label = instance_label i many inst in
      case cloudInstanceAppCompose inst of
        Inl e \<Rightarrow> pick_instances (i + 1) many composeHash (seen @ [NotOffered label e]) is
      | Inr candidates \<Rightarrow>
          (case find (\<lambda>c. sha256 (snd c) = composeHash) candidates of
             Some c \<Rightarrow> Inr (snd c, label)
           | None \<Rightarrow> pick_instances (i + 1) many composeHash
                       (seen @ map (\<lambda>c. Offered label (fst c) (sha256 (snd c))) candidates) is))"

definition pickCloudAppCompose :: "cloudInstance list \<Rightarrow> bytes \<Rightarrow> clouderr + bytes \<times> string" where
  "pickCloudAppCompose instances composeHash =
     (case pick_instances 0 (length instances) composeHash [] instances of
        Inr r \<Rightarrow> Inr r | Inl seen \<Rightarrow> Inl (CloudNone seen))"

definition FetchAppComposeFromCloud ::
    "(string \<Rightarrow> (int \<times> bytes) option) \<Rightarrow> string \<Rightarrow> string \<Rightarrow> bytes \<Rightarrow> clouderr + bytes \<times> string" where
  "FetchAppComposeFromCloud hc apiBase appID composeHash =
     (let appid = normalizeAppID appID; base0 = trim_right_char (CHR ''/'') (trim_space apiBase);
          base = (if base0 = [] then DefaultCloudAPIBase else base0);
          u = base @ ''/apps/'' @ appid @ ''/attestations''
      in
      bind_r (fail_if (appid = []) CloudNoAppID) (\<lambda>_.
      bind_r (fail_if (\<not> validAppID appid) (CloudBadAppID appID)) (\<lambda>_.
      bind_r (opt_r (hc u) (CloudFetch base)) (\<lambda>(status, full).
      let body = take (maxCloudAttestationsBytes + 1) full in
      bind_r (fail_if (status \<noteq> 200) (CloudStatus status)) (\<lambda>_.
      bind_r (fail_if (maxCloudAttestationsBytes < length body) CloudTooLarge) (\<lambda>_.
      bind_r (opt_r (Option.bind (json_parse body) cloudAttestations) CloudDecode) (\<lambda>instances.
      bind_r (fail_if (instances = []) CloudNoInstances) (\<lambda>_.
      pickCloudAppCompose instances composeHash))))))))"

definition cloudAppComposeSource :: "string \<Rightarrow> string \<Rightarrow> string \<Rightarrow> string" where
  "cloudAppComposeSource base appID inst =
     trim_right_char (CHR ''/'') (if base = [] then DefaultCloudAPIBase else base)
     @ ''/apps/'' @ appID @ ''/attestations '' @ [CHR 0xE2, CHR 0x80, CHR 0x94] @ '' '' @ inst"

section \<open>Facts\<close>

text \<open>Whatever the API says, the bytes returned are the ones the hash commits to.\<close>

lemma pick_instances_digest: "pick_instances i t h seen is = Inr (raw, l) \<Longrightarrow> sha256 raw = h"
  by (induction i t h seen "is" rule: pick_instances.induct)
    (auto simp: Let_def find_Some_iff split: sum.splits option.splits)

lemma pickCloudAppCompose_digest: "pickCloudAppCompose is h = Inr (raw, l) \<Longrightarrow> sha256 raw = h"
  by (cases "pick_instances 0 (length is) h [] is") (auto simp: pickCloudAppCompose_def dest: pick_instances_digest)

lemma FetchAppComposeFromCloud_digest:
  "FetchAppComposeFromCloud hc base appID h = Inr (raw, l) \<Longrightarrow> sha256 raw = h"
  by (auto simp: FetchAppComposeFromCloud_def Let_def result_inv dest: pickCloudAppCompose_digest)

text \<open>
  The bytes are found whenever some instance offers them, whichever it is.
\<close>

lemma pick_instances_complete:
  "inst \<in> set is \<Longrightarrow> cloudInstanceAppCompose inst = Inr cs \<Longrightarrow> (f, raw) \<in> set cs \<Longrightarrow> sha256 raw = h \<Longrightarrow>
   \<exists>r. pick_instances i t h seen is = Inr r"
proof (induction i t h seen "is" rule: pick_instances.induct)
  case (2 i t h seen x xs)
  show ?case
  proof (cases "cloudInstanceAppCompose x")
    case (Inl e)
    then have "inst \<in> set xs" using "2.prems" by auto
    with 2 Inl show ?thesis by (auto simp: Let_def)
  next
    case (Inr ds)
    show ?thesis
    proof (cases "find (\<lambda>c. sha256 (snd c) = h) ds")
      case None
      then have "inst \<noteq> x" using Inr "2.prems" by (fastforce simp: find_None_iff)
      then have "inst \<in> set xs" using "2.prems" by auto
      with 2 Inr None show ?thesis by (auto simp: Let_def)
    qed (simp add: Inr Let_def)
  qed
qed simp

end
