(* ===== verification/Go_Pem.thy ===== *)
theory Go_Pem
  imports Go_Strings
begin

text \<open>
  Go's \<open>encoding/pem.Decode\<close>: the next PEM block of a text and what follows it. The headers of a
  block only matter in that there are some.
\<close>

section \<open>Lines\<close>

definition pemStart :: bytes where [simp]: "pemStart = CHR 0x0A # ''-----BEGIN ''"
definition pemEnd :: bytes where [simp]: "pemEnd = CHR 0x0A # ''-----END ''"
definition pemEndOfLine :: bytes where [simp]: "pemEndOfLine = ''-----''"

definition is_blank :: "char \<Rightarrow> bool" where
  "is_blank c = (c = CHR '' '' \<or> c = CHR 0x09)"

definition trim_blank :: "bytes \<Rightarrow> bytes" where
  "trim_blank s = rev (dropWhile is_blank (rev s))"

definition getLine :: "bytes \<Rightarrow> bytes \<times> bytes" where
  "getLine data =
     (case cut_at (CHR 0x0A) data of
        None \<Rightarrow> (trim_blank data, [])
      | Some (l, rest) \<Rightarrow> (trim_blank (trim_suffix [CHR 0x0D] l), rest))"

section \<open>Blocks\<close>

lemma getLine_shorter: "s \<noteq> [] \<Longrightarrow> length (snd (getLine s)) < length s"
  using cut_at_Some[of "CHR 0x0A" s] by (auto simp: getLine_def split: option.splits)

record pemBlock =
  pem_Type :: string
  pem_Bytes :: bytes

text \<open>Lines with a colon are headers; the result is whether there was one, and the text after them.\<close>

function skip_headers :: "bool \<Rightarrow> bytes \<Rightarrow> (bool \<times> bytes) option" where
  "skip_headers any rest =
     (if rest = [] then None
      else let (line, nxt) = getLine rest in
        if CHR '':'' \<notin> set line then Some (any, rest) else skip_headers True nxt)"
  by auto

termination
  by (relation "measure (\<lambda>(_, s). length s)") (auto simp: getLine_shorter dest: arg_cong[where f = snd])

declare skip_headers.simps [simp del]

text \<open>The part from the type line on: a block and the rest, or the text to search further.\<close>

definition pem_body :: "bytes \<Rightarrow> bytes \<Rightarrow> bool \<Rightarrow> bytes \<Rightarrow> (pemBlock \<times> bytes) option" where
  "pem_body typeLine whole headers rest =
     (case (if \<not> headers \<and> prefix (tl pemEnd) rest then Some ([], drop (length pemEnd - 1) rest)
            else cut_str pemEnd rest) of
        None \<Rightarrow> None
      | Some (body, trailer) \<Rightarrow>
          (case cut_prefix (typeLine @ pemEndOfLine) trailer of
             None \<Rightarrow> None
           | Some restOfEndLine \<Rightarrow>
               if fst (getLine restOfEndLine) \<noteq> [] then None
               else (case b64_decode False (filter (\<lambda>c. \<not> is_blank c) body) of
                       None \<Rightarrow> None
                     | Some b \<Rightarrow> Some (\<lparr>pem_Type = typeLine, pem_Bytes = b\<rparr>, snd (getLine trailer)))))"

text \<open>The search, on fuel: every round drops a start marker.\<close>

fun pem_search :: "nat \<Rightarrow> bytes \<Rightarrow> (pemBlock \<times> bytes) option" where
  "pem_search 0 rest = None"
| "pem_search (Suc n) rest =
     (case (if prefix (tl pemStart) rest then Some (drop (length pemStart - 1) rest)
            else map_option snd (cut_str pemStart rest)) of
        None \<Rightarrow> None
      | Some after \<Rightarrow>
          let (typeLine0, rest1) = getLine after in
          if \<not> suffix pemEndOfLine typeLine0 then pem_search n rest1
          else let typeLine = trim_suffix pemEndOfLine typeLine0 in
            (case skip_headers False rest1 of
               None \<Rightarrow> None
             | Some (headers, rest2) \<Rightarrow>
                 (case pem_body typeLine after headers rest2 of
                    Some r \<Rightarrow> Some r
                  | None \<Rightarrow> pem_search n rest2)))"

definition pem_decode :: "bytes \<Rightarrow> (pemBlock \<times> bytes) option" where
  "pem_decode data = pem_search (Suc (length data)) data"

section \<open>Facts\<close>

lemma getLine_le: "length (snd (getLine s)) \<le> length s"
  using getLine_shorter[of s] by (cases "s = []") (auto simp: getLine_def)

lemma skip_headers_le: "skip_headers any s = Some (h, r) \<Longrightarrow> length r \<le> length s"
proof (induction any s rule: skip_headers.induct)
  case (1 any s)
  obtain l nxt where l: "getLine s = (l, nxt)" by fastforce
  then have "length nxt \<le> length s" using getLine_le[of s] by simp
  moreover have "s \<noteq> [] \<and> (if CHR '':'' \<notin> set l then Some (any, s) else skip_headers True nxt) = Some (h, r)"
    using 1(2) unfolding skip_headers.simps[of any s] by (simp add: l split: if_splits)
  ultimately show ?case using 1(1)[OF _ l[symmetric] refl] by (auto split: if_splits)
qed

lemma cut_str_le: "cut_str sep s = Some (a, b) \<Longrightarrow> length b + length sep \<le> length s"
  by (induction s arbitrary: a) (auto split: if_splits dest!: prefix_length_le)

text \<open>The fuel is enough: more of it never changes the search.\<close>

lemma start_shorter:
  assumes "(if prefix (tl pemStart) s then Some (drop (length pemStart - 1) s)
            else map_option snd (cut_str pemStart s)) = Some t"
  shows "length t < length s"
proof (cases "prefix (tl pemStart) s")
  case True
  then have "length (tl pemStart) \<le> length s" by (rule prefix_length_le)
  with assms True show ?thesis by auto
next
  case False
  with assms obtain a where "cut_str pemStart s = Some (a, t)" by auto
  from cut_str_le[OF this] show ?thesis by simp
qed

lemma pem_search_fuel:
  "length s < n \<Longrightarrow> length s < m \<Longrightarrow> pem_search n s = pem_search m s"
proof (induction n arbitrary: s m)
  case (Suc n)
  obtain m' where m: "m = Suc m'" using Suc.prems(2) by (cases m) auto
  show ?case
  proof (cases "if prefix (tl pemStart) s then Some (drop (length pemStart - 1) s)
            else map_option snd (cut_str pemStart s)")
    case (Some t)
    have t: "length t < length s" by (rule start_shorter[OF Some])
    obtain ty r1 where r1: "getLine t = (ty, r1)" by fastforce
    have l1: "length r1 \<le> length t" using getLine_le[of t] r1 by simp
    have e1: "pem_search n r1 = pem_search m' r1" by (rule Suc.IH) (use t l1 Suc.prems m in linarith)+
    have e2: "pem_search n r2 = pem_search m' r2" if "skip_headers False r1 = Some (h, r2)" for h r2
      by (rule Suc.IH) (use skip_headers_le[OF that] t l1 Suc.prems m in linarith)+
    show ?thesis
      unfolding m pem_search.simps Some using r1 e1 e2
      by (simp split: option.splits)
  qed (simp only: m pem_search.simps option.case)
qed simp

end
