(* ===== verification/Evid_Check.thy ===== *)
theory Evid_Check
  imports Evid_Manifest Evid_Boot Evid_Images Evid_Cloud Go_Pem
begin

text \<open>
  client/evidence/evidence.go: the verification of a gateway's evidence bundle, from a domain to a
  report. The network, name resolution and X.509 are the parameter of type \<open>World\<close>.
\<close>

section \<open>The world\<close>

text \<open>What the source reads of an X.509 certificate.\<close>

record Certificate =
  x_Raw :: bytes
  x_SPKI :: bytes
  x_Algorithm :: nat
  x_Subject :: string
  x_Issuer :: string
  x_NotAfter :: int

text \<open>
  One run's answers: the bundle's files and the app-compose lookups over HTTP (status and body, or
  \<open>None\<close> when the request failed), DNS, the chains of the connections the session dialed, a handshake
  of its own, certificate parsing, and chain validation.
\<close>

record World =
  w_bundle :: "string \<Rightarrow> (int \<times> bytes) option"
  w_http :: "string \<Rightarrow> (int \<times> bytes) option"
  w_dns :: dnsResolver
  w_cname :: "string \<Rightarrow> string option"
  w_chains :: "Certificate list list"
  w_dial :: "Certificate list option"
  w_parseCert :: "bytes \<Rightarrow> Certificate option"
  w_trusted :: "Certificate \<Rightarrow> Certificate list \<Rightarrow> string \<Rightarrow> bool"

section \<open>Data\<close>

datatype lookerr =
    LookCloud clouderr | LookNoFallback | LookBaseDomain | LookAgent ferr | LookAppID string "iderror option"

datatype everr =
    EvFetch string | EvStatus string int | EvTooLarge string | EvManifest merr | EvQuoteReply qerr
  | EvParser aerr | EvNotChecked | EvBinding aerr | EvQuoteBody aerr | EvCertNotFetched string
  | EvCertificate nat | EvNoCertificateBlock | EvConnectionChanged | EvHandshake | EvNoCertificate
  | EvComposeHash cherr | EvLookup "lookerr list" | EvAppCompose acerr | EvCompose mcerr

record FileCheck =
  fc_Name :: string
  fc_Want :: bytes
  fc_Got :: bytes
  fc_Err :: "everr option"

definition FileCheck_OK :: "FileCheck \<Rightarrow> bool" where
  "FileCheck_OK f = (fc_Err f = None \<and> fc_Got f = fc_Want f)"

datatype CertMatch = CertMismatch | CertExact | CertInChain | CertSameKeyDifferentCert

definition CertMatch_OK :: "CertMatch \<Rightarrow> bool" where
  "CertMatch_OK m = (m = CertExact)"

record CodeIdentity =
  cd_ComposeHash :: bytes
  cd_AppID :: string
  cd_AppIDSource :: string
  cd_AppIDErr :: "iderror option"
  cd_HashErr :: "everr option"
  cd_Requested :: bool
  cd_Source :: string
  cd_FetchErr :: "everr option"
  cd_BoundErr :: "everr option"
  cd_Name :: string
  cd_AllowedEnvs :: "string list"
  cd_ComposeFile :: "bytes option"
  cd_ExpectRequested :: bool
  cd_ExpectErr :: "everr option"
  cd_MatchedExpect :: string
  cd_ExpectExplicit :: bool
  cd_Discovered :: bool
  cd_NoSource :: bool

definition code_zero :: CodeIdentity where
  "code_zero = \<lparr>cd_ComposeHash = zeros 32, cd_AppID = [], cd_AppIDSource = [], cd_AppIDErr = None,
     cd_HashErr = None, cd_Requested = False, cd_Source = [], cd_FetchErr = None, cd_BoundErr = None,
     cd_Name = [], cd_AllowedEnvs = [], cd_ComposeFile = None, cd_ExpectRequested = False,
     cd_ExpectErr = None, cd_MatchedExpect = [], cd_ExpectExplicit = False, cd_Discovered = False,
     cd_NoSource = False\<rparr>"

definition CodeIdentity_OK :: "CodeIdentity \<Rightarrow> bool" where
  "CodeIdentity_OK c =
     (if cd_NoSource c then \<not> cd_ExpectExplicit c
      else if cd_HashErr c \<noteq> None then \<not> cd_Requested c \<and> \<not> cd_ExpectRequested c
      else if cd_BoundErr c \<noteq> None then False
      else if cd_FetchErr c \<noteq> None then cd_Discovered c \<and> \<not> cd_ExpectExplicit c
      else if \<not> cd_ExpectRequested c then True
      else cd_ExpectErr c = None \<and> cd_MatchedExpect c \<noteq> [])"

datatype caveat =
    noteNoCodeIdentity | noteNoComposeFileCheck | noteFloatingTag | noteNoOSImage
  | noteNoComposeAuthenticated

record Report =
  rp_Domain :: string
  rp_Files :: "FileCheck list"
  rp_ManifestErr :: "everr option"
  rp_QuoteErr :: "everr option"
  rp_Measurement :: Measurement
  rp_ReportData :: bytes
  rp_MRConfigID :: bytes
  rp_MRConfigIDErr :: "everr option"
  rp_quoteReply :: bytes
  rp_BindingErr :: "everr option"
  rp_CertMatch :: CertMatch
  rp_CertErr :: "everr option"
  rp_ServedCertSHA256 :: bytes
  rp_BundleCertSHA256 :: bytes
  rp_CertSubject :: string
  rp_CertIssuer :: string
  rp_CertNotAfter :: int
  rp_ChainTrusted :: bool
  rp_Code :: CodeIdentity
  rp_OSImage :: OSImageCheck
  rp_Note :: "caveat list"

definition Report_Pass :: "Report \<Rightarrow> bool" where
  "Report_Pass r =
     (if rp_ManifestErr r \<noteq> None \<or> rp_QuoteErr r \<noteq> None \<or> rp_BindingErr r \<noteq> None \<or> rp_CertErr r \<noteq> None then False
      else if \<not> CertMatch_OK (rp_CertMatch r) \<or> \<not> CodeIdentity_OK (rp_Code r) \<or> \<not> OSImageCheck_OK (rp_OSImage r)
      then False
      else if length (rp_Files r) = 0 then False
      else list_all FileCheck_OK (rp_Files r))"

record Config =
  cf_QuoteParser :: "quoteParser option"
  cf_AppCompose :: "bytes option"
  cf_BaseDomain :: string
  cf_AppID :: string
  cf_CloudAPIBase :: string
  cf_NoCloudAPI :: bool
  cf_NoDNSDiscovery :: bool
  cf_OSImages :: "OSImage list option"
  cf_ExpectComposeFiles :: "ExpectedCompose list"
  cf_ExpectComposeExplicit :: bool

record Checker =
  ck_parser :: quoteParser
  ck_cfg :: Config
  ck_osImages :: "OSImage list"

datatype newerr = NoQuoteParser | BadOSImages oerr

text \<open>The embedded allowlist is the text of osimages.json.\<close>

definition New_Checker :: "bytes \<Rightarrow> Config \<Rightarrow> newerr + Checker" where
  "New_Checker osimages cfg =
     bind_r (opt_r (cf_QuoteParser cfg) NoQuoteParser) (\<lambda>parser.
     bind_r (case cf_OSImages cfg of
               Some l \<Rightarrow> Inr l
             | None \<Rightarrow> (case BuiltinOSImages osimages of Inl e \<Rightarrow> Inl (BadOSImages e) | Inr l \<Rightarrow> Inr l)) (\<lambda>imgs.
     Inr \<lparr>ck_parser = parser, ck_cfg = cfg, ck_osImages = imgs\<rparr>))"

section \<open>Domain and transport\<close>

datatype derr = EmptyDomain | BadURL | NotHTTPS | HasPath string | NotBareDomain | NoHost

definition normalizeDomain :: "string \<Rightarrow> derr + string" where
  "normalizeDomain domain =
     (let d0 = trim_space domain in
      bind_r (fail_if (d0 = []) EmptyDomain) (\<lambda>_.
      bind_r (if contains_str ''://'' d0 then
                bind_r (opt_r (url_parse d0) BadURL) (\<lambda>u.
                bind_r (fail_if (u_Scheme u \<noteq> ''https'') NotHTTPS) (\<lambda>_.
                bind_r (fail_if (trim_char (CHR ''/'') (u_Path u) \<noteq> []) (HasPath (trim_char (CHR ''/'') (u_Path u)))) (\<lambda>_.
                Inr (u_Host u))))
              else Inr d0) (\<lambda>d.
      bind_r (fail_if (\<exists>c\<in>set d. c \<in> set ''/?#'') NotBareDomain) (\<lambda>_.
      bind_r (fail_if (d = []) NoHost) (\<lambda>_. Inr (to_lower d))))))"

definition maxFileBytes :: nat where [simp]: "maxFileBytes = 1048576"

text \<open>\<open>url.PathEscape\<close>.\<close>

definition segment_plain :: "char \<Rightarrow> bool" where
  "segment_plain c = (ascii_alnum c \<or> c \<in> set ''-_.~$&+=:@'')"

definition PathEscape :: "string \<Rightarrow> string" where
  "PathEscape s = concat (map (\<lambda>c. if segment_plain c then [c]
     else [CHR ''%'', upper_hex (of_char c div 16), upper_hex (of_char c mod 16)]) s)"

definition fetch :: "World \<Rightarrow> string \<Rightarrow> string \<Rightarrow> everr + bytes" where
  "fetch w host name =
     bind_r (opt_r (w_bundle w (''https://'' @ host @ ''/evidences/'' @ PathEscape name)) (EvFetch name)) (\<lambda>(status, full).
     let body = take (maxFileBytes + 1) full in
     bind_r (fail_if (status \<noteq> 200) (EvStatus name status)) (\<lambda>_.
     bind_r (fail_if (maxFileBytes < length body) (EvTooLarge name)) (\<lambda>_. Inr body)))"

section \<open>The served certificate\<close>

text \<open>The certificates of a PEM text, in order; the fuel is one more than its length.\<close>

fun parse_certs :: "nat \<Rightarrow> (bytes \<Rightarrow> Certificate option) \<Rightarrow> nat \<Rightarrow> bytes \<Rightarrow> everr + Certificate list" where
  "parse_certs 0 parse i rest = Inr []"
| "parse_certs (Suc n) parse i rest =
     (case pem_decode rest of
        None \<Rightarrow> Inr []
      | Some (block, rest') \<Rightarrow>
          if pem_Type block \<noteq> ''CERTIFICATE'' then parse_certs n parse i rest'
          else bind_r (opt_r (parse (pem_Bytes block)) (EvCertificate (i + 1))) (\<lambda>c.
               bind_r (parse_certs n parse (i + 1) rest') (\<lambda>cs. Inr (c # cs))))"

definition parseCertChain :: "(bytes \<Rightarrow> Certificate option) \<Rightarrow> bytes \<Rightarrow> everr + Certificate list" where
  "parseCertChain parse pemBytes =
     bind_r (parse_certs (Suc (length pemBytes)) parse 0 pemBytes) (\<lambda>out.
     bind_r (fail_if (length out = 0) EvNoCertificateBlock) (\<lambda>_. Inr out))"

definition samePublicKey :: "Certificate \<Rightarrow> Certificate \<Rightarrow> bool" where
  "samePublicKey a b = (0 < length (x_SPKI a) \<and> x_SPKI a = x_SPKI b)"

definition compareCert :: "Certificate \<Rightarrow> Certificate list \<Rightarrow> CertMatch" where
  "compareCert leaf bundle =
     (if x_Raw leaf = x_Raw (bundle ! 0) then CertExact
      else if list_ex (\<lambda>c. x_Raw leaf = x_Raw c) (tl bundle) then CertInChain
      else if x_Algorithm leaf = x_Algorithm (bundle ! 0) \<and> samePublicKey leaf (bundle ! 0)
      then CertSameKeyDifferentCert
      else CertMismatch)"

text \<open>The chain the run's connection presented, and whether two connections disagreed.\<close>

definition servedChain :: "Certificate list list \<Rightarrow> Certificate list \<times> bool" where
  "servedChain conns =
     (case conns of
        [] \<Rightarrow> ([], False)
      | first # others \<Rightarrow>
          if list_ex (\<lambda>c. c = [] \<or> first = [] \<or> x_Raw (c ! 0) \<noteq> x_Raw (first ! 0)) others then ([], True)
          else (first, False))"

definition checkServedCert :: "World \<Rightarrow> string \<Rightarrow> bytes option \<Rightarrow> Report \<Rightarrow> Report" where
  "checkServedCert w name certPEM rep =
     (case certPEM of
        None \<Rightarrow> rep\<lparr>rp_CertErr := Some (EvCertNotFetched (certName name))\<rparr>
      | Some pem \<Rightarrow>
          (case parseCertChain (w_parseCert w) pem of
             Inl e \<Rightarrow> rep\<lparr>rp_CertErr := Some e\<rparr>
           | Inr bundle \<Rightarrow>
               let (served0, changed) = servedChain (w_chains w) in
               if changed then rep\<lparr>rp_CertErr := Some EvConnectionChanged\<rparr>
               else if served0 = [] \<and> w_dial w = None then rep\<lparr>rp_CertErr := Some EvHandshake\<rparr>
               else let served = (if served0 = [] then the (w_dial w) else served0) in
                 if length served = 0 then rep\<lparr>rp_CertErr := Some EvNoCertificate\<rparr>
                 else let leaf = served ! 0 in
                   rep\<lparr>rp_ServedCertSHA256 := sha256 (x_Raw leaf),
                       rp_BundleCertSHA256 := sha256 (x_Raw (bundle ! 0)),
                       rp_CertSubject := x_Subject leaf, rp_CertIssuer := x_Issuer leaf,
                       rp_CertNotAfter := x_NotAfter leaf,
                       rp_CertMatch := compareCert leaf bundle,
                       rp_ChainTrusted := w_trusted w leaf (tl served) name\<rparr>))"

section \<open>Code identity\<close>

definition appIDFromConfig :: string where [simp]: "appIDFromConfig = ''supplied''"
definition appIDFromEventLog :: string where [simp]: "appIDFromEventLog = ''the quote's RTMR3 event log''"
definition appIDFromDNS :: string where [simp]: "appIDFromDNS = appAddressPrefix @ '' TXT''"
definition appIDFromComposeHash :: string where [simp]: "appIDFromComposeHash = ''compose_hash prefix''"

text \<open>The third component is set when a better source failed, with the resolver's error if it ran.\<close>

definition resolveAppID ::
    "Config \<Rightarrow> dnsResolver \<Rightarrow> string \<Rightarrow> bytes \<Rightarrow> string \<Rightarrow> string \<times> string \<times> iderror option" where
  "resolveAppID cfg dns domain composeHash inLog =
     (let pinned = normalizeAppID (cf_AppID cfg) in
      if pinned \<noteq> [] then (pinned, appIDFromConfig, None)
      else if inLog \<noteq> [] then (inLog, appIDFromEventLog, None)
      else if cf_NoDNSDiscovery cfg
      then (AppIDFromComposeHash composeHash, appIDFromComposeHash, Some NoDomain)
      else case discoverAppID domain dns of
          Inr a \<Rightarrow> (a, appIDFromDNS, None)
        | Inl e \<Rightarrow> (AppIDFromComposeHash composeHash, appIDFromComposeHash, Some e))"

definition appIDWithoutDNS :: "Config \<Rightarrow> bytes \<Rightarrow> string \<Rightarrow> string \<times> string" where
  "appIDWithoutDNS cfg composeHash inLog =
     (let pinned = normalizeAppID (cf_AppID cfg) in
      if pinned \<noteq> [] then (pinned, appIDFromConfig)
      else if inLog \<noteq> [] then (inLog, appIDFromEventLog)
      else (AppIDFromComposeHash composeHash, appIDFromComposeHash))"

text \<open>
  Obtaining the app-compose: the code identity so far, and the bytes when the walk goes on. The two
  lookups run in order, cloud first.
\<close>

definition guest_agent ::
    "World \<Rightarrow> CodeIdentity \<Rightarrow> string \<Rightarrow> lookerr list \<Rightarrow> CodeIdentity \<times> lookerr list \<times> bytes option" where
  "guest_agent w code baseDomain errs =
     (case FetchAppCompose (w_http w) (cd_AppID code) baseDomain of
        Inl e \<Rightarrow> (code, errs @ [LookAgent e], None)
      | Inr b \<Rightarrow> (code\<lparr>cd_Source := appIDHost (cd_AppID code) baseDomain\<rparr>, errs, Some b))"

definition cloud_usable :: "Config \<Rightarrow> bool" where
  "cloud_usable cfg = (\<not> cf_NoCloudAPI cfg \<and> (trim_space (cf_AppID cfg) \<noteq> [] \<or> \<not> cf_NoDNSDiscovery cfg))"

definition cloud_lookup ::
    "Config \<Rightarrow> World \<Rightarrow> CodeIdentity \<Rightarrow> bytes \<Rightarrow> CodeIdentity \<times> lookerr list \<times> bytes option" where
  "cloud_lookup cfg w code composeHash =
     (let base = trim_space (cf_CloudAPIBase cfg) in
      if \<not> cloud_usable cfg then (code, [], None)
      else case FetchAppComposeFromCloud (w_http w) base (cd_AppID code) composeHash of
          Inl e \<Rightarrow> (code, [LookCloud e], None)
        | Inr (b, inst) \<Rightarrow> (code\<lparr>cd_Source := cloudAppComposeSource base (cd_AppID code) inst\<rparr>, [], Some b))"

definition obtain_compose ::
    "Config \<Rightarrow> World \<Rightarrow> string \<Rightarrow> bytes \<Rightarrow> string \<Rightarrow> CodeIdentity \<Rightarrow> CodeIdentity \<times> bytes option" where
  "obtain_compose cfg w domain composeHash inLog code0 =
     (case cf_AppCompose cfg of
        Some raw \<Rightarrow>
          let (appid, src) = appIDWithoutDNS cfg composeHash inLog in
          (code0\<lparr>cd_Source := ''supplied'', cd_AppID := appid, cd_AppIDSource := src\<rparr>, Some raw)
      | None \<Rightarrow>
          let (appid, src, err) = resolveAppID cfg (w_dns w) domain composeHash inLog;
              code1 = code0\<lparr>cd_Discovered := \<not> cd_Requested code0, cd_AppID := appid,
                            cd_AppIDSource := src, cd_AppIDErr := err\<rparr>;
              (code2, errs, found) = cloud_lookup cfg w code1 composeHash;
              base = trim_space (cf_BaseDomain cfg)
          in if found \<noteq> None then (code2, found)
             else if base = [] \<and> cf_NoDNSDiscovery cfg \<and> errs = [] then (code2\<lparr>cd_NoSource := True\<rparr>, None)
             else let (code3, errs3, found3) =
                    (if base \<noteq> [] then guest_agent w code2 base errs
                     else if cf_NoDNSDiscovery cfg then (code2, errs @ [LookNoFallback], None)
                     else case deriveBaseDomain domain (w_cname w) of
                         None \<Rightarrow> (code2, errs @ [LookBaseDomain], None)
                       | Some b \<Rightarrow> guest_agent w code2 b errs)
                  in if found3 \<noteq> None then (code3, found3)
                     else (code3\<lparr>cd_FetchErr := Some (EvLookup (errs3
                             @ (if err \<noteq> None then [LookAppID src err] else [])))\<rparr>, None))"

definition checkCodeIdentity :: "Config \<Rightarrow> World \<Rightarrow> Report \<Rightarrow> CodeIdentity" where
  "checkCodeIdentity cfg w rep =
     (let code0 = code_zero\<lparr>cd_Requested := (cf_AppCompose cfg \<noteq> None \<or> trim_space (cf_BaseDomain cfg) \<noteq> []
                               \<or> trim_space (cf_AppID cfg) \<noteq> []),
                            cd_ExpectRequested := 0 < length (cf_ExpectComposeFiles cfg),
                            cd_ExpectExplicit := cf_ExpectComposeExplicit cfg\<rparr>
      in if rp_QuoteErr rep \<noteq> None then code0\<lparr>cd_HashErr := Some EvNotChecked\<rparr>
         else if rp_MRConfigIDErr rep \<noteq> None then code0\<lparr>cd_HashErr := rp_MRConfigIDErr rep\<rparr>
         else case ComposeHashOf (rp_MRConfigID rep) (rp_quoteReply rep) (RTMR3 (rp_Measurement rep)) of
             Inl e \<Rightarrow> code0\<lparr>cd_HashErr := Some (EvComposeHash e)\<rparr>
           | Inr composeHash \<Rightarrow>
               let inLog = (case LoggedAppID (rp_quoteReply rep) (RTMR3 (rp_Measurement rep)) of
                               Inl _ \<Rightarrow> [] | Inr a \<Rightarrow> a);
                   (code1, found) = obtain_compose cfg w (rp_Domain rep) composeHash inLog
                                      (code0\<lparr>cd_ComposeHash := composeHash\<rparr>)
               in case found of
                    None \<Rightarrow> code1
                  | Some raw \<Rightarrow>
                      (case VerifyAppCompose raw composeHash of
                         Inl e \<Rightarrow> code1\<lparr>cd_BoundErr := Some (EvAppCompose e)\<rparr>
                       | Inr ac \<Rightarrow>
                           let code2 = code1\<lparr>cd_Name := ac_Name ac, cd_AllowedEnvs := ac_AllowedEnvs ac,
                                             cd_ComposeFile := Some (ac_DockerComposeFile ac)\<rparr>
                           in if \<not> cd_ExpectRequested code2 then code2
                              else case MatchCompose (ac_DockerComposeFile ac) (cf_ExpectComposeFiles cfg) of
                                  Inl e \<Rightarrow> code2\<lparr>cd_ExpectErr := Some (EvCompose e)\<rparr>
                                | Inr l \<Rightarrow> code2\<lparr>cd_MatchedExpect := l\<rparr>))"

section \<open>The check\<close>

definition report_note :: "Checker \<Rightarrow> Report option \<Rightarrow> caveat list" where
  "report_note c rep =
     (let cfg = ck_cfg c;
          noAppCompose = (cf_AppCompose cfg = None \<and> trim_space (cf_BaseDomain cfg) = [] \<and> cf_NoDNSDiscovery cfg);
          unauthenticated = (\<not> noAppCompose
             \<and> (case rep of None \<Rightarrow> False | Some r \<Rightarrow> cd_ComposeFile (rp_Code r) = None))
      in (if noAppCompose then [noteNoCodeIdentity]
          else if unauthenticated then [noteNoComposeAuthenticated]
          else if length (cf_ExpectComposeFiles cfg) = 0 then [noteNoComposeFileCheck, noteFloatingTag]
          else [noteFloatingTag])
         @ (if length (ck_osImages c) = 0 then [noteNoOSImage] else []))"

definition measurement_zero :: Measurement where
  "measurement_zero = \<lparr>MRTD = zeros 48, RTMR0 = zeros 48, RTMR1 = zeros 48, RTMR2 = zeros 48, RTMR3 = zeros 48\<rparr>"

definition report_zero :: "string \<Rightarrow> Report" where
  "report_zero domain =
     \<lparr>rp_Domain = domain, rp_Files = [], rp_ManifestErr = None, rp_QuoteErr = None,
      rp_Measurement = measurement_zero, rp_ReportData = zeros 64, rp_MRConfigID = zeros 48,
      rp_MRConfigIDErr = None, rp_quoteReply = [], rp_BindingErr = None, rp_CertMatch = CertMismatch,
      rp_CertErr = None, rp_ServedCertSHA256 = zeros 32, rp_BundleCertSHA256 = zeros 32,
      rp_CertSubject = [], rp_CertIssuer = [], rp_CertNotAfter = 0, rp_ChainTrusted = True,
      rp_Code = code_zero,
      rp_OSImage = \<lparr>oc_Configured = False, oc_Matched = [], oc_Err = None,
                    oc_Observed = BootChainOf measurement_zero\<rparr>,
      rp_Note = []\<rparr>"

text \<open>Step 1: one manifest entry against its file, and the text of the certificate file.\<close>

definition check_file :: "World \<Rightarrow> string \<Rightarrow> ManifestEntry \<Rightarrow> FileCheck" where
  "check_file w host e =
     (case fetch w host (me_Name e) of
        Inl err \<Rightarrow> \<lparr>fc_Name = me_Name e, fc_Want = me_Digest e, fc_Got = zeros 32, fc_Err = Some err\<rparr>
      | Inr body \<Rightarrow> \<lparr>fc_Name = me_Name e, fc_Want = me_Digest e, fc_Got = sha256 body, fc_Err = None\<rparr>)"

fun cert_file :: "World \<Rightarrow> string \<Rightarrow> string \<Rightarrow> bytes option \<Rightarrow> ManifestEntry list \<Rightarrow> bytes option" where
  "cert_file w host name acc [] = acc"
| "cert_file w host name acc (e # es) =
     cert_file w host name
       (case fetch w host (me_Name e) of
          Inl _ \<Rightarrow> acc | Inr body \<Rightarrow> if me_Name e = certName name then Some body else acc) es"

text \<open>Steps 2 and 3: the quote, and the manifest it binds.\<close>

definition check_quote :: "Checker \<Rightarrow> World \<Rightarrow> string \<Rightarrow> bytes \<Rightarrow> Report \<Rightarrow> Report" where
  "check_quote c w host manifest rep =
     (let rep' =
        (case fetch w host quoteName of
           Inl e \<Rightarrow> rep\<lparr>rp_QuoteErr := Some e\<rparr>
         | Inr quoteBody \<Rightarrow>
             let rep1 = rep\<lparr>rp_quoteReply := quoteBody\<rparr> in
             (case DecodeQuoteResponse quoteBody of
                Inl e \<Rightarrow> rep1\<lparr>rp_QuoteErr := Some (EvQuoteReply e)\<rparr>
              | Inr raw \<Rightarrow>
                  (case ck_parser c raw of
                     Inl e \<Rightarrow> rep1\<lparr>rp_QuoteErr := Some (EvParser e)\<rparr>
                   | Inr (m, rd) \<Rightarrow>
                       let rep2 = rep1\<lparr>rp_Measurement := m, rp_ReportData := rd\<rparr>;
                           rep3 = (case ParseTDXQuoteBody raw of
                                     Inr body \<Rightarrow> rep2\<lparr>rp_MRConfigID := qb_MRConfigID body\<rparr>
                                   | Inl e \<Rightarrow> rep2\<lparr>rp_MRConfigIDErr := Some (EvQuoteBody e)\<rparr>)
                       in rep3\<lparr>rp_BindingErr := (case VerifyEvidenceReportData rd manifest of
                                 Inl e \<Rightarrow> Some (EvBinding e) | Inr _ \<Rightarrow> None)\<rparr>)))
      in if rp_QuoteErr rep' \<noteq> None then rep'\<lparr>rp_BindingErr := Some EvNotChecked\<rparr> else rep')"

definition check_os :: "Checker \<Rightarrow> Report \<Rightarrow> OSImageCheck" where
  "check_os c rep =
     (if rp_QuoteErr rep = None then CheckOSImage (ck_osImages c) (rp_Measurement rep)
      else \<lparr>oc_Configured = 0 < length (ck_osImages c), oc_Matched = [], oc_Err = Some [],
            oc_Observed = BootChainOf measurement_zero\<rparr>)"

definition check_steps :: "Checker \<Rightarrow> World \<Rightarrow> string \<Rightarrow> string \<Rightarrow> Report \<Rightarrow> Report" where
  "check_steps c w host name rep =
     (case fetch w host manifestName of
        Inl e \<Rightarrow> rep\<lparr>rp_ManifestErr := Some e\<rparr>
      | Inr manifest \<Rightarrow>
          (case bind_r (parseManifest manifest) (\<lambda>entries. bind_r (requireEntries entries name) (\<lambda>_. Inr entries)) of
             Inl e \<Rightarrow> rep\<lparr>rp_ManifestErr := Some (EvManifest e)\<rparr>
           | Inr entries \<Rightarrow>
               let rep1 = rep\<lparr>rp_Files := map (check_file w host) entries\<rparr>;
                   rep2 = check_quote c w host manifest rep1;
                   rep3 = checkServedCert w name (cert_file w host name None entries) rep2;
                   rep4 = rep3\<lparr>rp_Code := checkCodeIdentity (ck_cfg c) w rep3\<rparr>
               in rep4\<lparr>rp_OSImage := check_os c rep4\<rparr>))"

definition Check :: "Checker \<Rightarrow> World \<Rightarrow> string \<Rightarrow> derr + Report" where
  "Check c w domain =
     bind_r (normalizeDomain domain) (\<lambda>host.
     let name = (case net_split host of Some (h, _) \<Rightarrow> h | None \<Rightarrow> host);
         rep = check_steps c w host name (report_zero host)
     in Inr (rep\<lparr>rp_Note := report_note c (Some rep)\<rparr>))"

end
