(* ===== verification/Evid_Pass.thy ===== *)
theory Evid_Pass
  imports Evid_Check
begin

text \<open>
  What a passing report means: the steps of Evid_Check, each by a lemma, and the property that joins
  them.
\<close>

section \<open>PEM\<close>

lemma pem_body_shorter:
  assumes "pem_body ty w h s = Some (b, r)" "length s \<le> n"
  shows "length r \<le> n"
proof -
  obtain body trailer where t: "(if \<not> h \<and> prefix (tl pemEnd) s then Some ([], drop (length pemEnd - 1) s)
      else cut_str pemEnd s) = Some (body, trailer)" and r: "r = snd (getLine trailer)"
    using assms(1) by (auto simp: pem_body_def simp del: pemEnd_def split: option.splits if_splits)
  have "length trailer \<le> length s" using t cut_str_le[of pemEnd s body trailer] by (auto split: if_splits)
  moreover have "length r \<le> length trailer" unfolding r by (rule getLine_le)
  ultimately show ?thesis using assms(2) by linarith
qed

lemma pem_search_shorter: "pem_search n s = Some (b, r) \<Longrightarrow> length r < length s"
proof (induction n arbitrary: s)
  case (Suc n)
  obtain t where t: "(if prefix (tl pemStart) s then Some (drop (length pemStart - 1) s)
      else map_option snd (cut_str pemStart s)) = Some t"
    using Suc.prems by (cases "if prefix (tl pemStart) s then Some (drop (length pemStart - 1) s)
      else map_option snd (cut_str pemStart s)") (simp_all only: pem_search.simps option.case option.distinct)
  have lt: "length t < length s" by (rule start_shorter[OF t])
  obtain ty r1 where r1: "getLine t = (ty, r1)" by fastforce
  then have l1: "length r1 \<le> length t" using getLine_le[of t] by simp
  show ?case
  proof (cases "suffix pemEndOfLine ty")
    case False
    then have "pem_search n r1 = Some (b, r)" using Suc.prems unfolding pem_search.simps t by (simp add: r1)
    with Suc.IH l1 lt show ?thesis by fastforce
  next
    case True
    then obtain h r2 where r2: "skip_headers False r1 = Some (h, r2)"
      and c: "pem_body (trim_suffix pemEndOfLine ty) t h r2 = Some (b, r) \<or> pem_search n r2 = Some (b, r)"
      using Suc.prems unfolding pem_search.simps t by (auto simp: r1 split: option.splits)
    have "length r2 \<le> length r1" by (rule skip_headers_le[OF r2])
    with c l1 lt Suc.IH[of r2] pem_body_shorter[of _ t h r2 b r "length r2"] show ?thesis by fastforce
  qed
qed simp

text \<open>The fuel of the certificate loop is enough.\<close>

lemma parse_certs_fuel:
  "length s < n \<Longrightarrow> length s < m \<Longrightarrow> parse_certs n p i s = parse_certs m p i s"
proof (induction n arbitrary: s m i)
  case (Suc n)
  obtain m' where m: "m = Suc m'" using Suc.prems(2) by (cases m) auto
  have "parse_certs n p j r = parse_certs m' p j r" if "pem_decode s = Some (b, r)" for b r j
  proof -
    have "length r < length s" using pem_search_shorter that unfolding pem_decode_def by blast
    then show ?thesis using Suc.prems m by (intro Suc.IH) linarith+
  qed
  then show ?case by (simp add: m split: option.splits)
qed simp

section \<open>The steps\<close>

lemma fetch_ok:
  "fetch w host name = Inr b \<longleftrightarrow>
     w_bundle w (''https://'' @ host @ ''/evidences/'' @ PathEscape name) = Some (200, b) \<and> length b \<le> maxFileBytes"
  by (auto simp: fetch_def result_inv Let_def)

lemma check_file_OK:
  "FileCheck_OK (check_file w host e) \<longleftrightarrow> (\<exists>b. fetch w host (me_Name e) = Inr b \<and> sha256 b = me_Digest e)"
  by (auto simp: check_file_def FileCheck_OK_def split: sum.splits)

lemma cert_file_Some:
  "cert_file w host name acc es = Some pem \<Longrightarrow>
   acc = Some pem \<or> (\<exists>e\<in>set es. me_Name e = certName name \<and> fetch w host (me_Name e) = Inr pem)"
proof (induction es arbitrary: acc)
  case (Cons e es)
  show ?case
  proof (cases "fetch w host (me_Name e)")
    case (Inr body)
    then have "cert_file w host name (if me_Name e = certName name then Some body else acc) es = Some pem"
      using Cons.prems by simp
    from Cons.IH[OF this] Inr show ?thesis by (auto split: if_splits)
  qed (use Cons in auto)
qed simp

lemma compareCert_exact: "cs \<noteq> [] \<Longrightarrow> compareCert leaf cs = CertExact \<longleftrightarrow> x_Raw leaf = x_Raw (hd cs)"
  by (simp add: compareCert_def hd_conv_nth)

text \<open>The served certificate: what is compared, and that nothing else of the report changes.\<close>

lemma checkServedCert_ok:
  assumes "rp_CertErr rep = None" "rp_CertErr (checkServedCert w name cert rep) = None"
    "rp_CertMatch (checkServedCert w name cert rep) = CertExact"
  shows "\<exists>pem cs served. cert = Some pem \<and> parseCertChain (w_parseCert w) pem = Inr cs \<and> served \<noteq> []
     \<and> (w_chains w \<noteq> [] \<and> served = hd (w_chains w) \<or> w_dial w = Some served)
     \<and> snd (servedChain (w_chains w)) = False \<and> x_Raw (hd served) = x_Raw (hd cs)"
proof -
  obtain pem where pem: "cert = Some pem" using assms(2) by (cases cert) (auto simp: checkServedCert_def)
  obtain cs where b: "parseCertChain (w_parseCert w) pem = Inr cs"
    using assms(2) pem by (cases "parseCertChain (w_parseCert w) pem") (auto simp: checkServedCert_def)
  have bne: "cs \<noteq> []" using b by (auto simp: parseCertChain_def result_inv)
  obtain served0 changed where s: "servedChain (w_chains w) = (served0, changed)" by fastforce
  have nc: "\<not> changed" using assms(2) pem b s by (auto simp: checkServedCert_def)
  have d: "\<not> (served0 = [] \<and> w_dial w = None)"
    using assms(2) pem b s nc by (auto simp: checkServedCert_def split: if_splits)
  let ?served = "if served0 = [] then the (w_dial w) else served0"
  have ne: "?served \<noteq> []" using assms(2) pem b s nc d by (auto simp: checkServedCert_def Let_def split: if_splits)
  have "compareCert (?served ! 0) cs = CertExact"
    using assms(3) pem b s nc d ne by (simp add: checkServedCert_def Let_def)
  then have "x_Raw (hd ?served) = x_Raw (hd cs)" using compareCert_exact[OF bne] hd_conv_nth[OF ne] by simp
  moreover have "w_chains w \<noteq> [] \<and> ?served = hd (w_chains w) \<or> w_dial w = Some ?served"
    using s d nc by (auto simp: servedChain_def split: list.splits if_splits)
  moreover have "snd (servedChain (w_chains w)) = False" using s nc by simp
  ultimately show ?thesis using pem b ne by blast
qed

lemma checkServedCert_frame:
  "rp_Files (checkServedCert w name cert rep) = rp_Files rep"
  "rp_ManifestErr (checkServedCert w name cert rep) = rp_ManifestErr rep"
  "rp_QuoteErr (checkServedCert w name cert rep) = rp_QuoteErr rep"
  "rp_BindingErr (checkServedCert w name cert rep) = rp_BindingErr rep"
  "rp_Measurement (checkServedCert w name cert rep) = rp_Measurement rep"
  "rp_MRConfigID (checkServedCert w name cert rep) = rp_MRConfigID rep"
  "rp_MRConfigIDErr (checkServedCert w name cert rep) = rp_MRConfigIDErr rep"
  "rp_quoteReply (checkServedCert w name cert rep) = rp_quoteReply rep"
  "rp_Domain (checkServedCert w name cert rep) = rp_Domain rep"
  by (simp_all add: checkServedCert_def Let_def split: option.splits sum.splits prod.splits if_splits)

text \<open>The quote: what was verified, and what it binds.\<close>

lemma check_quote_ok:
  assumes "rp_QuoteErr (check_quote c w host manifest rep) = None"
    "rp_BindingErr (check_quote c w host manifest rep) = None"
  shows "\<exists>reply raw m rd. fetch w host quoteName = Inr reply \<and> DecodeQuoteResponse reply = Inr raw
     \<and> ck_parser c raw = Inr (m, rd) \<and> VerifyEvidenceReportData rd manifest = Inr ()
     \<and> rp_Measurement (check_quote c w host manifest rep) = m
     \<and> rp_quoteReply (check_quote c w host manifest rep) = reply
     \<and> (rp_MRConfigIDErr (check_quote c w host manifest rep) = None \<longrightarrow>
          (\<exists>b. ParseTDXQuoteBody raw = Inr b \<and> rp_MRConfigID (check_quote c w host manifest rep) = qb_MRConfigID b))"
proof -
  obtain reply where r: "fetch w host quoteName = Inr reply"
    using assms(1) by (cases "fetch w host quoteName") (auto simp: check_quote_def Let_def)
  obtain raw where raw: "DecodeQuoteResponse reply = Inr raw"
    using assms(1) r by (cases "DecodeQuoteResponse reply") (auto simp: check_quote_def Let_def)
  obtain m rd where p: "ck_parser c raw = Inr (m, rd)"
    using assms(1) r raw by (cases "ck_parser c raw") (auto simp: check_quote_def Let_def)
  show ?thesis
  proof (cases "ParseTDXQuoteBody raw")
    case (Inl e)
    have "VerifyEvidenceReportData rd manifest = Inr ()"
      using assms r raw p Inl by (cases "VerifyEvidenceReportData rd manifest")
        (auto simp: check_quote_def Let_def split: if_splits)
    then show ?thesis using assms r raw p Inl by (auto simp: check_quote_def Let_def split: if_splits)
  next
    case (Inr b)
    have "VerifyEvidenceReportData rd manifest = Inr ()"
      using assms r raw p Inr by (cases "VerifyEvidenceReportData rd manifest")
        (auto simp: check_quote_def Let_def split: if_splits)
    then show ?thesis using assms r raw p Inr by (auto simp: check_quote_def Let_def split: if_splits)
  qed
qed

lemma check_quote_frame:
  assumes "rp_QuoteErr rep = None"
  shows "rp_Files (check_quote c w host manifest rep) = rp_Files rep"
    "rp_ManifestErr (check_quote c w host manifest rep) = rp_ManifestErr rep"
    "rp_CertErr (check_quote c w host manifest rep) = rp_CertErr rep"
    "rp_Domain (check_quote c w host manifest rep) = rp_Domain rep"
  by (simp_all add: check_quote_def Let_def split: sum.splits prod.splits)

text \<open>Code identity, where the caller demanded the comparison.\<close>

text \<open>Obtaining the app-compose decides nothing by itself.\<close>

definition same_checks :: "CodeIdentity \<Rightarrow> CodeIdentity \<Rightarrow> bool" where
  "same_checks c c' \<longleftrightarrow> cd_ExpectRequested c' = cd_ExpectRequested c \<and> cd_ExpectExplicit c' = cd_ExpectExplicit c
     \<and> cd_BoundErr c' = cd_BoundErr c \<and> cd_HashErr c' = cd_HashErr c
     \<and> cd_ExpectErr c' = cd_ExpectErr c \<and> cd_MatchedExpect c' = cd_MatchedExpect c"

lemma guest_agent_frame: "guest_agent w c b es = (c', es', f) \<Longrightarrow> same_checks c c'"
  by (auto simp: guest_agent_def same_checks_def split: sum.splits)

lemma cloud_lookup_frame: "cloud_lookup cfg w c h = (c', es', f) \<Longrightarrow> same_checks c c'"
  by (auto simp: cloud_lookup_def same_checks_def Let_def split: sum.splits if_splits)

lemma obtain_compose_frame:
  assumes "obtain_compose cfg w d h l c = (c', found)"
  shows "same_checks c c' \<and> (found = None \<longrightarrow> cd_NoSource c' \<or> cd_FetchErr c' \<noteq> None)"
proof (cases "cf_AppCompose cfg")
  case (Some raw)
  then show ?thesis using assms by (auto simp: obtain_compose_def same_checks_def split: prod.splits)
next
  case None
  obtain i src err where r: "resolveAppID cfg (w_dns w) d h l = (i, src, err)" by (metis prod.exhaust)
  let ?c1 = "c\<lparr>cd_Discovered := \<not> cd_Requested c, cd_AppID := i, cd_AppIDSource := src, cd_AppIDErr := err\<rparr>"
  let ?base = "trim_space (cf_BaseDomain cfg)"
  have s1: "same_checks c ?c1" by (simp add: same_checks_def)
  obtain c2 es f where l: "cloud_lookup cfg w ?c1 h = (c2, es, f)" by (metis prod.exhaust)
  have s2: "same_checks c c2" using s1 cloud_lookup_frame[OF l] by (simp add: same_checks_def)
  let ?g = "if ?base \<noteq> [] then guest_agent w c2 ?base es
            else if cf_NoDNSDiscovery cfg then (c2, es @ [LookNoFallback], None)
            else case deriveBaseDomain d (w_cname w) of
                None \<Rightarrow> (c2, es @ [LookBaseDomain], None) | Some b \<Rightarrow> guest_agent w c2 b es"
  obtain c3 es3 f3 where g: "?g = (c3, es3, f3)" by (metis prod.exhaust)
  have s3: "same_checks c2 c3"
    using g guest_agent_frame[of w c2 _ es c3 es3 f3]
    by (auto simp: same_checks_def split: if_splits option.splits)
  have s4: "same_checks c c3" using s2 s3 by (simp add: same_checks_def)
  have e: "obtain_compose cfg w d h l c =
     (if f \<noteq> None then (c2, f)
      else if ?base = [] \<and> cf_NoDNSDiscovery cfg \<and> es = [] then (c2\<lparr>cd_NoSource := True\<rparr>, None)
      else if f3 \<noteq> None then (c3, f3)
      else (c3\<lparr>cd_FetchErr := Some (EvLookup (es3 @ (if err \<noteq> None then [LookAppID src err] else [])))\<rparr>, None))"
    unfolding obtain_compose_def None option.case r Let_def prod.case l g by (rule refl)
  show ?thesis
    using assms s2 s4 unfolding e by (auto simp: same_checks_def split: if_splits)
qed

lemma checkCodeIdentity_demanded:
  assumes ok: "CodeIdentity_OK (checkCodeIdentity cfg w rep)"
    and ex: "cf_ExpectComposeExplicit cfg" "cf_ExpectComposeFiles cfg \<noteq> []"
  shows "\<exists>h raw ac l. rp_QuoteErr rep = None \<and> rp_MRConfigIDErr rep = None
     \<and> ComposeHashOf (rp_MRConfigID rep) (rp_quoteReply rep) (RTMR3 (rp_Measurement rep)) = Inr h
     \<and> VerifyAppCompose raw h = Inr ac
     \<and> MatchCompose (ac_DockerComposeFile ac) (cf_ExpectComposeFiles cfg) = Inr l \<and> l \<noteq> []"
proof -
  let ?c0 = "code_zero\<lparr>cd_Requested := (cf_AppCompose cfg \<noteq> None \<or> trim_space (cf_BaseDomain cfg) \<noteq> []
                               \<or> trim_space (cf_AppID cfg) \<noteq> []),
      cd_ExpectRequested := 0 < length (cf_ExpectComposeFiles cfg),
      cd_ExpectExplicit := cf_ExpectComposeExplicit cfg\<rparr>"
  let ?H = "ComposeHashOf (rp_MRConfigID rep) (rp_quoteReply rep) (RTMR3 (rp_Measurement rep))"
  have fail: "\<not> CodeIdentity_OK (?c0\<lparr>cd_HashErr := e\<rparr>)" if "e \<noteq> None" for e
    using that ex(2) by (simp add: CodeIdentity_OK_def code_zero_def)
  have q: "rp_QuoteErr rep = None" using ok fail[of "Some EvNotChecked"]
    by (simp add: checkCodeIdentity_def Let_def split: if_splits)
  have m: "rp_MRConfigIDErr rep = None" using ok q fail[of "rp_MRConfigIDErr rep"]
    by (simp add: checkCodeIdentity_def Let_def split: if_splits)
  obtain h where h: "?H = Inr h"
    using ok q m fail[of "Some (EvComposeHash _)"] by (cases ?H) (simp_all add: checkCodeIdentity_def Let_def)
  let ?l = "case LoggedAppID (rp_quoteReply rep) (RTMR3 (rp_Measurement rep)) of Inl _ \<Rightarrow> [] | Inr a \<Rightarrow> a"
  let ?c1 = "?c0\<lparr>cd_ComposeHash := h\<rparr>"
  obtain c' found where o: "obtain_compose cfg w (rp_Domain rep) h ?l ?c1 = (c', found)" by fastforce
  have fr: "same_checks ?c1 c'" "found = None \<longrightarrow> cd_NoSource c' \<or> cd_FetchErr c' \<noteq> None"
    using obtain_compose_frame[OF o] by blast+
  have fx: "cd_ExpectRequested c'" "cd_ExpectExplicit c'" "cd_HashErr c' = None" "cd_MatchedExpect c' = []"
    using fr(1) ex by (simp_all add: same_checks_def code_zero_def)
  have e: "checkCodeIdentity cfg w rep =
      (case found of
         None \<Rightarrow> c'
       | Some raw \<Rightarrow>
           (case VerifyAppCompose raw h of
              Inl e \<Rightarrow> c'\<lparr>cd_BoundErr := Some (EvAppCompose e)\<rparr>
            | Inr ac \<Rightarrow>
                let code2 = c'\<lparr>cd_Name := ac_Name ac, cd_AllowedEnvs := ac_AllowedEnvs ac,
                               cd_ComposeFile := Some (ac_DockerComposeFile ac)\<rparr>
                in if \<not> cd_ExpectRequested code2 then code2
                   else case MatchCompose (ac_DockerComposeFile ac) (cf_ExpectComposeFiles cfg) of
                       Inl e \<Rightarrow> code2\<lparr>cd_ExpectErr := Some (EvCompose e)\<rparr>
                     | Inr l \<Rightarrow> code2\<lparr>cd_MatchedExpect := l\<rparr>))"
    unfolding checkCodeIdentity_def Let_def using q m h o by simp
  obtain raw where raw: "found = Some raw"
    using ok fr(2) fx unfolding e by (cases found) (auto simp: CodeIdentity_OK_def split: if_splits)
  obtain ac where ac: "VerifyAppCompose raw h = Inr ac"
    using ok fx unfolding e raw
    by (cases "VerifyAppCompose raw h") (auto simp: CodeIdentity_OK_def split: if_splits)
  obtain l where l: "MatchCompose (ac_DockerComposeFile ac) (cf_ExpectComposeFiles cfg) = Inr l"
    using ok fx unfolding e raw option.case ac
    by (cases "MatchCompose (ac_DockerComposeFile ac) (cf_ExpectComposeFiles cfg)")
      (auto simp: CodeIdentity_OK_def Let_def split: if_splits)
  have "l \<noteq> []"
    using ok fx unfolding e raw option.case ac by (auto simp: CodeIdentity_OK_def Let_def l split: if_splits)
  then show ?thesis using q m h ac l by blast
qed

section \<open>The report\<close>

lemma Pass_iff:
  "Report_Pass r \<longleftrightarrow>
     rp_ManifestErr r = None \<and> rp_QuoteErr r = None \<and> rp_BindingErr r = None \<and> rp_CertErr r = None
     \<and> rp_CertMatch r = CertExact \<and> CodeIdentity_OK (rp_Code r) \<and> OSImageCheck_OK (rp_OSImage r)
     \<and> rp_Files r \<noteq> [] \<and> list_all FileCheck_OK (rp_Files r)"
  by (auto simp: Report_Pass_def CertMatch_OK_def)

lemma Pass_note: "Report_Pass (r\<lparr>rp_Note := x\<rparr>) = Report_Pass r"
  by (simp add: Pass_iff)

lemma Check_steps:
  assumes "Check c w domain = Inr rep"
  shows "\<exists>host. normalizeDomain domain = Inr host
     \<and> rep = (let name = (case net_split host of Some (h, _) \<Rightarrow> h | None \<Rightarrow> host);
                  r = check_steps c w host name (report_zero host) in r\<lparr>rp_Note := report_note c (Some r)\<rparr>)"
  using assms by (auto simp: Check_def bind_r_eq_Inr Let_def)


section \<open>A passing run\<close>

text \<open>One certificate, a quote that binds the manifest, and an allowlist with its boot chain.\<close>

definition demo_pem :: bytes where
  "demo_pem = ''-----BEGIN CERTIFICATE-----'' @ [CHR 0x0A] @ ''AAAA'' @ [CHR 0x0A]
     @ ''-----END CERTIFICATE-----'' @ [CHR 0x0A]"

definition demo_cert :: Certificate where
  "demo_cert = \<lparr>x_Raw = zeros 3, x_SPKI = ''k'', x_Algorithm = 1, x_Subject = [], x_Issuer = [], x_NotAfter = 0\<rparr>"

definition demo_parseCert :: "bytes \<Rightarrow> Certificate option" where
  "demo_parseCert b = (if b = zeros 3 then Some demo_cert else None)"

definition demo_entries :: "ManifestEntry list" where
  "demo_entries = [\<lparr>me_Name = ''cert-gw.io.pem'', me_Digest = sha256 demo_pem\<rparr>,
     \<lparr>me_Name = ''acme-account.json'', me_Digest = sha256 ''{}''\<rparr>]"

definition demo_manifest :: bytes where
  "demo_manifest = concat (map sum_line demo_entries)"

definition demo_reply :: bytes where
  "demo_reply = json_print (JObj [(''quote'', JStr ''00'')])"

definition demo_bundle :: "string \<Rightarrow> (int \<times> bytes) option" where
  "demo_bundle u =
     (if u = ''https://gw.io/evidences/sha256sum.txt'' then Some (200, demo_manifest)
      else if u = ''https://gw.io/evidences/cert-gw.io.pem'' then Some (200, demo_pem)
      else if u = ''https://gw.io/evidences/acme-account.json'' then Some (200, ''{}'')
      else if u = ''https://gw.io/evidences/quote.json'' then Some (200, demo_reply)
      else None)"

definition demo_world :: World where
  "demo_world = \<lparr>w_bundle = demo_bundle, w_http = (\<lambda>_. None),
     w_dns = \<lparr>dns_TXT = (\<lambda>_. None), dns_CNAME = None\<rparr>, w_cname = (\<lambda>_. None), w_chains = [[demo_cert]],
     w_dial = None, w_parseCert = demo_parseCert, w_trusted = (\<lambda>_ _ _. True)\<rparr>"

definition demo_os :: OSImage where
  "demo_os = \<lparr>oi_Name = ''image'', oi_OSImageHash = [], oi_BootChain = BootChainOf demo_measurement\<rparr>"

definition demo_checker :: Checker where
  "demo_checker =
     \<lparr>ck_parser = (\<lambda>_. Inr (demo_measurement, EvidenceReportData demo_manifest)),
      ck_cfg = \<lparr>cf_QuoteParser = None, cf_AppCompose = None, cf_BaseDomain = [], cf_AppID = [],
                cf_CloudAPIBase = [], cf_NoCloudAPI = True, cf_NoDNSDiscovery = True, cf_OSImages = None,
                cf_ExpectComposeFiles = [], cf_ExpectComposeExplicit = False\<rparr>,
      ck_osImages = [demo_os]\<rparr>"

lemma demo_world_sel [simp]:
  "w_bundle demo_world = demo_bundle" "w_chains demo_world = [[demo_cert]]" "w_dial demo_world = None"
  "w_parseCert demo_world = demo_parseCert"
  by (simp_all add: demo_world_def)

lemma demo_chain: "parseCertChain demo_parseCert demo_pem = Inr [demo_cert]"
  by code_simp

lemma demo_host: "normalizeDomain ''GW.io'' = Inr ''gw.io''" "net_split ''gw.io'' = None"
  by code_simp+

lemma demo_escape:
  "PathEscape ''sha256sum.txt'' = ''sha256sum.txt''" "PathEscape ''cert-gw.io.pem'' = ''cert-gw.io.pem''"
  "PathEscape ''acme-account.json'' = ''acme-account.json''" "PathEscape ''quote.json'' = ''quote.json''"
  by (simp_all add: PathEscape_def segment_plain_def ascii_alnum_def in_range_def)

lemma demo_fetch:
  "fetch demo_world ''gw.io'' ''sha256sum.txt'' = Inr demo_manifest"
  "fetch demo_world ''gw.io'' ''cert-gw.io.pem'' = Inr demo_pem"
  "fetch demo_world ''gw.io'' ''acme-account.json'' = Inr ''{}''"
  "fetch demo_world ''gw.io'' ''quote.json'' = Inr demo_reply"
proof -
  have "length demo_manifest \<le> 1048576" by (simp add: demo_manifest_def demo_entries_def sum_line_def)
  moreover have "length demo_reply \<le> 1048576"
    by (simp add: demo_reply_def json_print.simps print_str_def escape_char_def)
  moreover have "length demo_pem \<le> 1048576" by (simp add: demo_pem_def)
  ultimately show
    "fetch demo_world ''gw.io'' ''sha256sum.txt'' = Inr demo_manifest"
    "fetch demo_world ''gw.io'' ''cert-gw.io.pem'' = Inr demo_pem"
    "fetch demo_world ''gw.io'' ''acme-account.json'' = Inr ''{}''"
    "fetch demo_world ''gw.io'' ''quote.json'' = Inr demo_reply"
    by (simp_all add: fetch_ok demo_escape demo_bundle_def)
qed

lemma demo_manifest_parse: "parseManifest demo_manifest = Inr demo_entries"
  unfolding demo_manifest_def
  by (rule parse_sum_lines) (simp_all add: demo_entries_def entry_ok_def plain_name_def one_line_def)

lemma demo_quote:
  "DecodeQuoteResponse demo_reply = Inr [CHR 0x00]"
  "VerifyEvidenceReportData (EvidenceReportData demo_manifest) demo_manifest = Inr ()"
proof -
  have "json_parse demo_reply = Some (JObj [(''quote'', JStr ''00'')])"
    unfolding demo_reply_def by (rule json_parse_print) simp
  moreover have "hex_decode ''00'' = Some [CHR 0x00]" by code_simp
  ultimately show "DecodeQuoteResponse demo_reply = Inr [CHR 0x00]"
    by (simp add: DecodeQuoteResponse_def str_field_def decode_struct_def struct_field_exact str_into_def)
  show "VerifyEvidenceReportData (EvidenceReportData demo_manifest) demo_manifest = Inr ()"
    by (simp add: VerifyEvidenceReportData_def EvidenceReportData_def Let_def result_inv)
qed

lemma demo_body: "ParseTDXQuoteBody [CHR 0x00] = Inl (QuoteTooShort 1)"
  by (simp add: ParseTDXQuoteBody_def minQuoteLen_def)

lemma demo_os_ok: "os_image_ok demo_os"
  by (simp add: os_image_ok_def demo_os_def BootChain_IsZero_def BootChainOf_def demo_measurement_def)

lemma demo_steps:
  "Report_Pass (check_steps demo_checker demo_world ''gw.io'' ''gw.io'' (report_zero ''gw.io''))"
proof -
  let ?z = "report_zero ''gw.io''\<lparr>rp_Files := map (check_file demo_world ''gw.io'') demo_entries\<rparr>"
  let ?q = "check_quote demo_checker demo_world ''gw.io'' demo_manifest ?z"
  let ?s = "checkServedCert demo_world ''gw.io'' (Some demo_pem) ?q"
  have q: "?q = ?z\<lparr>rp_quoteReply := demo_reply, rp_Measurement := demo_measurement,
      rp_ReportData := EvidenceReportData demo_manifest, rp_MRConfigIDErr := Some (EvQuoteBody (QuoteTooShort 1))\<rparr>"
    by (simp add: check_quote_def demo_fetch demo_quote demo_body demo_checker_def report_zero_def)
  have cert: "cert_file demo_world ''gw.io'' ''gw.io'' None demo_entries = Some demo_pem"
    by (simp add: demo_entries_def demo_fetch certName_def)
  have req: "requireEntries demo_entries ''gw.io'' = Inr ()"
    by (simp add: requireEntries_def demo_entries_def certName_def)
  have sv: "rp_CertErr ?s = None" "rp_CertMatch ?s = CertExact"
    unfolding q by (simp_all add: checkServedCert_def demo_chain servedChain_def compareCert_def report_zero_def Let_def)
  have files: "rp_Files ?s \<noteq> []" "list_all FileCheck_OK (rp_Files ?s)"
    unfolding checkServedCert_frame q
    by (simp_all add: demo_entries_def list_all_iff check_file_OK demo_fetch)
  have f: "rp_QuoteErr ?s = None" "rp_MRConfigIDErr ?s = Some (EvQuoteBody (QuoteTooShort 1))"
    "rp_Measurement ?s = demo_measurement" "rp_ManifestErr ?s = None" "rp_BindingErr ?s = None"
    unfolding checkServedCert_frame q by (simp_all add: report_zero_def)
  have code: "CodeIdentity_OK (checkCodeIdentity (ck_cfg demo_checker) demo_world ?s)"
    unfolding checkCodeIdentity_def Let_def f by (simp add: CodeIdentity_OK_def code_zero_def demo_checker_def)
  have ok: "list_all os_image_ok [demo_os]" by (simp add: demo_os_ok)
  have os: "OSImageCheck_OK (check_os demo_checker (?s\<lparr>rp_Code := x\<rparr>))" for x
    using CheckOSImage_ok(1)[OF ok, of demo_measurement] f
    by (simp add: check_os_def demo_os_def demo_checker_def)
  have "check_steps demo_checker demo_world ''gw.io'' ''gw.io'' (report_zero ''gw.io'')
      = (let r = ?s\<lparr>rp_Code := checkCodeIdentity (ck_cfg demo_checker) demo_world ?s\<rparr>
         in r\<lparr>rp_OSImage := check_os demo_checker r\<rparr>)"
    by (simp only: check_steps_def manifestName_def demo_fetch sum.case demo_manifest_parse bind_r_def req cert Let_def)
  then show ?thesis
    unfolding Pass_iff Let_def using sv files code os f by simp
qed


end
