(* ===== verification/Client_Endpoint.thy ===== *)
theory Client_Endpoint
  imports Proof_Sig Go_Strings
begin

text \<open>
  client/endpoint: the table of sealed surfaces, and the normalisation each surface applies to a
  request before it is sealed (endpoint.go, anthropic.go, speech.go).

  A raw message is its JSON value, so the search of anthropic.go for a quoted word in the raw text
  of \<open>messages\<close> looks at the text the value prints as; a text that spells a letter of the word as an
  escape is the one case where the two differ. Splitting a multipart body into its parts is
  \<open>mime/multipart\<close>; the decoder of the speech surface is modelled on the parts it yields.
\<close>

section \<open>Errors\<close>

datatype pre_err =
    RfNotString | RfUnsupported string | FilenameNotString | FilenameIsPath string
  | HeaderUnsafe string string | MalformedMultipart | PartUnnamed | PartE2EE | PartSecondFile
  | PartCollides string | PartUnreadable string | PartNoFile

section \<open>The pinned response format of the image surfaces\<close>

definition imagePreSeal :: "Request \<Rightarrow> pre_err + Request" where
  "imagePreSeal req =
     (let fill = Inr (mput fieldResponseFormat (JStr ''b64_json'') req) in
      case mget req fieldResponseFormat of
        None \<Rightarrow> fill
      | Some raw \<Rightarrow>
          if raw = JNull then fill
          else bind_r (opt_r (as_string raw) RfNotString) (\<lambda>got.
               bind_r (fail_if (got \<noteq> ''b64_json'') (RfUnsupported got)) (\<lambda>_. Inr req)))"

section \<open>Tool additions of the Anthropic surface\<close>

text \<open>\<open>struct{ Type string; Tool struct{ Definition json.RawMessage } }\<close>.\<close>

record add_block =
  ab_Type :: string
  ab_Definition :: "json option"

definition ab_zero :: add_block where
  "ab_zero = \<lparr>ab_Type = [], ab_Definition = None\<rparr>"

definition ab_set :: "string \<Rightarrow> json \<Rightarrow> add_block \<Rightarrow> add_block option" where
  "ab_set n x b =
     (if n = ''Type'' then map_option (\<lambda>s. b\<lparr>ab_Type := s\<rparr>) (str_into x (ab_Type b))
      else map_option (\<lambda>d. b\<lparr>ab_Definition := d\<rparr>)
             (decode_struct [''Definition''] (\<lambda>_ y _. Some (Some y)) (ab_Definition b) x))"

text \<open>The definition a \<open>tool_addition\<close> block carries; \<open>None\<close> for every other block.\<close>

definition tool_addition :: "json \<Rightarrow> json option option" where
  "tool_addition b =
     (case decode_struct [''Type'', ''Tool''] ab_set ab_zero b of
        None \<Rightarrow> None
      | Some ab \<Rightarrow> if ab_Type ab = ''tool_addition'' then Some (ab_Definition ab) else None)"

text \<open>\<open>struct{ Name string }\<close> of a definition; it must decode and be named.\<close>

definition definition_name :: "json \<Rightarrow> string option" where
  "definition_name v = decode_struct [''name''] (\<lambda>_ x n. str_into x n) [] v"

text \<open>The name of a declared tool; a decoding error leaves what was read so far.\<close>

definition tool_name :: "json \<Rightarrow> string" where
  "tool_name t =
     (case decode_struct [''name'']
             (\<lambda>_ x n. Some (case str_into x n of None \<Rightarrow> n | Some s \<Rightarrow> s)) [] t of
        None \<Rightarrow> [] | Some n \<Rightarrow> n)"

record fold_acc =
  fa_names :: "string list"
  fa_tools :: "json list"
  fa_found :: bool

definition fold_addition :: "json option \<Rightarrow> fold_acc \<Rightarrow> fold_acc option" where
  "fold_addition d a =
     (case d of
        None \<Rightarrow> None
      | Some v \<Rightarrow>
          case definition_name v of
            None \<Rightarrow> None
          | Some n \<Rightarrow>
              if n = [] then None
              else if n \<in> set (fa_names a) then Some (a\<lparr>fa_found := True\<rparr>)
              else Some \<lparr>fa_names = n # fa_names a, fa_tools = fa_tools a @ [v], fa_found = True\<rparr>)"

fun fold_blocks :: "json list \<Rightarrow> fold_acc \<Rightarrow> (json list \<times> fold_acc) option" where
  "fold_blocks [] a = Some ([], a)"
| "fold_blocks (b # bs) a =
     (case tool_addition b of
        None \<Rightarrow> map_option (\<lambda>(kept, a'). (b # kept, a')) (fold_blocks bs a)
      | Some d \<Rightarrow> (case fold_addition d a of None \<Rightarrow> None | Some a' \<Rightarrow> fold_blocks bs a'))"

text \<open>A decoded message is \<open>None\<close> when it is a nil map (a JSON \<open>null\<close>).\<close>

definition message_blocks :: "json gomap option \<Rightarrow> json list option" where
  "message_blocks m = Option.bind (mget (nil_map m) ''content'') as_array"

fun fold_messages ::
    "json gomap option list \<Rightarrow> fold_acc \<Rightarrow> (json gomap option list \<times> fold_acc) option" where
  "fold_messages [] a = Some ([], a)"
| "fold_messages (m # ms) a =
     (case message_blocks m of
        None \<Rightarrow> map_option (\<lambda>(out, a'). (m # out, a')) (fold_messages ms a)
      | Some blocks \<Rightarrow>
          case fold_blocks blocks a of
            None \<Rightarrow> None
          | Some (kept, a') \<Rightarrow>
              if kept = [] \<and> blocks \<noteq> [] then None
              else let m' = (if length kept = length blocks then m
                             else Some (mput ''content'' (JArr kept) (nil_map m)))
                   in map_option (\<lambda>(out, a''). (m' # out, a'')) (fold_messages ms a'))"

definition message_json :: "json gomap option \<Rightarrow> json" where
  "message_json m = (case m of None \<Rightarrow> JNull | Some kvs \<Rightarrow> JObj kvs)"

definition foldToolAdditions :: "json option \<Rightarrow> json option \<Rightarrow> (json \<times> json) option" where
  "foldToolAdditions rawMessages rawTools =
     (let text = (case rawMessages of None \<Rightarrow> [] | Some v \<Rightarrow> json_print v) in
      if \<not> contains_str (print_str ''tool_addition'') text
         \<or> contains_str (print_str ''tool_removal'') text then None
      else
        case Option.bind rawMessages (\<lambda>v. Option.bind (as_array v) (\<lambda>vs. opt_all (map as_object vs))) of
          None \<Rightarrow> None
        | Some messages \<Rightarrow>
            case (case rawTools of None \<Rightarrow> Some [] | Some t \<Rightarrow> as_array t) of
              None \<Rightarrow> None
            | Some tools \<Rightarrow>
                case fold_messages messages
                       \<lparr>fa_names = map tool_name tools, fa_tools = tools, fa_found = False\<rparr> of
                  None \<Rightarrow> None
                | Some (out, a) \<Rightarrow>
                    if \<not> fa_found a then None
                    else Some (JArr (map message_json out), JArr (fa_tools a)))"

definition anthropicPreSeal :: "Request \<Rightarrow> pre_err + Request" where
  "anthropicPreSeal req =
     (case foldToolAdditions (mget req fieldMessages) (mget req fieldTools) of
        None \<Rightarrow> Inr req
      | Some (messages, tools) \<Rightarrow> Inr (mput fieldTools tools (mput fieldMessages messages req)))"

section \<open>The speech surface\<close>

definition speechResponseFormats :: "string list" where
  "speechResponseFormats = [''json'', ''verbose_json'']"

definition fieldFile :: string where [simp]: "fieldFile = ''file''"

definition speechHeaderSafe :: "string \<Rightarrow> string \<Rightarrow> pre_err + unit" where
  "speechHeaderSafe kind s =
     fail_if (list_ex (\<lambda>c. c \<in> set [CHR 0x0D, CHR 0x0A, CHR 0x22, CHR '';'']) s) (HeaderUnsafe kind s)"

definition speechMaterializable :: "Request \<Rightarrow> pre_err + unit" where
  "speechMaterializable req =
     bind_r (case mget req fieldFilename of
               None \<Rightarrow> Inr ()
             | Some raw \<Rightarrow>
                 bind_r (opt_r (as_string raw) FilenameNotString) (\<lambda>name.
                 bind_r (fail_if (CHR ''/'' \<in> set name \<or> name = ''.'' \<or> name = ''..'')
                           (FilenameIsPath name)) (\<lambda>_.
                 speechHeaderSafe fieldFilename name))) (\<lambda>_.
     each_r (\<lambda>name. if name \<in> set [fieldFileBase64, fieldFilename, fieldStream] then Inr ()
                    else speechHeaderSafe ''field name'' name) (mkeys req))"

definition speechPreSeal :: "Request \<Rightarrow> pre_err + Request" where
  "speechPreSeal req =
     bind_r (speechMaterializable req) (\<lambda>_.
     bind_r (case mget req fieldResponseFormat of
               None \<Rightarrow> Inr ()
             | Some raw \<Rightarrow>
                 if raw = JNull then Inr ()
                 else bind_r (opt_r (as_string raw) RfNotString) (\<lambda>got.
                      fail_if (got \<notin> set speechResponseFormats) (RfUnsupported got))) (\<lambda>_.
     let out = (if mget req fieldResponseFormat \<in> {None, Some JNull}
                then mput fieldResponseFormat (JStr (hd speechResponseFormats)) req else req) in
     Inr (if mget out fieldStream = Some JNull then mdel (\<lambda>k. k = fieldStream) out else out)))"

text \<open>One part of a multipart body, as \<open>mime/multipart\<close> yields it; the content is \<open>None\<close> when reading
  it fails.\<close>

record part =
  part_name :: string
  part_filename :: string
  part_content :: "bytes option"

definition speechFormNameAllowed :: "string \<Rightarrow> string \<Rightarrow> Request \<Rightarrow> pre_err + unit" where
  "speechFormNameAllowed name key req =
     bind_r (fail_if (name = []) PartUnnamed) (\<lambda>_.
     bind_r (fail_if (name = e2eeKey \<or> key = e2eeKey) PartE2EE) (\<lambda>_.
     if name = fieldFile then fail_if (mhas req fieldFileBase64) PartSecondFile
     else fail_if (key \<in> set [fieldFileBase64, fieldFilename, fieldFile]) (PartCollides name)))"

text \<open>\<open>base64.StdEncoding\<close>: RFC 4648 section 4, padded.\<close>

definition b64std_char :: "nat \<Rightarrow> char" where
  "b64std_char n = (if n = 62 then CHR ''+'' else if n = 63 then CHR ''/'' else b64_char n)"

definition b64std_encode :: "bytes \<Rightarrow> string" where
  "b64std_encode bs =
     (let s = map b64std_char (b64_sextets (map of_char bs))
      in s @ replicate ((4 - length s mod 4) mod 4) (CHR ''=''))"

record form =
  fm_req :: Request
  fm_values :: "string list gomap"
  fm_isArray :: "bool gomap"
  fm_filename :: string

definition or_else :: "'a \<Rightarrow> 'a option \<Rightarrow> 'a" where
  "or_else d v = (case v of None \<Rightarrow> d | Some x \<Rightarrow> x)"

definition form_part :: "part \<Rightarrow> form \<Rightarrow> pre_err + form" where
  "form_part p f =
     (let name = part_name p; key = trim_suffix ''[]'' name; bracketed = suffix ''[]'' name in
      bind_r (speechFormNameAllowed name key (fm_req f)) (\<lambda>_.
      bind_r (opt_r (part_content p) (PartUnreadable name)) (\<lambda>val.
      Inr (if name = fieldFile
           then f\<lparr>fm_req := mput fieldFileBase64 (JStr (b64std_encode val)) (fm_req f),
                  fm_filename := part_filename p\<rparr>
           else f\<lparr>fm_values := mput key (or_else [] (mget (fm_values f) key) @ [val]) (fm_values f),
                  fm_isArray := mput key (or_else False (mget (fm_isArray f) key) \<or> bracketed)
                                  (fm_isArray f)\<rparr>))))"

fun form_parts :: "part list \<Rightarrow> form \<Rightarrow> pre_err + form" where
  "form_parts [] f = Inr f"
| "form_parts (p # ps) f = bind_r (form_part p f) (form_parts ps)"

definition parse_bool :: "string \<Rightarrow> bool option" where
  "parse_bool s =
     (if s \<in> set [''1'', ''t'', ''T'', ''TRUE'', ''true'', ''True''] then Some True
      else if s \<in> set [''0'', ''f'', ''F'', ''FALSE'', ''false'', ''False''] then Some False
      else None)"

definition form_request :: "form \<Rightarrow> Request" where
  "form_request f =
     (let arr = (\<lambda>k. or_else False (mget (fm_isArray f) k));
          req1 = fold (\<lambda>(k, vs). mput k (if arr k \<or> 1 < length vs then str_array vs else JStr (hd vs)))
                   (fm_values f) (fm_req f);
          req2 = (if fm_filename f \<noteq> [] then mput fieldFilename (JStr (fm_filename f)) req1 else req1)
      in case mget (fm_values f) fieldStream of
           Some [v] \<Rightarrow>
             if arr fieldStream then req2
             else (case parse_bool (trim_space v) of
                     None \<Rightarrow> req2 | Some b \<Rightarrow> mput fieldStream (JBool b) req2)
         | _ \<Rightarrow> req2)"

text \<open>The parts, and whether the reader stopped at the closing boundary.\<close>

definition speechDecodeParts :: "part list \<Rightarrow> bool \<Rightarrow> pre_err + Request" where
  "speechDecodeParts parts ended =
     bind_r (form_parts parts \<lparr>fm_req = [], fm_values = [], fm_isArray = [], fm_filename = []\<rparr>) (\<lambda>f.
     bind_r (fail_if (\<not> ended) MalformedMultipart) (\<lambda>_.
     bind_r (fail_if (\<not> mhas (fm_req f) fieldFileBase64) PartNoFile) (\<lambda>_.
     Inr (form_request f))))"

section \<open>The table\<close>

record Endpoint =
  ep_ServiceType :: string
  ep_APIFormat :: string
  ep_Profile :: Profile
  ep_Path :: string
  ep_UpstreamPath :: string
  ep_Streams :: bool
  ep_PreSeal :: "(Request \<Rightarrow> pre_err + Request) option"
  ep_DecodeMultipart :: "(part list \<Rightarrow> bool \<Rightarrow> pre_err + Request) option"
  ep_Async :: bool

definition ep_zero :: Endpoint where
  "ep_zero = \<lparr>ep_ServiceType = [], ep_APIFormat = [], ep_Profile = [], ep_Path = [],
     ep_UpstreamPath = [], ep_Streams = False, ep_PreSeal = None, ep_DecodeMultipart = None,
     ep_Async = False\<rparr>"

definition ep_Chat :: Endpoint where
  "ep_Chat = ep_zero\<lparr>ep_ServiceType := ''chatbot'', ep_Profile := ProfileChat,
     ep_Path := ''/v1/chat/completions'', ep_UpstreamPath := ''/v1/chat/completions'',
     ep_Streams := True\<rparr>"

definition ep_Anthropic :: Endpoint where
  "ep_Anthropic = ep_zero\<lparr>ep_ServiceType := ''chatbot'', ep_APIFormat := ''anthropic'',
     ep_Profile := ProfileAnthropic, ep_Path := ''/v1/messages'', ep_UpstreamPath := ''/v1/messages'',
     ep_Streams := True, ep_PreSeal := Some anthropicPreSeal\<rparr>"

definition ep_Image :: Endpoint where
  "ep_Image = ep_zero\<lparr>ep_ServiceType := ''text-to-image'', ep_Profile := ProfileImage,
     ep_Path := ''/v1/images/generations'', ep_UpstreamPath := ''/v1/images/generations'',
     ep_PreSeal := Some imagePreSeal\<rparr>"

definition ep_AsyncImage :: Endpoint where
  "ep_AsyncImage = ep_zero\<lparr>ep_ServiceType := ''text-to-image'', ep_Profile := ProfileAsyncImage,
     ep_Path := ''/v1/async/images/generations'', ep_UpstreamPath := ''/v1/async/images/generations'',
     ep_PreSeal := Some imagePreSeal, ep_Async := True\<rparr>"

definition ep_Embedding :: Endpoint where
  "ep_Embedding = ep_zero\<lparr>ep_ServiceType := ''embedding'', ep_Profile := ProfileEmbedding,
     ep_Path := ''/v1/embeddings'', ep_UpstreamPath := ''/v1/embeddings''\<rparr>"

definition ep_Speech :: Endpoint where
  "ep_Speech = ep_zero\<lparr>ep_ServiceType := ''speech-to-text'', ep_Profile := ProfileSpeech,
     ep_Path := ''/v1/audio/transcriptions'', ep_UpstreamPath := ''/v1/audio/transcriptions'',
     ep_PreSeal := Some speechPreSeal, ep_DecodeMultipart := Some speechDecodeParts\<rparr>"

definition All_endpoints :: "Endpoint list" where
  "All_endpoints = [ep_Chat, ep_Anthropic, ep_Image, ep_Speech, ep_Embedding, ep_AsyncImage]"

end
