(* ===== verification/Client_Request.thy ===== *)
theory Client_Request
  imports Client_Endpoint
begin

text \<open>
  client/core, the part of client.go that turns a request and a provider into what is sent: the
  configuration of a client, the sealed envelope and the headers of the HTTP request; with
  credential.go, forward.go and the sink of resmeta.go as the record of what a request's context
  carries.

  A Go panic is a value of its own: \<open>withStreamUsage\<close> assigns into a nil map for one input, and
  \<open>None\<close> stands for that.
\<close>

section \<open>Providers and clients\<close>

record Provider =
  pv_URL :: string
  pv_EncPubKey :: bytes
  pv_SignerAddr :: string
  pv_Address :: string
  pv_RouterProviderIdentity :: "string option"
  pv_Endpoint :: string
  pv_Model :: string
  pv_BindResponse :: bool

record Client =
  cl_sealFields :: "string list"
  cl_unboundFields :: "string list"
  cl_ep :: Endpoint
  cl_sealFieldsSet :: bool
  cl_metrics :: bool
  cl_resolveBudgetTO :: int

text \<open>Durations are nanoseconds.\<close>

definition second :: int where "second = 1000000000"
definition resolveBudget :: int where "resolveBudget = 90 * second"
definition bufferedTimeout :: int where "bufferedTimeout = 10 * 60 * second + 30 * second"
definition DefaultProviderURL :: string where
  "DefaultProviderURL = ''https://router-api.0g.ai/v1/chat/completions''"

definition WithSealFields :: "string list \<Rightarrow> Client \<Rightarrow> Client" where
  "WithSealFields fs c = c\<lparr>cl_sealFields := fs, cl_sealFieldsSet := True\<rparr>"

definition WithEndpoint :: "Endpoint \<Rightarrow> Client \<Rightarrow> Client" where
  "WithEndpoint ep c = c\<lparr>cl_ep := ep\<rparr>"

definition WithUnboundFields :: "string list \<Rightarrow> Client \<Rightarrow> Client" where
  "WithUnboundFields fs c = c\<lparr>cl_unboundFields := fs\<rparr>"

definition WithMetrics :: "Client \<Rightarrow> Client" where
  "WithMetrics c = c\<lparr>cl_metrics := True\<rparr>"

definition NewWithResolver :: "(Client \<Rightarrow> Client) list \<Rightarrow> Client" where
  "NewWithResolver opts =
     (let c = fold (\<lambda>f. f) opts
        \<lparr>cl_sealFields = [], cl_unboundFields = DefaultUnboundFields, cl_ep = ep_Chat,
         cl_sealFieldsSet = False, cl_metrics = False, cl_resolveBudgetTO = resolveBudget\<rparr>
      in if cl_sealFieldsSet c then c
         else c\<lparr>cl_sealFields := DefaultSealedFieldsFor (ep_Profile (cl_ep c))\<rparr>)"

section \<open>HTTP headers\<close>

text \<open>
  \<open>http.Header\<close>: a map from canonical keys to values. \<open>textproto.CanonicalMIMEHeaderKey\<close> upper-cases
  the first letter and every letter after a hyphen and lower-cases the rest; a key with a byte
  outside the token characters is left alone.
\<close>

type_synonym header = "string list gomap"

definition upper_char :: "char \<Rightarrow> char" where
  "upper_char c = (let n = (of_char c :: nat) in if 97 \<le> n \<and> n \<le> 122 then char_of (n - 32) else c)"

definition token_char :: "char \<Rightarrow> bool" where
  "token_char c = (let n = (of_char c :: nat) in
     (97 \<le> n \<and> n \<le> 122) \<or> (65 \<le> n \<and> n \<le> 90) \<or> (48 \<le> n \<and> n \<le> 57)
     \<or> c \<in> set ''!#$%&*+-.^_|~'' \<or> n = 39 \<or> n = 96)"

fun canonical_from :: "bool \<Rightarrow> string \<Rightarrow> string" where
  "canonical_from up [] = []"
| "canonical_from up (c # cs) =
     (if up then upper_char c else lower_char c) # canonical_from (c = CHR ''-'') cs"

definition CanonicalHeaderKey :: "string \<Rightarrow> string" where
  "CanonicalHeaderKey k = (if list_all token_char k then canonical_from True k else k)"

definition header_values :: "string \<Rightarrow> header \<Rightarrow> string list" where
  "header_values k h = or_else [] (mget h (CanonicalHeaderKey k))"

definition header_get :: "string \<Rightarrow> header \<Rightarrow> string" where
  "header_get k h = (case header_values k h of [] \<Rightarrow> [] | v # _ \<Rightarrow> v)"

definition header_set :: "string \<Rightarrow> string \<Rightarrow> header \<Rightarrow> header" where
  "header_set k v h = mput (CanonicalHeaderKey k) [v] h"

definition header_add :: "string \<Rightarrow> string \<Rightarrow> header \<Rightarrow> header" where
  "header_add k v h = mput (CanonicalHeaderKey k) (header_values k h @ [v]) h"

definition header_del :: "string \<Rightarrow> header \<Rightarrow> header" where
  "header_del k h = mdel (\<lambda>j. j = CanonicalHeaderKey k) h"

section \<open>What a request's context carries\<close>

record Ctx =
  ctx_credential :: string
  ctx_forwarded :: header
  ctx_sink :: bool

definition background :: Ctx where
  "background = \<lparr>ctx_credential = [], ctx_forwarded = [], ctx_sink = False\<rparr>"

definition WithCredential :: "string \<Rightarrow> Ctx \<Rightarrow> Ctx" where
  "WithCredential cred ctx = (if cred = [] then ctx else ctx\<lparr>ctx_credential := cred\<rparr>)"

definition WithForwardedHeaders :: "header \<Rightarrow> Ctx \<Rightarrow> Ctx" where
  "WithForwardedHeaders h ctx = (if h = [] then ctx else ctx\<lparr>ctx_forwarded := h\<rparr>)"

section \<open>The sealed envelope\<close>

definition withModel :: "Request \<Rightarrow> string \<Rightarrow> Request" where
  "withModel req model = (if model = [] then req else mput ''model'' (JStr model) req)"

text \<open>
  \<open>json.Unmarshal\<close> of \<open>stream_options\<close> into the map: an object is merged into the empty map, a value
  of another type leaves it empty, and \<open>null\<close> makes the map nil, so that the assignment panics.
\<close>

definition stream_options :: "json option \<Rightarrow> json gomap option" where
  "stream_options raw =
     (case raw of
        None \<Rightarrow> Some []
      | Some v \<Rightarrow> (case as_object v of None \<Rightarrow> Some [] | Some m \<Rightarrow> m))"

definition withStreamUsage :: "Profile \<Rightarrow> Request \<Rightarrow> Request option" where
  "withStreamUsage profile req =
     (if profile \<noteq> ProfileChat then Some req
      else case mget req ''stream'' of
        None \<Rightarrow> Some req
      | Some raw \<Rightarrow>
          if bool_into raw False \<noteq> Some True then Some req
          else case stream_options (mget req ''stream_options'') of
                 None \<Rightarrow> None
               | Some opts \<Rightarrow> Some (mput ''stream_options''
                               (JObj (mput ''include_usage'' (JBool True) opts)) req))"

definition client_sealedFieldsFor :: "Client \<Rightarrow> Request \<Rightarrow> string list" where
  "client_sealedFieldsFor c req = filter (\<lambda>f. mhas req f) (cl_sealFields c)"

definition bindsResponse :: "Client \<Rightarrow> Provider \<Rightarrow> bool" where
  "bindsResponse c p = (pv_BindResponse p \<and> ResponseBindApplies (ep_Profile (cl_ep c)))"

text \<open>\<open>None\<close> is the panic of \<open>withStreamUsage\<close>.\<close>

definition client_seal ::
    "('pk, 'sk, 'ctx) hpke \<Rightarrow> (bytes \<Rightarrow> bytes option) \<Rightarrow> Client \<Rightarrow> Provider \<Rightarrow> Request \<Rightarrow> bytes \<Rightarrow>
     bytes \<Rightarrow> bytes \<Rightarrow> (werr + Request) option" where
  "client_seal H J c p req ephPriv ephPub rnd =
     map_option (\<lambda>req1.
       let fields = client_sealedFieldsFor c req1;
           profile = ep_Profile (cl_ep c);
           send = (\<lambda>r fs. SealRequestFor H J profile (pv_EncPubKey p) r (Some fs) (pv_SignerAddr p)
                            ephPub (cl_unboundFields c) rnd) in
       if bindsResponse c p then
         bind_r (AttachResponseBind profile req1 ephPriv) (\<lambda>req2.
         send req2 (if fieldBind \<in> set fields then fields else fields @ [fieldBind]))
       else send req1 fields)
     (withStreamUsage (ep_Profile (cl_ep c)) (withModel req (pv_Model p)))"

section \<open>The HTTP request\<close>

definition headerProviderPin :: string where "headerProviderPin = ''X-0G-Provider-Address''"
definition headerRouterProviderIdentityPin :: string where
  "headerRouterProviderIdentityPin = ''X-0G-Provider-Identity''"
definition headerAllowFallbacks :: string where
  "headerAllowFallbacks = ''X-0G-Provider-Allow-Fallbacks''"
definition headerResKey :: string where "headerResKey = ''ZG-Res-Key''"

definition add_all :: "string \<times> string list \<Rightarrow> header \<Rightarrow> header" where
  "add_all kvs h = fold (header_add (fst kvs)) (snd kvs) h"

definition request_headers :: "Ctx \<Rightarrow> Provider \<Rightarrow> header" where
  "request_headers ctx p =
     (let h1 = fold add_all (ctx_forwarded ctx) (header_set ''Content-Type'' ''application/json'' []);
          h2 = (if pv_Address p = [] then h1
                else let h = header_set headerProviderPin (pv_Address p) h1
                     in case pv_RouterProviderIdentity p of
                          None \<Rightarrow> h
                        | Some i \<Rightarrow> if i \<noteq> [] then header_set headerRouterProviderIdentityPin i h
                                    else header_del headerRouterProviderIdentityPin h);
          h3 = header_set headerAllowFallbacks ''false'' h2
      in if ctx_credential ctx \<noteq> [] then header_set ''Authorization'' (ctx_credential ctx) h3 else h3)"

record http_request =
  hq_URL :: string
  hq_Header :: header
  hq_Body :: Request

definition provider_request :: "Ctx \<Rightarrow> Provider \<Rightarrow> Request \<Rightarrow> http_request" where
  "provider_request ctx p env =
     \<lparr>hq_URL = pv_URL p, hq_Header = request_headers ctx p, hq_Body = env\<rparr>"

end
