(* ===== verification/Client_Walk.thy ===== *)
theory Client_Walk
  imports Client_Request
begin

text \<open>
  client/core: the walk down a chain of provider candidates under one time budget (resolve.go,
  keyrefresh.go and the loop that \<open>Complete\<close>, \<open>CompleteStream\<close> and \<open>SubmitAsync\<close> share).

  What the client calls is the record \<open>env\<close>: the clock, the caller's context, the resolver and its
  candidates, the HTTP transport, the fetcher of signatures. Its functions read and advance a world
  of any type. What the client does, in the order it does it, is the trace of the state: requests
  sent, frames delivered, metadata recorded, metrics reported.
\<close>

section \<open>Errors\<close>

datatype stage = StageRequest | StageUpstream | StageInternal

text \<open>
  An error of the client: a \<open>*Error\<close> with its stage, upstream status (0 for none), body, headers and
  cause, or an error of another type. \<open>Panicked\<close> is a panic, which unwinds every caller.
\<close>

datatype gerr =
    Panicked
  | Plain string
  | Staged stage int bytes "header option" cause
and cause =
    ResolveProvider gerr | GenerateKey | SealFailedAs werr | BindFailedAs werr | PostFailed
  | ReturnedStatus int | ReadFailed | DecodeFailed nat | MetadataOf nat | SetupOf nat werr
  | OpenFailedAs nat bool werr | BindingOf nat | StartBinding | NotEventStream string
  | Truncated | DoneBeforeFinal | Aborted | NoSignatureHandle | FetchFailed | BadSignature perr
  | BudgetSpent nat | BudgetExhausted int gerr | NoCandidates | NotAsync string
  | SubmitTooLarge | SubmitNotObject | SubmitSealed | SubmitNoJobID
  | SubmitElsewhere string | SubmitJobID werr | Routing string

definition stageErr :: "stage \<Rightarrow> cause \<Rightarrow> gerr" where
  "stageErr st c = Staged st 0 [] None c"

definition Error_Source :: "gerr \<Rightarrow> string option" where
  "Error_Source e =
     (case e of Staged st _ _ _ _ \<Rightarrow> Some (if st = StageUpstream then ''upstream'' else ''gateway'')
      | _ \<Rightarrow> None)"

definition resolveErr :: "gerr \<Rightarrow> gerr" where
  "resolveErr e = (case e of Plain s \<Rightarrow> stageErr StageUpstream (ResolveProvider e) | _ \<Rightarrow> e)"

definition budgetErr :: "int \<Rightarrow> gerr \<Rightarrow> gerr" where
  "budgetErr limit c = stageErr StageUpstream (BudgetExhausted limit c)"

section \<open>Metrics and events\<close>

datatype kind = UpstreamBuffered | UpstreamStream

datatype outcome =
    UpstreamOK | UpstreamTransport | UpstreamBody | UpstreamUndecodable | UpstreamNotStream
  | UpstreamUnverified | UpstreamUnverifiable | UpstreamTimeout | UpstreamCanceled
  | UpstreamInternal | UpstreamHTTP429 | UpstreamHTTP4xx | UpstreamHTTP5xx | UpstreamHTTPOther

datatype fallback = FallbackUpstream | FallbackMaterialize

datatype key_refresh =
    KeyRefreshResealed | KeyRefreshUnchanged | KeyRefreshFailed | KeyRefreshUnsupported

datatype metric =
    UpstreamAttempt kind outcome | CandidateFallback fallback | WalkBudgetExhausted
  | KeyRefresh key_refresh | ResponseOpenFailure | StreamFirstFrame
  | ResponseVerificationFailure string

record ResponseMeta =
  rm_ResKey :: string
  rm_Provider :: string
  rm_Header :: header

datatype event =
    EAttempt nat Provider int
  | EPost Provider http_request
  | EReply int
  | EDeliver Response
  | EMeta ResponseMeta
  | EMetric metric

record 'w state =
  world :: 'w
  trace :: "event list"

text \<open>
  A response of the transport: its body as the bytes that arrive and how it ends, at its end
  (\<open>None\<close>) or with a read error that is a timeout or not.
\<close>

record http_response =
  hr_Status :: int
  hr_Header :: header
  hr_Body :: bytes
  hr_End :: "bool option"

record ('pk, 'sk, 'ctx, 'w) env =
  en_H :: "('pk, 'sk, 'ctx) hpke"
  en_J :: "bytes \<Rightarrow> bytes option"
  now :: "'w \<Rightarrow> int"
  gone :: "'w \<Rightarrow> bool"
  expired :: "'w \<Rightarrow> bool"
  random :: "'w \<Rightarrow> bytes \<times> 'w"
  resolve :: "Ctx \<Rightarrow> Endpoint \<Rightarrow> Request \<Rightarrow> 'w \<Rightarrow> (gerr + nat) \<times> 'w"
  materialize :: "nat \<Rightarrow> int \<Rightarrow> 'w \<Rightarrow> (gerr + Provider) \<times> 'w"
  refresher :: "(nat \<Rightarrow> bytes \<Rightarrow> int \<Rightarrow> 'w \<Rightarrow> (gerr + Provider) \<times> 'w) option"
  transport :: "http_request \<Rightarrow> 'w \<Rightarrow> (bool + http_response) \<times> 'w"
  reading :: "'w \<Rightarrow> 'w"
  fetcher :: "(Provider \<Rightarrow> string \<Rightarrow> 'w \<Rightarrow> (unit + ChatSignature) \<times> 'w) option"
  recover :: "(string \<Rightarrow> bytes \<Rightarrow> string option) option"
  onFrame :: "Response \<Rightarrow> 'w \<Rightarrow> gerr option \<times> 'w"

definition emit :: "event \<Rightarrow> 'w state \<Rightarrow> 'w state" where
  "emit e s = s\<lparr>trace := trace s @ [e]\<rparr>"

definition ask :: "('w \<Rightarrow> 'a \<times> 'w) \<Rightarrow> 'w state \<Rightarrow> 'a \<times> 'w state" where
  "ask f s = (case f (world s) of (x, w) \<Rightarrow> (x, s\<lparr>world := w\<rparr>))"

definition report_metric :: "Client \<Rightarrow> metric \<Rightarrow> 'w state \<Rightarrow> 'w state" where
  "report_metric c m s = (if cl_metrics c then emit (EMetric m) s else s)"

definition metricFallback :: "Client \<Rightarrow> fallback \<Rightarrow> nat \<Rightarrow> nat \<Rightarrow> 'w state \<Rightarrow> 'w state" where
  "metricFallback c reason i n s = (if i + 1 < n then report_metric c (CandidateFallback reason) s else s)"

definition metricWalkBudgetBlockedFallback :: "Client \<Rightarrow> nat \<Rightarrow> nat \<Rightarrow> 'w state \<Rightarrow> 'w state" where
  "metricWalkBudgetBlockedFallback c i n s = (if i + 1 < n then report_metric c WalkBudgetExhausted s else s)"

section \<open>The failure that is kept\<close>

definition tierMaterialize :: nat where "tierMaterialize = 0"
definition tierBudget :: nat where "tierBudget = 1"
definition tierAttempt :: nat where "tierAttempt = 2"

record walkErr =
  we_err :: "gerr option"
  we_tier :: nat

definition we_zero :: walkErr where "we_zero = \<lparr>we_err = None, we_tier = 0\<rparr>"

definition walkErr_record :: "nat \<Rightarrow> gerr \<Rightarrow> walkErr \<Rightarrow> walkErr" where
  "walkErr_record tier e w =
     (if we_err w = None \<or> tier \<ge> we_tier w then \<lparr>we_err = Some e, we_tier = tier\<rparr> else w)"

section \<open>The budget\<close>

record candidateWalk =
  cw_spent :: int
  cw_budget :: int

definition walk_limit :: "candidateWalk \<Rightarrow> int" where
  "walk_limit w = (if cw_budget w > 0 then cw_budget w else resolveBudget)"

definition walk_charge :: "int \<Rightarrow> candidateWalk \<Rightarrow> candidateWalk" where
  "walk_charge d w = w\<lparr>cw_spent := cw_spent w + d\<rparr>"

definition walk_exhausted :: "candidateWalk \<Rightarrow> bool" where
  "walk_exhausted w = (cw_spent w \<ge> walk_limit w)"

text \<open>One call under what is left of the budget, charged with what it takes.\<close>

definition walk_timed ::
    "('pk, 'sk, 'ctx, 'w) env \<Rightarrow> (int \<Rightarrow> 'w \<Rightarrow> (gerr + Provider) \<times> 'w) \<Rightarrow> nat \<Rightarrow> candidateWalk \<Rightarrow>
     'w state \<Rightarrow> (gerr + Provider) \<times> candidateWalk \<times> 'w state" where
  "walk_timed E f i walk s =
     (let remaining = walk_limit walk - cw_spent walk in
      if remaining \<le> 0 then (Inl (stageErr StageUpstream (BudgetSpent i)), walk, s)
      else case ask (f remaining) s of
             (r, s') \<Rightarrow> (r, walk_charge (now E (world s') - now E (world s)) walk, s'))"

definition walk_provider ::
    "('pk, 'sk, 'ctx, 'w) env \<Rightarrow> nat \<Rightarrow> candidateWalk \<Rightarrow> 'w state \<Rightarrow>
     (gerr + Provider) \<times> candidateWalk \<times> 'w state" where
  "walk_provider E i walk s = walk_timed E (materialize E i) i walk s"

definition walk_refresh ::
    "('pk, 'sk, 'ctx, 'w) env \<Rightarrow> (nat \<Rightarrow> bytes \<Rightarrow> int \<Rightarrow> 'w \<Rightarrow> (gerr + Provider) \<times> 'w) \<Rightarrow> nat \<Rightarrow> bytes \<Rightarrow>
     candidateWalk \<Rightarrow> 'w state \<Rightarrow> (gerr + Provider) \<times> candidateWalk \<times> 'w state" where
  "walk_refresh E kr i stale walk s = walk_timed E (kr i stale) i walk s"

section \<open>Re-sealing after a stale key\<close>

definition keyMismatchToken :: string where "keyMismatchToken = ''e2ee_key_mismatch''"

definition error_message :: "json \<Rightarrow> string option" where
  "error_message v =
     (case as_string v of
        Some msg \<Rightarrow> Some msg
      | None \<Rightarrow> decode_struct [''message''] (\<lambda>_ x m. str_into x m) [] v)"

definition isKeyMismatch :: "gerr \<Rightarrow> bool" where
  "isKeyMismatch e =
     (case e of
        Staged _ status body _ _ \<Rightarrow>
          if status \<noteq> 409 then False
          else (case Option.bind (json_parse body)
                       (decode_struct [''error''] (\<lambda>_ x _. Some (Some x)) None) of
                  Some (Some v) \<Rightarrow>
                    (case error_message v of None \<Rightarrow> False | Some msg \<Rightarrow> prefix keyMismatchToken msg)
                | _ \<Rightarrow> False)
      | _ \<Rightarrow> False)"

definition rekey ::
    "('pk, 'sk, 'ctx, 'w) env \<Rightarrow> Client \<Rightarrow> nat \<Rightarrow> Provider \<Rightarrow> candidateWalk \<Rightarrow> 'w state \<Rightarrow>
     Provider option \<times> candidateWalk \<times> 'w state" where
  "rekey E c i stale walk s =
     (case refresher E of
        None \<Rightarrow> (None, walk, report_metric c (KeyRefresh KeyRefreshUnsupported) s)
      | Some kr \<Rightarrow>
          (case walk_refresh E kr i (pv_EncPubKey stale) walk s of
             (Inl _, walk', s') \<Rightarrow> (None, walk', report_metric c (KeyRefresh KeyRefreshFailed) s')
           | (Inr fresh, walk', s') \<Rightarrow>
               if pv_EncPubKey fresh = pv_EncPubKey stale
               then (None, walk', report_metric c (KeyRefresh KeyRefreshUnchanged) s')
               else (Some fresh, walk', report_metric c (KeyRefresh KeyRefreshResealed) s')))"

type_synonym ('w, 'a) attempt = "Provider \<Rightarrow> 'w state \<Rightarrow> (bool \<times> (gerr + 'a)) \<times> 'w state"

text \<open>
  \<open>attemptRekeying\<close>: the flag is the loop variable \<open>rekeyed\<close>. The result is the verdict on falling
  back with the attempt's result.
\<close>

function attemptRekeying ::
    "bool \<Rightarrow> ('pk, 'sk, 'ctx, 'w) env \<Rightarrow> Client \<Rightarrow> ('w, 'a) attempt \<Rightarrow> nat \<Rightarrow> Provider \<Rightarrow>
     candidateWalk \<Rightarrow> walkErr \<Rightarrow> 'w state \<Rightarrow>
     (bool \<times> (gerr + 'a)) \<times> candidateWalk \<times> walkErr \<times> 'w state" where
  "attemptRekeying rekeyed E c att i p walk fail s =
     (case att p (emit (EAttempt i p (now E (world s))) s) of
        ((_, Inr x), s') \<Rightarrow> ((False, Inr x), walk, fail, s')
      | ((retry, Inl e), s') \<Rightarrow>
          if e = Panicked then ((False, Inl e), walk, fail, s')
          else
            let walk1 = walk_charge (now E (world s') - now E (world s)) walk;
                fail1 = walkErr_record tierAttempt e fail in
            if \<not> isKeyMismatch e then ((retry, Inl e), walk1, fail1, s')
            else if rekeyed \<or> gone E (world s') \<or> walk_exhausted walk1
            then ((True, Inl e), walk1, fail1, s')
            else case rekey E c i p walk1 s' of
                   (None, walk2, s2) \<Rightarrow> ((True, Inl e), walk2, fail1, s2)
                 | (Some fresh, walk2, s2) \<Rightarrow>
                     attemptRekeying True E c att i fresh walk2 fail1 s2)"
  by pat_completeness auto
termination by (relation "measure (\<lambda>(b, _). if b then 0 else 1)") auto

declare attemptRekeying.simps [simp del]

section \<open>The walk\<close>

definition walk_end :: "walkErr \<Rightarrow> gerr + 'a" where
  "walk_end fail =
     Inl (case we_err fail of None \<Rightarrow> stageErr StageUpstream NoCandidates | Some e \<Rightarrow> e)"

text \<open>The loop over the candidates \<open>is\<close> of \<open>n\<close>.\<close>

fun walk_candidates ::
    "('pk, 'sk, 'ctx, 'w) env \<Rightarrow> Client \<Rightarrow> ('w, 'a) attempt \<Rightarrow> nat \<Rightarrow> nat list \<Rightarrow> candidateWalk \<Rightarrow>
     walkErr \<Rightarrow> 'w state \<Rightarrow> (gerr + 'a) \<times> 'w state" where
  "walk_candidates E c att n [] walk fail s = (walk_end fail, s)"
| "walk_candidates E c att n (i # is) walk fail s =
     (case walk_provider E i walk s of
        (Inl e, walk1, s1) \<Rightarrow>
          if e = Panicked then (Inl e, s1)
          else if gone E (world s1)
          then (walk_end (walkErr_record tierMaterialize (resolveErr e) fail), s1)
          else if walk_exhausted walk1
          then (walk_end (walkErr_record tierBudget (budgetErr (walk_limit walk1) e) fail),
                report_metric c WalkBudgetExhausted s1)
          else walk_candidates E c att n is walk1 (walkErr_record tierMaterialize (resolveErr e) fail)
                 (metricFallback c FallbackMaterialize i n s1)
      | (Inr p, walk1, s1) \<Rightarrow>
          (case attemptRekeying False E c att i p walk1 fail s1 of
             ((_, Inr x), _, _, s2) \<Rightarrow> (Inr x, s2)
           | ((retry, Inl e), walk2, fail2, s2) \<Rightarrow>
               if \<not> retry then (Inl e, s2)
               else if gone E (world s2) then (walk_end fail2, s2)
               else if walk_exhausted walk2
               then (walk_end fail2, metricWalkBudgetBlockedFallback c i n s2)
               else walk_candidates E c att n is walk2 fail2
                      (metricFallback c FallbackUpstream i n s2)))"

definition walk_chain ::
    "('pk, 'sk, 'ctx, 'w) env \<Rightarrow> Client \<Rightarrow> ('w, 'a) attempt \<Rightarrow> nat \<Rightarrow> 'w state \<Rightarrow>
     (gerr + 'a) \<times> 'w state" where
  "walk_chain E c att n s =
     walk_candidates E c att n [0..<n] \<lparr>cw_spent = 0, cw_budget = cl_resolveBudgetTO c\<rparr> we_zero s"

end
