(* ===== verification/Client_Complete.thy ===== *)
theory Client_Complete
  imports Client_Walk
begin

text \<open>
  client/core: one buffered completion (\<open>Complete\<close>, \<open>completeOnce\<close> and \<open>doRequest\<close> of client.go) and
  the verification of a response's signature (verify.go).

  The context of one attempt is done when the caller's is or when its own deadline fires; \<open>gone\<close> and
  \<open>expired\<close> of the environment are those two questions.
\<close>

section \<open>Verdicts\<close>

definition retryableStatus :: "int \<Rightarrow> bool" where
  "retryableStatus st = (st = 429 \<or> (500 \<le> st \<and> st \<le> 599))"

definition upstreamStatusOutcome :: "int \<Rightarrow> outcome" where
  "upstreamStatusOutcome st =
     (if st = 429 then UpstreamHTTP429
      else if 500 \<le> st \<and> st \<le> 599 then UpstreamHTTP5xx
      else if 400 \<le> st \<and> st \<le> 499 then UpstreamHTTP4xx
      else UpstreamHTTPOther)"

definition upstreamFailureOutcome ::
    "('pk, 'sk, 'ctx, 'w) env \<Rightarrow> 'w \<Rightarrow> bool \<Rightarrow> outcome \<Rightarrow> outcome" where
  "upstreamFailureOutcome E w timeout base =
     (if gone E w then UpstreamCanceled
      else if expired E w \<or> timeout then UpstreamTimeout
      else base)"

definition verifyOutcome :: "('pk, 'sk, 'ctx, 'w) env \<Rightarrow> 'w \<Rightarrow> outcome \<Rightarrow> outcome" where
  "verifyOutcome E w concluded =
     (if concluded \<noteq> UpstreamUnverifiable then concluded
      else if gone E w then UpstreamCanceled
      else if expired E w then UpstreamTimeout
      else concluded)"

section \<open>Sending and reading\<close>

definition maxUpstreamErrorBytes :: nat where "maxUpstreamErrorBytes = 2 ^ 20"

definition doRequest ::
    "('pk, 'sk, 'ctx, 'w) env \<Rightarrow> Ctx \<Rightarrow> Provider \<Rightarrow> Request \<Rightarrow> 'w state \<Rightarrow>
     (bool + http_response) \<times> 'w state" where
  "doRequest E ctx p env s =
     (let hq = provider_request ctx p env in
      case ask (transport E hq) (emit (EPost p hq) s) of
        (Inl timeout, s') \<Rightarrow> (Inl timeout, s')
      | (Inr resp, s') \<Rightarrow> (Inr resp, emit (EReply (hr_Status resp)) s'))"

definition read_on :: "('pk, 'sk, 'ctx, 'w) env \<Rightarrow> 'w state \<Rightarrow> 'w state" where
  "read_on E s = s\<lparr>world := reading E (world s)\<rparr>"

definition status_error :: "nat \<Rightarrow> http_response \<Rightarrow> gerr" where
  "status_error limit resp =
     Staged StageUpstream (hr_Status resp) (take limit (hr_Body resp)) (Some (hr_Header resp))
       (ReturnedStatus (hr_Status resp))"

definition recordMeta :: "Ctx \<Rightarrow> Provider \<Rightarrow> header \<Rightarrow> 'w state \<Rightarrow> 'w state" where
  "recordMeta ctx p h s =
     (if ctx_sink ctx
      then emit (EMeta \<lparr>rm_ResKey = header_get headerResKey h, rm_Provider = pv_Address p, rm_Header = h\<rparr>) s
      else s)"

section \<open>The response signature\<close>

definition verifyEnabled :: "('pk, 'sk, 'ctx, 'w) env \<Rightarrow> bool" where
  "verifyEnabled E = (fetcher E \<noteq> None \<and> recover E \<noteq> None)"

definition fetchSig ::
    "('pk, 'sk, 'ctx, 'w) env \<Rightarrow> Provider \<Rightarrow> header \<Rightarrow> 'w state \<Rightarrow> (cause + ChatSignature) \<times> 'w state" where
  "fetchSig E p h s =
     (let chatKey = header_get headerResKey h in
      if chatKey = [] then (Inl NoSignatureHandle, s)
      else case fetcher E of
             None \<Rightarrow> (Inl FetchFailed, s)
           | Some f \<Rightarrow> (case ask (f p chatKey) s of
               (Inl _, s') \<Rightarrow> (Inl FetchFailed, s')
             | (Inr sig, s') \<Rightarrow> (Inr sig, s')))"

text \<open>A failed verification is the outcome it is attributed to and the cause; \<open>None\<close> is success.\<close>

definition verify_fetched ::
    "('pk, 'sk, 'ctx, 'w) env \<Rightarrow> Client \<Rightarrow> Provider \<Rightarrow> header \<Rightarrow> (ChatSignature \<Rightarrow> perr + unit) \<Rightarrow>
     'w state \<Rightarrow> (outcome \<times> cause) option \<times> 'w state" where
  "verify_fetched E c p h check s =
     (case fetchSig E p h s of
        (Inl e, s') \<Rightarrow> (Some (UpstreamUnverifiable, e), report_metric c (ResponseVerificationFailure ''fetch'') s')
      | (Inr sig, s') \<Rightarrow>
          (case check sig of
             Inl e \<Rightarrow> (Some (UpstreamUnverified, BadSignature e),
                       report_metric c (ResponseVerificationFailure ''signature'') s')
           | Inr _ \<Rightarrow> (None, s')))"

definition verifyNonStream ::
    "('pk, 'sk, 'ctx, 'w) env \<Rightarrow> Client \<Rightarrow> Provider \<Rightarrow> header \<Rightarrow> Request \<Rightarrow> Response \<Rightarrow> 'w state \<Rightarrow>
     (outcome \<times> cause) option \<times> 'w state" where
  "verifyNonStream E c p h reqEnv respFrame s =
     verify_fetched E c p h
       (\<lambda>sig. VerifyE2EE (en_J E) sig reqEnv respFrame (pv_SignerAddr p) (recover E)) s"

definition verifyStream ::
    "('pk, 'sk, 'ctx, 'w) env \<Rightarrow> Client \<Rightarrow> Provider \<Rightarrow> header \<Rightarrow> StreamBinder \<Rightarrow> 'w state \<Rightarrow>
     (outcome \<times> cause) option \<times> 'w state" where
  "verifyStream E c p h binder s =
     verify_fetched E c p h
       (\<lambda>sig. VerifyBoundText sig (StreamText binder) SchemeE2EECiphertextStream (pv_SignerAddr p)
                (recover E)) s"

section \<open>One attempt\<close>

definition openReply ::
    "('pk, 'sk, 'ctx, 'w) env \<Rightarrow> Client \<Rightarrow> Provider \<Rightarrow> bytes \<Rightarrow> Response \<Rightarrow> werr + Response" where
  "openReply E c p ephPriv frame =
     (if bindsResponse c p
      then OpenBoundResponseFor (en_H E) (en_J E) (ep_Profile (cl_ep c)) ephPriv frame
      else OpenResponseFor (en_H E) (en_J E) (ep_Profile (cl_ep c)) ephPriv frame)"

text \<open>From the request to the verdict, with the outcome the attempt is metered under.\<close>

definition complete_reply ::
    "('pk, 'sk, 'ctx, 'w) env \<Rightarrow> Client \<Rightarrow> Ctx \<Rightarrow> Provider \<Rightarrow> Request \<Rightarrow> bytes \<Rightarrow> 'w state \<Rightarrow>
     outcome \<times> (bool \<times> (gerr + Response)) \<times> 'w state" where
  "complete_reply E c ctx p sealed ephPriv s =
     (case doRequest E ctx p sealed s of
        (Inl timeout, s1) \<Rightarrow>
          (upstreamFailureOutcome E (world s1) timeout UpstreamTransport,
           (False, Inl (stageErr StageUpstream PostFailed)), s1)
      | (Inr resp, s0) \<Rightarrow>
          let s1 = read_on E s0 in
          if hr_Status resp \<noteq> 200
          then (upstreamStatusOutcome (hr_Status resp),
                (retryableStatus (hr_Status resp), Inl (status_error maxUpstreamErrorBytes resp)), s1)
          else
          (case hr_End resp of
             Some timeout \<Rightarrow>
               (upstreamFailureOutcome E (world s1) timeout UpstreamBody,
                (True, Inl (stageErr StageUpstream ReadFailed)), s1)
           | None \<Rightarrow>
          (case Option.bind (json_parse (hr_Body resp)) as_object of
             None \<Rightarrow> (UpstreamUndecodable, (True, Inl (stageErr StageUpstream (DecodeFailed 0))), s1)
           | Some m \<Rightarrow>
          (case openReply E c p ephPriv (nil_map m) of
             Inl e \<Rightarrow>
               (UpstreamUndecodable,
                (True, Inl (stageErr StageUpstream (OpenFailedAs 0 (bindsResponse c p) e))),
                report_metric c ResponseOpenFailure s1)
           | Inr out \<Rightarrow>
          (case (if verifyEnabled E then verifyNonStream E c p (hr_Header resp) sealed (nil_map m) s1
                 else (None, s1)) of
             (Some (vo, e), s2) \<Rightarrow>
               (verifyOutcome E (world s2) vo, (False, Inl (stageErr StageUpstream e)), s2)
           | (None, s2) \<Rightarrow>
               (UpstreamOK, (False, Inr out), recordMeta ctx p (hr_Header resp) s2))))))"

definition completeOnce ::
    "('pk, 'sk, 'ctx, 'w) env \<Rightarrow> Client \<Rightarrow> Ctx \<Rightarrow> Request \<Rightarrow> bytes \<Rightarrow> bytes \<Rightarrow> ('w, Response) attempt" where
  "completeOnce E c ctx req ephPub ephPriv p s =
     (case ask (random E) s of
        (rnd, s1) \<Rightarrow>
          (case client_seal (en_H E) (en_J E) c p req ephPriv ephPub rnd of
             None \<Rightarrow> ((False, Inl Panicked), s1)
           | Some (Inl e) \<Rightarrow> ((False, Inl (stageErr StageRequest (SealFailedAs e))), s1)
           | Some (Inr sealed) \<Rightarrow>
               (case complete_reply E c ctx p sealed ephPriv s1 of
                  (outcome, r, s2) \<Rightarrow> (r, report_metric c (UpstreamAttempt UpstreamBuffered outcome) s2))))"

section \<open>Complete\<close>

definition Complete ::
    "('pk, 'sk, 'ctx, 'w) env \<Rightarrow> Client \<Rightarrow> Ctx \<Rightarrow> Request \<Rightarrow> 'w state \<Rightarrow> (gerr + Response) \<times> 'w state" where
  "Complete E c ctx req s =
     (case ask (resolve E ctx (cl_ep c) req) s of
        (Inl e, s1) \<Rightarrow> (Inl (resolveErr e), s1)
      | (Inr n, s1) \<Rightarrow>
          (case ask (random E) s1 of
             (rnd, s2) \<Rightarrow>
               (case GenerateRecipientKey (en_H E) rnd of
                  Inl _ \<Rightarrow> (Inl (stageErr StageInternal GenerateKey), s2)
                | Inr (ephPriv, ephPub) \<Rightarrow>
                    walk_chain E c (completeOnce E c ctx req ephPub ephPriv) n s2)))"

end
