(* ===== verification/Client_Stream.thy ===== *)
theory Client_Stream
  imports Client_Complete
begin

text \<open>
  client/core/stream.go: reading server-sent events, one streaming attempt, and \<open>CompleteStream\<close>.

  The bytes of a response body and how it ends are part of the response; time passes at each event
  read, and a read that a cancelled context aborts is a body that ends with an error while the
  attempt's context is done.
\<close>

section \<open>Server-sent events\<close>

definition maxSSELine :: nat where "maxSSELine = 4 * 2 ^ 20"

text \<open>
  \<open>bufio.ScanLines\<close> under the buffer limit: the lines without their line break and one trailing
  carriage return, and whether a line was too long, which ends the scan.
\<close>

definition drop_cr :: "bytes \<Rightarrow> bytes" where
  "drop_cr l = (if l \<noteq> [] \<and> last l = CHR 0x0D then butlast l else l)"

fun lines_upto :: "nat \<Rightarrow> bytes list \<Rightarrow> bytes list \<times> bool" where
  "lines_upto n [] = ([], False)"
| "lines_upto n (l # ls) =
     (if length l \<ge> n then ([], True)
      else case lines_upto n ls of (out, long) \<Rightarrow> (drop_cr l # out, long))"

definition scan_lines :: "bytes \<Rightarrow> bytes list \<times> bool" where
  "scan_lines b =
     (let ps = split_all (CHR 0x0A) b
      in lines_upto maxSSELine (if last ps = [] then butlast ps else ps))"

text \<open>The rest of the lines, and the error after the last one: too long, or the body's own.\<close>

record sseReader =
  sse_lines :: "bytes list"
  sse_err :: "bool option"

definition newSSEReader :: "http_response \<Rightarrow> sseReader" where
  "newSSEReader resp =
     (case scan_lines (hr_Body resp) of
        (ls, long) \<Rightarrow> \<lparr>sse_lines = ls, sse_err = (if long then Some False else hr_End resp)\<rparr>)"

datatype sse_event = SData bytes | SEnd | SError bool

definition data_line :: "bytes \<Rightarrow> bytes option" where
  "data_line l = map_option (trim_prefix '' '') (cut_prefix ''data:'' l)"

fun sse_scan :: "bytes list \<Rightarrow> bytes option \<Rightarrow> bytes option \<times> bytes list \<times> bool" where
  "sse_scan [] data = (data, [], True)"
| "sse_scan (l # ls) data =
     (if l = [] then (case data of Some d \<Rightarrow> (Some d, ls, False) | None \<Rightarrow> sse_scan ls None)
      else case data_line l of
             None \<Rightarrow> sse_scan ls data
           | Some payload \<Rightarrow>
               sse_scan ls (Some (case data of None \<Rightarrow> payload | Some d \<Rightarrow> d @ CHR 0x0A # payload)))"

definition sse_next :: "sseReader \<Rightarrow> sse_event \<times> sseReader" where
  "sse_next r =
     (case sse_scan (sse_lines r) None of
        (d, ls, at_end) \<Rightarrow>
          (if at_end then
             (case sse_err r of
                Some timeout \<Rightarrow> SError timeout
              | None \<Rightarrow> (case d of Some x \<Rightarrow> SData x | None \<Rightarrow> SEnd))
           else (case d of Some x \<Rightarrow> SData x | None \<Rightarrow> SEnd),
           r\<lparr>sse_lines := ls\<rparr>))"

lemma sse_scan_shorter:
  "sse_scan ls data = (d, ls', e) \<Longrightarrow> length ls' \<le> length ls \<and> (e \<longrightarrow> ls' = [])
     \<and> (data = None \<and> d \<noteq> None \<longrightarrow> length ls' < length ls)"
  by (induction ls data rule: sse_scan.induct)
    (fastforce split: if_splits option.splits)+

lemma sse_next_shorter:
  "sse_next r = (SData x, r') \<Longrightarrow> length (sse_lines r') < length (sse_lines r)"
  using sse_scan_shorter[of "sse_lines r" None]
  by (auto simp: sse_next_def split: prod.splits if_splits option.splits)

section \<open>The frames of one attempt\<close>

record 'ctx pump =
  pm_reader :: sseReader
  pm_opener :: "'ctx ResponseOpener option"
  pm_committed :: bool
  pm_sawFinal :: bool
  pm_binder :: "StreamBinder option"
  pm_idx :: nat

text \<open>How an attempt ends: its outcome, whether to fall back, and its error.\<close>

type_synonym ending = "outcome \<times> bool \<times> gerr option"

definition streamEnd ::
    "('pk, 'sk, 'ctx, 'w) env \<Rightarrow> Client \<Rightarrow> Provider \<Rightarrow> header \<Rightarrow> cause \<Rightarrow> 'ctx pump \<Rightarrow> 'w state \<Rightarrow>
     ending \<times> 'w state" where
  "streamEnd E c p h trunc pm s =
     (if \<not> pm_sawFinal pm
      then ((UpstreamBody, \<not> pm_committed pm, Some (stageErr StageUpstream trunc)), s)
      else case pm_binder pm of
             None \<Rightarrow> ((UpstreamOK, False, None), s)
           | Some b \<Rightarrow>
               (case verifyStream E c p h b s of
                  (None, s') \<Rightarrow> ((UpstreamOK, False, None), s')
                | (Some (vo, e), s') \<Rightarrow>
                    ((verifyOutcome E (world s') vo, False, Some (stageErr StageUpstream e)), s')))"

definition streamReadError ::
    "('pk, 'sk, 'ctx, 'w) env \<Rightarrow> bool \<Rightarrow> 'ctx pump \<Rightarrow> 'w state \<Rightarrow> ending" where
  "streamReadError E timeout pm s =
     (if gone E (world s) then (UpstreamCanceled, False, Some (stageErr StageUpstream Aborted))
      else if expired E (world s)
      then (UpstreamTimeout, \<not> pm_committed pm, Some (stageErr StageUpstream Aborted))
      else (upstreamFailureOutcome E (world s) timeout UpstreamBody, \<not> pm_committed pm,
            Some (stageErr StageUpstream ReadFailed)))"

definition newOpener ::
    "('pk, 'sk, 'ctx, 'w) env \<Rightarrow> Client \<Rightarrow> Provider \<Rightarrow> bytes \<Rightarrow> Response \<Rightarrow> werr + 'ctx ResponseOpener" where
  "newOpener E c p ephPriv frame =
     (if bindsResponse c p then NewBoundResponseOpenerFor (en_H E) (ep_Profile (cl_ep c)) ephPriv frame
      else NewResponseOpenerFor (en_H E) (ep_Profile (cl_ep c)) ephPriv frame)"

definition frame_open ::
    "('pk, 'sk, 'ctx, 'w) env \<Rightarrow> Client \<Rightarrow> Provider \<Rightarrow> bytes \<Rightarrow> 'ctx pump \<Rightarrow> Response \<Rightarrow>
     cause + Response \<times> 'ctx ResponseOpener" where
  "frame_open E c p ephPriv pm frame =
     bind_r (case pm_opener pm of
               Some op \<Rightarrow> Inr op
             | None \<Rightarrow> map_err (SetupOf (pm_idx pm)) (newOpener E c p ephPriv frame)) (\<lambda>op.
     map_err (OpenFailedAs (pm_idx pm) (pm_idx pm = 0 \<and> bindsResponse c p))
       (OpenFrame (en_H E) (en_J E) op frame))"

definition bind_frame ::
    "('pk, 'sk, 'ctx, 'w) env \<Rightarrow> 'ctx pump \<Rightarrow> Response \<Rightarrow> cause + StreamBinder option" where
  "bind_frame E pm frame =
     (case pm_binder pm of
        None \<Rightarrow> Inr None
      | Some b \<Rightarrow> bind_r (map_err (\<lambda>_. BindingOf (pm_idx pm)) (AddFrame (en_J E) b frame)) (\<lambda>b'. Inr (Some b')))"

text \<open>Delivering the first frame commits the stream to this provider.\<close>

definition commit :: "Client \<Rightarrow> Ctx \<Rightarrow> Provider \<Rightarrow> header \<Rightarrow> bool \<Rightarrow> 'w state \<Rightarrow> 'w state" where
  "commit c ctx p h already s =
     (if already then s else recordMeta ctx p h (report_metric c StreamFirstFrame s))"

definition deliver :: "('pk, 'sk, 'ctx, 'w) env \<Rightarrow> Response \<Rightarrow> 'w state \<Rightarrow> gerr option \<times> 'w state" where
  "deliver E out s = ask (onFrame E out) (emit (EDeliver out) s)"

text \<open>One frame: how the attempt ends at it, or the state the loop goes on with.\<close>

definition pump_frame ::
    "('pk, 'sk, 'ctx, 'w) env \<Rightarrow> Client \<Rightarrow> Ctx \<Rightarrow> Provider \<Rightarrow> header \<Rightarrow> bytes \<Rightarrow> bytes \<Rightarrow> 'ctx pump \<Rightarrow>
     'w state \<Rightarrow> (ending + 'ctx pump) \<times> 'w state" where
  "pump_frame E c ctx p h ephPriv data pm s =
     (let refuse = (\<lambda>cz. Inl (UpstreamUndecodable, \<not> pm_committed pm, Some (stageErr StageUpstream cz))) in
      case Option.bind (json_parse data) as_object of
        None \<Rightarrow> (refuse (DecodeFailed (pm_idx pm)), s)
      | Some m \<Rightarrow>
      (let frame = nil_map m in
      case decodeResponseE2EE frame of
        Inl _ \<Rightarrow> (refuse (MetadataOf (pm_idx pm)), s)
      | Inr fe \<Rightarrow>
      (case frame_open E c p ephPriv pm frame of
        Inl e \<Rightarrow> (refuse e, report_metric c ResponseOpenFailure s)
      | Inr (out, op) \<Rightarrow>
      (case bind_frame E pm frame of
        Inl e \<Rightarrow> (refuse e, s)
      | Inr b \<Rightarrow>
      (case deliver E out (commit c ctx p h (pm_committed pm) s) of
        (Some e, s') \<Rightarrow>
          (Inl (if gone E (world s') then UpstreamCanceled else UpstreamInternal, False, Some e), s')
      | (None, s') \<Rightarrow>
          (Inr (pm\<lparr>pm_opener := Some op, pm_committed := True,
                   pm_sawFinal := pm_sawFinal pm \<or> re_Final fe, pm_binder := b,
                   pm_idx := Suc (pm_idx pm)\<rparr>), s'))))))"

lemma pump_frame_reader:
  "pump_frame E c ctx p h k d pm s = (Inr pm', s') \<Longrightarrow> pm_reader pm' = pm_reader pm"
  unfolding pump_frame_def Let_def
  by (clarsimp split: option.splits sum.splits prod.splits)

function pump_frames ::
    "('pk, 'sk, 'ctx, 'w) env \<Rightarrow> Client \<Rightarrow> Ctx \<Rightarrow> Provider \<Rightarrow> header \<Rightarrow> bytes \<Rightarrow> 'ctx pump \<Rightarrow>
     'w state \<Rightarrow> ending \<times> 'w state" where
  "pump_frames E c ctx p h ephPriv pm s =
     (case sse_next (pm_reader pm) of
        (SEnd, r) \<Rightarrow> streamEnd E c p h Truncated pm (read_on E s)
      | (SError timeout, r) \<Rightarrow> (streamReadError E timeout pm (read_on E s), read_on E s)
      | (SData data, r) \<Rightarrow>
          if trim_space data = ''[DONE]''
          then streamEnd E c p h DoneBeforeFinal pm (read_on E s)
          else case pump_frame E c ctx p h ephPriv data (pm\<lparr>pm_reader := r\<rparr>) (read_on E s) of
                 (Inl ending, s') \<Rightarrow> (ending, s')
               | (Inr pm', s') \<Rightarrow> pump_frames E c ctx p h ephPriv pm' s')"
  by pat_completeness auto
termination
  by (relation "measure (\<lambda>(_, _, _, _, _, _, pm, _). length (sse_lines (pm_reader pm)))")
    (auto dest!: sse_next_shorter[OF sym] pump_frame_reader[OF sym])

declare pump_frames.simps [simp del]

section \<open>One attempt\<close>

definition is_event_stream :: "header \<Rightarrow> bool" where
  "is_event_stream h = prefix ''text/event-stream'' (header_get ''Content-Type'' h)"

definition stream_reply ::
    "('pk, 'sk, 'ctx, 'w) env \<Rightarrow> Client \<Rightarrow> Ctx \<Rightarrow> Provider \<Rightarrow> Request \<Rightarrow> bytes \<Rightarrow> 'w state \<Rightarrow>
     ending \<times> 'w state" where
  "stream_reply E c ctx p sealed ephPriv s =
     (case doRequest E ctx p sealed s of
        (Inl timeout, s1) \<Rightarrow>
          ((upstreamFailureOutcome E (world s1) timeout UpstreamTransport, False,
            Some (stageErr StageUpstream PostFailed)), s1)
      | (Inr resp, s1) \<Rightarrow>
          let h = hr_Header resp in
          if hr_Status resp \<noteq> 200
          then ((upstreamStatusOutcome (hr_Status resp), retryableStatus (hr_Status resp),
                 Some (status_error maxSSELine resp)), read_on E s1)
          else if \<not> is_event_stream h
          then ((UpstreamNotStream, True,
                 Some (Staged StageUpstream 0 (take maxSSELine (hr_Body resp)) (Some h)
                         (NotEventStream (header_get ''Content-Type'' h)))), read_on E s1)
          else
          (case (if verifyEnabled E
                 then map_err (\<lambda>_. StartBinding) (bind_r (NewStreamBinder (en_J E) sealed) (\<lambda>b. Inr (Some b)))
                 else Inr None) of
             Inl e \<Rightarrow> ((UpstreamInternal, False, Some (stageErr StageInternal e)), s1)
           | Inr binder \<Rightarrow>
               pump_frames E c ctx p h ephPriv
                 \<lparr>pm_reader = newSSEReader resp, pm_opener = None, pm_committed = False,
                  pm_sawFinal = False, pm_binder = binder, pm_idx = 0\<rparr> s1))"

definition streamOnce ::
    "('pk, 'sk, 'ctx, 'w) env \<Rightarrow> Client \<Rightarrow> Ctx \<Rightarrow> Provider \<Rightarrow> Request \<Rightarrow> bytes \<Rightarrow> 'w state \<Rightarrow>
     (bool \<times> (gerr + unit)) \<times> 'w state" where
  "streamOnce E c ctx p sealed ephPriv s =
     (case stream_reply E c ctx p sealed ephPriv s of
        ((outcome, retry, err), s') \<Rightarrow>
          ((retry, case err of None \<Rightarrow> Inr () | Some e \<Rightarrow> Inl e),
           report_metric c (UpstreamAttempt UpstreamStream outcome) s'))"

definition stream_attempt ::
    "('pk, 'sk, 'ctx, 'w) env \<Rightarrow> Client \<Rightarrow> Ctx \<Rightarrow> Request \<Rightarrow> bytes \<Rightarrow> bytes \<Rightarrow> ('w, unit) attempt" where
  "stream_attempt E c ctx req ephPub ephPriv p s =
     (case ask (random E) s of
        (rnd, s1) \<Rightarrow>
          (case client_seal (en_H E) (en_J E) c p req ephPriv ephPub rnd of
             None \<Rightarrow> ((False, Inl Panicked), s1)
           | Some (Inl e) \<Rightarrow> ((False, Inl (stageErr StageRequest (SealFailedAs e))), s1)
           | Some (Inr sealed) \<Rightarrow> streamOnce E c ctx p sealed ephPriv s1))"

section \<open>CompleteStream\<close>

definition CompleteStream ::
    "('pk, 'sk, 'ctx, 'w) env \<Rightarrow> Client \<Rightarrow> Ctx \<Rightarrow> Request \<Rightarrow> 'w state \<Rightarrow> (gerr + unit) \<times> 'w state" where
  "CompleteStream E c ctx req s =
     (case ask (resolve E ctx (cl_ep c) req) s of
        (Inl e, s1) \<Rightarrow> (Inl (resolveErr e), s1)
      | (Inr n, s1) \<Rightarrow>
          (case ask (random E) s1 of
             (rnd, s2) \<Rightarrow>
               (case GenerateRecipientKey (en_H E) rnd of
                  Inl _ \<Rightarrow> (Inl (stageErr StageInternal GenerateKey), s2)
                | Inr (ephPriv, ephPub) \<Rightarrow>
                    walk_chain E c (stream_attempt E c ctx req ephPub ephPriv) n s2)))"

end
