(* ===== verification/Client_WalkFacts.thy ===== *)
theory Client_WalkFacts
  imports Client_Walk
begin

text \<open>
  Facts about the walk that hold for every kind of attempt: which failure it reports, how many
  attempts it makes and when they start, and the contract \<open>walk_contract\<close> under which a property of
  traces holds for a whole walk because it holds for every attempt.
\<close>

section \<open>Traces\<close>

lemma trace_emit [simp]: "trace (emit e s) = trace s @ [e]" "world (emit e s) = world s"
  by (simp_all add: emit_def)

lemma trace_ask: "ask f s = (x, s') \<Longrightarrow> trace s' = trace s \<and> f (world s) = (x, world s')"
  by (auto simp: ask_def split: prod.splits)

text \<open>A metric adds at most itself and leaves the world alone.\<close>

lemma world_metric [simp]: "world (report_metric c m s) = world s"
  by (simp add: report_metric_def)

lemma trace_metric: "trace (report_metric c m s) = trace s @ (if cl_metrics c then [EMetric m] else [])"
  by (simp add: report_metric_def)

lemma world_metrics [simp]:
  "world (metricFallback c r i n s) = world s" "world (metricWalkBudgetBlockedFallback c i n s) = world s"
  by (simp_all add: metricFallback_def metricWalkBudgetBlockedFallback_def)

lemma trace_walk_timed:
  "walk_timed E f i walk s = (r, walk', s') \<Longrightarrow> trace s' = trace s"
  by (auto simp: walk_timed_def Let_def dest: trace_ask split: if_splits prod.splits)

lemma trace_walk_provider: "walk_provider E i walk s = (r, walk', s') \<Longrightarrow> trace s' = trace s"
  unfolding walk_provider_def by (rule trace_walk_timed)

lemma trace_rekey:
  assumes "rekey E c i p walk s = (r, walk', s')"
  shows "\<exists>m. trace s' = trace s @ (if cl_metrics c then [EMetric (KeyRefresh m)] else [])"
  using assms
  by (auto simp: rekey_def walk_refresh_def trace_metric dest!: trace_walk_timed
      split: option.splits prod.splits sum.splits if_splits)

text \<open>No event of the first kind comes after one of the second.\<close>

primrec never_after :: "('e \<Rightarrow> bool) \<Rightarrow> ('e \<Rightarrow> bool) \<Rightarrow> 'e list \<Rightarrow> bool" where
  "never_after P Q [] = True"
| "never_after P Q (e # es) = ((Q e \<longrightarrow> \<not> list_ex P es) \<and> never_after P Q es)"

lemma never_after_append:
  "never_after P Q (a @ b) \<longleftrightarrow> never_after P Q a \<and> never_after P Q b \<and> (list_ex Q a \<longrightarrow> \<not> list_ex P b)"
  by (induction a) auto

lemma never_after_none: "\<not> list_ex P tr \<or> \<not> list_ex Q tr \<Longrightarrow> never_after P Q tr"
  by (induction tr) auto

definition is_post :: "event \<Rightarrow> bool" where "is_post e = (case e of EPost _ _ \<Rightarrow> True | _ \<Rightarrow> False)"
definition is_delivery :: "event \<Rightarrow> bool" where "is_delivery e = (case e of EDeliver _ \<Rightarrow> True | _ \<Rightarrow> False)"
definition is_meta :: "event \<Rightarrow> bool" where "is_meta e = (case e of EMeta _ \<Rightarrow> True | _ \<Rightarrow> False)"
definition is_attempt :: "event \<Rightarrow> bool" where "is_attempt e = (case e of EAttempt _ _ _ \<Rightarrow> True | _ \<Rightarrow> False)"
definition is_accepted :: "event \<Rightarrow> bool" where
  "is_accepted e = (case e of EReply st \<Rightarrow> 200 \<le> st \<and> st \<le> 299 | _ \<Rightarrow> False)"

lemma event_simps [simp]:
  "is_post (EAttempt i p t) = False" "is_post (EPost p q) = True" "is_post (EReply st) = False"
  "is_post (EDeliver r) = False" "is_post (EMeta mt) = False" "is_post (EMetric m) = False"
  "is_delivery (EAttempt i p t) = False" "is_delivery (EPost p q) = False"
  "is_delivery (EReply st) = False" "is_delivery (EDeliver r) = True"
  "is_delivery (EMeta mt) = False" "is_delivery (EMetric m) = False"
  "is_meta (EAttempt i p t) = False" "is_meta (EPost p q) = False" "is_meta (EReply st) = False"
  "is_meta (EDeliver r) = False" "is_meta (EMeta mt) = True" "is_meta (EMetric m) = False"
  "is_attempt (EAttempt i p t) = True" "is_attempt (EPost p q) = False"
  "is_attempt (EReply st) = False" "is_attempt (EDeliver r) = False"
  "is_attempt (EMeta mt) = False" "is_attempt (EMetric m) = False"
  "is_accepted (EAttempt i p t) = False" "is_accepted (EPost p q) = False"
  "is_accepted (EReply st) \<longleftrightarrow> 200 \<le> st \<and> st \<le> 299" "is_accepted (EDeliver r) = False"
  "is_accepted (EMeta mt) = False" "is_accepted (EMetric m) = False"
  by (simp_all add: is_post_def is_delivery_def is_meta_def is_attempt_def is_accepted_def)

section \<open>Unfolding one attempt\<close>

text \<open>
  The ways \<open>attemptRekeying\<close> ends: with the first attempt, or with one more on the same candidate
  under a new key, after a stale-key rejection.
\<close>

lemma attemptRekeyingE:
  assumes "attemptRekeying b E c att i p walk fail s = ((retry, res), walk', fail', s')"
  obtains
    (success) x r where "att p (emit (EAttempt i p (now E (world s))) s) = ((r, Inr x), s')"
      "res = Inr x" "\<not> retry" "walk' = walk" "fail' = fail"
  | (panic) r where "att p (emit (EAttempt i p (now E (world s))) s) = ((r, Inl Panicked), s')"
      "res = Inl Panicked" "\<not> retry" "walk' = walk" "fail' = fail"
  | (failed) e r s1 walk1 where
      "att p (emit (EAttempt i p (now E (world s))) s) = ((r, Inl e), s1)" "e \<noteq> Panicked" "res = Inl e"
      "retry \<longrightarrow> r \<or> isKeyMismatch e" "fail' = walkErr_record tierAttempt e fail"
      "walk1 = walk_charge (now E (world s1) - now E (world s)) walk"
      "walk' = walk1 \<and> s' = s1
        \<or> isKeyMismatch e \<and> rekey E c i p walk1 s1 = (None, walk', s')"
  | (again) e r s1 walk1 fresh walk2 s2 where
      "att p (emit (EAttempt i p (now E (world s))) s) = ((r, Inl e), s1)" "e \<noteq> Panicked"
      "isKeyMismatch e" "\<not> b" "walk1 = walk_charge (now E (world s1) - now E (world s)) walk"
      "\<not> walk_exhausted walk1" "rekey E c i p walk1 s1 = (Some fresh, walk2, s2)"
      "attemptRekeying True E c att i fresh walk2 (walkErr_record tierAttempt e fail) s2
        = ((retry, res), walk', fail', s')"
proof -
  let ?a = "att p (emit (EAttempt i p (now E (world s))) s)"
  obtain r0 v s1 where a: "?a = ((r0, v), s1)" by (metis surj_pair)
  show ?thesis
  proof (cases v)
    case (Inr x)
    then show ?thesis using assms a by (intro success[of r0 x]) (auto simp: attemptRekeying.simps)
  next
    case (Inl e)
    let ?w1 = "walk_charge (now E (world s1) - now E (world s)) walk"
    show ?thesis
    proof (cases "e = Panicked")
      case True
      then show ?thesis using assms a Inl by (intro panic[of r0]) (auto simp: attemptRekeying.simps)
    next
      case np: False
      show ?thesis
      proof (cases "\<not> isKeyMismatch e \<or> b \<or> gone E (world s1) \<or> walk_exhausted ?w1")
        case True
        then have "res = Inl e" "walk' = ?w1" "s' = s1" "fail' = walkErr_record tierAttempt e fail"
          "retry \<longrightarrow> r0 \<or> isKeyMismatch e"
          using assms a Inl np by (auto simp: attemptRekeying.simps Let_def split: if_splits)
        then show ?thesis using a Inl np by (intro failed) auto
      next
        case False
        obtain fr walk2 s2 where rk: "rekey E c i p ?w1 s1 = (fr, walk2, s2)" by (metis surj_pair)
        show ?thesis
        proof (cases fr)
          case None
          then have "res = Inl e" "walk' = walk2" "s' = s2" "fail' = walkErr_record tierAttempt e fail"
            using assms a Inl np False rk by (auto simp: attemptRekeying.simps Let_def)
          then show ?thesis using a Inl np rk None False by (intro failed[of r0 e s1]) auto
        next
          case (Some fresh)
          then have "attemptRekeying True E c att i fresh walk2 (walkErr_record tierAttempt e fail) s2
              = ((retry, res), walk', fail', s')"
            using assms a Inl np False rk by (simp add: attemptRekeying.simps[of b] Let_def)
          then show ?thesis using a Inl np False rk Some by (intro again[of r0 e s1]) auto
        qed
      qed
    qed
  qed
qed

lemma attemptRekeying_induct:
  assumes "attemptRekeying b E c att i p walk fail s = ((retry, res), walk', fail', s')"
    and "\<And>b p walk fail s. (\<not> b \<Longrightarrow> \<forall>p walk fail s. attemptRekeying True E c att i p walk fail s
              = ((retry, res), walk', fail', s') \<longrightarrow> Q True p walk fail s)
       \<Longrightarrow> attemptRekeying b E c att i p walk fail s = ((retry, res), walk', fail', s')
       \<Longrightarrow> Q b p walk fail s"
  shows "Q b p walk fail s"
proof -
  have "Q True p walk fail s"
    if "attemptRekeying True E c att i p walk fail s = ((retry, res), walk', fail', s')" for p walk fail s
    by (rule assms(2)[of True]) (use that in auto)
  then show ?thesis by (intro assms(2)[of b]) (use assms(1) in auto)
qed

text \<open>The candidate list handed the provider out for that candidate.\<close>

definition provided :: "('pk, 'sk, 'ctx, 'w) env \<Rightarrow> nat \<Rightarrow> Provider \<Rightarrow> bool" where
  "provided E i p \<longleftrightarrow> (\<exists>d w w'. materialize E i d w = (Inr p, w'))
     \<or> (\<exists>f k d w w'. refresher E = Some f \<and> f i k d w = (Inr p, w'))"

lemma walk_timed_Inr: "walk_timed E f i walk s = (Inr p, walk', s') \<Longrightarrow> \<exists>d w w'. f d w = (Inr p, w')"
  by (auto simp: walk_timed_def Let_def dest!: trace_ask split: if_splits prod.splits)

lemma rekey_provided: "rekey E c i p walk s = (Some q, walk', s') \<Longrightarrow> provided E i q"
  by (auto simp: rekey_def walk_refresh_def provided_def dest: walk_timed_Inr
      split: option.splits prod.splits sum.splits if_splits)

section \<open>The contract of an attempt\<close>

text \<open>
  \<open>ok\<close> holds of the trace whenever another attempt may start, \<open>safe\<close> of every trace. An attempt that
  asks for another one, or was rejected for a stale key, must leave \<open>ok\<close> behind.
\<close>

locale walk_contract =
  fixes E :: "('pk, 'sk, 'ctx, 'w) env" and c :: Client and att :: "('w, 'a) attempt"
    and ok :: "event list \<Rightarrow> bool" and safe :: "event list \<Rightarrow> bool"
  assumes ok_metric: "ok tr \<Longrightarrow> ok (tr @ [EMetric m])"
    and ok_safe: "ok tr \<Longrightarrow> safe tr"
    and att_safe: "ok (trace s) \<Longrightarrow> att p (emit (EAttempt i p t) s) = (r, s') \<Longrightarrow> safe (trace s')"
    and att_ok: "ok (trace s) \<Longrightarrow> att p (emit (EAttempt i p t) s) = ((retry, Inl e), s') \<Longrightarrow> e \<noteq> Panicked
      \<Longrightarrow> retry \<or> isKeyMismatch e \<Longrightarrow> ok (trace s')"
begin

lemma ok_metrics:
  "ok (trace s) \<Longrightarrow> ok (trace (report_metric c m s))"
  "ok (trace s) \<Longrightarrow> ok (trace (metricFallback c r i n s))"
  "ok (trace s) \<Longrightarrow> ok (trace (metricWalkBudgetBlockedFallback c i n s))"
  using ok_metric
  by (simp_all add: report_metric_def metricFallback_def metricWalkBudgetBlockedFallback_def)

lemma ok_rekey: "rekey E c i p walk s = (r, walk', s') \<Longrightarrow> ok (trace s) \<Longrightarrow> ok (trace s')"
  by (drule trace_rekey) (use ok_metric in auto)

lemma rekeying_safe:
  assumes "attemptRekeying b E c att i p walk fail s = ((retry, res), walk', fail', s')"
  shows "ok (trace s) \<longrightarrow> safe (trace s') \<and> (retry \<longrightarrow> ok (trace s'))"
  using assms
proof (rule attemptRekeying_induct)
  fix b p walk fail s
  assume IH: "\<not> b \<Longrightarrow> \<forall>p walk fail s. attemptRekeying True E c att i p walk fail s
      = ((retry, res), walk', fail', s') \<longrightarrow> ok (trace s) \<longrightarrow> safe (trace s') \<and> (retry \<longrightarrow> ok (trace s'))"
    and run: "attemptRekeying b E c att i p walk fail s = ((retry, res), walk', fail', s')"
  show "ok (trace s) \<longrightarrow> safe (trace s') \<and> (retry \<longrightarrow> ok (trace s'))"
  proof
    assume st: "ok (trace s)"
    from run show "safe (trace s') \<and> (retry \<longrightarrow> ok (trace s'))"
    proof (cases rule: attemptRekeyingE)
      case (failed e r s1 walk1)
      show ?thesis
      proof (cases "r \<or> isKeyMismatch e")
        case True
        then have "ok (trace s1)" using att_ok[OF st failed(1,2)] by blast
        then show ?thesis using failed(7) ok_rekey ok_safe by blast
      next
        case False
        then have "s' = s1" "\<not> retry" using failed(4,7) by auto
        then show ?thesis using att_safe[OF st failed(1)] by simp
      qed
    next
      case (again e r s1 walk1 fresh walk2 s2)
      then have "ok (trace s2)" using att_ok[OF st again(1,2)] ok_rekey by blast
      then show ?thesis using IH again(4,8) by blast
    qed (use att_safe[OF st] in auto)
  qed
qed

lemma candidates_safe:
  "walk_candidates E c att n is walk fail s = (res, s') \<Longrightarrow> ok (trace s) \<Longrightarrow> safe (trace s')"
proof (induction "is" arbitrary: walk fail s)
  case Nil
  then show ?case using ok_safe by simp
next
  case (Cons i "is")
  obtain r walk1 s1 where wp: "walk_provider E i walk s = (r, walk1, s1)" by (metis surj_pair)
  have ok1: "ok (trace s1)" using trace_walk_provider[OF wp] Cons.prems(2) by simp
  show ?case
  proof (cases r)
    case (Inl e)
    then show ?thesis
      using Cons.prems wp ok1 ok_safe ok_metrics[OF ok1]
        Cons.IH[of walk1 "walkErr_record tierMaterialize (resolveErr e) fail"
          "metricFallback c FallbackMaterialize i n s1"]
      by (auto split: if_splits)
  next
    case (Inr p)
    obtain retry v walk2 fail2 s2 where ar:
      "attemptRekeying False E c att i p walk1 fail s1 = ((retry, v), walk2, fail2, s2)"
      by (metis surj_pair)
    have s2: "safe (trace s2)" "retry \<Longrightarrow> ok (trace s2)" using rekeying_safe[OF ar] ok1 by blast+
    show ?thesis
      using Cons.prems wp Inr ar s2 ok_metrics[OF s2(2)] ok_safe
        Cons.IH[of walk2 fail2 "metricFallback c FallbackUpstream i n s2"]
      by (auto split: if_splits sum.splits)
  qed
qed

text \<open>
  A result of the walk is the result of its last attempt, on a provider the candidate list handed out
  for that candidate, started from a trace on which another attempt was allowed.
\<close>

lemma rekeying_Inr:
  assumes "attemptRekeying b E c att i p walk fail s = ((retry, Inr x), walk', fail', s')"
  shows "provided E i p \<longrightarrow> ok (trace s) \<longrightarrow>
     (\<exists>p s0 t r. provided E i p \<and> ok (trace s0) \<and> att p (emit (EAttempt i p t) s0) = ((r, Inr x), s'))"
  using assms
proof (rule attemptRekeying_induct)
  fix b p walk fail s
  assume IH: "\<not> b \<Longrightarrow> \<forall>p walk fail s. attemptRekeying True E c att i p walk fail s
      = ((retry, Inr x), walk', fail', s') \<longrightarrow> provided E i p \<longrightarrow> ok (trace s) \<longrightarrow>
      (\<exists>p s0 t r. provided E i p \<and> ok (trace s0) \<and> att p (emit (EAttempt i p t) s0) = ((r, Inr x), s'))"
    and run: "attemptRekeying b E c att i p walk fail s = ((retry, Inr x), walk', fail', s')"
  show "provided E i p \<longrightarrow> ok (trace s) \<longrightarrow>
      (\<exists>p s0 t r. provided E i p \<and> ok (trace s0) \<and> att p (emit (EAttempt i p t) s0) = ((r, Inr x), s'))"
  proof (intro impI)
    assume pr: "provided E i p" and st: "ok (trace s)"
    from run show "\<exists>p s0 t r. provided E i p \<and> ok (trace s0) \<and> att p (emit (EAttempt i p t) s0) = ((r, Inr x), s')"
    proof (cases rule: attemptRekeyingE)
      case (again e r s1 walk1 fresh walk2 s2)
      have "ok (trace s2)" using att_ok[OF st again(1,2)] again(3,7) ok_rekey by blast
      then show ?thesis using IH again(4,8) rekey_provided[OF again(7)] by blast
    qed (use pr st in blast)+
  qed
qed

lemma candidates_Inr:
  "walk_candidates E c att n is walk fail s = (Inr x, s') \<Longrightarrow> ok (trace s)
     \<Longrightarrow> \<exists>i\<in>set is. \<exists>p s0 t r. provided E i p \<and> ok (trace s0)
           \<and> att p (emit (EAttempt i p t) s0) = ((r, Inr x), s')"
proof (induction "is" arbitrary: walk fail s)
  case (Cons i "is")
  obtain r walk1 s1 where wp: "walk_provider E i walk s = (r, walk1, s1)" by (metis surj_pair)
  have ok1: "ok (trace s1)" using trace_walk_provider[OF wp] Cons.prems(2) by simp
  show ?case
  proof (cases r)
    case (Inl e)
    then show ?thesis
      using Cons.prems wp Cons.IH[OF _ ok_metrics(2)[OF ok1]] by (auto simp: walk_end_def split: if_splits)
  next
    case (Inr p)
    obtain retry v walk2 fail2 s2 where ar:
      "attemptRekeying False E c att i p walk1 fail s1 = ((retry, v), walk2, fail2, s2)"
      by (metis surj_pair)
    have pr: "provided E i p"
      using walk_timed_Inr[OF wp[unfolded walk_provider_def Inr]] by (auto simp: provided_def)
    show ?thesis
    proof (cases v)
      case (Inr y)
      then have "y = x" "s2 = s'" using Cons.prems wp \<open>r = Inr p\<close> ar by auto
      then show ?thesis using rekeying_Inr[OF ar[unfolded Inr]] pr ok1 by simp
    next
      case (Inl e)
      have "retry \<Longrightarrow> ok (trace s2)" using rekeying_safe[OF ar] ok1 by blast
      then show ?thesis
        using Cons.prems wp \<open>r = Inr p\<close> ar Inl Cons.IH[OF _ ok_metrics(2)]
        by (auto simp: walk_end_def split: if_splits)
    qed
  qed
qed (simp add: walk_end_def)

lemma chain_Inr:
  "walk_chain E c att n s = (Inr x, s') \<Longrightarrow> ok (trace s)
     \<Longrightarrow> \<exists>i<n. \<exists>p s0 t r. provided E i p \<and> ok (trace s0)
           \<and> att p (emit (EAttempt i p t) s0) = ((r, Inr x), s')"
  unfolding walk_chain_def by (drule (1) candidates_Inr) (simp add: Bex_def)

lemma chain_safe:
  "walk_chain E c att n s = (res, s') \<Longrightarrow> ok (trace s) \<Longrightarrow> safe (trace s')"
  unfolding walk_chain_def by (rule candidates_safe)

end

end
