(* ===== verification/Client_Budget.thy ===== *)
theory Client_Budget
  imports Client_WalkFacts
begin

text \<open>
  The walk's two promises to its caller: the failure it reports is the most useful one seen, and it
  makes at most two attempts per candidate, none of which starts after the budget has run out.
\<close>

section \<open>The failure that is kept\<close>

text \<open>The reference: the last of the errors of the highest tier.\<close>

definition most_useful :: "(nat \<times> gerr) list \<Rightarrow> gerr option" where
  "most_useful xs =
     (if xs = [] then None
      else Some (snd (last (filter (\<lambda>x. fst x = Max (fst ` set xs)) xs))))"

lemma Max_insert_snoc:
  "xs \<noteq> [] \<Longrightarrow> Max (fst ` set (xs @ [(k, e)])) = max k (Max (fst ` set xs))"
  for xs :: "(nat \<times> gerr) list"
  by simp

lemma record_fold_tier:
  "fold (\<lambda>(k, e). walkErr_record k e) xs we_zero =
     \<lparr>we_err = most_useful xs, we_tier = (if xs = [] then 0 else Max (fst ` set xs))\<rparr>"
proof (induction xs rule: rev_induct)
  case Nil
  then show ?case by (simp add: we_zero_def most_useful_def)
next
  case (snoc x xs)
  obtain k e where x: "x = (k, e)" by (cases x)
  have fo: "fold (\<lambda>(k, e). walkErr_record k e) (xs @ [x]) we_zero =
      walkErr_record k e \<lparr>we_err = most_useful xs, we_tier = (if xs = [] then 0 else Max (fst ` set xs))\<rparr>"
    using snoc by (simp add: x)
  show ?case
  proof (cases "xs = []")
    case True
    then show ?thesis by (simp add: x we_zero_def walkErr_record_def most_useful_def)
  next
    case False
    let ?M = "Max (fst ` set xs)"
    have M: "Max (fst ` set (xs @ [x])) = max k ?M" unfolding x by (rule Max_insert_snoc[OF False])
    show ?thesis
    proof (cases "?M \<le> k")
      case True
      then have Mk: "Max (fst ` set (xs @ [x])) = k" unfolding M by (rule max.absorb1)
      have mu: "most_useful (xs @ [x]) = Some e"
        unfolding most_useful_def Mk by (simp add: x)
      show ?thesis unfolding fo mu Mk using True False by (simp add: walkErr_record_def del: Max_le_iff)
    next
      case less: False
      then have Mk: "Max (fst ` set (xs @ [x])) = ?M" unfolding M by (simp del: Max_le_iff)
      have mu: "most_useful (xs @ [x]) = most_useful xs"
        unfolding most_useful_def Mk using less False by (simp add: x del: Max_le_iff)
      have "most_useful xs \<noteq> None" using False by (simp add: most_useful_def)
      then show ?thesis unfolding fo mu Mk using less False by (simp add: walkErr_record_def del: Max_le_iff)
    qed
  qed
qed

text \<open>
  The failure kept through a walk is the reference one: of everything recorded, the latest of the
  errors of the highest tier, so a provider's own answer is never displaced by a budget cut or by
  bookkeeping, and a later answer replaces an earlier one.
\<close>

theorem record_keeps_most_useful:
  "we_err (fold (\<lambda>(k, e). walkErr_record k e) xs we_zero) = most_useful xs"
  by (simp add: record_fold_tier)

section \<open>Attempts\<close>

locale metered_walk =
  fixes E :: "('pk, 'sk, 'ctx, 'w) env" and c :: Client and att :: "('w, 'a) attempt"
  assumes att_appends: "att p s = (r, s') \<Longrightarrow>
    \<exists>tr. trace s' = trace s @ tr \<and> \<not> list_ex is_attempt tr"
begin

abbreviation attempts :: "'w state \<Rightarrow> nat" where
  "attempts s \<equiv> length (filter is_attempt (trace s))"

lemma no_attempt_filter: "\<not> list_ex is_attempt tr \<Longrightarrow> filter is_attempt tr = []"
  by (induction tr) auto

lemma attempts_metrics [simp]:
  "filter is_attempt (trace (report_metric c m s)) = filter is_attempt (trace s)"
  "filter is_attempt (trace (metricFallback c r i n s)) = filter is_attempt (trace s)"
  "filter is_attempt (trace (metricWalkBudgetBlockedFallback c i n s)) = filter is_attempt (trace s)"
  by (simp_all add: report_metric_def metricFallback_def metricWalkBudgetBlockedFallback_def)

lemma attempts_att:
  assumes "att p (emit (EAttempt i p t) s) = (r, s')"
  shows "attempts s' = Suc (attempts s)"
  using att_appends[OF assms] no_attempt_filter by auto

lemma attempts_rekey: "rekey E c i p walk s = (r, walk', s') \<Longrightarrow> attempts s' = attempts s"
  by (drule trace_rekey) auto

lemma rekeying_attempts:
  assumes "attemptRekeying b E c att i p walk fail s = ((retry, res), walk', fail', s')"
  shows "attempts s' \<le> attempts s + (if b \<or> refresher E = None then 1 else 2)"
  using assms
proof (rule attemptRekeying_induct)
  fix b p walk fail s
  assume IH: "\<not> b \<Longrightarrow> \<forall>p walk fail s. attemptRekeying True E c att i p walk fail s
      = ((retry, res), walk', fail', s')
      \<longrightarrow> attempts s' \<le> attempts s + (if True \<or> refresher E = None then 1 else 2)"
    and run: "attemptRekeying b E c att i p walk fail s = ((retry, res), walk', fail', s')"
  from run show "attempts s' \<le> attempts s + (if b \<or> refresher E = None then 1 else 2)"
  proof (cases rule: attemptRekeyingE)
    case (failed e r s1 walk1)
    then have "attempts s' = attempts s1" using attempts_rekey by auto
    then show ?thesis using attempts_att[OF failed(1)] by simp
  next
    case (again e r s1 walk1 fresh walk2 s2)
    have "refresher E \<noteq> None" using again(7) by (cases "refresher E") (auto simp: rekey_def)
    moreover have "attempts s' \<le> attempts s2 + 1" using IH again(4,8) by fastforce
    moreover have "attempts s2 = Suc (attempts s)"
      using attempts_att[OF again(1)] attempts_rekey[OF again(7)] by simp
    ultimately show ?thesis using again(4) by auto
  qed (auto dest: attempts_att)
qed

lemma candidates_attempts:
  "walk_candidates E c att n is walk fail s = (res, s')
     \<Longrightarrow> attempts s' \<le> attempts s + (if refresher E = None then 1 else 2) * length is"
proof (induction "is" arbitrary: walk fail s)
  case (Cons i "is")
  let ?k = "if refresher E = None then 1 else 2 :: nat"
  obtain r walk1 s1 where wp: "walk_provider E i walk s = (r, walk1, s1)" by (metis surj_pair)
  have t1: "attempts s1 = attempts s" using trace_walk_provider[OF wp] by simp
  show ?case
  proof (cases r)
    case (Inl e)
    then show ?thesis
      using Cons.prems wp t1 Cons.IH[of walk1 "walkErr_record tierMaterialize (resolveErr e) fail"
          "metricFallback c FallbackMaterialize i n s1"]
      by (auto split: if_splits)
  next
    case (Inr p)
    obtain retry v walk2 fail2 s2 where ar:
      "attemptRekeying False E c att i p walk1 fail s1 = ((retry, v), walk2, fail2, s2)"
      by (metis surj_pair)
    have t2: "attempts s2 \<le> attempts s + ?k" using rekeying_attempts[OF ar] t1 by simp
    show ?thesis
    proof (cases "s' = s2 \<or> s' = metricWalkBudgetBlockedFallback c i n s2")
      case True
      then have "attempts s' = attempts s2" by auto
      then show ?thesis using t2 by (simp split: if_splits)
    next
      case False
      then have "walk_candidates E c att n is walk2 fail2 (metricFallback c FallbackUpstream i n s2) = (res, s')"
        using Cons.prems wp Inr ar by (auto split: if_splits sum.splits)
      then show ?thesis using Cons.IH t2 by (fastforce split: if_splits)
    qed
  qed
qed simp

lemma chain_attempts:
  "walk_chain E c att n s = (res, s')
     \<Longrightarrow> attempts s' \<le> attempts s + (if refresher E = None then 1 else 2) * n"
  unfolding walk_chain_def by (drule candidates_attempts) simp

text \<open>The error of the last attempt that was made.\<close>

definition last_failure :: "gerr \<Rightarrow> event list \<Rightarrow> bool" where
  "last_failure e tr \<longleftrightarrow> (\<exists>p i t s0 r s1 ext. att p (emit (EAttempt i p t) s0) = ((r, Inl e), s1)
     \<and> tr = trace s1 @ ext \<and> \<not> list_ex is_attempt ext)"

lemma last_failure_append: "last_failure e tr \<Longrightarrow> \<not> list_ex is_attempt x \<Longrightarrow> last_failure e (tr @ x)"
  unfolding last_failure_def
  by (metis append.assoc list_ex_append)

lemma last_failure_now:
  "att p (emit (EAttempt i p t) s0) = ((r, Inl e), s1) \<Longrightarrow> last_failure e (trace s1)"
  unfolding last_failure_def by (intro exI[of _ "[]"] exI conjI) (assumption, simp_all)

lemma last_failure_metrics:
  "last_failure e (trace s) \<Longrightarrow> last_failure e (trace (report_metric c m s))"
  "last_failure e (trace s) \<Longrightarrow> last_failure e (trace (metricFallback c r i n s))"
  "last_failure e (trace s) \<Longrightarrow> last_failure e (trace (metricWalkBudgetBlockedFallback c i n s))"
  by (auto simp: report_metric_def metricFallback_def metricWalkBudgetBlockedFallback_def
      intro: last_failure_append)

text \<open>What the walk has kept: the last attempt's error, or nothing of a provider's if none was tried.\<close>

definition keeps :: "walkErr \<Rightarrow> 'w state \<Rightarrow> bool" where
  "keeps fail s \<longleftrightarrow>
     (we_tier fail = tierAttempt \<and> (\<exists>e. we_err fail = Some e \<and> last_failure e (trace s)))
     \<or> (we_tier fail < tierAttempt \<and> attempts s = 0)"

lemma keeps_metrics:
  "keeps fail s \<Longrightarrow> keeps fail (report_metric c m s)" "keeps fail s \<Longrightarrow> keeps fail (metricFallback c r i n s)"
  "keeps fail s \<Longrightarrow> keeps fail (metricWalkBudgetBlockedFallback c i n s)"
  unfolding keeps_def using last_failure_metrics by auto

lemma keeps_record:
  "keeps fail s \<Longrightarrow> k < tierAttempt \<Longrightarrow> keeps (walkErr_record k e fail) s"
  by (auto simp: keeps_def walkErr_record_def)

lemma keeps_attempt:
  "keeps fail s \<Longrightarrow> last_failure e (trace s') \<Longrightarrow> keeps (walkErr_record tierAttempt e fail) s'"
  by (auto simp: keeps_def walkErr_record_def)

lemma keeps_end:
  "keeps fail s \<Longrightarrow> walk_end fail = (Inl e :: gerr + 'a) \<Longrightarrow> attempts s \<noteq> 0 \<Longrightarrow> last_failure e (trace s)"
  by (auto simp: keeps_def walk_end_def)

lemma last_failure_rekey:
  "last_failure e (trace s) \<Longrightarrow> rekey E c i p walk s = (r, walk', s') \<Longrightarrow> last_failure e (trace s')"
  by (drule trace_rekey) (use last_failure_append in force)

lemma rekeying_keeps:
  assumes "attemptRekeying b E c att i p walk fail s = ((retry, Inl e), walk', fail', s')"
  shows "we_tier fail \<le> tierAttempt \<longrightarrow> last_failure e (trace s') \<and> (retry \<longrightarrow> keeps fail' s')"
  using assms
proof (rule attemptRekeying_induct)
  fix b p walk fail s
  assume IH: "\<not> b \<Longrightarrow> \<forall>p walk fail s. attemptRekeying True E c att i p walk fail s
      = ((retry, Inl e), walk', fail', s') \<longrightarrow>
      we_tier fail \<le> tierAttempt \<longrightarrow> last_failure e (trace s') \<and> (retry \<longrightarrow> keeps fail' s')"
    and run: "attemptRekeying b E c att i p walk fail s = ((retry, Inl e), walk', fail', s')"
  show "we_tier fail \<le> tierAttempt \<longrightarrow> last_failure e (trace s') \<and> (retry \<longrightarrow> keeps fail' s')"
  proof
    assume le: "we_tier fail \<le> tierAttempt"
    from run show "last_failure e (trace s') \<and> (retry \<longrightarrow> keeps fail' s')"
    proof (cases rule: attemptRekeyingE)
      case (failed e' r s1 walk1)
      then have e: "e' = e" by simp
      have "last_failure e (trace s')"
        using last_failure_now[OF failed(1)] failed(7) last_failure_rekey e by blast
      then show ?thesis using failed(5) le e by (simp add: keeps_def walkErr_record_def)
    next
      case (again e' r s1 walk1 fresh walk2 s2)
      have "we_tier (walkErr_record tierAttempt e' fail) \<le> tierAttempt"
        using le by (simp add: walkErr_record_def)
      then show ?thesis using IH[OF again(4)] again(8) by blast
    qed (auto dest: last_failure_now)
  qed
qed

lemma candidates_keep:
  "walk_candidates E c att n is walk fail s = (Inl e, s') \<Longrightarrow> keeps fail s \<Longrightarrow> attempts s' \<noteq> 0
     \<Longrightarrow> e \<noteq> Panicked \<Longrightarrow> last_failure e (trace s')"
proof (induction "is" arbitrary: walk fail s)
  case Nil
  then have "walk_end fail = (Inl e :: gerr + 'a)" "s' = s" by auto
  then show ?case using keeps_end[OF Nil.prems(2)] Nil.prems(3) by blast
next
  case (Cons i "is")
  obtain r walk1 s1 where wp: "walk_provider E i walk s = (r, walk1, s1)" by (metis surj_pair)
  have k1: "keeps fail s1" using trace_walk_provider[OF wp] Cons.prems(2) by (simp add: keeps_def)
  show ?case
  proof (cases r)
    case (Inl e1)
    let ?f1 = "walkErr_record tierMaterialize (resolveErr e1) fail"
    let ?f2 = "walkErr_record tierBudget (budgetErr (walk_limit walk1) e1) fail"
    have k: "keeps ?f1 s1" "keeps ?f2 s1"
      using keeps_record[OF k1] by (simp_all add: tierMaterialize_def tierBudget_def tierAttempt_def)
    have m: "keeps ?f2 (report_metric c WalkBudgetExhausted s1)"
      "keeps ?f1 (metricFallback c FallbackMaterialize i n s1)"
      using keeps_metrics k by blast+
    show ?thesis
      using Cons.prems wp Inl keeps_end[OF k(1)] keeps_end[OF m(1)]
        Cons.IH[OF _ m(2), of walk1] by (auto split: if_splits)
  next
    case (Inr p)
    obtain retry v walk2 fail2 s2 where ar:
      "attemptRekeying False E c att i p walk1 fail s1 = ((retry, v), walk2, fail2, s2)"
      by (metis surj_pair)
    have tier: "we_tier fail \<le> tierAttempt" using k1 by (auto simp: keeps_def)
    show ?thesis
    proof (cases v)
      case (Inl e1)
      have k: "last_failure e1 (trace s2)" "retry \<Longrightarrow> keeps fail2 s2"
        using rekeying_keeps ar Inl tier by blast+
      show ?thesis
        using Cons.prems wp \<open>r = Inr p\<close> ar Inl k(1) keeps_end[OF k(2)]
          keeps_end[OF keeps_metrics(3)[OF k(2)]] Cons.IH[OF _ keeps_metrics(2)[OF k(2)], of walk2]
        by (auto split: if_splits)
    next
      case (Inr x)
      then show ?thesis using Cons.prems wp \<open>r = Inr p\<close> ar by simp
    qed
  qed
qed

lemma chain_last_failure:
  "walk_chain E c att n s = (Inl e, s') \<Longrightarrow> attempts s = 0 \<Longrightarrow> attempts s' \<noteq> 0 \<Longrightarrow> e \<noteq> Panicked
     \<Longrightarrow> last_failure e (trace s')"
  unfolding walk_chain_def
  by (erule candidates_keep) (simp_all add: keeps_def we_zero_def tierAttempt_def)

end

section \<open>Time\<close>

text \<open>
  What the budget rests on: materializing a candidate, or reading its key again, ends by the deadline
  it is given.
\<close>

definition by_deadline ::
    "('pk, 'sk, 'ctx, 'w) env \<Rightarrow> (int \<Rightarrow> 'w \<Rightarrow> (gerr + Provider) \<times> 'w) \<Rightarrow> bool" where
  "by_deadline E f \<longleftrightarrow> (\<forall>d w. 0 < d \<longrightarrow> now E (snd (f d w)) \<le> now E w + d)"

definition keeps_deadlines :: "('pk, 'sk, 'ctx, 'w) env \<Rightarrow> bool" where
  "keeps_deadlines E \<longleftrightarrow> (\<forall>i. by_deadline E (materialize E i))
     \<and> (\<forall>f i k. refresher E = Some f \<longrightarrow> by_deadline E (f i k))"

context metered_walk
begin

text \<open>The walk started at \<open>t0\<close>: it is charged with all time since, and no attempt started too late.\<close>

definition in_time :: "int \<Rightarrow> candidateWalk \<Rightarrow> 'w state \<Rightarrow> bool" where
  "in_time t0 walk s \<longleftrightarrow> now E (world s) = t0 + cw_spent walk
     \<and> (\<forall>i p t. EAttempt i p t \<in> set (trace s) \<longrightarrow> t \<le> t0 + walk_limit walk)"

lemma limit_charge [simp]: "walk_limit (walk_charge d walk) = walk_limit walk"
  by (simp add: walk_limit_def walk_charge_def)

lemma in_time_append:
  "in_time t0 walk s \<Longrightarrow> world s' = world s \<Longrightarrow> trace s' = trace s @ x \<Longrightarrow> \<not> list_ex is_attempt x
     \<Longrightarrow> in_time t0 walk s'"
  by (auto simp: in_time_def list_ex_iff)

lemma in_time_metrics:
  "in_time t0 walk s \<Longrightarrow> in_time t0 walk (report_metric c m s)"
  "in_time t0 walk s \<Longrightarrow> in_time t0 walk (metricFallback c r i n s)"
  "in_time t0 walk s \<Longrightarrow> in_time t0 walk (metricWalkBudgetBlockedFallback c i n s)"
  by (auto simp: in_time_def report_metric_def metricFallback_def metricWalkBudgetBlockedFallback_def)

lemma timed_in_time:
  assumes "walk_timed E f i walk s = (r, walk', s')" "in_time t0 walk s"
    and f: "by_deadline E f"
  shows "in_time t0 walk' s' \<and> walk_limit walk' = walk_limit walk
     \<and> (is_ok r \<longrightarrow> cw_spent walk' \<le> walk_limit walk')"
proof (cases "walk_limit walk - cw_spent walk \<le> 0")
  case True
  then show ?thesis using assms(1,2) by (auto simp: walk_timed_def Let_def)
next
  case False
  obtain x w' where g: "f (walk_limit walk - cw_spent walk) (world s) = (x, w')" by (metis surj_pair)
  then have r: "r = x" "s' = s\<lparr>world := w'\<rparr>" "walk' = walk_charge (now E w' - now E (world s)) walk"
    using assms(1) False by (auto simp: walk_timed_def Let_def ask_def)
  have "now E w' \<le> now E (world s) + (walk_limit walk - cw_spent walk)"
    using f[unfolded by_deadline_def, rule_format, of "walk_limit walk - cw_spent walk" "world s"] g False
    by simp
  then show ?thesis using assms(2) by (auto simp: r in_time_def walk_charge_def walk_limit_def)
qed

lemma in_time_attempt:
  assumes "att p (emit (EAttempt i p (now E (world s))) s) = (r, s')" "in_time t0 walk s"
    "cw_spent walk \<le> walk_limit walk"
  shows "in_time t0 (walk_charge (now E (world s') - now E (world s)) walk) s'"
    and "\<forall>i p t. EAttempt i p t \<in> set (trace s') \<longrightarrow> t \<le> t0 + walk_limit walk"
proof -
  obtain tr where tr: "trace s' = (trace s @ [EAttempt i p (now E (world s))]) @ tr" "\<not> list_ex is_attempt tr"
    using att_appends[OF assms(1)] by auto
  show b: "\<forall>i p t. EAttempt i p t \<in> set (trace s') \<longrightarrow> t \<le> t0 + walk_limit walk"
    using assms(2,3) tr by (auto simp: in_time_def list_ex_iff)
  show "in_time t0 (walk_charge (now E (world s') - now E (world s)) walk) s'"
    using b assms(2) unfolding in_time_def limit_charge by (simp add: walk_charge_def)
qed

lemma rekeying_in_time:
  assumes "attemptRekeying b E c att i p walk fail s = ((retry, res), walk', fail', s')"
    and D: "keeps_deadlines E"
  shows "in_time t0 walk s \<longrightarrow> cw_spent walk \<le> walk_limit walk \<longrightarrow>
     (\<forall>i p t. EAttempt i p t \<in> set (trace s') \<longrightarrow> t \<le> t0 + walk_limit walk)
     \<and> walk_limit walk' = walk_limit walk \<and> (retry \<longrightarrow> in_time t0 walk' s')"
  using assms(1)
proof (rule attemptRekeying_induct)
  fix b p walk fail s
  assume IH: "\<not> b \<Longrightarrow> \<forall>p walk fail s. attemptRekeying True E c att i p walk fail s
      = ((retry, res), walk', fail', s') \<longrightarrow> in_time t0 walk s \<longrightarrow> cw_spent walk \<le> walk_limit walk \<longrightarrow>
     (\<forall>i p t. EAttempt i p t \<in> set (trace s') \<longrightarrow> t \<le> t0 + walk_limit walk)
     \<and> walk_limit walk' = walk_limit walk \<and> (retry \<longrightarrow> in_time t0 walk' s')"
    and run: "attemptRekeying b E c att i p walk fail s = ((retry, res), walk', fail', s')"
  have rk: "in_time t0 w2 s2 \<and> walk_limit w2 = walk_limit w1 \<and> (fr \<noteq> None \<longrightarrow> cw_spent w2 \<le> walk_limit w2)"
    if rk: "rekey E c i p w1 s1 = (fr, w2, s2)" and i1: "in_time t0 w1 s1" for w1 s1 fr w2 s2
  proof (cases "refresher E")
    case None
    then show ?thesis using rk i1 in_time_metrics by (auto simp: rekey_def)
  next
    case (Some kr)
    obtain x w s0 where t: "walk_refresh E kr i (pv_EncPubKey p) w1 s1 = (x, w, s0)" by (metis surj_pair)
    have "in_time t0 w s0 \<and> walk_limit w = walk_limit w1 \<and> (is_ok x \<longrightarrow> cw_spent w \<le> walk_limit w)"
      using t unfolding walk_refresh_def
      by (rule timed_in_time[OF _ i1]) (use D Some in \<open>simp add: keeps_deadlines_def\<close>)
    then show ?thesis
      using rk Some t in_time_metrics by (auto simp: rekey_def split: sum.splits if_splits)
  qed
  show "in_time t0 walk s \<longrightarrow> cw_spent walk \<le> walk_limit walk \<longrightarrow>
     (\<forall>i p t. EAttempt i p t \<in> set (trace s') \<longrightarrow> t \<le> t0 + walk_limit walk)
     \<and> walk_limit walk' = walk_limit walk \<and> (retry \<longrightarrow> in_time t0 walk' s')"
  proof (intro impI)
    assume i: "in_time t0 walk s" and sp: "cw_spent walk \<le> walk_limit walk"
    from run show "(\<forall>i p t. EAttempt i p t \<in> set (trace s') \<longrightarrow> t \<le> t0 + walk_limit walk)
       \<and> walk_limit walk' = walk_limit walk \<and> (retry \<longrightarrow> in_time t0 walk' s')"
    proof (cases rule: attemptRekeyingE)
      case (failed e r s1 walk1)
      note a = in_time_attempt[OF failed(1) i sp]
      have "in_time t0 walk' s' \<and> walk_limit walk' = walk_limit walk"
        using failed(6,7) a(1) rk by fastforce
      then show ?thesis by (auto simp: in_time_def)
    next
      case (again e r s1 walk1 fresh walk2 s2)
      have "in_time t0 walk2 s2 \<and> walk_limit walk2 = walk_limit walk \<and> cw_spent walk2 \<le> walk_limit walk2"
        using rk[OF again(7)] in_time_attempt(1)[OF again(1) i sp] again(5) by simp
      then show ?thesis using IH[OF again(4)] again(8) by metis
    next
      case (success x r)
      then show ?thesis using in_time_attempt(2)[OF success(1) i sp] by simp
    next
      case (panic r)
      then show ?thesis using in_time_attempt(2)[OF panic(1) i sp] by simp
    qed
  qed
qed

lemma candidates_in_time:
  "walk_candidates E c att n is walk fail s = (res, s') \<Longrightarrow> keeps_deadlines E \<Longrightarrow> in_time t0 walk s
     \<Longrightarrow> \<forall>i p t. EAttempt i p t \<in> set (trace s') \<longrightarrow> t \<le> t0 + walk_limit walk"
proof (induction "is" arbitrary: walk fail s)
  case Nil
  then show ?case by (simp add: in_time_def)
next
  case (Cons i "is")
  let ?P = "\<lambda>s. \<forall>i p t. EAttempt i p t \<in> set (trace s) \<longrightarrow> t \<le> t0 + walk_limit walk"
  have P: "in_time t0 w s \<Longrightarrow> walk_limit w = walk_limit walk \<Longrightarrow> ?P s" for w s by (simp add: in_time_def)
  obtain r walk1 s1 where wp: "walk_provider E i walk s = (r, walk1, s1)" by (metis surj_pair)
  have md: "by_deadline E (materialize E i)" using Cons.prems(2) by (simp add: keeps_deadlines_def)
  have i1: "in_time t0 walk1 s1" "walk_limit walk1 = walk_limit walk" "is_ok r \<longrightarrow> cw_spent walk1 \<le> walk_limit walk1"
    using timed_in_time[OF wp[unfolded walk_provider_def] Cons.prems(3) md] by blast+
  show ?case
  proof (cases r)
    case (Inl e1)
    show ?thesis
      using Cons.prems wp Inl P[OF i1(1,2)] P[OF in_time_metrics(1)[OF i1(1)] i1(2)]
        Cons.IH[OF _ Cons.prems(2) in_time_metrics(2)[OF i1(1)]] i1(2)
      by (auto split: if_splits)
  next
    case (Inr p)
    obtain retry v walk2 fail2 s2 where ar:
      "attemptRekeying False E c att i p walk1 fail s1 = ((retry, v), walk2, fail2, s2)"
      by (metis surj_pair)
    have "cw_spent walk1 \<le> walk_limit walk1" using i1(3) Inr by simp
    then have 2: "?P s2" "walk_limit walk2 = walk_limit walk" "retry \<Longrightarrow> in_time t0 walk2 s2"
      using rekeying_in_time[OF ar Cons.prems(2), of t0] i1(1,2) by simp_all
    show ?thesis
    proof (cases v)
      case (Inl e)
      show ?thesis
        using Cons.prems wp \<open>r = Inr p\<close> ar Inl 2(1) P[OF in_time_metrics(3)[OF 2(3)] 2(2)]
          Cons.IH[OF _ Cons.prems(2) in_time_metrics(2)[OF 2(3)]] 2(2)
        by (auto split: if_splits)
    next
      case (Inr x)
      then show ?thesis using Cons.prems wp \<open>r = Inr p\<close> ar 2(1) by simp
    qed
  qed
qed

lemma chain_in_time:
  assumes "walk_chain E c att n s = (res, s')" "attempts s = 0" "keeps_deadlines E"
  shows "\<forall>i p t. EAttempt i p t \<in> set (trace s') \<longrightarrow>
     t \<le> now E (world s) + (if cl_resolveBudgetTO c > 0 then cl_resolveBudgetTO c else resolveBudget)"
proof -
  have "EAttempt i p t \<notin> set (trace s)" for i p t
    using assms(2) by (auto simp: filter_empty_conv)
  then have "in_time (now E (world s)) \<lparr>cw_spent = 0, cw_budget = cl_resolveBudgetTO c\<rparr> s"
    by (simp add: in_time_def)
  then show ?thesis
    using candidates_in_time[OF assms(1)[unfolded walk_chain_def] assms(3)] by (auto simp: walk_limit_def)
qed

end

end
