(* ===== verification/Client_Sound.thy ===== *)
theory Client_Sound
  imports Client_Complete Client_Budget
begin

text \<open>
  What \<open>Complete\<close> promises: the response it returns was opened, and verified where verification is
  on, under the provider it was sealed and pinned to; and the walk's bounds.
\<close>

section \<open>Traces of one attempt\<close>

text \<open>What an attempt emits after its request: neither a request nor a delivery nor an attempt.\<close>

definition quiet :: "event list \<Rightarrow> bool" where
  "quiet tr \<longleftrightarrow> \<not> list_ex is_post tr \<and> \<not> list_ex is_delivery tr \<and> \<not> list_ex is_attempt tr"

lemma quiet_simps [simp]:
  "quiet []" "quiet (a @ b) \<longleftrightarrow> quiet a \<and> quiet b" "quiet (EMetric m # a) = quiet a"
  "quiet (EReply st # a) = quiet a" "quiet (EMeta mt # a) = quiet a"
  by (auto simp: quiet_def)

lemma trace_read_on [simp]: "trace (read_on E s) = trace s"
  by (simp add: read_on_def)

lemma doRequest_trace:
  assumes "doRequest E ctx p env s = (r, s')"
  shows "trace s' = trace s @ [EPost p (provider_request ctx p env)]
     @ (case r of Inl _ \<Rightarrow> [] | Inr resp \<Rightarrow> [EReply (hr_Status resp)])"
  using assms
  by (auto simp: doRequest_def Let_def dest!: trace_ask split: prod.splits sum.splits)

lemma doRequest_world:
  assumes "doRequest E ctx p env s = (Inr resp, s')"
  shows "transport E (provider_request ctx p env) (world s) = (Inr resp, world s')"
  using assms
  by (auto simp: doRequest_def Let_def dest!: trace_ask split: prod.splits sum.splits)

text \<open>Going on quietly.\<close>

definition quietly :: "'w state \<Rightarrow> 'w state \<Rightarrow> bool" where
  "quietly s s' \<longleftrightarrow> (\<exists>tr. trace s' = trace s @ tr \<and> quiet tr)"

lemma quietly_refl [simp]: "quietly s s"
  by (simp add: quietly_def)

lemma quietly_trans: "quietly s s' \<Longrightarrow> quietly s' s'' \<Longrightarrow> quietly s s''"
  by (auto simp: quietly_def)

lemma quietly_read_on [simp]: "quietly s (read_on E s') = quietly s s'" "quietly (read_on E s) s' = quietly s s'"
  by (simp_all add: quietly_def)

lemma quietly_recordMeta: "quietly s s' \<Longrightarrow> quietly s (recordMeta ctx p h s')"
  by (auto simp: recordMeta_def quietly_def)

lemma quietly_metric: "quietly s s' \<Longrightarrow> quietly s (report_metric c m s')"
  by (auto simp: report_metric_def quietly_def)

lemma quietly_verify: "verify_fetched E c p h chk s = (r, s') \<Longrightarrow> quietly s s'"
  by (auto simp: verify_fetched_def fetchSig_def Let_def trace_metric quietly_def dest!: trace_ask
      split: option.splits prod.splits sum.splits if_splits)

lemmas quietly_intros = quietly_recordMeta quietly_metric quietly_trans

lemma verify_fetched_ok:
  assumes "verify_fetched E c p h chk s = (None, s')"
  shows "\<exists>f sig w w'. fetcher E = Some f \<and> f p (header_get headerResKey h) w = (Inr sig, w')
     \<and> chk sig = Inr () \<and> trace s' = trace s"
  using assms
  by (auto simp: verify_fetched_def fetchSig_def Let_def dest!: trace_ask
      split: option.splits prod.splits sum.splits if_splits)

text \<open>An attempt sends one request; what follows is quiet.\<close>

lemma complete_reply_quiet:
  assumes "complete_reply E c ctx p sealed ephPriv s = (oc, r, s')"
    and d: "doRequest E ctx p sealed s = (v, s0)"
  shows "quietly s0 s'"
  using assms
  unfolding complete_reply_def verifyNonStream_def Let_def
  by (auto split: sum.splits option.splits prod.splits if_splits dest!: quietly_verify
      intro!: quietly_recordMeta quietly_metric)

lemma complete_reply_trace:
  assumes "complete_reply E c ctx p sealed ephPriv s = (oc, r, s')"
  shows "\<exists>tr. trace s' = trace s @ EPost p (provider_request ctx p sealed) # tr \<and> quiet tr"
proof -
  obtain v s0 where d: "doRequest E ctx p sealed s = (v, s0)" by (metis surj_pair)
  then show ?thesis
    using complete_reply_quiet[OF assms d] doRequest_trace[OF d]
    by (auto simp: quietly_def split: sum.splits)
qed

lemma isKeyMismatch_simps [simp]:
  "\<not> isKeyMismatch Panicked" "\<not> isKeyMismatch (Plain x)" "\<not> isKeyMismatch (stageErr st cz)"
  by (simp_all add: isKeyMismatch_def stageErr_def)

text \<open>One attempt of any kind: nothing, or one request and quiet.\<close>

definition one_post :: "'w state \<Rightarrow> 'w state \<Rightarrow> bool" where
  "one_post s s' \<longleftrightarrow> trace s' = trace s \<or> (\<exists>p hq tr. trace s' = trace s @ EPost p hq # tr \<and> quiet tr)"

lemma completeOnceE:
  assumes "completeOnce E c ctx req ephPub ephPriv p s = ((retry, res), s')"
  obtains (local) "trace s' = trace s" "\<not> retry" "\<exists>e. res = Inl e \<and> \<not> isKeyMismatch e"
    | (sent) rnd sealed s1 oc s2 where
      "client_seal (en_H E) (en_J E) c p req ephPriv ephPub rnd = Some (Inr sealed)" "trace s1 = trace s"
      "complete_reply E c ctx p sealed ephPriv s1 = (oc, (retry, res), s2)"
      "s' = report_metric c (UpstreamAttempt UpstreamBuffered oc) s2"
proof -
  obtain rnd s1 where a: "ask (random E) s = (rnd, s1)" by (metis surj_pair)
  have t: "trace s1 = trace s" using trace_ask[OF a] by simp
  show ?thesis
  proof (cases "client_seal (en_H E) (en_J E) c p req ephPriv ephPub rnd")
    case None
    then show ?thesis using assms a t by (intro local) (auto simp: completeOnce_def)
  next
    case (Some v)
    show ?thesis
    proof (cases v)
      case (Inl e)
      then show ?thesis using assms a t Some by (intro local) (auto simp: completeOnce_def)
    next
      case (Inr sealed)
      obtain oc r s2 where "complete_reply E c ctx p sealed ephPriv s1 = (oc, r, s2)" by (metis surj_pair)
      then show ?thesis using assms a t Some Inr by (intro sent[of rnd sealed s1 oc s2]) (auto simp: completeOnce_def)
    qed
  qed
qed

lemma completeOnce_one_post:
  "completeOnce E c ctx req ephPub ephPriv p s = ((retry, res), s') \<Longrightarrow> one_post s s'"
proof (erule completeOnceE)
  fix rnd sealed s1 oc s2
  assume "trace s1 = trace s" "complete_reply E c ctx p sealed ephPriv s1 = (oc, (retry, res), s2)"
    "s' = report_metric c (UpstreamAttempt UpstreamBuffered oc) s2"
  then show "one_post s s'"
    using complete_reply_trace[of E c ctx p sealed ephPriv s1 oc "(retry, res)" s2]
    by (auto simp: one_post_def trace_metric)
qed (simp add: one_post_def)

lemma one_post_appends: "one_post s s' \<Longrightarrow> \<exists>tr. trace s' = trace s @ tr \<and> \<not> list_ex is_attempt tr"
  by (auto simp: one_post_def quiet_def)

interpretation complete_walk: metered_walk E c "completeOnce E c ctx req ephPub ephPriv"
  for E :: "('pk, 'sk, 'ctx, 'w) env" and c ctx req ephPub ephPriv
proof
  fix p and s :: "'w state" and r s'
  assume "completeOnce E c ctx req ephPub ephPriv p s = (r, s')"
  then show "\<exists>tr. trace s' = trace s @ tr \<and> \<not> list_ex is_attempt tr"
    by (cases r) (auto intro: one_post_appends completeOnce_one_post)
qed

text \<open>Requests never outnumber attempts, for any attempt that sends at most one.\<close>

definition posts_le_attempts :: "event list \<Rightarrow> bool" where
  "posts_le_attempts tr \<longleftrightarrow> length (filter is_post tr) \<le> length (filter is_attempt tr)"

lemma quiet_filter: "quiet tr \<Longrightarrow> filter is_post tr = [] \<and> filter is_attempt tr = []"
  by (auto simp: quiet_def filter_empty_conv list_ex_iff)

lemma posts_le_attempts_att:
  "posts_le_attempts (trace s) \<Longrightarrow> one_post (emit (EAttempt i p t) s) s' \<Longrightarrow> posts_le_attempts (trace s')"
  by (auto simp: posts_le_attempts_def one_post_def dest!: quiet_filter)

interpretation complete_posts: walk_contract E c "completeOnce E c ctx req ephPub ephPriv"
    posts_le_attempts posts_le_attempts
  for E :: "('pk, 'sk, 'ctx, 'w) env" and c ctx req ephPub ephPriv
proof
  fix p i t and s :: "'w state" and r s'
  assume "posts_le_attempts (trace s)" "completeOnce E c ctx req ephPub ephPriv p (emit (EAttempt i p t) s) = (r, s')"
  then show "posts_le_attempts (trace s')"
    by (cases r) (auto intro: posts_le_attempts_att completeOnce_one_post)
next
  fix p i t and s :: "'w state" and retry e s'
  assume "posts_le_attempts (trace s)"
    "completeOnce E c ctx req ephPub ephPriv p (emit (EAttempt i p t) s) = ((retry, Inl e), s')"
  then show "posts_le_attempts (trace s')"
    by (auto intro: posts_le_attempts_att completeOnce_one_post)
qed (auto simp: posts_le_attempts_def)

section \<open>Complete\<close>

definition start :: "'w \<Rightarrow> 'w state" where
  "start w = \<lparr>world = w, trace = []\<rparr>"

lemma start_simps [simp]: "world (start w) = w" "trace (start w) = []"
  by (simp_all add: start_def)

lemma CompleteE:
  assumes "Complete E c ctx req s = (res, s')"
  obtains (unresolved) "trace s' = trace s" "\<exists>e. res = Inl e"
    | (walked) n w1 rnd w2 ephPriv ephPub where
      "resolve E ctx (cl_ep c) req (world s) = (Inr n, w1)" "random E w1 = (rnd, w2)"
      "walk_chain E c (completeOnce E c ctx req ephPub ephPriv) n (s\<lparr>world := w2\<rparr>) = (res, s')"
  using assms
  by (auto simp: Complete_def ask_def split: prod.splits sum.splits)

text \<open>What a successful attempt went through.\<close>

definition answered ::
    "('pk, 'sk, 'ctx, 'w) env \<Rightarrow> Client \<Rightarrow> Ctx \<Rightarrow> Provider \<Rightarrow> Request \<Rightarrow> bytes \<Rightarrow> Response \<Rightarrow> bool" where
  "answered E c ctx p sealed ephPriv out \<longleftrightarrow>
     (\<exists>w w' resp m. transport E (provider_request ctx p sealed) w = (Inr resp, w')
        \<and> hr_Status resp = 200 \<and> hr_End resp = None
        \<and> Option.bind (json_parse (hr_Body resp)) as_object = Some m
        \<and> openReply E c p ephPriv (nil_map m) = Inr out
        \<and> (verifyEnabled E \<longrightarrow> (\<exists>f sig v v'. fetcher E = Some f
              \<and> f p (header_get headerResKey (hr_Header resp)) v = (Inr sig, v')
              \<and> VerifyE2EE (en_J E) sig sealed (nil_map m) (pv_SignerAddr p) (recover E) = Inr ())))"

lemma complete_reply_Inr:
  assumes "complete_reply E c ctx p sealed ephPriv s = (oc, (retry, Inr out), s')"
  shows "answered E c ctx p sealed ephPriv out"
proof -
  obtain v s0 where d: "doRequest E ctx p sealed s = (v, s0)" by (metis surj_pair)
  obtain resp where v: "v = Inr resp" using assms d by (cases v) (auto simp: complete_reply_def)
  obtain m where m: "hr_Status resp = 200" "hr_End resp = None"
    "Option.bind (json_parse (hr_Body resp)) as_object = Some m" "openReply E c p ephPriv (nil_map m) = Inr out"
    and s2: "\<exists>s2. (if verifyEnabled E then verifyNonStream E c p (hr_Header resp) sealed (nil_map m) (read_on E s0)
        else (None, read_on E s0)) = (None, s2)"
    using assms d v
    by (auto simp: complete_reply_def Let_def split: if_splits option.splits sum.splits prod.splits)
  then show ?thesis
    using doRequest_world[OF d[unfolded v]] unfolding answered_def verifyNonStream_def
    by (intro exI[of _ "world s"] exI[of _ "world s0"] exI[of _ resp] exI[of _ m])
      (fastforce split: if_splits dest: verify_fetched_ok)
qed


text \<open>
  C13: A call to \<open>Complete\<close> sends at most two requests per candidate, one where keys cannot be re-read,
  and begins no attempt later than the walk's budget after the candidates were resolved, provided
  that preparing a candidate ends by the deadline it is given.
\<close>

theorem Complete_bounded:
  assumes "Complete E c ctx req (start w) = (res, s')"
    and "resolve E ctx (cl_ep c) req w = (Inr n, w1)" "random E w1 = (rnd, w2)"
    and "keeps_deadlines E"
  shows "length (filter is_post (trace s')) \<le> (if refresher E = None then 1 else 2) * n
     \<and> (\<forall>i p t. EAttempt i p t \<in> set (trace s') \<longrightarrow>
          t \<le> now E w2 + (if cl_resolveBudgetTO c > 0 then cl_resolveBudgetTO c else resolveBudget))"
  using assms(1)
proof (cases rule: CompleteE)
  case (walked n' w1' rnd' w2' ephPriv ephPub)
  have eq: "n' = n" "w2' = w2" using walked(1,2) assms(2,3) by simp_all
  let ?s = "start w\<lparr>world := w2\<rparr>"
  note run = walked(3)[unfolded eq]
  have "posts_le_attempts (trace s')"
    using complete_posts.chain_safe[OF run] by (simp add: posts_le_attempts_def)
  moreover have "length (filter is_attempt (trace s')) \<le> (if refresher E = None then 1 else 2) * n"
    using complete_walk.chain_attempts[OF run] by simp
  ultimately show ?thesis
    using complete_walk.chain_in_time[OF run _ assms(4)] by (simp add: posts_le_attempts_def)
qed simp

text \<open>
  When \<open>Complete\<close> fails after some provider was attempted, the error it returns is the one the last
  attempt produced, with that provider's status, headers and body: no budget cut and no candidate
  that could not be prepared displaces it.
\<close>

theorem Complete_reports_last_answer:
  assumes "Complete E c ctx req (start w) = (Inl e, s')"
    and "list_ex is_attempt (trace s')" "e \<noteq> Panicked"
  shows "\<exists>ephPub ephPriv i p t s0 retry s1 tr.
     completeOnce E c ctx req ephPub ephPriv p (emit (EAttempt i p t) s0) = ((retry, Inl e), s1)
     \<and> trace s' = trace s1 @ tr \<and> \<not> list_ex is_attempt tr"
  using assms(1)
proof (cases rule: CompleteE)
  case unresolved
  then show ?thesis using assms(2) by simp
next
  case (walked n w1 rnd w2 ephPriv ephPub)
  have "length (filter is_attempt (trace s')) \<noteq> 0"
    using assms(2) by (auto simp: filter_empty_conv list_ex_iff)
  then show ?thesis
    using complete_walk.chain_last_failure[OF walked(3), unfolded complete_walk.last_failure_def] assms(3)
    by simp blast
qed

end
