(* ===== verification/Client_StreamFacts.thy ===== *)
theory Client_StreamFacts
  imports Client_Stream Client_Sound
begin

text \<open>
  What \<open>CompleteStream\<close> promises: nothing is sent to another provider once a frame was delivered, and
  a stream that succeeds delivered exactly what the frames of one response body open to.
\<close>

section \<open>Traces of the frame loop\<close>

text \<open>Going on without a request or an attempt; frames may be delivered.\<close>

definition goes_on :: "'w state \<Rightarrow> 'w state \<Rightarrow> bool" where
  "goes_on s s' \<longleftrightarrow> (\<exists>tr. trace s' = trace s @ tr \<and> \<not> list_ex is_post tr \<and> \<not> list_ex is_attempt tr)"

lemma quietly_goes_on: "quietly s s' \<Longrightarrow> goes_on s s'"
  by (auto simp: quietly_def goes_on_def quiet_def)

lemma goes_on_trans: "goes_on s s' \<Longrightarrow> goes_on s' s'' \<Longrightarrow> goes_on s s''"
  by (auto simp: goes_on_def)

lemma goes_on_read_on [simp]: "goes_on (read_on E s) s' = goes_on s s'"
  by (simp add: goes_on_def)

text \<open>The frames delivered so far.\<close>

definition deliveries :: "event list \<Rightarrow> Response list" where
  "deliveries tr = concat (map (\<lambda>e. case e of EDeliver r \<Rightarrow> [r] | _ \<Rightarrow> []) tr)"

lemma deliveries_append [simp]: "deliveries (a @ b) = deliveries a @ deliveries b"
  by (simp add: deliveries_def)

lemma deliveries_event [simp]:
  "deliveries [] = []" "deliveries (EDeliver r # tr) = r # deliveries tr"
  "deliveries (EMetric m # tr) = deliveries tr" "deliveries (EMeta mt # tr) = deliveries tr"
  "deliveries (EPost p q # tr) = deliveries tr" "deliveries (EAttempt i p t # tr) = deliveries tr"
  "deliveries (EReply st # tr) = deliveries tr"
  by (simp_all add: deliveries_def)

lemma deliveries_none: "\<not> list_ex is_delivery tr \<Longrightarrow> deliveries tr = []"
  by (induction tr) (auto simp: deliveries_def is_delivery_def split: event.splits)

lemma deliveries_quietly: "quietly s s' \<Longrightarrow> deliveries (trace s') = deliveries (trace s)"
  by (auto simp: quietly_def quiet_def deliveries_none)

lemma commit_quietly: "quietly s (commit c ctx p h already s)"
  by (auto simp: commit_def intro!: quietly_recordMeta quietly_metric)

lemma deliver_facts:
  assumes "deliver E out s = (r, s')"
  shows "trace s' = trace s @ [EDeliver out]" "\<exists>w w'. onFrame E out w = (r, w')"
  using trace_ask[OF assms[unfolded deliver_def]] by (simp, metis)

lemma deliver_commit:
  assumes "deliver E out (commit c ctx p h already s) = (r, s')"
  shows "goes_on s s'" "deliveries (trace s') = deliveries (trace s) @ [out]"
  using deliver_facts(1)[OF assms] commit_quietly[of s c ctx p h already]
  by (auto simp: quietly_def goes_on_def quiet_def deliveries_none)

text \<open>An error the caller's handler gave back.\<close>

definition handler_error :: "('pk, 'sk, 'ctx, 'w) env \<Rightarrow> gerr \<Rightarrow> bool" where
  "handler_error E e \<longleftrightarrow> (\<exists>out w w'. onFrame E out w = (Some e, w'))"

lemma pump_frameE:
  assumes "pump_frame E c ctx p h k d pm s = (r, s')"
  obtains (refused) oc cz where "r = Inl (oc, \<not> pm_committed pm, Some (stageErr StageUpstream cz))" "quietly s s'"
    | (handler) oc e where "r = Inl (oc, False, Some e)" "handler_error E e" "goes_on s s'"
    | (opened) m fe out op b where "Option.bind (json_parse d) as_object = Some m"
        "decodeResponseE2EE (nil_map m) = Inr fe" "frame_open E c p k pm (nil_map m) = Inr (out, op)"
        "bind_frame E pm (nil_map m) = Inr b" "goes_on s s'"
        "deliveries (trace s') = deliveries (trace s) @ [out]"
        "r = Inr (pm\<lparr>pm_opener := Some op, pm_committed := True,
                   pm_sawFinal := pm_sawFinal pm \<or> re_Final fe, pm_binder := b,
                   pm_idx := Suc (pm_idx pm)\<rparr>)"
proof (cases "Option.bind (json_parse d) as_object")
  case None
  then show ?thesis using assms by (intro refused) (auto simp: pump_frame_def Let_def)
next
  case (Some m)
  note m = this
  show ?thesis
  proof (cases "decodeResponseE2EE (nil_map m)")
    case (Inl e)
    then show ?thesis using assms m by (intro refused) (auto simp: pump_frame_def Let_def)
  next
    case (Inr fe)
    note fe = this
    show ?thesis
    proof (cases "frame_open E c p k pm (nil_map m)")
      case (Inl e)
      then show ?thesis using assms m fe
        by (intro refused) (auto simp: pump_frame_def Let_def intro: quietly_metric)
    next
      case (Inr oo)
      obtain out op where oo: "oo = (out, op)" by (cases oo)
      show ?thesis
      proof (cases "bind_frame E pm (nil_map m)")
        case (Inl e)
        then show ?thesis using assms m fe Inr oo by (intro refused) (auto simp: pump_frame_def Let_def)
      next
        case b: (Inr b)
        obtain v s1 where d: "deliver E out (commit c ctx p h (pm_committed pm) s) = (v, s1)"
          by (metis surj_pair)
        show ?thesis
        proof (cases v)
          case None
          then show ?thesis using assms m fe Inr oo b d deliver_commit[OF d]
            by (intro opened[of m fe out op b]) (auto simp: pump_frame_def Let_def)
        next
          case (Some e)
          then have "handler_error E e" using deliver_facts(2)[OF d] by (auto simp: handler_error_def)
          then show ?thesis using Some assms m fe Inr oo b d deliver_commit(1)[OF d]
            by (intro handler) (auto simp: pump_frame_def Let_def)
        qed
      qed
    qed
  qed
qed

lemma streamEnd_quietly: "streamEnd E c p h tr pm s = (r, s') \<Longrightarrow> quietly s s'"
  by (auto simp: streamEnd_def verifyStream_def split: if_splits option.splits prod.splits dest: quietly_verify)

text \<open>
  An attempt asks for another provider only while nothing was delivered, and the only error of
  the loop that is not the client's own is the handler's.
\<close>

definition ends_well :: "('pk, 'sk, 'ctx, 'w) env \<Rightarrow> bool \<Rightarrow> ending \<Rightarrow> 'w state \<Rightarrow> 'w state \<Rightarrow> bool" where
  "ends_well E already r s s' \<longleftrightarrow> goes_on s s'
     \<and> (fst (snd r) \<longrightarrow> \<not> already \<and> quietly s s')
     \<and> (\<forall>e. snd (snd r) = Some e \<longrightarrow> handler_error E e \<or> (\<exists>cz. e = stageErr StageUpstream cz))"

lemma streamEnd_ends:
  "streamEnd E c p h tr pm s = (r, s') \<Longrightarrow> ends_well E (pm_committed pm) r s s'"
  using streamEnd_quietly[of E c p h tr pm s r s']
  by (auto simp: ends_well_def quietly_goes_on streamEnd_def split: if_splits option.splits prod.splits)

lemma streamReadError_ends: "ends_well E (pm_committed pm) (streamReadError E t pm s) s s"
  by (auto simp: ends_well_def streamReadError_def quietly_goes_on)

lemma ends_well_read_on [simp]: "ends_well E already r (read_on E s) s' = ends_well E already r s s'"
  by (simp add: ends_well_def)

lemma pump_frames_end:
  "pump_frames E c ctx p h k pm s = (r, s') \<Longrightarrow> ends_well E (pm_committed pm) r s s'"
proof (induction E c ctx p h k pm s rule: pump_frames.induct)
  case (1 E c ctx p h k pm s)
  obtain ev rd where n: "sse_next (pm_reader pm) = (ev, rd)" by (metis surj_pair)
  show ?case
  proof (cases ev)
    case SEnd
    then show ?thesis using 1(2) n streamEnd_ends by (fastforce simp: pump_frames.simps)
  next
    case (SError t)
    then show ?thesis
      using 1(2) n streamReadError_ends[of E pm t "read_on E s"]
      by (auto simp: pump_frames.simps[of E c ctx p h k pm s] ends_well_def goes_on_def)
  next
    case (SData d)
    show ?thesis
    proof (cases "trim_space d = ''[DONE]''")
      case True
      then show ?thesis using 1(2) n SData streamEnd_ends by (fastforce simp: pump_frames.simps)
    next
      case False
      obtain v s1 where pf: "pump_frame E c ctx p h k d (pm\<lparr>pm_reader := rd\<rparr>) (read_on E s) = (v, s1)"
        by (metis surj_pair)
      note run = 1(2)[unfolded pump_frames.simps[of E c ctx p h k pm s] n prod.case SData sse_event.case
          if_not_P[OF False] pf]
      from pf show ?thesis
      proof (cases rule: pump_frameE)
        case (refused oc cz)
        then show ?thesis using run by (auto simp: ends_well_def quietly_goes_on)
      next
        case (handler oc e)
        then show ?thesis using run by (auto simp: ends_well_def)
      next
        case (opened m fe out op b)
        have "ends_well E True r s1 s'"
          using 1(1)[OF n[symmetric] SData False] pf run opened(7) by simp
        then show ?thesis
          using opened(5) goes_on_trans by (auto simp: ends_well_def)
      qed
    qed
  qed
qed

section \<open>Traces of one attempt\<close>

lemma stream_replyE:
  assumes "stream_reply E c ctx p sealed k s = (r, s')"
  obtains (refused) tr where "snd (snd r) \<noteq> None"
      "trace s' = trace s @ EPost p (provider_request ctx p sealed) # tr" "quiet tr"
    | (pumped) resp s1 bnd where "transport E (provider_request ctx p sealed) (world s) = (Inr resp, world s1)"
      "trace s1 = trace s @ [EPost p (provider_request ctx p sealed), EReply (hr_Status resp)]"
      "hr_Status resp = 200" "is_event_stream (hr_Header resp)"
      "if verifyEnabled E then \<exists>b. NewStreamBinder (en_J E) sealed = Inr b \<and> bnd = Some b else bnd = None"
      "pump_frames E c ctx p (hr_Header resp) k
         \<lparr>pm_reader = newSSEReader resp, pm_opener = None, pm_committed = False,
          pm_sawFinal = False, pm_binder = bnd, pm_idx = 0\<rparr> s1 = (r, s')"
proof -
  obtain v s0 where d: "doRequest E ctx p sealed s = (v, s0)" by (metis surj_pair)
  show ?thesis
  proof (cases v)
    case (Inl t)
    then show ?thesis using assms d doRequest_trace[OF d]
      by (intro refused[of "[]"]) (auto simp: stream_reply_def)
  next
    case (Inr resp)
    note v = this
    have t0: "trace s0 = trace s @ [EPost p (provider_request ctx p sealed), EReply (hr_Status resp)]"
      using doRequest_trace[OF d] Inr by simp
    show ?thesis
    proof (cases "hr_Status resp = 200 \<and> is_event_stream (hr_Header resp)")
      case False
      then show ?thesis using assms d v t0
        by (intro refused[of "[EReply (hr_Status resp)]"]) (auto simp: stream_reply_def Let_def split: if_splits)
    next
      case True
      let ?b = "if verifyEnabled E
         then map_err (\<lambda>_. StartBinding) (bind_r (NewStreamBinder (en_J E) sealed) (\<lambda>b. Inr (Some b)))
         else Inr None"
      show ?thesis
      proof (cases ?b)
        case (Inl e)
        then show ?thesis using assms d v t0 True
          by (intro refused[of "[EReply (hr_Status resp)]"]) (auto simp: stream_reply_def Let_def)
      next
        case (Inr bnd)
        then show ?thesis using assms d v t0 True doRequest_world[OF d[unfolded v]]
          by (intro pumped[of resp s0 bnd])
            (auto simp: stream_reply_def Let_def map_err_eq_Inr bind_r_eq_Inr split: if_splits)
      qed
    qed
  qed
qed

lemma streamOnceE:
  assumes "stream_attempt E c ctx req ephPub ephPriv p s = ((retry, res), s')"
  obtains (local) "trace s' = trace s" "\<not> retry" "\<exists>e. res = Inl e \<and> \<not> isKeyMismatch e"
    | (sent) rnd sealed s1 oc err s2 where
      "client_seal (en_H E) (en_J E) c p req ephPriv ephPub rnd = Some (Inr sealed)" "trace s1 = trace s"
      "stream_reply E c ctx p sealed ephPriv s1 = ((oc, retry, err), s2)"
      "res = (case err of None \<Rightarrow> Inr () | Some e \<Rightarrow> Inl e)"
      "s' = report_metric c (UpstreamAttempt UpstreamStream oc) s2"
proof -
  obtain rnd s1 where a: "ask (random E) s = (rnd, s1)" by (metis surj_pair)
  have t: "trace s1 = trace s" using trace_ask[OF a] by simp
  show ?thesis
  proof (cases "client_seal (en_H E) (en_J E) c p req ephPriv ephPub rnd")
    case None
    then show ?thesis using assms a t by (intro local) (auto simp: stream_attempt_def)
  next
    case (Some v)
    show ?thesis
    proof (cases v)
      case (Inl e)
      then show ?thesis using assms a t Some by (intro local) (auto simp: stream_attempt_def)
    next
      case (Inr sealed)
      obtain oc rt err s2 where "stream_reply E c ctx p sealed ephPriv s1 = ((oc, rt, err), s2)"
        by (metis surj_pair)
      then show ?thesis using assms a t Some Inr
        by (intro sent[of rnd sealed s1 oc err s2]) (auto simp: stream_attempt_def streamOnce_def)
    qed
  qed
qed

text \<open>
  One streaming attempt: at most one request and then frames; none was delivered when it asks for
  another provider or was refused for a stale key.
\<close>

definition handler_plain :: "('pk, 'sk, 'ctx, 'w) env \<Rightarrow> bool" where
  "handler_plain E \<longleftrightarrow> (\<forall>e. handler_error E e \<longrightarrow> \<not> isKeyMismatch e)"

lemma stream_attempt_trace:
  assumes "stream_attempt E c ctx req ephPub ephPriv p s = ((retry, res), s')"
  shows "\<exists>tr. (trace s' = trace s @ tr \<or> (\<exists>q hq. trace s' = trace s @ EPost q hq # tr))
     \<and> \<not> list_ex is_post tr \<and> \<not> list_ex is_attempt tr
     \<and> (handler_plain E \<and> (retry \<or> (\<exists>e. res = Inl e \<and> isKeyMismatch e)) \<longrightarrow> \<not> list_ex is_delivery tr)"
  using assms
proof (cases rule: streamOnceE)
  case local
  then show ?thesis by (intro exI[of _ "[]"]) auto
next
  case (sent rnd sealed s1 oc err s2)
  from sent(3) show ?thesis
  proof (cases rule: stream_replyE)
    case (refused tr)
    then show ?thesis using sent(2,5)
      by (intro exI[of _ "tr @ (if cl_metrics c then [EMetric (UpstreamAttempt UpstreamStream oc)] else [])"])
        (auto simp: quiet_def trace_metric)
  next
    case (pumped resp s3 bnd)
    have w: "ends_well E False (oc, retry, err) s3 s2" using pump_frames_end[OF pumped(6)] by simp
    then obtain tr where tr: "trace s2 = trace s3 @ tr" "\<not> list_ex is_post tr" "\<not> list_ex is_attempt tr"
      by (auto simp: ends_well_def goes_on_def)
    have "\<not> list_ex is_delivery tr" if "handler_plain E" "retry \<or> (\<exists>e. res = Inl e \<and> isKeyMismatch e)"
    proof -
      have "\<not> (\<exists>e. res = Inl e \<and> isKeyMismatch e)"
        using w that(1) sent(4) by (auto simp: ends_well_def handler_plain_def split: option.splits)
      then have "quietly s3 s2" using w that(2) unfolding ends_well_def by auto
      then show ?thesis using tr by (auto simp: quietly_def quiet_def)
    qed
    then show ?thesis using tr pumped(2) sent(2,5)
      by (intro exI[of _ "EReply (hr_Status resp) # tr
            @ (if cl_metrics c then [EMetric (UpstreamAttempt UpstreamStream oc)] else [])"])
        (auto simp: trace_metric)
  qed
qed

interpretation stream_walk: metered_walk E c "stream_attempt E c ctx req ephPub ephPriv"
  for E :: "('pk, 'sk, 'ctx, 'w) env" and c ctx req ephPub ephPriv
proof
  fix p and s :: "'w state" and r s'
  assume "stream_attempt E c ctx req ephPub ephPriv p s = (r, s')"
  then show "\<exists>tr. trace s' = trace s @ tr \<and> \<not> list_ex is_attempt tr"
    by (cases r) (fastforce dest: stream_attempt_trace)
qed

text \<open>Nothing delivered yet, and nothing sent after a delivery.\<close>

definition undelivered :: "event list \<Rightarrow> bool" where
  "undelivered tr \<longleftrightarrow> \<not> list_ex is_delivery tr"

definition committed_once :: "event list \<Rightarrow> bool" where
  "committed_once tr \<longleftrightarrow> never_after (\<lambda>e. is_post e \<or> is_attempt e) is_delivery tr"

lemma list_ex_disj: "list_ex (\<lambda>e. P e \<or> Q e) xs \<longleftrightarrow> list_ex P xs \<or> list_ex Q xs"
  by (induction xs) auto

interpretation stream_commits: walk_contract E c "stream_attempt E c ctx req ephPub ephPriv"
    "\<lambda>tr. handler_plain E \<longrightarrow> undelivered tr" "\<lambda>tr. handler_plain E \<longrightarrow> committed_once tr"
  for E :: "('pk, 'sk, 'ctx, 'w) env" and c ctx req ephPub ephPriv
proof
  fix p i t and s :: "'w state" and r s'
  assume "handler_plain E \<longrightarrow> undelivered (trace s)"
    "stream_attempt E c ctx req ephPub ephPriv p (emit (EAttempt i p t) s) = (r, s')"
  then show "handler_plain E \<longrightarrow> committed_once (trace s')"
    by (cases r) (auto simp: undelivered_def committed_once_def never_after_append never_after_none list_ex_disj
        dest!: stream_attempt_trace)
next
  fix p i t and s :: "'w state" and retry e s'
  assume "handler_plain E \<longrightarrow> undelivered (trace s)"
    "stream_attempt E c ctx req ephPub ephPriv p (emit (EAttempt i p t) s) = ((retry, Inl e), s')"
    "retry \<or> isKeyMismatch e"
  then show "handler_plain E \<longrightarrow> undelivered (trace s')"
    by (auto simp: undelivered_def dest!: stream_attempt_trace)
qed (auto simp: undelivered_def committed_once_def never_after_none)

section \<open>What a whole body delivers\<close>

text \<open>
  The reference: the payloads of a body up to \<open>[DONE]\<close> or its end, each read as a frame.
\<close>

function sse_data :: "sseReader \<Rightarrow> bytes list" where
  "sse_data r =
     (case sse_next r of
        (SData d, r') \<Rightarrow> if trim_space d = ''[DONE]'' then [] else d # sse_data r'
      | _ \<Rightarrow> [])"
  by pat_completeness auto
termination
  by (relation "measure (\<lambda>r. length (sse_lines r))") (auto dest!: sse_next_shorter[OF sym])

declare sse_data.simps [simp del]

definition frame_of :: "bytes \<Rightarrow> Response option" where
  "frame_of d = map_option nil_map (Option.bind (json_parse d) as_object)"

definition is_final :: "Response \<Rightarrow> bool" where
  "is_final f = (case decodeResponseE2EE f of Inl _ \<Rightarrow> False | Inr e \<Rightarrow> re_Final e)"

definition opener_for ::
    "('pk, 'sk, 'ctx, 'w) env \<Rightarrow> Client \<Rightarrow> Provider \<Rightarrow> bytes \<Rightarrow> 'ctx ResponseOpener option \<Rightarrow>
     Response list \<Rightarrow> 'ctx ResponseOpener \<Rightarrow> bool" where
  "opener_for E c p k op0 frames op =
     (case op0 of Some op' \<Rightarrow> op = op' | None \<Rightarrow> frames \<noteq> [] \<and> newOpener E c p k (hd frames) = Inr op)"

text \<open>A fetched signature over the frames a binder has seen and the ones to come.\<close>

definition stream_signed ::
    "('pk, 'sk, 'ctx, 'w) env \<Rightarrow> Provider \<Rightarrow> header \<Rightarrow> StreamBinder \<Rightarrow> Response list \<Rightarrow> bool" where
  "stream_signed E p h b frames \<longleftrightarrow>
     (\<exists>hs f sig v v'. map (FrameBindingHash (en_J E)) frames = map Inr hs \<and> fetcher E = Some f
        \<and> f p (header_get headerResKey h) v = (Inr sig, v')
        \<and> VerifyBoundText sig (StreamText (b\<lparr>sb_agg := sb_agg b @ concat hs\<rparr>))
            SchemeE2EECiphertextStream (pv_SignerAddr p) (recover E) = Inr ())"

lemma streamEnd_ok:
  assumes "streamEnd E c p h tr pm s = ((oc, retry, None), s')"
  shows "pm_sawFinal pm" "case pm_binder pm of None \<Rightarrow> True | Some b \<Rightarrow> stream_signed E p h b []"
  using assms
  by (auto simp: streamEnd_def verifyStream_def stream_signed_def dest!: verify_fetched_ok
      split: if_splits option.splits prod.splits)

lemma frame_open_ok:
  assumes "frame_open E c p k pm f = Inr (out, op')"
  obtains op where "opener_for E c p k (pm_opener pm) (f # fs) op" "OpenFrame (en_H E) (en_J E) op f = Inr (out, op')"
  using assms
  by (auto simp: frame_open_def opener_for_def bind_r_eq_Inr map_err_eq_Inr split: option.splits)

lemma bind_frame_signed:
  assumes "bind_frame E pm f = Inr b'" "case b' of None \<Rightarrow> True | Some b \<Rightarrow> stream_signed E p h b fs"
  shows "case pm_binder pm of None \<Rightarrow> True | Some b \<Rightarrow> stream_signed E p h b (f # fs)"
proof (cases "pm_binder pm")
  case (Some b)
  obtain hf where hf: "FrameBindingHash (en_J E) f = Inr hf" "b' = Some (b\<lparr>sb_agg := sb_agg b @ hf\<rparr>)"
    using assms(1) Some by (auto simp: bind_frame_def AddFrame_def bind_r_eq_Inr map_err_eq_Inr)
  then obtain hs fe sg v v' where "map (FrameBindingHash (en_J E)) fs = map Inr hs" "fetcher E = Some fe"
    "fe p (header_get headerResKey h) v = (Inr sg, v')"
    "VerifyBoundText sg (StreamText (b\<lparr>sb_agg := sb_agg b @ concat (hf # hs)\<rparr>))
       SchemeE2EECiphertextStream (pv_SignerAddr p) (recover E) = Inr ()"
    using assms(2) by (auto simp: stream_signed_def)
  then show ?thesis using Some hf(1) unfolding stream_signed_def
    by (simp only: option.case) (intro exI[of _ "hf # hs"] exI[of _ fe] exI[of _ sg] exI[of _ v] exI[of _ v'], simp)
qed simp

lemma pump_frames_ok:
  assumes "pump_frames E c ctx p h k pm s = ((oc, retry, None), s')"
  shows "\<exists>frames outs. map frame_of (sse_data (pm_reader pm)) = map Some frames
     \<and> deliveries (trace s') = deliveries (trace s) @ outs
     \<and> (frames = [] \<and> outs = [] \<or> (\<exists>op op'. opener_for E c p k (pm_opener pm) frames op
           \<and> open_stream (en_H E) (en_J E) op frames = Inr (outs, op')))
     \<and> (pm_sawFinal pm \<or> (\<exists>f\<in>set frames. is_final f))
     \<and> (case pm_binder pm of None \<Rightarrow> True | Some b \<Rightarrow> stream_signed E p h b frames)"
  using assms
proof (induction E c ctx p h k pm s rule: pump_frames.induct)
  case (1 E c ctx p h k pm s)
  obtain ev rd where n: "sse_next (pm_reader pm) = (ev, rd)" by (metis surj_pair)
  note sd = sse_data.simps[of "pm_reader pm", unfolded n prod.case]
  have end_case: ?case if "sse_data (pm_reader pm) = []"
    "streamEnd E c p h tr pm (read_on E s) = ((oc, retry, None), s')" for tr
    using that streamEnd_ok[OF that(2)] deliveries_quietly[OF streamEnd_quietly[OF that(2)]]
    by (intro exI[of _ "[]"]) simp
  show ?case
  proof (cases ev)
    case SEnd
    then show ?thesis using 1(2) n sd end_case[of Truncated] by (simp add: pump_frames.simps[of E c ctx p h k pm s])
  next
    case (SError t)
    then show ?thesis using 1(2) n
      by (simp add: pump_frames.simps[of E c ctx p h k pm s] streamReadError_def split: if_splits)
  next
    case (SData d)
    show ?thesis
    proof (cases "trim_space d = ''[DONE]''")
      case True
      then show ?thesis using 1(2) n SData sd end_case[of DoneBeforeFinal]
        by (simp add: pump_frames.simps[of E c ctx p h k pm s])
    next
      case False
      obtain v s1 where pf: "pump_frame E c ctx p h k d (pm\<lparr>pm_reader := rd\<rparr>) (read_on E s) = (v, s1)"
        by (metis surj_pair)
      note run = 1(2)[unfolded pump_frames.simps[of E c ctx p h k pm s] n prod.case SData sse_event.case
          if_not_P[OF False] pf]
      from pf show ?thesis
      proof (cases rule: pump_frameE)
        case (refused oc' cz)
        then show ?thesis using run by simp
      next
        case (handler oc' e)
        then show ?thesis using run by simp
      next
        case (opened m fe out op b)
        let ?f = "nil_map m"
        obtain frames outs where IH: "map frame_of (sse_data rd) = map Some frames"
          "deliveries (trace s') = deliveries (trace s1) @ outs"
          "frames = [] \<and> outs = [] \<or> (\<exists>op''. open_stream (en_H E) (en_J E) op frames = Inr (outs, op''))"
          "pm_sawFinal pm \<or> re_Final fe \<or> (\<exists>f\<in>set frames. is_final f)"
          "case b of None \<Rightarrow> True | Some b \<Rightarrow> stream_signed E p h b frames"
          using 1(1)[OF n[symmetric] SData False, of v s1] pf run opened(7)
          by (auto simp: opener_for_def)
        obtain op0 where op0: "opener_for E c p k (pm_opener pm) (?f # frames) op0"
          "OpenFrame (en_H E) (en_J E) op0 ?f = Inr (out, op)"
          using frame_open_ok[OF opened(3), of frames] by auto
        obtain op'' where os: "open_stream (en_H E) (en_J E) op0 (?f # frames) = Inr (out # outs, op'')"
          using IH(3) op0(2) by auto
        have 1: "map frame_of (sse_data (pm_reader pm)) = map Some (?f # frames)"
          using sd IH(1) opened(1) False SData by (simp add: frame_of_def)
        have 2: "deliveries (trace s') = deliveries (trace s) @ (out # outs)"
          using IH(2) opened(6) by simp
        have 3: "pm_sawFinal pm \<or> (\<exists>f\<in>set (?f # frames). is_final f)"
          using IH(4) opened(2) by (auto simp: is_final_def)
        have 4: "case pm_binder pm of None \<Rightarrow> True | Some b \<Rightarrow> stream_signed E p h b (?f # frames)"
          using bind_frame_signed[OF opened(4) IH(5)] by simp
        show ?thesis using 1 2 3 4 op0(1) os
          by - (rule exI[of _ "?f # frames"], rule exI[of _ "out # outs"], blast)
      qed
    qed
  qed
qed

section \<open>CompleteStream\<close>

lemma CompleteStreamE:
  assumes "CompleteStream E c ctx req s = (res, s')"
  obtains (unresolved) "trace s' = trace s" "\<exists>e. res = Inl e"
    | (walked) n w1 rnd w2 ephPriv ephPub where
      "resolve E ctx (cl_ep c) req (world s) = (Inr n, w1)" "random E w1 = (rnd, w2)"
      "walk_chain E c (stream_attempt E c ctx req ephPub ephPriv) n (s\<lparr>world := w2\<rparr>) = (res, s')"
  using assms
  by (auto simp: CompleteStream_def ask_def split: prod.splits sum.splits)

text \<open>
  C6: Once a frame of a stream was delivered to the caller, the client sends no further request and
  begins no attempt on any provider, however the stream ends, provided that the caller's handler does
  not return an error that reads as a provider's refusal of a stale key.
\<close>

theorem CompleteStream_commits:
  assumes "CompleteStream E c ctx req (start w) = (res, s')" "handler_plain E"
  shows "never_after (\<lambda>e. is_post e \<or> is_attempt e) is_delivery (trace s')"
  using assms(1)
proof (cases rule: CompleteStreamE)
  case (walked n w1 rnd w2 ephPriv ephPub)
  show ?thesis
    using stream_commits.chain_safe[OF walked(3)] assms(2) by (simp add: undelivered_def committed_once_def)
qed simp

text \<open>What a stream that ended well went through.\<close>

definition streamed ::
    "('pk, 'sk, 'ctx, 'w) env \<Rightarrow> Client \<Rightarrow> Ctx \<Rightarrow> Provider \<Rightarrow> Request \<Rightarrow> bytes \<Rightarrow> Response list \<Rightarrow> bool" where
  "streamed E c ctx p sealed ephPriv outs \<longleftrightarrow>
     (\<exists>w w' resp frames op op'. transport E (provider_request ctx p sealed) w = (Inr resp, w')
        \<and> hr_Status resp = 200 \<and> is_event_stream (hr_Header resp)
        \<and> map frame_of (sse_data (newSSEReader resp)) = map Some frames
        \<and> frames \<noteq> [] \<and> newOpener E c p ephPriv (hd frames) = Inr op
        \<and> open_stream (en_H E) (en_J E) op frames = Inr (outs, op')
        \<and> (\<exists>f\<in>set frames. is_final f)
        \<and> (verifyEnabled E \<longrightarrow> (\<exists>f sig v v'. fetcher E = Some f
              \<and> f p (header_get headerResKey (hr_Header resp)) v = (Inr sig, v')
              \<and> VerifyE2EEStream (en_J E) sig sealed frames (pv_SignerAddr p) (recover E) = Inr ())))"

lemma stream_signed_whole:
  assumes "stream_signed E p h b frames" "NewStreamBinder (en_J E) sealed = Inr b"
  shows "\<exists>f sig v v'. fetcher E = Some f \<and> f p (header_get headerResKey h) v = (Inr sig, v')
     \<and> VerifyE2EEStream (en_J E) sig sealed frames (pv_SignerAddr p) (recover E) = Inr ()"
proof -
  obtain reqH where b: "FrameBindingHash (en_J E) sealed = Inr reqH" "b = \<lparr>sb_reqH = reqH, sb_agg = []\<rparr>"
    using assms(2) by (auto simp: NewStreamBinder_def NewStreamBinderFromReqHash_def bind_r_eq_Inr map_err_eq_Inr)
  obtain hs f sg v v' where s: "map (FrameBindingHash (en_J E)) frames = map Inr hs" "fetcher E = Some f"
    "f p (header_get headerResKey h) v = (Inr sg, v')"
    "VerifyBoundText sg (formatText SchemeE2EECiphertextStream reqH (sha256 (concat hs)))
       SchemeE2EECiphertextStream (pv_SignerAddr p) (recover E) = Inr ()"
    using assms(1) by (auto simp: stream_signed_def b(2) StreamText_def)
  have "SignedTextE2EEStream (en_J E) sealed frames
      = Inr (formatText SchemeE2EECiphertextStream reqH (sha256 (concat hs)))"
    using s(1) b(1) by (auto simp: stream_text)
  then show ?thesis using s by (auto simp: VerifyE2EEStream_def VerifyBoundText_def)
qed

lemma stream_reply_ok:
  assumes "stream_reply E c ctx p sealed k s = ((oc, retry, None), s')" "undelivered (trace s)"
  shows "streamed E c ctx p sealed k (deliveries (trace s'))
     \<and> EPost p (provider_request ctx p sealed) \<in> set (trace s')"
  using assms(1)
proof (cases rule: stream_replyE)
  case (pumped resp s1 bnd)
  obtain frames outs where o: "map frame_of (sse_data (newSSEReader resp)) = map Some frames"
    "deliveries (trace s') = deliveries (trace s1) @ outs"
    "frames = [] \<and> outs = [] \<or> (\<exists>op op'. opener_for E c p k None frames op
           \<and> open_stream (en_H E) (en_J E) op frames = Inr (outs, op'))"
    "\<exists>f\<in>set frames. is_final f"
    "case bnd of None \<Rightarrow> True | Some b \<Rightarrow> stream_signed E p (hr_Header resp) b frames"
    using pump_frames_ok[OF pumped(6)] by auto
  have "deliveries (trace s1) = []"
    using assms(2) by (simp add: pumped(2) undelivered_def deliveries_none)
  moreover obtain op op' where "frames \<noteq> []" "newOpener E c p k (hd frames) = Inr op"
    "open_stream (en_H E) (en_J E) op frames = Inr (outs, op')"
    using o(3,4) by (auto simp: opener_for_def)
  moreover have "verifyEnabled E \<longrightarrow> (\<exists>f sig v v'. fetcher E = Some f
      \<and> f p (header_get headerResKey (hr_Header resp)) v = (Inr sig, v')
      \<and> VerifyE2EEStream (en_J E) sig sealed frames (pv_SignerAddr p) (recover E) = Inr ())"
    using pumped(5) o(5) stream_signed_whole by (auto split: if_splits)
  moreover have "EPost p (provider_request ctx p sealed) \<in> set (trace s')"
    using pump_frames_end[OF pumped(6)] pumped(2) by (auto simp: ends_well_def goes_on_def)
  ultimately show ?thesis
    using o(1,2,4) pumped(1,3,4) unfolding streamed_def
    by (intro conjI exI[of _ "world s"] exI[of _ "world s1"] exI[of _ resp] exI[of _ frames] exI[of _ op] exI[of _ op'])
      simp_all
qed simp


end
