(* ===== verification/Client_Async.thy ===== *)
theory Client_Async
  imports Client_Complete
begin

text \<open>
  client/core/async.go: submitting an asynchronous job, and the rewriting of the router's answer into
  the job id the user keeps.
\<close>

definition maxSubmitResponseBytes :: nat where "maxSubmitResponseBytes = 64 * 2 ^ 10"

definition userJobResponse :: "bytes \<Rightarrow> Provider \<Rightarrow> bytes \<Rightarrow> cause + Response" where
  "userJobResponse body p ephPriv =
     bind_r (fail_if (length body > maxSubmitResponseBytes) SubmitTooLarge) (\<lambda>_.
     bind_r (opt_r (Option.bind (Option.bind (json_parse body) as_object) (\<lambda>m. m)) SubmitNotObject) (\<lambda>out.
     bind_r (fail_if (mhas out e2eeKey) SubmitSealed) (\<lambda>_.
     bind_r (opt_r (Option.bind (mget out ''jobId'') as_string) SubmitNoJobID) (\<lambda>jobID.
     bind_r (fail_if (jobID = []) SubmitNoJobID) (\<lambda>_.
     let got = or_else [] (Option.bind (mget out ''provider_address'') as_string) in
     bind_r (fail_if (pv_Address p \<noteq> [] \<and> \<not> equal_fold got (pv_Address p)) (SubmitElsewhere got)) (\<lambda>_.
     bind_r (map_err SubmitJobID (UserJobID jobID ephPriv)) (\<lambda>userJobID.
     Inr (mput ''jobId'' (JStr userJobID) out))))))))"

text \<open>
  \<open>io.LimitReader\<close> one byte past the bound: a read error past that point is not seen.
\<close>

definition submit_reply ::
    "('pk, 'sk, 'ctx, 'w) env \<Rightarrow> Client \<Rightarrow> Ctx \<Rightarrow> Provider \<Rightarrow> Request \<Rightarrow> bytes \<Rightarrow> 'w state \<Rightarrow>
     outcome \<times> (bool \<times> (gerr + Response \<times> int)) \<times> 'w state" where
  "submit_reply E c ctx p sealed ephPriv s =
     (case doRequest E ctx p sealed s of
        (Inl timeout, s1) \<Rightarrow>
          (upstreamFailureOutcome E (world s1) timeout UpstreamTransport,
           (False, Inl (stageErr StageUpstream PostFailed)), s1)
      | (Inr resp, s0) \<Rightarrow>
          let s1 = read_on E s0; body = take (maxSubmitResponseBytes + 1) (hr_Body resp) in
          if hr_Status resp < 200 \<or> hr_Status resp > 299
          then (upstreamStatusOutcome (hr_Status resp),
                (retryableStatus (hr_Status resp), Inl (status_error maxUpstreamErrorBytes resp)), s1)
          else
          (case (if length body \<le> maxSubmitResponseBytes then hr_End resp else None) of
             Some timeout \<Rightarrow>
               (upstreamFailureOutcome E (world s1) timeout UpstreamBody,
                (False, Inl (stageErr StageUpstream ReadFailed)), s1)
           | None \<Rightarrow>
          (case userJobResponse body p ephPriv of
             Inl e \<Rightarrow>
               (UpstreamUndecodable,
                (False, Inl (Staged StageUpstream 0 [] (Some (hr_Header resp)) e)), s1)
           | Inr out \<Rightarrow>
               (UpstreamOK, (False, Inr (out, hr_Status resp)), recordMeta ctx p (hr_Header resp) s1))))"

definition submitOnce ::
    "('pk, 'sk, 'ctx, 'w) env \<Rightarrow> Client \<Rightarrow> Ctx \<Rightarrow> Request \<Rightarrow> ('w, Response \<times> int) attempt" where
  "submitOnce E c ctx req p s =
     (case ask (random E) s of
        (rnd, s1) \<Rightarrow>
     (case GenerateRecipientKey (en_H E) rnd of
        Inl _ \<Rightarrow> ((False, Inl (stageErr StageInternal GenerateKey)), s1)
      | Inr (ephPriv, ephPub) \<Rightarrow>
     (case AttachAsyncBind req ephPriv of
        Inl e \<Rightarrow> ((False, Inl (stageErr StageRequest (BindFailedAs e))), s1)
      | Inr bound \<Rightarrow>
     (case ask (random E) s1 of
        (rnd2, s2) \<Rightarrow>
     (case client_seal (en_H E) (en_J E) c p bound ephPriv ephPub rnd2 of
        None \<Rightarrow> ((False, Inl Panicked), s2)
      | Some (Inl e) \<Rightarrow> ((False, Inl (stageErr StageRequest (SealFailedAs e))), s2)
      | Some (Inr sealed) \<Rightarrow>
          (case submit_reply E c ctx p sealed ephPriv s2 of
             (outcome, r, s3) \<Rightarrow> (r, report_metric c (UpstreamAttempt UpstreamBuffered outcome) s3)))))))"

definition SubmitAsync ::
    "('pk, 'sk, 'ctx, 'w) env \<Rightarrow> Client \<Rightarrow> Ctx \<Rightarrow> Request \<Rightarrow> 'w state \<Rightarrow>
     (gerr + Response \<times> int) \<times> 'w state" where
  "SubmitAsync E c ctx req s =
     (if \<not> ep_Async (cl_ep c)
      then (Inl (stageErr StageInternal (NotAsync (ep_Path (cl_ep c)))), s)
      else case ask (resolve E ctx (cl_ep c) req) s of
             (Inl e, s1) \<Rightarrow> (Inl (resolveErr e), s1)
           | (Inr n, s1) \<Rightarrow> walk_chain E c (submitOnce E c ctx req) n s1)"

end
