(* ===== verification/Client_AsyncFacts.thy ===== *)
theory Client_AsyncFacts
  imports Client_Async Client_StreamFacts
begin

text \<open>
  What \<open>SubmitAsync\<close> promises: a job that a router accepted is never submitted again, and the job id
  the user gets back leads to the job that was accepted.
\<close>

section \<open>No second job\<close>

lemma no_status_no_mismatch [simp]: "\<not> isKeyMismatch (Staged st 0 body h cz)"
  by (simp add: isKeyMismatch_def)

text \<open>
  One submission: a reply of success is the last event that could be followed by another request, and
  an attempt that asks for another one saw no success.
\<close>

lemma submit_reply_trace:
  assumes "submit_reply E c ctx p sealed k s = (oc, (retry, res), s')"
  shows "\<exists>tr. trace s' = trace s @ EPost p (provider_request ctx p sealed) # tr \<and> quiet tr
     \<and> (retry \<or> (\<exists>e. res = Inl e \<and> isKeyMismatch e) \<longrightarrow> \<not> list_ex is_accepted tr)"
proof -
  obtain v s0 where d: "doRequest E ctx p sealed s = (v, s0)" by (metis surj_pair)
  show ?thesis
  proof (cases v)
    case (Inl t)
    then show ?thesis using assms d doRequest_trace[OF d] by (auto simp: submit_reply_def)
  next
    case (Inr resp)
    have t0: "trace s0 = trace s @ [EPost p (provider_request ctx p sealed), EReply (hr_Status resp)]"
      using doRequest_trace[OF d] Inr by simp
    show ?thesis
    proof (cases "hr_Status resp < 200 \<or> hr_Status resp > 299")
      case True
      then have "trace s' = trace s0" using assms d Inr by (auto simp: submit_reply_def Let_def)
      then show ?thesis using t0 True by auto
    next
      case False
      then have "\<not> retry \<and> (\<forall>e. res = Inl e \<longrightarrow> \<not> isKeyMismatch e) \<and> quietly s0 s'"
        using assms d Inr
        by (auto simp: submit_reply_def Let_def
            intro!: quietly_recordMeta split: option.splits sum.splits if_splits)
      then show ?thesis using t0 by (auto simp: quietly_def)
    qed
  qed
qed

lemma submitOnceE:
  assumes "submitOnce E c ctx req p s = ((retry, res), s')"
  obtains (local) "trace s' = trace s" "\<not> retry" "\<exists>e. res = Inl e \<and> \<not> isKeyMismatch e"
    | (sent) w rnd w' ephPriv ephPub bound rnd2 sealed s1 oc s2 where
      "random E w = (rnd, w')" "GenerateRecipientKey (en_H E) rnd = Inr (ephPriv, ephPub)"
      "AttachAsyncBind req ephPriv = Inr bound"
      "client_seal (en_H E) (en_J E) c p bound ephPriv ephPub rnd2 = Some (Inr sealed)"
      "trace s1 = trace s" "submit_reply E c ctx p sealed ephPriv s1 = (oc, (retry, res), s2)"
      "s' = report_metric c (UpstreamAttempt UpstreamBuffered oc) s2"
proof -
  obtain rnd s1 where a: "ask (random E) s = (rnd, s1)" by (metis surj_pair)
  obtain rnd2 s2 where b: "ask (random E) s1 = (rnd2, s2)" by (metis surj_pair)
  have t: "trace s1 = trace s" "trace s2 = trace s" "random E (world s) = (rnd, world s1)"
    using trace_ask[OF a] trace_ask[OF b] by simp_all
  show ?thesis
  proof (cases "GenerateRecipientKey (en_H E) rnd")
    case (Inl e)
    then show ?thesis using assms a t by (intro local) (auto simp: submitOnce_def)
  next
    case (Inr ks)
    obtain ephPriv ephPub where ks: "ks = (ephPriv, ephPub)" by (cases ks)
    note gen = Inr[unfolded ks]
    show ?thesis
    proof (cases "AttachAsyncBind req ephPriv")
      case (Inl e)
      then show ?thesis using assms a t gen by (intro local) (auto simp: submitOnce_def)
    next
      case (Inr bound)
      note bd = Inr
      show ?thesis
      proof (cases "client_seal (en_H E) (en_J E) c p bound ephPriv ephPub rnd2")
        case None
        then show ?thesis using assms a b t gen bd by (intro local) (auto simp: submitOnce_def)
      next
        case (Some v)
        show ?thesis
        proof (cases v)
          case (Inl e)
          then show ?thesis using assms a b t gen bd Some by (intro local) (auto simp: submitOnce_def)
        next
          case (Inr sealed)
          obtain oc r s3 where sr: "submit_reply E c ctx p sealed ephPriv s2 = (oc, r, s3)"
            by (metis surj_pair)
          have eq: "r = (retry, res)" "s' = report_metric c (UpstreamAttempt UpstreamBuffered oc) s3"
            using assms a b gen bd Some Inr sr by (auto simp: submitOnce_def)
          show ?thesis
            by (rule sent[OF t(3) gen bd Some[unfolded Inr] t(2) sr[unfolded eq(1)] eq(2)])
        qed
      qed
    qed
  qed
qed

lemma submitOnce_trace:
  assumes "submitOnce E c ctx req p s = ((retry, res), s')"
  shows "\<exists>tr. (trace s' = trace s @ tr \<or> (\<exists>q hq. trace s' = trace s @ EPost q hq # tr)) \<and> quiet tr
     \<and> (retry \<or> (\<exists>e. res = Inl e \<and> isKeyMismatch e) \<longrightarrow> \<not> list_ex is_accepted tr)"
  using assms
proof (cases rule: submitOnceE)
  case local
  then show ?thesis by (intro exI[of _ "[]"]) auto
next
  case (sent w rnd w' ephPriv ephPub bound rnd2 sealed s1 oc s2)
  obtain tr where "trace s2 = trace s1 @ EPost p (provider_request ctx p sealed) # tr" "quiet tr"
    "retry \<or> (\<exists>e. res = Inl e \<and> isKeyMismatch e) \<longrightarrow> \<not> list_ex is_accepted tr"
    using submit_reply_trace[OF sent(6)] by blast
  then show ?thesis
    by (intro exI[of _ "tr @ (if cl_metrics c then [EMetric (UpstreamAttempt UpstreamBuffered oc)] else [])"])
      (auto simp: sent(5,7) trace_metric)
qed

definition submitted_once :: "event list \<Rightarrow> bool" where
  "submitted_once tr \<longleftrightarrow> never_after is_post is_accepted tr"

definition unaccepted :: "event list \<Rightarrow> bool" where
  "unaccepted tr \<longleftrightarrow> \<not> list_ex is_accepted tr"

interpretation submit_posts: walk_contract E c "submitOnce E c ctx req" unaccepted submitted_once
  for E :: "('pk, 'sk, 'ctx, 'w) env" and c ctx req
proof
  fix p i t and s :: "'w state" and r s'
  assume "unaccepted (trace s)" "submitOnce E c ctx req p (emit (EAttempt i p t) s) = (r, s')"
  then show "submitted_once (trace s')"
    by (cases r) (auto simp: unaccepted_def submitted_once_def never_after_append never_after_none
        quiet_def dest!: submitOnce_trace)
next
  fix p i t and s :: "'w state" and retry e s'
  assume "unaccepted (trace s)" "retry \<or> isKeyMismatch e"
    "submitOnce E c ctx req p (emit (EAttempt i p t) s) = ((retry, Inl e), s')"
  then show "unaccepted (trace s')"
    by (auto simp: unaccepted_def dest!: submitOnce_trace)
qed (auto simp: unaccepted_def submitted_once_def never_after_none)

lemma SubmitAsyncE:
  assumes "SubmitAsync E c ctx req s = (res, s')"
  obtains (refused) "trace s' = trace s" "\<exists>e. res = Inl e"
    | (walked) n w1 where "ep_Async (cl_ep c)" "resolve E ctx (cl_ep c) req (world s) = (Inr n, w1)"
      "walk_chain E c (submitOnce E c ctx req) n (s\<lparr>world := w1\<rparr>) = (res, s')"
  using assms
  by (auto simp: SubmitAsync_def ask_def split: prod.splits sum.splits if_splits)

text \<open>
  C9: Once a router accepted a job, no further job is submitted: after a reply with a 2xx status
  \<open>SubmitAsync\<close> sends no request to any provider, whatever it then finds wrong with the reply.
\<close>

theorem SubmitAsync_once:
  "never_after is_post is_accepted (trace (snd (SubmitAsync E c ctx req (start w))))"
proof -
  obtain res s' where run: "SubmitAsync E c ctx req (start w) = (res, s')" by (metis surj_pair)
  then show ?thesis
  proof (cases rule: SubmitAsyncE)
    case (walked n w1)
    show ?thesis
      using run submit_posts.chain_safe[OF walked(3)] by (simp add: unaccepted_def submitted_once_def)
  qed (simp add: run)
qed

section \<open>The job id the user keeps\<close>

lemma str_into_nonempty: "str_into v [] = Some j \<Longrightarrow> j \<noteq> [] \<Longrightarrow> v = JStr j"
  by (cases v) (auto simp: str_into_def)

lemma userJobResponse_ok:
  assumes "userJobResponse body p k = Inr out"
  obtains m jobID u where "Option.bind (json_parse body) as_object = Some (Some m)"
    "length body \<le> maxSubmitResponseBytes" "\<not> mhas m e2eeKey" "mget m ''jobId'' = Some (JStr jobID)"
    "pv_Address p \<noteq> [] \<longrightarrow> equal_fold (or_else [] (Option.bind (mget m ''provider_address'') as_string)) (pv_Address p)"
    "out = mput ''jobId'' (JStr u) m" "ParseUserJobID u = Inr (jobID, k)"
  using assms
  by (auto simp: userJobResponse_def Let_def bind_r_eq_Inr fail_if_eq_Inr opt_r_eq_Inr map_err_eq_Inr
      as_string_def bind_eq_Some_conv dest!: user_job_id_parses(1) str_into_nonempty)

text \<open>What an accepted submission went through.\<close>

definition accepted_job ::
    "('pk, 'sk, 'ctx, 'w) env \<Rightarrow> Ctx \<Rightarrow> Provider \<Rightarrow> Request \<Rightarrow> bytes \<Rightarrow> Response \<Rightarrow> int \<Rightarrow> bool" where
  "accepted_job E ctx p sealed ephPriv out st \<longleftrightarrow>
     (\<exists>w w' resp m jobID u. transport E (provider_request ctx p sealed) w = (Inr resp, w')
        \<and> hr_Status resp = st \<and> 200 \<le> st \<and> st \<le> 299
        \<and> Option.bind (json_parse (hr_Body resp)) as_object = Some (Some m) \<and> \<not> mhas m e2eeKey
        \<and> mget m ''jobId'' = Some (JStr jobID) \<and> out = mput ''jobId'' (JStr u) m
        \<and> ParseUserJobID u = Inr (jobID, ephPriv)
        \<and> (pv_Address p \<noteq> [] \<longrightarrow>
             equal_fold (or_else [] (Option.bind (mget m ''provider_address'') as_string)) (pv_Address p)))"

lemma submit_reply_Inr:
  assumes "submit_reply E c ctx p sealed k s = (oc, (retry, Inr (out, st)), s')"
  shows "accepted_job E ctx p sealed k out st"
proof -
  obtain v s0 where d: "doRequest E ctx p sealed s = (v, s0)" by (metis surj_pair)
  obtain resp where v: "v = Inr resp" using assms d by (cases v) (auto simp: submit_reply_def)
  let ?body = "take (maxSubmitResponseBytes + 1) (hr_Body resp)"
  have u: "userJobResponse ?body p k = Inr out" "st = hr_Status resp" "200 \<le> st" "st \<le> 299"
    using assms d v by (auto simp: submit_reply_def Let_def split: if_splits option.splits sum.splits)
  from u(1) show ?thesis
  proof (rule userJobResponse_ok)
    fix m jobID w
    assume a: "Option.bind (json_parse ?body) as_object = Some (Some m)"
      "length ?body \<le> maxSubmitResponseBytes" "\<not> mhas m e2eeKey" "mget m ''jobId'' = Some (JStr jobID)"
      "pv_Address p \<noteq> [] \<longrightarrow> equal_fold (or_else [] (Option.bind (mget m ''provider_address'') as_string)) (pv_Address p)"
      "out = mput ''jobId'' (JStr w) m" "ParseUserJobID w = Inr (jobID, k)"
    have "?body = hr_Body resp" using a(2) by simp
    then show ?thesis
      using a u(2-4) doRequest_world[OF d[unfolded v]] unfolding accepted_job_def
      by (intro exI[of _ "world s"] exI[of _ "world s0"] exI[of _ resp] exI[of _ m] exI[of _ jobID]
          exI[of _ w]) simp
  qed
qed

text \<open>
  C10: The job id a successful \<open>SubmitAsync\<close> returns is the only thing the user has to keep: it parses
  into the id the router gave the job and the response key whose binding was sealed into the request
  that created it. The router's answer had status 2xx, was not sealed, and named the provider the
  request was sealed and pinned to; everything else of it is handed on as it came.
\<close>

theorem SubmitAsync_job:
  assumes "SubmitAsync E c ctx req (start w) = (Inr (out, st), s')"
  shows "\<exists>i p ephPriv ephPub rnd bound sealed. provided E i p
     \<and> AttachAsyncBind req ephPriv = Inr bound
     \<and> client_seal (en_H E) (en_J E) c p bound ephPriv ephPub rnd = Some (Inr sealed)
     \<and> accepted_job E ctx p sealed ephPriv out st"
  using assms
proof (cases rule: SubmitAsyncE)
  case (walked n w1)
  obtain i p s0 t r where p: "provided E i p"
    "submitOnce E c ctx req p (emit (EAttempt i p t) s0) = ((r, Inr (out, st)), s')"
    using submit_posts.chain_Inr[OF walked(3)] by (auto simp: unaccepted_def)
  from p(2) show ?thesis
  proof (cases rule: submitOnceE)
    case (sent w' rnd w'' ephPriv ephPub bound rnd2 sealed s1 oc s2)
    then show ?thesis using p(1) submit_reply_Inr[OF sent(6)] by blast
  qed simp
qed simp

end
