(* ===== verification/Client_Preseal.thy ===== *)
theory Client_Preseal
  imports Client_Endpoint
begin

text \<open>
  What the normalisation of each surface guarantees: the pinned fields hold, folding tool additions
  is idempotent and keeps everything else, and the multipart decoder carries the audio and every
  form field over.
\<close>

section \<open>The pinned fields\<close>

lemma cleartextToken_JStr: "cleartextToken (JStr s) = Some s"
  by (simp add: cleartextToken_def)

lemma imagePreSeal_eq_Inr:
  "imagePreSeal req = Inr r \<longleftrightarrow>
     (if mget req ''response_format'' \<in> {None, Some JNull}
      then r = mput ''response_format'' (JStr ''b64_json'') req
      else mget req ''response_format'' = Some (JStr ''b64_json'') \<and> r = req)"
  by (auto simp: imagePreSeal_def Let_def result_inv as_string_def str_into_def
      split: option.splits json.splits)

lemma imagePreSeal_format:
  assumes "imagePreSeal req = Inr r" "mwf req"
  shows "mget r ''response_format'' = Some (JStr ''b64_json'') \<and> mwf r
     \<and> (\<forall>k. k \<noteq> ''response_format'' \<longrightarrow> mget r k = mget req k)"
proof (cases "mget req ''response_format'' \<in> {None, Some JNull}")
  case True
  then show ?thesis using assms by (simp add: imagePreSeal_eq_Inr map_simps)
next
  case False
  then show ?thesis using assms unfolding imagePreSeal_eq_Inr by (simp del: insert_iff)
qed

lemma speechPreSeal_format:
  assumes "speechPreSeal req = Inr r" "mwf req"
  shows "mget r ''response_format'' \<in> {Some (JStr ''json''), Some (JStr ''verbose_json'')}
     \<and> mget r ''stream'' \<noteq> Some JNull \<and> mwf r
     \<and> (\<forall>k. k \<noteq> ''response_format'' \<and> k \<noteq> ''stream'' \<longrightarrow> mget r k = mget req k)"
  using assms
  by (cases "mget req ''response_format''")
    (auto simp: speechPreSeal_def Let_def result_inv as_string_def str_into_def map_simps
      speechResponseFormats_def split: json.splits if_splits)

lemmas endpoint_defs = ep_Chat_def ep_Anthropic_def ep_Image_def ep_Speech_def ep_Embedding_def
  ep_AsyncImage_def ep_zero_def

lemma endpoint_fields [simp]:
  "ep_PreSeal ep_Chat = None" "ep_PreSeal ep_Embedding = None"
  "ep_PreSeal ep_Anthropic = Some anthropicPreSeal" "ep_PreSeal ep_Image = Some imagePreSeal"
  "ep_PreSeal ep_AsyncImage = Some imagePreSeal" "ep_PreSeal ep_Speech = Some speechPreSeal"
  "ep_Profile ep_Chat = ''chat''" "ep_Profile ep_Embedding = ''embedding''"
  "ep_Profile ep_Anthropic = ''anthropic''" "ep_Profile ep_Image = ''image''"
  "ep_Profile ep_AsyncImage = ''async-image''" "ep_Profile ep_Speech = ''speech''"
  by (simp_all add: endpoint_defs)

lemma endpoint_cases:
  assumes "ep \<in> set All_endpoints"
  obtains "ep = ep_Chat" | "ep = ep_Anthropic" | "ep = ep_Image" | "ep = ep_Speech"
    | "ep = ep_Embedding" | "ep = ep_AsyncImage"
proof -
  have "ep = ep_Chat \<or> ep = ep_Anthropic \<or> ep = ep_Image \<or> ep = ep_Speech \<or> ep = ep_Embedding
     \<or> ep = ep_AsyncImage"
    using assms unfolding All_endpoints_def list.set insert_iff empty_iff by simp
  then show ?thesis by (elim disjE) (rule that, assumption)+
qed

text \<open>
  The normalisation of every surface in the table leaves the request with its profile's mandatory
  pinned fields holding a permitted value, so the seal that follows never refuses it for a pin the
  caller left out.
\<close>

theorem PreSeal_pins:
  assumes "ep \<in> set All_endpoints" "ep_PreSeal ep = Some f" "f req = Inr r" "mwf req"
    and "profile_spec (ep_Profile ep) = Inr spec" "q \<in> set (ps_pinned spec)" "\<not> pin_optional q"
  shows "pin_holds q r"
proof -
  have rf: "f = imagePreSeal \<Longrightarrow> mget r ''response_format'' = Some (JStr ''b64_json'')"
    "f = speechPreSeal \<Longrightarrow> mget r ''response_format'' \<in> {Some (JStr ''json''), Some (JStr ''verbose_json'')}"
    using imagePreSeal_format[of req r] speechPreSeal_format[of req r] assms(3,4) by blast+
  show ?thesis
    using assms(1)
  proof (rule endpoint_cases)
    assume ep: "ep = ep_Speech"
    then have "q = pin_required ''response_format'' [''json'', ''verbose_json'']"
      using assms(5-7) by (auto simp: spec_speech_def)
    then show ?thesis using rf(2) ep assms(2) by (auto simp: pin_holds_def cleartextToken_JStr)
  qed (use assms(2,5-7) rf in \<open>auto simp: spec_defs pin_holds_def cleartextToken_JStr\<close>)
qed

section \<open>What folding does\<close>

definition declared :: "fold_acc \<Rightarrow> bool" where
  "declared a \<longleftrightarrow> set (fa_names a) = set (map tool_name (fa_tools a))"

definition grows :: "fold_acc \<Rightarrow> fold_acc \<Rightarrow> bool" where
  "grows a a' \<longleftrightarrow> (\<exists>ts. fa_tools a' = fa_tools a @ ts \<and> [] \<notin> set (map tool_name ts)
     \<and> distinct (map tool_name ts) \<and> set (map tool_name ts) \<inter> set (map tool_name (fa_tools a)) = {})"

lemma grows_refl: "fa_tools a' = fa_tools a \<Longrightarrow> grows a a'"
  by (simp add: grows_def)

lemma grows_trans: "grows a b \<Longrightarrow> grows b c \<Longrightarrow> grows a c"
  unfolding grows_def
  by (elim exE conjE, rule_tac x = "ts @ tsa" in exI)
    (simp add: image_Un Int_Un_distrib Int_Un_distrib2 Int_commute)

lemma definition_tool_name: "definition_name v = Some n \<Longrightarrow> tool_name v = n"
proof -
  let ?f = "\<lambda>(k, x) r. case struct_field [''name''] k of None \<Rightarrow> Some r | Some n \<Rightarrow> str_into x r"
  let ?g = "\<lambda>(k, x) r. case struct_field [''name''] k of None \<Rightarrow> Some r
      | Some n \<Rightarrow> Some (case str_into x r of None \<Rightarrow> r | Some s \<Rightarrow> s)"
  have *: "fold_opt ?f kvs r = Some n \<Longrightarrow> fold_opt ?g kvs r = Some n" for kvs :: "(string \<times> json) list" and r
    by (induction kvs arbitrary: r) (auto split: option.splits)
  show "definition_name v = Some n \<Longrightarrow> tool_name v = n"
    by (cases v) (auto simp: definition_name_def tool_name_def decode_struct_def dest: *)
qed

lemma fold_addition_grows:
  assumes "fold_addition d a = Some a'" "declared a"
  shows "declared a' \<and> grows a a' \<and> fa_found a' \<and> (\<exists>v. d = Some v \<and> tool_name v \<in> set (fa_names a'))"
  using assms
  by (auto simp: fold_addition_def declared_def grows_def definition_tool_name split: option.splits if_splits)

lemma grows_names: "declared a \<Longrightarrow> declared a' \<Longrightarrow> grows a a' \<Longrightarrow> set (fa_names a) \<subseteq> set (fa_names a')"
  by (auto simp: declared_def grows_def)

definition plain :: "json \<Rightarrow> bool" where
  "plain b \<longleftrightarrow> tool_addition b = None"

lemma fold_blocks_spec:
  assumes "fold_blocks bs a = Some (kept, a')" "declared a"
  shows "kept = filter plain bs \<and> declared a' \<and> grows a a'
     \<and> (fa_found a' \<longleftrightarrow> fa_found a \<or> \<not> list_all plain bs)
     \<and> (\<forall>b\<in>set bs. \<forall>d. tool_addition b = Some d \<longrightarrow> (\<exists>v. d = Some v \<and> tool_name v \<in> set (fa_names a')))"
  using assms
proof (induction bs arbitrary: a kept)
  case Nil
  then show ?case by (auto intro: grows_refl)
next
  case (Cons b bs)
  show ?case
  proof (cases "tool_addition b")
    case None
    then obtain kept' where "fold_blocks bs a = Some (kept', a')" "kept = b # kept'"
      using Cons.prems(1) by auto
    then show ?thesis using Cons.IH[of a kept'] Cons.prems(2) None by (simp add: plain_def)
  next
    case (Some d)
    then obtain a1 where a1: "fold_addition d a = Some a1" "fold_blocks bs a1 = Some (kept, a')"
      using Cons.prems(1) by (auto split: option.splits)
    note g = fold_addition_grows[OF a1(1) Cons.prems(2)]
    note ih = Cons.IH[OF a1(2)]
    have sub: "set (fa_names a1) \<subseteq> set (fa_names a')" using g ih grows_names by blast
    show ?thesis using g ih Some sub grows_trans by (auto simp: plain_def)
  qed
qed

lemma fold_blocks_plain: "list_all plain bs \<Longrightarrow> fold_blocks bs a = Some (bs, a)"
  by (induction bs) (auto simp: plain_def)

text \<open>What folding makes of one message.\<close>

definition folded :: "json gomap option \<Rightarrow> json gomap option \<Rightarrow> bool" where
  "folded m m' \<longleftrightarrow>
     (case message_blocks m of
        None \<Rightarrow> m' = m
      | Some bs \<Rightarrow> m' = (if list_all plain bs then m
                         else Some (mput ''content'' (JArr (filter plain bs)) (nil_map m))))"

lemma folded_blocks:
  assumes "folded m m'" "mwf (nil_map m)"
  shows "message_blocks m' = map_option (filter plain) (message_blocks m)" "mwf (nil_map m')"
    and "k \<noteq> ''content'' \<Longrightarrow> mget (nil_map m') k = mget (nil_map m) k"
proof -
  have "as_array (JArr xs) = Some xs" for xs by (simp add: as_array_def)
  then have "message_blocks m' = map_option (filter plain) (message_blocks m) \<and> mwf (nil_map m')
     \<and> (k \<noteq> ''content'' \<longrightarrow> mget (nil_map m') k = mget (nil_map m) k)"
    using assms
    by (cases "message_blocks m")
      (auto simp: folded_def message_blocks_def nil_map_def map_simps list_all_iff
        split: if_splits option.splits)
  then show "message_blocks m' = map_option (filter plain) (message_blocks m)" "mwf (nil_map m')"
    and "k \<noteq> ''content'' \<Longrightarrow> mget (nil_map m') k = mget (nil_map m) k" by auto
qed

lemma length_filter_plain: "length (filter plain bs) = length bs \<longleftrightarrow> list_all plain bs"
  by (metis filter_id_conv length_filter_less list_all_iff nat_less_le)

lemma fold_messages_spec:
  assumes "fold_messages ms a = Some (out, a')" "declared a"
  shows "list_all2 folded ms out \<and> declared a' \<and> grows a a'
     \<and> (\<forall>m\<in>set ms. \<forall>bs. message_blocks m = Some bs \<longrightarrow>
          (\<forall>b\<in>set bs. \<forall>d. tool_addition b = Some d \<longrightarrow>
             (\<exists>v. d = Some v \<and> tool_name v \<in> set (fa_names a'))))"
  using assms
proof (induction ms arbitrary: a out)
  case Nil
  then show ?case by (auto intro: grows_refl)
next
  case (Cons m ms)
  show ?case
  proof (cases "message_blocks m")
    case None
    then obtain o1 where o1: "fold_messages ms a = Some (o1, a')" "out = m # o1"
      using Cons.prems(1) by auto
    then show ?thesis using Cons.IH[OF o1(1) Cons.prems(2)] None by (simp add: folded_def)
  next
    case (Some bs)
    then obtain kept a1 o1 where 1: "fold_blocks bs a = Some (kept, a1)" "fold_messages ms a1 = Some (o1, a')"
      "out = (if length kept = length bs then m else Some (mput ''content'' (JArr kept) (nil_map m))) # o1"
      using Cons.prems(1) by (auto simp: Let_def split: option.splits prod.splits if_splits)
    note g = fold_blocks_spec[OF 1(1) Cons.prems(2)]
    have ih: "list_all2 folded ms o1 \<and> declared a' \<and> grows a1 a' \<and> (\<forall>m\<in>set ms. \<forall>bs. message_blocks m = Some bs \<longrightarrow>
          (\<forall>b\<in>set bs. \<forall>d. tool_addition b = Some d \<longrightarrow>
             (\<exists>v. d = Some v \<and> tool_name v \<in> set (fa_names a'))))"
      using Cons.IH[OF 1(2)] g by blast
    have sub: "set (fa_names a1) \<subseteq> set (fa_names a')" using g ih grows_names by blast
    have "folded m (hd out)" using g Some 1(3) by (simp add: folded_def length_filter_plain)
    then show ?thesis using g ih Some sub 1(3) grows_trans[of a a1 a'] by fastforce
  qed
qed

lemma fold_messages_plain:
  assumes "\<forall>m\<in>set ms. \<forall>bs. message_blocks m = Some bs \<longrightarrow> list_all plain bs"
  shows "fold_messages ms a = Some (ms, a)"
  using assms
  by (induction ms) (auto simp: fold_blocks_plain split: option.splits)


definition decoded_messages :: "json option \<Rightarrow> json gomap option list option" where
  "decoded_messages raw =
     Option.bind raw (\<lambda>v. Option.bind (as_array v) (\<lambda>vs. opt_all (map as_object vs)))"

definition decoded_tools :: "json option \<Rightarrow> json list option" where
  "decoded_tools raw = (case raw of None \<Rightarrow> Some [] | Some t \<Rightarrow> as_array t)"

lemma opt_all_Some: "opt_all xs = Some ys \<longleftrightarrow> xs = map Some ys"
  by (induction xs arbitrary: ys rule: opt_all.induct) (auto split: option.splits)

lemma decoded_messages_wf:
  "decoded_messages raw = Some ms \<Longrightarrow> m \<in> set ms \<Longrightarrow> mwf (nil_map m)"
proof -
  assume a: "decoded_messages raw = Some ms" "m \<in> set ms"
  then obtain vs where "map as_object vs = map Some ms"
    by (auto simp: decoded_messages_def opt_all_Some split: bind_splits)
  then have "Some m \<in> as_object ` set vs" using a(2) by (metis image_eqI image_set)
  then show "mwf (nil_map m)" by (auto simp: as_object_def nil_map_def split: json.splits)
qed

lemma decoded_messages_again:
  assumes "\<forall>m\<in>set out. mwf (nil_map m)"
  shows "decoded_messages (Some (JArr (map message_json out))) = Some out"
proof -
  have "as_object (message_json m) = Some m" if "m \<in> set out" for m
    using bspec[OF assms that] by (cases m) (auto simp: message_json_def as_object_def nil_map_def map_from_mwf)
  then have "map (as_object \<circ> message_json) out = map Some out" by simp
  then show ?thesis by (simp add: decoded_messages_def as_array_def opt_all_Some)
qed

lemma foldToolAdditions_Some:
  assumes "foldToolAdditions rm rt = Some (mj, tj)"
  obtains ms tools out a where "decoded_messages rm = Some ms" "decoded_tools rt = Some tools"
    "fold_messages ms \<lparr>fa_names = map tool_name tools, fa_tools = tools, fa_found = False\<rparr> = Some (out, a)"
    "mj = JArr (map message_json out)" "tj = JArr (fa_tools a)"
  using assms
  by (auto simp: foldToolAdditions_def Let_def decoded_messages_def decoded_tools_def
      split: option.splits if_splits)

lemma foldToolAdditions_None:
  assumes "decoded_messages rm = Some ms" "\<forall>m\<in>set ms. \<forall>bs. message_blocks m = Some bs \<longrightarrow> list_all plain bs"
  shows "foldToolAdditions rm rt = None"
  using assms(1) fold_messages_plain[OF assms(2)]
  by (simp add: foldToolAdditions_def Let_def decoded_messages_def split: option.splits)

definition content_folded :: "json gomap option \<Rightarrow> json gomap option \<Rightarrow> bool" where
  "content_folded m m' \<longleftrightarrow> message_blocks m' = map_option (filter plain) (message_blocks m)
     \<and> (\<forall>k. k \<noteq> ''content'' \<longrightarrow> mget (nil_map m') k = mget (nil_map m) k)"

text \<open>
  \<open>r\<close> is \<open>req\<close> with its tool additions folded: each message keeps its plain blocks and every other
  member, and the tools gain distinct, named, new definitions that cover every removed block.
\<close>

definition tools_folded :: "Request \<Rightarrow> Request \<Rightarrow> bool" where
  "tools_folded req r \<longleftrightarrow> (\<exists>ms out old new.
     decoded_messages (mget req ''messages'') = Some ms
     \<and> decoded_messages (mget r ''messages'') = Some out \<and> list_all2 content_folded ms out
     \<and> decoded_tools (mget req ''tools'') = Some old \<and> mget r ''tools'' = Some (JArr (old @ new))
     \<and> [] \<notin> set (map tool_name new) \<and> distinct (map tool_name new)
     \<and> set (map tool_name new) \<inter> set (map tool_name old) = {}
     \<and> (\<forall>m\<in>set ms. \<forall>bs. message_blocks m = Some bs \<longrightarrow>
          (\<forall>b\<in>set bs. \<forall>d. tool_addition b = Some d \<longrightarrow>
             (\<exists>v. d = Some v \<and> tool_name v \<in> set (map tool_name (old @ new))))))"

lemma folded_content:
  assumes "list_all2 folded ms out" "\<forall>m\<in>set ms. mwf (nil_map m)"
  shows "list_all2 content_folded ms out" "\<forall>m\<in>set out. mwf (nil_map m)"
    "\<forall>m\<in>set out. \<forall>bs. message_blocks m = Some bs \<longrightarrow> list_all plain bs"
  using assms
proof (induction rule: list_all2_induct)
  case (Cons m ms m' out)
  note f = folded_blocks[OF Cons.hyps(1)]
  {
    case 1
    then show ?case using Cons f by (simp add: content_folded_def)
  next
    case 2
    then show ?case using Cons f by simp
  next
    case 3
    then show ?case using Cons f(1) by (auto simp: list_all_iff)
  }
qed simp_all

lemma foldToolAdditions_folded:
  assumes "foldToolAdditions (mget req ''messages'') (mget req ''tools'') = Some (mj, tj)" "mwf req"
  shows "tools_folded req (mput ''tools'' tj (mput ''messages'' mj req))"
    "anthropicPreSeal (mput ''tools'' tj (mput ''messages'' mj req))
       = Inr (mput ''tools'' tj (mput ''messages'' mj req))"
proof -
  let ?r = "mput ''tools'' tj (mput ''messages'' mj req)"
  obtain ms tools out a where 1: "decoded_messages (mget req ''messages'') = Some ms"
    "decoded_tools (mget req ''tools'') = Some tools"
    "fold_messages ms \<lparr>fa_names = map tool_name tools, fa_tools = tools, fa_found = False\<rparr> = Some (out, a)"
    "mj = JArr (map message_json out)" "tj = JArr (fa_tools a)"
    using foldToolAdditions_Some[OF assms(1)] by blast
  let ?a0 = "\<lparr>fa_names = map tool_name tools, fa_tools = tools, fa_found = False\<rparr>"
  have "declared ?a0" by (simp add: declared_def)
  note f = fold_messages_spec[OF 1(3) this]
  have all: "list_all2 folded ms out" "declared a" and g: "grows ?a0 a" using f by blast+
  have "\<forall>m\<in>set ms. mwf (nil_map m)" using decoded_messages_wf[OF 1(1)] by blast
  note cf = folded_content[OF all(1) this]
  have r: "mget ?r ''messages'' = Some (JArr (map message_json out))"
    "mget ?r ''tools'' = Some (JArr (fa_tools a))"
    using assms(2) 1(4,5) by (simp_all add: map_simps)
  have dm: "decoded_messages (mget ?r ''messages'') = Some out"
    using decoded_messages_again[OF cf(2)] r(1) by simp
  show "anthropicPreSeal ?r = Inr ?r"
    using foldToolAdditions_None[OF dm cf(3)] by (simp add: anthropicPreSeal_def)
  obtain ts where ts: "fa_tools a = tools @ ts" "[] \<notin> set (map tool_name ts)"
    "distinct (map tool_name ts)" "set (map tool_name ts) \<inter> set (map tool_name tools) = {}"
    using g unfolding grows_def by auto
  have names: "set (fa_names a) = set (map tool_name (tools @ ts))"
    using all(2) unfolding declared_def ts(1) .
  have tl: "mget ?r ''tools'' = Some (JArr (tools @ ts))" using r(2) ts(1) by simp
  have "\<forall>m\<in>set ms. \<forall>bs. message_blocks m = Some bs \<longrightarrow>
          (\<forall>b\<in>set bs. \<forall>d. tool_addition b = Some d \<longrightarrow>
             (\<exists>v. d = Some v \<and> tool_name v \<in> set (map tool_name (tools @ ts))))"
    using f unfolding names by blast
  then show "tools_folded req ?r"
    unfolding tools_folded_def using 1(1,2) dm cf(1) tl ts(2-4)
    by (intro exI[of _ ms] exI[of _ out] exI[of _ tools] exI[of _ ts] conjI)
qed

text \<open>
  Folding tool additions is idempotent and loses nothing: either the request is unchanged, or every
  message keeps its other blocks and members, and the tools gain distinct, named definitions, none
  of them declared before, that cover every removed block.
\<close>

theorem anthropicPreSeal_folds:
  assumes "anthropicPreSeal req = Inr r" "mwf req"
  shows "anthropicPreSeal r = Inr r \<and> (r = req \<or> tools_folded req r)"
proof (cases "foldToolAdditions (mget req ''messages'') (mget req ''tools'')")
  case None
  then show ?thesis using assms(1) by (simp add: anthropicPreSeal_def)
next
  case (Some p)
  obtain mj tj where p: "p = (mj, tj)" by (cases p)
  have "r = mput ''tools'' tj (mput ''messages'' mj req)"
    using assms(1) Some p by (simp add: anthropicPreSeal_def)
  then show ?thesis using foldToolAdditions_folded Some p assms(2) by blast
qed

section \<open>What the multipart decoder carries over\<close>

definition is_file :: "part \<Rightarrow> bool" where
  "is_file p = (part_name p = ''file'')"

definition field_parts :: "string \<Rightarrow> part list \<Rightarrow> part list" where
  "field_parts k ps = filter (\<lambda>p. \<not> is_file p \<and> trim_suffix ''[]'' (part_name p) = k) ps"

definition field_values :: "string \<Rightarrow> part list \<Rightarrow> string list" where
  "field_values k ps = map (\<lambda>p. the (part_content p)) (field_parts k ps)"

definition field_array :: "string \<Rightarrow> part list \<Rightarrow> bool" where
  "field_array k ps = list_ex (\<lambda>p. suffix ''[]'' (part_name p)) (field_parts k ps)"

definition form_inv :: "part list \<Rightarrow> form \<Rightarrow> bool" where
  "form_inv ps f \<longleftrightarrow>
     (case filter is_file ps of
        [] \<Rightarrow> fm_req f = [] \<and> fm_filename f = []
      | [p] \<Rightarrow> (\<exists>c. part_content p = Some c \<and> fm_req f = [(''file_base64'', JStr (b64std_encode c))]
                  \<and> fm_filename f = part_filename p)
      | _ \<Rightarrow> False)
     \<and> mwf (fm_values f) \<and> mwf (fm_isArray f)
     \<and> (\<forall>k. mget (fm_values f) k = (if field_values k ps = [] then None else Some (field_values k ps)))
     \<and> (\<forall>k. or_else False (mget (fm_isArray f) k) = field_array k ps)
     \<and> (\<forall>k\<in>{''_e2ee'', ''file_base64'', ''filename'', ''file''}. field_values k ps = [])"

lemma field_snoc:
  "field_values k (ps @ [p]) = field_values k ps
     @ (if \<not> is_file p \<and> trim_suffix ''[]'' (part_name p) = k then [the (part_content p)] else [])"
  "field_array k (ps @ [p]) \<longleftrightarrow> field_array k ps
     \<or> \<not> is_file p \<and> trim_suffix ''[]'' (part_name p) = k \<and> suffix ''[]'' (part_name p)"
  by (auto simp: field_values_def field_array_def field_parts_def)

lemma form_part_inv:
  assumes "form_inv ps f" "form_part p f = Inr f'"
  shows "form_inv (ps @ [p]) f'"
proof (cases "is_file p")
  case True
  then have n: "part_name p = ''file''" by (simp add: is_file_def)
  obtain c where c: "part_content p = Some c" "\<not> mhas (fm_req f) ''file_base64''"
    "f' = f\<lparr>fm_req := mput ''file_base64'' (JStr (b64std_encode c)) (fm_req f),
             fm_filename := part_filename p\<rparr>"
    using assms(2) n
    by (auto simp: form_part_def Let_def result_inv speechFormNameAllowed_def)
  have none: "filter is_file ps = []"
    using assms(1) c(2) by (auto simp: form_inv_def mhas_def split: list.splits)
  then have "fm_req f = []" using assms(1) by (simp add: form_inv_def)
  then show ?thesis
    using assms(1) True none c by (simp add: form_inv_def field_snoc)
next
  case False
  let ?n = "part_name p"
  let ?k = "trim_suffix ''[]'' ?n"
  have n: "?n \<noteq> ''file''" using False by (simp add: is_file_def)
  obtain c where c: "part_content p = Some c" "?k \<noteq> ''_e2ee''" "?k \<notin> {''file_base64'', ''filename'', ''file''}"
    "f' = f\<lparr>fm_values := mput ?k (or_else [] (mget (fm_values f) ?k) @ [c]) (fm_values f),
           fm_isArray := mput ?k (or_else False (mget (fm_isArray f) ?k) \<or> suffix ''[]'' ?n) (fm_isArray f)\<rparr>"
    using assms(2) n
    by (auto simp: form_part_def Let_def result_inv speechFormNameAllowed_def)
  have i: "mwf (fm_values f)" "mwf (fm_isArray f)"
    "\<And>k. mget (fm_values f) k = (if field_values k ps = [] then None else Some (field_values k ps))"
    "\<And>k. or_else False (mget (fm_isArray f) k) = field_array k ps"
    "\<And>k. k\<in>{''_e2ee'', ''file_base64'', ''filename'', ''file''} \<Longrightarrow> field_values k ps = []"
    using assms(1) unfolding form_inv_def by blast+
  have v: "mget (fm_values f') k =
      (if field_values k (ps @ [p]) = [] then None else Some (field_values k (ps @ [p])))" for k
    using False by (simp add: c map_simps i field_snoc or_else_def)
  have a: "or_else False (mget (fm_isArray f') k) = field_array k (ps @ [p])" for k
    using False i(4) by (auto simp: c map_simps i(1,2) field_snoc or_else_def)
  have r: "\<forall>k\<in>{''_e2ee'', ''file_base64'', ''filename'', ''file''}. field_values k (ps @ [p]) = []"
    using i(5) c(2,3) by (auto simp: field_snoc)
  have w: "mwf (fm_values f')" "mwf (fm_isArray f')" using i(1,2) by (simp_all add: c mwf_mput)
  have q: "fm_req f' = fm_req f" "fm_filename f' = fm_filename f" "filter is_file (ps @ [p]) = filter is_file ps"
    using False by (simp_all add: c)
  show ?thesis using assms(1) v a r w unfolding form_inv_def q by blast
qed

lemma form_parts_inv:
  "form_parts qs f = Inr f' \<Longrightarrow> form_inv ps f \<Longrightarrow> form_inv (ps @ qs) f'"
proof (induction qs arbitrary: f ps)
  case (Cons q qs)
  then obtain f1 where f1: "form_part q f = Inr f1" "form_parts qs f1 = Inr f'"
    by (auto simp: bind_r_eq_Inr)
  then show ?case using Cons.IH[OF f1(2) form_part_inv[OF Cons.prems(2) f1(1)]] by simp
qed simp

lemma mget_fold_fields:
  assumes "mwf m" "distinct (mkeys vs)"
  shows "mget (fold (\<lambda>(k, v). mput k (g k v)) vs m) k =
     (case mget vs k of None \<Rightarrow> mget m k | Some v \<Rightarrow> Some (g k v))
     \<and> mwf (fold (\<lambda>(k, v). mput k (g k v)) vs m)"
  using assms
proof (induction vs arbitrary: m)
  case (Cons kv vs)
  obtain a b where kv: "kv = (a, b)" by (cases kv)
  have "mget vs a = None" using Cons.prems(2) by (simp add: kv mget_None)
  then show ?case
    using Cons.IH[of "mput a (g a b) m"] Cons.prems
    by (cases "a = k") (simp_all add: kv map_simps split: option.splits)
qed simp

definition field_json :: "string \<Rightarrow> part list \<Rightarrow> json option" where
  "field_json k ps =
     (let vs = field_values k ps in
      if vs = [] then None
      else if field_array k ps \<or> 1 < length vs then Some (str_array vs)
      else Some (JStr (hd vs)))"

text \<open>
  A decoded multipart request carries the one uploaded audio part, whatever other form fields it
  has, never the envelope key, and every form field under its own name, as the string that was sent
  or as the array of all of them.
\<close>

theorem speechDecodeParts_carries:
  assumes "speechDecodeParts ps ended = Inr r"
  shows "\<exists>p c. filter is_file ps = [p] \<and> part_content p = Some c
     \<and> mget r ''file_base64'' = Some (JStr (b64std_encode c))
     \<and> mget r ''filename'' = (if part_filename p = [] then None else Some (JStr (part_filename p)))
     \<and> mget r ''_e2ee'' = None \<and> ended
     \<and> (\<forall>k. k \<notin> {''file_base64'', ''filename'', ''stream''} \<longrightarrow> mget r k = field_json k ps)"
proof -
  obtain f where f: "form_parts ps \<lparr>fm_req = [], fm_values = [], fm_isArray = [], fm_filename = []\<rparr> = Inr f"
    "ended" "mhas (fm_req f) ''file_base64''" "r = form_request f"
    using assms by (auto simp: speechDecodeParts_def result_inv)
  have "form_inv [] \<lparr>fm_req = [], fm_values = [], fm_isArray = [], fm_filename = []\<rparr>"
    by (simp add: form_inv_def field_values_def field_array_def field_parts_def or_else_def)
  then have inv: "form_inv ps f" using form_parts_inv[OF f(1)] by force
  obtain p c where p: "filter is_file ps = [p]" "part_content p = Some c"
    "fm_req f = [(''file_base64'', JStr (b64std_encode c))]" "fm_filename f = part_filename p"
    using inv f(3) by (auto simp: form_inv_def mhas_def split: list.splits)
  have i: "mwf (fm_values f)"
    "\<And>k. mget (fm_values f) k = (if field_values k ps = [] then None else Some (field_values k ps))"
    "\<And>k. or_else False (mget (fm_isArray f) k) = field_array k ps"
    "\<And>k. k\<in>{''_e2ee'', ''file_base64'', ''filename'', ''file''} \<Longrightarrow> field_values k ps = []"
    using inv unfolding form_inv_def by blast+
  let ?g = "\<lambda>k vs. if or_else False (mget (fm_isArray f) k) \<or> 1 < length vs then str_array vs else JStr (hd vs)"
  let ?q = "fold (\<lambda>(k, vs). mput k (?g k vs)) (fm_values f) (fm_req f)"
  have d: "distinct (mkeys (fm_values f))" using mwf_distinct[OF i(1)] by (simp add: mkeys_def)
  have wq: "mwf (fm_req f)" by (simp add: p mwf_def)
  have q: "mget ?q k = (case mget (fm_values f) k of None \<Rightarrow> mget (fm_req f) k | Some v \<Rightarrow> Some (?g k v))"
    "mwf ?q" for k
    using mget_fold_fields[OF wq d, of ?g k] by blast+
  let ?q2 = "if fm_filename f \<noteq> [] then mput ''filename'' (JStr (fm_filename f)) ?q else ?q"
  have q2: "mwf ?q2" "\<And>k. k \<noteq> ''filename'' \<Longrightarrow> mget ?q2 k = mget ?q k" using q(2) by (simp_all add: map_simps)
  have r: "mget r k = mget ?q2 k" if "k \<noteq> ''stream''" for k
    using that q2(1)
    by (auto simp: f(4) form_request_def Let_def map_simps split: option.splits list.splits)
  have "mget r ''file_base64'' = Some (JStr (b64std_encode c))"
    using r[of "''file_base64''"] q2(2)[of "''file_base64''"] q(1)[of "''file_base64''"]
      i(2)[of "''file_base64''"] i(4)[of "''file_base64''"] by (simp add: p)
  moreover have "mget r ''filename'' = (if part_filename p = [] then None else Some (JStr (part_filename p)))"
    using r[of "''filename''"] q(1)[of "''filename''"] q(2) i(2)[of "''filename''"] i(4)[of "''filename''"]
    by (simp add: p map_simps)
  moreover have plain: "mget r k = field_json k ps" if "k \<notin> {''file_base64'', ''filename'', ''stream''}" for k
  proof -
    have k: "''file_base64'' \<noteq> k" using that by auto
    have "mget r k = mget ?q k" using r[of k] q2(2)[of k] that by simp
    then show ?thesis using q(1)[of k] k by (simp add: i(2,3) p(3) field_json_def Let_def)
  qed
  moreover have "mget r ''_e2ee'' = None"
    using plain[of "''_e2ee''"] i(4)[of "''_e2ee''"] by (simp add: field_json_def)
  ultimately show ?thesis using p f(2) by blast
qed

section \<open>Concrete requests\<close>

theorem PreSeal_pins_witness:
  "pin_holds (pin_required ''response_format'' [''b64_json'']) [(''response_format'', JStr ''b64_json'')]"
proof -
  have "imagePreSeal [] = Inr [(''response_format'', JStr ''b64_json'')]"
    by (simp add: imagePreSeal_def Let_def)
  then show ?thesis
    using PreSeal_pins[of ep_Image imagePreSeal "[]" _ spec_image
        "pin_required ''response_format'' [''b64_json'']"]
    by (simp add: All_endpoints_def spec_image_def)
qed

definition demo_fold :: Request where
  "demo_fold = [(''messages'', JArr [JObj [(''content'', JArr
     [JObj [(''type'', JStr ''tool_addition''),
            (''tool'', JObj [(''definition'', JObj [(''name'', JStr ''f'')])])],
      JObj [(''type'', JStr ''text'')]])]])]"

lemma demo_fold_result:
  "anthropicPreSeal demo_fold = Inr
     [(''messages'', JArr [JObj [(''content'', JArr [JObj [(''type'', JStr ''text'')]])]]),
      (''tools'', JArr [JObj [(''name'', JStr ''f'')]])]"
  unfolding demo_fold_def by code_simp

theorem anthropicPreSeal_folds_witness:
  "\<exists>r. anthropicPreSeal demo_fold = Inr r \<and> anthropicPreSeal r = Inr r \<and> tools_folded demo_fold r"
  using anthropicPreSeal_folds[OF demo_fold_result]
  by (simp add: demo_fold_result) (simp add: demo_fold_def mwf_def)

definition demo_parts :: "part list" where
  "demo_parts = [\<lparr>part_name = ''language'', part_filename = [], part_content = Some ''en''\<rparr>,
     \<lparr>part_name = ''file'', part_filename = ''a.mp3'', part_content = Some ''x''\<rparr>]"

theorem speechDecodeParts_carries_witness:
  "\<exists>r. speechDecodeParts demo_parts True = Inr r
     \<and> mget r ''filename'' = Some (JStr ''a.mp3'') \<and> mget r ''language'' = Some (JStr ''en'')"
proof -
  obtain r where "speechDecodeParts demo_parts True = Inr r"
    by (simp add: demo_parts_def speechDecodeParts_def form_part_def speechFormNameAllowed_def
        trim_suffix_def or_else_def mhas_def Let_def suffix_def)
  then show ?thesis
    using speechDecodeParts_carries[of demo_parts True r]
    by (simp add: demo_parts_def is_file_def field_json_def field_values_def field_parts_def
        field_array_def trim_suffix_def suffix_def)
qed

end
