(* ===== verification/Client_Sent.thy ===== *)
theory Client_Sent
  imports Client_Request Client_Preseal
begin

text \<open>
  What a client sends: when forcing usage reporting panics, what the headers pin whatever the caller
  forwarded, and that the enclave opens the caller's request with only the model, the stream options
  and the response binding changed.
\<close>

section \<open>Usage reporting\<close>

text \<open>
  C29: Preparing a request for sealing panics on exactly one input: a streaming chat request whose
  \<open>stream_options\<close> is \<open>null\<close>. On every other streaming chat request usage reporting is forced on, the
  other stream options are kept, and nothing else changes.
\<close>

theorem withStreamUsage_panics_iff:
  assumes "mwf req"
  shows "(withStreamUsage profile req = None \<longleftrightarrow>
       profile = ''chat'' \<and> mget req ''stream'' = Some (JBool True)
       \<and> mget req ''stream_options'' = Some JNull)
     \<and> (\<forall>r. withStreamUsage profile req = Some r \<longrightarrow>
          (\<forall>k. k \<noteq> ''stream_options'' \<longrightarrow> mget r k = mget req k)
        \<and> (if profile = ''chat'' \<and> mget req ''stream'' = Some (JBool True)
           then \<exists>opts. mget r ''stream_options'' = Some (JObj opts) \<and> mwf opts
                  \<and> mget opts ''include_usage'' = Some (JBool True)
                  \<and> (\<forall>kvs k. mget req ''stream_options'' = Some (JObj kvs) \<longrightarrow> k \<noteq> ''include_usage''
                        \<longrightarrow> mget opts k = mget (map_from kvs) k)
           else r = req))"
proof (cases "profile = ''chat'' \<and> mget req ''stream'' = Some (JBool True)")
  case False
  then have "withStreamUsage profile req = Some req"
    by (auto simp: withStreamUsage_def bool_into_def split: option.splits json.splits)
  then show ?thesis using False by auto
next
  case True
  then have ws: "withStreamUsage profile req =
      map_option (\<lambda>opts. mput ''stream_options'' (JObj (mput ''include_usage'' (JBool True) opts)) req)
        (stream_options (mget req ''stream_options''))"
    by (simp add: withStreamUsage_def option.case_eq_if map_option_case)
  have wf: "stream_options raw = Some opts \<Longrightarrow> mwf opts" for raw opts
    by (auto simp: stream_options_def as_object_def split: option.splits json.splits)
  have none: "stream_options raw = None \<longleftrightarrow> raw = Some JNull" for raw
    by (auto simp: stream_options_def as_object_def split: option.splits json.splits)
  show ?thesis
  proof (cases "stream_options (mget req ''stream_options'')")
    case None
    then have "withStreamUsage profile req = None" by (simp add: ws)
    then show ?thesis using True None none by auto
  next
    case (Some opts)
    have r: "withStreamUsage profile req =
        Some (mput ''stream_options'' (JObj (mput ''include_usage'' (JBool True) opts)) req)"
      by (simp add: ws Some)
    have "mget req ''stream_options'' \<noteq> Some JNull" using none Some by (metis option.distinct(1))
    moreover have "opts = map_from kvs" if "mget req ''stream_options'' = Some (JObj kvs)" for kvs
      using Some that by (simp add: stream_options_def as_object_def)
    ultimately show ?thesis unfolding r using True assms wf[OF Some] by (auto simp: map_simps)
  qed
qed

theorem withStreamUsage_panics_iff_witness:
  "withStreamUsage ''chat'' [(''stream'', JBool True), (''stream_options'', JNull)] = None"
  using withStreamUsage_panics_iff[of "[(''stream'', JBool True), (''stream_options'', JNull)]" "''chat''"]
  by (simp add: mwf_def)

section \<open>Headers\<close>

definition forwarded_values :: "string \<Rightarrow> header \<Rightarrow> string list" where
  "forwarded_values k h = concat (map snd (filter (\<lambda>kv. CanonicalHeaderKey (fst kv) = CanonicalHeaderKey k) h))"

lemma header_values_set [simp]:
  "mwf h \<Longrightarrow> header_values k (header_set j v h) =
     (if CanonicalHeaderKey k = CanonicalHeaderKey j then [v] else header_values k h)"
  by (simp add: header_values_def header_set_def map_simps or_else_def)

lemma header_values_del [simp]:
  "header_values k (header_del j h) =
     (if CanonicalHeaderKey k = CanonicalHeaderKey j then [] else header_values k h)"
  by (simp add: header_values_def header_del_def map_simps or_else_def)

lemma header_wf [simp]:
  "mwf h \<Longrightarrow> mwf (header_set k v h)" "mwf h \<Longrightarrow> mwf (header_add k v h)" "mwf h \<Longrightarrow> mwf (header_del k h)"
  by (simp_all add: header_set_def header_add_def header_del_def map_simps)

lemma header_values_add_all:
  assumes "mwf h"
  shows "header_values k (add_all kvs h) =
     header_values k h @ (if CanonicalHeaderKey (fst kvs) = CanonicalHeaderKey k then snd kvs else [])"
    "mwf (add_all kvs h)"
proof -
  have "header_values k (fold (header_add j) vs h) =
       header_values k h @ (if CanonicalHeaderKey j = CanonicalHeaderKey k then vs else [])
     \<and> mwf (fold (header_add j) vs h)" for j vs
    using assms
    by (induction vs arbitrary: h) (auto simp: header_values_def header_add_def map_simps or_else_def)
  then show "header_values k (add_all kvs h) =
     header_values k h @ (if CanonicalHeaderKey (fst kvs) = CanonicalHeaderKey k then snd kvs else [])"
    "mwf (add_all kvs h)" by (simp_all add: add_all_def)
qed

lemma header_values_forwarded:
  "mwf h \<Longrightarrow> header_values k (fold add_all fs h) = header_values k h @ forwarded_values k fs
     \<and> mwf (fold add_all fs h)"
  by (induction fs arbitrary: h) (auto simp: header_values_add_all forwarded_values_def)

lemma pin_keys [simp]:
  "CanonicalHeaderKey headerProviderPin = ''X-0g-Provider-Address''"
  "CanonicalHeaderKey headerRouterProviderIdentityPin = ''X-0g-Provider-Identity''"
  "CanonicalHeaderKey headerAllowFallbacks = ''X-0g-Provider-Allow-Fallbacks''"
  "CanonicalHeaderKey ''Authorization'' = ''Authorization''"
  "CanonicalHeaderKey ''Content-Type'' = ''Content-Type''"
  unfolding headerProviderPin_def headerRouterProviderIdentityPin_def headerAllowFallbacks_def
  by code_simp+

text \<open>
  Whatever headers the caller forwarded, a request pinned to a provider names that provider's
  address and nothing else, never allows the router to fall back, and carries exactly the caller's
  credential; the upstream identity is the resolved one, absent when the resolved one is empty, and
  the forwarded one only when the router did not say.
\<close>

theorem request_headers_pin:
  shows "header_values headerAllowFallbacks (request_headers ctx p) = [''false'']
   \<and> header_values headerProviderPin (request_headers ctx p) =
       (if pv_Address p = [] then forwarded_values headerProviderPin (ctx_forwarded ctx) else [pv_Address p])
   \<and> header_values headerRouterProviderIdentityPin (request_headers ctx p) =
       (case if pv_Address p = [] then None else pv_RouterProviderIdentity p of
          None \<Rightarrow> forwarded_values headerRouterProviderIdentityPin (ctx_forwarded ctx)
        | Some i \<Rightarrow> if i = [] then [] else [i])
   \<and> header_values ''Authorization'' (request_headers ctx p) =
       (if ctx_credential ctx = [] then forwarded_values ''Authorization'' (ctx_forwarded ctx)
        else [ctx_credential ctx])"
proof -
  let ?h0 = "header_set ''Content-Type'' ''application/json'' []"
  let ?h1 = "fold add_all (ctx_forwarded ctx) ?h0"
  have w: "mwf ?h0" by simp
  have h1: "mwf ?h1" "header_values k ?h1 = header_values k ?h0 @ forwarded_values k (ctx_forwarded ctx)" for k
    using header_values_forwarded[OF w] by auto
  have nil: "header_values k [] = []" for k by (simp add: header_values_def or_else_def)
  show ?thesis
    by (simp add: request_headers_def Let_def h1 nil split: option.split)
qed

section \<open>The request the enclave opens\<close>

lemma withModel_get:
  "mwf req \<Longrightarrow> mget (withModel req m) k = (if k = ''model'' \<and> m \<noteq> [] then Some (JStr m) else mget req k)"
  by (simp add: withModel_def map_simps)

lemma withModel_ok:
  "mwf req \<Longrightarrow> json_ok (JObj req) \<Longrightarrow> mwf (withModel req m) \<and> json_ok (JObj (withModel req m))"
  by (simp add: withModel_def mwf_mput json_ok_mput del: json_ok.simps(3))

lemma json_ok_get: "json_ok (JObj m) \<Longrightarrow> mget m k = Some v \<Longrightarrow> json_ok v"
  by (force simp: mget_def dest: map_of_SomeD)

lemma stream_options_ok:
  assumes "stream_options raw = Some opts" "\<forall>v. raw = Some v \<longrightarrow> json_ok v"
  shows "mwf opts \<and> json_ok (JObj opts)"
proof -
  consider "opts = []" | kvs where "raw = Some (JObj kvs)" "opts = map_from kvs"
    using assms(1) by (auto simp: stream_options_def as_object_def split: option.splits json.splits)
  then show ?thesis
  proof cases
    case 2
    then have "json_ok (JObj kvs)" using assms(2) by blast
    then show ?thesis using json_ok_map_from 2(2) by (simp del: json_ok.simps(3))
  qed simp
qed

lemma withStreamUsage_ok:
  assumes "withStreamUsage p req = Some r" "mwf req" "json_ok (JObj req)"
  shows "mwf r \<and> json_ok (JObj r) \<and> (\<forall>k. k \<noteq> ''stream_options'' \<longrightarrow> mget r k = mget req k)"
proof (cases "r = req")
  case False
  then obtain opts where o: "stream_options (mget req ''stream_options'') = Some opts"
    "r = mput ''stream_options'' (JObj (mput ''include_usage'' (JBool True) opts)) req"
    using assms(1) by (auto simp: withStreamUsage_def split: option.splits if_splits)
  have "mwf opts \<and> json_ok (JObj opts)"
    using stream_options_ok[OF o(1)] json_ok_get[OF assms(3)] by blast
  then have "json_ok (JObj (mput ''include_usage'' (JBool True) opts))"
    by (intro json_ok_mput) simp_all
  then show ?thesis
    using json_ok_mput[OF assms(2,3)] assms(2) by (simp add: o(2) map_simps del: json_ok.simps(3))
qed (use assms in auto)

text \<open>A successful seal is one \<open>SealRequestFor\<close> of the prepared request.\<close>

lemma client_sealE:
  assumes "client_seal H J c p req ephPriv ephPub rnd = Some (Inr env)"
  obtains req1 req2 fs where
    "withStreamUsage (ep_Profile (cl_ep c)) (withModel req (pv_Model p)) = Some req1"
    "if bindsResponse c p then AttachResponseBind (ep_Profile (cl_ep c)) req1 ephPriv = Inr req2
     else req2 = req1"
    "SealRequestFor H J (ep_Profile (cl_ep c)) (pv_EncPubKey p) req2 (Some fs) (pv_SignerAddr p) ephPub
       (cl_unboundFields c) rnd = Inr env"
proof -
  obtain req1 where 1: "withStreamUsage (ep_Profile (cl_ep c)) (withModel req (pv_Model p)) = Some req1"
    using assms by (auto simp: client_seal_def)
  show ?thesis
  proof (cases "bindsResponse c p")
    case True
    then obtain req2 where "AttachResponseBind (ep_Profile (cl_ep c)) req1 ephPriv = Inr req2"
      "SealRequestFor H J (ep_Profile (cl_ep c)) (pv_EncPubKey p) req2
         (Some (let fields = client_sealedFieldsFor c req1 in
                if fieldBind \<in> set fields then fields else fields @ [fieldBind]))
         (pv_SignerAddr p) ephPub (cl_unboundFields c) rnd = Inr env"
      using assms 1 by (auto simp: client_seal_def Let_def bind_r_eq_Inr)
    then show ?thesis using that[OF 1, of req2] True by simp
  next
    case False
    then show ?thesis
      using assms that[OF 1, of req1] 1 by (simp add: client_seal_def Let_def)
  qed
qed


section \<open>A concrete client\<close>

definition demo_client :: Client where
  "demo_client = NewWithResolver []"

definition demo_provider :: Provider where
  "demo_provider = \<lparr>pv_URL = DefaultProviderURL, pv_EncPubKey = demo_key, pv_SignerAddr = demo_addr,
     pv_Address = ''0xp'', pv_RouterProviderIdentity = None, pv_Endpoint = [], pv_Model = ''m2'',
     pv_BindResponse = True\<rparr>"

lemma demo_client_fields [simp]:
  "cl_ep demo_client = ep_Chat" "cl_unboundFields demo_client = [''model'']"
  "cl_sealFields demo_client = [''messages'', ''tools'', ''tool_choice'']"
  "cl_metrics demo_client = False" "cl_resolveBudgetTO demo_client = resolveBudget"
  by (simp_all add: demo_client_def NewWithResolver_def DefaultUnboundFields_def Let_def
      DefaultSealedFieldsFor_def defaultRequestSealed_def spec_chat_def)

lemma demo_client_binds [simp]: "bindsResponse demo_client demo_provider"
  by (simp add: bindsResponse_def demo_provider_def ResponseBindApplies_def requiresBind_def spec_chat_def)

lemma demo_client_seal:
  "\<exists>env. client_seal ideal_hpke Some demo_client demo_provider demo_req demo_key demo_key rnd
     = Some (Inr env)"
proof -
  let ?r1 = "[(''messages'', JStr ''hi''), (''model'', JStr ''m2'')]"
  let ?b = "JStr (b64_encode (hkdf_key32 demo_key RespBindInfo))"
  have 1: "withStreamUsage ''chat'' (withModel demo_req (pv_Model demo_provider)) = Some ?r1"
    by (simp add: withStreamUsage_def withModel_def demo_req_def demo_provider_def)
  have 2: "AttachResponseBind ''chat'' ?r1 demo_key = Inr ((''_bind'', ?b) # ?r1)"
    by (simp add: AttachResponseBind_def DeriveResponseBind_def mhas_def)
  have 3: "client_sealedFieldsFor demo_client ?r1 = [''messages'']"
    by (simp add: client_sealedFieldsFor_def mhas_def)
  have "\<exists>env. SealRequestFor ideal_hpke Some ''chat'' demo_key ((''_bind'', ?b) # ?r1)
      (Some [''messages'', ''_bind'']) demo_addr demo_key [''model''] rnd = Inr env"
  proof (rule SealRequestFor_succeeds[OF demo_spec refl])
    show "SetupSender ideal_hpke demo_key SealInfo rnd
        = Inr (rnd, ([''base'', demo_key, SealInfo, rnd], 0))"
      by (rule ideal_sender) simp
    show "\<exists>r. SealerSeal ideal_hpke ([''base'', demo_key, SealInfo, rnd], 0) pt aad = Inr r" for pt aad
      by (metis ideal_seal_iff)
  qed (auto simp: resolve_sealed_def sealed_set_ok_def unbound_set_ok_def pinFor_def spec_chat_def
        mhas_def mwf_def)
  then show ?thesis
    using 1 2 3 by (simp add: client_seal_def Let_def demo_provider_def bindsResponse_def
        ResponseBindApplies_def requiresBind_def spec_chat_def)
qed


end
