(* ===== verification/Client_Demo.thy ===== *)
theory Client_Demo
  imports Client_StreamFacts Client_AsyncFacts Client_Sent
begin

text \<open>
  Concrete runs of the client: one provider behind a transport that always gives the same reply, with
  an HPKE in the clear and no signature checks, under the background context. The reply is a chat response
  of one frame.
\<close>

definition net_provider :: Provider where
  "net_provider = demo_provider\<lparr>pv_BindResponse := False\<rparr>"

text \<open>An HPKE that leaves the text as it is, on the keys and contexts of the ideal one.\<close>

definition clear_hpke :: "(bytes, bytes, ideal_ctx) hpke" where
  "clear_hpke = ideal_hpke\<lparr>lib_seal := (\<lambda>c pt aad. Some (pt, c)), lib_open := (\<lambda>c ct aad. Some (ct, c))\<rparr>"

lemma clear_hpke_facts:
  "SetupSender clear_hpke k info rnd = SetupSender ideal_hpke k info rnd"
  "SealerSeal clear_hpke c pt aad = Inr (pt, c)"
  "GenerateRecipientKey clear_hpke rnd = GenerateRecipientKey ideal_hpke rnd"
  by (simp_all add: clear_hpke_def SetupSender_def SealerSeal_def GenerateRecipientKey_def)

definition net_env :: "http_response \<Rightarrow> (bytes, bytes, ideal_ctx, unit) env" where
  "net_env resp = \<lparr>en_H = clear_hpke, en_J = Some, now = (\<lambda>_. 0), gone = (\<lambda>_. False),
     expired = (\<lambda>_. False), random = (\<lambda>w. (demo_key, w)), resolve = (\<lambda>_ _ _ w. (Inr 1, w)),
     materialize = (\<lambda>_ _ w. (Inr net_provider, w)), refresher = None,
     transport = (\<lambda>_ w. (Inr resp, w)), reading = (\<lambda>w. w), fetcher = None, recover = None,
     onFrame = (\<lambda>_ w. (None, w))\<rparr>"

lemma net_env_fields [simp]:
  "en_H (net_env resp) = clear_hpke" "en_J (net_env resp) = Some" "now (net_env resp) w = 0"
  "gone (net_env resp) w = False" "expired (net_env resp) w = False"
  "random (net_env resp) w = (demo_key, w)" "resolve (net_env resp) ctx ep req w = (Inr 1, w)"
  "materialize (net_env resp) i d w = (Inr net_provider, w)" "refresher (net_env resp) = None"
  "transport (net_env resp) hq w = (Inr resp, w)" "reading (net_env resp) w = w"
  "fetcher (net_env resp) = None" "recover (net_env resp) = None" "onFrame (net_env resp) r w = (None, w)"
  by (simp_all add: net_env_def)

lemma net_verify [simp]: "\<not> verifyEnabled (net_env resp)"
  by (simp add: verifyEnabled_def)

definition net_frame :: Response where
  "net_frame = [(''_e2ee'', JObj [(''v'', JNum ''1''), (''enc'', JStr ''cg''),
     (''sealed_fields'', JArr [JStr ''choices'']), (''unbound_fields'', JArr [JStr ''model'']),
     (''final'', JBool True), (''ciphertext'', JStr ''eyJjaG9pY2VzIjoiaGkifQ'')]),
     (''id'', JStr ''1'')]"

definition plain_text :: "Response \<Rightarrow> bytes \<Rightarrow> bool" where
  "plain_text m t \<longleftrightarrow> map_from m = m \<and> json_ok (JObj m) \<and> length t < 1000
     \<and> list_all (\<lambda>c. c \<noteq> CHR 0x0A) t \<and> last t = CHR ''}'' \<and> trim_space t \<noteq> ''[DONE]''"

definition print_plain :: "Response \<Rightarrow> bool" where
  "print_plain m = plain_text m (json_print (JObj m))"

lemma net_frame_plain: "print_plain net_frame"
  by code_simp

lemma net_frame_facts:
  "map_from net_frame = net_frame" "json_ok (JObj net_frame)" "length (json_print (JObj net_frame)) < 1000"
  "list_all (\<lambda>c. c \<noteq> CHR 0x0A) (json_print (JObj net_frame))"
  "last (json_print (JObj net_frame)) = CHR ''}''" "trim_space (json_print (JObj net_frame)) \<noteq> ''[DONE]''"
  using net_frame_plain unfolding print_plain_def plain_text_def by blast+

definition opened_as :: "(bytes, bytes, ideal_ctx) hpke \<Rightarrow> Response \<Rightarrow> Response option" where
  "opened_as H m =
     (case NewResponseOpenerFor H ''chat'' demo_key m of
        Inl _ \<Rightarrow> None
      | Inr ro \<Rightarrow> (case OpenFrame H Some ro m of Inl _ \<Rightarrow> None | Inr (out, _) \<Rightarrow> Some out))"

lemma net_frame_opened: "opened_as clear_hpke net_frame = Some demo_frame"
  by code_simp

lemma net_frame_opens:
  "\<exists>ro ro'. NewResponseOpenerFor clear_hpke ''chat'' demo_key net_frame = Inr ro
     \<and> OpenFrame clear_hpke Some ro net_frame = Inr (demo_frame, ro')"
  using net_frame_opened by (auto simp: opened_as_def split: sum.splits)

lemma net_frame_final: "is_final net_frame"
  by code_simp

lemma net_frame_meta: "\<exists>e. decodeResponseE2EE net_frame = Inr e \<and> re_Final e"
  using net_frame_final by (auto simp: is_final_def split: sum.splits)

lemma net_provider_fields [simp]:
  "pv_EncPubKey net_provider = demo_key" "pv_Model net_provider = ''m2''"
  "pv_SignerAddr net_provider = demo_addr" "pv_Address net_provider = ''0xp''"
  "\<not> bindsResponse c net_provider"
  by (simp_all add: net_provider_def demo_provider_def bindsResponse_def)

lemma clear_seal:
  assumes "pv_EncPubKey p = demo_key" "pv_Model p = ''m2''" "isSignerAddr (pv_SignerAddr p)"
    "\<not> bindsResponse demo_client p"
  shows "\<exists>env. client_seal clear_hpke Some demo_client p demo_req demo_key demo_key rnd = Some (Inr env)"
proof -
  let ?r1 = "[(''messages'', JStr ''hi''), (''model'', JStr ''m2'')]"
  have 1: "withStreamUsage ''chat'' (withModel demo_req ''m2'') = Some ?r1"
    by (simp add: withStreamUsage_def withModel_def demo_req_def)
  have 2: "client_sealedFieldsFor demo_client ?r1 = [''messages'']"
    by (simp add: client_sealedFieldsFor_def mhas_def)
  have "\<exists>env. SealRequestFor clear_hpke Some ''chat'' demo_key ?r1
      (Some [''messages'']) (pv_SignerAddr p) demo_key [''model''] rnd = Inr env"
  proof (rule SealRequestFor_succeeds[OF demo_spec refl])
    show "SetupSender clear_hpke demo_key SealInfo rnd
        = Inr (rnd, ([''base'', demo_key, SealInfo, rnd], 0))"
      by (simp add: clear_hpke_facts ideal_sender)
    show "\<exists>r. SealerSeal clear_hpke ([''base'', demo_key, SealInfo, rnd], 0) pt aad = Inr r" for pt aad
      by (simp add: clear_hpke_facts)
  qed (use assms(3) in \<open>auto simp: resolve_sealed_def sealed_set_ok_def unbound_set_ok_def pinFor_def spec_chat_def
        mhas_def mwf_def\<close>)
  then show ?thesis using 1 2 assms by (simp add: client_seal_def Let_def)
qed

lemma net_seal: "\<exists>env. client_seal clear_hpke Some demo_client net_provider demo_req demo_key demo_key rnd
     = Some (Inr env)"
  by (rule clear_seal) simp_all

lemma net_keys: "GenerateRecipientKey clear_hpke demo_key = Inr (demo_key, demo_key)"
  by (simp add: clear_hpke_def GenerateRecipientKey_def ideal_hpke_def ideal_key_def)

lemma unit_world [simp]: "(s :: unit state)\<lparr>world := w\<rparr> = s"
  by (cases s) simp

lemma net_walk:
  assumes "att net_provider (emit (EAttempt 0 net_provider 0) s) = ((r, Inr x), s')"
  shows "walk_chain (net_env resp) c att (Suc 0) s = (Inr x, s')"
proof -
  have "walk_limit \<lparr>cw_spent = 0, cw_budget = cl_resolveBudgetTO c\<rparr> > 0"
    by (simp add: walk_limit_def resolveBudget_def second_def)
  then show ?thesis
    using assms by (simp add: walk_chain_def walk_provider_def walk_timed_def ask_def
        attemptRekeying.simps[of False])
qed

text \<open>A buffered call.\<close>

definition net_reply :: http_response where
  "net_reply = \<lparr>hr_Status = 200, hr_Header = [], hr_Body = json_print (JObj net_frame), hr_End = None\<rparr>"

lemma net_reply_fields [simp]:
  "hr_Status net_reply = 200" "hr_Header net_reply = []" "hr_Body net_reply = json_print (JObj net_frame)"
  "hr_End net_reply = None"
  by (simp_all add: net_reply_def)

lemma net_complete:
  "\<exists>s'. Complete (net_env net_reply) demo_client background demo_req (start ()) = (Inr demo_frame, s')"
proof -
  obtain env where e: "client_seal clear_hpke Some demo_client net_provider demo_req demo_key demo_key demo_key
      = Some (Inr env)"
    using net_seal by blast
  have p: "json_parse (json_print (JObj net_frame)) = Some (JObj net_frame)"
    by (rule json_parse_print[OF net_frame_facts(2)])
  have o: "openReply (net_env net_reply) demo_client net_provider demo_key net_frame = Inr demo_frame"
    using net_frame_opens net_frame_meta by (auto simp: openReply_def OpenResponseFor_def)
  have "\<exists>s'. completeOnce (net_env net_reply) demo_client background demo_req demo_key demo_key net_provider
      (emit (EAttempt 0 net_provider 0) (start ())) = ((False, Inr demo_frame), s')"
    using e p o by (simp add: completeOnce_def complete_reply_def doRequest_def ask_def Let_def
        read_on_def as_object_def nil_map_def net_frame_facts(1))
  then obtain s' where "completeOnce (net_env net_reply) demo_client background demo_req demo_key demo_key
      net_provider (emit (EAttempt 0 net_provider 0) (start ())) = ((False, Inr demo_frame), s')"
    by blast
  from net_walk[where att = "completeOnce (net_env net_reply) demo_client background demo_req demo_key demo_key",
      OF this] show ?thesis by (simp add: Complete_def ask_def net_keys start_def)
qed

text \<open>A stream of one event.\<close>

definition net_text :: bytes where "net_text = json_print (JObj net_frame)"

definition net_stream :: http_response where
  "net_stream = \<lparr>hr_Status = 200, hr_Header = header_set ''Content-Type'' ''text/event-stream'' [],
     hr_Body = ''data: '' @ net_text @ [CHR 0x0A, CHR 0x0A], hr_End = None\<rparr>"

lemma net_text_facts: "CHR 0x0A \<notin> set net_text" "last net_text = CHR ''}''" "length net_text < 1000"
    "trim_space net_text \<noteq> ''[DONE]''" "json_parse net_text = Some (JObj net_frame)"
  using net_frame_facts(3-6) json_parse_print[OF net_frame_facts(2)]
  unfolding net_text_def list_all_iff by blast+

lemma net_stream_reader:
  "newSSEReader net_stream = \<lparr>sse_lines = [''data: '' @ net_text, []], sse_err = None\<rparr>"
proof -
  have n: "CHR 0x0A \<notin> set (''data: '' @ net_text)" using net_text_facts(1) by simp
  have s: "split_all (CHR 0x0A) ((''data: '' @ net_text) @ CHR 0x0A # [CHR 0x0A])
      = [''data: '' @ net_text, [], []]"
    unfolding split_all_append[OF n] by simp
  have l: "length (''data: '' @ net_text) < maxSSELine"
    using net_text_facts(3) by (simp add: maxSSELine_def)
  have c: "drop_cr (''data: '' @ net_text) = ''data: '' @ net_text"
    using net_text_facts(2) by (simp add: drop_cr_def)
  have "lines_upto maxSSELine [''data: '' @ net_text, []] = ([''data: '' @ net_text, []], False)"
    using l c by (simp add: drop_cr_def maxSSELine_def)
  then show ?thesis
    using s by (simp add: newSSEReader_def scan_lines_def net_stream_def)
qed

lemma net_next:
  "sse_next \<lparr>sse_lines = [''data: '' @ net_text, []], sse_err = None\<rparr>
     = (SData net_text, \<lparr>sse_lines = [], sse_err = None\<rparr>)"
  "sse_next \<lparr>sse_lines = [], sse_err = None\<rparr> = (SEnd, \<lparr>sse_lines = [], sse_err = None\<rparr>)"
  by (simp_all add: sse_next_def data_line_def cut_prefix_def trim_prefix_def)

lemma net_stream_fields [simp]:
  "hr_Status net_stream = 200" "is_event_stream (hr_Header net_stream)"
  by code_simp+

lemma net_pumped:
  "\<exists>s'. pump_frames (net_env net_stream) demo_client background net_provider h demo_key
      \<lparr>pm_reader = newSSEReader net_stream, pm_opener = None, pm_committed = False,
       pm_sawFinal = False, pm_binder = None, pm_idx = 0\<rparr> s
    = ((UpstreamOK, False, None), s') \<and> trace s' = trace s @ [EDeliver demo_frame]"
proof -
  obtain ro ro' where o: "NewResponseOpenerFor clear_hpke ''chat'' demo_key net_frame = Inr ro"
    "OpenFrame clear_hpke Some ro net_frame = Inr (demo_frame, ro')"
    using net_frame_opens by blast
  obtain fe where fe: "decodeResponseE2EE net_frame = Inr fe" "re_Final fe"
    using net_frame_meta by blast
  let ?pm = "\<lparr>pm_reader = \<lparr>sse_lines = [], sse_err = None\<rparr>, pm_opener = None, pm_committed = False,
       pm_sawFinal = False, pm_binder = None, pm_idx = 0\<rparr>"
  have "\<exists>pm' s'. pump_frame (net_env net_stream) demo_client background net_provider h demo_key net_text ?pm s
      = (Inr pm', s') \<and> pm_sawFinal pm' \<and> pm_binder pm' = None
      \<and> pm_reader pm' = \<lparr>sse_lines = [], sse_err = None\<rparr> \<and> trace s' = trace s @ [EDeliver demo_frame]"
    using o fe by (simp add: pump_frame_def net_text_facts(5) as_object_def nil_map_def net_frame_facts(1)
        frame_open_def newOpener_def bind_frame_def deliver_def ask_def commit_def recordMeta_def
        background_def report_metric_def)
  then obtain pm' s' where pf: "pump_frame (net_env net_stream) demo_client background net_provider h demo_key
        net_text ?pm s = (Inr pm', s')" "pm_sawFinal pm'" "pm_binder pm' = None"
      "pm_reader pm' = \<lparr>sse_lines = [], sse_err = None\<rparr>" "trace s' = trace s @ [EDeliver demo_frame]"
    by blast
  have r: "read_on (net_env net_stream) x = x" for x by (simp add: read_on_def)
  show ?thesis using pf net_text_facts(4)
    by (simp add: pump_frames.simps[of "net_env net_stream"] net_stream_reader
        net_next[simplified] r streamEnd_def)
qed

lemma net_streamed:
  "\<exists>s'. CompleteStream (net_env net_stream) demo_client background demo_req (start ()) = (Inr (), s')
     \<and> list_ex is_delivery (trace s')"
proof -
  obtain env where e: "client_seal clear_hpke Some demo_client net_provider demo_req demo_key demo_key demo_key
      = Some (Inr env)"
    using net_seal by blast
  let ?att = "stream_attempt (net_env net_stream) demo_client background demo_req demo_key demo_key"
  have "\<exists>s'. ?att net_provider (emit (EAttempt 0 net_provider 0) (start ())) = ((False, Inr ()), s')
      \<and> list_ex is_delivery (trace s')"
  proof -
    let ?s = "emit (EReply 200) (emit (EPost net_provider (provider_request background net_provider env))
        (emit (EAttempt 0 net_provider 0) (start ())))"
    obtain s' where s': "pump_frames (net_env net_stream) demo_client background net_provider
        (hr_Header net_stream) demo_key
        \<lparr>pm_reader = newSSEReader net_stream, pm_opener = None, pm_committed = False,
         pm_sawFinal = False, pm_binder = None, pm_idx = 0\<rparr> ?s = ((UpstreamOK, False, None), s')"
      "trace s' = trace ?s @ [EDeliver demo_frame]"
      using net_pumped by blast
    have "stream_reply (net_env net_stream) demo_client background net_provider env demo_key
        (emit (EAttempt 0 net_provider 0) (start ())) = ((UpstreamOK, False, None), s')"
      using s'(1) by (simp add: stream_reply_def doRequest_def ask_def Let_def)
    then show ?thesis using e s'(2)
      by (simp add: stream_attempt_def ask_def streamOnce_def report_metric_def)
  qed
  then obtain s' where s': "?att net_provider (emit (EAttempt 0 net_provider 0) (start ())) = ((False, Inr ()), s')"
    "list_ex is_delivery (trace s')"
    by blast
  from net_walk[where att = ?att, OF s'(1)] s'(2) show ?thesis
    by (auto simp: CompleteStream_def ask_def net_keys start_def)
qed

text \<open>A router that refuses with status 400.\<close>

definition net_refusal :: http_response where
  "net_refusal = \<lparr>hr_Status = 400, hr_Header = [], hr_Body = ''no'', hr_End = None\<rparr>"

lemma net_refused:
  "\<exists>e s'. Complete (net_env net_refusal) demo_client background demo_req (start ()) = (Inl e, s')
     \<and> list_ex is_attempt (trace s') \<and> e \<noteq> Panicked"
proof -
  obtain env where e: "client_seal clear_hpke Some demo_client net_provider demo_req demo_key demo_key demo_key
      = Some (Inr env)"
    using net_seal by blast
  have b: "walk_limit \<lparr>cw_spent = 0, cw_budget = cl_resolveBudgetTO demo_client\<rparr> > 0"
    by (simp add: walk_limit_def resolveBudget_def second_def)
  have m: "\<not> isKeyMismatch (status_error maxUpstreamErrorBytes net_refusal)"
    "status_error maxUpstreamErrorBytes net_refusal \<noteq> Panicked"
    by (simp_all add: isKeyMismatch_def status_error_def net_refusal_def)
  have a: "completeOnce (net_env net_refusal) demo_client background demo_req demo_key demo_key net_provider s
      = ((False, Inl (status_error maxUpstreamErrorBytes net_refusal)),
         emit (EReply 400) (emit (EPost net_provider (provider_request background net_provider env)) s))" for s
    using e by (simp add: completeOnce_def complete_reply_def doRequest_def ask_def Let_def read_on_def
        net_refusal_def retryableStatus_def report_metric_def)
  show ?thesis
    using a m b by (simp add: Complete_def ask_def net_keys walk_chain_def walk_provider_def walk_timed_def
        attemptRekeying.simps[of False])
qed

text \<open>A router that accepts a job.\<close>

definition job_client :: Client where "job_client = NewWithResolver [WithEndpoint ep_AsyncImage]"

definition job_req :: Request where
  "job_req = [(''prompt'', JStr ''hi''), (''response_format'', JStr ''b64_json'')]"

definition net_job :: http_response where
  "net_job = \<lparr>hr_Status = 202, hr_Header = [],
     hr_Body = ''{\"jobId\":\"j1\",\"provider_address\":\"0xP\"}'', hr_End = None\<rparr>"

lemma job_client_fields [simp]:
  "cl_ep job_client = ep_AsyncImage" "cl_unboundFields job_client = [''model'']"
  "cl_sealFields job_client = [''prompt'', ''_bind'']" "cl_metrics job_client = False"
  by (simp_all add: job_client_def NewWithResolver_def WithEndpoint_def DefaultUnboundFields_def Let_def
      DefaultSealedFieldsFor_def defaultRequestSealed_def spec_async_image_def ep_AsyncImage_def)

lemma job_seal:
  "\<exists>bound env. AttachAsyncBind job_req demo_key = Inr bound
     \<and> client_seal clear_hpke Some job_client net_provider bound demo_key demo_key demo_key = Some (Inr env)"
proof -
  let ?b = "JStr (b64_encode (hkdf_key32 demo_key RespBindInfo))"
  let ?r = "[(''_bind'', ?b), (''model'', JStr ''m2''), (''prompt'', JStr ''hi''), (''response_format'', JStr ''b64_json'')]"
  have 1: "AttachAsyncBind job_req demo_key
      = Inr [(''_bind'', ?b), (''prompt'', JStr ''hi''), (''response_format'', JStr ''b64_json'')]"
    by (simp add: AttachAsyncBind_def AttachResponseBind_def DeriveResponseBind_def job_req_def mhas_def)
  have 2: "withStreamUsage ProfileAsyncImage (withModel
      [(''_bind'', ?b), (''prompt'', JStr ''hi''), (''response_format'', JStr ''b64_json'')] ''m2'') = Some ?r"
    by (simp add: withStreamUsage_def withModel_def)
  have 3: "client_sealedFieldsFor job_client ?r = [''prompt'', ''_bind'']"
    by (simp add: client_sealedFieldsFor_def mhas_def)
  have tok: "cleartextToken (JStr ''b64_json'') = Some ''b64_json''"
    by code_simp
  have "\<exists>env. SealRequestFor clear_hpke Some ProfileAsyncImage demo_key ?r
      (Some [''prompt'', ''_bind'']) demo_addr demo_key [''model''] demo_key = Inr env"
  proof (rule SealRequestFor_succeeds[where spec = spec_async_image, OF _ refl])
    show "profile_spec ProfileAsyncImage = Inr spec_async_image" by simp
    show "SetupSender clear_hpke demo_key SealInfo demo_key
        = Inr (demo_key, ([''base'', demo_key, SealInfo, demo_key], 0))"
      by (simp add: clear_hpke_facts ideal_sender)
    show "\<exists>r. SealerSeal clear_hpke ([''base'', demo_key, SealInfo, demo_key], 0) pt aad = Inr r" for pt aad
      by (simp add: clear_hpke_facts)
  qed (auto simp: resolve_sealed_def sealed_set_ok_def unbound_set_ok_def pinFor_def spec_async_image_def
        mhas_def mwf_def pin_holds_def tok)
  then show ?thesis using 1 2 3
    by (simp add: client_seal_def Let_def ep_AsyncImage_def)
qed

definition job_out :: "bytes \<Rightarrow> Response" where
  "job_out k = [(''jobId'', JStr (''j1.'' @ b64_encode k)), (''provider_address'', JStr ''0xP'')]"

lemma job_answer: "userJobResponse (hr_Body net_job) net_provider demo_key = Inr (job_out demo_key)"
proof -
  have 1: "json_parse (hr_Body net_job)
      = Some (JObj [(''jobId'', JStr ''j1''), (''provider_address'', JStr ''0xP'')])"
    by code_simp
  have 2: "\<not> length (hr_Body net_job) > maxSubmitResponseBytes"
    by (simp add: net_job_def maxSubmitResponseBytes_def)
  have 3: "UserJobID ''j1'' demo_key = Inr (''j1.'' @ b64_encode demo_key)"
    by (simp add: UserJobID_def validateJobID_ok job_char_def bind_r_eq_Inr)
  have 4: "equal_fold ''0xP'' ''0xp''" by code_simp
  have 5: "map_from [(''jobId'', JStr ''j1''), (''provider_address'', JStr ''0xP'')]
      = [(''jobId'', JStr ''j1''), (''provider_address'', JStr ''0xP'')]"
    by code_simp
  show ?thesis
    using 2 3 4 by (simp add: userJobResponse_def or_else_def 1 5 as_object_def as_string_def str_into_def mhas_def
        job_out_def Let_def)
qed

lemma net_submitted:
  "\<exists>s'. SubmitAsync (net_env net_job) job_client background job_req (start ()) = (Inr (job_out demo_key, 202), s')"
proof -
  obtain bound env where e: "AttachAsyncBind job_req demo_key = Inr bound"
    "client_seal clear_hpke Some job_client net_provider bound demo_key demo_key demo_key = Some (Inr env)"
    using job_seal by blast
  let ?att = "submitOnce (net_env net_job) job_client background job_req"
  have b: "take (maxSubmitResponseBytes + 1) (hr_Body net_job) = hr_Body net_job"
    "length (hr_Body net_job) \<le> maxSubmitResponseBytes" "hr_Status net_job = 202" "hr_End net_job = None"
    by (simp_all add: net_job_def maxSubmitResponseBytes_def)
  have "\<exists>s'. ?att net_provider (emit (EAttempt 0 net_provider 0) (start ()))
      = ((False, Inr (job_out demo_key, 202)), s')"
    using e b job_answer
    by (simp add: submitOnce_def ask_def net_keys submit_reply_def doRequest_def Let_def)
  then obtain s' where "?att net_provider (emit (EAttempt 0 net_provider 0) (start ()))
      = ((False, Inr (job_out demo_key, 202)), s')"
    by blast
  from net_walk[where att = ?att, OF this] show ?thesis
    by (simp add: SubmitAsync_def ask_def start_def ep_AsyncImage_def)
qed

section \<open>The properties at these runs\<close>

lemma net_handler [simp]: "handler_plain (net_env resp)"
  by (simp add: handler_plain_def handler_error_def)

lemma net_deadlines [simp]: "keeps_deadlines (net_env resp)"
  by (simp add: keeps_deadlines_def by_deadline_def)


theorem Complete_bounded_witness:
  "\<exists>s'. Complete (net_env net_reply) demo_client background demo_req (start ()) = (Inr demo_frame, s')
     \<and> length (filter is_post (trace s')) \<le> 1"
proof -
  obtain s' where r: "Complete (net_env net_reply) demo_client background demo_req (start ())
      = (Inr demo_frame, s')"
    using net_complete by blast
  have "resolve (net_env net_reply) background (cl_ep demo_client) demo_req () = (Inr 1, ())"
    "random (net_env net_reply) () = (demo_key, ())"
    by simp_all
  from Complete_bounded[OF r this net_deadlines] r show ?thesis by auto
qed

theorem CompleteStream_commits_witness:
  "\<exists>s'. CompleteStream (net_env net_stream) demo_client background demo_req (start ()) = (Inr (), s')
     \<and> list_ex is_delivery (trace s')
     \<and> never_after (\<lambda>e. is_post e \<or> is_attempt e) is_delivery (trace s')"
  using net_streamed CompleteStream_commits[OF _ net_handler] by blast


theorem Complete_reports_last_answer_witness:
  "\<exists>e s' ephPub ephPriv i p t s0 retry s1.
     Complete (net_env net_refusal) demo_client background demo_req (start ()) = (Inl e, s')
     \<and> completeOnce (net_env net_refusal) demo_client background demo_req ephPub ephPriv p
         (emit (EAttempt i p t) s0) = ((retry, Inl e), s1)"
proof -
  obtain e s' where r: "Complete (net_env net_refusal) demo_client background demo_req (start ()) = (Inl e, s')"
    "list_ex is_attempt (trace s')" "e \<noteq> Panicked"
    using net_refused by blast
  from Complete_reports_last_answer[OF r] r(1) show ?thesis by blast
qed

theorem SubmitAsync_job_witness:
  "\<exists>s' i p ephPriv ephPub rnd bound sealed.
     SubmitAsync (net_env net_job) job_client background job_req (start ()) = (Inr (job_out demo_key, 202), s')
     \<and> provided (net_env net_job) i p \<and> AttachAsyncBind job_req ephPriv = Inr bound
     \<and> client_seal clear_hpke Some job_client p bound ephPriv ephPub rnd = Some (Inr sealed)
     \<and> accepted_job (net_env net_job) background p sealed ephPriv (job_out demo_key) 202"
proof -
  obtain s' where r: "SubmitAsync (net_env net_job) job_client background job_req (start ())
      = (Inr (job_out demo_key, 202), s')"
    using net_submitted by blast
  from SubmitAsync_job[OF r] r show ?thesis unfolding net_env_fields by blast
qed

end
