(* ===== verification/Client_Liveness.thy ===== *)
theory Client_Liveness
  imports Client_Demo
begin

text \<open>
  The walk does its work: within its budget, with a caller that waits, the first healthy candidate of
  a chain answers the call, whatever transient failures come before it.
\<close>

section \<open>Any kind of attempt\<close>

definition answers :: "('w, 'a) attempt \<Rightarrow> Provider \<Rightarrow> 'a \<Rightarrow> bool" where
  "answers att p x \<longleftrightarrow> (\<forall>s. \<exists>r s'. att p s = ((r, Inr x), s'))"

definition falls :: "('w, 'a) attempt \<Rightarrow> Provider \<Rightarrow> bool" where
  "falls att p \<longleftrightarrow> (\<forall>s. \<exists>e s'. att p s = ((True, Inl e), s') \<and> e \<noteq> Panicked \<and> \<not> isKeyMismatch e)"

text \<open>What becomes of preparing a candidate, whatever the deadline and the world.\<close>

definition prepared :: "('pk, 'sk, 'ctx, 'w) env \<Rightarrow> nat \<Rightarrow> (gerr + Provider \<Rightarrow> bool) \<Rightarrow> bool" where
  "prepared E i P \<longleftrightarrow> (\<forall>d w. P (fst (materialize E i d w)))"

definition unprepared :: "gerr + Provider \<Rightarrow> bool" where
  "unprepared r \<longleftrightarrow> (\<exists>e. r = Inl e \<and> e \<noteq> Panicked)"

definition metered :: "('pk, 'sk, 'ctx, 'w) env \<Rightarrow> int \<Rightarrow> candidateWalk \<Rightarrow> 'w state \<Rightarrow> bool" where
  "metered E orig walk s \<longleftrightarrow> cw_spent walk = now E (world s) - orig"

lemma metered_metric [simp]:
  "metered E orig walk (metricFallback c r i n s) = metered E orig walk s"
  by (simp add: metered_def)

lemma walk_provider_metered:
  assumes "walk_provider E i walk s = (r, walk', s')" "metered E orig walk s"
    and "\<forall>w. now E w < orig + walk_limit walk"
  shows "metered E orig walk' s'" "walk_limit walk' = walk_limit walk" "\<exists>d w. r = fst (materialize E i d w)"
    "\<not> walk_exhausted walk'"
proof -
  have "cw_spent walk < walk_limit walk"
    using assms(2) assms(3)[rule_format, of "world s"] by (simp add: metered_def)
  then obtain d where a: "ask (materialize E i d) s = (r, s')"
    "walk' = walk_charge (now E (world s') - now E (world s)) walk"
    using assms(1) by (auto simp: walk_provider_def walk_timed_def Let_def split: prod.splits)
  show "metered E orig walk' s'" "walk_limit walk' = walk_limit walk"
    using assms(2) by (simp_all add: a(2) metered_def walk_charge_def walk_limit_def)
  then show "\<not> walk_exhausted walk'"
    using assms(3)[rule_format, of "world s'"] by (simp add: walk_exhausted_def metered_def)
  show "\<exists>d w. r = fst (materialize E i d w)"
    using trace_ask[OF a(1)] by (metis fst_conv)
qed

lemma candidates_reach:
  assumes "\<forall>w. \<not> gone E w"
    and "\<forall>j\<in>set is. prepared E j (\<lambda>r. unprepared r \<or> (\<exists>p. r = Inr p \<and> falls att p))"
    and "prepared E i (\<lambda>r. \<exists>p. r = Inr p \<and> answers att p x)"
  shows "metered E orig walk s \<Longrightarrow> \<forall>w. now E w < orig + walk_limit walk \<Longrightarrow>
     \<exists>s'. walk_candidates E c att n (is @ i # js) walk fail s = (Inr x, s')"
  using assms(2)
proof (induction "is" arbitrary: walk fail s)
  case Nil
  obtain r walk1 s1 where wp: "walk_provider E i walk s = (r, walk1, s1)" by (metis surj_pair)
  note m = walk_provider_metered[OF wp Nil(1,2)]
  obtain p where p: "r = Inr p" "answers att p x" using m(3) assms(3) by (auto simp: prepared_def)
  obtain rt s2 where "att p (emit (EAttempt i p (now E (world s1))) s1) = ((rt, Inr x), s2)"
    using p(2) unfolding answers_def by blast
  then show ?case using wp p(1) by (simp add: attemptRekeying.simps[of False])
next
  case (Cons j "is")
  obtain r walk1 s1 where wp: "walk_provider E j walk s = (r, walk1, s1)" by (metis surj_pair)
  note m = walk_provider_metered[OF wp Cons.prems(1,2)]
  have lim: "\<forall>w. now E w < orig + walk_limit walk1" using Cons.prems(2) m(2) by simp
  have IH: "\<exists>s'. walk_candidates E c att n (is @ i # js) walk' fail' s'' = (Inr x, s')"
    if "metered E orig walk' s''" "walk_limit walk' = walk_limit walk1" for walk' fail' s''
    by (rule Cons.IH) (use that lim Cons.prems(3) in simp_all)
  obtain d w where dw: "r = fst (materialize E j d w)" using m(3) by blast
  have r: "unprepared r \<or> (\<exists>p. r = Inr p \<and> falls att p)"
    using Cons.prems(3) by (simp add: prepared_def dw)
  show ?case
  proof (cases r)
    case (Inl e)
    then have "e \<noteq> Panicked" using r by (auto simp: unprepared_def)
    then show ?thesis
      using wp Inl assms(1) m(4) IH[of walk1 "metricFallback c FallbackMaterialize j n s1"] m(1) by simp
  next
    case (Inr p)
    then have "falls att p" using r by (auto simp: unprepared_def)
    then obtain e s2 where a: "att p (emit (EAttempt j p (now E (world s1))) s1) = ((True, Inl e), s2)"
      "e \<noteq> Panicked" "\<not> isKeyMismatch e"
      unfolding falls_def by blast
    let ?w = "walk_charge (now E (world s2) - now E (world s1)) walk1"
    have w: "metered E orig ?w s2" "walk_limit ?w = walk_limit walk1"
      using m(1) by (simp_all add: metered_def walk_charge_def walk_limit_def)
    then have "\<not> walk_exhausted ?w"
      using lim[rule_format, of "world s2"] by (simp add: walk_exhausted_def metered_def)
    then show ?thesis
      using wp Inr a assms(1) w IH[of ?w "metricFallback c FallbackUpstream j n s2"]
      by (simp add: attemptRekeying.simps[of False] Let_def)
  qed
qed

lemma chain_reaches:
  assumes "\<forall>w. \<not> gone E w" "i < n"
    and "\<forall>j<i. prepared E j (\<lambda>r. unprepared r \<or> (\<exists>p. r = Inr p \<and> falls att p))"
    and "prepared E i (\<lambda>r. \<exists>p. r = Inr p \<and> answers att p x)"
    and "\<forall>w. now E w < now E (world s)
           + (if cl_resolveBudgetTO c > 0 then cl_resolveBudgetTO c else resolveBudget)"
  shows "\<exists>s'. walk_chain E c att n s = (Inr x, s')"
proof -
  let ?walk = "\<lparr>cw_spent = 0, cw_budget = cl_resolveBudgetTO c\<rparr>"
  have split: "[0..<n] = [0..<i] @ i # [Suc i..<n]"
    using assms(2) by (metis less_imp_le_nat upt_add_eq_append upt_conv_Cons le_add_diff_inverse zero_le)
  show ?thesis
    unfolding walk_chain_def split
    by (rule candidates_reach[OF assms(1) _ assms(4), where orig = "now E (world s)"])
      (use assms(3,5) in \<open>auto simp: metered_def walk_limit_def split: if_splits\<close>)
qed

section \<open>Complete\<close>

text \<open>
  A provider that is up: it answers every request sealed to it with a response that opens to \<open>out\<close>,
  and, where verification is on, its signature can be fetched and verifies.
\<close>

definition healthy ::
    "('pk, 'sk, 'ctx, 'w) env \<Rightarrow> Client \<Rightarrow> Ctx \<Rightarrow> Request \<Rightarrow> bytes \<Rightarrow> bytes \<Rightarrow> Response \<Rightarrow> Provider \<Rightarrow> bool" where
  "healthy E c ctx req ephPub ephPriv out p \<longleftrightarrow>
     (\<forall>v. \<exists>sealed. client_seal (en_H E) (en_J E) c p req ephPriv ephPub (fst (random E v)) = Some (Inr sealed)
        \<and> (\<forall>w. \<exists>resp w' m. transport E (provider_request ctx p sealed) w = (Inr resp, w')
              \<and> hr_Status resp = 200 \<and> hr_End resp = None
              \<and> Option.bind (json_parse (hr_Body resp)) as_object = Some m
              \<and> openReply E c p ephPriv (nil_map m) = Inr out
              \<and> (verifyEnabled E \<longrightarrow> header_get headerResKey (hr_Header resp) \<noteq> []
                   \<and> (\<exists>f. fetcher E = Some f \<and> (\<forall>u. \<exists>sig u'.
                        f p (header_get headerResKey (hr_Header resp)) u = (Inr sig, u')
                        \<and> VerifyE2EE (en_J E) sig sealed (nil_map m) (pv_SignerAddr p) (recover E) = Inr ())))))"

text \<open>A provider that is busy: it answers every request sealed to it with 429 or 5xx.\<close>

definition busy ::
    "('pk, 'sk, 'ctx, 'w) env \<Rightarrow> Client \<Rightarrow> Ctx \<Rightarrow> Request \<Rightarrow> bytes \<Rightarrow> bytes \<Rightarrow> Provider \<Rightarrow> bool" where
  "busy E c ctx req ephPub ephPriv p \<longleftrightarrow>
     (\<forall>v. \<exists>sealed. client_seal (en_H E) (en_J E) c p req ephPriv ephPub (fst (random E v)) = Some (Inr sealed)
        \<and> (\<forall>w. \<exists>resp w'. transport E (provider_request ctx p sealed) w = (Inr resp, w')
              \<and> retryableStatus (hr_Status resp)))"

lemma healthy_answers:
  assumes "healthy E c ctx req ephPub ephPriv out p"
  shows "answers (completeOnce E c ctx req ephPub ephPriv) p out"
  unfolding answers_def
proof
  fix s
  obtain rnd s1 where a: "ask (random E) s = (rnd, s1)" by (metis surj_pair)
  have rnd: "rnd = fst (random E (world s))" using trace_ask[OF a] by simp
  obtain sealed where sealed: "client_seal (en_H E) (en_J E) c p req ephPriv ephPub rnd = Some (Inr sealed)"
    and tr: "\<And>w. \<exists>resp w' m. transport E (provider_request ctx p sealed) w = (Inr resp, w')
              \<and> hr_Status resp = 200 \<and> hr_End resp = None
              \<and> Option.bind (json_parse (hr_Body resp)) as_object = Some m
              \<and> openReply E c p ephPriv (nil_map m) = Inr out
              \<and> (verifyEnabled E \<longrightarrow> header_get headerResKey (hr_Header resp) \<noteq> []
                   \<and> (\<exists>f. fetcher E = Some f \<and> (\<forall>u. \<exists>sig u'.
                        f p (header_get headerResKey (hr_Header resp)) u = (Inr sig, u')
                        \<and> VerifyE2EE (en_J E) sig sealed (nil_map m) (pv_SignerAddr p) (recover E) = Inr ())))"
    using assms unfolding healthy_def rnd by blast
  obtain v s2 where d: "doRequest E ctx p sealed s1 = (v, s2)" by (metis surj_pair)
  obtain resp m where v: "v = Inr resp" and m: "hr_Status resp = 200" "hr_End resp = None"
    "Option.bind (json_parse (hr_Body resp)) as_object = Some m" "openReply E c p ephPriv (nil_map m) = Inr out"
    and sg: "verifyEnabled E \<longrightarrow> header_get headerResKey (hr_Header resp) \<noteq> []
                   \<and> (\<exists>f. fetcher E = Some f \<and> (\<forall>u. \<exists>sig u'.
                        f p (header_get headerResKey (hr_Header resp)) u = (Inr sig, u')
                        \<and> VerifyE2EE (en_J E) sig sealed (nil_map m) (pv_SignerAddr p) (recover E) = Inr ()))"
    using tr[of "world s1"] d by (auto simp: doRequest_def Let_def ask_def)
  have "\<exists>s3. (if verifyEnabled E then verifyNonStream E c p (hr_Header resp) sealed (nil_map m) (read_on E s2)
      else (None, read_on E s2)) = (None, s3)"
  proof (cases "verifyEnabled E")
    case True
    then obtain f where f: "header_get headerResKey (hr_Header resp) \<noteq> []" "fetcher E = Some f"
      "\<And>u. \<exists>sig u'. f p (header_get headerResKey (hr_Header resp)) u = (Inr sig, u')
         \<and> VerifyE2EE (en_J E) sig sealed (nil_map m) (pv_SignerAddr p) (recover E) = Inr ()"
      using sg by blast
    obtain sg u' where "f p (header_get headerResKey (hr_Header resp)) (world (read_on E s2)) = (Inr sg, u')"
      "VerifyE2EE (en_J E) sg sealed (nil_map m) (pv_SignerAddr p) (recover E) = Inr ()"
      using f(3) by blast
    then show ?thesis using True f(1,2)
      by (simp add: verifyNonStream_def verify_fetched_def fetchSig_def Let_def ask_def)
  qed simp
  then obtain s3 where s3: "(if verifyEnabled E then verifyNonStream E c p (hr_Header resp) sealed (nil_map m)
      (read_on E s2) else (None, read_on E s2)) = (None, s3)" by blast
  have "complete_reply E c ctx p sealed ephPriv s1
      = (UpstreamOK, (False, Inr out), recordMeta ctx p (hr_Header resp) s3)"
    unfolding complete_reply_def d v using m s3 by (simp add: Let_def)
  then show "\<exists>r s'. completeOnce E c ctx req ephPub ephPriv p s = ((r, Inr out), s')"
    using a sealed by (auto simp: completeOnce_def)
qed

lemma busy_falls:
  assumes "busy E c ctx req ephPub ephPriv p"
  shows "falls (completeOnce E c ctx req ephPub ephPriv) p"
  unfolding falls_def
proof
  fix s
  obtain rnd s1 where a: "ask (random E) s = (rnd, s1)" by (metis surj_pair)
  have rnd: "rnd = fst (random E (world s))" using trace_ask[OF a] by simp
  obtain sealed where sealed: "client_seal (en_H E) (en_J E) c p req ephPriv ephPub rnd = Some (Inr sealed)"
    and tr: "\<And>w. \<exists>resp w'. transport E (provider_request ctx p sealed) w = (Inr resp, w')
              \<and> retryableStatus (hr_Status resp)"
    using assms unfolding busy_def rnd by blast
  obtain resp w' where t: "transport E (provider_request ctx p sealed) (world s1) = (Inr resp, w')"
    "retryableStatus (hr_Status resp)"
    using tr by blast
  have "hr_Status resp \<noteq> 200" "hr_Status resp \<noteq> 409" using t(2) by (auto simp: retryableStatus_def)
  then show "\<exists>e s'. completeOnce E c ctx req ephPub ephPriv p s = ((True, Inl e), s')
      \<and> e \<noteq> Panicked \<and> \<not> isKeyMismatch e"
    using a sealed t by (simp add: completeOnce_def complete_reply_def doRequest_def ask_def Let_def
        status_error_def isKeyMismatch_def)
qed

text \<open>
  C11: A healthy provider is reached. While the caller waits and the walk's budget lasts, a call to
  \<open>Complete\<close> returns the answer of the first candidate that is up, when each candidate before it
  could not be prepared or answers with 429 or 5xx.
\<close>

theorem Complete_reaches_healthy:
  assumes "resolve E ctx (cl_ep c) req w = (Inr n, w1)" "random E w1 = (rnd, w2)"
    and "GenerateRecipientKey (en_H E) rnd = Inr (ephPriv, ephPub)"
    and "\<forall>v. \<not> gone E v"
    and "\<forall>v. now E v < now E w2 + (if cl_resolveBudgetTO c > 0 then cl_resolveBudgetTO c else resolveBudget)"
    and "i < n"
    and "\<forall>j<i. prepared E j (\<lambda>r. unprepared r \<or> (\<exists>p. r = Inr p \<and> busy E c ctx req ephPub ephPriv p))"
    and "prepared E i (\<lambda>r. \<exists>p. r = Inr p \<and> healthy E c ctx req ephPub ephPriv out p)"
  shows "\<exists>s'. Complete E c ctx req (start w) = (Inr out, s')"
proof -
  let ?att = "completeOnce E c ctx req ephPub ephPriv"
  have before: "\<forall>j<i. prepared E j (\<lambda>r. unprepared r \<or> (\<exists>p. r = Inr p \<and> falls ?att p))"
    using assms(7) busy_falls unfolding prepared_def by blast
  have up: "prepared E i (\<lambda>r. \<exists>p. r = Inr p \<and> answers ?att p out)"
    using assms(8) healthy_answers unfolding prepared_def by blast
  have "\<exists>s'. walk_chain E c ?att n (start w\<lparr>world := w2\<rparr>) = (Inr out, s')"
    by (rule chain_reaches[OF assms(4,6) before up]) (use assms(5) in simp)
  then show ?thesis using assms(1-3) by (simp add: Complete_def ask_def)
qed

text \<open>A chain of two, whose first candidate cannot be prepared.\<close>

definition pair_env :: "(bytes, bytes, ideal_ctx, unit) env" where
  "pair_env = (net_env net_reply)\<lparr>resolve := (\<lambda>_ _ _ w. (Inr 2, w)),
     materialize := (\<lambda>i _ w. (if i = 0 then Inl (Plain ''no address'') else Inr net_provider, w))\<rparr>"

lemma pair_env_fields [simp]:
  "en_H pair_env = clear_hpke" "en_J pair_env = Some" "now pair_env w = 0" "gone pair_env w = False"
  "random pair_env w = (demo_key, w)" "resolve pair_env ctx ep req w = (Inr 2, w)"
  "transport pair_env hq w = (Inr net_reply, w)" "\<not> verifyEnabled pair_env"
  "materialize pair_env i d w = (if i = 0 then Inl (Plain ''no address'') else Inr net_provider, w)"
  by (simp_all add: pair_env_def verifyEnabled_def)

theorem Complete_reaches_healthy_witness:
  "\<exists>s'. Complete pair_env demo_client background demo_req (start ()) = (Inr demo_frame, s')"
proof -
  have "healthy pair_env demo_client background demo_req demo_key demo_key demo_frame net_provider"
  proof -
    obtain env where e: "client_seal clear_hpke Some demo_client net_provider demo_req demo_key demo_key demo_key
        = Some (Inr env)"
      using net_seal by blast
    have "openReply pair_env demo_client net_provider demo_key net_frame = Inr demo_frame"
      using net_frame_opens net_frame_meta by (auto simp: openReply_def OpenResponseFor_def)
    then show ?thesis
      using e json_parse_print[OF net_frame_facts(2)]
      by (simp add: healthy_def as_object_def nil_map_def net_frame_facts(1))
  qed
  then have h: "prepared pair_env 1
      (\<lambda>r. \<exists>p. r = Inr p \<and> healthy pair_env demo_client background demo_req demo_key demo_key demo_frame p)"
    by (simp add: prepared_def)
  have u: "\<forall>j<1. prepared pair_env j (\<lambda>r. unprepared r
      \<or> (\<exists>p. r = Inr p \<and> busy pair_env demo_client background demo_req demo_key demo_key p))"
    by (simp add: prepared_def unprepared_def)
  show ?thesis
    by (rule Complete_reaches_healthy[where n = 2 and rnd = demo_key and ephPriv = demo_key and ephPub = demo_key
        and i = 1 and out = demo_frame, OF _ _ _ _ _ _ u h])
      (simp_all add: net_keys resolveBudget_def second_def)
qed

end
