(* ===== verification/Chain_Registry.thy ===== *)
theory Chain_Registry
  imports Client_Complete Evid_Replay
begin

text \<open>
  client/chain, registry.go and network.go: reading a provider's acknowledged signer from the
  InferenceServing contract, by one \<open>eth_call\<close> with retries and the decoding of the ABI-encoded
  answer. Offsets are 64-bit words, as in the code; a slice out of range is a panic, the value
  \<open>None\<close>. The HTTP client and the context are the record \<open>rpc\<close>.
\<close>

section \<open>Addresses\<close>

definition isHexAddress :: "string \<Rightarrow> bool" where
  "isHexAddress s = (length s = 42 \<and> prefix ''0x'' s \<and> hex_decode (drop 2 s) \<noteq> None)"

definition ProviderKey :: "string \<Rightarrow> string" where
  "ProviderKey a = to_lower (trim_space a)"

text \<open>On an address of 40 digits; a longer one would be a negative repeat count.\<close>

definition leftPad32 :: "string \<Rightarrow> string" where
  "leftPad32 addr =
     (let h = to_lower (trim_prefix ''0x'' addr) in replicate (64 - length h) (CHR ''0'') @ h)"

section \<open>The registry\<close>

record Signer =
  sg_Address :: string
  sg_Acknowledged :: bool
  sg_Stale :: bool
  sg_Cached :: bool

record ServiceInfo =
  si_URL :: string
  si_Signer :: string
  si_Acknowledged :: bool

datatype chain_err =
    EmptyRPCURL | BadContract string | BadProvider string
  | BuildRPC | RPCFailed | RPCRead | RPCStatus int | RPCDecode | RPCError int string | RPCHex
  | RPCCanceled "chain_err option" | RPCAttempts "chain_err option"
  | ServiceShort | OffsetRange | ServiceStructShort | NotPadded
  | URLOffset | URLSlot | URLLength | URLTruncated | ContextEnded

record chain_config =
  cc_RPCURL :: string
  cc_ContractAddress :: string
  cc_BlockTag :: string

record OnChainRegistry =
  oc_rpcURL :: string
  oc_contract :: string
  oc_blockTag :: string

definition DefaultInferenceServingAddress :: string where
  "DefaultInferenceServingAddress = ''0x47340d900bdFec2BD393c626E12ea0656F938d84''"

definition DefaultChainRPCURL :: string where
  "DefaultChainRPCURL = ''https://evmrpc.0g.ai''"

definition NewOnChainRegistry :: "chain_config \<Rightarrow> chain_err + OnChainRegistry" where
  "NewOnChainRegistry cfg =
     bind_r (fail_if (trim_space (cc_RPCURL cfg) = []) EmptyRPCURL) (\<lambda>_.
     let contract = (if cc_ContractAddress cfg = [] then DefaultInferenceServingAddress
                     else cc_ContractAddress cfg) in
     bind_r (fail_if (\<not> isHexAddress contract) (BadContract contract)) (\<lambda>_.
     Inr \<lparr>oc_rpcURL = cc_RPCURL cfg, oc_contract = contract,
          oc_blockTag = (if cc_BlockTag cfg = [] then ''latest'' else cc_BlockTag cfg)\<rparr>))"

section \<open>One call\<close>

definition getServiceSelector :: string where "getServiceSelector = ''15a52302''"
definition maxRPCBodyBytes :: nat where "maxRPCBodyBytes = 2 ^ 20"
definition rpcAttempts :: nat where "rpcAttempts = 3"

text \<open>
  What a call uses: the request a URL and body make (\<open>None\<close> when the URL does not parse), its
  transport, whether the caller's context is done, and the pause before another attempt, cut short
  when it is.
\<close>

record 'w rpc =
  rpc_valid :: "string \<Rightarrow> bool"
  rpc_post :: "string \<Rightarrow> json \<Rightarrow> 'w \<Rightarrow> http_response option \<times> 'w"
  rpc_done :: "'w \<Rightarrow> bool"
  rpc_pause :: "'w \<Rightarrow> bool \<times> 'w"

definition rpc_retryable :: "int \<Rightarrow> bool" where
  "rpc_retryable st = (st = 429 \<or> (500 \<le> st \<and> st \<le> 599))"

record rpc_answer =
  ra_Result :: string
  ra_Error :: "(int \<times> string) option"

definition rpc_error_into :: "json \<Rightarrow> (int \<times> string) option \<Rightarrow> (int \<times> string) option option" where
  "rpc_error_into v old =
     (if v = JNull then Some None
      else map_option Some
        (decode_struct [''code'', ''message'']
           (\<lambda>n x (c, m). if n = ''code'' then map_option (\<lambda>c'. (c', m)) (int_into x c)
                         else map_option (\<lambda>m'. (c, m')) (str_into x m))
           (or_else (0, []) old) v))"

definition rpc_answer_of :: "json \<Rightarrow> rpc_answer option" where
  "rpc_answer_of v =
     decode_struct [''result'', ''error'']
       (\<lambda>n x r. if n = ''result'' then map_option (\<lambda>s. r\<lparr>ra_Result := s\<rparr>) (str_into x (ra_Result r))
                else map_option (\<lambda>e. r\<lparr>ra_Error := e\<rparr>) (rpc_error_into x (ra_Error r)))
       \<lparr>ra_Result = [], ra_Error = None\<rparr> v"

text \<open>An attempt's error comes with whether another attempt is worth it.\<close>

definition ethCallOnce ::
    "'w rpc \<Rightarrow> OnChainRegistry \<Rightarrow> json \<Rightarrow> 'w \<Rightarrow> (chain_err \<times> bool + bytes) \<times> 'w" where
  "ethCallOnce R oc req w =
     (if \<not> rpc_valid R (oc_rpcURL oc) then (Inl (BuildRPC, False), w)
      else case rpc_post R (oc_rpcURL oc) req w of
        (None, w') \<Rightarrow> (Inl (RPCFailed, True), w')
      | (Some resp, w') \<Rightarrow>
          (let body = take maxRPCBodyBytes (hr_Body resp) in
           (if hr_End resp \<noteq> None \<and> length (hr_Body resp) < maxRPCBodyBytes then Inl (RPCRead, True)
            else if hr_Status resp \<noteq> 200
            then Inl (RPCStatus (hr_Status resp), rpc_retryable (hr_Status resp))
            else bind_r (opt_r (Option.bind (json_parse body) rpc_answer_of) (RPCDecode, False)) (\<lambda>a.
                 case ra_Error a of
                   Some (code, msg) \<Rightarrow> Inl (RPCError code msg, False)
                 | None \<Rightarrow> opt_r (hex_decode (trim_prefix ''0x'' (ra_Result a))) (RPCHex, False)),
            w')))"

definition eth_call_json :: "OnChainRegistry \<Rightarrow> string \<Rightarrow> json" where
  "eth_call_json oc calldata =
     JObj [(''jsonrpc'', JStr ''2.0''), (''id'', JNum ''1''), (''method'', JStr ''eth_call''),
           (''params'', JArr [JObj [(''data'', JStr calldata), (''to'', JStr (oc_contract oc))],
                             JStr (oc_blockTag oc)])]"

text \<open>The attempts left; the last error is \<open>None\<close> before the first.\<close>

fun eth_attempts ::
    "'w rpc \<Rightarrow> OnChainRegistry \<Rightarrow> json \<Rightarrow> nat \<Rightarrow> chain_err option \<Rightarrow> 'w \<Rightarrow> (chain_err + bytes) \<times> 'w" where
  "eth_attempts R oc req 0 lst w = (Inl (RPCAttempts lst), w)"
| "eth_attempts R oc req (Suc n) lst w =
     (case (if lst = None then (False, w) else rpc_pause R w) of
        (True, w1) \<Rightarrow> (Inl (RPCCanceled lst), w1)
      | (False, w1) \<Rightarrow>
          (case ethCallOnce R oc req w1 of
             (Inr out, w2) \<Rightarrow> (Inr out, w2)
           | (Inl (e, retryable), w2) \<Rightarrow>
               if \<not> retryable \<or> rpc_done R w2 then (Inl e, w2)
               else eth_attempts R oc req n (Some e) w2))"

definition ethCall :: "'w rpc \<Rightarrow> OnChainRegistry \<Rightarrow> string \<Rightarrow> 'w \<Rightarrow> (chain_err + bytes) \<times> 'w" where
  "ethCall R oc calldata w = eth_attempts R oc (eth_call_json oc calldata) rpcAttempts None w"

definition getServiceRaw :: "'w rpc \<Rightarrow> OnChainRegistry \<Rightarrow> string \<Rightarrow> 'w \<Rightarrow> (chain_err + bytes) \<times> 'w" where
  "getServiceRaw R oc addr w =
     (if \<not> isHexAddress addr then (Inl (BadProvider addr), w)
      else ethCall R oc (''0x'' @ getServiceSelector @ leftPad32 addr) w)"

section \<open>Decoding\<close>

text \<open>Big-endian numbers, and a slice that panics out of range.\<close>

definition be_nat :: "bytes \<Rightarrow> nat" where
  "be_nat bs = fold (\<lambda>b n. n * 256 + of_char b) bs 0"

definition subslice :: "bytes \<Rightarrow> 64 word \<Rightarrow> 64 word \<Rightarrow> bytes option" where
  "subslice raw lo hi =
     (if lo \<le> hi \<and> unat hi \<le> length raw then Some (take (unat hi - unat lo) (drop (unat lo) raw))
      else None)"

definition raw_len :: "bytes \<Rightarrow> 64 word" where
  "raw_len raw = word_of_nat (length raw)"

definition decodeService :: "bytes \<Rightarrow> (chain_err + string \<times> bool) option" where
  "decodeService raw =
     (if length raw < 32 then Some (Inl ServiceShort)
      else
        let off = be_nat (take 32 raw) in
        if off \<ge> 2 ^ 64 then Some (Inl OffsetRange)
        else
          let base = word_of_nat off :: 64 word; finish = base + 11 * 32 in
          if finish < base \<or> raw_len raw < finish then Some (Inl ServiceStructShort)
          else
            case (subslice raw (base + 9 * 32) (base + 10 * 32), subslice raw (base + 10 * 32) finish) of
              (Some signerWord, Some ackWord) \<Rightarrow>
                (if list_ex (\<lambda>b. b \<noteq> CHR 0x00) (take 12 signerWord) then Some (Inl NotPadded)
                 else Some (Inr (''0x'' @ hex_encode (drop 12 signerWord),
                                 list_ex (\<lambda>b. b \<noteq> CHR 0x00) ackWord)))
            | _ \<Rightarrow> None)"

text \<open>The outer option is a panic, the inner one the flag \<open>ok\<close>.\<close>

definition readWordUint :: "bytes \<Rightarrow> 64 word \<Rightarrow> 64 word option option" where
  "readWordUint raw off =
     (let finish = off + 32 in
      if finish < off \<or> raw_len raw < finish then Some None
      else map_option (\<lambda>ws. if be_nat ws \<ge> 2 ^ 64 then None else Some (word_of_nat (be_nat ws)))
             (subslice raw off finish))"

definition decodeServiceURL :: "bytes \<Rightarrow> (chain_err + string) option" where
  "decodeServiceURL raw =
     Option.bind (readWordUint raw 0) (\<lambda>b. case b of None \<Rightarrow> Some (Inl URLOffset) | Some base \<Rightarrow>
     Option.bind (readWordUint raw (base + 2 * 32)) (\<lambda>r. case r of None \<Rightarrow> Some (Inl URLSlot) | Some rel \<Rightarrow>
     let strStart = base + rel in
     Option.bind (readWordUint raw strStart) (\<lambda>l. case l of None \<Rightarrow> Some (Inl URLLength) | Some n \<Rightarrow>
     let dataStart = strStart + 32; finish = dataStart + n in
     if finish < dataStart \<or> raw_len raw < finish then Some (Inl URLTruncated)
     else map_option Inr (subslice raw dataStart finish))))"

section \<open>The two queries\<close>

definition oc_AcknowledgedSigner ::
    "'w rpc \<Rightarrow> OnChainRegistry \<Rightarrow> string \<Rightarrow> 'w \<Rightarrow> (chain_err + Signer) option \<times> 'w" where
  "oc_AcknowledgedSigner R oc addr w =
     (case getServiceRaw R oc addr w of
        (Inl e, w') \<Rightarrow> (Some (Inl e), w')
      | (Inr raw, w') \<Rightarrow>
          (map_option (\<lambda>d. bind_r d (\<lambda>(signer, ack).
             Inr \<lparr>sg_Address = signer, sg_Acknowledged = ack, sg_Stale = False, sg_Cached = False\<rparr>))
             (decodeService raw), w'))"

text \<open>There is no cache to bypass.\<close>

definition oc_RefreshSigner ::
    "'w rpc \<Rightarrow> OnChainRegistry \<Rightarrow> string \<Rightarrow> 'w \<Rightarrow> (chain_err + Signer) option \<times> 'w" where
  "oc_RefreshSigner R oc addr w = oc_AcknowledgedSigner R oc addr w"

definition oc_ServiceInfo ::
    "'w rpc \<Rightarrow> OnChainRegistry \<Rightarrow> string \<Rightarrow> 'w \<Rightarrow> (chain_err + ServiceInfo) option \<times> 'w" where
  "oc_ServiceInfo R oc addr w =
     (case getServiceRaw R oc addr w of
        (Inl e, w') \<Rightarrow> (Some (Inl e), w')
      | (Inr raw, w') \<Rightarrow>
          (case decodeService raw of
             None \<Rightarrow> None
           | Some (Inl e) \<Rightarrow> Some (Inl e)
           | Some (Inr (signer, ack)) \<Rightarrow>
               map_option (\<lambda>u. Inr \<lparr>si_URL = (case u of Inl _ \<Rightarrow> [] | Inr url \<Rightarrow> url),
                                    si_Signer = signer, si_Acknowledged = ack\<rparr>)
                 (decodeServiceURL raw), w'))"

section \<open>Networks\<close>

record Network =
  nw_Name :: string
  nw_RPCURL :: string
  nw_ServingContract :: string

definition networks :: "Network gomap" where
  "networks =
     [(''mainnet'', \<lparr>nw_Name = ''mainnet'', nw_RPCURL = DefaultChainRPCURL,
        nw_ServingContract = DefaultInferenceServingAddress\<rparr>),
      (''testnet'', \<lparr>nw_Name = ''testnet'', nw_RPCURL = ''https://evmrpc-testnet.0g.ai'',
        nw_ServingContract = ''0xa79F4c8311FF93C06b8CfB403690cc987c93F91E''\<rparr>)]"

definition NetworkNames :: "string list" where
  "NetworkNames = mkeys networks"

definition LookupNetwork :: "string \<Rightarrow> string list + Network" where
  "LookupNetwork name = opt_r (mget networks (to_lower (trim_space name))) NetworkNames"

end
