(* ===== verification/Chain_Facts.thy ===== *)
theory Chain_Facts
  imports Chain_Registry
begin

text \<open>
  What decoding a contract's answer establishes: it never slices out of range whatever the offsets
  are, it accepts exactly one layout, and it inverts the ABI encoding.
\<close>

section \<open>Offsets\<close>

lemma no_wrap:
  "\<not> (b + c < b) \<Longrightarrow> unat (b + c :: 64 word) = unat b + unat c"
  using no_olen_add_nat[of b c] unat_add_lem[of b c] by (simp add: not_less)

lemma unat_raw_len: "length raw < 2 ^ 64 \<Longrightarrow> unat (raw_len raw) = length raw"
  by (simp add: raw_len_def unat_of_nat)

text \<open>A 64-bit offset with room for a fixed number of bytes after it.\<close>

lemma in_range:
  assumes "length raw < 2 ^ 64" "\<not> (off + w < off \<or> raw_len raw < off + w)"
  shows "unat off + unat w \<le> length raw" "unat (off + w) = unat off + unat w"
proof -
  show 1: "unat (off + w) = unat off + unat w" using no_wrap assms(2) by blast
  show "unat off + unat w \<le> length raw"
    using assms(2) unat_raw_len[OF assms(1)] 1 by (simp add: word_less_nat_alt not_less)
qed

lemma out_of_range:
  assumes "length raw < 2 ^ 64" "off + w < off \<or> raw_len raw < off + w"
  shows "length raw < unat off + unat w"
proof (cases "off + w < off")
  case True
  then have "unat off + unat w \<ge> 2 ^ 64"
    using no_olen_add_nat[of off w] by (simp add: not_less[symmetric] not_le)
  then show ?thesis using assms(1) by simp
next
  case False
  then show ?thesis
    using assms(2) no_wrap[OF False] unat_raw_len[OF assms(1)] by (simp add: word_less_nat_alt)
qed

lemma subslice_at:
  "unat lo + k \<le> length raw \<Longrightarrow> unat hi = unat lo + k \<Longrightarrow>
     subslice raw lo hi = Some (take k (drop (unat lo) raw))"
  by (simp add: subslice_def word_le_nat_alt)

section \<open>The head of the struct\<close>

lemma zero_bytes: "\<not> list_ex (\<lambda>b. b \<noteq> CHR 0x00) bs \<longleftrightarrow> bs = replicate (length bs) (CHR 0x00)"
proof -
  have "(\<forall>b \<in> set bs. b = CHR 0x00) \<longleftrightarrow> bs = replicate (length bs) (CHR 0x00)"
    by (metis in_set_replicate replicate_length_same)
  then show ?thesis by (simp add: list_ex_iff)
qed

lemma decodeService_eq:
  assumes "length raw < 2 ^ 64"
  shows "decodeService raw =
     (let b = be_nat (take 32 raw) in
      if length raw < 32 then Some (Inl ServiceShort)
      else if b \<ge> 2 ^ 64 then Some (Inl OffsetRange)
      else if length raw < b + 352 then Some (Inl ServiceStructShort)
      else if take 12 (drop (b + 288) raw) \<noteq> replicate 12 (CHR 0x00) then Some (Inl NotPadded)
      else Some (Inr (''0x'' @ hex_encode (take 20 (drop (b + 300) raw)),
                      take 32 (drop (b + 320) raw) \<noteq> replicate 32 (CHR 0x00))))"
proof -
  let ?off = "be_nat (take 32 raw)" and ?base = "word_of_nat (be_nat (take 32 raw)) :: 64 word"
  show ?thesis
  proof (cases "length raw < 32 \<or> ?off \<ge> 2 ^ 64")
    case True
    then show ?thesis by (auto simp: decodeService_def Let_def)
  next
    case small: False
    then have b: "unat ?base = ?off" by (simp add: unat_of_nat)
    show ?thesis
    proof (cases "?base + 352 < ?base \<or> raw_len raw < ?base + 352")
      case True
      then have "length raw < ?off + 352" using out_of_range[OF assms True] b by simp
      then show ?thesis using small True by (simp add: decodeService_def Let_def)
    next
      case False
      have r: "?off + 352 \<le> length raw" "unat (?base + 352) = ?off + 352"
        using in_range[OF assms False] b by simp_all
      have u: "unat (?base + 288) = ?off + 288" "unat (?base + 320) = ?off + 320"
        using r assms b by (simp_all add: unat_word_ariths)
      have s1: "subslice raw (?base + 288) (?base + 320) = Some (take 32 (drop (?off + 288) raw))"
        using subslice_at[of "?base + 288" 32 raw "?base + 320"] u r by simp
      have s2: "subslice raw (?base + 320) (?base + 352) = Some (take 32 (drop (?off + 320) raw))"
        using subslice_at[of "?base + 320" 32 raw "?base + 352"] u r by simp
      have t: "take 12 (take 32 (drop (?off + 288) raw)) = take 12 (drop (?off + 288) raw)"
        "drop 12 (take 32 (drop (?off + 288) raw)) = take 20 (drop (?off + 300) raw)"
        by (simp_all add: drop_take add.commute)
      have l: "length (take 12 (drop (?off + 288) raw)) = 12" "length (take 32 (drop (?off + 320) raw)) = 32"
        using r(1) by simp_all
      have e: "decodeService raw =
          (if list_ex (\<lambda>b. b \<noteq> CHR 0x00) (take 12 (drop (?off + 288) raw)) then Some (Inl NotPadded)
           else Some (Inr (''0x'' @ hex_encode (take 20 (drop (?off + 300) raw)),
                           list_ex (\<lambda>b. b \<noteq> CHR 0x00) (take 32 (drop (?off + 320) raw)))))"
        using small False s1 s2 t by (simp add: decodeService_def Let_def)
      show ?thesis
        unfolding e Let_def
        using small r(1) zero_bytes[of "take 12 (drop (?off + 288) raw)"] l
          zero_bytes[of "take 32 (drop (?off + 320) raw)"]
        by auto
    qed
  qed
qed

text \<open>
  C38: Decoding the contract's answer never panics, whatever offset it names, and accepts exactly the
  layout of the Service struct at that offset: 352 bytes of head inside the answer, whose tenth word
  is an address padded with twelve zero bytes; the signer is that address and it counts as
  acknowledged when any byte of the eleventh word is set.
\<close>

theorem decodeService_accepts:
  assumes "length raw < 2 ^ 64"
  shows "decodeService raw \<noteq> None \<and> (decodeService raw = Some (Inr (signer, ack)) \<longleftrightarrow>
     32 \<le> length raw \<and> be_nat (take 32 raw) + 352 \<le> length raw
     \<and> take 12 (drop (be_nat (take 32 raw) + 288) raw) = replicate 12 (CHR 0x00)
     \<and> signer = ''0x'' @ hex_encode (take 20 (drop (be_nat (take 32 raw) + 300) raw))
     \<and> (ack \<longleftrightarrow> take 32 (drop (be_nat (take 32 raw) + 320) raw) \<noteq> replicate 32 (CHR 0x00)))"
  unfolding decodeService_eq[OF assms] Let_def using assms by auto

section \<open>The string\<close>

lemma readWordUint_ok:
  assumes "length raw < 2 ^ 64"
  shows "readWordUint raw off =
     Some (if unat off + 32 \<le> length raw \<and> be_nat (take 32 (drop (unat off) raw)) < 2 ^ 64
           then Some (word_of_nat (be_nat (take 32 (drop (unat off) raw)))) else None)"
proof (cases "off + 32 < off \<or> raw_len raw < off + 32")
  case True
  then show ?thesis using out_of_range[OF assms True] by (simp add: readWordUint_def Let_def)
next
  case False
  have r: "unat off + 32 \<le> length raw" "unat (off + 32) = unat off + 32"
    using in_range[OF assms False] by simp_all
  show ?thesis
    using False r subslice_at[of off 32 raw "off + 32"] by (auto simp: readWordUint_def Let_def)
qed

lemma decodeServiceURL_total:
  assumes "length raw < 2 ^ 64"
  shows "decodeServiceURL raw \<noteq> None"
proof -
  have last: "subslice raw (s + 32) (s + 32 + n) \<noteq> None"
    if "\<not> (s + 32 + n < s + 32 \<or> raw_len raw < s + 32 + n)" for s n :: "64 word"
    using in_range[OF assms, of "s + 32" n] that subslice_at[of "s + 32" "unat n" raw "s + 32 + n"] by auto
  show ?thesis
    using last by (auto simp: decodeServiceURL_def readWordUint_ok[OF assms] Let_def)
qed

section \<open>The ABI encoding\<close>

fun be_bytes :: "nat \<Rightarrow> nat \<Rightarrow> bytes" where
  "be_bytes 0 n = []"
| "be_bytes (Suc k) n = be_bytes k (n div 256) @ [char_of (n mod 256)]"

lemma length_be_bytes [simp]: "length (be_bytes k n) = k"
  by (induction k arbitrary: n) auto

lemma be_nat_snoc: "be_nat (bs @ [b]) = be_nat bs * 256 + of_char b"
  by (simp add: be_nat_def)

lemma be_nat_be_bytes: "n < 256 ^ k \<Longrightarrow> be_nat (be_bytes k n) = n"
proof (induction k arbitrary: n)
  case (Suc k)
  then have "n div 256 < 256 ^ k" by (simp add: less_mult_imp_div_less mult.commute)
  then show ?case using Suc.IH by (simp add: be_nat_snoc)
qed (simp add: be_nat_def)

definition abi_bool :: "bool \<Rightarrow> bytes" where
  "abi_bool b = be_bytes 32 (if b then 1 else 0)"

text \<open>
  The answer of \<open>getService\<close> as the contract encodes it: the offset of the struct, its eleven head
  words (provider and the offset of the service type; the offset of the URL; prices, time and three
  more offsets; signer; acknowledgement), then the strings: those before the URL, the URL, the rest.
\<close>

definition service_return ::
    "bytes \<Rightarrow> bytes \<Rightarrow> bytes \<Rightarrow> bool \<Rightarrow> bytes \<Rightarrow> string \<Rightarrow> bytes \<Rightarrow> bytes" where
  "service_return head mid signer ack before url after =
     be_bytes 32 32 @ head @ be_bytes 32 (352 + length before) @ mid
     @ replicate 12 (CHR 0x00) @ signer @ abi_bool ack
     @ before @ be_bytes 32 (length url) @ url @ after"

lemma be_bytes_zero: "be_bytes k 0 = replicate k (CHR 0x00)"
  by (induction k) (simp_all add: replicate_append_same char_of_def)

lemma be_nat_zero: "be_nat (replicate k (CHR 0x00)) = 0"
  using be_nat_be_bytes[of 0 k] by (simp add: be_bytes_zero)

lemma abi_bool_zero: "abi_bool b = replicate 32 (CHR 0x00) \<longleftrightarrow> \<not> b"
proof (cases b)
  case True
  have "be_nat (abi_bool True) = 1"
    unfolding abi_bool_def by (simp add: be_nat_be_bytes)
  then show ?thesis using True be_nat_zero[of 32] by (metis zero_neq_one)
next
  case False
  then show ?thesis by (simp add: abi_bool_def be_bytes_zero)
qed

lemma service_return_length:
  "length head = 64 \<Longrightarrow> length mid = 192 \<Longrightarrow> length signer = 20 \<Longrightarrow>
     length (service_return head mid signer ack before url after)
       = 416 + length before + length url + length after"
  by (simp add: service_return_def abi_bool_def)

lemma word_at:
  assumes "length raw < 2 ^ 64" "off < 2 ^ 64" "take 32 (drop off raw) = be_bytes 32 n" "off + 32 \<le> length raw"
    "n < 2 ^ 64"
  shows "readWordUint raw (word_of_nat off) = Some (Some (word_of_nat n))"
proof -
  have "n < 256 ^ 32" using assms(5) by simp
  then show ?thesis
    using assms readWordUint_ok[OF assms(1), of "word_of_nat off"] be_nat_be_bytes[of n 32]
    by (simp add: unat_of_nat)
qed

text \<open>
  The reader inverts the contract's ABI encoding: from the encoded answer of \<open>getService\<close>, with
  any other field contents, it returns the registered signer, its acknowledgement and the URL.
\<close>

theorem getService_roundtrip:
  assumes "length head = 64" "length mid = 192" "length signer = 20"
    "416 + length before + length url + length after < 2 ^ 64"
  shows "decodeService (service_return head mid signer ack before url after)
           = Some (Inr (''0x'' @ hex_encode signer, ack))
       \<and> decodeServiceURL (service_return head mid signer ack before url after) = Some (Inr url)"
proof -
  let ?raw = "service_return head mid signer ack before url after"
  have len: "length ?raw = 416 + length before + length url + length after" "length ?raw < 2 ^ 64"
    using service_return_length[OF assms(1-3)] assms(4) by simp_all
  have w0: "take 32 (drop 0 ?raw) = be_bytes 32 32" by (simp add: service_return_def)
  have w2: "take 32 (drop 96 ?raw) = be_bytes 32 (352 + length before)"
    using assms(1) by (simp add: service_return_def)
  have pad: "take 12 (drop 320 ?raw) = replicate 12 (CHR 0x00)"
    and sg: "take 20 (drop 332 ?raw) = signer"
    and ak: "take 32 (drop 352 ?raw) = abi_bool ack"
    and ln: "take 32 (drop (384 + length before) ?raw) = be_bytes 32 (length url)"
    and st: "take (length url) (drop (416 + length before) ?raw) = url"
    using assms(1-3) by (simp_all add: service_return_def abi_bool_def)
  have b: "be_nat (take 32 ?raw) = 32" using w0 be_nat_be_bytes[of 32 32] by simp
  have 1: "decodeService ?raw = Some (Inr (''0x'' @ hex_encode signer, ack))"
    using len(1) pad sg ak by (simp add: decodeService_eq[OF len(2)] b Let_def abi_bool_zero)
  have r0: "readWordUint ?raw 0 = Some (Some 32)"
    using word_at[OF len(2), of 0 32] w0 len(1) by simp
  have r2: "readWordUint ?raw 96 = Some (Some (word_of_nat (352 + length before)))"
    using word_at[OF len(2), of 96] w2 len(1) assms(4) by simp
  have r3: "readWordUint ?raw (word_of_nat (384 + length before)) = Some (Some (word_of_nat (length url)))"
    using word_at[OF len(2), of "384 + length before"] ln len(1) assms(4) by simp
  have s: "subslice ?raw (word_of_nat (416 + length before)) (word_of_nat (416 + length before + length url))
             = Some url"
    using subslice_at[of "word_of_nat (416 + length before)" "length url" ?raw] st len assms(4)
    by (simp add: unat_of_nat del: of_nat_add)
  have c: "32 + word_of_nat (352 + length before) = (word_of_nat (384 + length before) :: 64 word)"
    "64 + word_of_nat (352 + length before) = (word_of_nat (416 + length before) :: 64 word)"
    "word_of_nat (384 + length before) + 32 = (word_of_nat (416 + length before) :: 64 word)"
    "word_of_nat (416 + length before) + word_of_nat (length url)
       = (word_of_nat (416 + length before + length url) :: 64 word)"
    by simp_all
  have f: "\<not> ((word_of_nat (416 + length before + length url) :: 64 word) < word_of_nat (416 + length before)
            \<or> raw_len ?raw < word_of_nat (416 + length before + length url))"
    using len assms(4) by (simp add: word_less_nat_alt unat_raw_len unat_of_nat del: of_nat_add)
  have 2: "decodeServiceURL ?raw = Some (Inr url)"
    unfolding decodeServiceURL_def r0
    using r2 r3 s f by (simp add: Let_def c del: of_nat_add)
  show ?thesis using 1 2 by blast
qed

text \<open>A concrete answer: prices and other strings zero, the URL in place.\<close>

definition demo_answer :: bytes where
  "demo_answer = service_return (replicate 64 (CHR 0x00)) (replicate 192 (CHR 0x00))
     (replicate 20 (CHR 0x11)) True [] ''https://p'' []"

theorem getService_roundtrip_witness:
  "decodeService demo_answer = Some (Inr (''0x'' @ hex_encode (replicate 20 (CHR 0x11)), True))
     \<and> decodeServiceURL demo_answer = Some (Inr ''https://p'')"
  unfolding demo_answer_def by (rule getService_roundtrip) simp_all

theorem decodeService_accepts_witness:
  "decodeService (replicate 32 (CHR 0xFF)) \<noteq> None
     \<and> decodeService (replicate 32 (CHR 0xFF)) \<noteq> Some (Inr (''0x11'', True))"
  using decodeService_accepts[of "replicate 32 (CHR 0xFF)" "''0x11''" True] by simp

end
