(* ===== verification/Compose_Baseline.thy ===== *)
theory Compose_Baseline
  imports Evid_Records Evid_Compose
begin

text \<open>
  The recorded deployments a provider's manifest is held against (composebaseline.go of
  client/evidence/compose, with the image references of client/compose and the digest grammar of
  composeblock.go): the file, and the comparison. The canonical form of a block, a YAML rendering, is
  the parameter \<open>canon\<close>.
\<close>

section \<open>Image references\<close>

definition SplitImageRef :: "string \<Rightarrow> string \<times> string \<times> string" where
  "SplitImageRef ref0 =
     (let ref = trim_space ref0 in
      if ref = [] then ([], [], [])
      else
        let (image, digest) = (case cut_last (CHR ''@'') ref of None \<Rightarrow> (ref, []) | Some (a, d) \<Rightarrow> (a, d)) in
        case cut_last (CHR '':'') image of
          Some (repo, tag) \<Rightarrow>
            if CHR ''/'' \<notin> set tag then (repo, tag, digest) else (image, [], digest)
        | None \<Rightarrow> (image, [], digest))"

text \<open>
  The digest grammar: an algorithm of lowercase words joined by single separators, a colon, and at
  least 32 lowercase hexadecimal digits.
\<close>

fun alg_from :: "bool \<Rightarrow> string \<Rightarrow> bool" where
  "alg_from ok [] = ok"
| "alg_from ok (c # cs) =
     (if low_alnum c then alg_from True cs else ok \<and> c \<in> set ''.+_-'' \<and> alg_from False cs)"

definition isDigestShaped :: "string \<Rightarrow> bool" where
  "isDigestShaped d =
     (case cut_at (CHR '':'') d of
        None \<Rightarrow> False
      | Some (a, h) \<Rightarrow> alg_from False a \<and> 32 \<le> length h \<and> list_all is_lower_hex h)"

section \<open>Records\<close>

record BaselineService =
  bs_Name :: string
  bs_Block :: bytes
  bs_Repository :: string

record BaselineTopLevel =
  bt_Key :: string
  bt_Block :: bytes

record Deployment =
  dp_Name :: string
  dp_Contract :: string
  dp_Providers :: "string list"
  dp_Services :: "BaselineService list"
  dp_TopLevel :: "BaselineTopLevel list"

definition cb_isAddress :: "string \<Rightarrow> bool" where
  "cb_isAddress s0 =
     (let s = trim_space s0 in
      length s = 42 \<and> prefix ''0x'' s
      \<and> list_all (\<lambda>c. hex_val c \<noteq> None) (drop 2 s))"

definition normAddr :: "string \<Rightarrow> string" where
  "normAddr s = to_lower (trim_space s)"

text \<open>The deployment recorded for a provider on a contract: the first that lists it.\<close>

definition baseline_For :: "Deployment list \<Rightarrow> string \<Rightarrow> string \<Rightarrow> Deployment option" where
  "baseline_For b contract provider =
     List.find (\<lambda>d. dp_Contract d = normAddr contract \<and> normAddr provider \<in> set (dp_Providers d)) b"

definition pinsImageInBlock :: "BaselineService \<Rightarrow> bool" where
  "pinsImageInBlock s = (bs_Repository s = [])"

section \<open>The file\<close>

text \<open>A struct decoded with unknown keys refused.\<close>

definition decode_strict ::
    "string list \<Rightarrow> (string \<Rightarrow> json \<Rightarrow> 'r \<Rightarrow> 'r option) \<Rightarrow> 'r \<Rightarrow> json \<Rightarrow> 'r option" where
  "decode_strict names setf zero v =
     (case v of
        JObj kvs \<Rightarrow> if list_all (\<lambda>(k, x). struct_field names k \<noteq> None) kvs
                    then decode_struct names setf zero v else None
      | _ \<Rightarrow> decode_struct names setf zero v)"

record image_file =
  if_repository :: string
  if_digest :: string
  if_reference :: string

record baselineServiceFile =
  sf_name :: string
  sf_block :: "string list"
  sf_image :: "image_file option"

record topLevelFile =
  tf_key :: string
  tf_block :: "string list"

record deploymentFile =
  df_name :: string
  df_contract :: string
  df_providers :: "string list"
  df_services :: "baselineServiceFile list"
  df_top_level :: "topLevelFile list"

definition list_of :: "(json \<Rightarrow> 'a option) \<Rightarrow> json \<Rightarrow> 'a list option" where
  "list_of f v = Option.bind (as_array v) (\<lambda>vs. opt_all (map f vs))"

definition image_file_of :: "json \<Rightarrow> image_file option" where
  "image_file_of v =
     decode_strict [''repository'', ''digest'', ''reference'']
       (\<lambda>n x r. if n = ''repository'' then map_option (\<lambda>s. r\<lparr>if_repository := s\<rparr>) (str_into x (if_repository r))
                else if n = ''digest'' then map_option (\<lambda>s. r\<lparr>if_digest := s\<rparr>) (str_into x (if_digest r))
                else map_option (\<lambda>s. r\<lparr>if_reference := s\<rparr>) (str_into x (if_reference r)))
       \<lparr>if_repository = [], if_digest = [], if_reference = []\<rparr> v"

definition service_file_of :: "json \<Rightarrow> baselineServiceFile option" where
  "service_file_of v =
     decode_strict [''name'', ''note'', ''block'', ''image'']
       (\<lambda>n x r. if n = ''name'' then map_option (\<lambda>s. r\<lparr>sf_name := s\<rparr>) (str_into x (sf_name r))
                else if n = ''note'' then map_option (\<lambda>_. r) (as_strings x)
                else if n = ''block'' then map_option (\<lambda>b. r\<lparr>sf_block := b\<rparr>) (as_strings x)
                else if x = JNull then Some (r\<lparr>sf_image := None\<rparr>)
                else map_option (\<lambda>i. r\<lparr>sf_image := Some i\<rparr>) (image_file_of x))
       \<lparr>sf_name = [], sf_block = [], sf_image = None\<rparr> v"

definition top_file_of :: "json \<Rightarrow> topLevelFile option" where
  "top_file_of v =
     decode_strict [''key'', ''note'', ''block'']
       (\<lambda>n x r. if n = ''key'' then map_option (\<lambda>s. r\<lparr>tf_key := s\<rparr>) (str_into x (tf_key r))
                else if n = ''note'' then map_option (\<lambda>_. r) (as_strings x)
                else map_option (\<lambda>b. r\<lparr>tf_block := b\<rparr>) (as_strings x))
       \<lparr>tf_key = [], tf_block = []\<rparr> v"

definition deployment_file_of :: "json \<Rightarrow> deploymentFile option" where
  "deployment_file_of v =
     decode_strict [''name'', ''note'', ''contract'', ''providers'', ''services'', ''top_level'']
       (\<lambda>n x r. if n = ''name'' then map_option (\<lambda>s. r\<lparr>df_name := s\<rparr>) (str_into x (df_name r))
                else if n = ''note'' then map_option (\<lambda>_. r) (as_strings x)
                else if n = ''contract'' then map_option (\<lambda>s. r\<lparr>df_contract := s\<rparr>) (str_into x (df_contract r))
                else if n = ''providers'' then map_option (\<lambda>s. r\<lparr>df_providers := s\<rparr>) (as_strings x)
                else if n = ''services'' then map_option (\<lambda>s. r\<lparr>df_services := s\<rparr>) (list_of service_file_of x)
                else map_option (\<lambda>s. r\<lparr>df_top_level := s\<rparr>) (list_of top_file_of x))
       \<lparr>df_name = [], df_contract = [], df_providers = [], df_services = [], df_top_level = []\<rparr> v"

text \<open>The deployments, and whether the outdated member \<open>services\<close> is there.\<close>

definition baseline_file_of :: "json \<Rightarrow> (deploymentFile list \<times> bool) option" where
  "baseline_file_of v =
     decode_strict [''_comment'', ''deployments'', ''services'']
       (\<lambda>n x (ds, old). if n = ''_comment'' then map_option (\<lambda>_. (ds, old)) (as_strings x)
                else if n = ''deployments'' then map_option (\<lambda>s. (s, old)) (list_of deployment_file_of x)
                else Some (ds, True))
       ([], False) v"

datatype blerr =
    BaselineJSON | BaselineTrailing | OldFormat | DeploymentName nat | DeploymentTwice string
  | DeploymentContract string | NoProviders string | ProviderAddress string string
  | ProviderTwice string string | NoServicesListed string
  | ServiceName | ServiceTwice string | ServiceBlockEmpty string | ServiceBlockBad string
  | ImagePins string | ImageNoRepository string
  | TopKey nat | TopIsServices nat | TopExtension string | TopTwice string | TopBlockEmpty string
  | TopBlockBad string

text \<open>The lines of a block as its text.\<close>

definition block_text :: "string list \<Rightarrow> bytes" where
  "block_text ls = join_with [CHR 0x0A] ls @ [CHR 0x0A]"

text \<open>The two canonicalizers, of a service body and of a top-level section.\<close>

record canonicalizer =
  cn_service :: "string \<Rightarrow> bytes \<Rightarrow> bytes option"
  cn_top :: "string \<Rightarrow> bytes \<Rightarrow> bytes option"

definition baseline_service :: "canonicalizer \<Rightarrow> baselineServiceFile \<Rightarrow> blerr + BaselineService" where
  "baseline_service canon e =
     bind_r (fail_if (sf_block e = []) (ServiceBlockEmpty (sf_name e))) (\<lambda>_.
     bind_r (opt_r (cn_service canon (sf_name e) (block_text (sf_block e))) (ServiceBlockBad (sf_name e))) (\<lambda>block.
     case sf_image e of
       None \<Rightarrow> Inr \<lparr>bs_Name = sf_name e, bs_Block = block, bs_Repository = []\<rparr>
     | Some im \<Rightarrow>
         bind_r (fail_if (trim_space (if_digest im) \<noteq> [] \<or> trim_space (if_reference im) \<noteq> [])
                   (ImagePins (sf_name e))) (\<lambda>_.
         bind_r (fail_if (trim_space (if_repository im) = []) (ImageNoRepository (sf_name e))) (\<lambda>_.
         Inr \<lparr>bs_Name = sf_name e, bs_Block = block, bs_Repository = trim_space (if_repository im)\<rparr>))))"

fun parseServices ::
    "canonicalizer \<Rightarrow> string list \<Rightarrow> baselineServiceFile list \<Rightarrow> blerr + BaselineService list" where
  "parseServices canon seen [] = Inr []"
| "parseServices canon seen (e # es) =
     bind_r (fail_if (trim_space (sf_name e) = []) ServiceName) (\<lambda>_.
     bind_r (fail_if (sf_name e \<in> set seen) (ServiceTwice (sf_name e))) (\<lambda>_.
     bind_r (baseline_service canon e) (\<lambda>svc.
     bind_r (parseServices canon (sf_name e # seen) es) (\<lambda>svcs. Inr (svc # svcs)))))"

fun parseTopLevel ::
    "canonicalizer \<Rightarrow> nat \<Rightarrow> string list \<Rightarrow> topLevelFile list \<Rightarrow> blerr + BaselineTopLevel list" where
  "parseTopLevel canon i seen [] = Inr []"
| "parseTopLevel canon i seen (e # es) =
     (let key = trim_space (tf_key e) in
      bind_r (fail_if (key = []) (TopKey i)) (\<lambda>_.
      bind_r (fail_if (key = ''services'') (TopIsServices i)) (\<lambda>_.
      bind_r (fail_if (prefix ''x-'' key) (TopExtension key)) (\<lambda>_.
      bind_r (fail_if (key \<in> set seen) (TopTwice key)) (\<lambda>_.
      bind_r (fail_if (tf_block e = []) (TopBlockEmpty key)) (\<lambda>_.
      bind_r (opt_r (cn_top canon key (block_text (tf_block e))) (TopBlockBad key)) (\<lambda>block.
      bind_r (parseTopLevel canon (Suc i) (key # seen) es) (\<lambda>ts.
      Inr (\<lparr>bt_Key = key, bt_Block = block\<rparr> # ts)))))))))"

text \<open>The providers of one deployment, and the pairs of contract and provider that are taken.\<close>

fun parse_providers ::
    "string \<Rightarrow> string \<Rightarrow> string list \<Rightarrow> (string \<times> string) list \<Rightarrow>
     blerr + string list \<times> (string \<times> string) list" where
  "parse_providers label contract [] owner = Inr ([], owner)"
| "parse_providers label contract (p # ps) owner =
     bind_r (fail_if (\<not> cb_isAddress p) (ProviderAddress label p)) (\<lambda>_.
     bind_r (fail_if ((contract, normAddr p) \<in> set owner) (ProviderTwice label p)) (\<lambda>_.
     bind_r (parse_providers label contract ps ((contract, normAddr p) # owner)) (\<lambda>(qs, owner').
     Inr (normAddr p # qs, owner'))))"

fun parse_deployments ::
    "canonicalizer \<Rightarrow> nat \<Rightarrow> string list \<Rightarrow> (string \<times> string) list \<Rightarrow> deploymentFile list \<Rightarrow>
     blerr + Deployment list" where
  "parse_deployments canon i names owner [] = Inr []"
| "parse_deployments canon i names owner (d # ds) =
     (let label = trim_space (df_name d); contract = normAddr (df_contract d) in
      bind_r (fail_if (label = []) (DeploymentName i)) (\<lambda>_.
      bind_r (fail_if (label \<in> set names) (DeploymentTwice label)) (\<lambda>_.
      bind_r (fail_if (\<not> cb_isAddress (df_contract d)) (DeploymentContract label)) (\<lambda>_.
      bind_r (fail_if (df_providers d = []) (NoProviders label)) (\<lambda>_.
      bind_r (parse_providers label contract (df_providers d) owner) (\<lambda>(providers, owner').
      bind_r (fail_if (df_services d = []) (NoServicesListed label)) (\<lambda>_.
      bind_r (parseServices canon [] (df_services d)) (\<lambda>svcs.
      bind_r (parseTopLevel canon 1 [] (df_top_level d)) (\<lambda>tops.
      bind_r (parse_deployments canon (Suc i) (label # names) owner' ds) (\<lambda>rest.
      Inr (\<lparr>dp_Name = label, dp_Contract = contract, dp_Providers = providers,
            dp_Services = svcs, dp_TopLevel = tops\<rparr> # rest)))))))))))"

text \<open>
  The decoder reads one value; what follows it counts as more content unless it starts with a closing
  bracket or brace.
\<close>

definition dec_More :: "bytes \<Rightarrow> bool" where
  "dec_More rest = (case skip_ws rest of [] \<Rightarrow> False | c # _ \<Rightarrow> c \<noteq> CHR '']'' \<and> c \<noteq> CHR ''}'')"

definition ParseComposeBaseline :: "canonicalizer \<Rightarrow> bytes \<Rightarrow> blerr + Deployment list" where
  "ParseComposeBaseline canon raw =
     bind_r (opt_r (parse_val (Suc (length raw)) (skip_ws raw)) BaselineJSON) (\<lambda>(v, rest).
     bind_r (opt_r (baseline_file_of v) BaselineJSON) (\<lambda>(ds, old).
     bind_r (fail_if (dec_More rest) BaselineTrailing) (\<lambda>_.
     bind_r (fail_if old OldFormat) (\<lambda>_.
     parse_deployments canon 1 [] [] ds))))"

section \<open>The comparison\<close>

text \<open>
  A service of a manifest as the review renders it, with and without its image; \<open>sb_Err\<close>: it has no
  canonical form.
\<close>

record ServiceBlock =
  sb_Name :: string
  sb_Canonical :: bytes
  sb_CanonicalNoImage :: bytes
  sb_ImageRef :: string
  sb_Err :: bool

record TopLevelBlock =
  tb_Key :: string
  tb_Canonical :: bytes
  tb_Err :: bool

datatype load_err = LoadNotRead | LoadRefused

record ComposeReview =
  cv_Blocks :: "ServiceBlock list"
  cv_TopLevel :: "TopLevelBlock list"
  cv_LoadErr :: "load_err option"

datatype cmreason =
    DeclaredTwice | NotDeclared | NotRecorded | NoCanonicalForm | BlockDiffers "cdiff option"
  | NotDigestPinned string | OtherRepository string | JudgesOther string
  | NotARelease string string | BuildNotChecked string string
  | SectionMissing | SectionNoForm | SectionDiffers "cdiff option" | SectionNotRecorded
  | CannotCompare | NotCompared

text \<open>A mismatch: the service, or the section, or the whole manifest.\<close>

datatype where_at = AtService string | AtSection string | AtManifest

type_synonym ComposeMismatch = "where_at \<times> cmreason"

record ComposeCheck =
  cc_Configured :: bool
  cc_Recorded :: bool
  cc_Deployment :: string
  cc_Expected :: nat
  cc_Mismatches :: "ComposeMismatch list"
  cc_Matched :: nat
  cc_TopExpected :: nat
  cc_TopMatched :: nat
  cc_Unverified :: "ComposeMismatch list"

definition cc_zero :: ComposeCheck where
  "cc_zero = \<lparr>cc_Configured = False, cc_Recorded = False, cc_Deployment = [], cc_Expected = 0,
     cc_Mismatches = [], cc_Matched = 0, cc_TopExpected = 0, cc_TopMatched = 0, cc_Unverified = []\<rparr>"

definition Compared :: "ComposeCheck \<Rightarrow> bool" where
  "Compared c = (cc_Configured c \<and> cc_Recorded c)"

definition Complete_check :: "ComposeCheck \<Rightarrow> bool" where
  "Complete_check c = (cc_Unverified c = [])"

definition check_OK :: "ComposeCheck \<Rightarrow> bool" where
  "check_OK c = (\<not> Compared c \<or> cc_Mismatches c = [])"

definition cc_add :: "where_at \<Rightarrow> cmreason \<Rightarrow> ComposeCheck \<Rightarrow> ComposeCheck" where
  "cc_add loc r c = c\<lparr>cc_Mismatches := cc_Mismatches c @ [(loc, r)]\<rparr>"

definition cb_truncate :: "string \<Rightarrow> string" where
  "cb_truncate s = (if length s \<le> 100 then s else take 100 s @ [CHR 0xE2, CHR 0x80, CHR 0xA6])"

definition firstDiff :: "bytes \<Rightarrow> bytes \<Rightarrow> cdiff option" where
  "firstDiff want got =
     (let w = split_all (CHR 0x0A) (trim_right_char (CHR 0x0A) want);
          g = split_all (CHR 0x0A) (trim_right_char (CHR 0x0A) got) in
      case first_difference 0 g w of
        Some d \<Rightarrow> Some d
      | None \<Rightarrow>
          if length w < length g then Some (ExtraLines (length g - length w) (length w) (cb_truncate (g ! length w)))
          else if length g < length w
          then Some (MissingLines (length w - length g) (length g) (cb_truncate (w ! length g)))
          else None)"

definition checkImage ::
    "BaselineService \<Rightarrow> ServiceBlock \<Rightarrow> ReleaseVerifier option \<Rightarrow> ComposeCheck \<Rightarrow> ComposeCheck" where
  "checkImage want got rels c =
     (if pinsImageInBlock want then c
      else let loc = AtService (bs_Name want); (repo, _, digest) = SplitImageRef (sb_ImageRef got) in
        if \<not> isDigestShaped digest then cc_add loc (NotDigestPinned (sb_ImageRef got)) c
        else if repo \<noteq> bs_Repository want then cc_add loc (OtherRepository repo) c
        else if (case rels of None \<Rightarrow> False | Some r \<Rightarrow> rvf_Repository r \<noteq> bs_Repository want)
        then cc_add loc (JudgesOther (case rels of None \<Rightarrow> [] | Some r \<Rightarrow> rvf_Repository r)) c
        else case rv_Status (VerifyRelease rels repo digest) of
            ReleaseAccepted \<Rightarrow> c
          | ReleaseUnavailable \<Rightarrow> c\<lparr>cc_Unverified := cc_Unverified c @ [(loc, BuildNotChecked repo digest)]\<rparr>
          | ReleaseRejected \<Rightarrow> cc_add loc (NotARelease repo digest) c)"

definition checkService ::
    "BaselineService \<Rightarrow> ServiceBlock \<Rightarrow> ReleaseVerifier option \<Rightarrow> ComposeCheck \<Rightarrow> ComposeCheck" where
  "checkService want got rels c =
     (if sb_Err got then cc_add (AtService (bs_Name want)) NoCanonicalForm c
      else let observed = (if pinsImageInBlock want then sb_Canonical got else sb_CanonicalNoImage got) in
        if observed \<noteq> bs_Block want
        then cc_add (AtService (bs_Name want)) (BlockDiffers (firstDiff (bs_Block want) observed)) c
        else checkImage want got rels c)"

definition check_recorded_service ::
    "ServiceBlock list \<Rightarrow> ReleaseVerifier option \<Rightarrow> BaselineService \<Rightarrow> ComposeCheck \<Rightarrow> ComposeCheck" where
  "check_recorded_service blocks rels want c =
     (case List.find (\<lambda>b. sb_Name b = bs_Name want) blocks of
        None \<Rightarrow> cc_add (AtService (bs_Name want)) NotDeclared c
      | Some got \<Rightarrow>
          (let c' = checkService want got rels c in
           if length (cc_Mismatches c') = length (cc_Mismatches c)
              \<and> length (cc_Unverified c') = length (cc_Unverified c)
           then c'\<lparr>cc_Matched := Suc (cc_Matched c')\<rparr> else c'))"

text \<open>The last section with a key is the one compared.\<close>

definition check_recorded_section :: "TopLevelBlock list \<Rightarrow> BaselineTopLevel \<Rightarrow> ComposeCheck \<Rightarrow> ComposeCheck" where
  "check_recorded_section got w c =
     (let loc = AtSection (bt_Key w) in
      case List.find (\<lambda>g. tb_Key g = bt_Key w) (rev got) of
        None \<Rightarrow> cc_add loc SectionMissing c
      | Some g \<Rightarrow>
          if tb_Err g then cc_add loc SectionNoForm c
          else if tb_Canonical g \<noteq> bt_Block w
          then cc_add loc (SectionDiffers (firstDiff (bt_Block w) (tb_Canonical g))) c
          else c\<lparr>cc_TopMatched := Suc (cc_TopMatched c)\<rparr>)"

definition checkTopLevel :: "BaselineTopLevel list \<Rightarrow> TopLevelBlock list \<Rightarrow> ComposeCheck \<Rightarrow> ComposeCheck" where
  "checkTopLevel want got c =
     (let c1 = fold (check_recorded_section got) want (c\<lparr>cc_TopExpected := length want\<rparr>) in
      fold (\<lambda>g. if tb_Key g \<in> bt_Key ` set want then id else cc_add (AtSection (tb_Key g)) SectionNotRecorded) got c1)"

text \<open>The names declared more than once, sorted.\<close>

definition dupes :: "string list \<Rightarrow> string list" where
  "dupes ns = sort (remdups (filter (\<lambda>n. count_list ns n > 1) ns))"

definition CheckCompose ::
    "Deployment list \<Rightarrow> ReleaseVerifier option \<Rightarrow> string \<Rightarrow> string \<Rightarrow> ServiceBlock list \<Rightarrow>
     TopLevelBlock list \<Rightarrow> ComposeCheck" where
  "CheckCompose b rels contract provider blocks tops =
     (let c0 = cc_zero\<lparr>cc_Configured := (b \<noteq> [])\<rparr> in
      if b = [] then c0
      else case baseline_For b contract provider of
        None \<Rightarrow> c0
      | Some dep \<Rightarrow>
          (let c1 = c0\<lparr>cc_Recorded := True, cc_Deployment := dp_Name dep,
                      cc_Expected := length (dp_Services dep)\<rparr>;
               c2 = fold (\<lambda>n. cc_add (AtService n) DeclaredTwice) (dupes (map sb_Name blocks)) c1;
               c3 = fold (check_recorded_service blocks rels) (dp_Services dep) c2;
               c4 = fold (\<lambda>g. if sb_Name g \<in> bs_Name ` set (dp_Services dep) then id
                              else cc_add (AtService (sb_Name g)) NotRecorded) blocks c3
           in checkTopLevel (dp_TopLevel dep) tops c4))"

definition CheckReview ::
    "Deployment list \<Rightarrow> ReleaseVerifier option \<Rightarrow> string \<Rightarrow> string \<Rightarrow> ComposeReview \<Rightarrow> ComposeCheck" where
  "CheckReview b rels contract provider r =
     (case cv_LoadErr r of
        None \<Rightarrow> CheckCompose b rels contract provider (cv_Blocks r) (cv_TopLevel r)
      | Some e \<Rightarrow>
          (let c0 = cc_zero\<lparr>cc_Configured := (b \<noteq> [])\<rparr> in
           case baseline_For b contract provider of
             None \<Rightarrow> c0
           | Some dep \<Rightarrow>
               (let c1 = c0\<lparr>cc_Recorded := True, cc_Deployment := dp_Name dep,
                           cc_Expected := length (dp_Services dep), cc_TopExpected := length (dp_TopLevel dep)\<rparr> in
                if e = LoadNotRead
                then c1\<lparr>cc_Unverified := cc_Unverified c1 @ [(AtManifest, NotCompared)]\<rparr>
                else cc_add AtManifest CannotCompare c1)))"

end
