(* ===== verification/Compose_BaselineFacts.thy ===== *)
theory Compose_BaselineFacts
  imports Compose_Baseline
begin

text \<open>
  What a comparison that passes means, and what a baseline file that parses guarantees about the
  lookup of a provider.
\<close>

section \<open>A clean comparison\<close>

definition clean :: "ComposeCheck \<Rightarrow> bool" where
  "clean c = (cc_Mismatches c = [] \<and> cc_Unverified c = [])"

lemma clean_fold:
  "(\<And>x c. x \<in> set xs \<Longrightarrow> clean (f x c) \<longleftrightarrow> clean c \<and> P x) \<Longrightarrow>
     clean (fold f xs c) \<longleftrightarrow> clean c \<and> (\<forall>x\<in>set xs. P x)"
  by (induction xs arbitrary: c) auto

lemma clean_add [simp]: "\<not> clean (cc_add l r c)"
  by (simp add: clean_def cc_add_def)

lemma clean_updates [simp]:
  "clean (c\<lparr>cc_TopExpected := n\<rparr>) = clean c" "clean (c\<lparr>cc_Matched := n\<rparr>) = clean c"
  "clean (c\<lparr>cc_TopMatched := n\<rparr>) = clean c" "clean (c\<lparr>cc_Recorded := b\<rparr>) = clean c"
  "clean (c\<lparr>cc_Deployment := d\<rparr>) = clean c" "clean (c\<lparr>cc_Expected := n\<rparr>) = clean c"
  "clean (c\<lparr>cc_Configured := b\<rparr>) = clean c" "clean cc_zero"
  by (simp_all add: clean_def cc_zero_def)

text \<open>The service is the recorded one, or the recorded one with an accepted release of its image.\<close>

definition service_ok :: "BaselineService \<Rightarrow> ServiceBlock \<Rightarrow> ReleaseVerifier option \<Rightarrow> bool" where
  "service_ok want got rels =
     (\<not> sb_Err got \<and>
      (if bs_Repository want = [] then sb_Canonical got = bs_Block want
       else sb_CanonicalNoImage got = bs_Block want
         \<and> (\<exists>r tag digest. rels = Some r \<and> SplitImageRef (sb_ImageRef got) = (bs_Repository want, tag, digest)
              \<and> isDigestShaped digest \<and> rvf_Repository r = bs_Repository want
              \<and> rv_Status (rvf_Verify r (bs_Repository want) digest) = ReleaseAccepted)))"

lemma clean_image:
  "clean (checkImage want got rels c) \<longleftrightarrow>
     clean c \<and> (bs_Repository want \<noteq> [] \<longrightarrow>
       (\<exists>r tag digest. rels = Some r \<and> SplitImageRef (sb_ImageRef got) = (bs_Repository want, tag, digest)
          \<and> isDigestShaped digest \<and> rvf_Repository r = bs_Repository want
          \<and> rv_Status (rvf_Verify r (bs_Repository want) digest) = ReleaseAccepted))"
proof -
  obtain repo tag digest where s: "SplitImageRef (sb_ImageRef got) = (repo, tag, digest)"
    by (cases "SplitImageRef (sb_ImageRef got)")
  have u: "\<not> clean (c\<lparr>cc_Unverified := cc_Unverified c @ [x]\<rparr>)" for c x by (simp add: clean_def)
  show ?thesis
    using s u
    by (auto simp: checkImage_def pinsImageInBlock_def VerifyRelease_def Let_def
        split: option.splits ReleaseStatus.splits)
qed

lemma clean_service: "clean (checkService want got rels c) \<longleftrightarrow> clean c \<and> service_ok want got rels"
  by (auto simp: checkService_def service_ok_def clean_image pinsImageInBlock_def Let_def)

lemma clean_recorded_service:
  "clean (check_recorded_service blocks rels want c) \<longleftrightarrow>
     clean c \<and> (\<exists>got. List.find (\<lambda>b. sb_Name b = bs_Name want) blocks = Some got \<and> service_ok want got rels)"
  by (auto simp: check_recorded_service_def clean_service Let_def split: option.splits)

lemma clean_recorded_section:
  "clean (check_recorded_section got w c) \<longleftrightarrow>
     clean c \<and> (\<exists>g. List.find (\<lambda>g. tb_Key g = bt_Key w) (rev got) = Some g
                  \<and> \<not> tb_Err g \<and> tb_Canonical g = bt_Block w)"
  by (auto simp: check_recorded_section_def Let_def split: option.splits)

text \<open>The sections are the recorded ones.\<close>

definition sections_ok :: "BaselineTopLevel list \<Rightarrow> TopLevelBlock list \<Rightarrow> bool" where
  "sections_ok want got =
     (tb_Key ` set got \<subseteq> bt_Key ` set want
      \<and> (\<forall>w\<in>set want. \<exists>g. List.find (\<lambda>g. tb_Key g = bt_Key w) (rev got) = Some g
           \<and> \<not> tb_Err g \<and> tb_Canonical g = bt_Block w))"

lemma clean_top: "clean (checkTopLevel want got c) \<longleftrightarrow> clean c \<and> sections_ok want got"
proof -
  have "clean (fold (\<lambda>g. if tb_Key g \<in> bt_Key ` set want then id
                          else cc_add (AtSection (tb_Key g)) SectionNotRecorded) got d)
      \<longleftrightarrow> clean d \<and> (\<forall>g\<in>set got. tb_Key g \<in> bt_Key ` set want)" for d
    by (rule clean_fold) auto
  moreover have "clean (fold (check_recorded_section got) want d) \<longleftrightarrow> clean d \<and>
      (\<forall>w\<in>set want. \<exists>g. List.find (\<lambda>g. tb_Key g = bt_Key w) (rev got) = Some g
           \<and> \<not> tb_Err g \<and> tb_Canonical g = bt_Block w)" for d
    by (rule clean_fold) (rule clean_recorded_section)
  ultimately show ?thesis
    unfolding checkTopLevel_def sections_ok_def Let_def by auto
qed

lemma dupes_none: "dupes ns = [] \<longleftrightarrow> distinct ns"
proof -
  have "dupes ns = [] \<longleftrightarrow> filter (\<lambda>n. count_list ns n > 1) ns = []"
    unfolding dupes_def by (metis length_0_conv length_sort remdups_eq_nil_iff)
  also have "\<dots> \<longleftrightarrow> (\<forall>n\<in>set ns. count_list ns n \<le> 1)" by (auto simp: filter_empty_conv not_less)
  also have "\<dots> \<longleftrightarrow> distinct ns"
  proof (induction ns)
    case (Cons a ns)
    then show ?case by (auto simp: count_list_0_iff)
  qed simp
  finally show ?thesis .
qed

text \<open>The loop over the recorded services keeps these fields.\<close>

lemma keeps_fold:
  "(\<And>x c. cc_Configured (f x c) = cc_Configured c \<and> cc_Recorded (f x c) = cc_Recorded c) \<Longrightarrow>
     cc_Configured (fold f xs c) = cc_Configured c \<and> cc_Recorded (fold f xs c) = cc_Recorded c"
  by (induction xs arbitrary: c) auto

lemma keeps:
  "cc_Configured (cc_add l r c) = cc_Configured c \<and> cc_Recorded (cc_add l r c) = cc_Recorded c"
  "cc_Configured (check_recorded_service bs rels w c) = cc_Configured c
     \<and> cc_Recorded (check_recorded_service bs rels w c) = cc_Recorded c"
  "cc_Configured (check_recorded_section g s c) = cc_Configured c
     \<and> cc_Recorded (check_recorded_section g s c) = cc_Recorded c"
  by (auto simp: cc_add_def check_recorded_service_def checkService_def checkImage_def
      check_recorded_section_def Let_def split: option.splits ReleaseStatus.splits prod.splits)

lemma compared_CheckCompose:
  "Compared (CheckCompose b rels contract provider blocks tops) \<longleftrightarrow> (\<exists>dep. baseline_For b contract provider = Some dep)"
proof (cases "baseline_For b contract provider")
  case (Some dep)
  then have ne: "b \<noteq> []" by (auto simp: baseline_For_def)
  have add: "cc_Configured (fold (\<lambda>n. cc_add (l n) (r n)) xs c) = cc_Configured c
      \<and> cc_Recorded (fold (\<lambda>n. cc_add (l n) (r n)) xs c) = cc_Recorded c" for l r xs c
    by (rule keeps_fold) (simp add: keeps)
  have add': "cc_Configured (fold (\<lambda>g. if Q g then id else cc_add (l g) (r g)) xs c) = cc_Configured c
      \<and> cc_Recorded (fold (\<lambda>g. if Q g then id else cc_add (l g) (r g)) xs c) = cc_Recorded c" for Q l r xs c
    by (rule keeps_fold) (simp add: keeps)
  have svc: "cc_Configured (fold (check_recorded_service blocks rels) xs c) = cc_Configured c
      \<and> cc_Recorded (fold (check_recorded_service blocks rels) xs c) = cc_Recorded c" for xs c
    by (rule keeps_fold) (rule keeps(2))
  have sec: "cc_Configured (fold (check_recorded_section tops) xs c) = cc_Configured c
      \<and> cc_Recorded (fold (check_recorded_section tops) xs c) = cc_Recorded c" for xs c
    by (rule keeps_fold) (rule keeps(3))
  show ?thesis
    using Some ne by (simp add: CheckCompose_def checkTopLevel_def Compared_def Let_def add add' svc sec)
next
  case None
  then show ?thesis by (simp add: CheckCompose_def Compared_def cc_zero_def Let_def)
qed

text \<open>
  C39: A manifest passes the comparison exactly when the provider has a recorded deployment and the
  manifest is that deployment in every direction: no service declared twice, no service or section
  missing or extra, every block identical, and where the record lets the image move, an image pinned
  by a digest that the release verifier accepts as a build of the recorded repository.
\<close>

theorem CheckReview_pass_iff:
  "Compared (CheckReview b rels contract provider r) \<and> cc_Mismatches (CheckReview b rels contract provider r) = []
       \<and> cc_Unverified (CheckReview b rels contract provider r) = []
     \<longleftrightarrow> cv_LoadErr r = None \<and> (\<exists>dep. baseline_For b contract provider = Some dep
       \<and> distinct (map sb_Name (cv_Blocks r)) \<and> sb_Name ` set (cv_Blocks r) \<subseteq> bs_Name ` set (dp_Services dep)
       \<and> (\<forall>want\<in>set (dp_Services dep). \<exists>got. List.find (\<lambda>g. sb_Name g = bs_Name want) (cv_Blocks r) = Some got
            \<and> service_ok want got rels)
       \<and> sections_ok (dp_TopLevel dep) (cv_TopLevel r))"
proof (cases "cv_LoadErr r")
  case (Some e)
  then show ?thesis
    by (cases "baseline_For b contract provider")
      (simp_all add: CheckReview_def Compared_def cc_zero_def cc_add_def Let_def)
next
  case load: None
  let ?c = "CheckCompose b rels contract provider (cv_Blocks r) (cv_TopLevel r)"
  have "Compared ?c \<and> clean ?c \<longleftrightarrow> (\<exists>dep. baseline_For b contract provider = Some dep
       \<and> distinct (map sb_Name (cv_Blocks r)) \<and> sb_Name ` set (cv_Blocks r) \<subseteq> bs_Name ` set (dp_Services dep)
       \<and> (\<forall>want\<in>set (dp_Services dep). \<exists>got. List.find (\<lambda>g. sb_Name g = bs_Name want) (cv_Blocks r) = Some got
            \<and> service_ok want got rels)
       \<and> sections_ok (dp_TopLevel dep) (cv_TopLevel r))"
  proof (cases "baseline_For b contract provider")
    case (Some dep)
    then have ne: "b \<noteq> []" by (auto simp: baseline_For_def)
    have dup: "clean (fold (\<lambda>n. cc_add (AtService n) DeclaredTwice) ns c) \<longleftrightarrow> clean c \<and> ns = []" for ns c
      using clean_fold[of ns "\<lambda>n. cc_add (AtService n) DeclaredTwice" "\<lambda>_. False" c] by (cases ns) auto
    have svc: "clean (fold (check_recorded_service (cv_Blocks r) rels) xs c) \<longleftrightarrow> clean c \<and>
        (\<forall>want\<in>set xs. \<exists>got. List.find (\<lambda>b. sb_Name b = bs_Name want) (cv_Blocks r) = Some got
           \<and> service_ok want got rels)" for xs c
      by (rule clean_fold) (rule clean_recorded_service)
    have ext: "clean (fold (\<lambda>g. if sb_Name g \<in> bs_Name ` set (dp_Services dep) then id
                     else cc_add (AtService (sb_Name g)) NotRecorded) xs c)
        \<longleftrightarrow> clean c \<and> (\<forall>g\<in>set xs. sb_Name g \<in> bs_Name ` set (dp_Services dep))" for xs c
      by (rule clean_fold) auto
    have "clean ?c \<longleftrightarrow> dupes (map sb_Name (cv_Blocks r)) = []
        \<and> (\<forall>want\<in>set (dp_Services dep). \<exists>got. List.find (\<lambda>b. sb_Name b = bs_Name want) (cv_Blocks r) = Some got
           \<and> service_ok want got rels)
        \<and> (\<forall>g\<in>set (cv_Blocks r). sb_Name g \<in> bs_Name ` set (dp_Services dep))
        \<and> sections_ok (dp_TopLevel dep) (cv_TopLevel r)"
      using ne by (simp add: CheckCompose_def Some Let_def clean_top ext svc dup)
    then show ?thesis
      unfolding dupes_none using Some compared_CheckCompose[of b rels contract provider] by auto
  qed (simp add: compared_CheckCompose)
  then show ?thesis using load by (simp add: CheckReview_def clean_def)
qed

section \<open>The file\<close>

lemma parse_providers_owner:
  "parse_providers label contract ps owner = Inr (qs, owner') \<Longrightarrow>
     set owner' = set owner \<union> Pair contract ` set qs \<and> Pair contract ` set qs \<inter> set owner = {}
     \<and> length qs = length ps"
proof (induction ps arbitrary: owner qs owner')
  case (Cons p ps)
  from Cons.prems obtain rs where r: "(contract, normAddr p) \<notin> set owner" "qs = normAddr p # rs"
    "parse_providers label contract ps ((contract, normAddr p) # owner) = Inr (rs, owner')"
    by (auto simp: bind_r_eq_Inr fail_if_eq_Inr split: prod.splits)
  show ?case using Cons.IH[OF r(3)] r(1,2) by auto
qed simp

definition owned :: "Deployment \<Rightarrow> (string \<times> string) set" where
  "owned d = Pair (dp_Contract d) ` set (dp_Providers d)"

lemma parse_deployments_owned:
  "parse_deployments canon i names owner ds = Inr b \<Longrightarrow>
     pairwise (\<lambda>d e. disjnt (owned d) (owned e)) (set b) \<and> distinct b
     \<and> (\<forall>d\<in>set b. disjnt (owned d) (set owner) \<and> owned d \<noteq> {} \<and> dp_Services d \<noteq> [])"
proof (induction ds arbitrary: i names owner b)
  case (Cons d ds)
  let ?label = "trim_space (df_name d)" and ?contract = "normAddr (df_contract d)"
  from Cons.prems obtain providers owner' svcs tops rest where p:
    "df_providers d \<noteq> []" "parse_providers ?label ?contract (df_providers d) owner = Inr (providers, owner')"
    "df_services d \<noteq> []" "parseServices canon [] (df_services d) = Inr svcs"
    "parse_deployments canon (Suc i) (?label # names) owner' ds = Inr rest"
    "b = \<lparr>dp_Name = ?label, dp_Contract = ?contract, dp_Providers = providers,
          dp_Services = svcs, dp_TopLevel = tops\<rparr> # rest" (is "_ = ?d # _")
    by (auto simp: Let_def bind_r_eq_Inr fail_if_eq_Inr split: prod.splits)
  have o: "set owner' = set owner \<union> owned ?d" "disjnt (owned ?d) (set owner)" "length providers = length (df_providers d)"
    using parse_providers_owner[OF p(2)] by (auto simp: owned_def disjnt_def)
  have ne: "owned ?d \<noteq> {}" "svcs \<noteq> []"
    using o(3) p(1,3,4) by (cases "df_services d"; auto simp: owned_def bind_r_eq_Inr)+
  have IH: "pairwise (\<lambda>d e. disjnt (owned d) (owned e)) (set rest)" "distinct rest"
    "\<forall>e\<in>set rest. disjnt (owned e) (set owner') \<and> owned e \<noteq> {} \<and> dp_Services e \<noteq> []"
    using Cons.IH[OF p(5)] by auto
  have sep: "\<forall>e\<in>set rest. disjnt (owned e) (owned ?d) \<and> disjnt (owned e) (set owner)"
    using IH(3) o(1) by (auto simp: disjnt_def)
  then have "?d \<notin> set rest" using ne(1) by (auto simp: disjnt_def)
  moreover have "pairwise (\<lambda>d e. disjnt (owned d) (owned e)) (set b)"
    using IH(1) sep p(6) by (auto simp: pairwise_insert disjnt_sym)
  ultimately show ?case using p(6) IH sep o(2) ne by auto
qed simp

text \<open>
  C40: A baseline file that parses records each provider of a contract in at most one deployment and
  no deployment without providers or services, so looking a provider up is unambiguous: the lookup
  finds a deployment exactly when it lists that provider under that contract, in any spelling.
\<close>

theorem ParseComposeBaseline_unambiguous:
  assumes "ParseComposeBaseline canon raw = Inr b"
  shows "(baseline_For b contract provider = Some d \<longleftrightarrow>
           d \<in> set b \<and> dp_Contract d = normAddr contract \<and> normAddr provider \<in> set (dp_Providers d))
     \<and> (\<forall>e\<in>set b. dp_Providers e \<noteq> [] \<and> dp_Services e \<noteq> [])"
proof -
  obtain ds where "parse_deployments canon 1 [] [] ds = Inr b"
    using assms by (auto simp: ParseComposeBaseline_def bind_r_eq_Inr split: prod.splits)
  from parse_deployments_owned[OF this]
  have pw: "pairwise (\<lambda>d e. disjnt (owned d) (owned e)) (set b)"
    and ne: "\<forall>e\<in>set b. owned e \<noteq> {} \<and> dp_Services e \<noteq> []" by auto
  let ?P = "\<lambda>d. dp_Contract d = normAddr contract \<and> normAddr provider \<in> set (dp_Providers d)"
  have uniq: "d = e" if "d \<in> set b" "e \<in> set b" "?P d" "?P e" for d e
  proof (rule ccontr)
    assume "d \<noteq> e"
    then have "disjnt (owned d) (owned e)" using pw that(1,2) by (auto simp: pairwise_def)
    then show False using that(3,4) by (auto simp: disjnt_def owned_def)
  qed
  have "baseline_For b contract provider = Some d \<longleftrightarrow> d \<in> set b \<and> ?P d"
  proof
    assume "baseline_For b contract provider = Some d"
    then show "d \<in> set b \<and> ?P d" by (auto simp: baseline_For_def find_Some_iff)
  next
    assume d: "d \<in> set b \<and> ?P d"
    then obtain e where e: "baseline_For b contract provider = Some e"
      by (cases "baseline_For b contract provider") (auto simp: baseline_For_def find_None_iff)
    then have "e \<in> set b \<and> ?P e" by (auto simp: baseline_For_def find_Some_iff)
    then show "baseline_For b contract provider = Some d" using uniq d e by blast
  qed
  then show ?thesis using ne by (auto simp: owned_def)
qed

section \<open>A concrete file\<close>

definition demo_canon :: canonicalizer where
  "demo_canon = \<lparr>cn_service = (\<lambda>_ b. Some b), cn_top = (\<lambda>_ b. Some b)\<rparr>"

definition demo_addr :: string where
  "demo_addr = ''0x'' @ replicate 40 (CHR ''A'')"

definition demo_json :: json where
  "demo_json = JObj [(''deployments'', JArr [JObj [(''name'', JStr ''d''),
     (''contract'', JStr demo_addr), (''providers'', JArr [JStr demo_addr]),
     (''services'', JArr [JObj [(''name'', JStr ''web''), (''block'', JArr [JStr ''web:''])],
                          JObj [(''name'', JStr ''app''), (''block'', JArr [JStr ''app:'']),
                                (''image'', JObj [(''repository'', JStr ''r/app'')])]])]])]"

definition demo_deployment :: Deployment where
  "demo_deployment = \<lparr>dp_Name = ''d'', dp_Contract = to_lower demo_addr, dp_Providers = [to_lower demo_addr],
     dp_Services = [\<lparr>bs_Name = ''web'', bs_Block = ''web:'' @ [CHR 0x0A], bs_Repository = []\<rparr>,
                    \<lparr>bs_Name = ''app'', bs_Block = ''app:'' @ [CHR 0x0A], bs_Repository = ''r/app''\<rparr>],
     dp_TopLevel = []\<rparr>"

lemma ParseComposeBaseline_print:
  assumes "json_ok v" "num_stop r"
  shows "ParseComposeBaseline canon (json_print v @ r) =
     bind_r (opt_r (baseline_file_of v) BaselineJSON) (\<lambda>(ds, old).
     bind_r (fail_if (dec_More r) BaselineTrailing) (\<lambda>_.
     bind_r (fail_if old OldFormat) (\<lambda>_. parse_deployments canon 1 [] [] ds)))"
proof -
  have "parse_val (Suc (length (json_print v @ r))) (skip_ws (json_print v @ r)) = Some (v, r)"
    unfolding skip_ws_starts[OF starts_value_print[OF assms(1)]]
    by (rule parse_print_mutual(1)) (use assms in simp_all)
  then show ?thesis
    unfolding ParseComposeBaseline_def by (simp add: opt_r_def bind_r_def del: parse_val.simps)
qed

lemma demo_addr_norm [simp]: "trim_space demo_addr = demo_addr" "cb_isAddress demo_addr"
  "normAddr demo_addr = to_lower demo_addr"
  by code_simp+

lemma demo_ok: "json_ok demo_json"
  by (simp add: demo_json_def)

lemma demo_file_of:
  "baseline_file_of demo_json = Some ([\<lparr>df_name = ''d'', df_contract = demo_addr, df_providers = [demo_addr],
     df_services = [\<lparr>sf_name = ''web'', sf_block = [''web:''], sf_image = None\<rparr>,
                    \<lparr>sf_name = ''app'', sf_block = [''app:''],
                     sf_image = Some \<lparr>if_repository = ''r/app'', if_digest = [], if_reference = []\<rparr>\<rparr>],
     df_top_level = []\<rparr>], False)"
  by (simp add: demo_json_def baseline_file_of_def deployment_file_of_def service_file_of_def image_file_of_def
      decode_strict_def decode_struct_def struct_field_def list_of_def as_array_def as_strings_def as_string_def
      str_into_def)

lemma demo_trim [simp]: "trim_space ''d'' = ''d''" "trim_space ''web'' = ''web''" "trim_space ''app'' = ''app''"
  "trim_space ''r/app'' = ''r/app''" "trim_space [] = []"
  by code_simp+

lemma demo_deployments:
  "bind_r (opt_r (baseline_file_of demo_json) BaselineJSON) (\<lambda>(ds, old).
     bind_r (fail_if False BaselineTrailing) (\<lambda>_.
     bind_r (fail_if old OldFormat) (\<lambda>_. parse_deployments demo_canon 1 [] [] ds))) = Inr [demo_deployment]"
  unfolding demo_file_of
  by (simp add: opt_r_def bind_r_def fail_if_def baseline_service_def demo_canon_def block_text_def join_with_def
      demo_deployment_def)

lemma demo_parse: "ParseComposeBaseline demo_canon (json_print demo_json) = Inr [demo_deployment]"
  using ParseComposeBaseline_print[OF demo_ok, of "[]" demo_canon] demo_deployments by (simp add: dec_More_def)

text \<open>A second value is refused, but not what starts with a closing brace.\<close>

lemma demo_trailing:
  "ParseComposeBaseline demo_canon (json_print demo_json @ ''{}'') = Inl BaselineTrailing"
  "ParseComposeBaseline demo_canon (json_print demo_json @ ''}{}'') = Inr [demo_deployment]"
proof -
  show "ParseComposeBaseline demo_canon (json_print demo_json @ ''{}'') = Inl BaselineTrailing"
    by (subst ParseComposeBaseline_print[OF demo_ok])
      (simp_all add: num_stop_def num_char_def is_digit_def dec_More_def demo_file_of opt_r_def bind_r_def fail_if_def)
  show "ParseComposeBaseline demo_canon (json_print demo_json @ ''}{}'') = Inr [demo_deployment]"
    by (subst ParseComposeBaseline_print[OF demo_ok]) (use demo_deployments in \<open>simp_all add: dec_More_def\<close>)
qed

theorem ParseComposeBaseline_unambiguous_witness:
  "baseline_For [demo_deployment] demo_addr demo_addr = Some demo_deployment
     \<longleftrightarrow> dp_Contract demo_deployment = normAddr demo_addr \<and> normAddr demo_addr \<in> set (dp_Providers demo_deployment)"
  using ParseComposeBaseline_unambiguous[OF demo_parse, of demo_addr demo_addr demo_deployment] by simp

text \<open>A manifest that is the recorded deployment, with a released image.\<close>

definition demo_review :: "string \<Rightarrow> ComposeReview" where
  "demo_review digest = \<lparr>cv_Blocks =
     [\<lparr>sb_Name = ''app'', sb_Canonical = [], sb_CanonicalNoImage = ''app:'' @ [CHR 0x0A],
       sb_ImageRef = ''r/app:v1@sha256:'' @ digest, sb_Err = False\<rparr>,
      \<lparr>sb_Name = ''web'', sb_Canonical = ''web:'' @ [CHR 0x0A], sb_CanonicalNoImage = [], sb_ImageRef = [], sb_Err = False\<rparr>],
     cv_TopLevel = [], cv_LoadErr = None\<rparr>"

definition demo_release :: "ReleaseVerifier" where
  "demo_release = \<lparr>rvf_Repository = ''r/app'', rvf_Verify = (\<lambda>_ x.
     \<lparr>rv_Status = (if last x = CHR ''a'' then ReleaseAccepted else ReleaseRejected),
      rv_Release = None, rv_Reason = []\<rparr>)\<rparr>"

lemma demo_For: "baseline_For [demo_deployment] demo_addr demo_addr = Some demo_deployment"
  by (simp add: baseline_For_def demo_deployment_def)

lemma demo_image:
  "SplitImageRef ''r/app:v1@sha256:aaaaaaaaaaaaaaaaaaaaaaaaaaaaaaaaa''
     = (''r/app'', ''v1'', ''sha256:aaaaaaaaaaaaaaaaaaaaaaaaaaaaaaaaa'')"
  "isDigestShaped ''sha256:aaaaaaaaaaaaaaaaaaaaaaaaaaaaaaaaa''"
  by code_simp+

theorem CheckReview_pass_iff_witness:
  "Compared (CheckReview [demo_deployment] (Some demo_release) demo_addr demo_addr
      (demo_review ''aaaaaaaaaaaaaaaaaaaaaaaaaaaaaaaaa''))
   \<and> cc_Mismatches (CheckReview [demo_deployment] (Some demo_release) demo_addr demo_addr
      (demo_review ''aaaaaaaaaaaaaaaaaaaaaaaaaaaaaaaaa'')) = []
   \<and> cc_Unverified (CheckReview [demo_deployment] (Some demo_release) demo_addr demo_addr
      (demo_review ''aaaaaaaaaaaaaaaaaaaaaaaaaaaaaaaaa'')) = []"
  unfolding CheckReview_pass_iff demo_For
  by (simp add: demo_review_def demo_deployment_def service_ok_def sections_ok_def demo_image demo_release_def)

end
