(* ===== verification/Go_Expiry.thy ===== *)
theory Go_Expiry
  imports Go_Map
begin

text \<open>
  Bounded maps whose entries go inert at a known time: the sweep that client/chain and client/route
  each spell out, and the insertion that makes room for a new key first. What the sweep relies on,
  that nobody reads an entry past its deadline, is the locale \<open>expiring\<close>.
\<close>

definition sweepExpired :: "('v \<Rightarrow> int) \<Rightarrow> int \<Rightarrow> 'v gomap \<Rightarrow> 'v gomap" where
  "sweepExpired deadline t m = filter (\<lambda>(k, v). t < deadline v) m"

text \<open>Whether a new key may be added, and the map as the question leaves it.\<close>

definition map_room :: "nat \<Rightarrow> ('v \<Rightarrow> int) \<Rightarrow> int \<Rightarrow> 'v gomap \<Rightarrow> bool \<times> 'v gomap" where
  "map_room cap deadline t m =
     (if length m < cap then (True, m)
      else let m' = sweepExpired deadline t m in (length m' < cap, m'))"

definition put_room :: "nat \<Rightarrow> ('v \<Rightarrow> int) \<Rightarrow> int \<Rightarrow> string \<Rightarrow> 'v \<Rightarrow> 'v gomap \<Rightarrow> 'v gomap" where
  "put_room cap deadline t k v m =
     (if mhas m k then mput k v m
      else case map_room cap deadline t m of (ok, m') \<Rightarrow> if ok then mput k v m' else m')"

section \<open>Sizes\<close>

lemma length_mput: "mwf m \<Longrightarrow> length (mput k v m) = (if mhas m k then length m else Suc (length m))"
proof (induction k v m rule: mput.induct)
  case (2 k v k0 v0 m)
  have m: "mwf m" using "2.prems" by (simp add: mwf_Cons)
  have low: "k < k0 \<Longrightarrow> mget m k = None"
    using "2.prems" by (auto simp: mwf_Cons mget_None)
  show ?case
    using "2.IH" m low by (auto simp: mhas_def)
qed (simp add: mhas_def)

lemma mwf_filter: "mwf m \<Longrightarrow> mwf (filter P m)"
  by (auto simp: mwf_def sorted_wrt_map intro: sorted_wrt_filter)

lemma mget_filter:
  "mwf m \<Longrightarrow> mget (filter (\<lambda>(k, v). Q v) m) k = (case mget m k of Some v \<Rightarrow> if Q v then Some v else None | None \<Rightarrow> None)"
proof (induction m)
  case (Cons p m)
  obtain k' v where p: "p = (k', v)" by (cases p)
  have "mget m k' = None" using Cons.prems p by (auto simp: mwf_Cons mget_None)
  then show ?case using Cons p by (auto simp: mwf_Cons split: option.splits)
qed simp

lemma mwf_sweep: "mwf m \<Longrightarrow> mwf (sweepExpired deadline t m)"
  by (simp add: sweepExpired_def mwf_filter)

lemma mget_sweep:
  "mwf m \<Longrightarrow> mget (sweepExpired deadline t m) k =
     (case mget m k of Some v \<Rightarrow> if t < deadline v then Some v else None | None \<Rightarrow> None)"
  by (simp add: sweepExpired_def mget_filter)

lemma length_sweep: "length (sweepExpired deadline t m) \<le> length m"
  by (simp add: sweepExpired_def)

lemma mwf_put_room: "mwf m \<Longrightarrow> mwf (put_room cap deadline t k v m)"
  by (auto simp: put_room_def map_room_def Let_def mwf_mput mwf_sweep)

lemma length_put_room:
  "mwf m \<Longrightarrow> length m \<le> cap \<Longrightarrow> length (put_room cap deadline t k v m) \<le> cap"
  using length_sweep[of deadline t m]
  by (auto simp: put_room_def map_room_def Let_def length_mput mwf_sweep)

text \<open>An entry is one that was there, or the new one.\<close>

lemma mget_put_room_cases:
  "mwf m \<Longrightarrow> mget (put_room cap deadline t k v m) k' = Some e \<Longrightarrow> mget m k' = Some e \<or> (k' = k \<and> e = v)"
  by (auto simp: put_room_def map_room_def Let_def mget_mput mwf_sweep mget_sweep
        split: if_splits option.splits)

text \<open>An entry whose deadline has not passed stays.\<close>

lemma mget_put_room_live:
  "mwf m \<Longrightarrow> k' \<noteq> k \<Longrightarrow> mget m k' = Some e \<Longrightarrow> t < deadline e \<Longrightarrow>
     mget (put_room cap deadline t k v m) k' = Some e"
  by (auto simp: put_room_def map_room_def Let_def mget_mput mwf_sweep mget_sweep)

lemma mget_put_room_same:
  "mwf m \<Longrightarrow> mhas m k \<or> length m < cap \<Longrightarrow> mget (put_room cap deadline t k v m) k = Some v"
  by (auto simp: put_room_def map_room_def mget_mput)

section \<open>Readers\<close>

text \<open>
  Readers that use an entry only before its deadline cannot tell a swept map from the map itself, nor
  what was put under another key, now or later.
\<close>

locale expiring =
  fixes used :: "int \<Rightarrow> 'v \<Rightarrow> bool" and deadline :: "'v \<Rightarrow> int"
  assumes inert: "deadline v \<le> t \<Longrightarrow> \<not> used t v"
begin

definition lookup :: "int \<Rightarrow> 'v gomap \<Rightarrow> string \<Rightarrow> 'v option" where
  "lookup t m k = (case mget m k of Some v \<Rightarrow> if used t v then Some v else None | None \<Rightarrow> None)"

lemma used_before: "used t v \<Longrightarrow> t < deadline v"
  using inert[of v t] by linarith

lemma lookup_sweep:
  assumes "mwf m" "t \<le> t'"
  shows "lookup t' (sweepExpired deadline t m) k = lookup t' m k"
  using used_before[of t'] assms by (fastforce simp: lookup_def mget_sweep split: option.splits)

lemma lookup_put_room:
  assumes "mwf m" "t \<le> t'" "k' \<noteq> k"
  shows "lookup t' (put_room cap deadline t k v m) k' = lookup t' m k'"
proof -
  have "lookup t' (mput k v m') k' = lookup t' m' k'" if "mwf m'" for m'
    using that assms(3) by (simp add: lookup_def mget_mput)
  then show ?thesis
    using assms lookup_sweep[OF assms(1,2)]
    by (simp add: put_room_def map_room_def Let_def mwf_sweep)
qed

end

end
