(* ===== verification/Chain_Cache.thy ===== *)
theory Chain_Cache
  imports Chain_Registry Go_Expiry
begin

text \<open>
  client/chain/cache.go: a registry behind a per-provider cache with a grace window, a failure
  cooldown and bounded tables. The registry it wraps, the clock, and the caller's context are the
  record \<open>chain_env\<close>; the cache's own state is a record passed in and returned. Calls run one after
  another: a lookup that the singleflight group would share is a call of its own. A caller whose
  context ends during a lookup gets its own error, while the lookup runs to its end and stores what
  it read (\<open>select_gone\<close> says which of the two the caller's select takes).
\<close>

section \<open>State\<close>

definition DefaultGrace :: int where "DefaultGrace = 30 * 60 * 10 ^ 9"
definition FailureCooldown :: int where "FailureCooldown = 30 * 10 ^ 9"
definition maxCachedProviders :: nat where "maxCachedProviders = 4096"

record cacheEntry =
  ce_signer :: string
  ce_acknowledged :: bool
  ce_expires :: int

record failure =
  fl_at :: int
  fl_err :: chain_err

record cachedRegistry =
  cr_ttl :: int
  cr_grace :: int
  cr_cooldown :: int
  cr_entries :: "cacheEntry gomap"
  cr_failures :: "failure gomap"

record 'w chain_env =
  inner_refresh :: "string \<Rightarrow> 'w \<Rightarrow> (chain_err + Signer) \<times> 'w"
  chain_now :: "'w \<Rightarrow> int"
  chain_gone :: "'w \<Rightarrow> bool"
  select_gone :: "'w \<Rightarrow> bool"

text \<open>\<open>None\<close>: no cache is put around the registry.\<close>

definition Cached :: "int \<Rightarrow> int \<Rightarrow> cachedRegistry option" where
  "Cached ttl grace =
     (if ttl \<le> 0 then None
      else Some \<lparr>cr_ttl = ttl, cr_grace = grace, cr_cooldown = FailureCooldown,
                 cr_entries = [], cr_failures = []\<rparr>)"

section \<open>Entries and failures\<close>

definition entry_deadline :: "int \<Rightarrow> cacheEntry \<Rightarrow> int" where
  "entry_deadline grace e = ce_expires e + grace"

definition failure_deadline :: "int \<Rightarrow> failure \<Rightarrow> int" where
  "failure_deadline cooldown f = fl_at f + cooldown"

definition cr_load :: "cachedRegistry \<Rightarrow> string \<Rightarrow> cacheEntry option" where
  "cr_load c key = mget (cr_entries c) key"

definition cr_store :: "int \<Rightarrow> string \<Rightarrow> cacheEntry \<Rightarrow> cachedRegistry \<Rightarrow> cachedRegistry" where
  "cr_store t key e c =
     c\<lparr>cr_entries := put_room maxCachedProviders (entry_deadline (cr_grace c)) t key e (cr_entries c)\<rparr>"

definition recentFailure :: "cachedRegistry \<Rightarrow> string \<Rightarrow> int \<Rightarrow> failure option" where
  "recentFailure c key t =
     (if cr_cooldown c \<le> 0 then None
      else case mget (cr_failures c) key of
        None \<Rightarrow> None
      | Some f \<Rightarrow> if \<not> t < fl_at f + cr_cooldown c then None else Some f)"

definition recordFailure :: "string \<Rightarrow> int \<Rightarrow> chain_err \<Rightarrow> cachedRegistry \<Rightarrow> cachedRegistry" where
  "recordFailure key t e c =
     c\<lparr>cr_failures := put_room maxCachedProviders (failure_deadline (cr_cooldown c)) t key
                        \<lparr>fl_at = t, fl_err = e\<rparr> (cr_failures c)\<rparr>"

definition clearFailure :: "string \<Rightarrow> cachedRegistry \<Rightarrow> cachedRegistry" where
  "clearFailure key c = c\<lparr>cr_failures := mdel (\<lambda>k. k = key) (cr_failures c)\<rparr>"

definition noteFailure :: "'w chain_env \<Rightarrow> 'w \<Rightarrow> string \<Rightarrow> int \<Rightarrow> chain_err \<Rightarrow> cachedRegistry \<Rightarrow> cachedRegistry" where
  "noteFailure E w key t e c = (if chain_gone E w then c else recordFailure key t e c)"

definition staleWithinGrace :: "cachedRegistry \<Rightarrow> string \<Rightarrow> int \<Rightarrow> Signer option" where
  "staleWithinGrace c key t =
     (if cr_grace c \<le> 0 then None
      else case cr_load c key of
        None \<Rightarrow> None
      | Some e \<Rightarrow>
          if \<not> t < ce_expires e + cr_grace c then None
          else Some \<lparr>sg_Address = ce_signer e, sg_Acknowledged = ce_acknowledged e,
                     sg_Stale = True, sg_Cached = True\<rparr>)"

section \<open>Lookups\<close>

text \<open>A live reading is neither stale nor cached.\<close>

definition live_signer :: "Signer \<Rightarrow> Signer" where
  "live_signer got = \<lparr>sg_Address = sg_Address got, sg_Acknowledged = sg_Acknowledged got,
                      sg_Stale = False, sg_Cached = False\<rparr>"

definition cr_refresh ::
    "'w chain_env \<Rightarrow> cachedRegistry \<Rightarrow> string \<Rightarrow> 'w \<Rightarrow> (chain_err + Signer) \<times> cachedRegistry \<times> 'w" where
  "cr_refresh E c addr w =
     (let key = ProviderKey addr in
      case inner_refresh E addr w of
        (r, w') \<Rightarrow>
          (if select_gone E w' then Inl ContextEnded
           else case r of Inl e \<Rightarrow> Inl e | Inr got \<Rightarrow> Inr (live_signer got),
           case r of
             Inl e \<Rightarrow> c
           | Inr got \<Rightarrow>
               clearFailure key
                 (cr_store (chain_now E w') key
                    \<lparr>ce_signer = sg_Address got, ce_acknowledged = sg_Acknowledged got,
                     ce_expires = chain_now E w' + cr_ttl c\<rparr> c),
           w'))"

text \<open>What a miss does: the stale entry or the error that is remembered, or a lookup.\<close>

definition cr_miss ::
    "'w chain_env \<Rightarrow> cachedRegistry \<Rightarrow> string \<Rightarrow> 'w \<Rightarrow> (chain_err + Signer) \<times> cachedRegistry \<times> 'w" where
  "cr_miss E c addr w =
     (let key = ProviderKey addr; t = chain_now E w in
      case recentFailure c key t of
        Some f \<Rightarrow>
          (case staleWithinGrace c key t of Some stale \<Rightarrow> Inr stale | None \<Rightarrow> Inl (fl_err f), c, w)
      | None \<Rightarrow>
          (case cr_refresh E c addr w of
             (Inr got, c', w') \<Rightarrow> (Inr got, c', w')
           | (Inl e, c', w') \<Rightarrow>
               (let t' = chain_now E w'; c'' = noteFailure E w' key t' e c' in
                (case staleWithinGrace c'' key t' of Some stale \<Rightarrow> Inr stale | None \<Rightarrow> Inl e, c'', w'))))"

definition cr_AcknowledgedSigner ::
    "'w chain_env \<Rightarrow> cachedRegistry \<Rightarrow> string \<Rightarrow> 'w \<Rightarrow> (chain_err + Signer) \<times> cachedRegistry \<times> 'w" where
  "cr_AcknowledgedSigner E c addr w =
     (case cr_load c (ProviderKey addr) of
        None \<Rightarrow> cr_miss E c addr w
      | Some e \<Rightarrow>
          if chain_now E w < ce_expires e
          then (Inr \<lparr>sg_Address = ce_signer e, sg_Acknowledged = ce_acknowledged e,
                     sg_Stale = False, sg_Cached = True\<rparr>, c, w)
          else cr_miss E c addr w)"

definition cr_RefreshSigner ::
    "'w chain_env \<Rightarrow> cachedRegistry \<Rightarrow> string \<Rightarrow> 'w \<Rightarrow> (chain_err + Signer) \<times> cachedRegistry \<times> 'w" where
  "cr_RefreshSigner E c addr w =
     (case cr_refresh E c addr w of
        (Inr got, c', w') \<Rightarrow> (Inr got, c', w')
      | (Inl e, c', w') \<Rightarrow> (Inl e, noteFailure E w' (ProviderKey addr) (chain_now E w') e c', w'))"

section \<open>The readers of the two tables\<close>

text \<open>An entry is used until the end of its grace, a failure until the end of its cooldown.\<close>

definition entry_used :: "int \<Rightarrow> int \<Rightarrow> cacheEntry \<Rightarrow> bool" where
  "entry_used grace t e = (t < ce_expires e \<or> (0 < grace \<and> t < ce_expires e + grace))"

definition failure_used :: "int \<Rightarrow> int \<Rightarrow> failure \<Rightarrow> bool" where
  "failure_used cooldown t f = (0 < cooldown \<and> t < fl_at f + cooldown)"

interpretation entries: expiring "entry_used (int g)" "entry_deadline (int g)" for g
  by unfold_locales (auto simp: entry_used_def entry_deadline_def)

interpretation failures: expiring "failure_used d" "failure_deadline d" for d
  by unfold_locales (auto simp: failure_used_def failure_deadline_def)

lemma recentFailure_lookup: "recentFailure c key t = failures.lookup (cr_cooldown c) t (cr_failures c) key"
  by (simp add: recentFailure_def failures.lookup_def failure_used_def split: option.splits)

section \<open>What an operation can change\<close>

definition cr_wf :: "cachedRegistry \<Rightarrow> bool" where
  "cr_wf c = (mwf (cr_entries c) \<and> mwf (cr_failures c)
     \<and> length (cr_entries c) \<le> maxCachedProviders \<and> length (cr_failures c) \<le> maxCachedProviders)"

lemma cr_wf_Cached: "Cached ttl grace = Some c \<Longrightarrow> cr_wf c"
  by (auto simp: Cached_def cr_wf_def split: if_splits)

lemma cr_wf_store: "cr_wf c \<Longrightarrow> cr_wf (cr_store t key e c)"
  by (simp add: cr_wf_def cr_store_def mwf_put_room length_put_room)

lemma cr_wf_record: "cr_wf c \<Longrightarrow> cr_wf (recordFailure key t e c)"
  by (simp add: cr_wf_def recordFailure_def mwf_put_room length_put_room)

lemma cr_wf_clear: "cr_wf c \<Longrightarrow> cr_wf (clearFailure key c)"
  by (simp add: cr_wf_def clearFailure_def mwf_mdel) (simp add: mdel_def le_trans[OF length_filter_le])

lemma cr_wf_note: "cr_wf c \<Longrightarrow> cr_wf (noteFailure E w key t e c)"
  by (simp add: noteFailure_def cr_wf_record)

lemma cr_wf_refresh: "cr_wf c \<Longrightarrow> cr_refresh E c addr w = (r, c', w') \<Longrightarrow> cr_wf c'"
  by (auto simp: cr_refresh_def Let_def cr_wf_store cr_wf_clear split: prod.splits sum.splits)

lemma cr_wf_miss: "cr_wf c \<Longrightarrow> cr_miss E c addr w = (r, c', w') \<Longrightarrow> cr_wf c'"
  by (auto simp: cr_miss_def Let_def split: option.splits prod.splits sum.splits
        intro: cr_wf_refresh cr_wf_note)

lemma cr_wf_ack: "cr_wf c \<Longrightarrow> cr_AcknowledgedSigner E c addr w = (r, c', w') \<Longrightarrow> cr_wf c'"
  by (auto simp: cr_AcknowledgedSigner_def split: option.splits if_splits intro: cr_wf_miss)

lemma cr_wf_RefreshSigner: "cr_wf c \<Longrightarrow> cr_RefreshSigner E c addr w = (r, c', w') \<Longrightarrow> cr_wf c'"
  by (auto simp: cr_RefreshSigner_def split: prod.splits sum.splits intro: cr_wf_refresh cr_wf_note)

end
