(* ===== verification/Chain_CacheFacts.thy ===== *)
theory Chain_CacheFacts
  imports Chain_Cache
begin

text \<open>
  What the cache guarantees over any sequence of calls: its tables stay bounded, every signer it
  returns was read from the chain recently enough, and an outage costs one lookup per cooldown.
\<close>

section \<open>Runs\<close>

text \<open>What a lookup of an address at a world reads: the key, the signer and the time.\<close>

definition lookup_reading :: "'w chain_env \<Rightarrow> string \<Rightarrow> 'w \<Rightarrow> (string \<times> Signer \<times> int) list" where
  "lookup_reading E addr w =
     (case inner_refresh E addr w of
        (Inr got, w') \<Rightarrow> [(ProviderKey addr, got, chain_now E w')]
      | (Inl e, w') \<Rightarrow> [])"

text \<open>Whether a call asks the chain.\<close>

definition looks_up :: "'w chain_env \<Rightarrow> cachedRegistry \<Rightarrow> string \<Rightarrow> 'w \<Rightarrow> bool" where
  "looks_up E c addr w =
     ((case cr_load c (ProviderKey addr) of None \<Rightarrow> True | Some e \<Rightarrow> \<not> chain_now E w < ce_expires e)
      \<and> recentFailure c (ProviderKey addr) (chain_now E w) = None)"

definition ack_readings :: "'w chain_env \<Rightarrow> cachedRegistry \<Rightarrow> string \<Rightarrow> 'w \<Rightarrow> (string \<times> Signer \<times> int) list" where
  "ack_readings E c addr w = (if looks_up E c addr w then lookup_reading E addr w else [])"

text \<open>
  The states a cache goes through from \<open>c0\<close> at \<open>w0\<close>, with what was read from the chain on the way;
  between calls the world moves on and its clock does not go back.
\<close>

inductive cr_runs ::
    "'w chain_env \<Rightarrow> cachedRegistry \<Rightarrow> 'w \<Rightarrow> (string \<times> Signer \<times> int) list \<Rightarrow> cachedRegistry \<Rightarrow> 'w \<Rightarrow> bool"
  for E c0 w0 where
  start: "cr_runs E c0 w0 [] c0 w0"
| pass: "cr_runs E c0 w0 rs c w \<Longrightarrow> chain_now E w \<le> chain_now E w' \<Longrightarrow> cr_runs E c0 w0 rs c w'"
| ack: "cr_runs E c0 w0 rs c w \<Longrightarrow> cr_AcknowledgedSigner E c addr w = (r, c', w') \<Longrightarrow>
     cr_runs E c0 w0 (ack_readings E c addr w @ rs) c' w'"
| live: "cr_runs E c0 w0 rs c w \<Longrightarrow> cr_RefreshSigner E c addr w = (r, c', w') \<Longrightarrow>
     cr_runs E c0 w0 (lookup_reading E addr w @ rs) c' w'"

text \<open>A call either leaves everything as it is or makes one lookup.\<close>

lemma ack_cases:
  assumes "cr_AcknowledgedSigner E c addr w = (r, c', w')"
  obtains (hit) e where "\<not> looks_up E c addr w" "c' = c" "w' = w" "cr_load c (ProviderKey addr) = Some e"
      "chain_now E w < ce_expires e"
      "r = Inr \<lparr>sg_Address = ce_signer e, sg_Acknowledged = ce_acknowledged e, sg_Stale = False, sg_Cached = True\<rparr>"
    | (cooling) f where "\<not> looks_up E c addr w" "c' = c" "w' = w"
      "recentFailure c (ProviderKey addr) (chain_now E w) = Some f"
      "r = (case staleWithinGrace c (ProviderKey addr) (chain_now E w) of Some s \<Rightarrow> Inr s | None \<Rightarrow> Inl (fl_err f))"
    | (read) got where "looks_up E c addr w" "cr_refresh E c addr w = (Inr got, c', w')" "r = Inr got"
    | (failed) e d where "looks_up E c addr w" "cr_refresh E c addr w = (Inl e, d, w')"
      "c' = noteFailure E w' (ProviderKey addr) (chain_now E w') e d"
      "r = (case staleWithinGrace c' (ProviderKey addr) (chain_now E w') of Some s \<Rightarrow> Inr s | None \<Rightarrow> Inl e)"
proof -
  have miss: thesis if "cr_miss E c addr w = (r, c', w')"
    "case cr_load c (ProviderKey addr) of None \<Rightarrow> True | Some e \<Rightarrow> \<not> chain_now E w < ce_expires e"
    using that cooling read failed
    by (auto simp: cr_miss_def looks_up_def Let_def split: option.splits prod.splits sum.splits)
  show thesis
    using assms miss hit
    by (auto simp: cr_AcknowledgedSigner_def looks_up_def split: option.splits if_splits)
qed

text \<open>What a lookup leaves in the tables.\<close>

lemma refresh_cases:
  assumes "cr_refresh E c addr w = (r, c', w')"
  obtains (none) e where "inner_refresh E addr w = (Inl e, w')" "c' = c"
      "lookup_reading E addr w = []" "\<exists>x. r = Inl x"
    | (some) got where "inner_refresh E addr w = (Inr got, w')"
      "lookup_reading E addr w = [(ProviderKey addr, got, chain_now E w')]"
      "c' = clearFailure (ProviderKey addr)
              (cr_store (chain_now E w') (ProviderKey addr)
                \<lparr>ce_signer = sg_Address got, ce_acknowledged = sg_Acknowledged got,
                 ce_expires = chain_now E w' + cr_ttl c\<rparr> c)"
      "r = Inr (live_signer got) \<or> (\<exists>x. r = Inl x)"
  using assms by (auto simp: cr_refresh_def lookup_reading_def Let_def split: prod.splits sum.splits)

lemma config_simps [simp]:
  "cr_ttl (clearFailure k c) = cr_ttl c" "cr_grace (clearFailure k c) = cr_grace c"
  "cr_cooldown (clearFailure k c) = cr_cooldown c" "cr_entries (clearFailure k c) = cr_entries c"
  "cr_ttl (cr_store t k e c) = cr_ttl c" "cr_grace (cr_store t k e c) = cr_grace c"
  "cr_cooldown (cr_store t k e c) = cr_cooldown c" "cr_failures (cr_store t k e c) = cr_failures c"
  "cr_ttl (noteFailure E w k t x c) = cr_ttl c" "cr_grace (noteFailure E w k t x c) = cr_grace c"
  "cr_cooldown (noteFailure E w k t x c) = cr_cooldown c" "cr_entries (noteFailure E w k t x c) = cr_entries c"
  by (simp_all add: clearFailure_def cr_store_def noteFailure_def recordFailure_def)

section \<open>Bounds\<close>

lemma runs_wf: "cr_runs E c0 w0 rs c w \<Longrightarrow> cr_wf c0 \<Longrightarrow> cr_wf c"
  by (induction rule: cr_runs.induct) (auto intro: cr_wf_ack cr_wf_RefreshSigner)

text \<open>
  Whatever addresses the untrusted router makes the client look up, and however the lookups end,
  neither of the cache's tables ever holds more than \<open>maxCachedProviders\<close> keys.
\<close>

theorem cache_stays_bounded:
  assumes "Cached ttl grace = Some c0" "cr_runs E c0 w0 rs c w"
  shows "length (cr_entries c) \<le> maxCachedProviders \<and> length (cr_failures c) \<le> maxCachedProviders"
  using runs_wf[OF assms(2) cr_wf_Cached[OF assms(1)]] by (simp add: cr_wf_def)

section \<open>Every entry was read\<close>

definition backed :: "int \<Rightarrow> (string \<times> Signer \<times> int) list \<Rightarrow> cachedRegistry \<Rightarrow> bool" where
  "backed ttl rs c =
     (cr_ttl c = ttl \<and> mwf (cr_entries c)
      \<and> (\<forall>k e. mget (cr_entries c) k = Some e \<longrightarrow>
          (\<exists>got t. (k, got, t) \<in> set rs \<and> ce_signer e = sg_Address got
             \<and> ce_acknowledged e = sg_Acknowledged got \<and> ce_expires e = t + ttl)))"

lemma backed_mono: "backed ttl rs c \<Longrightarrow> set rs \<subseteq> set rs' \<Longrightarrow> backed ttl rs' c"
  unfolding backed_def by blast

lemma backed_note: "backed ttl rs (noteFailure E w k t e c) = backed ttl rs c"
  by (simp add: backed_def)

lemma backed_clear: "backed ttl rs (clearFailure k c) = backed ttl rs c"
  by (simp add: backed_def)

lemma backed_store:
  assumes "backed ttl rs c" "(k, got, t) \<in> set rs"
  shows "backed ttl rs (cr_store u k \<lparr>ce_signer = sg_Address got, ce_acknowledged = sg_Acknowledged got,
           ce_expires = t + ttl\<rparr> c)"
  using assms mget_put_room_cases[of "cr_entries c"]
  by (fastforce simp: backed_def cr_store_def mwf_put_room)

lemma backed_refresh:
  assumes "backed ttl rs c" "cr_refresh E c addr w = (r, c', w')"
  shows "backed ttl (lookup_reading E addr w @ rs) c'"
  using assms(2)
proof (cases rule: refresh_cases)
  case (none e)
  then show ?thesis using assms(1) by simp
next
  case (some got)
  let ?rs = "lookup_reading E addr w @ rs"
  have b: "backed ttl ?rs c" using assms(1) by (rule backed_mono) auto
  have i: "(ProviderKey addr, got, chain_now E w') \<in> set ?rs" using some(2) by simp
  have t: "cr_ttl c = ttl" using assms(1) by (simp add: backed_def)
  show ?thesis using backed_store[OF b i] some(3) t by (simp add: backed_clear)
qed

lemma runs_backed:
  assumes "Cached ttl grace = Some c0" "cr_runs E c0 w0 rs c w"
  shows "backed ttl rs c \<and> cr_grace c = grace"
  using assms(2)
proof (induction rule: cr_runs.induct)
  case start
  then show ?case using assms(1) by (auto simp: Cached_def backed_def split: if_splits)
next
  case (pass rs c w w')
  then show ?case by simp
next
  case (ack rs c w addr r c' w')
  from ack.hyps(2) show ?case
  proof (cases rule: ack_cases)
    case (read got)
    then show ?thesis
      using ack.IH backed_refresh[of ttl rs c E addr w] refresh_cases[OF read(2)]
      by (fastforce simp: ack_readings_def)
  next
    case (failed e d)
    then have "cr_grace d = grace" using ack.IH refresh_cases[OF failed(2)] by fastforce
    then show ?thesis
      using ack.IH backed_refresh[of ttl rs c E addr w, OF _ failed(2)] failed
      by (simp add: ack_readings_def backed_note)
  qed (use ack.IH in \<open>simp_all add: ack_readings_def\<close>)
next
  case (live rs c w addr r c' w')
  obtain r1 d where rf: "cr_refresh E c addr w = (r1, d, w')" "c' = d \<or> (\<exists>e. c' = noteFailure E w' (ProviderKey addr) (chain_now E w') e d)"
    using live.hyps(2) by (auto simp: cr_RefreshSigner_def split: prod.splits sum.splits)
  have "cr_grace d = grace" using live.IH refresh_cases[OF rf(1)] by fastforce
  then show ?case
    using backed_refresh[OF _ rf(1)] live.IH rf(2) by (auto simp: backed_note)
qed

text \<open>
  C30: A signer the cache returns was read from the chain for that very provider, less than the TTL
  and the grace window ago; one returned as not cached was read by this call, and a stale one is
  marked as cached too.
\<close>

theorem AcknowledgedSigner_was_read:
  assumes "Cached ttl grace = Some c0" "cr_runs E c0 w0 rs c w"
    "cr_AcknowledgedSigner E c addr w = (Inr s, c', w')"
  shows "\<exists>got t. (ProviderKey addr, got, t) \<in> set (lookup_reading E addr w @ (if sg_Cached s then rs else []))
      \<and> sg_Address s = sg_Address got \<and> sg_Acknowledged s = sg_Acknowledged got
      \<and> chain_now E w' < t + ttl + max 0 grace \<and> (sg_Stale s \<longrightarrow> sg_Cached s)"
proof -
  let ?key = "ProviderKey addr" and ?rs = "lookup_reading E addr w @ rs"
  have ttl: "0 < ttl" using assms(1) by (auto simp: Cached_def split: if_splits)
  have inv: "backed ttl rs c" "cr_grace c = grace" using runs_backed[OF assms(1,2)] by simp_all
  have b: "backed ttl ?rs c" using inv(1) by (rule backed_mono) auto
  have entry: ?thesis
    if "cr_load d ?key = Some e" "backed ttl ?rs d" "sg_Cached s" "sg_Address s = ce_signer e"
      "sg_Acknowledged s = ce_acknowledged e" "chain_now E w' < ce_expires e + max 0 grace" for d e
  proof -
    note e = that(1,2)
    obtain got t where "(?key, got, t) \<in> set ?rs" "ce_signer e = sg_Address got"
      "ce_acknowledged e = sg_Acknowledged got" "ce_expires e = t + ttl"
      using e unfolding backed_def cr_load_def by blast
    then show ?thesis using that(3-6) by (intro exI[of _ got] exI[of _ t]) simp
  qed
  have stale: ?thesis
    if "staleWithinGrace d ?key (chain_now E w') = Some s" "backed ttl ?rs d" "cr_grace d = grace" for d
    using that(1,3) entry[OF _ that(2)] by (auto simp: staleWithinGrace_def split: if_splits option.splits)
  from assms(3) show ?thesis
  proof (cases rule: ack_cases)
    case (hit e)
    then show ?thesis using entry[OF hit(4) b] by simp
  next
    case (cooling f)
    then show ?thesis using stale[OF _ b] inv by (simp split: option.splits)
  next
    case (read got)
    from read(2) show ?thesis
    proof (cases rule: refresh_cases)
      case (some g)
      then show ?thesis using read ttl by (auto simp: live_signer_def)
    qed (use read in auto)
  next
    case (failed e d)
    have st: "staleWithinGrace c' ?key (chain_now E w') = Some s"
      using failed(4) by (simp split: option.splits)
    have "cr_grace d = grace" using inv refresh_cases[OF failed(2)] by fastforce
    then show ?thesis
      using stale[OF st] backed_refresh[OF inv(1) failed(2)] failed(3) by (simp add: backed_note)
  qed
qed

section \<open>The cooldown\<close>

text \<open>Some failure of the key since \<open>T\<close> is remembered, as long as the cooldown from \<open>T\<close> lasts.\<close>

definition cooling_since :: "int \<Rightarrow> int \<Rightarrow> string \<Rightarrow> cachedRegistry \<Rightarrow> int \<Rightarrow> bool" where
  "cooling_since T d key c t =
     (cr_cooldown c = d \<and> T \<le> t
      \<and> (t < T + d \<longrightarrow> (\<exists>f. mget (cr_failures c) key = Some f \<and> T \<le> fl_at f)))"

lemma cooling_later: "cooling_since T d key c t \<Longrightarrow> t \<le> t' \<Longrightarrow> cooling_since T d key c t'"
  by (simp add: cooling_since_def)

lemma cooling_note:
  assumes "cooling_since T d key c t" "mwf (cr_failures c)"
  shows "cooling_since T d key (noteFailure E w k t e c) t"
proof (cases "chain_gone E w \<or> \<not> t < T + d")
  case True
  then show ?thesis using assms(1) by (auto simp: noteFailure_def cooling_since_def recordFailure_def)
next
  case False
  obtain f where f: "mget (cr_failures c) key = Some f" "T \<le> fl_at f"
    using False assms(1) by (auto simp: cooling_since_def)
  have "\<exists>f. mget (cr_failures (recordFailure k t e c)) key = Some f \<and> T \<le> fl_at f"
  proof (cases "k = key")
    case True
    then show ?thesis
      using mget_put_room_same[OF assms(2)] f(1) assms(1)
      by (auto simp: recordFailure_def mhas_def cooling_since_def)
  next
    case other: False
    have "t < failure_deadline (cr_cooldown c) f"
      using False f(2) assms(1) by (auto simp: failure_deadline_def cooling_since_def)
    then show ?thesis
      using mget_put_room_live[OF assms(2), of key k f t "failure_deadline (cr_cooldown c)"] other f
      by (auto simp: recordFailure_def)
  qed
  then show ?thesis using False assms(1) by (auto simp: noteFailure_def cooling_since_def recordFailure_def)
qed

lemma cooling_refresh:
  assumes "cooling_since T d key c (chain_now E w)" "cr_refresh E c addr w = (r, c', w')"
    "chain_now E w \<le> chain_now E w'" "ProviderKey addr = key \<longrightarrow> lookup_reading E addr w = []"
  shows "cooling_since T d key c' (chain_now E w')"
proof -
  have l: "cooling_since T d key c (chain_now E w')" using cooling_later[OF assms(1,3)] .
  from assms(2) show ?thesis
  proof (cases rule: refresh_cases)
    case (some got)
    then have "ProviderKey addr \<noteq> key" using assms(4) by auto
    then show ?thesis using l some(3) by (auto simp: cooling_since_def clearFailure_def mget_mdel)
  qed (use l in simp)
qed

lemma runs_cooling:
  assumes "cr_runs E c1 w1 rs c w" "cr_wf c1" "cooling_since T d key c1 (chain_now E w1)"
    "\<And>a w. chain_now E w \<le> chain_now E (snd (inner_refresh E a w))" "key \<notin> fst ` set rs"
  shows "cooling_since T d key c (chain_now E w)"
  using assms(1,5)
proof (induction rule: cr_runs.induct)
  case start
  show ?case by (rule assms(3))
next
  case (pass rs c w w')
  then show ?case by (auto intro: cooling_later)
next
  case (ack rs c w addr r c' w')
  have IH: "cooling_since T d key c (chain_now E w)" using ack by (auto simp: image_Un)
  have step: "cooling_since T d key c2 (chain_now E w') \<and> mwf (cr_failures c2)"
    if "looks_up E c addr w" "cr_refresh E c addr w = (r2, c2, w')" for r2 c2
  proof -
    have q: "ProviderKey addr = key \<longrightarrow> lookup_reading E addr w = []"
      using ack.prems that(1) by (auto simp: ack_readings_def lookup_reading_def split: prod.splits sum.splits)
    have "w' = snd (inner_refresh E addr w)" using refresh_cases[OF that(2)] by fastforce
    then show ?thesis
      using cooling_refresh[OF IH that(2) _ q] assms(4) cr_wf_refresh[OF runs_wf[OF ack.hyps(1) assms(2)] that(2)]
      by (simp add: cr_wf_def)
  qed
  from ack.hyps(2) show ?case
  proof (cases rule: ack_cases)
    case (read got)
    then show ?thesis using step by blast
  next
    case (failed e d')
    then show ?thesis using step[OF failed(1,2)] by (simp add: cooling_note)
  qed (use IH in simp_all)
next
  case (live rs c w addr r c' w')
  have IH: "cooling_since T d key c (chain_now E w)" using live by (auto simp: image_Un)
  obtain r1 d' where rf: "cr_refresh E c addr w = (r1, d', w')" "c' = d' \<or> (\<exists>e. c' = noteFailure E w' (ProviderKey addr) (chain_now E w') e d')"
    using live.hyps(2) by (auto simp: cr_RefreshSigner_def split: prod.splits sum.splits)
  have q: "ProviderKey addr = key \<longrightarrow> lookup_reading E addr w = []"
    using live.prems by (auto simp: lookup_reading_def split: prod.splits sum.splits)
  have "w' = snd (inner_refresh E addr w)" using refresh_cases[OF rf(1)] by fastforce
  then have "cooling_since T d key d' (chain_now E w')" "mwf (cr_failures d')"
    using cooling_refresh[OF IH rf(1) _ q] assms(4) cr_wf_refresh[OF runs_wf[OF live.hyps(1) assms(2)] rf(1)]
    by (simp_all add: cr_wf_def)
  then show ?case using rf(2) by (auto simp: cooling_note)
qed

text \<open>
  An outage costs one lookup per cooldown: after a lookup that failed and was recorded, whatever
  other calls are made, \<open>AcknowledgedSigner\<close> for that provider answers without asking the chain until
  the cooldown ends, unless a live read of that provider succeeded in between.
\<close>

theorem failed_lookup_cools_down:
  assumes "cr_wf c" "inner_refresh E addr w = (Inl e, w1)" "looks_up E c addr w"
    "\<not> chain_gone E w1" "length (cr_failures c) < maxCachedProviders"
    "cr_AcknowledgedSigner E c addr w = (r, c1, w1)"
    "\<And>a w. chain_now E w \<le> chain_now E (snd (inner_refresh E a w))"
    "cr_runs E c1 w1 rs c2 w2" "ProviderKey addr \<notin> fst ` set rs"
    "chain_now E w2 < chain_now E w1 + cr_cooldown c"
  shows "snd (cr_AcknowledgedSigner E c2 addr w2) = (c2, w2)"
proof -
  let ?key = "ProviderKey addr"
  have rf: "cr_refresh E c addr w = (if select_gone E w1 then Inl ContextEnded else Inl e, c, w1)"
    using assms(2) by (simp add: cr_refresh_def)
  have c1: "\<exists>x. c1 = recordFailure ?key (chain_now E w1) x c"
    using assms(6)
  proof (cases rule: ack_cases)
    case (failed x d)
    then show ?thesis using rf assms(4) by (auto simp: noteFailure_def)
  qed (use assms(3) rf in \<open>auto split: if_splits\<close>)
  then have s: "cooling_since (chain_now E w1) (cr_cooldown c) ?key c1 (chain_now E w1)"
    using assms(1,5) by (auto simp: cooling_since_def recordFailure_def cr_wf_def mget_put_room_same)
  have "cooling_since (chain_now E w1) (cr_cooldown c) ?key c2 (chain_now E w2)"
    by (rule runs_cooling[OF assms(8) cr_wf_ack[OF assms(1,6)] s assms(7,9)])
  then obtain f where f: "mget (cr_failures c2) ?key = Some f" "chain_now E w1 \<le> fl_at f"
    "cr_cooldown c2 = cr_cooldown c" "chain_now E w1 \<le> chain_now E w2"
    using assms(10) unfolding cooling_since_def by blast
  then have "recentFailure c2 ?key (chain_now E w2) = Some f"
    using assms(10) by (simp add: recentFailure_def)
  then show ?thesis
    by (simp add: cr_AcknowledgedSigner_def cr_miss_def split: option.splits)
qed

section \<open>A concrete run\<close>

text \<open>A chain that answers until time 5; every lookup takes one unit.\<close>

definition demo_chain :: "int chain_env" where
  "demo_chain = \<lparr>inner_refresh = (\<lambda>addr w.
      (if w < 5 then Inr \<lparr>sg_Address = ''0xab'', sg_Acknowledged = True, sg_Stale = False, sg_Cached = False\<rparr>
       else Inl RPCFailed, w + 1)),
    chain_now = (\<lambda>w. w), chain_gone = (\<lambda>w. False), select_gone = (\<lambda>w. False)\<rparr>"

definition demo_cache :: "cacheEntry gomap \<Rightarrow> failure gomap \<Rightarrow> cachedRegistry" where
  "demo_cache es fs = \<lparr>cr_ttl = 10, cr_grace = 3, cr_cooldown = FailureCooldown, cr_entries = es, cr_failures = fs\<rparr>"

definition demo_entry :: cacheEntry where
  "demo_entry = \<lparr>ce_signer = ''0xab'', ce_acknowledged = True, ce_expires = 11\<rparr>"

lemma demo_Cached: "Cached 10 3 = Some (demo_cache [] [])"
  by (simp add: Cached_def demo_cache_def)

lemma demo_key [simp]: "ProviderKey ''p'' = ''p''" "ProviderKey ''q'' = ''q''"
  by code_simp+

lemmas demo_eval = demo_chain_def demo_cache_def demo_entry_def cr_AcknowledgedSigner_def cr_miss_def
  cr_refresh_def cr_load_def recentFailure_def staleWithinGrace_def clearFailure_def cr_store_def noteFailure_def
  recordFailure_def put_room_def map_room_def mhas_def maxCachedProviders_def live_signer_def Let_def

lemma demo_first:
  "cr_AcknowledgedSigner demo_chain (demo_cache [] []) ''p'' 0 =
     (Inr \<lparr>sg_Address = ''0xab'', sg_Acknowledged = True, sg_Stale = False, sg_Cached = False\<rparr>,
      demo_cache [(''p'', demo_entry)] [], 1)"
  by (simp add: demo_eval)

lemma demo_run:
  "cr_runs demo_chain (demo_cache [] []) 0
     (ack_readings demo_chain (demo_cache [] []) ''p'' 0 @ []) (demo_cache [(''p'', demo_entry)] []) 12"
  by (rule cr_runs.pass[OF cr_runs.ack[OF cr_runs.start demo_first]]) (simp add: demo_chain_def)

lemma demo_stale:
  "cr_AcknowledgedSigner demo_chain (demo_cache [(''p'', demo_entry)] []) ''p'' 12 =
     (Inr \<lparr>sg_Address = ''0xab'', sg_Acknowledged = True, sg_Stale = True, sg_Cached = True\<rparr>,
      demo_cache [(''p'', demo_entry)] [(''p'', \<lparr>fl_at = 13, fl_err = RPCFailed\<rparr>)], 13)"
  by (simp add: demo_eval FailureCooldown_def)

theorem cache_stays_bounded_witness:
  "length (cr_entries (demo_cache [(''p'', demo_entry)] [])) \<le> maxCachedProviders
     \<and> length (cr_failures (demo_cache [(''p'', demo_entry)] [])) \<le> maxCachedProviders"
  by (rule cache_stays_bounded[OF demo_Cached demo_run])

theorem AcknowledgedSigner_was_read_witness:
  "\<exists>got t. (''p'', got, t) \<in> set (lookup_reading demo_chain ''p'' 12
         @ ack_readings demo_chain (demo_cache [] []) ''p'' 0)
      \<and> ''0xab'' = sg_Address got \<and> sg_Acknowledged got \<and> 13 < t + 10 + 3"
  using AcknowledgedSigner_was_read[OF demo_Cached demo_run demo_stale] by (auto simp: demo_chain_def)

theorem failed_lookup_cools_down_witness:
  "snd (cr_AcknowledgedSigner demo_chain
          (demo_cache [(''p'', demo_entry)] [(''p'', \<lparr>fl_at = 13, fl_err = RPCFailed\<rparr>)]) ''p'' 20)
     = (demo_cache [(''p'', demo_entry)] [(''p'', \<lparr>fl_at = 13, fl_err = RPCFailed\<rparr>)], 20)"
proof -
  let ?c = "demo_cache [(''p'', demo_entry)] []"
  let ?c1 = "demo_cache [(''p'', demo_entry)] [(''p'', \<lparr>fl_at = 13, fl_err = RPCFailed\<rparr>)]"
  have wf: "cr_wf ?c" by (simp add: cr_wf_def demo_cache_def maxCachedProviders_def mwf_Cons)
  have rd: "inner_refresh demo_chain ''p'' 12 = (Inl RPCFailed, 13)" by (simp add: demo_chain_def)
  have lk: "looks_up demo_chain ?c ''p'' 12"
    by (simp add: looks_up_def cr_load_def demo_cache_def demo_chain_def demo_entry_def recentFailure_def)
  have run: "cr_runs demo_chain ?c1 13 [] ?c1 20"
    by (rule cr_runs.pass[OF cr_runs.start]) (simp add: demo_chain_def)
  show ?thesis
    by (rule failed_lookup_cools_down[OF wf rd lk _ _ demo_stale _ run])
      (simp_all add: demo_chain_def demo_cache_def maxCachedProviders_def FailureCooldown_def)
qed

end
