(* ===== verification/Route_Limits.thy ===== *)
theory Route_Limits
  imports Chain_CacheFacts
begin

text \<open>
  client/route: the bounded and expiring tables a router keeps (ratelimit.go, quotecache.go and the
  key cache of route.go). Each operation takes the time it reads from its clock as an argument.
\<close>

section \<open>The rate limiter\<close>

definition maxLimiterKeys :: nat where "maxLimiterKeys = 4096"

text \<open>When each key is next allowed.\<close>

type_synonym rateLimiter = "int gomap"

definition limiter_allow :: "int \<Rightarrow> string \<Rightarrow> int \<Rightarrow> rateLimiter \<Rightarrow> bool \<times> rateLimiter" where
  "limiter_allow t key window m =
     (case mget m key of
        Some n \<Rightarrow> if t < n then (False, m) else (True, mput key (t + window) m)
      | None \<Rightarrow>
          if length m \<ge> maxLimiterKeys
          then (let m' = sweepExpired id t m in
                if length m' \<ge> maxLimiterKeys then (False, m') else (True, mput key (t + window) m'))
          else (True, mput key (t + window) m))"

definition limiter_reschedule :: "int \<Rightarrow> string \<Rightarrow> int \<Rightarrow> rateLimiter \<Rightarrow> rateLimiter" where
  "limiter_reschedule t key d m =
     (case mget m key of
        None \<Rightarrow> if length m \<ge> maxLimiterKeys then m else mput key (t + d) m
      | Some n \<Rightarrow> if t + d < n then mput key (t + d) m else m)"

section \<open>The retry gate\<close>

definition previewRetryTripAfter :: nat where "previewRetryTripAfter = 5"
definition previewRetryCooldown :: int where "previewRetryCooldown = 10 * 10 ^ 9"

text \<open>No end of the window is the zero time, which is before every reading of the clock.\<close>

record retryGate =
  rg_consecutive :: nat
  rg_openUntil :: "int option"

definition gate_zero :: retryGate where "gate_zero = \<lparr>rg_consecutive = 0, rg_openUntil = None\<rparr>"

definition gate_allow :: "int \<Rightarrow> retryGate \<Rightarrow> bool" where
  "gate_allow t g = (case rg_openUntil g of None \<Rightarrow> True | Some u \<Rightarrow> \<not> t < u)"

definition gate_noAnswer :: "int \<Rightarrow> retryGate \<Rightarrow> retryGate" where
  "gate_noAnswer t g =
     (let n = Suc (rg_consecutive g) in
      if n \<ge> previewRetryTripAfter
      then \<lparr>rg_consecutive = 0, rg_openUntil = Some (t + previewRetryCooldown)\<rparr>
      else g\<lparr>rg_consecutive := n\<rparr>)"

definition gate_answered :: "retryGate \<Rightarrow> retryGate" where
  "gate_answered g = \<lparr>rg_consecutive = 0, rg_openUntil = None\<rparr>"

section \<open>Caches with a TTL\<close>

text \<open>The cache of provider keys.\<close>

record pubkeyEntry =
  pe_encPub :: bytes
  pe_signer :: string
  pe_exp :: int

record pubkeyCache =
  pc_ttl :: int
  pc_m :: "pubkeyEntry gomap"

definition newPubkeyCache :: "int \<Rightarrow> pubkeyCache" where
  "newPubkeyCache ttl = \<lparr>pc_ttl = ttl, pc_m = []\<rparr>"

definition pubkey_get :: "int \<Rightarrow> string \<Rightarrow> pubkeyCache \<Rightarrow> (bytes \<times> string) option" where
  "pubkey_get t key c =
     (if pc_ttl c \<le> 0 then None
      else case mget (pc_m c) key of
        None \<Rightarrow> None
      | Some e \<Rightarrow> if pe_exp e < t then None else Some (pe_encPub e, pe_signer e))"

definition pubkey_del :: "string \<Rightarrow> pubkeyCache \<Rightarrow> pubkeyCache" where
  "pubkey_del key c = c\<lparr>pc_m := mdel (\<lambda>k. k = key) (pc_m c)\<rparr>"

definition pubkey_put :: "int \<Rightarrow> string \<Rightarrow> bytes \<Rightarrow> string \<Rightarrow> pubkeyCache \<Rightarrow> pubkeyCache" where
  "pubkey_put t key encPub signer c =
     (if pc_ttl c \<le> 0 then c
      else c\<lparr>pc_m := mput key \<lparr>pe_encPub = encPub, pe_signer = signer, pe_exp = t + pc_ttl c\<rparr> (pc_m c)\<rparr>)"

text \<open>The cache of verified quotes; \<open>'q\<close> is what a verification yields.\<close>

record 'q quoteEntry =
  qe_res :: 'q
  qe_exp :: int

record 'q quoteCache =
  qc_ttl :: int
  qc_m :: "'q quoteEntry gomap"

definition newQuoteCache :: "int \<Rightarrow> 'q quoteCache" where
  "newQuoteCache ttl = \<lparr>qc_ttl = ttl, qc_m = []\<rparr>"

definition quote_get :: "int \<Rightarrow> string \<Rightarrow> 'q quoteCache \<Rightarrow> 'q option" where
  "quote_get t key c =
     (if qc_ttl c \<le> 0 then None
      else case mget (qc_m c) key of
        None \<Rightarrow> None
      | Some e \<Rightarrow> if qe_exp e < t then None else Some (qe_res e))"

definition quote_put :: "int \<Rightarrow> string \<Rightarrow> 'q \<Rightarrow> 'q quoteCache \<Rightarrow> 'q quoteCache" where
  "quote_put t key res c =
     (if qc_ttl c \<le> 0 then c
      else c\<lparr>qc_m := mput key \<lparr>qe_res = res, qe_exp = t + qc_ttl c\<rparr> (qc_m c)\<rparr>)"

definition quote_del :: "string \<Rightarrow> 'q quoteCache \<Rightarrow> 'q quoteCache" where
  "quote_del key c = c\<lparr>qc_m := mdel (\<lambda>k. k = key) (qc_m c)\<rparr>"

section \<open>What the limiter promises\<close>

text \<open>A key that is not allowed yet; a passed time and no time are the same to every reader.\<close>

interpretation windows: expiring "\<lambda>t n. t < n" "id"
  by unfold_locales simp

definition limiter_wf :: "rateLimiter \<Rightarrow> bool" where
  "limiter_wf m = (mwf m \<and> length m \<le> maxLimiterKeys)"

lemma limiter_wf_allow: "limiter_wf m \<Longrightarrow> limiter_wf (snd (limiter_allow t key w m))"
  using length_sweep[of id t m]
  by (auto simp: limiter_wf_def limiter_allow_def Let_def mwf_mput mwf_sweep length_mput mhas_def
        split: option.splits)

lemma limiter_wf_reschedule: "limiter_wf m \<Longrightarrow> limiter_wf (limiter_reschedule t key d m)"
  by (auto simp: limiter_wf_def limiter_reschedule_def mwf_mput length_mput mhas_def split: option.splits)

text \<open>The operations on a limiter: each with its time, its key, and a window or a delay.\<close>

datatype limiter_action = OpAllow int string int | OpReschedule int string int

fun op_time :: "limiter_action \<Rightarrow> int" where
  "op_time (OpAllow t k w) = t" | "op_time (OpReschedule t k d) = t"

fun limiter_op :: "limiter_action \<Rightarrow> rateLimiter \<Rightarrow> rateLimiter" where
  "limiter_op (OpAllow t k w) m = snd (limiter_allow t k w m)"
| "limiter_op (OpReschedule t k d) m = limiter_reschedule t k d m"

definition limiter_run :: "limiter_action list \<Rightarrow> rateLimiter \<Rightarrow> rateLimiter" where
  "limiter_run ops m = fold limiter_op ops m"

lemma limiter_wf_run: "limiter_wf m \<Longrightarrow> limiter_wf (limiter_run ops m)"
  unfolding limiter_run_def
proof (induction ops arbitrary: m)
  case (Cons x ops)
  have "limiter_wf (limiter_op x m)"
    using Cons.prems by (cases x) (simp_all add: limiter_wf_allow limiter_wf_reschedule)
  then show ?case using Cons.IH by simp
qed simp

text \<open>What an operation leaves of another key's window, and of its own.\<close>

lemma limiter_op_keeps:
  assumes "limiter_wf m" "mget m key = Some u" "op_time x < u"
    "\<And>t d. x = OpReschedule t key d \<Longrightarrow> u \<le> t + d"
  shows "mget (limiter_op x m) key = Some u"
proof (cases x)
  case (OpAllow t k w)
  have wf: "mwf m" using assms(1) by (simp add: limiter_wf_def)
  show ?thesis
  proof (cases "k = key")
    case True
    then show ?thesis using assms OpAllow by (simp add: limiter_allow_def)
  next
    case False
    have "mget (sweepExpired id t m) key = Some u"
      using wf assms(2,3) OpAllow by (simp add: mget_sweep)
    then show ?thesis
      using False OpAllow assms(2) wf
      by (simp add: limiter_allow_def Let_def mget_mput mwf_sweep split: option.splits)
  qed
next
  case (OpReschedule t k d)
  then show ?thesis
    using assms by (auto simp: limiter_wf_def limiter_reschedule_def mget_mput split: option.splits)
qed

text \<open>
  At most one action per key and window: once the limiter has allowed a key, it refuses that key
  until the window is over, whatever other operations come in between, unless the key itself is
  rescheduled to an earlier time; and it never tracks more than \<open>maxLimiterKeys\<close> keys.
\<close>

theorem limiter_allows_once:
  assumes "limiter_wf m" "fst (limiter_allow t key window m)"
    "\<And>x. x \<in> set ops \<Longrightarrow> op_time x < t + window"
    "\<And>t' d. OpReschedule t' key d \<in> set ops \<Longrightarrow> t + window \<le> t' + d" "t' < t + window"
  shows "\<not> fst (limiter_allow t' key w (limiter_run ops (snd (limiter_allow t key window m))))
     \<and> length (limiter_run ops (snd (limiter_allow t key window m))) \<le> maxLimiterKeys"
proof -
  let ?m = "snd (limiter_allow t key window m)"
  have start: "mget ?m key = Some (t + window)"
    using assms(1,2) by (auto simp: limiter_allow_def limiter_wf_def Let_def mget_mput mwf_sweep
        split: option.splits if_splits)
  have keep: "mget (limiter_run xs n) key = Some (t + window)"
    if "limiter_wf n" "mget n key = Some (t + window)" "set xs \<subseteq> set ops" for xs n
    using that
  proof (induction xs arbitrary: n)
    case (Cons x xs)
    have "mget (limiter_op x n) key = Some (t + window)"
      using limiter_op_keeps[OF Cons.prems(1,2), of x] assms(3,4) Cons.prems(3) by auto
    moreover have "limiter_wf (limiter_op x n)"
      using limiter_wf_run[OF Cons.prems(1), of "[x]"] by (simp add: limiter_run_def)
    ultimately show ?case using Cons.IH Cons.prems(3) by (simp add: limiter_run_def)
  qed (simp add: limiter_run_def)
  have wf: "limiter_wf ?m" using assms(1) by (rule limiter_wf_allow)
  show ?thesis
    using keep[OF wf start] limiter_wf_run[OF wf, of ops] assms(5)
    by (simp add: limiter_allow_def limiter_wf_def)
qed

theorem limiter_allows_once_witness:
  "\<not> fst (limiter_allow 50 ''k'' 60 (limiter_run [OpAllow 3 ''j'' 60, OpReschedule 9 ''j'' 2]
       (snd (limiter_allow 0 ''k'' 60 []))))"
proof (rule limiter_allows_once[THEN conjunct1])
  show "limiter_wf []" by (simp add: limiter_wf_def)
  show "fst (limiter_allow 0 ''k'' 60 [])" by (simp add: limiter_allow_def maxLimiterKeys_def)
qed auto

section \<open>What the gate promises\<close>

text \<open>Failures in a row, oldest first, as their times.\<close>

definition gate_failures :: "int list \<Rightarrow> retryGate \<Rightarrow> retryGate" where
  "gate_failures ts g = fold gate_noAnswer ts g"

lemma gate_few:
  "rg_consecutive g + length ts < previewRetryTripAfter \<Longrightarrow>
     gate_failures ts g = g\<lparr>rg_consecutive := rg_consecutive g + length ts\<rparr>"
  by (induction ts arbitrary: g) (simp_all add: gate_failures_def gate_noAnswer_def Let_def)

text \<open>
  After a success, fewer than five failures in a row leave retries on; the fifth turns them off until
  the cooldown after it, and one success turns them on again.
\<close>

lemma gate_trips:
  assumes "length ts = 4"
  shows "gate_allow u (gate_failures ts (gate_answered g))"
    and "gate_allow u (gate_failures (ts @ [t]) (gate_answered g)) \<longleftrightarrow> t + previewRetryCooldown \<le> u"
    and "gate_allow u (gate_answered (gate_failures (ts @ [t]) g))"
proof -
  have few: "gate_failures ts (gate_answered g) = \<lparr>rg_consecutive = 4, rg_openUntil = None\<rparr>"
    using assms by (subst gate_few) (simp_all add: gate_answered_def previewRetryTripAfter_def)
  then show "gate_allow u (gate_failures ts (gate_answered g))" by (simp add: gate_allow_def)
  have "gate_failures (ts @ [t]) (gate_answered g) = gate_noAnswer t (gate_failures ts (gate_answered g))"
    by (simp add: gate_failures_def)
  then show "gate_allow u (gate_failures (ts @ [t]) (gate_answered g)) \<longleftrightarrow> t + previewRetryCooldown \<le> u"
    unfolding few by (auto simp: gate_noAnswer_def gate_allow_def previewRetryTripAfter_def)
  show "gate_allow u (gate_answered (gate_failures (ts @ [t]) g))"
    by (simp add: gate_answered_def gate_allow_def)
qed

end
