(* ===== verification/Route_Release.thy ===== *)
theory Route_Release
  imports Route_Limits Compose_Baseline
begin

text \<open>
  client/route/runtimerelease.go and the judgements of composebaseline.go: the verdicts a router holds
  per broker build, fetched in the background, and what it concludes from them about the build a
  provider runs and the manifest it booted. A check in flight is a flag of its entry; its end is the
  operation \<open>judge_check\<close>. The log is not modelled.
\<close>

section \<open>Verdicts\<close>

datatype Verdict = VerdictPass | VerdictNoMatch | VerdictNoBaseline | VerdictUnavailable | VerdictNotChecked

section \<open>The judge\<close>

definition maxReleaseChecks :: nat where "maxReleaseChecks = 4"
definition maxJudgedReleases :: nat where "maxJudgedReleases = 1024"
definition releaseRecheck :: int where "releaseRecheck = 60 * 10 ^ 9"

text \<open>The answer held, if any, when it was given, and whether a check is in flight.\<close>

record judgedRelease =
  jr_verdict :: "ReleaseVerdict option"
  jr_at :: int
  jr_running :: bool

type_synonym judge = "judgedRelease gomap"

definition build_key :: "string \<Rightarrow> string \<Rightarrow> string" where
  "build_key repository digest = repository @ ''@'' @ digest"

definition accepted :: "judgedRelease \<Rightarrow> bool" where
  "accepted e = (case jr_verdict e of None \<Rightarrow> False | Some v \<Rightarrow> rv_Status v = ReleaseAccepted)"

definition makeRoom :: "judge \<Rightarrow> bool \<times> judge" where
  "makeRoom J =
     (if length J < maxJudgedReleases then (True, J)
      else let J' = filter (\<lambda>(k, e). jr_running e \<or> accepted e) J in (length J' < maxJudgedReleases, J'))"

definition running_checks :: "judge \<Rightarrow> nat" where
  "running_checks J = length (filter (\<lambda>(k, e). jr_running e) J)"

definition judge_due :: "int \<Rightarrow> judgedRelease \<Rightarrow> bool" where
  "judge_due t e =
     (case jr_verdict e of None \<Rightarrow> True
      | Some v \<Rightarrow> rv_Status v \<noteq> ReleaseAccepted \<and> t - jr_at e \<ge> releaseRecheck)"

text \<open>A check is started when a slot is free; the entry is there either way.\<close>

definition judge_start :: "string \<Rightarrow> judgedRelease \<Rightarrow> judge \<Rightarrow> judge" where
  "judge_start key e J =
     mput key (if running_checks J < maxReleaseChecks then e\<lparr>jr_running := True\<rparr> else e) J"

definition judge_verdict :: "int \<Rightarrow> string \<Rightarrow> string \<Rightarrow> bool \<Rightarrow> judge \<Rightarrow> ReleaseVerdict option \<times> judge" where
  "judge_verdict t repository digest start J =
     (let key = build_key repository digest in
      case mget J key of
        Some e \<Rightarrow>
          (jr_verdict e, if start \<and> judge_due t e \<and> \<not> jr_running e then judge_start key e J else J)
      | None \<Rightarrow>
          if start
          then (case makeRoom J of
                  (False, J') \<Rightarrow> (None, J')
                | (True, J') \<Rightarrow> (None, judge_start key \<lparr>jr_verdict = None, jr_at = 0, jr_running = False\<rparr> J'))
          else (None, J))"

text \<open>The end of a check.\<close>

definition judge_check :: "int \<Rightarrow> string \<Rightarrow> ReleaseVerdict \<Rightarrow> judge \<Rightarrow> judge" where
  "judge_check t key v J =
     (case mget J key of
        None \<Rightarrow> J
      | Some e \<Rightarrow> mput key \<lparr>jr_verdict = Some v, jr_at = t, jr_running = False\<rparr> J)"

section \<open>Asking for verdicts\<close>

text \<open>The builds a judgement asks for, in order, and what it is answered.\<close>

fun ask_all ::
    "int \<Rightarrow> bool \<Rightarrow> (string \<times> string) list \<Rightarrow> judge \<Rightarrow> ((string \<times> string) \<times> ReleaseVerdict option) list \<times> judge" where
  "ask_all t start [] J = ([], J)"
| "ask_all t start ((repository, digest) # bs) J =
     (case judge_verdict t repository digest start J of
        (v, J') \<Rightarrow> (case ask_all t start bs J' of (as, J'') \<Rightarrow> (((repository, digest), v) # as, J'')))"

definition not_yet :: ReleaseVerdict where
  "not_yet = \<lparr>rv_Status = ReleaseUnavailable, rv_Release = None,
              rv_Reason = ''its release provenance has not been checked yet''\<rparr>"

definition judgedReleases ::
    "ReleaseVerifier \<Rightarrow> ((string \<times> string) \<times> ReleaseVerdict option) list \<Rightarrow> ReleaseVerifier" where
  "judgedReleases rels answers =
     \<lparr>rvf_Repository = rvf_Repository rels,
      rvf_Verify = (\<lambda>r d. case map_of answers (r, d) of Some (Some v) \<Rightarrow> v | _ \<Rightarrow> not_yet)\<rparr>"

definition missing_builds :: "((string \<times> string) \<times> ReleaseVerdict option) list \<Rightarrow> (string \<times> string) list" where
  "missing_builds answers = map fst (filter (\<lambda>(b, v). v = None) answers)"

section \<open>The running build\<close>

datatype runtime_err = RuntimeRead rerr | ReaderFailed

record runtimeFacts =
  rf_state :: "runtime_err + RuntimeState"
  rf_signer :: string
  rf_encPub :: bytes

record runtimeVerdict =
  rtv_verdict :: Verdict
  rtv_running :: string
  rtv_release :: string

definition running_of :: "runtimeFacts \<Rightarrow> string" where
  "running_of f =
     (case rf_state f of
        Inl _ \<Rightarrow> []
      | Inr st \<Rightarrow> (case st_Image st of None \<Rightarrow> [] | Some im \<Rightarrow> build_key (im_Repository im) (im_Digest im)))"

definition runtime_asks :: "runtimeFacts \<Rightarrow> (string \<times> string) list" where
  "runtime_asks f =
     (case rf_state f of
        Inl _ \<Rightarrow> []
      | Inr st \<Rightarrow> (case st_Image st of None \<Rightarrow> [] | Some im \<Rightarrow> [(im_Repository im, im_Digest im)]))"

definition runtime_verdict :: "ReleaseVerifier option \<Rightarrow> runtimeFacts \<Rightarrow> runtimeVerdict" where
  "runtime_verdict rels f =
     (case rels of
        None \<Rightarrow> \<lparr>rtv_verdict = VerdictNotChecked, rtv_running = running_of f, rtv_release = []\<rparr>
      | Some r \<Rightarrow>
         (case rf_state f of
            Inl (RuntimeRead e) \<Rightarrow>
              \<lparr>rtv_verdict = (if e = LogErr NoEventLog then VerdictUnavailable else VerdictNoMatch),
               rtv_running = [], rtv_release = []\<rparr>
          | Inl ReaderFailed \<Rightarrow> \<lparr>rtv_verdict = VerdictUnavailable, rtv_running = [], rtv_release = []\<rparr>
          | Inr st \<Rightarrow>
             (let c = CheckRuntime st (Some r) (rf_signer f) (rf_encPub f) in
              if rc_Failures c \<noteq> []
              then \<lparr>rtv_verdict = VerdictNoMatch, rtv_running = running_of f, rtv_release = []\<rparr>
              else if rc_Unverified c \<noteq> []
              then \<lparr>rtv_verdict = VerdictUnavailable, rtv_running = running_of f, rtv_release = []\<rparr>
              else case rc_Release c of
                  None \<Rightarrow> \<lparr>rtv_verdict = VerdictNotChecked, rtv_running = running_of f, rtv_release = []\<rparr>
                | Some v \<Rightarrow> \<lparr>rtv_verdict = VerdictPass, rtv_running = running_of f,
                             rtv_release = (case rv_Release v of None \<Rightarrow> [] | Some b \<Rightarrow> br_Version b)\<rparr>)))"

text \<open>The verdict, the builds there was none for, and the judge after the questions.\<close>

definition judgeRuntime ::
    "ReleaseVerifier option \<Rightarrow> int \<Rightarrow> bool \<Rightarrow> runtimeFacts \<Rightarrow> judge \<Rightarrow>
     runtimeVerdict \<times> (string \<times> string) list \<times> judge" where
  "judgeRuntime rels t start f J =
     (case rels of
        None \<Rightarrow> (runtime_verdict None f, [], J)
      | Some r \<Rightarrow> (case ask_all t start (runtime_asks f) J of
          (as, J') \<Rightarrow> (runtime_verdict (Some (judgedReleases r as)) f, missing_builds as, J')))"

section \<open>The manifest\<close>

text \<open>
  The review of the authenticated manifest or why there is none, and the verification it belongs to:
  what was observed for it is kept under that number.
\<close>

record manifestFacts =
  mf_review :: "ComposeReview option"
  mf_observed :: nat

record composeBaseline =
  cb_b :: "Deployment list"
  cb_contract :: string

record baselineVerdict =
  blv_verdict :: Verdict
  blv_deployment :: string

text \<open>The build a recorded service makes the comparison ask for, if it gets that far.\<close>

definition asked_build :: "ReleaseVerifier option \<Rightarrow> ServiceBlock list \<Rightarrow> BaselineService \<Rightarrow> (string \<times> string) list" where
  "asked_build rels blocks want =
     (case List.find (\<lambda>b. sb_Name b = bs_Name want) blocks of
        None \<Rightarrow> []
      | Some got \<Rightarrow>
          (let (repo, _, digest) = SplitImageRef (sb_ImageRef got) in
           if pinsImageInBlock want \<or> sb_Err got \<or> sb_CanonicalNoImage got \<noteq> bs_Block want
              \<or> \<not> isDigestShaped digest \<or> repo \<noteq> bs_Repository want
              \<or> (case rels of None \<Rightarrow> True | Some r \<Rightarrow> rvf_Repository r \<noteq> repo)
           then [] else [(repo, digest)]))"

definition review_asks ::
    "ReleaseVerifier option \<Rightarrow> composeBaseline \<Rightarrow> string \<Rightarrow> ComposeReview \<Rightarrow> (string \<times> string) list" where
  "review_asks rels b address r =
     (if cv_LoadErr r \<noteq> None then []
      else case baseline_For (cb_b b) (cb_contract b) address of
        None \<Rightarrow> []
      | Some dep \<Rightarrow> concat (map (asked_build rels (cv_Blocks r)) (dp_Services dep)))"

definition baseline_verdict :: "ReleaseVerifier option \<Rightarrow> composeBaseline \<Rightarrow> string \<Rightarrow> ComposeReview \<Rightarrow> baselineVerdict" where
  "baseline_verdict rels b address r =
     (let c = CheckReview (cb_b b) rels (cb_contract b) address r in
      \<lparr>blv_verdict = (if \<not> Compared c then VerdictNoBaseline
                     else if cc_Mismatches c \<noteq> [] then VerdictNoMatch
                     else if cc_Unverified c \<noteq> [] then VerdictUnavailable else VerdictPass),
       blv_deployment = cc_Deployment c\<rparr>)"

definition judgeBaseline ::
    "composeBaseline option \<Rightarrow> ReleaseVerifier option \<Rightarrow> int \<Rightarrow> bool \<Rightarrow> string \<Rightarrow> manifestFacts \<Rightarrow> judge \<Rightarrow>
     baselineVerdict \<times> (string \<times> string) list \<times> judge" where
  "judgeBaseline baseline rels t start address f J =
     (case baseline of
        None \<Rightarrow> (\<lparr>blv_verdict = VerdictNotChecked, blv_deployment = []\<rparr>, [], J)
      | Some b \<Rightarrow>
         (case mf_review f of
            None \<Rightarrow> (\<lparr>blv_verdict = VerdictUnavailable, blv_deployment = []\<rparr>, [], J)
          | Some r \<Rightarrow>
             (case rels of
                None \<Rightarrow> (baseline_verdict None b address r, [], J)
              | Some v \<Rightarrow> (case ask_all t start (review_asks rels b address r) J of
                  (as, J') \<Rightarrow> (baseline_verdict (Some (judgedReleases v as)) b address r, missing_builds as, J')))))"

section \<open>Waiting for a verdict\<close>

text \<open>
  What a wait is answered: the verdict of the check in flight, if it ends before the wait does. A
  slot or room that opens up during the wait is left to the next call.
\<close>

definition judge_await ::
    "('w \<Rightarrow> int) \<Rightarrow> (string \<Rightarrow> string \<Rightarrow> 'w \<Rightarrow> ReleaseVerdict option \<times> 'w) \<Rightarrow> string \<times> string \<Rightarrow>
     judge \<times> 'w \<Rightarrow> judge \<times> 'w" where
  "judge_await clock wait b s =
     (case judge_verdict (clock (snd s)) (fst b) (snd b) True (fst s) of
        (Some v, J) \<Rightarrow> (J, snd s)
      | (None, J) \<Rightarrow>
         (case wait (fst b) (snd b) (snd s) of
            (None, w) \<Rightarrow> (J, w)
          | (Some v, w) \<Rightarrow>
              (case mget J (build_key (fst b) (snd b)) of
                 Some e \<Rightarrow> if jr_running e then (judge_check (clock w) (build_key (fst b) (snd b)) v J, w) else (J, w)
               | None \<Rightarrow> (J, w))))"

section \<open>What the judge guarantees\<close>

text \<open>The states a judge goes through.\<close>

inductive judge_runs :: "judge \<Rightarrow> judge \<Rightarrow> bool" for J0 where
  start: "judge_runs J0 J0"
| ask: "judge_runs J0 J \<Longrightarrow> judge_runs J0 (snd (judge_verdict t repository digest st J))"
| finish: "judge_runs J0 J \<Longrightarrow> mget J key = Some e \<Longrightarrow> jr_running e \<Longrightarrow> judge_runs J0 (judge_check t key v J)"

definition judge_wf :: "judge \<Rightarrow> bool" where
  "judge_wf J = (mwf J \<and> length J \<le> maxJudgedReleases \<and> running_checks J \<le> maxReleaseChecks)"

lemma mget_in: "mget m k = Some v \<Longrightarrow> (k, v) \<in> set m"
  by (simp add: mget_def map_of_SomeD)

lemma running_mput:
  "mwf J \<Longrightarrow> running_checks (mput k e J)
     = (running_checks J - (case mget J k of Some x \<Rightarrow> if jr_running x then 1 else 0 | None \<Rightarrow> 0))
       + (if jr_running e then 1 else 0)"
proof (induction k e J rule: mput.induct)
  case (2 k e k0 e0 m)
  have m: "mwf m" using "2.prems" by (simp add: mwf_Cons)
  have low: "k < k0 \<Longrightarrow> mget m k = None" "mget m k0 = None"
    using "2.prems" by (auto simp: mwf_Cons mget_None)
  have pos: "0 < length (filter (\<lambda>(k, e). jr_running e) m)" if "mget m k = Some x" "jr_running x" for x
    using mget_in[OF that(1)] that(2) by (auto simp: length_greater_0_conv filter_empty_conv)
  show ?case
    using "2.IH"[OF _ _ m] low pos by (auto simp: running_checks_def split: option.splits)
qed (simp add: running_checks_def)

lemma makeRoom_keeps:
  assumes "mwf J"
  shows "mwf (snd (makeRoom J))" "running_checks (snd (makeRoom J)) \<le> running_checks J"
    "length (snd (makeRoom J)) \<le> length J"
    "mget J k = Some e \<Longrightarrow> accepted e \<Longrightarrow> mget (snd (makeRoom J)) k = Some e"
proof -
  let ?J = "filter (\<lambda>(k, e). jr_running e \<or> accepted e) J"
  show "mwf (snd (makeRoom J))" using assms by (simp add: makeRoom_def Let_def mwf_filter)
  have "running_checks ?J = running_checks J"
    unfolding running_checks_def filter_filter by (rule arg_cong[of _ _ length], rule filter_cong) auto
  then show "running_checks (snd (makeRoom J)) \<le> running_checks J" by (simp add: makeRoom_def Let_def)
  show "length (snd (makeRoom J)) \<le> length J" by (simp add: makeRoom_def Let_def)
  show "mget J k = Some e \<Longrightarrow> accepted e \<Longrightarrow> mget (snd (makeRoom J)) k = Some e"
    using mget_filter[OF assms, of "\<lambda>e. jr_running e \<or> accepted e" k] by (simp add: makeRoom_def Let_def)
qed

lemma judge_wf_start:
  assumes "mwf J" "running_checks J \<le> maxReleaseChecks" "mhas J key \<or> length J < maxJudgedReleases"
    "length J \<le> maxJudgedReleases" "\<not> jr_running e"
  shows "judge_wf (judge_start key e J)"
  using assms
  by (auto simp: judge_wf_def judge_start_def mwf_mput length_mput running_mput split: option.splits)

lemma judge_wf_verdict:
  assumes "judge_wf J"
  shows "judge_wf (snd (judge_verdict t r d st J))"
proof -
  have wf: "mwf J" "length J \<le> maxJudgedReleases" "running_checks J \<le> maxReleaseChecks"
    using assms by (simp_all add: judge_wf_def)
  show ?thesis
  proof (cases "mget J (build_key r d)")
    case None
    obtain ok J' where m: "makeRoom J = (ok, J')" by (cases "makeRoom J")
    have J': "mwf J'" "running_checks J' \<le> maxReleaseChecks" "length J' \<le> maxJudgedReleases"
      using makeRoom_keeps[OF wf(1)] wf m by auto
    have "ok \<Longrightarrow> length J' < maxJudgedReleases" using m by (auto simp: makeRoom_def Let_def split: if_splits)
    then show ?thesis
      using None m assms J' judge_wf_start[OF J'(1,2) _ J'(3)]
      by (cases ok) (auto simp: judge_verdict_def Let_def judge_wf_def)
  next
    case (Some e)
    then show ?thesis
      using assms judge_wf_start[OF wf(1,3) _ wf(2)] by (auto simp: judge_verdict_def Let_def mhas_def)
  qed
qed

lemma judge_wf_check: "judge_wf J \<Longrightarrow> judge_wf (judge_check t key v J)"
  by (auto simp: judge_wf_def judge_check_def mwf_mput length_mput running_mput mhas_def split: option.splits)

lemma judge_wf_runs: "judge_runs J0 J \<Longrightarrow> judge_wf J0 \<Longrightarrow> judge_wf J"
  by (induction rule: judge_runs.induct) (simp_all add: judge_wf_verdict judge_wf_check)

text \<open>A verdict is settled when it is an acceptance and no check of the build is in flight.\<close>

lemma settled_verdict:
  assumes "judge_wf J" "mget J k = Some e" "accepted e" "\<not> jr_running e"
  shows "mget (snd (judge_verdict t r d st J)) k = Some e"
proof (cases "build_key r d = k")
  case True
  then show ?thesis
    using assms by (auto simp: judge_verdict_def Let_def judge_due_def accepted_def split: option.splits)
next
  case False
  have wf: "mwf J" using assms(1) by (simp add: judge_wf_def)
  obtain ok J' where m: "makeRoom J = (ok, J')" by (cases "makeRoom J")
  have "mget J' k = Some e" "mwf J'" using makeRoom_keeps[OF wf] assms(2,3) m by auto
  then show ?thesis
    using False assms(2) wf m
    by (auto simp: judge_verdict_def Let_def judge_start_def mget_mput split: option.splits bool.splits)
qed

text \<open>
  C37: An untrusted provider that names builds of its own cannot grow the judge: whatever builds are
  asked for and however their checks end, at most \<open>maxJudgedReleases\<close> verdicts are held and at most
  \<open>maxReleaseChecks\<close> checks run at once, and an acceptance, once given, is held for good and never
  asked for again.
\<close>

theorem judge_bounded_and_keeps_acceptances:
  assumes "judge_runs [] J" "judge_runs J J'"
  shows "length J' \<le> maxJudgedReleases \<and> running_checks J' \<le> maxReleaseChecks
     \<and> (mget J k = Some e \<and> accepted e \<and> \<not> jr_running e \<longrightarrow> mget J' k = Some e)"
proof -
  have wf: "judge_wf J" using judge_wf_runs[OF assms(1)] by (simp add: judge_wf_def running_checks_def)
  have keep: "mget J' k = Some e" if "mget J k = Some e" "accepted e" "\<not> jr_running e"
    using assms(2)
  proof (induction rule: judge_runs.induct)
    case start
    show ?case by (rule that(1))
  next
    case (ask J1 t repository digest st)
    then show ?case using settled_verdict[OF judge_wf_runs[OF ask.hyps wf]] that(2,3) by blast
  next
    case (finish J1 key x t v)
    have "mwf J1" using judge_wf_runs[OF finish.hyps(1) wf] by (simp add: judge_wf_def)
    then show ?case
      using finish that(3) by (auto simp: judge_check_def mget_mput)
  qed
  show ?thesis using judge_wf_runs[OF assms(2) wf] keep by (simp add: judge_wf_def)
qed

definition demo_accept :: ReleaseVerdict where
  "demo_accept = \<lparr>rv_Status = ReleaseAccepted, rv_Release = None, rv_Reason = []\<rparr>"

theorem judge_bounded_and_keeps_acceptances_witness:
  "mget (snd (judge_verdict 900 ''r'' ''e'' True [(''r@d'', \<lparr>jr_verdict = Some demo_accept, jr_at = 7, jr_running = False\<rparr>)]))
     ''r@d'' = Some \<lparr>jr_verdict = Some demo_accept, jr_at = 7, jr_running = False\<rparr>"
proof -
  let ?J = "[(''r@d'', \<lparr>jr_verdict = Some demo_accept, jr_at = 7, jr_running = False\<rparr>)]"
  have "judge_runs [] (snd (judge_verdict 0 ''r'' ''d'' True []))" by (intro judge_runs.intros)
  then have "judge_runs [] [(''r@d'', \<lparr>jr_verdict = None, jr_at = 0, jr_running = True\<rparr>)]"
    by (simp add: judge_verdict_def build_key_def makeRoom_def judge_start_def running_checks_def
        maxJudgedReleases_def maxReleaseChecks_def)
  then have "judge_runs [] (judge_check 7 ''r@d'' demo_accept [(''r@d'', \<lparr>jr_verdict = None, jr_at = 0, jr_running = True\<rparr>)])"
    by (rule judge_runs.finish[where e = "\<lparr>jr_verdict = None, jr_at = 0, jr_running = True\<rparr>"]) simp_all
  then have r: "judge_runs [] ?J" by (simp add: judge_check_def)
  have "judge_runs ?J (snd (judge_verdict 900 ''r'' ''e'' True ?J))" by (intro judge_runs.intros)
  from judge_bounded_and_keeps_acceptances[OF r this, of "''r@d''"]
  show ?thesis by (simp add: accepted_def demo_accept_def)
qed

end
