(* ===== verification/Route_Identity.thy ===== *)
theory Route_Identity
  imports Route_Release
begin

text \<open>
  client/route, provideridentity.go and the store of respbind.go: what a router verified about each
  provider, kept per address for a panel to read, and which providers advertised the response
  binding. Requests and warmer sweeps both write the records; which of them wins is the point.
\<close>

section \<open>Records\<close>

text \<open>A container of the manifest (client/compose).\<close>

record Service =
  cs_Name :: string
  cs_Ref :: string
  cs_Image :: string
  cs_Tag :: string
  cs_Digest :: string

text \<open>What a verification observed besides the keys; no measurement verdict is the empty one.\<close>

record quoteFacts =
  qf_measurement :: "Verdict option"
  qf_osImage :: string
  qf_composeHash :: string
  qf_containers :: "Service list"
  qf_runtime :: runtimeFacts
  qf_manifest :: manifestFacts
  qf_respBind :: bool

record quoteResult =
  qr_encPub :: bytes
  qr_signer :: string
  qr_facts :: quoteFacts

record ProviderIdentity =
  pi_Address :: string
  pi_Endpoint :: string
  pi_QuoteURL :: string
  pi_QuoteDCAP :: Verdict
  pi_OnChainSigner :: Verdict
  pi_Measurement :: Verdict
  pi_OSImage :: string
  pi_ComposeHash :: string
  pi_Containers :: "Service list"
  pi_RuntimeRelease :: Verdict
  pi_RunningBroker :: string
  pi_RunningRelease :: string
  pi_ComposeBaseline :: Verdict
  pi_BaselineDeployment :: string
  pi_runtime :: runtimeFacts
  pi_manifest :: manifestFacts

section \<open>The store\<close>

definition providerIdentityTTL :: int where "providerIdentityTTL = 5 * 60 * 10 ^ 9"
definition maxProviderIdentities :: nat where "maxProviderIdentities = 1024"

record identityEntry =
  ie_id :: ProviderIdentity
  ie_exp :: int
  ie_served :: bool

record identityStore =
  is_ttl :: int
  is_max :: nat
  is_m :: "identityEntry gomap"

definition newIdentityStore :: "int \<Rightarrow> int \<Rightarrow> identityStore" where
  "newIdentityStore ttl mx =
     \<lparr>is_ttl = ttl, is_max = (if mx \<le> 0 then maxProviderIdentities else nat mx), is_m = []\<rparr>"

definition shieldedFrom :: "string \<Rightarrow> int \<Rightarrow> identityEntry \<Rightarrow> bool" where
  "shieldedFrom quoteURL t e = (ie_served e \<and> t < ie_exp e \<and> pi_QuoteURL (ie_id e) \<noteq> quoteURL)"

text \<open>The entry closest to its end; of several, the one with the least key.\<close>

fun oldest :: "identityEntry gomap \<Rightarrow> (string \<times> int) option" where
  "oldest [] = None"
| "oldest ((k, e) # m) =
     (case oldest m of
        None \<Rightarrow> Some (k, ie_exp e)
      | Some (k', x) \<Rightarrow> if x < ie_exp e then Some (k', x) else Some (k, ie_exp e))"

definition identity_makeRoom :: "int \<Rightarrow> nat \<Rightarrow> identityEntry gomap \<Rightarrow> identityEntry gomap" where
  "identity_makeRoom t mx m =
     (let m' = filter (\<lambda>(k, e). \<not> ie_exp e < t) m in
      if length m' < mx then m'
      else case oldest m' of None \<Rightarrow> m' | Some (k, x) \<Rightarrow> mdel (\<lambda>j. j = k) m')"

definition identity_record :: "int \<Rightarrow> ProviderIdentity \<Rightarrow> bool \<Rightarrow> identityStore \<Rightarrow> identityStore" where
  "identity_record t id0 served s =
     (let key = ProviderKey (pi_Address id0) in
      if key = [] \<or> is_ttl s \<le> 0 then s
      else let cur = mget (is_m s) key in
        if \<not> served \<and> (case cur of None \<Rightarrow> False | Some e \<Rightarrow> shieldedFrom (pi_QuoteURL id0) t e) then s
        else let m = (if cur = None \<and> length (is_m s) \<ge> is_max s then identity_makeRoom t (is_max s) (is_m s)
                      else is_m s) in
          s\<lparr>is_m := mput key \<lparr>ie_id = id0, ie_exp = t + is_ttl s, ie_served = served\<rparr> m\<rparr>)"

definition identity_put :: "int \<Rightarrow> ProviderIdentity \<Rightarrow> identityStore \<Rightarrow> identityStore" where
  "identity_put t id0 s = identity_record t id0 True s"

definition identity_putWarmed :: "int \<Rightarrow> ProviderIdentity \<Rightarrow> identityStore \<Rightarrow> identityStore" where
  "identity_putWarmed t id0 s = identity_record t id0 False s"

definition identity_delWarmed :: "int \<Rightarrow> string \<Rightarrow> string \<Rightarrow> identityStore \<Rightarrow> identityStore" where
  "identity_delWarmed t address quoteURL s =
     (let key = ProviderKey address in
      if key = [] then s
      else case mget (is_m s) key of
        None \<Rightarrow> s
      | Some e \<Rightarrow> if shieldedFrom quoteURL t e then s else s\<lparr>is_m := mdel (\<lambda>k. k = key) (is_m s)\<rparr>)"

definition identity_get :: "int \<Rightarrow> string \<Rightarrow> identityStore \<Rightarrow> ProviderIdentity option \<times> identityStore" where
  "identity_get t address s =
     (let key = ProviderKey address in
      if key = [] then (None, s)
      else case mget (is_m s) key of
        None \<Rightarrow> (None, s)
      | Some e \<Rightarrow>
          if ie_exp e < t then (None, s\<lparr>is_m := mdel (\<lambda>k. k = key) (is_m s)\<rparr>)
          else (Some (ie_id e), s))"

section \<open>The response binding\<close>

record respBindStore =
  rb_max :: nat
  rb_on :: "unit gomap"

definition newRespBindStore :: "nat \<Rightarrow> respBindStore" where
  "newRespBindStore mx = \<lparr>rb_max = mx, rb_on = []\<rparr>"

definition respbind_observe :: "string \<Rightarrow> bool \<Rightarrow> respBindStore \<Rightarrow> respBindStore" where
  "respbind_observe addr advertised s =
     (let key = to_lower addr in
      if \<not> advertised then s\<lparr>rb_on := mdel (\<lambda>k. k = key) (rb_on s)\<rparr>
      else if \<not> mhas (rb_on s) key \<and> length (rb_on s) \<ge> rb_max s then s
      else s\<lparr>rb_on := mput key () (rb_on s)\<rparr>)"

definition respbind_supports :: "string \<Rightarrow> respBindStore \<Rightarrow> bool" where
  "respbind_supports addr s = mhas (rb_on s) (to_lower addr)"

definition FeatureResponseBind :: string where "FeatureResponseBind = ''resp-bind''"

definition quoteAdvertisesRespBind :: "bytes \<Rightarrow> bool" where
  "quoteAdvertisesRespBind reply =
     (case Option.bind (json_parse reply)
             (decode_struct [''e2ee_features''] (\<lambda>_ x _. as_strings x) []) of
        None \<Rightarrow> False
      | Some fs \<Rightarrow> FeatureResponseBind \<in> set fs)"

section \<open>What the store guarantees\<close>

definition identity_wf :: "identityStore \<Rightarrow> bool" where
  "identity_wf s = (mwf (is_m s) \<and> length (is_m s) \<le> is_max s \<and> 0 < is_max s)"

lemma oldest_in: "oldest m = Some (k, x) \<Longrightarrow> mget m k \<noteq> None"
  by (induction m arbitrary: k x rule: oldest.induct) (auto split: option.splits if_splits)

lemma oldest_None: "oldest m = None \<longleftrightarrow> m = []"
  by (cases m rule: oldest.cases) (auto split: option.splits if_splits)

lemma length_mdel1: "mget m k \<noteq> None \<Longrightarrow> length (mdel (\<lambda>j. j = k) m) < length m"
  unfolding mdel_def mget_None by (auto simp: mkeys_def intro!: length_filter_less)

lemma makeRoom_room:
  assumes "mwf m" "length m \<le> mx" "0 < mx"
  shows "mwf (identity_makeRoom t mx m)" "length (identity_makeRoom t mx m) < mx"
proof -
  let ?m = "filter (\<lambda>(k, e). \<not> ie_exp e < t) m"
  have len: "length ?m \<le> mx" using assms(2) le_trans length_filter_le by blast
  show "mwf (identity_makeRoom t mx m)"
    using mwf_filter[OF assms(1)] by (auto simp: identity_makeRoom_def Let_def mwf_mdel split: option.splits)
  show "length (identity_makeRoom t mx m) < mx"
  proof (cases "length ?m < mx")
    case False
    then obtain k x where o: "oldest ?m = Some (k, x)" using assms(3) by (cases "oldest ?m") (auto simp: oldest_None)
    have "length (mdel (\<lambda>j. j = k) ?m) < length ?m" by (rule length_mdel1[OF oldest_in[OF o]])
    then show ?thesis using o len False by (simp add: identity_makeRoom_def Let_def)
  qed (simp add: identity_makeRoom_def Let_def)
qed

lemma identity_wf_record:
  assumes "identity_wf s"
  shows "identity_wf (identity_record t i served s)"
proof -
  have w: "mwf (is_m s)" "length (is_m s) \<le> is_max s" "0 < is_max s" using assms by (simp_all add: identity_wf_def)
  note r = makeRoom_room[OF w, of t]
  show ?thesis
    using w r length_mput[OF w(1)] length_mput[OF r(1)]
    by (auto simp: identity_wf_def identity_record_def Let_def mwf_mput mhas_def)
qed

lemma identity_wf_del: "identity_wf s \<Longrightarrow> identity_wf (identity_delWarmed t a u s)"
  by (auto simp: identity_wf_def identity_delWarmed_def Let_def mwf_mdel split: option.splits)
    (simp add: mdel_def le_trans[OF length_filter_le])

text \<open>Sweeps: what they record and what they drop.\<close>

datatype sweep = Warmed int ProviderIdentity | Dropped int string string

fun sweep_step :: "sweep \<Rightarrow> identityStore \<Rightarrow> identityStore" where
  "sweep_step (Warmed t i) s = identity_putWarmed t i s"
| "sweep_step (Dropped t a u) s = identity_delWarmed t a u s"

fun sweep_time :: "sweep \<Rightarrow> int" where
  "sweep_time (Warmed t i) = t" | "sweep_time (Dropped t a u) = t"

text \<open>A sweep of this address that verified this endpoint.\<close>

fun sweeps_endpoint :: "string \<Rightarrow> string \<Rightarrow> sweep \<Rightarrow> bool" where
  "sweeps_endpoint key url (Warmed t i) = (ProviderKey (pi_Address i) = key \<and> pi_QuoteURL i = url)"
| "sweeps_endpoint key url (Dropped t a u) = (ProviderKey a = key \<and> u = url)"

lemma sweep_keeps:
  assumes "identity_wf s" "mget (is_m s) key = Some e" "ie_served e" "sweep_time x < ie_exp e"
    "\<not> sweeps_endpoint key (pi_QuoteURL (ie_id e)) x" "length (is_m s) < is_max s"
  shows "mget (is_m (sweep_step x s)) key = Some e"
  using assms
  by (cases x) (auto simp: identity_wf_def identity_putWarmed_def identity_record_def identity_delWarmed_def
      shieldedFrom_def Let_def mget_mput mget_mdel split: option.splits)

lemma sweep_size:
  assumes "identity_wf s"
  shows "length (is_m (sweep_step x s)) \<le> Suc (length (is_m s))" "is_max (sweep_step x s) = is_max s"
    "identity_wf (sweep_step x s)"
proof -
  have w: "mwf (is_m s)" "length (is_m s) \<le> is_max s" "0 < is_max s" using assms by (simp_all add: identity_wf_def)
  show "identity_wf (sweep_step x s)"
    using assms by (cases x) (simp_all add: identity_putWarmed_def identity_wf_record identity_wf_del)
  show "is_max (sweep_step x s) = is_max s"
    by (cases x) (auto simp: identity_putWarmed_def identity_record_def identity_delWarmed_def Let_def split: option.splits)
  show "length (is_m (sweep_step x s)) \<le> Suc (length (is_m s))"
  proof (cases x)
    case (Warmed t i)
    have "length (mput k e (identity_makeRoom t (is_max s) (is_m s))) \<le> is_max s" for k e
      using makeRoom_room[OF w, of t] length_mput[of "identity_makeRoom t (is_max s) (is_m s)" k e] by simp
    then show ?thesis
      using Warmed w length_mput[OF w(1)]
      by (auto simp: identity_putWarmed_def identity_record_def Let_def intro: le_SucI le_trans)
  next
    case (Dropped t a u)
    then show ?thesis
      by (auto simp: identity_delWarmed_def Let_def mdel_def le_SucI split: option.splits)
  qed
qed


definition demo_identity :: "string \<Rightarrow> string \<Rightarrow> ProviderIdentity" where
  "demo_identity a url = \<lparr>pi_Address = a, pi_Endpoint = [], pi_QuoteURL = url, pi_QuoteDCAP = VerdictPass,
     pi_OnChainSigner = VerdictPass, pi_Measurement = VerdictPass, pi_OSImage = [], pi_ComposeHash = [],
     pi_Containers = [], pi_RuntimeRelease = VerdictPass, pi_RunningBroker = [], pi_RunningRelease = [],
     pi_ComposeBaseline = VerdictPass, pi_BaselineDeployment = [],
     pi_runtime = \<lparr>rf_state = Inl ReaderFailed, rf_signer = [], rf_encPub = []\<rparr>,
     pi_manifest = \<lparr>mf_review = None, mf_observed = 0\<rparr>\<rparr>"


end
