(* ===== verification/Route_State.thy ===== *)
theory Route_State
  imports Route_Identity
begin

text \<open>
  client/route: the router's configuration, its state, its options (route.go, enforce.go and the other
  files that add one), and the addresses it derives from a provider's endpoint. What it calls (clock,
  context, HTTP, the registry, the wait for a release verdict, the readers of provider input) is the
  record \<open>router_env\<close>; what it counts is a trace of metrics.
\<close>

section \<open>Errors\<close>

definition upstream :: "int \<Rightarrow> string \<Rightarrow> gerr" where
  "upstream status what = Staged StageUpstream status [] None (Routing what)"

definition upstreamBody :: "int \<Rightarrow> bytes \<Rightarrow> string \<Rightarrow> gerr" where
  "upstreamBody status body what = Staged StageUpstream status body None (Routing what)"

section \<open>Addresses\<close>

definition isAddress :: "string \<Rightarrow> bool" where
  "isAddress s = (length s = 42 \<and> s ! 0 = CHR ''0'' \<and> s ! 1 = CHR ''x''
     \<and> list_all (\<lambda>c. hex_val c \<noteq> None) (drop 2 s))"

datatype url_err = NotURL | NotAbsolute | BadChatKey

definition absolute_url :: "string \<Rightarrow> url_err + URL" where
  "absolute_url e =
     bind_r (opt_r (url_parse e) NotURL) (\<lambda>u.
     bind_r (fail_if (u_Scheme u = [] \<or> u_Host u = []) NotAbsolute) (\<lambda>_. Inr u))"

definition v1_path :: "string \<Rightarrow> string" where
  "v1_path p =
     (let base = trim_suffix ''/'' p in
      if suffix ''/chat/completions'' base then trim_suffix ''/chat/completions'' base
      else if suffix ''/v1'' base then base else base @ ''/v1'')"

definition deriveV1Base :: "string \<Rightarrow> url_err + string" where
  "deriveV1Base e =
     bind_r (absolute_url e) (\<lambda>u.
     Inr (to_lower (u_Scheme u) @ ''://'' @ to_lower (u_Host u) @ v1_path (u_Path u)))"

definition deriveOrigin :: "string \<Rightarrow> url_err + string" where
  "deriveOrigin e = bind_r (absolute_url e) (\<lambda>u. Inr (u_Scheme u @ ''://'' @ u_Host u))"

definition derivePubkeyURL :: "string \<Rightarrow> url_err + string" where
  "derivePubkeyURL e = bind_r (deriveV1Base e) (\<lambda>b. Inr (b @ ''/e2ee/pubkey''))"

definition deriveQuoteURL :: "string \<Rightarrow> url_err + string" where
  "deriveQuoteURL e = bind_r (deriveV1Base e) (\<lambda>b. Inr (b @ ''/quote?legacy=false''))"

definition validChatKey :: "string \<Rightarrow> bool" where
  "validChatKey k = (1 \<le> length k \<and> length k \<le> 64 \<and> list_all (\<lambda>c. ascii_alnum c \<or> c \<in> set ''_-'') k)"

definition deriveSignatureURL :: "string \<Rightarrow> string \<Rightarrow> url_err + string" where
  "deriveSignatureURL e chatKey =
     bind_r (fail_if (\<not> validChatKey chatKey) BadChatKey) (\<lambda>_.
     bind_r (deriveV1Base e) (\<lambda>b. Inr (b @ ''/proxy/signature/'' @ chatKey)))"

section \<open>What is called\<close>

record 'w router_env =
  ge_now :: "'w \<Rightarrow> int"
  ge_gone :: "'w \<Rightarrow> bool"
  ge_deadline :: "'w \<Rightarrow> bool"
  ge_left :: "'w \<Rightarrow> bool"
  ge_valid :: "string \<Rightarrow> bool"
  ge_get :: "string \<Rightarrow> 'w \<Rightarrow> http_response option \<times> 'w"
  ge_post :: "string \<Rightarrow> header \<Rightarrow> json \<Rightarrow> 'w \<Rightarrow> http_response option \<times> 'w"
  ge_pause :: "int \<Rightarrow> 'w \<Rightarrow> bool \<times> 'w"
  ge_wait :: "string \<Rightarrow> string \<Rightarrow> 'w \<Rightarrow> ReleaseVerdict option \<times> 'w"
  ge_review :: "bytes \<Rightarrow> bytes \<Rightarrow> ComposeReview option"
  ge_services :: "bytes \<Rightarrow> Service list option"

record 'w SignerRegistry =
  sr_AcknowledgedSigner :: "string \<Rightarrow> 'w \<Rightarrow> (chain_err + Signer) \<times> 'w"
  sr_RefreshSigner :: "string \<Rightarrow> 'w \<Rightarrow> (chain_err + Signer) \<times> 'w"

section \<open>Router and state\<close>

datatype previewResult =
    previewOK | previewRetryable | previewRejected | previewBroken | previewCanceled | previewInternal

datatype groundingOutcome =
    groundingOK | groundingOKStale | groundingMismatch | groundingNotAcknowledged | groundingLookupFailed

datatype rmetric =
    PreviewCall string | PreviewAttempt previewResult | PreviewRetrySuppressed nat
  | QuoteVerificationDone bool | QuoteCacheLookup bool | MeasurementUntrusted
  | OnChainRevalidation string | OnChainGrounding groundingOutcome | ProviderEnforceRefusal string
  | RuntimeReleaseSeen Verdict | ComposeBaselineSeen Verdict | SignatureFetch string
  | WarmerSweep string | WarmerSweepSucceeded | WarmerReadyProviders nat
  | WarmerProviderRefresh string | WarmerSignerRefresh string

record WarmState =
  ws_At :: "int option"
  ws_Started :: "int option"
  ws_Ready :: nat
  ws_Total :: nat

record 'w Router =
  gr_previewURL :: string
  gr_base :: string
  gr_providersURL :: string
  gr_warmServiceTypes :: "string list"
  gr_extraSensitive :: "string list"
  gr_verifier :: "Verifier option"
  gr_registry :: "'w SignerRegistry option"
  gr_onchainEnforce :: bool
  gr_releases :: "ReleaseVerifier option"
  gr_baseline :: "composeBaseline option"
  gr_providerEnforce :: bool
  gr_attemptTO :: int
  gr_budgetTO :: int

record 'w gstate =
  gs_world :: 'w
  gs_cache :: pubkeyCache
  gs_quotes :: "quoteResult quoteCache"
  gs_identities :: identityStore
  gs_quoteReverify :: rateLimiter
  gs_signerRevalidate :: rateLimiter
  gs_retries :: retryGate
  gs_judge :: judge
  gs_respBind :: "respBindStore option"
  gs_observed :: "(nat \<times> string) list"
  gs_verifications :: nat
  gs_warm :: WarmState
  gs_metrics :: "rmetric list"

definition count :: "rmetric \<Rightarrow> 'w gstate \<Rightarrow> 'w gstate" where
  "count m s = s\<lparr>gs_metrics := gs_metrics s @ [m]\<rparr>"

definition call :: "('w \<Rightarrow> 'a \<times> 'w) \<Rightarrow> 'w gstate \<Rightarrow> 'a \<times> 'w gstate" where
  "call f s = (case f (gs_world s) of (x, w) \<Rightarrow> (x, s\<lparr>gs_world := w\<rparr>))"

definition clock :: "'w router_env \<Rightarrow> 'w gstate \<Rightarrow> int" where
  "clock G s = ge_now G (gs_world s)"

definition maxControlBodyBytes :: nat where "maxControlBodyBytes = 2 ^ 20"

text \<open>A body read through the limit: \<open>None\<close> is a read error.\<close>

definition control_body :: "http_response \<Rightarrow> bytes option" where
  "control_body resp =
     (if hr_End resp \<noteq> None \<and> length (hr_Body resp) < maxControlBodyBytes then None
      else Some (take maxControlBodyBytes (hr_Body resp)))"

section \<open>Construction\<close>

definition DefaultRouterURL :: string where "DefaultRouterURL = ''https://router-api.0g.ai''"
definition previewPath :: string where "previewPath = ''/v1/routing/preview''"
definition providersPath :: string where "providersPath = ''/v1/providers''"
definition DefaultServiceType :: string where "DefaultServiceType = ep_ServiceType ep_Chat"
definition defaultPubkeyTTL :: int where "defaultPubkeyTTL = 5 * 60 * 10 ^ 9"
definition defaultQuoteTTL :: int where "defaultQuoteTTL = 5 * 60 * 10 ^ 9"
definition controlPlaneHeaderTimeout :: int where "controlPlaneHeaderTimeout = 30 * 10 ^ 9"
definition previewAttemptTimeout :: int where "previewAttemptTimeout = controlPlaneHeaderTimeout"
definition previewRetryBudget :: int where "previewRetryBudget = controlPlaneHeaderTimeout"
definition previewAttempts :: nat where "previewAttempts = 3"
definition previewRetryBackoff :: int where "previewRetryBackoff = 200 * 10 ^ 6"
definition maxPreviewCandidates :: nat where "maxPreviewCandidates = 8"
definition x25519PubLen :: nat where "x25519PubLen = 32"
definition reverifyFailureBackoff :: int where "reverifyFailureBackoff = 30 * 10 ^ 9"
definition signerRevalidateWindow :: int where "signerRevalidateWindow = 60 * 10 ^ 9"

type_synonym 'w option_fn = "'w Router \<times> 'w gstate \<Rightarrow> 'w Router \<times> 'w gstate"

definition WithWarmServiceTypes :: "string list \<Rightarrow> 'w option_fn" where
  "WithWarmServiceTypes types =
     (\<lambda>(r, s). let out = dedupe (filter (\<lambda>t. t \<noteq> []) types) in
        (if out \<noteq> [] then r\<lparr>gr_warmServiceTypes := out\<rparr> else r, s))"

definition WithSensitiveFields :: "string list \<Rightarrow> 'w option_fn" where
  "WithSensitiveFields fs = (\<lambda>(r, s). (r\<lparr>gr_extraSensitive := gr_extraSensitive r @ fs\<rparr>, s))"

definition WithPubkeyTTL :: "int \<Rightarrow> 'w option_fn" where
  "WithPubkeyTTL d = (\<lambda>(r, s). (r, s\<lparr>gs_cache := newPubkeyCache d\<rparr>))"

definition WithQuoteTTL :: "int \<Rightarrow> 'w option_fn" where
  "WithQuoteTTL d = (\<lambda>(r, s). (r, s\<lparr>gs_quotes := newQuoteCache d\<rparr>))"

definition WithQuoteVerification :: "Verifier option \<Rightarrow> 'w option_fn" where
  "WithQuoteVerification v = (\<lambda>(r, s). (if v = None then r else r\<lparr>gr_verifier := v\<rparr>, s))"

definition WithOnChainVerification :: "'w SignerRegistry option \<Rightarrow> bool \<Rightarrow> 'w option_fn" where
  "WithOnChainVerification reg enforce =
     (\<lambda>(r, s). (case reg of None \<Rightarrow> r
                | Some g \<Rightarrow> r\<lparr>gr_registry := Some g, gr_onchainEnforce := enforce\<rparr>, s))"

definition WithReleaseVerifier :: "ReleaseVerifier option \<Rightarrow> 'w option_fn" where
  "WithReleaseVerifier rels =
     (\<lambda>(r, s). case rels of None \<Rightarrow> (r, s) | Some v \<Rightarrow> (r\<lparr>gr_releases := Some v\<rparr>, s\<lparr>gs_judge := []\<rparr>))"

definition WithComposeBaseline :: "Deployment list \<Rightarrow> string \<Rightarrow> 'w option_fn" where
  "WithComposeBaseline b contract =
     (\<lambda>(r, s). (r\<lparr>gr_baseline := Some \<lparr>cb_b = b, cb_contract = contract\<rparr>\<rparr>, s))"

definition WithProviderEnforce :: "bool \<Rightarrow> 'w option_fn" where
  "WithProviderEnforce enforce = (\<lambda>(r, s). (r\<lparr>gr_providerEnforce := enforce\<rparr>, s))"

definition WithResponseBinding :: "'w option_fn" where
  "WithResponseBinding = (\<lambda>(r, s). (r, s\<lparr>gs_respBind := Some (newRespBindStore maxProviderIdentities)\<rparr>))"

definition New_router :: "string \<Rightarrow> 'w option_fn list \<Rightarrow> 'w \<Rightarrow> 'w Router \<times> 'w gstate" where
  "New_router routerURL opts w =
     (let base = trim_right_char (CHR ''/'') (if routerURL = [] then DefaultRouterURL else routerURL) in
      foldl (\<lambda>rs opt. opt rs)
        (\<lparr>gr_previewURL = base @ previewPath, gr_base = base, gr_providersURL = base @ providersPath,
          gr_warmServiceTypes = [DefaultServiceType], gr_extraSensitive = [], gr_verifier = None,
          gr_registry = None, gr_onchainEnforce = False, gr_releases = None, gr_baseline = None,
          gr_providerEnforce = False, gr_attemptTO = previewAttemptTimeout, gr_budgetTO = previewRetryBudget\<rparr>,
         \<lparr>gs_world = w, gs_cache = newPubkeyCache defaultPubkeyTTL, gs_quotes = newQuoteCache defaultQuoteTTL,
          gs_identities = newIdentityStore providerIdentityTTL (int maxProviderIdentities),
          gs_quoteReverify = [], gs_signerRevalidate = [], gs_retries = gate_zero, gs_judge = [],
          gs_respBind = None, gs_observed = [], gs_verifications = 0,
          gs_warm = \<lparr>ws_At = None, ws_Started = None, ws_Ready = 0, ws_Total = 0\<rparr>, gs_metrics = []\<rparr>) opts)"

definition attemptTimeout :: "'w Router \<Rightarrow> int" where
  "attemptTimeout r = (if gr_attemptTO r > 0 then gr_attemptTO r else previewAttemptTimeout)"

definition retryBudget :: "'w Router \<Rightarrow> int" where
  "retryBudget r = (if gr_budgetTO r > 0 then gr_budgetTO r else previewRetryBudget)"

section \<open>Facts\<close>

lemma call_simps [simp]:
  "snd (call f s) = s\<lparr>gs_world := snd (f (gs_world s))\<rparr>" "fst (call f s) = fst (f (gs_world s))"
  by (simp_all add: call_def split: prod.splits)

text \<open>
  The endpoint spellings a router may use for one provider, a bare origin, the /v1 base or the chat URL,
  with or without a trailing slash, lead to one quote URL, and so to one cache and limiter key.
\<close>

lemma v1_path_spellings:
  "v1_path [] = ''/v1''" "v1_path ''/'' = ''/v1''" "v1_path ''/v1'' = ''/v1''" "v1_path ''/v1/'' = ''/v1''"
  "v1_path ''/v1/chat/completions'' = ''/v1''" "v1_path ''/v1/chat/completions/'' = ''/v1''"
  by code_simp+

lemma quote_url_of:
  "absolute_url e = Inr u \<Longrightarrow> u_Path u \<in> {[], ''/'', ''/v1'', ''/v1/'', ''/v1/chat/completions'', ''/v1/chat/completions/''} \<Longrightarrow>
     deriveQuoteURL e = Inr (to_lower (u_Scheme u) @ ''://'' @ to_lower (u_Host u) @ ''/v1/quote?legacy=false'')"
  by (auto simp: deriveQuoteURL_def deriveV1Base_def bind_r_def v1_path_spellings)

end
