(* ===== verification/Route_Preview.thy ===== *)
theory Route_Preview
  imports Route_State
begin

text \<open>
  client/route, the preview of route.go: what of a request the router is shown to rank providers, how
  its answer is read, and the attempts. A member of the request is its JSON value, so printing the body
  cannot fail; a repeated \<open>providers\<close> member of the answer is not modelled.
\<close>

section \<open>What is withheld\<close>

definition everyProfilesPayloadFields :: "string list" where
  "everyProfilesPayloadFields = dedupe (concat (map DefaultSealedFieldsFor Profiles))"

definition sensitiveFieldsFor :: "Endpoint \<Rightarrow> string list" where
  "sensitiveFieldsFor ep =
     (let fs = DefaultSealedFieldsFor (ep_Profile ep) in
      if fs \<noteq> [] then fs else everyProfilesPayloadFields)"

definition withheldFor :: "'w Router \<Rightarrow> Endpoint \<Rightarrow> string list" where
  "withheldFor r ep = sensitiveFieldsFor ep @ gr_extraSensitive r"

section \<open>Signals\<close>

definition presentAndNotNull :: "json \<Rightarrow> bool" where
  "presentAndNotNull v = (v \<noteq> JNull)"

definition nonEmptyJSONArray :: "json \<Rightarrow> bool" where
  "nonEmptyJSONArray v = (case v of JNull \<Rightarrow> False | JArr vs \<Rightarrow> vs \<noteq> [] | _ \<Rightarrow> True)"

record previewCapabilitySignal =
  cs_detected :: "json \<Rightarrow> bool"
  cs_placeholder :: "(Profile \<times> json) list"

definition signal_tools :: previewCapabilitySignal where
  "signal_tools =
     \<lparr>cs_detected = nonEmptyJSONArray,
      cs_placeholder =
        [(ProfileChat, JArr [JObj [(''type'', JStr ''function''),
                                   (''function'', JObj [(''name'', JStr ''_'')])]]),
         (ProfileAnthropic, JArr [JObj [(''name'', JStr ''_''),
                                        (''input_schema'', JObj [(''type'', JStr ''object'')])]])]\<rparr>"

definition signal_tool_choice :: previewCapabilitySignal where
  "signal_tool_choice =
     \<lparr>cs_detected = presentAndNotNull,
      cs_placeholder = [(ProfileChat, JStr ''auto''), (ProfileAnthropic, JObj [(''type'', JStr ''auto'')])]\<rparr>"

definition previewCapabilitySignals :: "(string \<times> previewCapabilitySignal) list" where
  "previewCapabilitySignals = [(''tools'', signal_tools), (''tool_choice'', signal_tool_choice)]"

definition capabilitySignalFor :: "Profile \<Rightarrow> string \<Rightarrow> json \<Rightarrow> json option" where
  "capabilitySignalFor profile field raw =
     (case map_of previewCapabilitySignals field of
        None \<Rightarrow> None
      | Some sig \<Rightarrow> if cs_detected sig raw then map_of (cs_placeholder sig) profile else None)"

section \<open>The body\<close>

definition preview_member :: "'w Router \<Rightarrow> Endpoint \<Rightarrow> string \<times> json \<Rightarrow> (string \<times> json) option" where
  "preview_member r ep kv =
     (if fst kv \<in> set (withheldFor r ep)
      then map_option (Pair (fst kv)) (capabilitySignalFor (ep_Profile ep) (fst kv) (snd kv))
      else Some kv)"

definition preview_payload :: "'w Router \<Rightarrow> Endpoint \<Rightarrow> Request \<Rightarrow> Request" where
  "preview_payload r ep req =
     (let p = mput ''service_type'' (JStr (ep_ServiceType ep)) (List.map_filter (preview_member r ep) req) in
      if ep_APIFormat ep \<noteq> [] then mput ''api_format'' (JStr (ep_APIFormat ep)) p
      else mdel (\<lambda>k. k = ''api_format'') p)"

section \<open>The answer\<close>

record previewProvider =
  pp_Address :: string
  pp_ProviderIdentity :: "string option"
  pp_CanonicalID :: string
  pp_Endpoint :: string
  pp_ModelID :: string

record previewResponse =
  pr_Object :: string
  pr_ServiceType :: string
  pr_Providers :: "previewProvider list"

definition preview_provider :: "json \<Rightarrow> previewProvider option" where
  "preview_provider =
     decode_struct [''address'', ''provider_identity'', ''canonical_id'', ''endpoint'', ''model_id'']
       (\<lambda>n x p.
          if n = ''address'' then map_option (\<lambda>v. p\<lparr>pp_Address := v\<rparr>) (str_into x (pp_Address p))
          else if n = ''provider_identity''
          then (case x of JNull \<Rightarrow> Some (p\<lparr>pp_ProviderIdentity := None\<rparr>)
                | JStr v \<Rightarrow> Some (p\<lparr>pp_ProviderIdentity := Some v\<rparr>) | _ \<Rightarrow> None)
          else if n = ''canonical_id'' then map_option (\<lambda>v. p\<lparr>pp_CanonicalID := v\<rparr>) (str_into x (pp_CanonicalID p))
          else if n = ''endpoint'' then map_option (\<lambda>v. p\<lparr>pp_Endpoint := v\<rparr>) (str_into x (pp_Endpoint p))
          else map_option (\<lambda>v. p\<lparr>pp_ModelID := v\<rparr>) (str_into x (pp_ModelID p)))
       \<lparr>pp_Address = [], pp_ProviderIdentity = None, pp_CanonicalID = [], pp_Endpoint = [], pp_ModelID = []\<rparr>"

definition preview_response :: "json \<Rightarrow> previewResponse option" where
  "preview_response =
     decode_struct [''object'', ''service_type'', ''providers'']
       (\<lambda>n x r.
          if n = ''object'' then map_option (\<lambda>v. r\<lparr>pr_Object := v\<rparr>) (str_into x (pr_Object r))
          else if n = ''service_type'' then map_option (\<lambda>v. r\<lparr>pr_ServiceType := v\<rparr>) (str_into x (pr_ServiceType r))
          else Option.bind (as_array x)
                 (\<lambda>vs. map_option (\<lambda>ps. r\<lparr>pr_Providers := ps\<rparr>) (opt_all (map preview_provider vs))))
       \<lparr>pr_Object = [], pr_ServiceType = [], pr_Providers = []\<rparr>"

definition previewStatusResult :: "int \<Rightarrow> previewResult" where
  "previewStatusResult status = (if 500 \<le> status \<and> status \<le> 599 then previewRetryable else previewRejected)"

definition callOutcome :: "previewResult \<Rightarrow> string" where
  "callOutcome res =
     (if res = previewRejected then ''rejected'' else if res = previewCanceled then ''canceled''
      else if res = previewInternal then ''internal'' else ''failed'')"

section \<open>One attempt\<close>

definition preview_headers :: "Ctx \<Rightarrow> header" where
  "preview_headers ctx =
     (let h = fold add_all (ctx_forwarded ctx) (header_set ''Content-Type'' ''application/json'' []) in
      if ctx_credential ctx \<noteq> [] then header_set ''Authorization'' (ctx_credential ctx) h else h)"

definition preview_reply :: "http_response \<Rightarrow> previewResult \<times> gerr + previewProvider list" where
  "preview_reply resp =
     (case control_body resp of
        None \<Rightarrow> Inl (previewRetryable, upstream 0 ''read route preview response'')
      | Some raw \<Rightarrow>
          if hr_Status resp \<noteq> 200
          then Inl (previewStatusResult (hr_Status resp), upstreamBody (hr_Status resp) raw ''route preview status'')
          else bind_r (opt_r (Option.bind (json_parse raw) preview_response)
                         (previewBroken, upstream 0 ''decode route preview response'')) (\<lambda>pr.
               if pr_Providers pr = [] then Inl (previewRejected, upstream 503 ''no provider available'')
               else Inr (take maxPreviewCandidates (pr_Providers pr))))"

definition previewOnce ::
    "'w router_env \<Rightarrow> 'w Router \<Rightarrow> Ctx \<Rightarrow> json \<Rightarrow> 'w gstate \<Rightarrow>
     (previewResult \<times> gerr + previewProvider list) \<times> 'w gstate" where
  "previewOnce G r ctx body s =
     (if \<not> ge_valid G (gr_previewURL r) then (Inl (previewInternal, upstream 0 ''build preview request''), s)
      else case call (ge_post G (gr_previewURL r) (preview_headers ctx) body) s of
        (None, s1) \<Rightarrow> (Inl (previewRetryable, upstream 0 ''route preview request''), s1)
      | (Some resp, s1) \<Rightarrow> (preview_reply resp, s1))"

section \<open>The attempts\<close>

datatype pace = GoAhead | GiveUp | CallerLeft

text \<open>Before a retry: the budget, the gate, the pause.\<close>

definition preview_pace ::
    "'w router_env \<Rightarrow> 'w Router \<Rightarrow> int \<Rightarrow> nat \<Rightarrow> int \<Rightarrow> 'w gstate \<Rightarrow> pace \<times> 'w gstate" where
  "preview_pace G r start left backoff s =
     (if clock G s - start + backoff \<ge> retryBudget r then (GiveUp, s)
      else if \<not> gate_allow (clock G s) (gs_retries s) then (GiveUp, count (PreviewRetrySuppressed left) s)
      else case call (ge_pause G backoff) s of
        (canceled, s1) \<Rightarrow> (if canceled then CallerLeft else GoAhead, s1))"

text \<open>The attempts left, the pause before the next, and the last failure, \<open>None\<close> before the first.\<close>

fun preview_tries ::
    "'w router_env \<Rightarrow> 'w Router \<Rightarrow> Ctx \<Rightarrow> json \<Rightarrow> int \<Rightarrow> nat \<Rightarrow> int \<Rightarrow> gerr option \<Rightarrow> 'w gstate \<Rightarrow>
     (string \<times> (gerr + previewProvider list)) \<times> 'w gstate" where
  "preview_tries G r ctx body start 0 backoff lst s =
     ((''failed'', Inl (or_else Panicked lst)), s\<lparr>gs_retries := gate_noAnswer (clock G s) (gs_retries s)\<rparr>)"
| "preview_tries G r ctx body start (Suc n) backoff lst s =
     (case (if lst = None then (GoAhead, s) else preview_pace G r start (Suc n) backoff s) of
        (GiveUp, s1) \<Rightarrow>
          ((''failed'', Inl (or_else Panicked lst)), s1\<lparr>gs_retries := gate_noAnswer (clock G s1) (gs_retries s1)\<rparr>)
      | (CallerLeft, s1) \<Rightarrow> ((''canceled'', Inl (upstream 0 ''route preview: context ended'')), s1)
      | (GoAhead, s1) \<Rightarrow>
          (case previewOnce G r ctx body s1 of
             (Inr ps, s2) \<Rightarrow>
               ((if lst = None then ''ok'' else ''ok_retried'', Inr ps),
                (count (PreviewAttempt previewOK) s2)\<lparr>gs_retries := gate_answered (gs_retries s2)\<rparr>)
           | (Inl (res, e), s2) \<Rightarrow>
               (let res' = (if res = previewRetryable \<and> ge_gone G (gs_world s2) then previewCanceled else res);
                    s3 = count (PreviewAttempt res') s2 in
                if res' \<noteq> previewRetryable then ((callOutcome res', Inl e), s3)
                else preview_tries G r ctx body start n (if lst = None then backoff else backoff * 2) (Some e) s3)))"

definition preview ::
    "'w router_env \<Rightarrow> 'w Router \<Rightarrow> Ctx \<Rightarrow> Endpoint \<Rightarrow> Request \<Rightarrow> 'w gstate \<Rightarrow>
     (gerr + previewProvider list) \<times> 'w gstate" where
  "preview G r ctx ep req s =
     (case preview_tries G r ctx (JObj (preview_payload r ep req)) (clock G s) previewAttempts
             previewRetryBackoff None s of
        ((outcome, res), s') \<Rightarrow> (res, count (PreviewCall outcome) s'))"

section \<open>Resolve\<close>

definition upstreamURL :: "'w Router \<Rightarrow> Endpoint \<Rightarrow> gerr + string" where
  "upstreamURL r ep =
     (if ep_UpstreamPath ep = [] then Inl (Plain ''no sealed upstream path'')
      else Inr (gr_base r @ ep_UpstreamPath ep))"

record routeCandidates =
  rc_providers :: "previewProvider list"
  rc_upstreamURL :: string

definition Resolve ::
    "'w router_env \<Rightarrow> 'w Router \<Rightarrow> Ctx \<Rightarrow> Endpoint \<Rightarrow> Request \<Rightarrow> 'w gstate \<Rightarrow>
     (gerr + routeCandidates) \<times> 'w gstate" where
  "Resolve G r ctx ep req s =
     (case upstreamURL r ep of
        Inl e \<Rightarrow> (Inl e, s)
      | Inr u \<Rightarrow>
          (case preview G r ctx ep req s of
             (Inl e, s1) \<Rightarrow> (Inl e, s1)
           | (Inr ps, s1) \<Rightarrow> (Inr \<lparr>rc_providers = ps, rc_upstreamURL = u\<rparr>, s1)))"

definition candidates_Len :: "routeCandidates \<Rightarrow> nat" where
  "candidates_Len c = length (rc_providers c)"

end
