(* ===== verification/Route_PreviewFacts.thy ===== *)
theory Route_PreviewFacts
  imports Route_Preview
begin

text \<open>
  What the router learns from a preview, and how far a preview can go.
\<close>

section \<open>The body\<close>

lemma keys_map_filter:
  "(\<And>kv kv'. f kv = Some kv' \<Longrightarrow> fst kv' = fst kv) \<Longrightarrow> set (mkeys (List.map_filter f m)) \<subseteq> set (mkeys m)"
proof (induction m)
  case (Cons a m)
  then show ?case by (cases a) (force simp: map_filter_simps mkeys_def split: option.splits)
qed (simp add: map_filter_simps)

lemma mwf_map_filter:
  assumes f: "\<And>kv kv'. f kv = Some kv' \<Longrightarrow> fst kv' = fst kv"
  shows "mwf m \<Longrightarrow> mwf (List.map_filter f m)"
proof (induction m)
  case (Cons a m)
  then show ?case
    using f[of a] keys_map_filter[of f m, OF f]
    by (cases a) (auto simp: map_filter_simps mwf_Cons split: option.splits)
qed (simp add: map_filter_simps)

lemma mget_map_filter:
  assumes f: "\<And>kv kv'. f kv = Some kv' \<Longrightarrow> fst kv' = fst kv"
  shows "mwf m \<Longrightarrow> mget (List.map_filter f m) k =
    (case mget m k of None \<Rightarrow> None | Some v \<Rightarrow> map_option snd (f (k, v)))"
proof (induction m)
  case (Cons a m)
  obtain k0 v0 where a: "a = (k0, v0)" by (cases a)
  have m: "mwf m" "mget m k0 = None" using Cons.prems a by (auto simp: mwf_Cons mget_None)
  have "mget (List.map_filter f m) k0 = None" using Cons.IH[OF m(1)] keys_map_filter[of f m, OF f] m(2)
    by (auto simp: mget_None)
  then show ?case
    using Cons.IH[OF m(1)] f[of a] m(2) a by (cases "f a") (auto simp: map_filter_simps)
qed (simp add: map_filter_simps)

lemma preview_member_key: "preview_member r ep kv = Some kv' \<Longrightarrow> fst kv' = fst kv"
  by (auto simp: preview_member_def split: if_splits)

lemma preview_members:
  "mwf m \<Longrightarrow> mwf (List.map_filter (preview_member r ep) m)"
  "mwf m \<Longrightarrow> mget (List.map_filter (preview_member r ep) m) k =
    (case mget m k of None \<Rightarrow> None | Some v \<Rightarrow> map_option snd (preview_member r ep (k, v)))"
  by (rule mwf_map_filter mget_map_filter; (rule preview_member_key)?; assumption)+

text \<open>Each member of the body is the surface's, an unwithheld member, or a fixed placeholder.\<close>

lemma mget_preview_payload:
  assumes "mwf req"
  shows "mget (preview_payload r ep req) k =
    (if k = ''api_format'' then if ep_APIFormat ep \<noteq> [] then Some (JStr (ep_APIFormat ep)) else None
     else if k = ''service_type'' then Some (JStr (ep_ServiceType ep))
     else if k \<in> set (withheldFor r ep)
     then Option.bind (mget req k) (capabilitySignalFor (ep_Profile ep) k)
     else mget req k)"
proof -
  let ?f = "List.map_filter (preview_member r ep) req"
  have wf: "mwf ?f" "mwf (mput ''service_type'' (JStr (ep_ServiceType ep)) ?f)"
    using assms by (simp_all add: preview_members map_simps)
  have "mget ?f k = (if k \<in> set (withheldFor r ep)
     then Option.bind (mget req k) (capabilitySignalFor (ep_Profile ep) k) else mget req k)"
    unfolding preview_members(2)[OF assms] preview_member_def
    by (cases "mget req k") (simp_all add: option.map_comp o_def option.map_ident)
  then show ?thesis
    by (simp add: preview_payload_def Let_def mget_mput[OF wf(1)] mget_mput[OF wf(2)] mget_mdel)
qed

lemma mwf_preview_payload: "mwf req \<Longrightarrow> mwf (preview_payload r ep req)"
  by (simp add: preview_payload_def Let_def map_simps preview_members)

definition shows_tools :: "Request \<Rightarrow> bool" where
  "shows_tools req = (case mget req ''tools'' of None \<Rightarrow> False | Some v \<Rightarrow> nonEmptyJSONArray v)"

definition shows_tool_choice :: "Request \<Rightarrow> bool" where
  "shows_tool_choice req = (case mget req ''tool_choice'' of None \<Rightarrow> False | Some v \<Rightarrow> presentAndNotNull v)"

lemma signal_depends:
  assumes "shows_tools req = shows_tools req'" "shows_tool_choice req = shows_tool_choice req'"
  shows "Option.bind (mget req k) (capabilitySignalFor p k) = Option.bind (mget req' k) (capabilitySignalFor p k)"
proof -
  consider "k = ''tools''" | "k = ''tool_choice''" | "map_of previewCapabilitySignals k = None"
    by (fastforce simp: previewCapabilitySignals_def)
  then show ?thesis
  proof cases
    case 1
    then show ?thesis
      using assms(1) by (auto simp: capabilitySignalFor_def previewCapabilitySignals_def signal_tools_def
          shows_tools_def split: option.splits)
  next
    case 2
    then show ?thesis
      using assms(2) by (auto simp: capabilitySignalFor_def previewCapabilitySignals_def signal_tool_choice_def
          shows_tool_choice_def split: option.splits)
  next
    case 3
    then show ?thesis by (simp add: capabilitySignalFor_def bind_eq_Some_conv split: Option.bind_splits)
  qed
qed

lemma payload_same:
  assumes "mwf req" "mwf req'"
    and "\<And>k. k \<notin> set (withheldFor r ep) \<Longrightarrow> k \<notin> {''service_type'', ''api_format''} \<Longrightarrow> mget req k = mget req' k"
    and "shows_tools req = shows_tools req'" "shows_tool_choice req = shows_tool_choice req'"
  shows "preview_payload r ep req = preview_payload r ep req'"
proof (rule mwf_ext)
  fix k
  show "mget (preview_payload r ep req) k = mget (preview_payload r ep req') k"
    using assms(3)[of k] signal_depends[OF assms(4,5), of k "ep_Profile ep"] assms(1,2)
    by (simp add: mget_preview_payload)
qed (simp_all add: assms mwf_preview_payload)

text \<open>
  What is withheld covers what a sealed request must seal: the payload of the surface's profile, and for
  a profile the protocol does not know the payload of every profile.
\<close>

lemma withheld_covers_payload:
  "set (DefaultSealedFieldsFor (ep_Profile ep)) \<subseteq> set (withheldFor r ep)"
  "DefaultSealedFieldsFor (ep_Profile ep) = [] \<Longrightarrow> p \<in> set Profiles \<Longrightarrow>
     set (DefaultSealedFieldsFor p) \<subseteq> set (withheldFor r ep)"
proof -
  have dedupe: "set (dedupe fs) = set fs" for fs by (induction fs rule: dedupe.induct) auto
  show "set (DefaultSealedFieldsFor (ep_Profile ep)) \<subseteq> set (withheldFor r ep)"
    by (auto simp: withheldFor_def sensitiveFieldsFor_def Let_def)
  show "DefaultSealedFieldsFor (ep_Profile ep) = [] \<Longrightarrow> p \<in> set Profiles \<Longrightarrow>
     set (DefaultSealedFieldsFor p) \<subseteq> set (withheldFor r ep)"
    by (auto simp: withheldFor_def sensitiveFieldsFor_def Let_def everyProfilesPayloadFields_def dedupe)
qed

text \<open>
  C14: The router learns nothing of a withheld field from a preview but two bits: two requests that agree
  on the fields that are not withheld, and on whether tools and a tool choice are there, lead to the
  same calls, the same candidates and the same state, whatever else the withheld fields hold. Withheld are
  at least the fields the profile seals by default and the ones the operator adds.
\<close>

theorem preview_noninterference:
  assumes "mwf req" "mwf req'"
    and "\<And>k. k \<notin> set (withheldFor r ep) \<Longrightarrow> k \<notin> {''service_type'', ''api_format''} \<Longrightarrow> mget req k = mget req' k"
    and "shows_tools req = shows_tools req'" "shows_tool_choice req = shows_tool_choice req'"
  shows "Resolve G r ctx ep req s = Resolve G r ctx ep req' s
     \<and> set (DefaultSealedFieldsFor (ep_Profile ep)) \<union> set (gr_extraSensitive r) \<subseteq> set (withheldFor r ep)"
proof -
  have "preview_payload r ep req = preview_payload r ep req'" using assms by (rule payload_same)
  then have "Resolve G r ctx ep req s = Resolve G r ctx ep req' s" unfolding Resolve_def preview_def by presburger
  moreover have "set (gr_extraSensitive r) \<subseteq> set (withheldFor r ep)" by (auto simp: withheldFor_def Let_def)
  ultimately show ?thesis using withheld_covers_payload(1)[of ep r] by simp
qed

definition demo_request :: "string \<Rightarrow> json list \<Rightarrow> Request" where
  "demo_request m ts = map_from [(''model'', JStr ''m''), (''messages'', JArr [JStr m]), (''tools'', JArr ts)]"

text \<open>A router that answers every request with a server error, and a caller that waits.\<close>

definition demo_failing :: "nat router_env" where
  "demo_failing =
     \<lparr>ge_now = int, ge_gone = (\<lambda>_. False), ge_deadline = (\<lambda>_. False), ge_left = (\<lambda>_. False),
      ge_valid = (\<lambda>_. True), ge_get = (\<lambda>_ w. (None, w)),
      ge_post = (\<lambda>_ _ _ w. (Some \<lparr>hr_Status = 503, hr_Header = [], hr_Body = [], hr_End = None\<rparr>, Suc w)),
      ge_pause = (\<lambda>_ w. (False, w)), ge_wait = (\<lambda>_ _ w. (None, w)),
      ge_review = (\<lambda>_ _. None), ge_services = (\<lambda>_. None)\<rparr>"

theorem preview_noninterference_witness:
  "Resolve demo_failing (fst (New_router [] [] 0)) background ep_Chat (demo_request ''a'' [JNull]) (snd (New_router [] [] 0))
   = Resolve demo_failing (fst (New_router [] [] 0)) background ep_Chat (demo_request ''b'' [JNull, JNull])
       (snd (New_router [] [] 0))"
proof (rule preview_noninterference[THEN conjunct1])
  fix k
  assume "k \<notin> set (withheldFor (fst (New_router [] [] (0::nat))) ep_Chat)"
  moreover have "''messages'' \<in> set (withheldFor r ep_Chat)" "''tools'' \<in> set (withheldFor r ep_Chat)" for r :: "nat Router"
    using withheld_covers_payload(1)[of ep_Chat r]
    by (auto simp: ep_Chat_def DefaultSealedFieldsFor_def profile_spec_def profiles_def opt_r_def
        defaultRequestSealed_def spec_chat_def)
  ultimately show "mget (demo_request ''a'' [JNull]) k = mget (demo_request ''b'' [JNull, JNull]) k"
    by (auto simp: demo_request_def mget_map_from)
qed (simp_all add: demo_request_def shows_tools_def shows_tool_choice_def mget_map_from nonEmptyJSONArray_def)

section \<open>The attempts\<close>

text \<open>A counter of the world that a request advances and a pause leaves alone.\<close>

definition counts_posts :: "'w router_env \<Rightarrow> ('w \<Rightarrow> nat) \<Rightarrow> bool" where
  "counts_posts G c = ((\<forall>u h b w. c (snd (ge_post G u h b w)) = Suc (c w)) \<and> (\<forall>d w. c (snd (ge_pause G d w)) = c w))"

lemma previewOnce_posts:
  "counts_posts G c \<Longrightarrow> previewOnce G r ctx body s = (x, s') \<Longrightarrow> c (gs_world s') \<le> Suc (c (gs_world s))"
  by (auto simp: previewOnce_def call_def counts_posts_def split: if_splits prod.splits option.splits)
    (metis order_refl snd_conv)+

lemma preview_pace_posts:
  "counts_posts G c \<Longrightarrow> preview_pace G r start n b s = (x, s') \<Longrightarrow> c (gs_world s') = c (gs_world s)"
  by (auto simp: preview_pace_def call_def count_def counts_posts_def split: if_splits prod.splits) (metis snd_conv)+

lemma preview_reply_some:
  "preview_reply resp = Inr ps \<Longrightarrow> hr_Status resp = 200 \<and> ps \<noteq> [] \<and> length ps \<le> maxPreviewCandidates"
  by (auto simp: preview_reply_def bind_r_def opt_r_def maxPreviewCandidates_def
      split: option.splits if_splits sum.splits)

lemma previewOnce_some:
  "previewOnce G r ctx body s = (Inr ps, s') \<Longrightarrow> ps \<noteq> [] \<and> length ps \<le> maxPreviewCandidates"
  by (auto simp: previewOnce_def split: if_splits prod.splits option.splits dest: preview_reply_some)

lemma preview_tries_bounded:
  "counts_posts G c \<Longrightarrow> preview_tries G r ctx body start n b lst s = ((o1, res), s') \<Longrightarrow>
     c (gs_world s') \<le> c (gs_world s) + n
     \<and> (\<forall>ps. res = Inr ps \<longrightarrow> ps \<noteq> [] \<and> length ps \<le> maxPreviewCandidates)"
proof (induction G r ctx body start n b lst s arbitrary: o1 res s' rule: preview_tries.induct)
  case (2 G r ctx body start n b lst s)
  note c = "2.prems"(1) and run = "2.prems"(2)
  obtain pc s1 where P: "(if lst = None then (GoAhead, s) else preview_pace G r start (Suc n) b s) = (pc, s1)"
    by fastforce
  have a1: "c (gs_world s1) = c (gs_world s)"
    using P preview_pace_posts[OF c] by (auto split: if_splits)
  show ?case
  proof (cases pc)
    case GoAhead
    obtain rr s2 where O: "previewOnce G r ctx body s1 = (rr, s2)" by fastforce
    note a2 = previewOnce_posts[OF c O]
    show ?thesis
    proof (cases rr)
      case (Inl re)
      obtain rs e where re: "re = (rs, e)" by (cases re)
      let ?r = "if rs = previewRetryable \<and> ge_gone G (gs_world s2) then previewCanceled else rs"
      let ?s = "count (PreviewAttempt ?r) s2"
      have eq: "preview_tries G r ctx body start (Suc n) b lst s =
          (if ?r \<noteq> previewRetryable then ((callOutcome ?r, Inl e), ?s)
           else preview_tries G r ctx body start n (if lst = None then b else b * 2) (Some e) ?s)"
        using P GoAhead O Inl re by (simp add: Let_def)
      show ?thesis
      proof (cases "?r = previewRetryable")
        case True
        then have "\<not> ?r \<noteq> previewRetryable" by simp
        moreover have "preview_tries G r ctx body start n (if lst = None then b else b * 2) (Some e) ?s = ((o1, res), s')"
          using eq True run by simp
        ultimately show ?thesis
          using "2.IH"[OF P[symmetric] GoAhead O[symmetric] Inl re[symmetric] refl refl _ c] a1 a2
          by (fastforce simp: count_def)
      next
        case False
        then show ?thesis using eq run a1 a2 by (auto simp: count_def)
      qed
    next
      case (Inr ps)
      then show ?thesis
        using run P GoAhead O a1 a2 previewOnce_some[of G r ctx body s1 ps s2] by (auto simp: count_def)
    qed
  qed (use run P a1 in auto)
qed auto

text \<open>
  C31: A preview ends after at most three requests to the router, the first one and its retries, and what
  it returns is between one and eight candidates, however many the router lists.
\<close>

theorem preview_bounded:
  assumes "counts_posts G c" and "Resolve G r ctx ep req s = (res, s')"
  shows "c (gs_world s') \<le> c (gs_world s) + 3
    \<and> (\<forall>cs. res = Inr cs \<longrightarrow> 1 \<le> candidates_Len cs \<and> candidates_Len cs \<le> 8)"
proof (cases "upstreamURL r ep")
  case (Inr u)
  obtain o1 ps s1 where T: "preview_tries G r ctx (JObj (preview_payload r ep req)) (clock G s) previewAttempts
      previewRetryBackoff None s = ((o1, ps), s1)" by (metis prod.exhaust)
  then show ?thesis
    using preview_tries_bounded[OF assms(1) T] assms(2) Inr
    by (cases ps) (auto simp: Resolve_def preview_def count_def candidates_Len_def maxPreviewCandidates_def
        previewAttempts_def Suc_le_eq)
qed (use assms(2) in \<open>auto simp: Resolve_def\<close>)

theorem preview_bounded_witness:
  "gs_world (snd (Resolve demo_failing (fst (New_router [] [] 0)) background ep_Chat [] (snd (New_router [] [] 0)))) \<le> 3"
proof -
  have c: "counts_posts demo_failing id" by (simp add: counts_posts_def demo_failing_def)
  obtain res s' where R: "Resolve demo_failing (fst (New_router [] [] 0)) background ep_Chat [] (snd (New_router [] [] 0))
      = (res, s')" by fastforce
  have "gs_world (snd (New_router [] [] (0::nat))) = 0" by (simp add: New_router_def Let_def)
  then show ?thesis using preview_bounded[OF c R] by (simp add: R)
qed

end
