(* ===== verification/Route_Quote.thy ===== *)
theory Route_Quote
  imports Route_PreviewFacts Evid_Boot
begin

text \<open>
  client/route, the keys of a provider in route.go: the legacy key endpoint, the attestation quote and
  what is read of its reply, and the two caches with their refreshes; with the guarded readers of
  untrusted.go and the quote's part of composebaseline.go. A verification shared by several callers
  (singleflight) is the caller's own; \<open>ge_left\<close> is a caller whose context ends while it waits for one.
\<close>

section \<open>The key endpoint\<close>

record pubkeyResponse =
  pk_V :: int
  pk_KEMID :: string
  pk_EncPub :: string
  pk_KeyID :: string
  pk_SignerAddress :: string

definition pubkey_response :: "json \<Rightarrow> pubkeyResponse option" where
  "pubkey_response =
     decode_struct [''v'', ''kem_id'', ''enc_pub'', ''key_id'', ''signer_address'']
       (\<lambda>n x p.
          if n = ''v'' then map_option (\<lambda>v. p\<lparr>pk_V := v\<rparr>) (int_into x (pk_V p))
          else if n = ''kem_id'' then map_option (\<lambda>v. p\<lparr>pk_KEMID := v\<rparr>) (str_into x (pk_KEMID p))
          else if n = ''enc_pub'' then map_option (\<lambda>v. p\<lparr>pk_EncPub := v\<rparr>) (str_into x (pk_EncPub p))
          else if n = ''key_id'' then map_option (\<lambda>v. p\<lparr>pk_KeyID := v\<rparr>) (str_into x (pk_KeyID p))
          else map_option (\<lambda>v. p\<lparr>pk_SignerAddress := v\<rparr>) (str_into x (pk_SignerAddress p)))
       \<lparr>pk_V = 0, pk_KEMID = [], pk_EncPub = [], pk_KeyID = [], pk_SignerAddress = []\<rparr>"

definition validatePubkey :: "pubkeyResponse \<Rightarrow> string + bytes \<times> string" where
  "validatePubkey pk =
     bind_r (fail_if (pk_V pk \<noteq> 0 \<and> pk_V pk \<noteq> Version) ''version'') (\<lambda>_.
     bind_r (fail_if (pk_KEMID pk \<noteq> [] \<and> pk_KEMID pk \<noteq> KEMID) ''kem_id'') (\<lambda>_.
     bind_r (opt_r (b64_decode False (pk_EncPub pk)) ''enc_pub'') (\<lambda>encPub.
     bind_r (fail_if (length encPub \<noteq> x25519PubLen) ''enc_pub length'') (\<lambda>_.
     bind_r (fail_if (\<not> isAddress (pk_SignerAddress pk)) ''signer_address'') (\<lambda>_.
     Inr (encPub, pk_SignerAddress pk))))))"

definition as_upstream :: "string + 'a \<Rightarrow> gerr + 'a" where
  "as_upstream x = (case x of Inl what \<Rightarrow> Inl (upstream 0 what) | Inr a \<Rightarrow> Inr a)"

definition pubkey_reply :: "http_response \<Rightarrow> gerr + bytes \<times> string" where
  "pubkey_reply resp =
     (case control_body resp of
        None \<Rightarrow> Inl (upstream 0 ''read provider pubkey'')
      | Some raw \<Rightarrow>
          if hr_Status resp \<noteq> 200 then Inl (upstreamBody (hr_Status resp) raw ''provider pubkey status'')
          else bind_r (opt_r (Option.bind (json_parse raw) pubkey_response) (upstream 0 ''decode provider pubkey''))
                 (\<lambda>pk. as_upstream (validatePubkey pk)))"

definition pubkey ::
    "'w router_env \<Rightarrow> 'w Router \<Rightarrow> string \<Rightarrow> 'w gstate \<Rightarrow> (gerr + bytes \<times> string) \<times> 'w gstate" where
  "pubkey G r pubkeyURL s =
     (case pubkey_get (clock G s) pubkeyURL (gs_cache s) of
        Some ks \<Rightarrow> (Inr ks, s)
      | None \<Rightarrow>
          if \<not> ge_valid G pubkeyURL then (Inl (upstream 0 ''build pubkey request''), s)
          else case call (ge_get G pubkeyURL) s of
            (None, s1) \<Rightarrow> (Inl (upstream 0 ''fetch provider pubkey''), s1)
          | (Some resp, s1) \<Rightarrow>
              (case pubkey_reply resp of
                 Inl e \<Rightarrow> (Inl e, s1)
               | Inr (encPub, signer) \<Rightarrow>
                   (Inr (encPub, signer),
                    s1\<lparr>gs_cache := pubkey_put (clock G s1) pubkeyURL encPub signer (gs_cache s1)\<rparr>)))"

definition freshPubkey ::
    "'w router_env \<Rightarrow> 'w Router \<Rightarrow> string \<Rightarrow> bytes option \<Rightarrow> 'w gstate \<Rightarrow>
     (gerr + bytes \<times> string) \<times> 'w gstate" where
  "freshPubkey G r pubkeyURL stale s =
     pubkey G r pubkeyURL
       (case (stale, pubkey_get (clock G s) pubkeyURL (gs_cache s)) of
          (Some k, Some (encPub, _)) \<Rightarrow>
            if encPub = k then s\<lparr>gs_cache := pubkey_del pubkeyURL (gs_cache s)\<rparr> else s
        | _ \<Rightarrow> s)"

section \<open>The quote\<close>

text \<open>The quote, the app-compose (empty for none) and the whole reply.\<close>

definition quote_reply :: "http_response \<Rightarrow> gerr + bytes \<times> bytes \<times> bytes" where
  "quote_reply resp =
     (case control_body resp of
        None \<Rightarrow> Inl (upstream 0 ''read provider quote'')
      | Some body \<Rightarrow>
          if hr_Status resp \<noteq> 200 then Inl (upstreamBody (hr_Status resp) body ''provider quote status'')
          else case DecodeQuoteResponse body of
            Inl _ \<Rightarrow> Inl (upstream 0 ''decode provider quote'')
          | Inr raw \<Rightarrow>
              Inr (raw, (case AppComposeFromQuoteResponse body of Inl _ \<Rightarrow> [] | Inr ac \<Rightarrow> ac), body))"

definition fetchQuote ::
    "'w router_env \<Rightarrow> string \<Rightarrow> 'w gstate \<Rightarrow> (gerr + bytes \<times> bytes \<times> bytes) \<times> 'w gstate" where
  "fetchQuote G quoteURL s =
     (if \<not> ge_valid G quoteURL then (Inl (upstream 0 ''build quote request''), s)
      else case call (ge_get G quoteURL) s of
        (None, s1) \<Rightarrow> (Inl (upstream 0 ''fetch provider quote''), s1)
      | (Some resp, s1) \<Rightarrow> (quote_reply resp, s1))"

definition composeHashOf :: "bytes \<Rightarrow> bytes \<Rightarrow> Verified \<Rightarrow> bytes option" where
  "composeHashOf raw reply verified =
     (case ParseTDXQuoteBody raw of
        Inl _ \<Rightarrow> None
      | Inr body \<Rightarrow>
          if qb_Measurement body \<noteq> vd_Measurement verified then None
          else case ComposeHashOf (qb_MRConfigID body) reply (RTMR3 (vd_Measurement verified)) of
            Inl _ \<Rightarrow> None | Inr h \<Rightarrow> Some h)"

definition measurementVerdict :: "Verifier \<Rightarrow> Verified \<Rightarrow> Verdict" where
  "measurementVerdict v verified =
     (if vd_MeasurementTrusted verified then VerdictPass
      else if MeasurementBaselineConfigured v then VerdictNoMatch else VerdictNoBaseline)"

definition containersOf :: "'w router_env \<Rightarrow> bytes \<Rightarrow> bytes \<Rightarrow> Service list" where
  "containersOf G appCompose composeHash =
     (if appCompose = [] then []
      else case VerifyAppCompose appCompose composeHash of
        Inl _ \<Rightarrow> []
      | Inr ac \<Rightarrow> or_else [] (ge_services G (ac_DockerComposeFile ac)))"

definition readManifest ::
    "'w router_env \<Rightarrow> 'w Router \<Rightarrow> bytes \<Rightarrow> bytes option \<Rightarrow> 'w gstate \<Rightarrow> manifestFacts \<times> 'w gstate" where
  "readManifest G r appCompose composeHash s =
     (\<lparr>mf_review =
         (if gr_baseline r = None then None
          else case composeHash of
            None \<Rightarrow> None
          | Some h \<Rightarrow> if appCompose = [] then None else ge_review G appCompose h),
       mf_observed = gs_verifications s\<rparr>,
      s\<lparr>gs_verifications := Suc (gs_verifications s)\<rparr>)"

definition readRuntime :: "bytes \<Rightarrow> bytes \<Rightarrow> runtime_err + RuntimeState" where
  "readRuntime reply rtmr3 =
     (case ReadRuntimeState reply rtmr3 of Inl e \<Rightarrow> Inl (RuntimeRead e) | Inr st \<Rightarrow> Inr st)"

definition observeRuntime :: "'w router_env \<Rightarrow> 'w Router \<Rightarrow> runtimeFacts \<Rightarrow> 'w gstate \<Rightarrow> 'w gstate" where
  "observeRuntime G r f s =
     (case judgeRuntime (gr_releases r) (clock G s) True f (gs_judge s) of
        (v, _, J) \<Rightarrow> count (RuntimeReleaseSeen (rtv_verdict v)) (s\<lparr>gs_judge := J\<rparr>))"

text \<open>What a verified quote and the reply it came in say.\<close>

definition quote_facts ::
    "'w router_env \<Rightarrow> 'w Router \<Rightarrow> Verifier \<Rightarrow> bytes \<times> bytes \<times> bytes \<Rightarrow> Verified \<Rightarrow> 'w gstate \<Rightarrow>
     quoteFacts \<times> 'w gstate" where
  "quote_facts G r v fetched verified s =
     (let (raw, appCompose, reply) = fetched;
          composeHash = composeHashOf raw reply verified;
          (manifest, s1) = readManifest G r appCompose composeHash s;
          f = \<lparr>rf_state = readRuntime reply (RTMR3 (vd_Measurement verified)),
               rf_signer = vd_SignerAddr verified, rf_encPub = vd_EncPub verified\<rparr>
      in (\<lparr>qf_measurement = Some (measurementVerdict v verified),
           qf_osImage = vd_MeasurementImage verified,
           qf_composeHash = (case composeHash of None \<Rightarrow> [] | Some h \<Rightarrow> hex_encode h),
           qf_containers = (case composeHash of None \<Rightarrow> [] | Some h \<Rightarrow> containersOf G appCompose h),
           qf_runtime = f, qf_manifest = manifest, qf_respBind = quoteAdvertisesRespBind reply\<rparr>,
          observeRuntime G r f s1))"

definition verify_fetched_quote ::
    "'w router_env \<Rightarrow> 'w Router \<Rightarrow> bytes \<times> bytes \<times> bytes \<Rightarrow> 'w gstate \<Rightarrow> (gerr + quoteResult) \<times> 'w gstate" where
  "verify_fetched_quote G r fetched s =
     (case gr_verifier r of
        None \<Rightarrow> (Inl Panicked, s)
      | Some v \<Rightarrow>
          (case Verify v (fst fetched) of
             Inl _ \<Rightarrow> (Inl (upstream 0 ''provider quote''), s)
           | Inr verified \<Rightarrow>
               (case quote_facts G r v fetched verified
                       (if vd_MeasurementTrusted verified then s else count MeasurementUntrusted s) of
                  (facts, s1) \<Rightarrow>
                    (Inr \<lparr>qr_encPub = vd_EncPub verified, qr_signer = vd_SignerAddr verified, qr_facts = facts\<rparr>,
                     s1))))"

definition verifyQuoteAt ::
    "'w router_env \<Rightarrow> 'w Router \<Rightarrow> string \<Rightarrow> 'w gstate \<Rightarrow> (gerr + quoteResult) \<times> 'w gstate" where
  "verifyQuoteAt G r quoteURL s =
     (case (case fetchQuote G quoteURL s of
              (Inl e, s1) \<Rightarrow> (Inl e, s1)
            | (Inr fetched, s1) \<Rightarrow> verify_fetched_quote G r fetched s1) of
        (res, s2) \<Rightarrow> (res, count (QuoteVerificationDone (is_ok res)) s2))"

section \<open>Caching and refreshing\<close>

definition verifyAndCache ::
    "'w router_env \<Rightarrow> 'w Router \<Rightarrow> bool \<Rightarrow> string \<Rightarrow> 'w gstate \<Rightarrow> (gerr + quoteResult) \<times> 'w gstate" where
  "verifyAndCache G r detached quoteURL s =
     (case verifyQuoteAt G r quoteURL s of
        (res, s1) \<Rightarrow>
          (let s2 = (case res of Inl _ \<Rightarrow> s1
                     | Inr q \<Rightarrow> s1\<lparr>gs_quotes := quote_put (clock G s1) quoteURL q (gs_quotes s1)\<rparr>) in
           if \<not> detached \<and> ge_left G (gs_world s2)
           then (Inl (upstream 0 ''provider quote verification: context ended''), s2) else (res, s2)))"

definition derived :: "url_err + string \<Rightarrow> gerr + string" where
  "derived x = (case x of Inl _ \<Rightarrow> Inl (upstream 0 ''provider endpoint'') | Inr u \<Rightarrow> Inr u)"

text \<open>The result with whether it came from the cache.\<close>

definition verifiedProviderCached ::
    "'w router_env \<Rightarrow> 'w Router \<Rightarrow> string \<Rightarrow> 'w gstate \<Rightarrow> (gerr + quoteResult \<times> bool) \<times> 'w gstate" where
  "verifiedProviderCached G r endpoint s =
     (case derived (deriveQuoteURL endpoint) of
        Inl e \<Rightarrow> (Inl e, s)
      | Inr quoteURL \<Rightarrow>
          (case quote_get (clock G s) quoteURL (gs_quotes s) of
             Some res \<Rightarrow> (Inr (res, True), count (QuoteCacheLookup True) s)
           | None \<Rightarrow>
               (case verifyAndCache G r False quoteURL (count (QuoteCacheLookup False) s) of
                  (Inl e, s1) \<Rightarrow> (Inl e, s1)
                | (Inr res, s1) \<Rightarrow> (Inr (res, False), s1))))"

definition mayReverifyQuote :: "'w router_env \<Rightarrow> string \<Rightarrow> 'w gstate \<Rightarrow> bool \<times> 'w gstate" where
  "mayReverifyQuote G quoteURL s =
     (let window = (if qc_ttl (gs_quotes s) \<le> 0 then defaultQuoteTTL else qc_ttl (gs_quotes s)) in
      case limiter_allow (clock G s) quoteURL window (gs_quoteReverify s) of
        (ok, l) \<Rightarrow> (ok, s\<lparr>gs_quoteReverify := l\<rparr>))"

definition reverifiedProvider ::
    "'w router_env \<Rightarrow> 'w Router \<Rightarrow> bool \<Rightarrow> string \<Rightarrow> 'w gstate \<Rightarrow> (gerr + quoteResult) \<times> 'w gstate" where
  "reverifiedProvider G r detached endpoint s =
     (case derived (deriveQuoteURL endpoint) of
        Inl e \<Rightarrow> (Inl e, s)
      | Inr quoteURL \<Rightarrow>
          (case mayReverifyQuote G quoteURL s of
             (False, s1) \<Rightarrow> (Inl (upstream 0 ''quote re-verification throttled''), s1)
           | (True, s1) \<Rightarrow>
               (case verifyAndCache G r detached quoteURL s1 of
                  (Inr res, s2) \<Rightarrow> (Inr res, s2)
                | (Inl e, s2) \<Rightarrow>
                    (Inl e, s2\<lparr>gs_quoteReverify :=
                       limiter_reschedule (clock G s2) quoteURL reverifyFailureBackoff (gs_quoteReverify s2)\<rparr>))))"

text \<open>Re-reading past a cache that still holds the rejected key.\<close>

definition refresh_stale ::
    "'w router_env \<Rightarrow> 'w Router \<Rightarrow> string \<Rightarrow> string \<Rightarrow> bytes \<Rightarrow> 'w gstate \<Rightarrow>
     (gerr + quoteResult \<times> bool) \<times> 'w gstate" where
  "refresh_stale G r endpoint quoteURL stale s =
     (case (case quote_get (clock G s) quoteURL (gs_quotes s) of
              None \<Rightarrow> None | Some res \<Rightarrow> if qr_encPub res \<noteq> stale then Some res else None) of
        Some res \<Rightarrow> (Inr (res, True), s)
      | None \<Rightarrow>
          (case reverifiedProvider G r True endpoint s of
             (Inl e, s1) \<Rightarrow> (Inl e, s1)
           | (Inr fresh, s1) \<Rightarrow> (Inr (fresh, False), s1)))"

definition freshProvider ::
    "'w router_env \<Rightarrow> 'w Router \<Rightarrow> string \<Rightarrow> bytes option \<Rightarrow> 'w gstate \<Rightarrow>
     (gerr + quoteResult \<times> bool) \<times> 'w gstate" where
  "freshProvider G r endpoint stale s =
     (case verifiedProviderCached G r endpoint s of
        (Inl e, s1) \<Rightarrow> (Inl e, s1)
      | (Inr (res, cached), s1) \<Rightarrow>
          (case stale of
             None \<Rightarrow> (Inr (res, cached), s1)
           | Some k \<Rightarrow>
               if \<not> cached \<or> qr_encPub res \<noteq> k then (Inr (res, cached), s1)
               else case derived (deriveQuoteURL endpoint) of
                 Inl e \<Rightarrow> (Inl e, s1)
               | Inr quoteURL \<Rightarrow>
                   (case refresh_stale G r endpoint quoteURL k s1 of
                      (out, s2) \<Rightarrow>
                        if ge_left G (gs_world s2)
                        then (Inl (upstream 0 ''provider key refresh: context ended''), s2) else (out, s2))))"

definition verifiedKeys ::
    "'w router_env \<Rightarrow> 'w Router \<Rightarrow> string \<Rightarrow> 'w gstate \<Rightarrow> (gerr + bytes \<times> string) \<times> 'w gstate" where
  "verifiedKeys G r endpoint s =
     (case verifiedProviderCached G r endpoint s of
        (Inl e, s1) \<Rightarrow> (Inl e, s1)
      | (Inr (res, _), s1) \<Rightarrow> (Inr (qr_encPub res, qr_signer res), s1))"

end
