(* ===== verification/Route_Candidates.thy ===== *)
theory Route_Candidates
  imports Route_Quote
begin

text \<open>
  client/route, the candidates of a preview: the on-chain grounding of a signer and the materialization
  of a provider in route.go, the gate of enforce.go, the records of provideridentity.go and the
  observation of composebaseline.go, and the resolver of direct.go.
\<close>

section \<open>Grounding\<close>

record grounding =
  gd_outcome :: groundingOutcome
  gd_revalidated :: bool

definition signerAgrees :: "Signer \<Rightarrow> string \<Rightarrow> bool" where
  "signerAgrees onchain signer =
     (sg_Acknowledged onchain \<and> equal_fold (trim_space (sg_Address onchain)) (trim_space signer))"

text \<open>Why a grounding fails, if the failure counts.\<close>

definition onchainVerdict :: "'w Router \<Rightarrow> groundingOutcome \<Rightarrow> bool \<Rightarrow> string \<Rightarrow> grounding \<times> gerr option" where
  "onchainVerdict r outcome revalidated msg =
     (\<lparr>gd_outcome = outcome, gd_revalidated = revalidated\<rparr>,
      if gr_onchainEnforce r then Some (upstream 0 msg) else None)"

definition onchainLookupFailed :: "'w Router \<Rightarrow> grounding \<times> gerr option" where
  "onchainLookupFailed r =
     (\<lparr>gd_outcome = groundingLookupFailed, gd_revalidated = False\<rparr>,
      if gr_onchainEnforce r then Some (upstream 0 ''on-chain signer lookup failed'') else None)"

definition revalidate ::
    "'w SignerRegistry \<Rightarrow> string \<Rightarrow> 'w gstate \<Rightarrow> (chain_err + Signer) \<times> 'w gstate" where
  "revalidate reg providerAddr s = call (sr_RefreshSigner reg providerAddr) s"

definition ruling :: "'w Router \<Rightarrow> Signer \<Rightarrow> string \<Rightarrow> bool \<Rightarrow> grounding \<times> gerr option" where
  "ruling r got signer revalidated =
     (if \<not> sg_Acknowledged got then onchainVerdict r groundingNotAcknowledged revalidated ''no acknowledged signer''
      else if \<not> signerAgrees got signer then onchainVerdict r groundingMismatch revalidated ''signer mismatch''
      else (\<lparr>gd_outcome = (if sg_Stale got then groundingOKStale else groundingOK),
             gd_revalidated = revalidated\<rparr>, None))"

definition groundSignerOnChain ::
    "'w router_env \<Rightarrow> 'w Router \<Rightarrow> 'w SignerRegistry \<Rightarrow> string \<Rightarrow> string \<Rightarrow> 'w gstate \<Rightarrow>
     (grounding \<times> gerr option) \<times> 'w gstate" where
  "groundSignerOnChain G r reg providerAddr signer s =
     (case call (sr_AcknowledgedSigner reg providerAddr) s of
        (Inl _, s1) \<Rightarrow> (onchainLookupFailed r, s1)
      | (Inr got, s1) \<Rightarrow>
          (let key = ProviderKey providerAddr in
           if \<not> (sg_Cached got \<and> \<not> signerAgrees got signer) then (ruling r got signer False, s1)
           else case limiter_allow (clock G s1) key signerRevalidateWindow (gs_signerRevalidate s1) of
             (False, l) \<Rightarrow> (ruling r got signer False, s1\<lparr>gs_signerRevalidate := l\<rparr>)
           | (True, l) \<Rightarrow>
               (case revalidate reg providerAddr (s1\<lparr>gs_signerRevalidate := l\<rparr>) of
                  (Inr fresh, s2) \<Rightarrow> (ruling r fresh signer True, s2)
                | (Inl _, s2) \<Rightarrow>
                    ((case onchainLookupFailed r of (g, e) \<Rightarrow> (g\<lparr>gd_revalidated := True\<rparr>, e)),
                     s2\<lparr>gs_signerRevalidate :=
                       limiter_reschedule (clock G s2) key reverifyFailureBackoff (gs_signerRevalidate s2)\<rparr>))))"

definition revalidationResult :: "groundingOutcome \<Rightarrow> string" where
  "revalidationResult out =
     (if out = groundingOK \<or> out = groundingOKStale then ''ok''
      else if out = groundingLookupFailed then ''lookup_failed'' else ''negative'')"

definition onchainVerdictOf :: "groundingOutcome \<Rightarrow> Verdict" where
  "onchainVerdictOf out =
     (if out = groundingOK \<or> out = groundingOKStale then VerdictPass
      else if out = groundingMismatch \<or> out = groundingNotAcknowledged then VerdictNoMatch
      else VerdictUnavailable)"

section \<open>Keys and their grounding\<close>

text \<open>What a candidate is sealed to: the keys, and the verification they come from with whether it was cached.\<close>

record candidateKeys =
  ck_encPub :: bytes
  ck_signer :: string
  ck_verified :: "quoteResult option"
  ck_cached :: bool

definition keys_of :: "quoteResult \<Rightarrow> bool \<Rightarrow> candidateKeys" where
  "keys_of res cached =
     \<lparr>ck_encPub = qr_encPub res, ck_signer = qr_signer res, ck_verified = Some res, ck_cached = cached\<rparr>"

definition candidate_keys ::
    "'w router_env \<Rightarrow> 'w Router \<Rightarrow> string \<Rightarrow> bytes option \<Rightarrow> 'w gstate \<Rightarrow> (gerr + candidateKeys) \<times> 'w gstate" where
  "candidate_keys G r endpoint stale s =
     (if gr_verifier r \<noteq> None
      then (case freshProvider G r endpoint stale s of
              (Inl e, s1) \<Rightarrow> (Inl e, s1)
            | (Inr (res, cached), s1) \<Rightarrow> (Inr (keys_of res cached), s1))
      else case derived (derivePubkeyURL endpoint) of
        Inl e \<Rightarrow> (Inl e, s)
      | Inr pubkeyURL \<Rightarrow>
          (case freshPubkey G r pubkeyURL stale s of
             (Inl e, s1) \<Rightarrow> (Inl e, s1)
           | (Inr (encPub, signer), s1) \<Rightarrow>
               (Inr \<lparr>ck_encPub = encPub, ck_signer = signer, ck_verified = None, ck_cached = False\<rparr>, s1)))"

text \<open>A mismatch against a cached quote is ruled on again with a fresh one.\<close>

definition ground_recover ::
    "'w router_env \<Rightarrow> 'w Router \<Rightarrow> 'w SignerRegistry \<Rightarrow> previewProvider \<Rightarrow> candidateKeys \<Rightarrow>
     grounding \<times> gerr option \<Rightarrow> 'w gstate \<Rightarrow> ((grounding \<times> gerr option) \<times> candidateKeys) \<times> 'w gstate" where
  "ground_recover G r reg prov ks ge s =
     (if \<not> (gd_outcome (fst ge) = groundingMismatch \<and> ck_cached ks) then ((ge, ks), s)
      else case reverifiedProvider G r False (pp_Endpoint prov) s of
        (Inl _, s1) \<Rightarrow> ((ge, ks), s1)
      | (Inr fresh, s1) \<Rightarrow>
          if qr_signer fresh = ck_signer ks then ((ge, ks), s1)
          else (case groundSignerOnChain G r reg (pp_Address prov) (qr_signer fresh) s1 of
                  ((g, e), s2) \<Rightarrow> (((g\<lparr>gd_revalidated := True\<rparr>, e), keys_of fresh (ck_cached ks)), s2)))"

definition ground_candidate ::
    "'w router_env \<Rightarrow> 'w Router \<Rightarrow> previewProvider \<Rightarrow> candidateKeys \<Rightarrow> 'w gstate \<Rightarrow>
     (Verdict \<times> gerr option \<times> candidateKeys) \<times> 'w gstate" where
  "ground_candidate G r prov ks s =
     (case gr_registry r of
        None \<Rightarrow> ((VerdictNotChecked, None, ks), s)
      | Some reg \<Rightarrow>
          (case groundSignerOnChain G r reg (pp_Address prov) (ck_signer ks) s of
             (ge, s1) \<Rightarrow>
               (case ground_recover G r reg prov ks ge s1 of
                  (((g, e), ks'), s2) \<Rightarrow>
                    ((onchainVerdictOf (gd_outcome g), e, ks'),
                     count (OnChainGrounding (gd_outcome g))
                       (if gd_revalidated g
                        then count (OnChainRevalidation (revalidationResult (gd_outcome g))) s2 else s2)))))"

section \<open>Records\<close>

text \<open>The two verdicts that are judged on a read are not checked until then.\<close>

definition providerIdentityOf :: "string \<Rightarrow> string \<Rightarrow> quoteResult \<Rightarrow> Verdict \<Rightarrow> ProviderIdentity" where
  "providerIdentityOf address endpoint res onchain =
     (let f = qr_facts res; m = or_else VerdictUnavailable (qf_measurement f) in
      \<lparr>pi_Address = address,
       pi_Endpoint = (case deriveOrigin endpoint of Inl _ \<Rightarrow> [] | Inr u \<Rightarrow> u),
       pi_QuoteURL = (case deriveQuoteURL endpoint of Inl _ \<Rightarrow> [] | Inr u \<Rightarrow> u),
       pi_QuoteDCAP = VerdictPass, pi_OnChainSigner = onchain, pi_Measurement = m,
       pi_OSImage = (if m \<noteq> VerdictPass then [] else qf_osImage f),
       pi_ComposeHash = qf_composeHash f, pi_Containers = qf_containers f,
       pi_RuntimeRelease = VerdictNotChecked, pi_RunningBroker = [], pi_RunningRelease = [],
       pi_ComposeBaseline = VerdictNotChecked, pi_BaselineDeployment = [],
       pi_runtime = qf_runtime f, pi_manifest = qf_manifest f\<rparr>)"

definition recordProviderIdentity :: "'w router_env \<Rightarrow> ProviderIdentity \<Rightarrow> 'w gstate \<Rightarrow> 'w gstate" where
  "recordProviderIdentity G id0 s = s\<lparr>gs_identities := identity_put (clock G s) id0 (gs_identities s)\<rparr>"

text \<open>The record an address has, judged by the verdicts held now.\<close>

definition read_ProviderIdentity ::
    "'w router_env \<Rightarrow> 'w Router \<Rightarrow> string \<Rightarrow> 'w gstate \<Rightarrow> ProviderIdentity option \<times> 'w gstate" where
  "read_ProviderIdentity G r address s =
     (case identity_get (clock G s) address (gs_identities s) of
        (None, st) \<Rightarrow> (None, s\<lparr>gs_identities := st\<rparr>)
      | (Some p, st) \<Rightarrow>
          (let (v, _, J) = judgeRuntime (gr_releases r) (clock G s) False (pi_runtime p) (gs_judge s);
               (b, _, J') = judgeBaseline (gr_baseline r) (gr_releases r) (clock G s) False (pi_Address p)
                              (pi_manifest p) J
           in (Some (p\<lparr>pi_RuntimeRelease := rtv_verdict v, pi_RunningBroker := rtv_running v,
                       pi_RunningRelease := rtv_release v, pi_ComposeBaseline := blv_verdict b,
                       pi_BaselineDeployment := blv_deployment b\<rparr>),
               s\<lparr>gs_identities := st, gs_judge := J'\<rparr>)))"

text \<open>An observation is made once per verification and provider.\<close>

definition observation_first :: "nat \<Rightarrow> string \<Rightarrow> 'w gstate \<Rightarrow> bool \<times> 'w gstate" where
  "observation_first n address s =
     (if (n, ProviderKey address) \<in> set (gs_observed s) then (False, s)
      else (True, s\<lparr>gs_observed := (n, ProviderKey address) # gs_observed s\<rparr>))"

definition observeBaseline ::
    "'w router_env \<Rightarrow> 'w Router \<Rightarrow> string \<Rightarrow> manifestFacts \<Rightarrow> 'w gstate \<Rightarrow> bool \<times> 'w gstate" where
  "observeBaseline G r address f s =
     (case observation_first (mf_observed f) address s of
        (False, s1) \<Rightarrow> (False, s1)
      | (True, s1) \<Rightarrow>
          (case judgeBaseline (gr_baseline r) (gr_releases r) (clock G s1) True address f (gs_judge s1) of
             (v, _, J) \<Rightarrow> (True, count (ComposeBaselineSeen (blv_verdict v)) (s1\<lparr>gs_judge := J\<rparr>))))"

section \<open>The gate\<close>

definition await_all ::
    "'w router_env \<Rightarrow> (string \<times> string) list \<Rightarrow> 'w gstate \<Rightarrow> 'w gstate" where
  "await_all G missing s =
     (case fold (judge_await (ge_now G) (ge_wait G)) missing (gs_judge s, gs_world s) of
        (J, w) \<Rightarrow> s\<lparr>gs_judge := J, gs_world := w\<rparr>)"

text \<open>The checks that fail, and what they were judged.\<close>

definition providerPasses ::
    "'w router_env \<Rightarrow> 'w Router \<Rightarrow> string \<Rightarrow> quoteFacts \<Rightarrow> 'w gstate \<Rightarrow>
     (string list \<times> runtimeVerdict \<times> baselineVerdict) \<times> 'w gstate" where
  "providerPasses G r address facts s =
     (let (_, m1, J1) = judgeRuntime (gr_releases r) (clock G s) True (qf_runtime facts) (gs_judge s);
          (_, m2, J2) = judgeBaseline (gr_baseline r) (gr_releases r) (clock G s) True address (qf_manifest facts) J1;
          missing = m1 @ m2;
          s1 = s\<lparr>gs_judge := J2\<rparr>;
          s2 = (if missing \<noteq> [] \<and> gr_releases r \<noteq> None then await_all G missing s1 else s1);
          (rt, _, J3) = judgeRuntime (gr_releases r) (clock G s2) False (qf_runtime facts) (gs_judge s2);
          (bl, _, J4) = judgeBaseline (gr_baseline r) (gr_releases r) (clock G s2) False address
                          (qf_manifest facts) J3
      in (((if rtv_verdict rt = VerdictPass \<or> rtv_verdict rt = VerdictNotChecked \<and> gr_releases r \<noteq> None
            then [] else [''runtime_release''])
           @ (if blv_verdict bl = VerdictPass then [] else [''compose_baseline'']), rt, bl),
          s2\<lparr>gs_judge := J4\<rparr>))"

definition refuseProvider ::
    "'w router_env \<Rightarrow> 'w Router \<Rightarrow> string \<Rightarrow> quoteFacts \<Rightarrow> 'w gstate \<Rightarrow> gerr option \<times> 'w gstate" where
  "refuseProvider G r address facts s =
     (case providerPasses G r address facts s of
        ((failed, _, _), s1) \<Rightarrow>
          if failed = [] then (None, s1)
          else (Some (upstream 0 ''provider refused''), fold (\<lambda>c. count (ProviderEnforceRefusal c)) failed s1))"

section \<open>Materialization\<close>

definition router_bindsResponse :: "'w Router \<Rightarrow> string \<Rightarrow> 'w gstate \<Rightarrow> bool" where
  "router_bindsResponse r addr s =
     (case gs_respBind s of None \<Rightarrow> False | Some st \<Rightarrow> gr_verifier r \<noteq> None \<and> respbind_supports addr st)"

text \<open>The record, the observation, and then the failure of the grounding or the gate.\<close>

definition settle_candidate ::
    "'w router_env \<Rightarrow> 'w Router \<Rightarrow> previewProvider \<Rightarrow> Verdict \<times> gerr option \<times> candidateKeys \<Rightarrow> 'w gstate \<Rightarrow>
     gerr option \<times> 'w gstate" where
  "settle_candidate G r prov gr s =
     (case gr of (onchain, grounded, ks) \<Rightarrow>
        (case ck_verified ks of
           None \<Rightarrow> (grounded, s)
         | Some res \<Rightarrow>
             (let s1 = recordProviderIdentity G
                         (providerIdentityOf (pp_Address prov) (pp_Endpoint prov) res onchain) s;
                  s2 = snd (observeBaseline G r (pp_Address prov) (qf_manifest (qr_facts res)) s1)
              in if grounded \<noteq> None then (grounded, s2)
                 else if gr_providerEnforce r then refuseProvider G r (pp_Address prov) (qr_facts res) s2
                 else (None, s2))))"

definition materialize_candidate ::
    "'w router_env \<Rightarrow> 'w Router \<Rightarrow> string \<Rightarrow> previewProvider \<Rightarrow> bytes option \<Rightarrow> 'w gstate \<Rightarrow>
     (gerr + Provider) \<times> 'w gstate" where
  "materialize_candidate G r url prov stale s =
     (if \<not> isAddress (pp_Address prov) then (Inl (upstream 0 ''candidate without address''), s)
      else if pp_Endpoint prov = [] then (Inl (upstream 0 ''candidate without endpoint''), s)
      else if pp_CanonicalID prov = [] then (Inl (upstream 0 ''candidate without canonical_id''), s)
      else case candidate_keys G r (pp_Endpoint prov) stale s of
        (Inl e, s1) \<Rightarrow> (Inl e, s1)
      | (Inr ks, s1) \<Rightarrow>
          (case ground_candidate G r prov ks s1 of
             ((onchain, grounded, ks'), s2) \<Rightarrow>
               (case settle_candidate G r prov (onchain, grounded, ks') s2 of
                  (Some e, s3) \<Rightarrow> (Inl e, s3)
                | (None, s3) \<Rightarrow>
                    (Inr \<lparr>pv_URL = url, pv_EncPubKey = ck_encPub ks', pv_SignerAddr = ck_signer ks',
                          pv_Address = pp_Address prov, pv_RouterProviderIdentity = pp_ProviderIdentity prov,
                          pv_Endpoint = pp_Endpoint prov, pv_Model = pp_CanonicalID prov,
                          pv_BindResponse = router_bindsResponse r (pp_Address prov) s3\<rparr>, s3))))"

definition materialize_at ::
    "'w router_env \<Rightarrow> 'w Router \<Rightarrow> routeCandidates \<Rightarrow> nat \<Rightarrow> bytes option \<Rightarrow> 'w gstate \<Rightarrow>
     (gerr + Provider) \<times> 'w gstate" where
  "materialize_at G r c i stale s =
     (if i < candidates_Len c
      then materialize_candidate G r (rc_upstreamURL c) (rc_providers c ! i) stale s
      else (Inl Panicked, s))"

definition candidates_Provider ::
    "'w router_env \<Rightarrow> 'w Router \<Rightarrow> routeCandidates \<Rightarrow> nat \<Rightarrow> 'w gstate \<Rightarrow> (gerr + Provider) \<times> 'w gstate" where
  "candidates_Provider G r c i s = materialize_at G r c i None s"

definition candidates_RefreshProvider ::
    "'w router_env \<Rightarrow> 'w Router \<Rightarrow> routeCandidates \<Rightarrow> nat \<Rightarrow> bytes \<Rightarrow> 'w gstate \<Rightarrow>
     (gerr + Provider) \<times> 'w gstate" where
  "candidates_RefreshProvider G r c i stale s = materialize_at G r c i (Some stale) s"

section \<open>A fixed provider\<close>

record 'w directResolver =
  dr_router :: "'w Router"
  dr_providerURL :: string
  dr_chatURL :: string

definition NewDirect ::
    "string \<Rightarrow> 'w option_fn list \<Rightarrow> 'w \<Rightarrow> (string + 'w directResolver \<times> 'w gstate)" where
  "NewDirect providerURL opts w =
     bind_r (fail_if (trim_space providerURL = []) ''direct provider URL is required'') (\<lambda>_.
     bind_r (case deriveV1Base providerURL of Inl _ \<Rightarrow> Inl ''direct provider URL'' | Inr b \<Rightarrow> Inr b) (\<lambda>base.
     let (r, s) = New_router providerURL opts w in
     Inr (\<lparr>dr_router = r, dr_providerURL = providerURL, dr_chatURL = base @ ''/proxy/chat/completions''\<rparr>, s)))"

definition direct_Resolve :: "Endpoint \<Rightarrow> gerr + nat" where
  "direct_Resolve ep = (if ep_Path ep \<noteq> ep_Path ep_Chat then Inl (Plain ''direct-broker mode'') else Inr 1)"

definition direct_materialize ::
    "'w router_env \<Rightarrow> 'w directResolver \<Rightarrow> bytes option \<Rightarrow> 'w gstate \<Rightarrow> (gerr + Provider) \<times> 'w gstate" where
  "direct_materialize G d stale s =
     (case candidate_keys G (dr_router d) (dr_providerURL d) stale s of
        (Inl e, s1) \<Rightarrow> (Inl e, s1)
      | (Inr ks, s1) \<Rightarrow>
          (Inr \<lparr>pv_URL = dr_chatURL d, pv_EncPubKey = ck_encPub ks, pv_SignerAddr = ck_signer ks,
                pv_Address = [], pv_RouterProviderIdentity = None, pv_Endpoint = dr_providerURL d,
                pv_Model = [], pv_BindResponse = False\<rparr>, s1))"

end
