(* ===== verification/Route_Warmer.thy ===== *)
theory Route_Warmer
  imports Route_Candidates Proof_Sig
begin

text \<open>
  client/route, warmer.go (a sweep that verifies every provider ahead of the requests) and sigfetch.go
  (fetching the signature of a response). The loop that repeats a sweep at every tick is not modelled.
\<close>

section \<open>Which providers there are\<close>

definition hex_upper :: "nat \<Rightarrow> char" where
  "hex_upper n = char_of (if n < 10 then 48 + n else 55 + n)"

definition query_char :: "char \<Rightarrow> string" where
  "query_char c =
     (if ascii_alnum c \<or> c \<in> set ''-_.~'' then [c] else if c = CHR '' '' then ''+''
      else [CHR ''%'', hex_upper (of_char c div 16), hex_upper (of_char c mod 16)])"

definition QueryEscape :: "string \<Rightarrow> string" where
  "QueryEscape s = concat (map query_char s)"

definition provider_list :: "json \<Rightarrow> string list option" where
  "provider_list =
     decode_struct [''data'']
       (\<lambda>_ x _. Option.bind (as_array x) (\<lambda>vs. opt_all (map (str_field ''address'') vs))) []"

text \<open>Addresses in the order they are first seen, whatever their case.\<close>

definition add_new :: "string list \<Rightarrow> string list \<Rightarrow> string list" where
  "add_new got addrs =
     fold (\<lambda>a as. if to_lower a \<in> set (map to_lower as) then as else as @ [a]) got addrs"

definition listProviderAddrsFor ::
    "'w router_env \<Rightarrow> 'w Router \<Rightarrow> string \<Rightarrow> 'w gstate \<Rightarrow> string list option \<times> 'w gstate" where
  "listProviderAddrsFor G r serviceType s =
     (let u = gr_providersURL r @ ''?service_type='' @ QueryEscape serviceType in
      if \<not> ge_valid G u then (None, s)
      else case call (ge_get G u) s of
        (None, s1) \<Rightarrow> (None, s1)
      | (Some resp, s1) \<Rightarrow>
          (Option.bind (control_body resp) (\<lambda>body.
             if hr_Status resp \<noteq> 200 then None
             else map_option (\<lambda>as. add_new (filter (\<lambda>a. a \<noteq> []) as) [])
                    (Option.bind (json_parse body) provider_list)), s1))"

fun list_types ::
    "'w router_env \<Rightarrow> 'w Router \<Rightarrow> string list \<Rightarrow> string list \<Rightarrow> nat \<Rightarrow> 'w gstate \<Rightarrow>
     (string list \<times> nat) option \<times> 'w gstate" where
  "list_types G r [] addrs ok s = (Some (addrs, ok), s)"
| "list_types G r (t # ts) addrs ok s =
     (case listProviderAddrsFor G r t s of
        (None, s1) \<Rightarrow> if ge_gone G (gs_world s1) then (None, s1) else list_types G r ts addrs ok s1
      | (Some got, s1) \<Rightarrow> list_types G r ts (add_new got addrs) (Suc ok) s1)"

definition listProviderAddrs ::
    "'w router_env \<Rightarrow> 'w Router \<Rightarrow> 'w gstate \<Rightarrow> string list option \<times> 'w gstate" where
  "listProviderAddrs G r s =
     (case list_types G r (gr_warmServiceTypes r) [] 0 s of
        (None, s1) \<Rightarrow> (None, s1)
      | (Some (addrs, ok), s1) \<Rightarrow> (if ok = 0 then None else Some addrs, s1))"

section \<open>One provider of a sweep\<close>

text \<open>The quote URL comes with the result either way, empty when there is none.\<close>

definition refreshQuote ::
    "'w router_env \<Rightarrow> 'w Router \<Rightarrow> string \<Rightarrow> 'w gstate \<Rightarrow> (quoteResult option \<times> string) \<times> 'w gstate" where
  "refreshQuote G r endpoint s =
     (case deriveQuoteURL endpoint of
        Inl _ \<Rightarrow> ((None, []), s)
      | Inr quoteURL \<Rightarrow>
          (case verifyAndCache G r False quoteURL s of
             (Inr res, s1) \<Rightarrow> ((Some res, quoteURL), s1)
           | (Inl _, s1) \<Rightarrow>
               ((None, quoteURL),
                if \<not> ge_gone G (gs_world s1) then s1\<lparr>gs_quotes := quote_del quoteURL (gs_quotes s1)\<rparr> else s1)))"

definition cachedSignerVerdict ::
    "'w router_env \<Rightarrow> 'w SignerRegistry \<Rightarrow> string \<Rightarrow> string \<Rightarrow> 'w gstate \<Rightarrow> Verdict \<times> 'w gstate" where
  "cachedSignerVerdict G reg providerAddr quoteSigner s =
     (if ge_gone G (gs_world s) \<or> quoteSigner = [] then (VerdictUnavailable, s)
      else case call (sr_AcknowledgedSigner reg providerAddr) s of
        (Inl _, s1) \<Rightarrow> (VerdictUnavailable, s1)
      | (Inr got, s1) \<Rightarrow> (if signerAgrees got quoteSigner then VerdictPass else VerdictUnavailable, s1))"

text \<open>The verdict, and whether the check leaves the provider prepared.\<close>

definition warm_signer ::
    "'w router_env \<Rightarrow> 'w Router \<Rightarrow> string \<Rightarrow> string \<Rightarrow> 'w gstate \<Rightarrow> (Verdict \<times> bool) \<times> 'w gstate" where
  "warm_signer G r addr quoteSigner s =
     (case gr_registry r of
        None \<Rightarrow> ((VerdictNotChecked, True), s)
      | Some reg \<Rightarrow>
          (case call (sr_RefreshSigner reg addr) s of
             (Inl _, s1) \<Rightarrow>
               (case cachedSignerVerdict G reg addr quoteSigner (count (WarmerSignerRefresh ''failed'') s1) of
                  (v, s2) \<Rightarrow> ((v, \<not> gr_onchainEnforce r), s2))
           | (Inr got, s1) \<Rightarrow>
               if \<not> sg_Acknowledged got \<or> (quoteSigner \<noteq> [] \<and> \<not> signerAgrees got quoteSigner)
               then ((VerdictNoMatch, \<not> gr_onchainEnforce r), count (WarmerSignerRefresh ''mismatch'') s1)
               else if quoteSigner = []
               then (case cachedSignerVerdict G reg addr quoteSigner (count (WarmerSignerRefresh ''unchecked'') s1) of
                       (v, s2) \<Rightarrow> ((v, True), s2))
               else ((VerdictPass, True), count (WarmerSignerRefresh ''ok'') s1)))"

text \<open>What a sweep publishes or withdraws; the result is whether the provider is still prepared.\<close>

definition warm_publish ::
    "'w router_env \<Rightarrow> 'w Router \<Rightarrow> string \<Rightarrow> string \<Rightarrow> quoteResult option \<times> string \<Rightarrow> Verdict \<Rightarrow> bool \<Rightarrow>
     'w gstate \<Rightarrow> bool \<times> 'w gstate" where
  "warm_publish G r addr url fetched onchain prepared s =
     (if ge_gone G (gs_world s) then (prepared, s)
      else case fetched of
        (None, quoteURL) \<Rightarrow>
          (prepared, s\<lparr>gs_identities := identity_delWarmed (clock G s) addr quoteURL (gs_identities s)\<rparr>)
      | (Some res, _) \<Rightarrow>
          (let s1 = s\<lparr>gs_respBind := map_option (respbind_observe addr (qf_respBind (qr_facts res))) (gs_respBind s)\<rparr>;
               s2 = s1\<lparr>gs_identities := identity_putWarmed (clock G s1)
                         (providerIdentityOf addr url res onchain) (gs_identities s1)\<rparr>;
               s3 = snd (observeBaseline G r addr (qf_manifest (qr_facts res)) s2)
           in if gr_providerEnforce r \<and> prepared
              then (case providerPasses G r addr (qr_facts res) s3 of
                      ((failed, _, _), s4) \<Rightarrow> (failed = [], s4))
              else (prepared, s3)))"

type_synonym 'w endpoint_resolver = "string \<Rightarrow> 'w \<Rightarrow> (chain_err + ServiceInfo) \<times> 'w"

definition warm_provider ::
    "'w router_env \<Rightarrow> 'w Router \<Rightarrow> 'w endpoint_resolver \<Rightarrow> string \<Rightarrow> 'w gstate \<Rightarrow> bool \<times> 'w gstate" where
  "warm_provider G r endpoints addr s =
     (case call (endpoints addr) s of
        (Inl _, s1) \<Rightarrow> (False, count (WarmerProviderRefresh ''endpoint_failed'') s1)
      | (Inr info, s1) \<Rightarrow>
          if si_URL info = [] then (False, count (WarmerProviderRefresh ''endpoint_failed'') s1)
          else (case refreshQuote G r (si_URL info) s1 of
            ((res, quoteURL), s2) \<Rightarrow>
              (let s3 = count (WarmerProviderRefresh (if res = None then ''verify_failed'' else ''ok'')) s2;
                   quoteSigner = (case res of None \<Rightarrow> [] | Some q \<Rightarrow> qr_signer q) in
               (case warm_signer G r addr quoteSigner s3 of
                  ((onchain, ok), s4) \<Rightarrow>
                    warm_publish G r addr (si_URL info) (res, quoteURL) onchain (res \<noteq> None \<and> ok) s4))))"

section \<open>A sweep\<close>

definition beginSweep :: "int \<Rightarrow> 'w gstate \<Rightarrow> 'w gstate" where
  "beginSweep t s = s\<lparr>gs_warm := (gs_warm s)\<lparr>ws_Started := Some t\<rparr>\<rparr>"

definition finishSweep :: "'w router_env \<Rightarrow> nat \<Rightarrow> nat \<Rightarrow> 'w gstate \<Rightarrow> 'w gstate" where
  "finishSweep G ready tot s =
     s\<lparr>gs_warm := (gs_warm s)\<lparr>ws_At := Some (clock G s), ws_Ready := ready, ws_Total := tot\<rparr>\<rparr>"

text \<open>No number is a sweep that was canceled.\<close>

fun warm_all ::
    "'w router_env \<Rightarrow> 'w Router \<Rightarrow> 'w endpoint_resolver \<Rightarrow> string list \<Rightarrow> nat \<Rightarrow> 'w gstate \<Rightarrow>
     nat option \<times> 'w gstate" where
  "warm_all G r endpoints [] ready s = (if ge_gone G (gs_world s) then None else Some ready, s)"
| "warm_all G r endpoints (a # as) ready s =
     (if ge_gone G (gs_world s) then (None, s)
      else case warm_provider G r endpoints a s of
        (prepared, s1) \<Rightarrow> warm_all G r endpoints as (if prepared then Suc ready else ready) s1)"

definition WarmOnce ::
    "'w router_env \<Rightarrow> 'w Router \<Rightarrow> 'w endpoint_resolver option \<Rightarrow> 'w gstate \<Rightarrow> 'w gstate" where
  "WarmOnce G r endpoints s =
     (case endpoints of
        None \<Rightarrow> s
      | Some ep \<Rightarrow>
          if gr_verifier r = None then s
          else (case listProviderAddrs G r (beginSweep (clock G s) s) of
            (None, s1) \<Rightarrow>
              if ge_gone G (gs_world s1) then s1
              else finishSweep G 0 0 (count (WarmerReadyProviders 0) (count (WarmerSweep ''list_failed'') s1))
          | (Some addrs, s1) \<Rightarrow>
              (case warm_all G r ep addrs 0 s1 of
                 (None, s2) \<Rightarrow> s2
               | (Some ready, s2) \<Rightarrow>
                   finishSweep G ready (length addrs)
                     (count (WarmerReadyProviders ready)
                       (count WarmerSweepSucceeded (count (WarmerSweep ''ok'') s2))))))"

section \<open>The signature of a response\<close>

definition maxSignatureBytes :: nat where "maxSignatureBytes = 2 ^ 16"
definition sigFetchAttempts :: nat where "sigFetchAttempts = 3"
definition sigFetchBackoff :: int where "sigFetchBackoff = 200 * 10 ^ 6"

datatype sig_err =
    SigNoEndpoint | SigURL url_err | SigBuild | SigGet | SigStatus int | SigDecode | SigContext
  | SigAttempts "sig_err option"

definition chat_signature :: "json \<Rightarrow> ChatSignature option" where
  "chat_signature =
     decode_struct [''text'', ''signature'', ''signing_address'', ''signing_algo'']
       (\<lambda>n x c.
          if n = ''text'' then map_option (\<lambda>v. c\<lparr>cs_Text := v\<rparr>) (str_into x (cs_Text c))
          else if n = ''signature'' then map_option (\<lambda>v. c\<lparr>cs_Signature := v\<rparr>) (str_into x (cs_Signature c))
          else if n = ''signing_address''
          then map_option (\<lambda>v. c\<lparr>cs_SigningAddress := v\<rparr>) (str_into x (cs_SigningAddress c))
          else map_option (\<lambda>v. c\<lparr>cs_SigningAlgo := v\<rparr>) (str_into x (cs_SigningAlgo c)))
       \<lparr>cs_Text = [], cs_Signature = [], cs_SigningAddress = [], cs_SigningAlgo = []\<rparr>"

text \<open>The decoder reads the first value of the text. A failure comes with whether to try again.\<close>

definition sig_fetchOnce ::
    "'w router_env \<Rightarrow> string \<Rightarrow> 'w gstate \<Rightarrow> (sig_err \<times> bool + ChatSignature) \<times> 'w gstate" where
  "sig_fetchOnce G url s =
     (if \<not> ge_valid G url then (Inl (SigBuild, False), s)
      else case call (ge_get G url) s of
        (None, s1) \<Rightarrow> (Inl (SigGet, True), s1)
      | (Some resp, s1) \<Rightarrow>
          (let st = hr_Status resp; text = take maxSignatureBytes (hr_Body resp) in
           (if st \<noteq> 200 then Inl (SigStatus st, st = 404 \<or> (500 \<le> st \<and> st \<le> 599))
            else opt_r (Option.bind (parse_val (Suc (length text)) (skip_ws text)) (\<lambda>(v, _). chat_signature v))
                   (SigDecode, False), s1)))"

definition endedBy :: "'w router_env \<Rightarrow> 'w gstate \<Rightarrow> string" where
  "endedBy G s = (if ge_deadline G (gs_world s) then ''timeout'' else ''canceled'')"

text \<open>The attempts left, how many were made, and the last failure.\<close>

fun sig_tries ::
    "'w router_env \<Rightarrow> string \<Rightarrow> nat \<Rightarrow> nat \<Rightarrow> sig_err option \<Rightarrow> 'w gstate \<Rightarrow>
     (string \<times> (sig_err + ChatSignature)) \<times> 'w gstate" where
  "sig_tries G url 0 made lst s = ((''failed'', Inl (SigAttempts lst)), s)"
| "sig_tries G url (Suc n) made lst s =
     (case (if made = 0 then (False, s) else call (ge_pause G (sigFetchBackoff * 2 ^ (made - 1))) s) of
        (True, s1) \<Rightarrow> ((endedBy G s1, Inl SigContext), s1)
      | (False, s1) \<Rightarrow>
          (case sig_fetchOnce G url s1 of
             (Inr sig, s2) \<Rightarrow> ((if made = 0 then ''ok'' else ''ok_retried'', Inr sig), s2)
           | (Inl (e, retryable), s2) \<Rightarrow>
               if retryable \<and> ge_gone G (gs_world s2) then ((endedBy G s2, Inl e), s2)
               else if \<not> retryable then ((if e = SigBuild then ''internal'' else ''failed'', Inl e), s2)
               else sig_tries G url n (Suc made) (Some e) s2))"

definition FetchSignature ::
    "'w router_env \<Rightarrow> Provider \<Rightarrow> string \<Rightarrow> 'w gstate \<Rightarrow> (sig_err + ChatSignature) \<times> 'w gstate" where
  "FetchSignature G p chatKey s =
     (if pv_Endpoint p = [] then (Inl SigNoEndpoint, count (SignatureFetch ''internal'') s)
      else case deriveSignatureURL (pv_Endpoint p) chatKey of
        Inl e \<Rightarrow> (Inl (SigURL e), count (SignatureFetch ''internal'') s)
      | Inr u \<Rightarrow>
          (case sig_tries G u sigFetchAttempts 0 None s of
             ((outcome, res), s1) \<Rightarrow> (res, count (SignatureFetch outcome) s1)))"

end
