(* ===== verification/Route_Facts.thy ===== *)
theory Route_Facts
  imports Route_Warmer
begin

text \<open>
  What a router guarantees of the providers it hands out: the keys come from a verified quote, the
  signer from the chain, and nothing but a live reading rules against a provider. The invariant is that
  the quote cache only ever holds results of verifications.
\<close>

section \<open>The invariant\<close>

text \<open>A result of a verification: its keys and the keys its facts are judged by are the quote's, and its
  runtime state is read from a log that replays to the quote's register.\<close>

definition from_quote :: "Verifier \<Rightarrow> quoteResult \<Rightarrow> bool" where
  "from_quote v q \<longleftrightarrow>
     (\<exists>raw reply vd. Verify v raw = Inr vd \<and> qr_encPub q = vd_EncPub vd \<and> qr_signer q = vd_SignerAddr vd
        \<and> rf_state (qf_runtime (qr_facts q)) = readRuntime reply (RTMR3 (vd_Measurement vd))
        \<and> qf_measurement (qr_facts q) = Some (measurementVerdict v vd)
        \<and> rf_signer (qf_runtime (qr_facts q)) = qr_signer q \<and> rf_encPub (qf_runtime (qr_facts q)) = qr_encPub q)"

definition quotes_ok :: "Verifier \<Rightarrow> 'w gstate \<Rightarrow> bool" where
  "quotes_ok v s \<longleftrightarrow> (\<forall>k e. mget (qc_m (gs_quotes s)) k = Some e \<longrightarrow> from_quote v (qe_res e))"

lemma quotes_ok_eq: "gs_quotes s' = gs_quotes s \<Longrightarrow> quotes_ok v s' = quotes_ok v s"
  by (simp add: quotes_ok_def)

lemma quote_get_ok: "quotes_ok v s \<Longrightarrow> quote_get t k (gs_quotes s) = Some q \<Longrightarrow> from_quote v q"
  by (auto simp: quotes_ok_def quote_get_def split: if_splits option.splits)

lemma quotes_ok_put:
  assumes "mwf (qc_m (gs_quotes s))" "quotes_ok v s" "from_quote v q"
  shows "quotes_ok v (s\<lparr>gs_quotes := quote_put t k q (gs_quotes s)\<rparr>)"
  using assms by (auto simp: quotes_ok_def quote_put_def mget_mput)

lemma quotes_ok_del: "quotes_ok v s \<Longrightarrow> quotes_ok v (s\<lparr>gs_quotes := quote_del k (gs_quotes s)\<rparr>)"
  by (auto simp: quotes_ok_def quote_del_def mget_mdel split: if_splits)

definition router_ok :: "Verifier \<Rightarrow> 'w gstate \<Rightarrow> bool" where
  "router_ok v s \<longleftrightarrow> mwf (qc_m (gs_quotes s)) \<and> quotes_ok v s"

lemma router_ok_eq: "gs_quotes s' = gs_quotes s \<Longrightarrow> router_ok v s' = router_ok v s"
  by (simp add: router_ok_def quotes_ok_def)

lemma router_ok_upd [simp]:
  "router_ok v (count m s) = router_ok v s" "router_ok v (s\<lparr>gs_quoteReverify := l\<rparr>) = router_ok v s"
  "router_ok v (s\<lparr>gs_world := w\<rparr>) = router_ok v s" "router_ok v (s\<lparr>gs_judge := J\<rparr>) = router_ok v s"
  by (simp_all add: router_ok_def quotes_ok_def count_def)

section \<open>What leaves the quotes alone\<close>

lemma quotes_count [simp]: "gs_quotes (count m s) = gs_quotes s"
  by (simp add: count_def)

lemma quotes_count_all [simp]: "gs_quotes (fold (\<lambda>c. count (f c)) cs s) = gs_quotes s"
  by (induction cs arbitrary: s) simp_all

lemma quotes_call: "call f s = (x, s') \<Longrightarrow> gs_quotes s' = gs_quotes s"
  by (auto simp: call_def split: prod.splits)

lemma quotes_fetch: "fetchQuote G u s = (x, s') \<Longrightarrow> gs_quotes s' = gs_quotes s"
  by (auto simp: fetchQuote_def split: if_splits prod.splits option.splits dest: quotes_call)

lemma quotes_facts: "quote_facts G r v fetched vd s = (x, s') \<Longrightarrow> gs_quotes s' = gs_quotes s"
  by (auto simp: quote_facts_def Let_def readManifest_def observeRuntime_def split: prod.splits)

lemma quotes_ground: "groundSignerOnChain G r reg a sg s = (x, s') \<Longrightarrow> gs_quotes s' = gs_quotes s"
  by (auto simp: groundSignerOnChain_def Let_def revalidate_def
      split: prod.splits sum.splits if_splits bool.splits dest!: quotes_call)

lemma quotes_observe [simp]: "gs_quotes (snd (observeBaseline G r a f s)) = gs_quotes s"
  by (auto simp: observeBaseline_def observation_first_def split: prod.splits bool.splits)

lemma quotes_passes: "providerPasses G r a f s = (x, s') \<Longrightarrow> gs_quotes s' = gs_quotes s"
  by (auto simp: providerPasses_def Let_def await_all_def split: prod.splits if_splits)

lemma quotes_refuse: "refuseProvider G r a f s = (x, s') \<Longrightarrow> gs_quotes s' = gs_quotes s"
  by (auto simp: refuseProvider_def split: prod.splits if_splits dest: quotes_passes)

lemma quotes_settle: "settle_candidate G r prov gr s = (x, s') \<Longrightarrow> gs_quotes s' = gs_quotes s"
  by (auto simp: settle_candidate_def Let_def recordProviderIdentity_def
      split: prod.splits option.splits if_splits dest: quotes_refuse)

lemma quotes_pubkey: "freshPubkey G r u k s = (x, s') \<Longrightarrow> gs_quotes s' = gs_quotes s"
  by (auto simp: freshPubkey_def pubkey_def split: prod.splits option.splits if_splits sum.splits dest!: quotes_call)

lemma quotes_previewOnce: "previewOnce G r ctx body s = (x, s') \<Longrightarrow> gs_quotes s' = gs_quotes s"
  by (auto simp: previewOnce_def split: if_splits prod.splits option.splits dest: quotes_call)

lemma quotes_pace: "preview_pace G r start n b s = (x, s') \<Longrightarrow> gs_quotes s' = gs_quotes s"
  by (auto simp: preview_pace_def split: if_splits prod.splits dest: quotes_call)

lemma quotes_preview_tries: "preview_tries G r ctx body start n b lst s = (x, s') \<Longrightarrow> gs_quotes s' = gs_quotes s"
proof (induction G r ctx body start n b lst s arbitrary: x s' rule: preview_tries.induct)
  case (2 G r ctx body start n b lst s)
  obtain pc s1 where P: "(if lst = None then (GoAhead, s) else preview_pace G r start (Suc n) b s) = (pc, s1)"
    by fastforce
  have a1: "gs_quotes s1 = gs_quotes s" using P by (auto split: if_splits dest: quotes_pace)
  obtain rr s2 where O: "previewOnce G r ctx body s1 = (rr, s2)" by fastforce
  note a2 = quotes_previewOnce[OF O]
  show ?case
  proof (cases "pc = GoAhead \<and> (\<exists>re. rr = Inl re)")
    case go: True
    then obtain rs e where rr: "rr = Inl (rs, e)" by auto
    let ?r = "if rs = previewRetryable \<and> ge_gone G (gs_world s2) then previewCanceled else rs"
    have "preview_tries G r ctx body start (Suc n) b lst s =
        (if ?r \<noteq> previewRetryable then ((callOutcome ?r, Inl e), count (PreviewAttempt ?r) s2)
         else preview_tries G r ctx body start n (if lst = None then b else b * 2) (Some e)
                (count (PreviewAttempt ?r) s2))"
      using P go O rr by (simp add: Let_def)
    then have run: "(if ?r \<noteq> previewRetryable then ((callOutcome ?r, Inl e), count (PreviewAttempt ?r) s2)
         else preview_tries G r ctx body start n (if lst = None then b else b * 2) (Some e)
                (count (PreviewAttempt ?r) s2)) = (x, s')" using "2.prems" by simp
    show ?thesis
    proof (cases "?r = previewRetryable")
      case True
      then have "preview_tries G r ctx body start n (if lst = None then b else b * 2) (Some e)
                (count (PreviewAttempt ?r) s2) = (x, s')" using run by simp
      from "2.IH"[OF P[symmetric] _ O[symmetric] rr refl refl refl _ this] True go a1 a2
      show ?thesis by simp
    next
      case False
      then show ?thesis using run a1 a2 by auto
    qed
  next
    case False
    then show ?thesis
      using "2.prems" P O a1 a2 by (cases pc; cases rr) auto
  qed
qed auto

lemma quotes_resolve: "Resolve G r ctx ep req s = (x, s') \<Longrightarrow> gs_quotes s' = gs_quotes s"
  by (auto simp: Resolve_def preview_def split: prod.splits sum.splits dest: quotes_preview_tries)

lemma quotes_read: "read_ProviderIdentity G r a s = (x, s') \<Longrightarrow> gs_quotes s' = gs_quotes s"
  by (auto simp: read_ProviderIdentity_def Let_def split: prod.splits option.splits)

section \<open>Verifications\<close>

lemma quote_facts_keys:
  assumes "quote_facts G r v fetched vd s = (facts, s')"
  shows "qf_measurement facts = Some (measurementVerdict v vd)
    \<and> (\<exists>reply. rf_state (qf_runtime facts) = readRuntime reply (RTMR3 (vd_Measurement vd)))
    \<and> rf_signer (qf_runtime facts) = vd_SignerAddr vd \<and> rf_encPub (qf_runtime facts) = vd_EncPub vd"
proof -
  obtain raw ac reply where f: "fetched = (raw, ac, reply)" by (cases fetched)
  obtain m s1 where "readManifest G r ac (composeHashOf raw reply vd) s = (m, s1)" by fastforce
  then have "qf_measurement facts = Some (measurementVerdict v vd)
    \<and> rf_state (qf_runtime facts) = readRuntime reply (RTMR3 (vd_Measurement vd))
    \<and> rf_signer (qf_runtime facts) = vd_SignerAddr vd \<and> rf_encPub (qf_runtime facts) = vd_EncPub vd"
    using assms by (auto simp: quote_facts_def f Let_def)
  then show ?thesis by blast
qed

lemma verify_fetched_quote_ok:
  assumes "gr_verifier r = Some v" "verify_fetched_quote G r fetched s = (res, s')"
  shows "gs_quotes s' = gs_quotes s" "res = Inr q \<Longrightarrow> from_quote v q"
proof -
  show "gs_quotes s' = gs_quotes s"
    using assms by (auto simp: verify_fetched_quote_def split: prod.splits sum.splits if_splits dest!: quotes_facts)
  show "from_quote v q" if res: "res = Inr q"
  proof -
    obtain vd facts where V: "Verify v (fst fetched) = Inr vd" and eq: "q = \<lparr>qr_encPub = vd_EncPub vd, qr_signer = vd_SignerAddr vd, qr_facts = facts\<rparr>"
      and F: "\<exists>s s'. quote_facts G r v fetched vd s = (facts, s')"
      using assms res by (auto simp: verify_fetched_quote_def split: prod.splits sum.splits)
    obtain s0 s1 where "quote_facts G r v fetched vd s0 = (facts, s1)" using F by blast
    note k = quote_facts_keys[OF this]
    then obtain reply where "rf_state (qf_runtime facts) = readRuntime reply (RTMR3 (vd_Measurement vd))" by blast
    then show ?thesis
      unfolding from_quote_def
      by (intro exI[of _ "fst fetched"] exI[of _ reply] exI[of _ vd]) (use V eq k in simp)
  qed
qed

lemma verifyQuoteAt_ok:
  assumes "gr_verifier r = Some v" "verifyQuoteAt G r u s = (res, s')"
  shows "gs_quotes s' = gs_quotes s" "res = Inr q \<Longrightarrow> from_quote v q"
  using assms verify_fetched_quote_ok[OF assms(1)]
  by (auto simp: verifyQuoteAt_def split: prod.splits sum.splits dest!: quotes_fetch)

lemma verifyAndCache_ok:
  assumes "gr_verifier r = Some v" "router_ok v s" "verifyAndCache G r d u s = (res, s')"
  shows "router_ok v s'" "res = Inr q \<Longrightarrow> from_quote v q"
proof -
  obtain x s1 where V: "verifyQuoteAt G r u s = (x, s1)" by fastforce
  note ok = verifyQuoteAt_ok[OF assms(1) V]
  have s1: "router_ok v s1" using assms(2) router_ok_eq[OF ok(1)] by simp
  have put: "router_ok v (s1\<lparr>gs_quotes := quote_put (clock G s1) u q (gs_quotes s1)\<rparr>)" if "from_quote v q" for q
    using s1 that quotes_ok_put[of s1 v q] by (auto simp: router_ok_def quote_put_def mwf_mput)
  show "router_ok v s'"
    using assms(3) V s1 put ok(2)
    by (cases x) (auto simp: verifyAndCache_def Let_def split: if_splits)
  show "res = Inr q \<Longrightarrow> from_quote v q"
    using assms(3) V ok(2) by (auto simp: verifyAndCache_def Let_def split: if_splits)
qed

lemma cached_ok:
  assumes "gr_verifier r = Some v" "router_ok v s" "verifiedProviderCached G r e s = (res, s')"
  shows "router_ok v s' \<and> (\<forall>q b. res = Inr (q, b) \<longrightarrow> from_quote v q)"
proof (cases "derived (deriveQuoteURL e)")
  case (Inr u)
  let ?s = "count (QuoteCacheLookup False) s"
  obtain x s1 where V: "verifyAndCache G r False u ?s = (x, s1)" by fastforce
  have "router_ok v ?s" using assms(2) by simp
  note ok = verifyAndCache_ok[OF assms(1) this V]
  have q: "quotes_ok v s" using assms(2) by (simp add: router_ok_def)
  show ?thesis
    using assms(2,3) Inr V ok quote_get_ok[OF q]
    by (cases "quote_get (clock G s) u (gs_quotes s)"; cases x) (auto simp: verifiedProviderCached_def)
qed (use assms(2,3) in \<open>auto simp: verifiedProviderCached_def\<close>)

lemma mayReverify_ok: "mayReverifyQuote G u s = (x, s') \<Longrightarrow> router_ok v s \<Longrightarrow> router_ok v s'"
  by (auto simp: mayReverifyQuote_def Let_def split: prod.splits)

lemma reverified_ok:
  assumes "gr_verifier r = Some v" "router_ok v s" "reverifiedProvider G r d e s = (res, s')"
  shows "router_ok v s' \<and> (\<forall>q. res = Inr q \<longrightarrow> from_quote v q)"
proof (cases "derived (deriveQuoteURL e)")
  case (Inr u)
  obtain b s1 where M: "mayReverifyQuote G u s = (b, s1)" by fastforce
  obtain x s2 where V: "verifyAndCache G r d u s1 = (x, s2)" by fastforce
  note s1 = mayReverify_ok[OF M assms(2)]
  note ok = verifyAndCache_ok[OF assms(1) s1 V]
  show ?thesis
    using assms(3) Inr M V s1 ok by (cases b; cases x) (auto simp: reverifiedProvider_def)
qed (use assms(2,3) in \<open>auto simp: reverifiedProvider_def\<close>)

lemma refresh_ok:
  assumes "gr_verifier r = Some v" "router_ok v s" "refresh_stale G r e u k s = (res, s')"
  shows "router_ok v s' \<and> (\<forall>q b. res = Inr (q, b) \<longrightarrow> from_quote v q)"
proof -
  have q: "quotes_ok v s" using assms(2) by (simp add: router_ok_def)
  obtain x s1 where R: "reverifiedProvider G r True e s = (x, s1)" by fastforce
  note ok = reverified_ok[OF assms(1,2) R]
  show ?thesis
  proof (cases "quote_get (clock G s) u (gs_quotes s)")
    case None
    then show ?thesis using assms(3) R ok by (cases x) (auto simp: refresh_stale_def)
  next
    case (Some y)
    then show ?thesis
      using assms(2,3) R ok quote_get_ok[OF q Some]
      by (cases "qr_encPub y \<noteq> k"; cases x) (auto simp: refresh_stale_def)
  qed
qed

lemma fresh_ok:
  assumes "gr_verifier r = Some v" "router_ok v s" "freshProvider G r e k s = (res, s')"
  shows "router_ok v s' \<and> (\<forall>q b. res = Inr (q, b) \<longrightarrow> from_quote v q)"
proof -
  obtain x s1 where C: "verifiedProviderCached G r e s = (x, s1)" by fastforce
  note c = cached_ok[OF assms(1,2) C]
  show ?thesis
  proof (cases x)
    case (Inl f)
    then show ?thesis using assms(3) C c by (auto simp: freshProvider_def)
  next
    case (Inr y)
    obtain q b where y: "y = (q, b)" by (cases y)
    note x = Inr[unfolded y]
    show ?thesis
    proof (cases "derived (deriveQuoteURL e)")
      case (Inl f)
      then show ?thesis
        using assms(3) C c x by (auto simp: freshProvider_def split: option.splits if_splits)
    next
      case (Inr u)
      obtain z s2 where R: "refresh_stale G r e u (the k) s1 = (z, s2)" by fastforce
      note ok = refresh_ok[OF assms(1) conjunct1[OF c] R]
      show ?thesis
        using assms(3) C c x Inr R ok
        by (cases k) (auto simp: freshProvider_def split: if_splits)
    qed
  qed
qed

section \<open>Keys and grounding\<close>

lemma candidate_keys_ok:
  assumes "gr_verifier r = Some v" "router_ok v s" "candidate_keys G r e k s = (res, s')"
  shows "router_ok v s' \<and> (\<forall>ks. res = Inr ks \<longrightarrow>
    (\<exists>q. from_quote v q \<and> ck_verified ks = Some q \<and> ck_encPub ks = qr_encPub q \<and> ck_signer ks = qr_signer q))"
proof -
  obtain x s1 where F: "freshProvider G r e k s = (x, s1)" by fastforce
  note ok = fresh_ok[OF assms(1,2) F]
  show ?thesis
  proof (cases x)
    case (Inl f)
    then show ?thesis using assms(1,3) F ok by (auto simp: candidate_keys_def)
  next
    case (Inr y)
    then show ?thesis using assms(1,3) F ok by (cases y) (auto simp: candidate_keys_def keys_of_def)
  qed
qed

text \<open>A reading of the registry, whichever way, that vouches for the signer.\<close>

definition vouched :: "'w SignerRegistry \<Rightarrow> string \<Rightarrow> string \<Rightarrow> bool" where
  "vouched reg addr signer \<longleftrightarrow>
     (\<exists>w sg. (fst (sr_AcknowledgedSigner reg addr w) = Inr sg \<or> fst (sr_RefreshSigner reg addr w) = Inr sg)
        \<and> signerAgrees sg signer)"

lemma vouchedI:
  "sr_AcknowledgedSigner reg addr w = (Inr sg, w') \<Longrightarrow> signerAgrees sg signer \<Longrightarrow> vouched reg addr signer"
  "fst (sr_RefreshSigner reg addr w) = Inr sg \<Longrightarrow> signerAgrees sg signer \<Longrightarrow> vouched reg addr signer"
  unfolding vouched_def by (metis fst_conv)+

definition agreed :: "groundingOutcome \<Rightarrow> bool" where
  "agreed x \<longleftrightarrow> x = groundingOK \<or> x = groundingOKStale"

lemma ruling_agreed:
  "ruling r got signer b = (g, e) \<Longrightarrow>
     (agreed (gd_outcome g) \<longleftrightarrow> signerAgrees got signer) \<and> gd_outcome g \<noteq> groundingLookupFailed
     \<and> (e = None \<longleftrightarrow> agreed (gd_outcome g) \<or> \<not> gr_onchainEnforce r)"
  by (auto simp: ruling_def onchainVerdict_def agreed_def signerAgrees_def split: if_splits)

lemma lookup_failed_agreed:
  "onchainLookupFailed r = (g, e) \<Longrightarrow>
     gd_outcome g = groundingLookupFailed \<and> (e = None \<longleftrightarrow> \<not> gr_onchainEnforce r)"
  by (auto simp: onchainLookupFailed_def)

lemma ground_facts:
  assumes "groundSignerOnChain G r reg addr signer s = ((g, e), s')"
  shows "(e = None \<longleftrightarrow> agreed (gd_outcome g) \<or> \<not> gr_onchainEnforce r)
    \<and> (agreed (gd_outcome g) \<longrightarrow> vouched reg addr signer)
    \<and> (gd_outcome g = groundingMismatch \<or> gd_outcome g = groundingNotAcknowledged \<longrightarrow>
        (let (first, w) = sr_AcknowledgedSigner reg addr (gs_world s) in
           (\<exists>sg. first = Inr sg \<and> \<not> sg_Cached sg \<and> \<not> signerAgrees sg signer)
           \<or> (\<exists>sg. fst (sr_RefreshSigner reg addr w) = Inr sg \<and> \<not> signerAgrees sg signer)
           \<or> \<not> fst (limiter_allow (ge_now G w) (ProviderKey addr) signerRevalidateWindow (gs_signerRevalidate s))))"
proof -
  obtain x s1 where A: "call (sr_AcknowledgedSigner reg addr) s = (x, s1)" by fastforce
  have x: "sr_AcknowledgedSigner reg addr (gs_world s) = (x, gs_world s1)"
    "gs_signerRevalidate s1 = gs_signerRevalidate s" "fst (sr_AcknowledgedSigner reg addr (gs_world s)) = x"
    using A by (auto simp: call_def split: prod.splits)
  show ?thesis
  proof (cases x)
    case (Inl f)
    then show ?thesis
      using assms A lookup_failed_agreed[of r g e] by (auto simp: groundSignerOnChain_def agreed_def)
  next
    case (Inr got)
    obtain b l where L: "limiter_allow (clock G s1) (ProviderKey addr) signerRevalidateWindow (gs_signerRevalidate s1) = (b, l)"
      by fastforce
    show ?thesis
    proof (cases "sg_Cached got \<and> \<not> signerAgrees got signer")
      case False
      then have "ruling r got signer False = (g, e)" using assms A Inr by (auto simp: groundSignerOnChain_def Let_def)
      from ruling_agreed[OF this] False x Inr show ?thesis by (auto simp: agreed_def intro: vouchedI)
    next
      case cached: True
      show ?thesis
      proof (cases b)
        case False
        then have "ruling r got signer False = (g, e)"
          using assms A Inr cached L by (auto simp: groundSignerOnChain_def Let_def)
        from ruling_agreed[OF this] cached L x False show ?thesis by (simp add: clock_def)
      next
        case True
        obtain y s2 where R: "revalidate reg addr (s1\<lparr>gs_signerRevalidate := l\<rparr>) = (y, s2)" by fastforce
        have y: "fst (sr_RefreshSigner reg addr (gs_world s1)) = y"
          using R by (auto simp: revalidate_def call_def split: prod.splits)
        show ?thesis
        proof (cases y)
          case (Inl f)
          obtain g' e' where F: "onchainLookupFailed r = (g', e')" by fastforce
          then have "g = g'\<lparr>gd_revalidated := True\<rparr>" "e = e'"
            using assms A Inr cached L True R Inl by (auto simp: groundSignerOnChain_def Let_def)
          then show ?thesis using lookup_failed_agreed[OF F] by (auto simp: agreed_def)
        next
          case (Inr fresh)
          then have "ruling r fresh signer True = (g, e)"
            using assms A \<open>x = Inr got\<close> cached L True R by (auto simp: groundSignerOnChain_def Let_def)
          from ruling_agreed[OF this] y Inr show ?thesis using x(1) by (auto simp: agreed_def intro: vouchedI)
        qed
      qed
    qed
  qed
qed


text \<open>What grounding a candidate leaves, for a candidate whose keys come from a quote.\<close>

definition keys_verified :: "Verifier \<Rightarrow> candidateKeys \<Rightarrow> quoteResult \<Rightarrow> bool" where
  "keys_verified v ks q \<longleftrightarrow> from_quote v q \<and> ck_verified ks = Some q \<and> ck_encPub ks = qr_encPub q
     \<and> ck_signer ks = qr_signer q"

lemma recover_ok:
  assumes "gr_verifier r = Some v" "router_ok v s" "keys_verified v ks q"
    and "ground_recover G r reg prov ks ge s = ((ge', ks'), s')"
  shows "router_ok v s' \<and> (\<exists>q'. keys_verified v ks' q')
    \<and> (ge' = ge \<and> ks' = ks \<or> (\<exists>s1 g e s2. groundSignerOnChain G r reg (pp_Address prov) (ck_signer ks') s1 = ((g, e), s2)
         \<and> ge' = (g\<lparr>gd_revalidated := True\<rparr>, e)))"
proof (cases "gd_outcome (fst ge) = groundingMismatch \<and> ck_cached ks")
  case True
  obtain x s1 where R: "reverifiedProvider G r False (pp_Endpoint prov) s = (x, s1)" by fastforce
  note ok = reverified_ok[OF assms(1,2) R]
  show ?thesis
  proof (cases x)
    case (Inr fresh)
    obtain g e s2 where gr: "groundSignerOnChain G r reg (pp_Address prov) (qr_signer fresh) s1 = ((g, e), s2)"
      by (metis prod.exhaust)
    have "router_ok v s2" using ok router_ok_eq[OF quotes_ground[OF gr]] by simp
    then show ?thesis
      using assms(3,4) True R Inr ok gr
      by (cases "qr_signer fresh = ck_signer ks") (auto simp: ground_recover_def keys_verified_def keys_of_def, blast+)
  qed (use assms(3,4) True R ok in \<open>auto simp: ground_recover_def\<close>)
qed (use assms(2-4) in \<open>auto simp: ground_recover_def\<close>)

lemma ground_candidate_ok:
  assumes "gr_verifier r = Some v" "router_ok v s" "keys_verified v ks q"
    and "ground_candidate G r prov ks s = ((onchain, e, ks'), s')"
  shows "router_ok v s' \<and> (\<exists>q'. keys_verified v ks' q')
    \<and> (\<forall>reg. gr_registry r = Some reg \<longrightarrow>
         (\<exists>x. onchain = onchainVerdictOf x \<and> (e = None \<longleftrightarrow> agreed x \<or> \<not> gr_onchainEnforce r)
            \<and> (agreed x \<longrightarrow> vouched reg (pp_Address prov) (ck_signer ks'))))"
proof (cases "gr_registry r")
  case None
  then show ?thesis using assms by (auto simp: ground_candidate_def)
next
  case (Some reg)
  obtain g0 e0 s1 where G: "groundSignerOnChain G r reg (pp_Address prov) (ck_signer ks) s = ((g0, e0), s1)"
    by (metis prod.exhaust)
  obtain g1 e1 ks1 s2 where R: "ground_recover G r reg prov ks (g0, e0) s1 = (((g1, e1), ks1), s2)"
    by (metis prod.exhaust)
  have "router_ok v s1" using assms(2) router_ok_eq[OF quotes_ground[OF G]] by simp
  note rec = recover_ok[OF assms(1) this assms(3) R]
  have eq: "onchain = onchainVerdictOf (gd_outcome g1)" "e = e1" "ks' = ks1" "router_ok v s' = router_ok v s2"
    using assms(4) Some G R by (auto simp: ground_candidate_def split: if_splits)
  have "(e1 = None \<longleftrightarrow> agreed (gd_outcome g1) \<or> \<not> gr_onchainEnforce r)
      \<and> (agreed (gd_outcome g1) \<longrightarrow> vouched reg (pp_Address prov) (ck_signer ks1))"
    using rec ground_facts[OF G] by (auto dest: ground_facts)
  then show ?thesis using rec eq Some by auto
qed

section \<open>The gate\<close>

text \<open>The verdicts a judge holds for the builds asked about; a read starts no check.\<close>

definition held :: "judge \<Rightarrow> (string \<times> string) list \<Rightarrow> ((string \<times> string) \<times> ReleaseVerdict option) list" where
  "held J bs = map (\<lambda>b. (b, Option.bind (mget J (build_key (fst b) (snd b))) jr_verdict)) bs"

lemma ask_all_read: "ask_all t False bs J = (held J bs, J)"
  by (induction bs) (auto simp: held_def judge_verdict_def Let_def split: option.splits)

text \<open>What the gate demands of a verification's facts, with the verdicts a judge holds.\<close>

definition build_accepted :: "'w Router \<Rightarrow> judge \<Rightarrow> runtimeFacts \<Rightarrow> bool" where
  "build_accepted r J f \<longleftrightarrow>
     (\<exists>v st. gr_releases r = Some v \<and> rf_state f = Inr st
        \<and> (let c = CheckRuntime st (Some (judgedReleases v (held J (runtime_asks f)))) (rf_signer f) (rf_encPub f) in
           rc_Failures c = [] \<and> rc_Unverified c = []))"

definition manifest_recorded :: "'w Router \<Rightarrow> judge \<Rightarrow> string \<Rightarrow> manifestFacts \<Rightarrow> bool" where
  "manifest_recorded r J addr f \<longleftrightarrow>
     (\<exists>b review v. gr_baseline r = Some b \<and> mf_review f = Some review \<and> gr_releases r = Some v
        \<and> (let rels = Some (judgedReleases v (held J (review_asks (Some v) b addr review)));
               c = CheckReview (cb_b b) rels (cb_contract b) addr review in
           Compared c \<and> check_OK c \<and> Complete_check c))"

lemma judgeRuntime_read: "snd (snd (judgeRuntime rels t False f J)) = J"
  by (auto simp: judgeRuntime_def ask_all_read split: option.splits)

lemma judgeBaseline_read: "snd (snd (judgeBaseline b rels t False addr f J)) = J"
  by (auto simp: judgeBaseline_def ask_all_read split: option.splits)

lemma judgeRuntime_pass:
  assumes "gr_releases r = Some v"
    and "rtv_verdict (fst (judgeRuntime (gr_releases r) t False f J)) \<in> {VerdictPass, VerdictNotChecked}"
  shows "build_accepted r J f"
  using assms unfolding build_accepted_def
  by (auto simp: judgeRuntime_def ask_all_read runtime_verdict_def Let_def
      split: sum.splits runtime_err.splits if_splits option.splits)

lemma judgeBaseline_pass:
  assumes "gr_releases r = Some v"
    and "blv_verdict (fst (judgeBaseline (gr_baseline r) (gr_releases r) t False addr f J)) = VerdictPass"
  shows "manifest_recorded r J addr f"
proof -
  obtain b review where b: "gr_baseline r = Some b" "mf_review f = Some review"
    using assms(2) by (auto simp: judgeBaseline_def split: option.splits)
  then have "blv_verdict (baseline_verdict (Some (judgedReleases v (held J (review_asks (Some v) b addr review)))) b
      addr review) = VerdictPass"
    using assms by (simp add: judgeBaseline_def ask_all_read)
  then show ?thesis
    unfolding manifest_recorded_def using b assms(1)
    by (auto simp: baseline_verdict_def Let_def check_OK_def Complete_check_def split: if_splits)
qed

definition gate_passed :: "'w Router \<Rightarrow> judge \<Rightarrow> string \<Rightarrow> quoteFacts \<Rightarrow> bool" where
  "gate_passed r J addr facts \<longleftrightarrow>
     build_accepted r J (qf_runtime facts) \<and> manifest_recorded r J addr (qf_manifest facts)"

lemma providerPasses_none:
  assumes "providerPasses G r addr facts s = (([], rt, bl), s')"
  shows "gate_passed r (gs_judge s') addr facts"
proof -
  obtain v1 m1 J1 where 1: "judgeRuntime (gr_releases r) (clock G s) True (qf_runtime facts) (gs_judge s) = (v1, m1, J1)"
    by (metis prod.exhaust)
  obtain v2 m2 J2 where 2: "judgeBaseline (gr_baseline r) (gr_releases r) (clock G s) True addr (qf_manifest facts) J1
      = (v2, m2, J2)" by (metis prod.exhaust)
  let ?s = "if m1 @ m2 \<noteq> [] \<and> gr_releases r \<noteq> None then await_all G (m1 @ m2) (s\<lparr>gs_judge := J2\<rparr>)
    else s\<lparr>gs_judge := J2\<rparr>"
  obtain v3 m3 J3 where 3: "judgeRuntime (gr_releases r) (clock G ?s) False (qf_runtime facts) (gs_judge ?s) = (v3, m3, J3)"
    by (metis prod.exhaust)
  obtain v4 m4 J4 where 4: "judgeBaseline (gr_baseline r) (gr_releases r) (clock G ?s) False addr (qf_manifest facts) J3
      = (v4, m4, J4)" by (metis prod.exhaust)
  have J: "J3 = gs_judge ?s" "J4 = J3"
    using judgeRuntime_read[of "gr_releases r" "clock G ?s" "qf_runtime facts" "gs_judge ?s"]
      judgeBaseline_read[of "gr_baseline r" "gr_releases r" "clock G ?s" addr "qf_manifest facts" J3] 3 4 by simp_all
  have fin: "rtv_verdict v3 = VerdictPass \<or> rtv_verdict v3 = VerdictNotChecked \<and> gr_releases r \<noteq> None"
    "blv_verdict v4 = VerdictPass" "s' = ?s\<lparr>gs_judge := J4\<rparr>"
    using assms 1 2 3 4 unfolding providerPasses_def by (simp_all add: Let_def split: if_splits)
  then obtain v where v: "gr_releases r = Some v"
    using 3 by (cases "gr_releases r") (auto simp: judgeRuntime_def runtime_verdict_def)
  have "build_accepted r (gs_judge ?s) (qf_runtime facts)"
    by (rule judgeRuntime_pass[OF v, of "clock G ?s"]) (use 3 fin(1) in auto)
  moreover have "manifest_recorded r J3 addr (qf_manifest facts)"
    by (rule judgeBaseline_pass[OF v, of "clock G ?s"]) (use 4 fin(2) in simp)
  ultimately show ?thesis using J fin(3) by (simp add: gate_passed_def)
qed

lemma refuseProvider_none:
  "refuseProvider G r addr facts s = (None, s') \<Longrightarrow> gate_passed r (gs_judge s') addr facts"
  by (auto simp: refuseProvider_def split: prod.splits if_splits intro: providerPasses_none)

section \<open>Materialization\<close>

lemma settle_ok:
  assumes "keys_verified v ks q" "settle_candidate G r prov (onchain, grounded, ks) s = (None, s')"
  shows "grounded = None \<and> (gr_providerEnforce r \<longrightarrow> gate_passed r (gs_judge s') (pp_Address prov) (qr_facts q))"
  using assms
  by (auto simp: settle_candidate_def keys_verified_def Let_def split: if_splits intro: refuseProvider_none)

text \<open>
  What a provider handed out under enforcement is: sealed to keys of a verified quote, signed for by a
  signer the chain acknowledges for its very address, and, with the gate, running and booted as recorded.
\<close>

definition trusted_provider ::
    "'w Router \<Rightarrow> Verifier \<Rightarrow> 'w SignerRegistry \<Rightarrow> judge \<Rightarrow> Provider \<Rightarrow> bool" where
  "trusted_provider r v reg J p \<longleftrightarrow>
     isAddress (pv_Address p) \<and> vouched reg (pv_Address p) (pv_SignerAddr p)
     \<and> (\<exists>q. from_quote v q \<and> pv_EncPubKey p = qr_encPub q \<and> pv_SignerAddr p = qr_signer q
          \<and> (gr_providerEnforce r \<longrightarrow> gate_passed r J (pv_Address p) (qr_facts q)))"

lemma materialize_ok:
  assumes "gr_verifier r = Some v" "router_ok v s" "materialize_candidate G r url prov k s = (res, s')"
  shows "router_ok v s' \<and> (\<forall>p reg. res = Inr p \<longrightarrow> gr_registry r = Some reg \<longrightarrow> gr_onchainEnforce r \<longrightarrow>
      trusted_provider r v reg (gs_judge s') p \<and> pv_Address p = pp_Address prov \<and> pv_URL p = url)"
proof (cases "isAddress (pp_Address prov) \<and> pp_Endpoint prov \<noteq> [] \<and> pp_CanonicalID prov \<noteq> []")
  case True
  obtain x s1 where K: "candidate_keys G r (pp_Endpoint prov) k s = (x, s1)" by fastforce
  note ks = candidate_keys_ok[OF assms(1,2) K]
  show ?thesis
  proof (cases x)
    case (Inl e)
    then show ?thesis using assms(3) K True ks by (auto simp: materialize_candidate_def)
  next
    case (Inr ck)
    then obtain q where q: "keys_verified v ck q" using ks by (auto simp: keys_verified_def)
    obtain oc e ck' s2 where G: "ground_candidate G r prov ck s1 = ((oc, e, ck'), s2)" by (metis prod.exhaust)
    note g = ground_candidate_ok[OF assms(1) conjunct1[OF ks] q G]
    obtain q' where q': "keys_verified v ck' q'" using conjunct1[OF conjunct2[OF g]] by auto
    obtain y s3 where S: "settle_candidate G r prov (oc, e, ck') s2 = (y, s3)" by fastforce
    have s3: "router_ok v s3" using g router_ok_eq[OF quotes_settle[OF S]] by simp
    have eq: "s' = s3"
      using assms(3) K True Inr G S by (auto simp: materialize_candidate_def split: option.splits)
    show ?thesis
    proof (cases y)
      case None
      note st = settle_ok[OF q' S[unfolded None]]
      show ?thesis
        using assms(3) K True Inr G S None s3 st g q'
        by (auto simp: materialize_candidate_def trusted_provider_def keys_verified_def)
    next
      case (Some f)
      then show ?thesis
        using assms(3) K True Inr G S s3 eq by (auto simp: materialize_candidate_def)
    qed
  qed
qed (use assms(2,3) in \<open>auto simp: materialize_candidate_def split: if_splits\<close>)

lemma materialize_at_ok:
  assumes "gr_verifier r = Some v" "router_ok v s" "materialize_at G r c i k s = (res, s')"
  shows "router_ok v s' \<and> (\<forall>p reg. res = Inr p \<longrightarrow> gr_registry r = Some reg \<longrightarrow> gr_onchainEnforce r \<longrightarrow>
      trusted_provider r v reg (gs_judge s') p \<and> pv_URL p = rc_upstreamURL c
      \<and> pv_Address p = pp_Address (rc_providers c ! i) \<and> i < candidates_Len c)"
proof (cases "i < candidates_Len c")
  case True
  then show ?thesis
    using assms(3) materialize_ok[OF assms(1,2), of G "rc_upstreamURL c" "rc_providers c ! i" k res s']
    by (auto simp: materialize_at_def)
qed (use assms(2,3) in \<open>auto simp: materialize_at_def\<close>)

section \<open>Sweeps\<close>

lemma quotes_list_types: "list_types G r ts addrs ok s = (x, s') \<Longrightarrow> gs_quotes s' = gs_quotes s"
proof (induction G r ts addrs ok s arbitrary: x s' rule: list_types.induct)
  case (2 G r t ts addrs ok s)
  obtain y s1 where L: "listProviderAddrsFor G r t s = (y, s1)" by fastforce
  have "gs_quotes s1 = gs_quotes s"
    using L by (auto simp: listProviderAddrsFor_def Let_def split: if_splits prod.splits option.splits dest: quotes_call)
  then show ?case
    using "2.prems" "2.IH"(1)[OF L[symmetric]] "2.IH"(2)[OF L[symmetric]] L
    by (cases y) (auto split: if_splits)
qed auto

lemma quotes_list: "listProviderAddrs G r s = (x, s') \<Longrightarrow> gs_quotes s' = gs_quotes s"
  by (auto simp: listProviderAddrs_def split: prod.splits option.splits dest: quotes_list_types)

lemma refreshQuote_ok:
  assumes "gr_verifier r = Some v" "router_ok v s" "refreshQuote G r e s = ((res, u), s')"
  shows "router_ok v s' \<and> (\<forall>q. res = Some q \<longrightarrow> from_quote v q)"
proof (cases "deriveQuoteURL e")
  case (Inr url)
  obtain x s1 where V: "verifyAndCache G r False url s = (x, s1)" by fastforce
  note ok = verifyAndCache_ok[OF assms(1,2) V]
  have "router_ok v (s1\<lparr>gs_quotes := quote_del url (gs_quotes s1)\<rparr>)"
    using ok(1) quotes_ok_del[of v s1] by (auto simp: router_ok_def quote_del_def mwf_mdel)
  then show ?thesis
    using assms(3) Inr V ok by (cases x) (auto simp: refreshQuote_def split: if_splits)
qed (use assms(2,3) in \<open>auto simp: refreshQuote_def\<close>)

lemma quotes_warm_signer: "warm_signer G r a q s = (x, s') \<Longrightarrow> gs_quotes s' = gs_quotes s"
  by (auto simp: warm_signer_def cachedSignerVerdict_def
      split: option.splits prod.splits sum.splits if_splits dest!: quotes_call)

lemma quotes_publish: "warm_publish G r a u f oc b s = (x, s') \<Longrightarrow> gs_quotes s' = gs_quotes s"
  by (auto simp: warm_publish_def Let_def split: option.splits prod.splits if_splits dest!: quotes_passes)

lemma warm_provider_ok:
  assumes "gr_verifier r = Some v" "router_ok v s" "warm_provider G r ep a s = (x, s')"
  shows "router_ok v s'"
proof -
  obtain y s1 where C: "call (ep a) s = (y, s1)" by fastforce
  have s1: "router_ok v s1" using assms(2) router_ok_eq[OF quotes_call[OF C]] by simp
  show ?thesis
  proof (cases "\<exists>info. y = Inr info \<and> si_URL info \<noteq> []")
    case True
    then obtain info where y: "y = Inr info" "si_URL info \<noteq> []" by blast
    obtain res u s2 where R: "refreshQuote G r (si_URL info) s1 = ((res, u), s2)" by (metis prod.exhaust)
    note rq = refreshQuote_ok[OF assms(1) s1 R]
    let ?s3 = "count (WarmerProviderRefresh (if res = None then ''verify_failed'' else ''ok'')) s2"
    let ?q = "case res of None \<Rightarrow> [] | Some q \<Rightarrow> qr_signer q"
    obtain oc ok s4 where W: "warm_signer G r a ?q ?s3 = ((oc, ok), s4)" by (metis prod.exhaust)
    have "router_ok v s4" using rq router_ok_eq[OF quotes_warm_signer[OF W], of v] by simp
    moreover have "warm_publish G r a (si_URL info) (res, u) oc (res \<noteq> None \<and> ok) s4 = (x, s')"
      using assms(3) C y R W by (simp add: warm_provider_def Let_def)
    ultimately show ?thesis using router_ok_eq[OF quotes_publish] by blast
  next
    case False
    then show ?thesis
      using assms(3) C s1 by (cases y) (auto simp: warm_provider_def)
  qed
qed

lemma warm_all_ok:
  "gr_verifier r = Some v \<Longrightarrow> router_ok v s \<Longrightarrow> warm_all G r ep as n s = (x, s') \<Longrightarrow> router_ok v s'"
proof (induction as arbitrary: n s)
  case (Cons a as)
  obtain b s1 where W: "warm_provider G r ep a s = (b, s1)" by fastforce
  show ?case
    using Cons.IH[OF Cons.prems(1) warm_provider_ok[OF Cons.prems(1,2) W]] Cons.prems W
    by (auto split: if_splits)
qed auto

lemma WarmOnce_ok:
  assumes "gr_verifier r = Some v" "router_ok v s"
  shows "router_ok v (WarmOnce G r endpoints s)"
proof (cases endpoints)
  case (Some ep)
  obtain x s1 where L: "listProviderAddrs G r (beginSweep (clock G s) s) = (x, s1)" by fastforce
  have s1: "router_ok v s1"
    using assms(2) router_ok_eq[OF quotes_list[OF L], of v] by (simp add: router_ok_def quotes_ok_def beginSweep_def)
  have fin: "router_ok v (finishSweep G a b s) = router_ok v s" for a b s
    by (simp add: router_ok_def quotes_ok_def finishSweep_def)
  show ?thesis
  proof (cases x)
    case None
    then show ?thesis using assms(1) Some L s1 fin by (simp add: WarmOnce_def)
  next
    case (Some addrs)
    obtain y s2 where W: "warm_all G r ep addrs 0 s1 = (y, s2)" by fastforce
    have "router_ok v s2" using warm_all_ok[OF assms(1) s1 W] .
    then show ?thesis
      using assms(1) \<open>endpoints = Some ep\<close> L Some W fin by (cases y) (simp_all add: WarmOnce_def)
  qed
qed (use assms(2) in \<open>simp add: WarmOnce_def\<close>)

section \<open>Reachable states\<close>

text \<open>
  From a router without cached quotes: requests that are resolved, candidates that are prepared, sweeps,
  reads of records, and anything the world and the background checks do in between, in any order.
\<close>

inductive route_run :: "'w router_env \<Rightarrow> 'w Router \<Rightarrow> 'w gstate \<Rightarrow> bool" for G r where
  fresh: "qc_m (gs_quotes s) = [] \<Longrightarrow> route_run G r s"
| resolve: "route_run G r s \<Longrightarrow> route_run G r (snd (Resolve G r ctx ep req s))"
| provider: "route_run G r s \<Longrightarrow> route_run G r (snd (materialize_at G r c i k s))"
| sweep: "route_run G r s \<Longrightarrow> route_run G r (WarmOnce G r endpoints s)"
| read: "route_run G r s \<Longrightarrow> route_run G r (snd (read_ProviderIdentity G r a s))"
| outside: "route_run G r s \<Longrightarrow> route_run G r (s\<lparr>gs_world := w, gs_judge := J\<rparr>)"

lemma route_run_ok: "route_run G r s \<Longrightarrow> gr_verifier r = Some v \<Longrightarrow> router_ok v s"
proof (induction rule: route_run.induct)
  case (fresh s)
  then show ?case by (simp add: router_ok_def quotes_ok_def)
next
  case (resolve s ctx ep req)
  obtain x s' where R: "Resolve G r ctx ep req s = (x, s')" by fastforce
  show ?case using router_ok_eq[OF quotes_resolve[OF R]] resolve R by simp
next
  case (provider s c i k)
  obtain x s' where R: "materialize_at G r c i k s = (x, s')" by fastforce
  show ?case using materialize_at_ok[OF provider.prems provider.IH[OF provider.prems] R] R by simp
next
  case (read s a)
  obtain x s' where R: "read_ProviderIdentity G r a s = (x, s')" by fastforce
  show ?case using router_ok_eq[OF quotes_read[OF R]] read R by simp
next
  case (outside s w J)
  then show ?case by (simp add: router_ok_def quotes_ok_def)
qed (simp add: WarmOnce_ok)


end
