(* ===== verification/Client_World.thy ===== *)
theory Client_World
  imports Client_Sound
begin

text \<open>
  Invariants of the world a call runs in: what every function of an environment preserves, a whole call to
  \<open>Complete\<close> preserves, and the provider behind its result was handed out in a world where it held.
\<close>

section \<open>Environments that keep an invariant\<close>

definition preserves :: "('w \<Rightarrow> bool) \<Rightarrow> ('w \<Rightarrow> 'a \<times> 'w) \<Rightarrow> bool" where
  "preserves I f \<longleftrightarrow> (\<forall>w. I w \<longrightarrow> I (snd (f w)))"

definition env_keeps :: "('w \<Rightarrow> bool) \<Rightarrow> ('pk, 'sk, 'ctx, 'w) env \<Rightarrow> bool" where
  "env_keeps I E \<longleftrightarrow> preserves I (random E) \<and> (\<forall>ctx ep req. preserves I (resolve E ctx ep req))
     \<and> (\<forall>i d. preserves I (materialize E i d)) \<and> (\<forall>f i k d. refresher E = Some f \<longrightarrow> preserves I (f i k d))
     \<and> (\<forall>hq. preserves I (transport E hq)) \<and> (\<forall>w. I w \<longrightarrow> I (reading E w))
     \<and> (\<forall>f p key. fetcher E = Some f \<longrightarrow> preserves I (f p key))"

lemma keeps_ask: "preserves I f \<Longrightarrow> ask f s = (x, s') \<Longrightarrow> I (world s) \<Longrightarrow> I (world s')"
  by (auto simp: preserves_def dest!: trace_ask)

lemma world_recordMeta [simp]: "world (recordMeta ctx p h s) = world s"
  by (simp add: recordMeta_def)

lemma keeps_doRequest:
  assumes "env_keeps I E" "doRequest E ctx p env s = (x, s')" "I (world s)"
  shows "I (world s')"
proof -
  have "preserves I (transport E hq)" for hq using assms(1) by (simp add: env_keeps_def)
  from keeps_ask[OF this] assms(2,3) show ?thesis
    by (auto simp: doRequest_def Let_def split: prod.splits sum.splits)
qed

lemma keeps_verify:
  assumes "env_keeps I E" "verify_fetched E c p h check s = (x, s')" "I (world s)"
  shows "I (world s')"
proof -
  obtain y s1 where F: "fetchSig E p h s = (y, s1)" by fastforce
  have "I (world s1)"
  proof (cases "fetcher E")
    case (Some f)
    then have "preserves I (f p key)" for key using assms(1) by (simp add: env_keeps_def)
    from keeps_ask[OF this] F Some assms(3) show ?thesis
      by (auto simp: fetchSig_def Let_def split: if_splits prod.splits sum.splits)
  qed (use F assms(3) in \<open>auto simp: fetchSig_def Let_def split: if_splits\<close>)
  then show ?thesis using assms(2) F by (auto simp: verify_fetched_def split: sum.splits)
qed

lemma keeps_reply:
  assumes E: "env_keeps I E" and R: "complete_reply E c ctx p sealed ephPriv s = (oc, x, s')" and s: "I (world s)"
  shows "I (world s')"
proof -
  obtain v s0 where D: "doRequest E ctx p sealed s = (v, s0)" by fastforce
  have s0: "I (world s0)" "I (world (read_on E s0))"
    using keeps_doRequest[OF E D s] E by (auto simp: env_keeps_def read_on_def)
  show ?thesis
  proof (cases v)
    case (Inl t)
    then show ?thesis using R D s0 by (simp add: complete_reply_def)
  next
    case (Inr resp)
    have "I (world s2)"
      if "(if verifyEnabled E then verifyNonStream E c p h sl m (read_on E s0) else (None, read_on E s0)) = (y, s2)"
      for h sl m y s2
      using that s0 keeps_verify[OF E] by (auto simp: verifyNonStream_def split: if_splits)
    then show ?thesis
      using R D Inr s0
      by (auto simp: complete_reply_def Let_def split: if_splits option.splits sum.splits prod.splits)
  qed
qed

lemma keeps_completeOnce:
  assumes E: "env_keeps I E" and R: "completeOnce E c ctx req ephPub ephPriv p s = (x, s')" and s: "I (world s)"
  shows "I (world s')"
proof -
  obtain rnd s1 where A: "ask (random E) s = (rnd, s1)" by fastforce
  have "preserves I (random E)" using E by (simp add: env_keeps_def)
  note s1 = keeps_ask[OF this A s]
  show ?thesis
    using R A s1 keeps_reply[OF E]
    by (auto simp: completeOnce_def split: option.splits sum.splits prod.splits)
qed

section \<open>Walks\<close>

text \<open>Handed out for a candidate in a world where the invariant held, with the world it left.\<close>

definition handed :: "('w \<Rightarrow> bool) \<Rightarrow> ('pk, 'sk, 'ctx, 'w) env \<Rightarrow> nat \<Rightarrow> Provider \<Rightarrow> 'w \<Rightarrow> bool" where
  "handed I E i p w' \<longleftrightarrow> (\<exists>d w. I w \<and> materialize E i d w = (Inr p, w'))
     \<or> (\<exists>f k d w. refresher E = Some f \<and> I w \<and> f i k d w = (Inr p, w'))"

locale world_walk =
  fixes E :: "('pk, 'sk, 'ctx, 'w) env" and c :: Client and att :: "('w, 'a) attempt" and I :: "'w \<Rightarrow> bool"
  assumes env: "env_keeps I E"
    and att: "I (world s) \<Longrightarrow> att p s = (r, s') \<Longrightarrow> I (world s')"
begin

lemma timed_keeps:
  assumes "\<And>d. preserves I (f d)" "walk_timed E f i walk s = (r, walk', s')" "I (world s)"
  shows "I (world s') \<and> (\<forall>p. r = Inr p \<longrightarrow> (\<exists>d w w'. I w \<and> f d w = (Inr p, w')))"
  using assms(2,3) keeps_ask[OF assms(1)]
  by (auto simp: walk_timed_def Let_def split: if_splits prod.splits dest!: trace_ask)

lemma provider_keeps:
  assumes "walk_provider E i walk s = (r, walk', s')" "I (world s)"
  shows "I (world s') \<and> (\<forall>p. r = Inr p \<longrightarrow> (\<exists>w'. handed I E i p w'))"
proof -
  have "preserves I (materialize E i d)" for d using env by (simp add: env_keeps_def)
  from timed_keeps[OF this assms(1)[unfolded walk_provider_def] assms(2)] show ?thesis
    unfolding handed_def by blast
qed

lemma rekey_keeps:
  assumes "rekey E c i p walk s = (r, walk', s')" "I (world s)"
  shows "I (world s') \<and> (\<forall>q. r = Some q \<longrightarrow> (\<exists>w'. handed I E i q w'))"
proof (cases "refresher E")
  case (Some f)
  then have k: "preserves I (f i k d)" for k d using env by (simp add: env_keeps_def)
  obtain x w1 s1 where W: "walk_timed E (f i (pv_EncPubKey p)) i walk s = (x, w1, s1)" by (metis prod.exhaust)
  from timed_keeps[OF k W assms(2)] show ?thesis
    using assms(1) Some W
    by (cases x) (auto simp: rekey_def walk_refresh_def handed_def split: if_splits, blast+)
qed (use assms in \<open>auto simp: rekey_def\<close>)

lemma rekeying_holds:
  assumes "attemptRekeying b E c att i p walk fail s = ((retry, res), walk', fail', s')"
  shows "I (world s) \<longrightarrow> (\<exists>w. handed I E i p w) \<longrightarrow> I (world s')
    \<and> (\<forall>x. res = Inr x \<longrightarrow> (\<exists>p w s0 t r. handed I E i p w \<and> att p (emit (EAttempt i p t) s0) = ((r, Inr x), s')))"
  using assms
proof (rule attemptRekeying_induct)
  fix b p walk fail s
  let ?good = "I (world s') \<and> (\<forall>x. res = Inr x \<longrightarrow> (\<exists>p w s0 t r. handed I E i p w
      \<and> att p (emit (EAttempt i p t) s0) = ((r, Inr x), s')))"
  assume IH: "\<not> b \<Longrightarrow> \<forall>p walk fail s. attemptRekeying True E c att i p walk fail s
      = ((retry, res), walk', fail', s') \<longrightarrow> I (world s) \<longrightarrow> (\<exists>w. handed I E i p w) \<longrightarrow> ?good"
    and run: "attemptRekeying b E c att i p walk fail s = ((retry, res), walk', fail', s')"
  show "I (world s) \<longrightarrow> (\<exists>w. handed I E i p w) \<longrightarrow> ?good"
  proof (intro impI)
    assume s: "I (world s)" and h: "\<exists>w. handed I E i p w"
    have e: "I (world (emit (EAttempt i p t) s))" for t using s by simp
    from run show ?good
    proof (cases rule: attemptRekeyingE)
      case (failed e r s1 walk1)
      have "I (world s1)" using att[OF e failed(1)] .
      then show ?thesis using failed(3,7) rekey_keeps by auto
    next
      case (again e r s1 walk1 fresh walk2 s2)
      have "I (world s1)" using att[OF e again(1)] .
      from rekey_keeps[OF again(7) this] show ?thesis using IH again(4,8) by blast
    qed (use att[OF e] h in blast)+
  qed
qed

lemma candidates_keeps:
  "walk_candidates E c att n is walk fail s = (Inr x, s') \<Longrightarrow> I (world s)
     \<Longrightarrow> \<exists>i\<in>set is. \<exists>p w s0 t r. handed I E i p w \<and> att p (emit (EAttempt i p t) s0) = ((r, Inr x), s')"
proof (induction "is" arbitrary: walk fail s)
  case (Cons i "is")
  obtain r walk1 s1 where wp: "walk_provider E i walk s = (r, walk1, s1)" by (metis surj_pair)
  note s1 = provider_keeps[OF wp Cons.prems(2)]
  show ?case
  proof (cases r)
    case (Inl e)
    then show ?thesis
      using Cons.prems wp Cons.IH[of walk1 _ "metricFallback c FallbackMaterialize i n s1"] s1
      by (auto simp: walk_end_def split: if_splits)
  next
    case (Inr p)
    then obtain w where h: "handed I E i p w" using s1 by blast
    obtain retry v walk2 fail2 s2 where ar:
      "attemptRekeying False E c att i p walk1 fail s1 = ((retry, v), walk2, fail2, s2)"
      by (metis surj_pair)
    note k = rekeying_holds[OF ar, THEN mp, THEN mp, OF conjunct1[OF s1] exI, OF h]
    show ?thesis
    proof (cases v)
      case (Inr y)
      then have "y = x" "s2 = s'" using Cons.prems wp \<open>r = Inr p\<close> ar by auto
      then show ?thesis using k Inr by auto
    next
      case (Inl e)
      then show ?thesis
        using Cons.prems wp \<open>r = Inr p\<close> ar k Cons.IH[of walk2 fail2 "metricFallback c FallbackUpstream i n s2"]
        by (auto simp: walk_end_def split: if_splits)
    qed
  qed
qed (simp add: walk_end_def)

lemma chain_keeps:
  "walk_chain E c att n s = (Inr x, s') \<Longrightarrow> I (world s)
     \<Longrightarrow> \<exists>i<n. \<exists>p w s0 t r. handed I E i p w \<and> att p (emit (EAttempt i p t) s0) = ((r, Inr x), s')"
  unfolding walk_chain_def by (drule (1) candidates_keeps) (simp add: Bex_def)

end

end
