(* ===== verification/Route_Client.thy ===== *)
theory Route_Client
  imports Route_Facts Client_World
begin

text \<open>
  A client over a router: the resolver of client/core is a Router of client/route, its signature fetcher
  the one of sigfetch.go. The budget a preparation gets is a context of the world's.
\<close>

section \<open>The composition\<close>

type_synonym 'w routed = "'w gstate \<times> routeCandidates option"

definition on_world :: "('w \<Rightarrow> 'a \<times> 'w) \<Rightarrow> 'w routed \<Rightarrow> 'a \<times> 'w routed" where
  "on_world f sc = (case call f (fst sc) of (x, s) \<Rightarrow> (x, (s, snd sc)))"

definition on_candidates ::
    "(routeCandidates \<Rightarrow> 'w gstate \<Rightarrow> (gerr + Provider) \<times> 'w gstate) \<Rightarrow> 'w routed \<Rightarrow> (gerr + Provider) \<times> 'w routed" where
  "on_candidates f sc =
     (case snd sc of
        None \<Rightarrow> (Inl Panicked, sc)
      | Some c \<Rightarrow> (case f c (fst sc) of (x, s) \<Rightarrow> (x, (s, Some c))))"

definition routed_resolve ::
    "'w router_env \<Rightarrow> 'w Router \<Rightarrow> Ctx \<Rightarrow> Endpoint \<Rightarrow> Request \<Rightarrow> 'w routed \<Rightarrow> (gerr + nat) \<times> 'w routed" where
  "routed_resolve G r ctx ep req sc =
     (case Resolve G r ctx ep req (fst sc) of
        (Inl e, s) \<Rightarrow> (Inl e, (s, snd sc))
      | (Inr c, s) \<Rightarrow> (Inr (candidates_Len c), (s, Some c)))"

definition routed_fetch ::
    "'w router_env \<Rightarrow> Provider \<Rightarrow> string \<Rightarrow> 'w routed \<Rightarrow> (unit + ChatSignature) \<times> 'w routed" where
  "routed_fetch G p key sc =
     (case FetchSignature G p key (fst sc) of
        (Inl _, s) \<Rightarrow> (Inl (), (s, snd sc))
      | (Inr sig, s) \<Rightarrow> (Inr sig, (s, snd sc)))"

text \<open>The rest of the environment, and whether signatures are verified, is the given one's.\<close>

definition routed_env ::
    "('pk, 'sk, 'ctx, 'w) env \<Rightarrow> 'w router_env \<Rightarrow> 'w Router \<Rightarrow> ('pk, 'sk, 'ctx, 'w routed) env" where
  "routed_env E G r =
     \<lparr>en_H = en_H E, en_J = en_J E, now = (\<lambda>sc. now E (gs_world (fst sc))),
      gone = (\<lambda>sc. gone E (gs_world (fst sc))), expired = (\<lambda>sc. expired E (gs_world (fst sc))),
      random = on_world (random E), resolve = routed_resolve G r,
      materialize = (\<lambda>i d. on_candidates (\<lambda>c. candidates_Provider G r c i)),
      refresher = Some (\<lambda>i stale d. on_candidates (\<lambda>c. candidates_RefreshProvider G r c i stale)),
      transport = (\<lambda>hq. on_world (transport E hq)),
      reading = (\<lambda>sc. ((fst sc)\<lparr>gs_world := reading E (gs_world (fst sc))\<rparr>, snd sc)),
      fetcher = (if fetcher E = None then None else Some (routed_fetch G)), recover = recover E,
      onFrame = (\<lambda>f. on_world (onFrame E f))\<rparr>"

section \<open>What it preserves\<close>

definition routed_ok :: "Verifier \<Rightarrow> 'w routed \<Rightarrow> bool" where
  "routed_ok v sc = router_ok v (fst sc)"

lemma routed_on_world: "preserves (routed_ok v) (on_world f)"
  by (auto simp: preserves_def routed_ok_def on_world_def call_def split: prod.splits)

lemma routed_on_candidates:
  assumes "\<And>c s x s'. router_ok v s \<Longrightarrow> f c s = (x, s') \<Longrightarrow> router_ok v s'"
  shows "preserves (routed_ok v) (on_candidates f)"
  using assms by (auto simp: preserves_def routed_ok_def on_candidates_def split: option.splits prod.splits)

lemma quotes_sig_tries: "sig_tries G u n m lst s = (x, s') \<Longrightarrow> gs_quotes s' = gs_quotes s"
proof (induction G u n m lst s arbitrary: x s' rule: sig_tries.induct)
  case (2 G u n m lst s)
  obtain b s1 where P: "(if m = 0 then (False, s) else call (ge_pause G (sigFetchBackoff * 2 ^ (m - 1))) s) = (b, s1)"
    by fastforce
  have s1: "gs_quotes s1 = gs_quotes s" using P by (auto split: if_splits dest: quotes_call)
  obtain y s2 where F: "sig_fetchOnce G u s1 = (y, s2)" by fastforce
  have s2: "gs_quotes s2 = gs_quotes s1"
    using F by (auto simp: sig_fetchOnce_def Let_def split: if_splits prod.splits option.splits dest: quotes_call)
  show ?case
  proof (cases "b \<or> (\<exists>g. y = Inr g)")
    case True
    then show ?thesis using "2.prems" P F s1 s2 by (cases b; cases y) auto
  next
    case False
    then obtain e rt where y: "y = Inl (e, rt)" "\<not> b" by (cases y) auto
    then show ?thesis
      using "2.prems" P F s1 s2 "2.IH"[OF P[symmetric] _ F[symmetric] y(1) refl] by (auto split: if_splits)
  qed
qed auto

lemma quotes_signature: "FetchSignature G p key s = (x, s') \<Longrightarrow> gs_quotes s' = gs_quotes s"
  by (auto simp: FetchSignature_def split: if_splits sum.splits prod.splits dest: quotes_sig_tries)

lemma on_candidates_simps [simp]:
  "on_candidates (\<lambda>c. candidates_Provider G r c i) = on_candidates (\<lambda>c. materialize_at G r c i None)"
  "on_candidates (\<lambda>c. candidates_RefreshProvider G r c i k) = on_candidates (\<lambda>c. materialize_at G r c i (Some k))"
  unfolding candidates_Provider_def candidates_RefreshProvider_def by (rule refl)+

lemma routed_env_keeps:
  assumes "gr_verifier r = Some v"
  shows "env_keeps (routed_ok v) (routed_env E G r)"
proof -
  have res: "preserves (routed_ok v) (routed_resolve G r ctx ep req)" for ctx ep req
    using router_ok_eq[OF quotes_resolve]
    by (fastforce simp: preserves_def routed_ok_def routed_resolve_def split: prod.splits sum.splits)
  have fet: "preserves (routed_ok v) (routed_fetch G p key)" for p key
    using router_ok_eq[OF quotes_signature]
    by (fastforce simp: preserves_def routed_ok_def routed_fetch_def split: prod.splits sum.splits)
  have mat: "preserves (routed_ok v) (on_candidates (\<lambda>c. materialize_at G r c i k))" for i k
    by (rule routed_on_candidates) (use materialize_at_ok[OF assms] in blast)
  show ?thesis
    using res fet mat
    by (auto simp: env_keeps_def routed_env_def routed_on_world split: if_splits) (simp_all add: routed_ok_def)
qed

lemma handed_trusted:
  assumes "gr_verifier r = Some v" "gr_registry r = Some reg" "gr_onchainEnforce r"
    and "handed (routed_ok v) (routed_env E G r) i p w"
  shows "trusted_provider r v reg (gs_judge (fst w)) p"
proof -
  obtain k sc where sc: "routed_ok v sc" "on_candidates (\<lambda>c. materialize_at G r c i k) sc = (Inr p, w)"
    using assms(4) by (auto simp: handed_def routed_env_def)
  then obtain c s where "materialize_at G r c i k (fst sc) = (Inr p, s)" "fst w = s"
    by (auto simp: on_candidates_def split: option.splits prod.splits)
  from materialize_at_ok[OF assms(1) _ this(1)] this(2) sc(1) assms(2,3) show ?thesis
    by (simp add: routed_ok_def)
qed

interpretation routed_walk: world_walk "routed_env E G r" c "completeOnce (routed_env E G r) c ctx req ephPub ephPriv"
    "\<lambda>w. \<exists>v. gr_verifier r = Some v \<and> routed_ok v w"
  for E :: "('pk, 'sk, 'ctx, 'w) env" and G and r :: "'w Router" and c ctx req ephPub ephPriv
proof
  show e: "env_keeps (\<lambda>w. \<exists>v. gr_verifier r = Some v \<and> routed_ok v w) (routed_env E G r)"
  proof (cases "gr_verifier r")
    case (Some v)
    then show ?thesis using routed_env_keeps[OF Some] by simp
  qed (simp add: env_keeps_def preserves_def)
  fix s s' :: "'w routed state" and x p
  assume "\<exists>v. gr_verifier r = Some v \<and> routed_ok v (world s)"
    "completeOnce (routed_env E G r) c ctx req ephPub ephPriv p s = (x, s')"
  then show "\<exists>v. gr_verifier r = Some v \<and> routed_ok v (world s')"
    using keeps_completeOnce[OF e] by fast
qed

text \<open>
  C7: The client over a router, end to end: under on-chain enforcement a response the call returns
  answers a request that was sealed to a trusted provider and pinned to it, whatever the router
  did: the key is one a verified quote carries, the quote's signer is acknowledged on the chain for the
  pinned address and, where verification is on, signed exactly the envelope sent and the frame opened.
\<close>

theorem Complete_over_router_is_trusted:
  assumes "route_run G r s0" "gr_verifier r = Some v" "gr_registry r = Some reg" "gr_onchainEnforce r"
    and "Complete (routed_env E G r) c ctx req (start (s0, cands)) = (Inr out, s')"
  shows "\<exists>p J ephPriv ephPub rnd sealed. trusted_provider r v reg J p
     \<and> client_seal (en_H E) (en_J E) c p req ephPriv ephPub rnd = Some (Inr sealed)
     \<and> EPost p (provider_request ctx p sealed) \<in> set (trace s')
     \<and> answered (routed_env E G r) c ctx p sealed ephPriv out"
  using assms(5)
proof (cases rule: CompleteE)
  case (walked n w1 rnd w2 ephPriv ephPub)
  have "routed_ok v (s0, cands)" using route_run_ok[OF assms(1,2)] by (simp add: routed_ok_def)
  moreover note ek = routed_env_keeps[OF assms(2), of E G]
  ultimately have "routed_ok v w1" "routed_ok v w1 \<Longrightarrow> routed_ok v w2"
    using walked(1,2) unfolding env_keeps_def preserves_def by (metis snd_conv start_simps(1))+
  then have "\<exists>v. gr_verifier r = Some v \<and> routed_ok v (world (start (s0, cands)\<lparr>world := w2\<rparr>))"
    using assms(2) by simp
  from routed_walk.chain_keeps[OF walked(3) this] obtain i p w s1 t y where p:
    "handed (\<lambda>w. \<exists>v. gr_verifier r = Some v \<and> routed_ok v w) (routed_env E G r) i p w"
    "completeOnce (routed_env E G r) c ctx req ephPub ephPriv p (emit (EAttempt i p t) s1) = ((y, Inr out), s')"
    by blast
  have tr: "trusted_provider r v reg (gs_judge (fst w)) p"
    using handed_trusted[OF assms(2-4), of E G i p w] p(1) assms(2) by simp
  have H: "en_H (routed_env E G r) = en_H E" "en_J (routed_env E G r) = en_J E" by (simp_all add: routed_env_def)
  from p(2) show ?thesis
  proof (cases rule: completeOnceE)
    case (sent rnd' sealed s2 oc s3)
    have "EPost p (provider_request ctx p sealed) \<in> set (trace s')"
      using complete_reply_trace[OF sent(3)] by (auto simp: sent(4) trace_metric)
    then show ?thesis using tr sent(1)[unfolded H] complete_reply_Inr[OF sent(3)] by blast
  qed simp
qed simp

end
