(* ===== verification/Route_Demo.thy ===== *)
theory Route_Demo
  imports Route_Facts
begin

text \<open>
  A router over one provider: its quote endpoint answers with a quote the verifier accepts, and the
  registry acknowledges the signer that quote names.
\<close>

definition demo_report :: bytes where
  "demo_report = replicate 32 (CHR ''k'') @ replicate 20 (CHR ''s'') @ [CHR 0x00, CHR 0x00, CHR 0x00, CHR 0x01] @ zeros 8"

definition demo_quotes :: Verifier where
  "demo_quotes = New \<lparr>bp_Allowed = [BootChainOf demo_measurement],
       bp_Names = (\<lambda>_. None)(BootChainOf demo_measurement := Some ''image'')\<rparr>
     [WithQuoteParser (Some (\<lambda>q. Inr (demo_measurement, demo_report)))]"

definition demo_signer :: string where
  "demo_signer = ''0x'' @ hex_encode (replicate 20 (CHR ''s''))"

definition demo_reading :: "bool \<Rightarrow> Signer" where
  "demo_reading cached =
     \<lparr>sg_Address = demo_signer, sg_Acknowledged = True, sg_Stale = False, sg_Cached = cached\<rparr>"

definition demo_registry :: "unit SignerRegistry" where
  "demo_registry = \<lparr>sr_AcknowledgedSigner = (\<lambda>_ w. (Inr (demo_reading True), w)),
     sr_RefreshSigner = (\<lambda>_ w. (Inr (demo_reading False), w))\<rparr>"

definition demo_reply :: bytes where
  "demo_reply = json_print (JObj [(''quote'', JStr ''00'')])"

definition demo_address :: string where "demo_address = ''0x'' @ replicate 40 (CHR ''a'')"

definition demo_ranking :: bytes where
  "demo_ranking = json_print (JObj [(''providers'', JArr [JObj
     [(''address'', JStr demo_address), (''canonical_id'', JStr ''m2''), (''endpoint'', JStr ''https://p'')]])])"

definition demo_net :: "unit router_env" where
  "demo_net =
     \<lparr>ge_now = (\<lambda>_. 0), ge_gone = (\<lambda>_. False), ge_deadline = (\<lambda>_. False), ge_left = (\<lambda>_. False),
      ge_valid = (\<lambda>_. True),
      ge_get = (\<lambda>_ w. (Some \<lparr>hr_Status = 200, hr_Header = [], hr_Body = demo_reply, hr_End = None\<rparr>, w)),
      ge_post = (\<lambda>_ _ _ w. (Some \<lparr>hr_Status = 200, hr_Header = [], hr_Body = demo_ranking, hr_End = None\<rparr>, w)), ge_pause = (\<lambda>_ w. (False, w)), ge_wait = (\<lambda>_ _ w. (None, w)),
      ge_review = (\<lambda>_ _. None), ge_services = (\<lambda>_. None)\<rparr>"

definition demo_router :: "unit Router \<times> unit gstate" where
  "demo_router = New_router [] [WithQuoteVerification (Some demo_quotes),
     WithOnChainVerification (Some demo_registry) True] ()"

definition demo_candidates :: routeCandidates where
  "demo_candidates =
     \<lparr>rc_providers = [\<lparr>pp_Address = demo_address, pp_ProviderIdentity = None,
                       pp_CanonicalID = ''m2'', pp_Endpoint = ''https://p'', pp_ModelID = []\<rparr>],
      rc_upstreamURL = DefaultRouterURL @ ep_UpstreamPath ep_Chat\<rparr>"

lemma demo_router_simps [simp]:
  "gr_verifier (fst demo_router) = Some demo_quotes" "gr_registry (fst demo_router) = Some demo_registry"
  "gr_onchainEnforce (fst demo_router)" "\<not> gr_providerEnforce (fst demo_router)"
  "gs_quotes (snd demo_router) = newQuoteCache defaultQuoteTTL" "gs_respBind (snd demo_router) = None"
  by (simp_all add: demo_router_def New_router_def WithQuoteVerification_def WithOnChainVerification_def Let_def)

lemma demo_verified: "\<exists>vd. Verify demo_quotes [CHR 0x00] = Inr vd \<and> vd_SignerAddr vd = demo_signer
    \<and> vd_EncPub vd = replicate 32 (CHR ''k'')"
proof -
  have "BootChain_IsZero (BootChainOf demo_measurement) = False"
    by (simp add: BootChain_IsZero_def BootChainOf_def demo_measurement_def)
  moreover have "ParseReportData demo_report =
      Inr \<lparr>rd_EncPub = replicate 32 (CHR ''k''), rd_SignerAddr = demo_signer, rd_Version = 1\<rparr>"
    unfolding demo_report_def demo_signer_def by code_simp
  ultimately show ?thesis
    by (simp add: Verify_def demo_quotes_def New_def WithQuoteParser_def Permits_def Let_def)
qed

lemma demo_decoded: "DecodeQuoteResponse demo_reply = Inr [CHR 0x00]" "length demo_reply = 14"
  unfolding demo_reply_def by code_simp+

lemma demo_url: "deriveQuoteURL ''https://p'' = Inr ''https://p/v1/quote?legacy=false''"
  by code_simp

lemma demo_address_ok: "isAddress demo_address"
  by code_simp

lemma demo_agrees: "signerAgrees (demo_reading b) demo_signer"
  by (simp add: signerAgrees_def demo_reading_def equal_fold_def)

lemma binding_stays [simp]:
  "gs_respBind (count m s) = gs_respBind s" "gs_respBind (snd (observeBaseline G r a f s)) = gs_respBind s"
  "gs_respBind (recordProviderIdentity G i s) = gs_respBind s"
  by (auto simp: count_def observeBaseline_def observation_first_def recordProviderIdentity_def
      split: prod.splits bool.splits)

lemma binding_facts: "quote_facts G r v fetched vd s = (x, s') \<Longrightarrow> gs_respBind s' = gs_respBind s"
  by (auto simp: quote_facts_def Let_def readManifest_def observeRuntime_def split: prod.splits)

text \<open>The verification of the demonstration's quote.\<close>

lemma demo_quote_fetch: "\<exists>ac. fetchQuote demo_net u s = (Inr ([CHR 0x00], ac, demo_reply), s)"
  by (cases "gs_world s")
    (auto simp: fetchQuote_def call_def demo_net_def quote_reply_def control_body_def demo_decoded
      maxControlBodyBytes_def)

lemma demo_verifyAndCache:
  "\<exists>q s'. verifyAndCache demo_net (fst demo_router) False u s = (Inr q, s') \<and> qr_signer q = demo_signer
     \<and> qr_encPub q = replicate 32 (CHR ''k'') \<and> gs_respBind s' = gs_respBind s"
proof -
  obtain ac where F: "fetchQuote demo_net u s = (Inr ([CHR 0x00], ac, demo_reply), s)" using demo_quote_fetch by blast
  obtain vd where V: "Verify demo_quotes [CHR 0x00] = Inr vd" "vd_SignerAddr vd = demo_signer"
    "vd_EncPub vd = replicate 32 (CHR ''k'')" using demo_verified by blast
  let ?s = "if vd_MeasurementTrusted vd then s else count MeasurementUntrusted s"
  obtain f s1 where Q: "quote_facts demo_net (fst demo_router) demo_quotes ([CHR 0x00], ac, demo_reply) vd ?s = (f, s1)"
    by fastforce
  have "gs_respBind s1 = gs_respBind s" using binding_facts[OF Q] by simp
  moreover have "\<not> ge_left demo_net w" for w by (simp add: demo_net_def)
  ultimately show ?thesis
    using F V Q by (simp add: verifyAndCache_def verifyQuoteAt_def verify_fetched_quote_def Let_def)
qed

lemma demo_materialize:
  assumes "qc_m (gs_quotes s) = []" "gs_respBind s = None"
  shows "\<exists>p s'. materialize_at demo_net (fst demo_router) demo_candidates 0 None s = (Inr p, s')
    \<and> pv_EncPubKey p = replicate 32 (CHR ''k'') \<and> pv_Model p = ''m2'' \<and> pv_SignerAddr p = demo_signer
    \<and> pv_BindResponse p = False"
proof -
  let ?r = "fst demo_router" and ?s = s
  let ?u = "''https://p/v1/quote?legacy=false''"
  let ?prov = "rc_providers demo_candidates ! 0"
  obtain q s1 where V: "verifyAndCache demo_net ?r False ?u (count (QuoteCacheLookup False) ?s) = (Inr q, s1)"
    and q: "qr_signer q = demo_signer" "qr_encPub q = replicate 32 (CHR ''k'')" "gs_respBind s1 = None"
    using demo_verifyAndCache[of ?u "count (QuoteCacheLookup False) ?s"] assms(2) by auto
  have F: "freshProvider demo_net ?r ''https://p'' None ?s = (Inr (q, False), s1)"
    using V assms(1) by (simp add: freshProvider_def verifiedProviderCached_def derived_def demo_url quote_get_def)
  have "groundSignerOnChain demo_net ?r demo_registry (pp_Address ?prov) demo_signer s1
      = ((\<lparr>gd_outcome = groundingOK, gd_revalidated = False\<rparr>, None), s1)"
    using demo_agrees[of True]
    by (simp add: groundSignerOnChain_def call_def demo_registry_def Let_def ruling_def)
      (simp add: demo_reading_def)
  then have G: "ground_candidate demo_net ?r ?prov (keys_of q False) s1
      = ((VerdictPass, None, keys_of q False), count (OnChainGrounding groundingOK) s1)"
    using q(1) by (simp add: ground_candidate_def ground_recover_def keys_of_def onchainVerdictOf_def)
  obtain s2 where S: "settle_candidate demo_net ?r ?prov (VerdictPass, None, keys_of q False)
      (count (OnChainGrounding groundingOK) s1) = (None, s2)" "gs_respBind s2 = None"
    using q(3) by (simp add: settle_candidate_def keys_of_def Let_def)
  show ?thesis
    using F G S q demo_address_ok
    by (simp add: router_bindsResponse_def keys_of_def materialize_at_def materialize_candidate_def candidates_Len_def demo_candidates_def
        candidate_keys_def)
qed



end
