(* ===== verification/Route_ClientDemo.thy ===== *)
theory Route_ClientDemo
  imports Route_Client Route_Demo Client_Demo
begin

text \<open>A buffered call of the demonstration's client over the demonstration's router.\<close>

abbreviation demo_stack :: "(bytes, bytes, ideal_ctx, unit routed) env" where
  "demo_stack \<equiv> routed_env (net_env net_reply) demo_net (fst demo_router)"

lemma demo_on_world: "f (gs_world (fst sc)) = (x, gs_world (fst sc)) \<Longrightarrow> on_world f sc = (x, sc)"
  by (simp add: on_world_def call_def)

lemma demo_stack_fields [simp]:
  "en_H demo_stack = clear_hpke" "en_J demo_stack = Some" "now demo_stack sc = 0"
  "random demo_stack sc = (demo_key, sc)"
  "resolve demo_stack = routed_resolve demo_net (fst demo_router)"
  "transport demo_stack hq sc = (Inr net_reply, sc)" "reading demo_stack sc = sc"
  "fetcher demo_stack = None" "recover demo_stack = None"
proof -
  have u: "s\<lparr>gs_world := ()\<rparr> = s" for s :: "unit gstate" by (cases s) simp
  show "reading demo_stack sc = sc" by (simp add: routed_env_def u)
  show "random demo_stack sc = (demo_key, sc)"
    unfolding routed_env_def env.simps by (rule demo_on_world) simp
  show "transport demo_stack hq sc = (Inr net_reply, sc)"
    unfolding routed_env_def env.simps by (rule demo_on_world) simp
qed (simp_all add: routed_env_def)

lemma demo_stack_materialize:
  "materialize demo_stack i d = on_candidates (\<lambda>c. materialize_at demo_net (fst demo_router) c i None)"
  unfolding routed_env_def env.simps on_candidates_simps by (rule refl)

lemma demo_verify [simp]: "\<not> verifyEnabled demo_stack"
  by (simp add: verifyEnabled_def)

lemma demo_preview_reply:
  "preview_reply \<lparr>hr_Status = 200, hr_Header = [], hr_Body = demo_ranking, hr_End = None\<rparr>
     = Inr (rc_providers demo_candidates)"
proof -
  let ?j = "JObj [(''providers'', JArr [JObj
     [(''address'', JStr demo_address), (''canonical_id'', JStr ''m2''), (''endpoint'', JStr ''https://p'')]])]"
  have "json_ok ?j \<and> length (json_print ?j) \<le> 1000"
    unfolding demo_address_def by code_simp
  then have l: "length demo_ranking \<le> maxControlBodyBytes" "json_parse demo_ranking = Some ?j"
    using json_parse_print[of ?j] by (simp_all add: demo_ranking_def maxControlBodyBytes_def)
  have "preview_response ?j
        = Some \<lparr>pr_Object = [], pr_ServiceType = [], pr_Providers = rc_providers demo_candidates\<rparr>"
    unfolding demo_address_def demo_candidates_def by code_simp
  with l show ?thesis
    by (simp add: preview_reply_def control_body_def bind_r_def opt_r_def demo_candidates_def
        maxPreviewCandidates_def)
qed

lemma demo_resolved:
  "\<exists>s'. Resolve demo_net (fst demo_router) ctx ep_Chat req (snd demo_router) = (Inr demo_candidates, s')
     \<and> gs_respBind s' = None \<and> qc_m (gs_quotes s') = []"
proof -
  have u: "upstreamURL (fst demo_router) ep_Chat = Inr (rc_upstreamURL demo_candidates)"
    by (simp add: upstreamURL_def demo_candidates_def demo_router_def New_router_def WithQuoteVerification_def
        WithOnChainVerification_def Let_def ep_Chat_def) code_simp
  have q: "previewOnce demo_net (fst demo_router) ctx body s = (Inr (rc_providers demo_candidates), s)" for body s
    by (cases s) (simp add: previewOnce_def call_def demo_net_def demo_preview_reply)
  obtain s' where p: "preview demo_net (fst demo_router) ctx ep_Chat req (snd demo_router)
      = (Inr (rc_providers demo_candidates), s')" "gs_respBind s' = None"
    by (auto simp: preview_def previewAttempts_def numeral_3_eq_3 q)
  then have R: "Resolve demo_net (fst demo_router) ctx ep_Chat req (snd demo_router) = (Inr demo_candidates, s')"
    using u by (simp add: Resolve_def) 
  then show ?thesis using quotes_resolve[OF R] p(2) by (simp add: newQuoteCache_def)
qed

lemma demo_signer_ok: "isSignerAddr demo_signer"
  unfolding demo_signer_def by code_simp

lemma demo_once:
  assumes p: "pv_EncPubKey p = demo_key" "pv_Model p = ''m2''" "pv_SignerAddr p = demo_signer" "\<not> pv_BindResponse p"
  shows "\<exists>s'. completeOnce demo_stack demo_client background demo_req demo_key demo_key p s
      = ((False, Inr demo_frame), s')"
proof -
  have n: "\<not> bindsResponse demo_client p" using p(4) by (simp add: bindsResponse_def)
  obtain env where e: "client_seal clear_hpke Some demo_client p demo_req demo_key demo_key demo_key = Some (Inr env)"
    using clear_seal[OF p(1,2) _ n, of demo_key] p(3) demo_signer_ok by auto
  have j: "json_parse (json_print (JObj net_frame)) = Some (JObj net_frame)"
    by (rule json_parse_print[OF net_frame_facts(2)])
  have o: "openReply demo_stack demo_client p demo_key net_frame = Inr demo_frame"
    using net_frame_opens net_frame_meta n by (auto simp: openReply_def OpenResponseFor_def)
  show ?thesis
    using e j o by (simp add: completeOnce_def complete_reply_def doRequest_def ask_def Let_def
        read_on_def as_object_def nil_map_def net_frame_facts(1))
qed

lemma demo_completes:
  "\<exists>s'. Complete demo_stack demo_client background demo_req (start (snd demo_router, None)) = (Inr demo_frame, s')"
proof -
  obtain s1 where R: "Resolve demo_net (fst demo_router) background ep_Chat demo_req (snd demo_router)
      = (Inr demo_candidates, s1)" "gs_respBind s1 = None" "qc_m (gs_quotes s1) = []"
    using demo_resolved by blast
  obtain p s2 where P: "materialize_at demo_net (fst demo_router) demo_candidates 0 None s1 = (Inr p, s2)"
    "pv_EncPubKey p = replicate 32 (CHR ''k'')" "pv_Model p = ''m2''" "pv_SignerAddr p = demo_signer" "\<not> pv_BindResponse p"
    using demo_materialize[OF R(3,2)] by blast
  let ?s1 = "start (snd demo_router, None)\<lparr>world := (s1, Some demo_candidates)\<rparr>"
  let ?s2 = "?s1\<lparr>world := (s2, Some demo_candidates)\<rparr>"
  have res: "ask (routed_resolve demo_net (fst demo_router) background ep_Chat demo_req) (start (snd demo_router, None))
      = (Inr 1, ?s1)"
    using R(1) by (simp add: ask_def routed_resolve_def start_def candidates_Len_def demo_candidates_def)
  have rnd: "ask (random demo_stack) ?s1 = (demo_key, ?s1)" by (simp add: ask_def)
  have mat: "ask (materialize demo_stack 0 d) ?s1 = (Inr p, ?s2)" for d
    using P(1) by (simp add: ask_def demo_stack_materialize on_candidates_def)
  have "walk_limit \<lparr>cw_spent = 0, cw_budget = cl_resolveBudgetTO demo_client\<rparr> > 0"
    by (simp add: walk_limit_def resolveBudget_def second_def)
  then have pr: "walk_provider demo_stack 0 \<lparr>cw_spent = 0, cw_budget = cl_resolveBudgetTO demo_client\<rparr> ?s1
      = (Inr p, \<lparr>cw_spent = 0, cw_budget = cl_resolveBudgetTO demo_client\<rparr>, ?s2)"
    using mat by (simp add: walk_provider_def walk_timed_def walk_charge_def Let_def)
  obtain s' where O: "completeOnce demo_stack demo_client background demo_req demo_key demo_key p
      (emit (EAttempt 0 p 0) ?s2) = ((False, Inr demo_frame), s')"
    using demo_once P(2-5) demo_key_def by metis
  have "walk_chain demo_stack demo_client (completeOnce demo_stack demo_client background demo_req demo_key demo_key) 1 ?s1
      = (Inr demo_frame, s')"
    using pr O by (simp add: walk_chain_def attemptRekeying.simps[of False])
  then show ?thesis using res rnd by (simp add: Complete_def net_keys)
qed

theorem Complete_over_router_is_trusted_witness:
  "\<exists>s' p J ephPriv ephPub rnd sealed.
     Complete demo_stack demo_client background demo_req (start (snd demo_router, None)) = (Inr demo_frame, s')
     \<and> trusted_provider (fst demo_router) demo_quotes demo_registry J p
     \<and> client_seal clear_hpke Some demo_client p demo_req ephPriv ephPub rnd = Some (Inr sealed)
     \<and> EPost p (provider_request background p sealed) \<in> set (trace s')
     \<and> answered demo_stack demo_client background p sealed ephPriv demo_frame"
proof -
  obtain s' where r: "Complete demo_stack demo_client background demo_req (start (snd demo_router, None))
      = (Inr demo_frame, s')"
    using demo_completes by blast
  have "route_run demo_net (fst demo_router) (snd demo_router)" by (rule route_run.fresh) (simp add: newQuoteCache_def)
  from Complete_over_router_is_trusted[OF this demo_router_simps(1-3) r, unfolded net_env_fields] r
  show ?thesis by blast
qed

end
