(* ===== verification/Prov_Policy.thy ===== *)
theory Prov_Policy
  imports Route_Warmer
begin

text \<open>
  client/provenance, the policy of provenance.go: the file, release tags and their order, and what a
  verified Sigstore bundle must say for a build to be a release.
\<close>

section \<open>Digests and tags\<close>

definition isSHA256Digest :: "string \<Rightarrow> bool" where
  "isSHA256Digest s =
     (case cut_prefix ''sha256:'' s of
        None \<Rightarrow> False
      | Some h \<Rightarrow> length h = 64 \<and> list_all is_lower_hex h)"

definition lastSegment :: "string \<Rightarrow> string" where
  "lastSegment s = (case cut_last (CHR ''/'') s of None \<Rightarrow> s | Some (_, b) \<Rightarrow> b)"

text \<open>A number of a tag has no leading zero.\<close>

definition tag_number :: "string \<Rightarrow> bool" where
  "tag_number s = (s = ''0'' \<or> s \<noteq> [] \<and> list_all is_digit s \<and> hd s \<noteq> CHR ''0'')"

text \<open>The three numbers of a tag.\<close>

definition releaseTag :: "string \<Rightarrow> string list option" where
  "releaseTag s =
     (case s of
        [] \<Rightarrow> None
      | c # r \<Rightarrow>
          let ns = split_all (CHR ''.'') r in
          if c = CHR ''v'' \<and> length ns = 3 \<and> list_all tag_number ns then Some ns else None)"

text \<open>The value of \<open>strconv.Atoi\<close> with its error dropped: out of range it is the largest integer.\<close>

definition atoi_value :: "string \<Rightarrow> nat" where
  "atoi_value s = min (digits_val s) (2 ^ 63 - 1)"

fun numbers_less :: "string list \<Rightarrow> string list \<Rightarrow> bool" where
  "numbers_less (a # as) (b # bs) =
     (if atoi_value a \<noteq> atoi_value b then atoi_value a < atoi_value b else numbers_less as bs)"
| "numbers_less _ _ = False"

text \<open>\<open>None\<close> is the panic on a text that is not a tag.\<close>

definition versionLess :: "string \<Rightarrow> string \<Rightarrow> bool option" where
  "versionLess a b =
     (case (releaseTag a, releaseTag b) of (Some x, Some y) \<Rightarrow> Some (numbers_less x y) | _ \<Rightarrow> None)"

section \<open>The policy file\<close>

record Revocation =
  rk_Digest :: string
  rk_Reason :: string

record Policy =
  po_Repository :: string
  po_SourceRepository :: string
  po_Workflow :: string
  po_Issuer :: string
  po_MinimumVersion :: string
  po_Revoked :: "Revocation list"

datatype policy_err =
    PolicyJSON | PolicyTrailing | PolicyRepository string | PolicySource string | PolicyWorkflow string
  | PolicyIssuer | PolicyVersion string | PolicyRevoked string

definition revocation_of :: "json \<Rightarrow> Revocation option" where
  "revocation_of =
     decode_strict [''digest'', ''reason'']
       (\<lambda>n x r. if n = ''digest'' then map_option (\<lambda>s. r\<lparr>rk_Digest := s\<rparr>) (str_into x (rk_Digest r))
                else map_option (\<lambda>s. r\<lparr>rk_Reason := s\<rparr>) (str_into x (rk_Reason r)))
       \<lparr>rk_Digest = [], rk_Reason = []\<rparr>"

definition policy_of :: "json \<Rightarrow> Policy option" where
  "policy_of =
     decode_strict [''repository'', ''source_repository'', ''workflow'', ''issuer'', ''minimum_version'', ''revoked'', ''_comment'']
       (\<lambda>n x p. if n = ''repository'' then map_option (\<lambda>s. p\<lparr>po_Repository := s\<rparr>) (str_into x (po_Repository p))
                else if n = ''source_repository''
                then map_option (\<lambda>s. p\<lparr>po_SourceRepository := s\<rparr>) (str_into x (po_SourceRepository p))
                else if n = ''workflow'' then map_option (\<lambda>s. p\<lparr>po_Workflow := s\<rparr>) (str_into x (po_Workflow p))
                else if n = ''issuer'' then map_option (\<lambda>s. p\<lparr>po_Issuer := s\<rparr>) (str_into x (po_Issuer p))
                else if n = ''minimum_version''
                then map_option (\<lambda>s. p\<lparr>po_MinimumVersion := s\<rparr>) (str_into x (po_MinimumVersion p))
                else if n = ''revoked'' then map_option (\<lambda>rs. p\<lparr>po_Revoked := rs\<rparr>) (list_of revocation_of x)
                else map_option (\<lambda>_. p) (as_strings x))
       \<lparr>po_Repository = [], po_SourceRepository = [], po_Workflow = [], po_Issuer = [], po_MinimumVersion = [],
        po_Revoked = []\<rparr>"

definition check_policy :: "Policy \<Rightarrow> policy_err + unit" where
  "check_policy p =
     bind_r (fail_if (po_Repository p = [] \<or> CHR 0x40 \<in> set (po_Repository p)
                      \<or> contains_str '':'' (lastSegment (po_Repository p)))
               (PolicyRepository (po_Repository p))) (\<lambda>_.
     bind_r (fail_if (\<not> prefix ''https://github.com/'' (po_SourceRepository p)
                      \<or> length (filter (\<lambda>c. c = CHR ''/'') (po_SourceRepository p)) \<noteq> 4)
               (PolicySource (po_SourceRepository p))) (\<lambda>_.
     bind_r (fail_if (\<not> prefix ''.github/workflows/'' (po_Workflow p)) (PolicyWorkflow (po_Workflow p))) (\<lambda>_.
     bind_r (fail_if (po_Issuer p = []) PolicyIssuer) (\<lambda>_.
     bind_r (fail_if (releaseTag (po_MinimumVersion p) = None) (PolicyVersion (po_MinimumVersion p))) (\<lambda>_.
     each_r (\<lambda>r. fail_if (\<not> isSHA256Digest (rk_Digest r) \<or> trim_space (rk_Reason r) = [])
                   (PolicyRevoked (rk_Digest r))) (po_Revoked p))))))"

definition ParsePolicy :: "bytes \<Rightarrow> policy_err + Policy" where
  "ParsePolicy raw =
     bind_r (opt_r (parse_val (Suc (length raw)) (skip_ws raw)) PolicyJSON) (\<lambda>(v, rest).
     bind_r (opt_r (policy_of v) PolicyJSON) (\<lambda>p.
     bind_r (fail_if (dec_More rest) PolicyTrailing) (\<lambda>_.
     bind_r (check_policy p) (\<lambda>_. Inr p))))"

definition signerPrefix :: "Policy \<Rightarrow> string" where
  "signerPrefix p = po_SourceRepository p @ ''/'' @ po_Workflow p @ [CHR 0x40]"

section \<open>What a verified bundle says\<close>

text \<open>The certificate and the statement's predicate type, as sigstore-go returns them.\<close>

record certificate =
  ct_SAN :: string
  ct_SourceRepositoryURI :: string
  ct_SourceRepositoryRef :: string
  ct_BuildTrigger :: string
  ct_RunnerEnvironment :: string
  ct_SourceRepositoryDigest :: string

record VerificationResult =
  vr_Certificate :: "certificate option"
  vr_PredicateType :: "string option"

definition slsaProvenanceV1 :: string where "slsaProvenanceV1 = ''https://slsa.dev/provenance/v1''"

datatype why_not =
    NoCertificate | NotReleaseTag string | OtherSource string | OtherRef string string | NotTagPush string
  | NotHosted string | TooOld string | NotProvenance "string option" | TagPanic

definition release :: "Policy \<Rightarrow> string \<Rightarrow> VerificationResult \<Rightarrow> why_not + BrokerRelease" where
  "release p digest res =
     (case vr_Certificate res of
        None \<Rightarrow> Inl NoCertificate
      | Some c \<Rightarrow>
          let pre = signerPrefix p @ ''refs/tags/''; tag = trim_prefix pre (ct_SAN c) in
          if \<not> prefix pre (ct_SAN c) \<or> releaseTag tag = None then Inl (NotReleaseTag (ct_SAN c))
          else if ct_SourceRepositoryURI c \<noteq> po_SourceRepository p then Inl (OtherSource (ct_SourceRepositoryURI c))
          else if ct_SourceRepositoryRef c \<noteq> ''refs/tags/'' @ tag then Inl (OtherRef (ct_SourceRepositoryRef c) tag)
          else if ct_BuildTrigger c \<noteq> ''push'' then Inl (NotTagPush (ct_BuildTrigger c))
          else if ct_RunnerEnvironment c \<noteq> ''github-hosted'' then Inl (NotHosted (ct_RunnerEnvironment c))
          else case versionLess tag (po_MinimumVersion p) of
            None \<Rightarrow> Inl TagPanic
          | Some True \<Rightarrow> Inl (TooOld tag)
          | Some False \<Rightarrow>
              if vr_PredicateType res \<noteq> Some slsaProvenanceV1 then Inl (NotProvenance (vr_PredicateType res))
              else Inr \<lparr>br_Version = tag, br_Digest = digest, br_Commit = ct_SourceRepositoryDigest c\<rparr>)"

end
