(* ===== verification/Prov_Registry.thy ===== *)
theory Prov_Registry
  imports Prov_Policy
begin

text \<open>
  client/provenance/registry.go: the Sigstore bundles attached to an image, read from an OCI registry.
  HTTP is a function on a world of any type; what the registry keeps across calls are its tokens. A
  token realm with a percent escape does not parse here, and its user part and fragment are dropped.
\<close>

section \<open>What is called, and the state\<close>

text \<open>A GET of a URL with headers, \<open>None\<close> for a transport error; whether a request can be built for a URL.\<close>

record 'w http_env =
  hc_valid :: "string \<Rightarrow> bool"
  hc_get :: "string \<Rightarrow> header \<Rightarrow> 'w \<Rightarrow> http_response option \<times> 'w"

record 'w registry =
  rg_world :: 'w
  rg_tokens :: "string gomap"

definition rg_call :: "('w \<Rightarrow> 'a \<times> 'w) \<Rightarrow> 'w registry \<Rightarrow> 'a \<times> 'w registry" where
  "rg_call f g = (case f (rg_world g) of (x, w) \<Rightarrow> (x, g\<lparr>rg_world := w\<rparr>))"

text \<open>A failure of the registry to answer, or an answer that cannot be used.\<close>

datatype reg_err = Unavailable string | Unusable string

definition mediaIndex :: string where "mediaIndex = ''application/vnd.oci.image.index.v1+json''"
definition mediaManifest :: string where "mediaManifest = ''application/vnd.oci.image.manifest.v1+json''"
definition sigstoreBundlePrefix :: string where "sigstoreBundlePrefix = ''application/vnd.dev.sigstore.bundle''"
definition maxIndexBytes :: nat where "maxIndexBytes = 4 * 2 ^ 20"
definition maxManifestBytes :: nat where "maxManifestBytes = 4 * 2 ^ 20"
definition maxBundleBytes :: nat where "maxBundleBytes = 2 ^ 20"
definition maxReferrers :: nat where "maxReferrers = 32"
definition maxTokenBytes :: nat where "maxTokenBytes = 2 ^ 16"

section \<open>Descriptors\<close>

record descriptor =
  ds_MediaType :: string
  ds_Digest :: string
  ds_Size :: int
  ds_ArtifactType :: string

definition ds_zero :: descriptor where
  "ds_zero = \<lparr>ds_MediaType = [], ds_Digest = [], ds_Size = 0, ds_ArtifactType = []\<rparr>"

text \<open>The annotations are decoded, and never read.\<close>

definition annotations_ok :: "json \<Rightarrow> bool" where
  "annotations_ok v =
     (case v of JNull \<Rightarrow> True | JObj kvs \<Rightarrow> list_all (\<lambda>(k, x). as_string x \<noteq> None) kvs | _ \<Rightarrow> False)"

definition descriptor_into :: "descriptor \<Rightarrow> json \<Rightarrow> descriptor option" where
  "descriptor_into d0 =
     decode_struct [''mediaType'', ''digest'', ''size'', ''artifactType'', ''annotations'']
       (\<lambda>n x d. if n = ''mediaType'' then map_option (\<lambda>s. d\<lparr>ds_MediaType := s\<rparr>) (str_into x (ds_MediaType d))
                else if n = ''digest'' then map_option (\<lambda>s. d\<lparr>ds_Digest := s\<rparr>) (str_into x (ds_Digest d))
                else if n = ''size'' then map_option (\<lambda>i. d\<lparr>ds_Size := i\<rparr>) (int_into x (ds_Size d))
                else if n = ''artifactType''
                then map_option (\<lambda>s. d\<lparr>ds_ArtifactType := s\<rparr>) (str_into x (ds_ArtifactType d))
                else if annotations_ok x then Some d else None)
       d0"

definition index_of :: "json \<Rightarrow> descriptor list option" where
  "index_of = decode_struct [''manifests''] (\<lambda>_ x _. list_of (descriptor_into ds_zero) x) []"

record manifest =
  mn_Subject :: "descriptor option"
  mn_Layers :: "descriptor list"

definition manifest_of :: "json \<Rightarrow> manifest option" where
  "manifest_of =
     decode_struct [''subject'', ''layers'']
       (\<lambda>n x m. if n = ''subject''
                then (if x = JNull then Some (m\<lparr>mn_Subject := None\<rparr>)
                      else map_option (\<lambda>d. m\<lparr>mn_Subject := Some d\<rparr>)
                             (descriptor_into (or_else ds_zero (mn_Subject m)) x))
                else map_option (\<lambda>ds. m\<lparr>mn_Layers := ds\<rparr>) (list_of (descriptor_into ds_zero) x))
       \<lparr>mn_Subject = None, mn_Layers = []\<rparr>"

definition digestMatches :: "bytes \<Rightarrow> string \<Rightarrow> bool" where
  "digestMatches b digest = (''sha256:'' @ hex_encode (sha256 b) = digest)"

section \<open>The challenge\<close>

lemma challenge_shorter:
  assumes "cut_at c (dropWhile P s) = Some (k, rest)"
  shows "cut_at d rest = Some (v, s') \<Longrightarrow> length s' < length s"
    "cut_at d (tl rest) = Some (v, s') \<Longrightarrow> length s' < length s"
proof -
  have cut: "length b < length t" if "cut_at e t = Some (a, b)" for e t a and b :: string
    using cut_at_Some[OF that] by simp
  have r: "length rest < length s"
    using cut[OF assms] length_dropWhile_le[of P s] by linarith
  show "cut_at d rest = Some (v, s') \<Longrightarrow> length s' < length s" using cut r by fastforce
  show "cut_at d (tl rest) = Some (v, s') \<Longrightarrow> length s' < length s"
    using cut[of d "tl rest" v s'] r by simp
qed

text \<open>The pairs of a challenge, the later of a name winning.\<close>

function parseChallenge :: "string \<Rightarrow> string gomap \<Rightarrow> string gomap" where
  "parseChallenge s out =
     (if s = [] then out
      else case cut_at (CHR ''='') (dropWhile (\<lambda>c. c = CHR '' '' \<or> c = CHR '','') s) of
        None \<Rightarrow> out
      | Some (k, rest) \<Rightarrow>
          let key = to_lower (trim_space k) in
          if prefix [CHR 0x22] rest
          then (case cut_at (CHR 0x22) (tl rest) of
                  None \<Rightarrow> out
                | Some (v, s') \<Rightarrow> parseChallenge s' (mput key v out))
          else (case cut_at (CHR '','') rest of
                  None \<Rightarrow> mput key rest out
                | Some (v, s') \<Rightarrow> parseChallenge s' (mput key v out)))"
  by pat_completeness auto
termination
  by (relation "measure (\<lambda>(s, _). length s)") (auto dest: challenge_shorter)

section \<open>One request\<close>

text \<open>\<open>url.Values\<close> of a query without percent escapes, and its encoding.\<close>

definition parse_query :: "string \<Rightarrow> string list gomap" where
  "parse_query q =
     fold (\<lambda>piece m.
             if piece = [] \<or> CHR '';'' \<in> set piece then m
             else case (case cut_at (CHR ''='') piece of None \<Rightarrow> (piece, []) | Some kv \<Rightarrow> kv) of
               (k, v) \<Rightarrow>
                 (let plain = map (\<lambda>c. if c = CHR ''+'' then CHR '' '' else c) in
                  mput (plain k) (or_else [] (mget m (plain k)) @ [plain v]) m))
       (split_all (CHR ''&'') q) []"

definition encode_query :: "string list gomap \<Rightarrow> string" where
  "encode_query m =
     join_with ''&'' (concat (map (\<lambda>(k, vs). map (\<lambda>v. QueryEscape k @ ''='' @ QueryEscape v) vs) m))"

definition token_url :: "string gomap \<Rightarrow> URL \<Rightarrow> string" where
  "token_url p u =
     (let q = encode_query (fold (\<lambda>k m. let v = or_else [] (mget p k) in if v = [] then m else mput k [v] m)
                              [''service'', ''scope''] (parse_query (u_RawQuery u))) in
      u_Scheme u @ ''://'' @ u_Host u @ u_EscapedPath u @ (if q \<noteq> [] \<or> u_ForceQuery u then ''?'' @ q else []))"

text \<open>The token of a reply, whichever member holds it.\<close>

definition token_reply :: "http_response \<Rightarrow> string option" where
  "token_reply resp =
     (let text = take maxTokenBytes (hr_Body resp) in
      Option.bind (parse_val (Suc (length text)) (skip_ws text)) (\<lambda>(v, _).
      Option.bind (decode_struct [''token'', ''access_token'']
                     (\<lambda>n x (t, a). if n = ''token'' then map_option (\<lambda>s. (s, a)) (str_into x t)
                                   else map_option (\<lambda>s. (t, s)) (str_into x a)) ([], []) v) (\<lambda>(t, a).
      let tok = (if t = [] then a else t) in if tok = [] then None else Some tok)))"

definition authorize :: "'w http_env \<Rightarrow> string \<Rightarrow> string \<Rightarrow> 'w registry \<Rightarrow> (reg_err + unit) \<times> 'w registry" where
  "authorize E host challenge g =
     (let (scheme, params) = (case cut_at (CHR '' '') challenge of None \<Rightarrow> (challenge, []) | Some p \<Rightarrow> p);
          p = parseChallenge params [] in
      if \<not> equal_fold scheme ''Bearer'' then (Inl (Unavailable ''authentication scheme''), g)
      else case url_parse (or_else [] (mget p ''realm'')) of
        None \<Rightarrow> (Inl (Unavailable ''token realm''), g)
      | Some u \<Rightarrow>
          if u_Scheme u \<noteq> ''https'' \<or> u_Host u = [] then (Inl (Unavailable ''token realm''), g)
          else if \<not> hc_valid E (token_url p u) then (Inl (Unusable ''token request''), g)
          else case rg_call (hc_get E (token_url p u) []) g of
            (None, g1) \<Rightarrow> (Inl (Unavailable ''token''), g1)
          | (Some resp, g1) \<Rightarrow>
              if hr_Status resp \<noteq> 200 then (Inl (Unavailable ''token status''), g1)
              else (case token_reply resp of
                      None \<Rightarrow> (Inl (Unavailable ''token reply''), g1)
                    | Some tok \<Rightarrow> (Inr (), g1\<lparr>rg_tokens := mput host tok (rg_tokens g1)\<rparr>)))"

definition rg_token :: "string \<Rightarrow> 'w registry \<Rightarrow> string" where
  "rg_token host g = or_else [] (mget (rg_tokens g) host)"

definition get_headers :: "string \<Rightarrow> string \<Rightarrow> header" where
  "get_headers accept tok =
     (let h = (if accept \<noteq> [] then header_set ''Accept'' accept [] else []) in
      if tok \<noteq> [] then header_set ''Authorization'' (''Bearer '' @ tok) h else h)"

text \<open>The attempts left; of two, the first may answer a challenge.\<close>

fun rg_get ::
    "'w http_env \<Rightarrow> string \<Rightarrow> string \<Rightarrow> string \<Rightarrow> string \<Rightarrow> nat \<Rightarrow> nat \<Rightarrow> 'w registry \<Rightarrow>
     (reg_err + bytes \<times> int) \<times> 'w registry" where
  "rg_get E host name path accept limit 0 g = (Inl (Unavailable ''credentials refused''), g)"
| "rg_get E host name path accept limit (Suc n) g =
     (let u = ''https://'' @ host @ ''/v2/'' @ name @ ''/'' @ path in
      if \<not> hc_valid E u then (Inl (Unusable ''request''), g)
      else case rg_call (hc_get E u (get_headers accept (rg_token host g))) g of
        (None, g1) \<Rightarrow> (Inl (Unavailable path), g1)
      | (Some resp, g1) \<Rightarrow>
          (let st = hr_Status resp; body = take (limit + 1) (hr_Body resp) in
           if hr_End resp \<noteq> None \<and> length body < limit + 1 then (Inl (Unavailable path), g1)
           else if st = 401 \<and> n = 1
           then (case authorize E host (header_get ''WWW-Authenticate'' (hr_Header resp)) g1 of
                   (Inl e, g2) \<Rightarrow> (Inl e, g2)
                 | (Inr _, g2) \<Rightarrow> rg_get E host name path accept limit n g2)
           else if st = 200 \<and> length body > limit then (Inl (Unusable path), g1)
           else if st = 200 \<or> st = 404 \<or> st = 400 then (Inr (body, st), g1)
           else (Inl (Unavailable path), g1)))"

definition registryAttempts :: nat where "registryAttempts = 2"

section \<open>The bundles of an image\<close>

definition referrers ::
    "'w http_env \<Rightarrow> string \<Rightarrow> string \<Rightarrow> string \<Rightarrow> 'w registry \<Rightarrow> (reg_err + descriptor list option) \<times> 'w registry" where
  "referrers E host name digest g =
     (let decode = (\<lambda>raw st. if st \<noteq> 200 then Inl (Unavailable ''referrers'')
                             else bind_r (opt_r (Option.bind (json_parse raw) index_of) (Unusable ''referrers''))
                                    (\<lambda>ds. Inr (Some ds))) in
      case rg_get E host name (''referrers/'' @ digest) mediaIndex maxIndexBytes registryAttempts g of
        (Inl e, g1) \<Rightarrow> (Inl e, g1)
      | (Inr (raw, st), g1) \<Rightarrow>
          if st \<noteq> 404 \<and> st \<noteq> 400 then (decode raw st, g1)
          else (case rg_get E host name (''manifests/sha256-'' @ trim_prefix ''sha256:'' digest)
                       (mediaIndex @ '', '' @ mediaManifest) maxIndexBytes registryAttempts g1 of
                  (Inl e, g2) \<Rightarrow> (Inl e, g2)
                | (Inr (raw2, st2), g2) \<Rightarrow> if st2 = 404 then (Inr None, g2) else (decode raw2 st2, g2)))"

fun layer_bundles ::
    "'w http_env \<Rightarrow> string \<Rightarrow> string \<Rightarrow> descriptor list \<Rightarrow> 'w registry \<Rightarrow> (reg_err + bytes list) \<times> 'w registry" where
  "layer_bundles E host name [] g = (Inr [], g)"
| "layer_bundles E host name (l # ls) g =
     (if \<not> prefix sigstoreBundlePrefix (ds_MediaType l) \<or> \<not> isSHA256Digest (ds_Digest l)
      then layer_bundles E host name ls g
      else case rg_get E host name (''blobs/'' @ ds_Digest l) [] maxBundleBytes registryAttempts g of
        (Inl e, g1) \<Rightarrow> (Inl e, g1)
      | (Inr (blob, st), g1) \<Rightarrow>
          if st = 404 then layer_bundles E host name ls g1
          else if st \<noteq> 200 then (Inl (Unavailable ''blob''), g1)
          else (case layer_bundles E host name ls g1 of
                  (Inl e, g2) \<Rightarrow> (Inl e, g2)
                | (Inr bs, g2) \<Rightarrow> (Inr (if digestMatches blob (ds_Digest l) then blob # bs else bs), g2)))"

text \<open>The layers of a listed manifest, none unless it is an attachment to the image.\<close>

definition attached_layers :: "string \<Rightarrow> string \<Rightarrow> bytes \<Rightarrow> descriptor list" where
  "attached_layers digest listed raw =
     (if \<not> digestMatches raw listed then []
      else case Option.bind (json_parse raw) manifest_of of
        None \<Rightarrow> []
      | Some m \<Rightarrow> (case mn_Subject m of
                   None \<Rightarrow> [] | Some d \<Rightarrow> if ds_Digest d \<noteq> digest then [] else mn_Layers m))"

fun manifest_bundles ::
    "'w http_env \<Rightarrow> string \<Rightarrow> string \<Rightarrow> string \<Rightarrow> descriptor list \<Rightarrow> 'w registry \<Rightarrow>
     (reg_err + bytes list) \<times> 'w registry" where
  "manifest_bundles E host name digest [] g = (Inr [], g)"
| "manifest_bundles E host name digest (d # ds) g =
     (if \<not> isSHA256Digest (ds_Digest d) then manifest_bundles E host name digest ds g
      else case rg_get E host name (''manifests/'' @ ds_Digest d) mediaManifest maxManifestBytes registryAttempts g of
        (Inl e, g1) \<Rightarrow> (Inl e, g1)
      | (Inr (raw, st), g1) \<Rightarrow>
          if st = 404 then manifest_bundles E host name digest ds g1
          else if st \<noteq> 200 then (Inl (Unavailable ''manifest''), g1)
          else (case layer_bundles E host name (attached_layers digest (ds_Digest d) raw) g1 of
                  (Inl e, g2) \<Rightarrow> (Inl e, g2)
                | (Inr bs, g2) \<Rightarrow>
                    (case manifest_bundles E host name digest ds g2 of
                       (Inl e, g3) \<Rightarrow> (Inl e, g3)
                     | (Inr bs', g3) \<Rightarrow> (Inr (bs @ bs'), g3))))"

definition bundles ::
    "'w http_env \<Rightarrow> string \<Rightarrow> string \<Rightarrow> 'w registry \<Rightarrow> (reg_err + bytes list) \<times> 'w registry" where
  "bundles E repository digest g =
     (case cut_at (CHR ''/'') repository of
        None \<Rightarrow> (Inl (Unusable ''no registry host''), g)
      | Some (host, name) \<Rightarrow>
          if name = [] then (Inl (Unusable ''no registry host''), g)
          else case referrers E host name digest g of
            (Inl e, g1) \<Rightarrow> (Inl e, g1)
          | (Inr None, g1) \<Rightarrow> (Inr [], g1)
          | (Inr (Some ds), g1) \<Rightarrow> manifest_bundles E host name digest (take maxReferrers ds) g1)"

end
