(* ===== verification/Prov_Verifier.thy ===== *)
theory Prov_Verifier
  imports Prov_Registry
begin

text \<open>
  client/provenance, the release verifier of provenance.go with the trust root of trust.go. Sigstore's
  verification of a bundle against a trust root, and the fetch of the current root over TUF, are
  functions of the environment; a root is of any type.
\<close>

section \<open>What is called, and the state\<close>

text \<open>
  \<open>pe_sigstore r bundle digest issuer source\<close> verifies a bundle over the digest, issued by the
  issuer to a subject that starts with the source. \<open>pe_root\<close> fetches the current root.
\<close>

record ('w, 'r) prov_env =
  pe_http :: "'w http_env"
  pe_now :: "'w \<Rightarrow> int"
  pe_root :: "('w \<Rightarrow> 'r option \<times> 'w) option"
  pe_parses :: "bytes \<Rightarrow> bool"
  pe_sigstore :: "'r \<Rightarrow> bytes \<Rightarrow> bytes \<Rightarrow> string \<Rightarrow> string \<Rightarrow> VerificationResult option"

record 'r prov_verifier =
  rl_policy :: Policy
  rl_snapshot :: 'r

text \<open>\<open>None\<close> for a time is never.\<close>

record cachedVerdict =
  ch_verdict :: ReleaseVerdict
  ch_until :: "int option"

record ('w, 'r) prov_state =
  ps_registry :: "'w registry"
  ps_trusted :: "'r option"
  ps_stale :: bool
  ps_current :: bool
  ps_next :: "int option"
  ps_cache :: "cachedVerdict gomap"

definition rejectedTTL :: int where "rejectedTTL = 60 * 60 * 10 ^ 9"
definition unavailableTTL :: int where "unavailableTTL = 5 * 60 * 10 ^ 9"
definition maxCachedVerdicts :: nat where "maxCachedVerdicts = 1024"
definition trustRefresh :: int where "trustRefresh = 24 * 60 * 60 * 10 ^ 9"
definition trustRetry :: int where "trustRetry = 10 * 60 * 10 ^ 9"

definition prov_new :: "'w \<Rightarrow> ('w, 'r) prov_state" where
  "prov_new w = \<lparr>ps_registry = \<lparr>rg_world = w, rg_tokens = []\<rparr>, ps_trusted = None, ps_stale = False,
     ps_current = False, ps_next = None, ps_cache = []\<rparr>"

definition newVerifier :: "bytes \<Rightarrow> 'r option \<Rightarrow> string + 'r prov_verifier" where
  "newVerifier policy tr =
     (case ParsePolicy policy of
        Inl _ \<Rightarrow> Inl ''provenance policy''
      | Inr p \<Rightarrow> (case tr of None \<Rightarrow> Inl ''embedded trust root''
                  | Some r \<Rightarrow> Inr \<lparr>rl_policy = p, rl_snapshot = r\<rparr>))"

definition prov_now :: "('w, 'r) prov_env \<Rightarrow> ('w, 'r) prov_state \<Rightarrow> int" where
  "prov_now E s = pe_now E (rg_world (ps_registry s))"

definition rejected :: "string \<Rightarrow> ReleaseVerdict" where
  "rejected reason = \<lparr>rv_Status = ReleaseRejected, rv_Release = None, rv_Reason = reason\<rparr>"

definition unavailable :: "string \<Rightarrow> ReleaseVerdict" where
  "unavailable reason = \<lparr>rv_Status = ReleaseUnavailable, rv_Release = None, rv_Reason = reason\<rparr>"

section \<open>The trust root\<close>

text \<open>The root to verify against, and whether it is the snapshot for want of the current one.\<close>

definition prov_trust ::
    "('w, 'r) prov_env \<Rightarrow> 'r prov_verifier \<Rightarrow> ('w, 'r) prov_state \<Rightarrow> ('r \<times> bool) \<times> ('w, 'r) prov_state" where
  "prov_trust E v s =
     (let t = prov_now E s;
          (tr, stale) = (case ps_trusted s of None \<Rightarrow> (rl_snapshot v, False) | Some r \<Rightarrow> (r, ps_stale s));
          s0 = s\<lparr>ps_trusted := Some tr, ps_stale := stale\<rparr> in
      case pe_root E of
        None \<Rightarrow> ((tr, stale), s0)
      | Some fetch \<Rightarrow>
          if (case ps_next s of None \<Rightarrow> False | Some n \<Rightarrow> t < n) then ((tr, stale), s0)
          else (case rg_call fetch (ps_registry s0) of
            (Some r, g) \<Rightarrow>
              ((r, False), s0\<lparr>ps_registry := g, ps_trusted := Some r, ps_stale := False, ps_current := True,
                              ps_next := Some (t + trustRefresh)\<rparr>)
          | (None, g) \<Rightarrow>
              (let stale' = (if ps_current s then stale else True) in
               ((tr, stale'), s0\<lparr>ps_registry := g, ps_stale := stale', ps_next := Some (t + trustRetry)\<rparr>))))"

section \<open>Judging\<close>

text \<open>The first bundle that is a release, or whether one did not verify.\<close>

fun judge_bundles ::
    "('w, 'r) prov_env \<Rightarrow> Policy \<Rightarrow> 'r \<Rightarrow> string \<Rightarrow> bytes \<Rightarrow> bytes list \<Rightarrow> bool \<Rightarrow> bool + BrokerRelease" where
  "judge_bundles E p tr digest want [] unverified = Inl unverified"
| "judge_bundles E p tr digest want (b # bs) unverified =
     (if \<not> pe_parses E b then judge_bundles E p tr digest want bs unverified
      else case pe_sigstore E tr b want (po_Issuer p) (po_SourceRepository p @ ''/'') of
        None \<Rightarrow> judge_bundles E p tr digest want bs True
      | Some res \<Rightarrow>
          (case release p digest res of
             Inr rel \<Rightarrow> Inr rel
           | Inl _ \<Rightarrow> judge_bundles E p tr digest want bs unverified))"

definition prov_judge ::
    "('w, 'r) prov_env \<Rightarrow> 'r prov_verifier \<Rightarrow> string \<Rightarrow> bytes list \<Rightarrow> ('w, 'r) prov_state \<Rightarrow>
     ReleaseVerdict \<times> ('w, 'r) prov_state" where
  "prov_judge E v digest bs s =
     (if bs = [] then (rejected ''no bundle attached'', s)
      else case hex_decode (trim_prefix ''sha256:'' digest) of
        None \<Rightarrow> (rejected ''not a sha256 digest'', s)
      | Some want \<Rightarrow>
          (case prov_trust E v s of
             ((tr, stale), s1) \<Rightarrow>
               ((case judge_bundles E (rl_policy v) tr digest want bs False of
                   Inr rel \<Rightarrow> \<lparr>rv_Status = ReleaseAccepted, rv_Release = Some rel, rv_Reason = []\<rparr>
                 | Inl unverified \<Rightarrow>
                     if unverified \<and> stale then unavailable ''checked against the snapshot''
                     else rejected ''no bundle is provenance of a release''), s1)))"

definition prov_check ::
    "('w, 'r) prov_env \<Rightarrow> 'r prov_verifier \<Rightarrow> string \<Rightarrow> ('w, 'r) prov_state \<Rightarrow>
     ReleaseVerdict \<times> ('w, 'r) prov_state" where
  "prov_check E v digest s =
     (if digest \<in> set (map rk_Digest (po_Revoked (rl_policy v))) then (rejected ''revoked'', s)
      else case bundles (pe_http E) (po_Repository (rl_policy v)) digest (ps_registry s) of
        (Inl (Unavailable e), g) \<Rightarrow> (unavailable e, s\<lparr>ps_registry := g\<rparr>)
      | (Inl (Unusable e), g) \<Rightarrow> (rejected e, s\<lparr>ps_registry := g\<rparr>)
      | (Inr bs, g) \<Rightarrow> prov_judge E v digest bs (s\<lparr>ps_registry := g\<rparr>))"

section \<open>The cache\<close>

definition keeps_for :: "int \<Rightarrow> ReleaseStatus \<Rightarrow> int option" where
  "keeps_for t st =
     (case st of ReleaseAccepted \<Rightarrow> None
      | ReleaseUnavailable \<Rightarrow> Some (t + unavailableTTL)
      | ReleaseRejected \<Rightarrow> Some (t + rejectedTTL))"

text \<open>Making room: what has expired goes, then, if that is not enough, what is not an acceptance.\<close>

definition drop_verdicts :: "int \<Rightarrow> cachedVerdict gomap \<Rightarrow> cachedVerdict gomap" where
  "drop_verdicts t m =
     (let m1 = filter (\<lambda>(d, e). case ch_until e of None \<Rightarrow> True | Some u \<Rightarrow> t < u) m in
      if length m1 \<ge> maxCachedVerdicts
      then filter (\<lambda>(d, e). rv_Status (ch_verdict e) = ReleaseAccepted) m1 else m1)"

definition cache_verdict :: "int \<Rightarrow> string \<Rightarrow> ReleaseVerdict \<Rightarrow> cachedVerdict gomap \<Rightarrow> cachedVerdict gomap" where
  "cache_verdict t digest verdict m =
     (let c = \<lparr>ch_verdict = verdict, ch_until = keeps_for t (rv_Status verdict)\<rparr> in
      if mhas m digest \<or> length m < maxCachedVerdicts then mput digest c m
      else let m' = drop_verdicts t m in
        if length m' \<ge> maxCachedVerdicts then m' else mput digest c m')"

definition remember ::
    "('w, 'r) prov_env \<Rightarrow> string \<Rightarrow> ReleaseVerdict \<Rightarrow> ('w, 'r) prov_state \<Rightarrow> ('w, 'r) prov_state" where
  "remember E digest verdict s = s\<lparr>ps_cache := cache_verdict (prov_now E s) digest verdict (ps_cache s)\<rparr>"

definition live_verdict :: "int \<Rightarrow> cachedVerdict \<Rightarrow> bool" where
  "live_verdict t c = (case ch_until c of None \<Rightarrow> True | Some u \<Rightarrow> t < u)"

definition prov_Verify ::
    "('w, 'r) prov_env \<Rightarrow> 'r prov_verifier \<Rightarrow> string \<Rightarrow> string \<Rightarrow> ('w, 'r) prov_state \<Rightarrow>
     ReleaseVerdict \<times> ('w, 'r) prov_state" where
  "prov_Verify E v repository digest s =
     (if repository \<noteq> po_Repository (rl_policy v) then (rejected ''another repository'', s)
      else if \<not> isSHA256Digest digest then (rejected ''not a sha256 digest'', s)
      else case (case mget (ps_cache s) digest of
                   None \<Rightarrow> None
                 | Some c \<Rightarrow> if live_verdict (prov_now E s) c then Some (ch_verdict c) else None) of
        Some verdict \<Rightarrow> (verdict, s)
      | None \<Rightarrow>
          (case prov_check E v digest s of (verdict, s1) \<Rightarrow> (verdict, remember E digest verdict s1)))"

end
