(* ===== verification/Prov_Facts.thy ===== *)
theory Prov_Facts
  imports Prov_Verifier
begin

text \<open>
  What the release verifier of client/provenance guarantees, over any sequence of its calls: an accepted
  build has the provenance of a release, an acceptance stands, and what failed to be checked is
  not a rejection. At the end a verifier that accepts a build, which witnesses them.
\<close>

section \<open>Acceptance\<close>

text \<open>A certificate of the release workflow, run on the push of the tag.\<close>

definition signed_release :: "Policy \<Rightarrow> certificate \<Rightarrow> string \<Rightarrow> bool" where
  "signed_release p c tag \<longleftrightarrow>
     ct_SAN c = po_SourceRepository p @ ''/'' @ po_Workflow p @ [CHR 0x40] @ ''refs/tags/'' @ tag
     \<and> releaseTag tag \<noteq> None \<and> ct_SourceRepositoryURI c = po_SourceRepository p
     \<and> ct_SourceRepositoryRef c = ''refs/tags/'' @ tag \<and> ct_BuildTrigger c = ''push''
     \<and> ct_RunnerEnvironment c = ''github-hosted'' \<and> versionLess tag (po_MinimumVersion p) = Some False"

definition trusted_root :: "('w, 'r) prov_env \<Rightarrow> 'r prov_verifier \<Rightarrow> 'r \<Rightarrow> bool" where
  "trusted_root E v r \<longleftrightarrow> r = rl_snapshot v \<or> (\<exists>f w. pe_root E = Some f \<and> fst (f w) = Some r)"

text \<open>The build has a bundle that verifies under a trusted root and is provenance of the release.\<close>

definition released :: "('w, 'r) prov_env \<Rightarrow> 'r prov_verifier \<Rightarrow> string \<Rightarrow> BrokerRelease \<Rightarrow> bool" where
  "released E v digest rel \<longleftrightarrow>
     digest \<notin> set (map rk_Digest (po_Revoked (rl_policy v))) \<and> br_Digest rel = digest
     \<and> (\<exists>r b want res c. trusted_root E v r \<and> digest = ''sha256:'' @ hex_encode want
          \<and> pe_sigstore E r b want (po_Issuer (rl_policy v)) (po_SourceRepository (rl_policy v) @ ''/'') = Some res
          \<and> vr_Certificate res = Some c \<and> vr_PredicateType res = Some slsaProvenanceV1
          \<and> signed_release (rl_policy v) c (br_Version rel) \<and> br_Commit rel = ct_SourceRepositoryDigest c)"

lemma release_Inr:
  assumes "release p digest res = Inr rel"
  shows "\<exists>c. vr_Certificate res = Some c \<and> vr_PredicateType res = Some slsaProvenanceV1
    \<and> signed_release p c (br_Version rel) \<and> br_Digest rel = digest \<and> br_Commit rel = ct_SourceRepositoryDigest c"
proof -
  let ?pre = "signerPrefix p @ ''refs/tags/''"
  obtain c where c: "vr_Certificate res = Some c" using assms by (cases "vr_Certificate res") (auto simp: release_def)
  have pre: "prefix ?pre (ct_SAN c)"
    using assms c by (auto simp: release_def Let_def split: if_splits)
  then have san: "ct_SAN c = ?pre @ trim_prefix ?pre (ct_SAN c)"
    by (auto simp: trim_prefix_def elim: prefixE)
  have "signed_release p c (br_Version rel) \<and> vr_PredicateType res = Some slsaProvenanceV1
      \<and> br_Digest rel = digest \<and> br_Commit rel = ct_SourceRepositoryDigest c"
    using assms c san[unfolded signerPrefix_def]
    by (auto simp: release_def Let_def signed_release_def signerPrefix_def split: if_splits option.splits bool.splits)
  then show ?thesis using c by blast
qed

lemma judge_bundles_Inr:
  "judge_bundles E p tr digest want bs u = Inr rel \<Longrightarrow>
     \<exists>b\<in>set bs. pe_parses E b \<and> (\<exists>res. pe_sigstore E tr b want (po_Issuer p) (po_SourceRepository p @ ''/'') = Some res
       \<and> release p digest res = Inr rel)"
  by (induction bs arbitrary: u) (auto split: if_splits option.splits sum.splits)

lemma digest_hex:
  assumes "isSHA256Digest digest"
  shows "\<exists>want. hex_decode (trim_prefix ''sha256:'' digest) = Some want \<and> digest = ''sha256:'' @ hex_encode want"
proof -
  obtain h where h: "digest = ''sha256:'' @ h" "length h = 64" "list_all is_lower_hex h"
    using assms by (auto simp: isSHA256Digest_def cut_prefix_def elim!: prefixE split: option.splits if_splits)
  have "isLowerHex h (2 * 32)" using h by (simp add: isLowerHex_def)
  from hex_decode_lower[OF this] show ?thesis using trim_prefix_append[of "''sha256:''" h] h(1) by auto
qed

section \<open>Runs\<close>

inductive prov_run :: "('w, 'r) prov_env \<Rightarrow> 'r prov_verifier \<Rightarrow> ('w, 'r) prov_state \<Rightarrow> ('w, 'r) prov_state \<Rightarrow> bool"
  for E v s0 where
  start: "prov_run E v s0 s0"
| ask: "prov_run E v s0 s \<Longrightarrow> prov_run E v s0 (snd (prov_Verify E v repository digest s))"
| outside: "prov_run E v s0 s \<Longrightarrow> prov_run E v s0 (s\<lparr>ps_registry := (ps_registry s)\<lparr>rg_world := w\<rparr>\<rparr>)"

definition cache_ok :: "('w, 'r) prov_env \<Rightarrow> 'r prov_verifier \<Rightarrow> cachedVerdict gomap \<Rightarrow> bool" where
  "cache_ok E v m \<longleftrightarrow> mwf m \<and> length m \<le> maxCachedVerdicts
     \<and> (\<forall>d e. mget m d = Some e \<longrightarrow> (ch_until e = None \<longleftrightarrow> rv_Status (ch_verdict e) = ReleaseAccepted)
          \<and> (rv_Status (ch_verdict e) = ReleaseAccepted \<longrightarrow>
               (\<exists>rel. rv_Release (ch_verdict e) = Some rel \<and> released E v d rel)))"

definition prov_ok :: "('w, 'r) prov_env \<Rightarrow> 'r prov_verifier \<Rightarrow> ('w, 'r) prov_state \<Rightarrow> bool" where
  "prov_ok E v s \<longleftrightarrow> cache_ok E v (ps_cache s) \<and> (\<forall>r. ps_trusted s = Some r \<longrightarrow> trusted_root E v r)"

text \<open>What making room keeps.\<close>

lemma mget_filter_cached:
  "mwf m \<Longrightarrow> mget (filter (\<lambda>(d, e). P e) m) k = Some e \<longleftrightarrow> mget m k = Some e \<and> P e"
  by (auto simp: mget_filter split: option.splits)

lemma drop_verdicts_facts:
  assumes "mwf m"
  shows "mwf (drop_verdicts t m)" "length (drop_verdicts t m) \<le> length m"
    "mget (drop_verdicts t m) k = Some e \<Longrightarrow> mget m k = Some e"
    "mget m k = Some e \<Longrightarrow> ch_until e = None \<Longrightarrow> rv_Status (ch_verdict e) = ReleaseAccepted \<Longrightarrow>
       mget (drop_verdicts t m) k = Some e"
proof -
  let ?P = "\<lambda>(d, e). case ch_until e of None \<Rightarrow> True | Some u \<Rightarrow> t < u"
  let ?Q = "\<lambda>(d, e). rv_Status (ch_verdict e) = ReleaseAccepted"
  let ?m = "filter ?P m"
  have w: "mwf ?m" using assms by (rule mwf_filter)
  have len: "length ?m \<le> length m" "length (filter ?Q ?m) \<le> length m"
    using length_filter_le[of ?P m] length_filter_le[of ?Q ?m] by linarith+
  have d: "drop_verdicts t m = (if length ?m \<ge> maxCachedVerdicts then filter ?Q ?m else ?m)"
    by (simp add: drop_verdicts_def Let_def)
  have P: "mget ?m k = Some e \<longleftrightarrow> mget m k = Some e \<and> (case ch_until e of None \<Rightarrow> True | Some u \<Rightarrow> t < u)"
    for k e by (rule mget_filter_cached[OF assms])
  have Q: "mget (filter ?Q ?m) k = Some e \<longleftrightarrow> mget ?m k = Some e \<and> rv_Status (ch_verdict e) = ReleaseAccepted"
    for k e by (rule mget_filter_cached[OF w])
  show "mwf (drop_verdicts t m)" unfolding d using w mwf_filter[OF w, of ?Q] by (cases "length ?m \<ge> maxCachedVerdicts") simp_all
  show "length (drop_verdicts t m) \<le> length m" unfolding d using len by presburger
  show "mget (drop_verdicts t m) k = Some e \<Longrightarrow> mget m k = Some e"
    unfolding d using P[of k e] Q[of k e] by (cases "length ?m \<ge> maxCachedVerdicts") (simp_all del: filter_filter)
  show "mget m k = Some e \<Longrightarrow> ch_until e = None \<Longrightarrow> rv_Status (ch_verdict e) = ReleaseAccepted \<Longrightarrow>
       mget (drop_verdicts t m) k = Some e"
    unfolding d using P[of k e] Q[of k e] by (cases "length ?m \<ge> maxCachedVerdicts") (simp_all del: filter_filter)
qed

lemma cache_verdict_cases:
  "cache_verdict t d vd m = mput d \<lparr>ch_verdict = vd, ch_until = keeps_for t (rv_Status vd)\<rparr> m
     \<and> (mhas m d \<or> length m < maxCachedVerdicts)
   \<or> cache_verdict t d vd m = drop_verdicts t m
   \<or> cache_verdict t d vd m = mput d \<lparr>ch_verdict = vd, ch_until = keeps_for t (rv_Status vd)\<rparr> (drop_verdicts t m)
     \<and> length (drop_verdicts t m) < maxCachedVerdicts"
  by (auto simp: cache_verdict_def Let_def)

lemma cache_verdict_get:
  assumes "mwf m"
  shows "mwf (cache_verdict t d vd m)"
    "mget (cache_verdict t d vd m) k = Some e \<Longrightarrow>
       mget m k = Some e \<or> k = d \<and> e = \<lparr>ch_verdict = vd, ch_until = keeps_for t (rv_Status vd)\<rparr>"
    "length m \<le> maxCachedVerdicts \<Longrightarrow> length (cache_verdict t d vd m) \<le> maxCachedVerdicts"
proof -
  let ?c = "\<lparr>ch_verdict = vd, ch_until = keeps_for t (rv_Status vd)\<rparr>" and ?m = "drop_verdicts t m"
  note f = drop_verdicts_facts(1-3)[OF assms, where t = t]
  consider "cache_verdict t d vd m = mput d ?c m" "mhas m d \<or> length m < maxCachedVerdicts"
    | "cache_verdict t d vd m = ?m"
    | "cache_verdict t d vd m = mput d ?c ?m" "length ?m < maxCachedVerdicts"
    using cache_verdict_cases[of t d vd m] by blast
  then have "mwf (cache_verdict t d vd m)
    \<and> (mget (cache_verdict t d vd m) k = Some e \<longrightarrow> mget m k = Some e \<or> k = d \<and> e = ?c)
    \<and> (length m \<le> maxCachedVerdicts \<longrightarrow> length (cache_verdict t d vd m) \<le> maxCachedVerdicts)"
  proof cases
    case 1
    then show ?thesis using assms by (auto simp: mwf_mput mget_mput length_mput split: if_splits)
  next
    case 2
    then show ?thesis using f by simp
  next
    case 3
    then show ?thesis using f(1) f(3)[of k e] by (auto simp: mwf_mput mget_mput length_mput split: if_splits)
  qed
  then show "mwf (cache_verdict t d vd m)"
    "mget (cache_verdict t d vd m) k = Some e \<Longrightarrow> mget m k = Some e \<or> k = d \<and> e = ?c"
    "length m \<le> maxCachedVerdicts \<Longrightarrow> length (cache_verdict t d vd m) \<le> maxCachedVerdicts"
    by blast+
qed

lemma cache_verdict_stays:
  assumes "mwf m" "mget m k = Some e" "ch_until e = None" "rv_Status (ch_verdict e) = ReleaseAccepted" "k \<noteq> d"
  shows "mget (cache_verdict t d vd m) k = Some e"
  using cache_verdict_cases[of t d vd m] drop_verdicts_facts(4)[OF assms(1-4), of t]
    mget_mput[OF assms(1)] mget_mput[OF drop_verdicts_facts(1)[OF assms(1)]] assms(2,5)
  by metis

lemma cache_ok_remember:
  assumes "cache_ok E v m"
    and "rv_Status vd = ReleaseAccepted \<Longrightarrow> \<exists>rel. rv_Release vd = Some rel \<and> released E v d rel"
  shows "cache_ok E v (cache_verdict t d vd m)"
proof -
  have m: "mwf m" "length m \<le> maxCachedVerdicts" using assms(1) by (simp_all add: cache_ok_def)
  have k: "keeps_for t st = None \<longleftrightarrow> st = ReleaseAccepted" for st by (cases st) (simp_all add: keeps_for_def)
  show ?thesis
    unfolding cache_ok_def
  proof (intro conjI allI impI)
    fix k e
    assume "mget (cache_verdict t d vd m) k = Some e"
    from cache_verdict_get(2)[OF m(1) this] assms k
    show "ch_until e = None \<longleftrightarrow> rv_Status (ch_verdict e) = ReleaseAccepted"
      "rv_Status (ch_verdict e) = ReleaseAccepted \<Longrightarrow>
         \<exists>rel. rv_Release (ch_verdict e) = Some rel \<and> released E v k rel"
      by (auto simp: cache_ok_def)
  qed (use cache_verdict_get[OF m(1)] m in simp_all)
qed

section \<open>One call\<close>

lemma prov_trust_ok:
  assumes "prov_ok E v s" "prov_trust E v s = ((r, stale), s')"
  shows "prov_ok E v s' \<and> trusted_root E v r \<and> ps_cache s' = ps_cache s"
proof -
  have f: "pe_root E = Some f \<Longrightarrow> f w = (Some x, w') \<Longrightarrow> trusted_root E v x" for f w x w'
    unfolding trusted_root_def by (metis fst_conv)
  have n: "trusted_root E v (rl_snapshot v)" by (simp add: trusted_root_def)
  show ?thesis
    using assms f n
    by (cases "ps_trusted s"; cases "pe_root E")
      (auto simp: prov_trust_def prov_ok_def Let_def rg_call_def split: if_splits option.splits prod.splits)
qed

lemma prov_judge_ok:
  assumes "prov_ok E v s" "isSHA256Digest digest" "digest \<notin> set (map rk_Digest (po_Revoked (rl_policy v)))"
    and "prov_judge E v digest bs s = (vd, s')"
  shows "prov_ok E v s' \<and> ps_cache s' = ps_cache s \<and>
    (rv_Status vd = ReleaseAccepted \<longrightarrow> (\<exists>rel. rv_Release vd = Some rel \<and> released E v digest rel))"
proof (cases "bs = []")
  case True
  then show ?thesis using assms by (auto simp: prov_judge_def rejected_def)
next
  case False
  obtain want where w: "hex_decode (trim_prefix ''sha256:'' digest) = Some want" "digest = ''sha256:'' @ hex_encode want"
    using digest_hex[OF assms(2)] by blast
  obtain r stale s1 where T: "prov_trust E v s = ((r, stale), s1)" by (metis prod.exhaust)
  note t = prov_trust_ok[OF assms(1) T]
  show ?thesis
  proof (cases "judge_bundles E (rl_policy v) r digest want bs False")
    case (Inl u)
    then show ?thesis
      using assms(4) False w(1) T t by (auto simp: prov_judge_def rejected_def unavailable_def split: if_splits)
  next
    case (Inr rel)
    obtain b res where b: "pe_sigstore E r b want (po_Issuer (rl_policy v)) (po_SourceRepository (rl_policy v) @ ''/'') = Some res"
      "release (rl_policy v) digest res = Inr rel"
      using judge_bundles_Inr[OF Inr] by blast
    have "released E v digest rel"
      using release_Inr[OF b(2)] b(1) w(2) t assms(3) unfolding released_def by blast
    then show ?thesis using assms(4) False w(1) T t Inr by (auto simp: prov_judge_def)
  qed
qed

lemma prov_check_ok:
  assumes "prov_ok E v s" "isSHA256Digest digest" "prov_check E v digest s = (vd, s')"
  shows "prov_ok E v s' \<and> ps_cache s' = ps_cache s \<and>
    (rv_Status vd = ReleaseAccepted \<longrightarrow> (\<exists>rel. rv_Release vd = Some rel \<and> released E v digest rel))"
proof (cases "digest \<in> set (map rk_Digest (po_Revoked (rl_policy v)))")
  case True
  then show ?thesis using assms by (auto simp: prov_check_def rejected_def)
next
  case False
  obtain x g where B: "bundles (pe_http E) (po_Repository (rl_policy v)) digest (ps_registry s) = (x, g)" by fastforce
  have ok: "prov_ok E v (s\<lparr>ps_registry := g\<rparr>)" using assms(1) by (simp add: prov_ok_def)
  show ?thesis
  proof (cases x)
    case (Inl e)
    then show ?thesis
      using assms(3) False B ok by (cases e) (auto simp: prov_check_def rejected_def unavailable_def)
  next
    case (Inr bs)
    then show ?thesis
      using assms(3) False B prov_judge_ok[OF ok assms(2) False, of bs vd s'] by (simp add: prov_check_def)
  qed
qed

lemma prov_Verify_ok:
  assumes "prov_ok E v s" "prov_Verify E v repository digest s = (vd, s')"
  shows "prov_ok E v s' \<and> (rv_Status vd = ReleaseAccepted \<longrightarrow> repository = po_Repository (rl_policy v)
     \<and> (\<exists>rel. rv_Release vd = Some rel \<and> released E v digest rel))"
proof (cases "repository = po_Repository (rl_policy v) \<and> isSHA256Digest digest")
  case False
  then show ?thesis using assms by (auto simp: prov_Verify_def rejected_def split: if_splits)
next
  case True
  let ?hit = "case mget (ps_cache s) digest of None \<Rightarrow> None
    | Some c \<Rightarrow> if live_verdict (prov_now E s) c then Some (ch_verdict c) else None"
  show ?thesis
  proof (cases ?hit)
    case None
    obtain y s1 where C: "prov_check E v digest s = (y, s1)" by fastforce
    note c = prov_check_ok[OF assms(1) _ C]
    have "prov_Verify E v repository digest s = (y, remember E digest y s1)"
      using True None C by (simp add: prov_Verify_def)
    then have "vd = y" "s' = remember E digest y s1" using assms(2) by simp_all
    then show ?thesis
      using c True cache_ok_remember[of E v "ps_cache s1" y digest "prov_now E s1"]
      by (auto simp: prov_ok_def remember_def)
  next
    case (Some y)
    then have "prov_Verify E v repository digest s = (y, s)" using True by (simp add: prov_Verify_def)
    then have "vd = y" "s' = s" using assms(2) by simp_all
    then show ?thesis
      using Some assms(1) True by (auto simp: prov_ok_def cache_ok_def split: option.splits if_splits)
  qed
qed

lemma prov_ok_new [simp]: "prov_ok E v (prov_new w)"
  by (simp add: prov_ok_def prov_new_def cache_ok_def)

lemma prov_ok_outside: "prov_ok E v s \<Longrightarrow> prov_ok E v (s\<lparr>ps_registry := g\<rparr>)"
  by (simp add: prov_ok_def)

lemma prov_run_ok: "prov_run E v s0 s \<Longrightarrow> prov_ok E v s0 \<Longrightarrow> prov_ok E v s"
proof (induction rule: prov_run.induct)
  case start
  then show ?case .
next
  case (ask s repository digest)
  show ?case by (rule conjunct1[OF prov_Verify_ok[OF ask.IH[OF ask.prems] prod.collapse[symmetric]]])
next
  case (outside s w)
  show ?case by (rule prov_ok_outside[OF outside.IH[OF outside.prems]])
qed

section \<open>What it guarantees\<close>

text \<open>
  C34: A build the release verifier calls accepted is a release: it is in the policy's repository and not
  revoked, and a bundle over its digest verified under the embedded trust root or one fetched over TUF
  is SLSA provenance, signed by the release workflow run on the push of a release tag, at or above
  the minimum version, on a hosted runner. This holds whatever was asked before, whatever the verdict's
  age and whatever the registry answers.
\<close>

theorem accepted_build_is_released:
  assumes "prov_run E v (prov_new w) s" and "prov_Verify E v repository digest s = (vd, s')"
    and "rv_Status vd = ReleaseAccepted"
  shows "repository = po_Repository (rl_policy v) \<and> (\<exists>rel. rv_Release vd = Some rel \<and> released E v digest rel)"
  using prov_Verify_ok[OF prov_run_ok[OF assms(1) prov_ok_new] assms(2)] assms(3) by blast

lemma acceptance_kept:
  assumes "prov_run E v s1 s2" "prov_ok E v s1" "mget (ps_cache s1) digest = Some e"
    "rv_Status (ch_verdict e) = ReleaseAccepted"
  shows "mget (ps_cache s2) digest = Some e"
  using assms(1)
proof (induction rule: prov_run.induct)
  case start
  show ?case by (rule assms(3))
next
  case (ask s repository d)
  have ok: "prov_ok E v s" using prov_run_ok[OF ask.hyps assms(2)] .
  then have u: "ch_until e = None" "mwf (ps_cache s)" using ask.IH assms(4) by (auto simp: prov_ok_def cache_ok_def)
  show ?case
  proof (cases "repository = po_Repository (rl_policy v) \<and> isSHA256Digest d")
    case False
    then show ?thesis using ask.IH by (auto simp: prov_Verify_def)
  next
    case True
    obtain y t where C: "prov_check E v d s = (y, t)" by (cases "prov_check E v d s")
    have c: "ps_cache t = ps_cache s" using prov_check_ok[OF ok _ C] True by blast
    show ?thesis
    proof (cases "d = digest")
      case True
      then show ?thesis using \<open>repository = _ \<and> _\<close> ask.IH u by (simp add: prov_Verify_def live_verdict_def)
    next
      case False
      have "mget (cache_verdict n d y (ps_cache s)) digest = Some e" for n
        by (rule cache_verdict_stays[OF u(2) ask.IH u(1) assms(4)]) (use False in simp)
      then show ?thesis
        using True C c ask.IH by (simp add: prov_Verify_def remember_def split: option.splits)
    qed
  qed
qed simp

text \<open>
  C36: An acceptance stands: once a build is accepted and its verdict cached, every later question about it
  has the same answer without asking the registry, Sigstore or TUF again, whatever else is asked in between,
  and the cache never holds more than its bound.
\<close>

theorem acceptance_stands:
  assumes "prov_run E v (prov_new w) s" "prov_Verify E v repository digest s = (vd, s1)"
    and "rv_Status vd = ReleaseAccepted" "mhas (ps_cache s1) digest" "prov_run E v s1 s2"
  shows "prov_Verify E v repository digest s2 = (vd, s2) \<and> length (ps_cache s2) \<le> maxCachedVerdicts"
proof -
  have ok: "prov_ok E v s" by (rule prov_run_ok[OF assms(1) prov_ok_new])
  note ok1 = prov_Verify_ok[OF ok assms(2)]
  have ok2: "prov_ok E v s2" using prov_run_ok[OF assms(5)] ok1 by blast
  have r: "repository = po_Repository (rl_policy v)" "isSHA256Digest digest"
    using assms(2,3) by (auto simp: prov_Verify_def rejected_def split: if_splits)
  obtain e where e: "mget (ps_cache s1) digest = Some e" "ch_verdict e = vd"
  proof (cases "case mget (ps_cache s) digest of None \<Rightarrow> None
      | Some c \<Rightarrow> if live_verdict (prov_now E s) c then Some (ch_verdict c) else None")
    case None
    obtain y t where C: "prov_check E v digest s = (y, t)" by (cases "prov_check E v digest s")
    have "prov_Verify E v repository digest s = (y, remember E digest y t)"
      using r None C by (simp add: prov_Verify_def)
    then have V: "vd = y" "s1 = remember E digest y t" using assms(2) by simp_all
    have t: "cache_ok E v (ps_cache t)" using prov_check_ok[OF ok r(2) C] unfolding prov_ok_def by blast
    obtain e where e: "mget (ps_cache s1) digest = Some e" using assms(4) by (auto simp: mhas_def)
    have m: "mwf (ps_cache t)" using t by (simp add: cache_ok_def)
    have "mget (cache_verdict (prov_now E t) digest y (ps_cache t)) digest = Some e"
      using e V by (simp add: remember_def)
    moreover have "mget (cache_verdict n digest y (ps_cache t)) digest
        = (if mhas (cache_verdict n digest y (ps_cache t)) digest \<and> \<not> mhas (ps_cache t) digest
              \<or> mhas (ps_cache t) digest
           then Some \<lparr>ch_verdict = y, ch_until = keeps_for n (rv_Status y)\<rparr> else None)" for n
      using drop_verdicts_facts(1)[OF m, of n] drop_verdicts_facts(3)[OF m, of n digest] m
      by (auto simp: cache_verdict_def Let_def mget_mput mhas_def)
    ultimately have "ch_verdict e = vd" using V by (auto split: if_splits)
    then show ?thesis using that e by blast
  next
    case (Some y)
    then have "vd = y" "s1 = s" using assms(2) r by (simp_all add: prov_Verify_def)
    then show ?thesis using Some that by (auto split: option.splits if_splits)
  qed
  have k: "mget (ps_cache s2) digest = Some e"
    by (rule acceptance_kept[OF assms(5) _ e(1)]) (use ok1 e(2) assms(3) in simp_all)
  have "ch_until e = None" using k ok2 e(2) assms(3) by (auto simp: prov_ok_def cache_ok_def)
  then have "prov_Verify E v repository digest s2 = (vd, s2)"
    using k r e(2) by (simp add: prov_Verify_def live_verdict_def)
  then show ?thesis using ok2 by (simp add: prov_ok_def cache_ok_def)
qed

section \<open>What is not a refusal\<close>

definition is_release_bundle :: "('w, 'r) prov_env \<Rightarrow> Policy \<Rightarrow> 'r \<Rightarrow> string \<Rightarrow> bytes \<Rightarrow> bytes \<Rightarrow> bool" where
  "is_release_bundle E p tr digest want b \<longleftrightarrow> pe_parses E b
     \<and> (\<exists>res rel. pe_sigstore E tr b want (po_Issuer p) (po_SourceRepository p @ ''/'') = Some res
          \<and> release p digest res = Inr rel)"

definition unverified_bundle :: "('w, 'r) prov_env \<Rightarrow> Policy \<Rightarrow> 'r \<Rightarrow> bytes \<Rightarrow> bytes \<Rightarrow> bool" where
  "unverified_bundle E p tr want b \<longleftrightarrow> pe_parses E b
     \<and> pe_sigstore E tr b want (po_Issuer p) (po_SourceRepository p @ ''/'') = None"

lemma judge_bundles_exact:
  "(case judge_bundles E p tr digest want bs u of
      Inr _ \<Rightarrow> \<exists>b\<in>set bs. is_release_bundle E p tr digest want b
    | Inl x \<Rightarrow> (\<forall>b\<in>set bs. \<not> is_release_bundle E p tr digest want b)
        \<and> (x \<longleftrightarrow> u \<or> (\<exists>b\<in>set bs. unverified_bundle E p tr want b)))"
proof (induction bs arbitrary: u)
  case (Cons b bs)
  consider "\<not> pe_parses E b"
    | "pe_parses E b" "pe_sigstore E tr b want (po_Issuer p) (po_SourceRepository p @ ''/'') = None"
    | res where "pe_parses E b" "pe_sigstore E tr b want (po_Issuer p) (po_SourceRepository p @ ''/'') = Some res"
    by (cases "pe_sigstore E tr b want (po_Issuer p) (po_SourceRepository p @ ''/'')") auto
  then show ?case
  proof cases
    case 1
    then show ?thesis using Cons[of u] by (auto simp: is_release_bundle_def unverified_bundle_def split: sum.splits)
  next
    case 2
    then show ?thesis using Cons[of True] by (auto simp: is_release_bundle_def unverified_bundle_def split: sum.splits)
  next
    case (3 res)
    then show ?thesis
      using Cons[of u]
      by (cases "release p digest res") (auto simp: is_release_bundle_def unverified_bundle_def split: sum.splits)
  qed
qed simp


section \<open>Versions\<close>

text \<open>The order of tags is that of their numbers, as long as these fit; a policy that parses names a tag.\<close>

lemma version_order:
  assumes "releaseTag a = Some [a1, a2, a3]" "releaseTag b = Some [b1, b2, b3]"
    and "\<And>n. n \<in> {a1, a2, a3, b1, b2, b3} \<Longrightarrow> digits_val n < 2 ^ 63"
  shows "versionLess a b = Some (digits_val a1 < digits_val b1
     \<or> digits_val a1 = digits_val b1 \<and> (digits_val a2 < digits_val b2
        \<or> digits_val a2 = digits_val b2 \<and> digits_val a3 < digits_val b3))"
proof -
  have n: "digits_val n < 2 ^ 63 \<Longrightarrow> atoi_value n = digits_val n" for n
  proof -
    have pred: "x < y \<Longrightarrow> min x (y - 1) = x" for x y :: nat by arith
    show "digits_val n < 2 ^ 63 \<Longrightarrow> atoi_value n = digits_val n" unfolding atoi_value_def by (rule pred)
  qed
  have v: "atoi_value a1 = digits_val a1" "atoi_value a2 = digits_val a2" "atoi_value a3 = digits_val a3"
    "atoi_value b1 = digits_val b1" "atoi_value b2 = digits_val b2" "atoi_value b3 = digits_val b3"
    by (rule n, rule assms(3), simp)+
  show ?thesis unfolding versionLess_def assms(1,2) option.case prod.case numbers_less.simps v by simp
qed

lemma version_saturates:
  "versionLess ''v9223372036854775807.0.0'' ''v9223372036854775808.0.0'' = Some False"
proof -
  have "releaseTag ''v9223372036854775807.0.0'' = Some [''9223372036854775807'', ''0'', ''0'']"
    "releaseTag ''v9223372036854775808.0.0'' = Some [''9223372036854775808'', ''0'', ''0'']"
    by code_simp+
  moreover have "digits_val ''9223372036854775807'' = 9223372036854775807"
    "digits_val ''9223372036854775808'' = 9223372036854775808"
    by (simp_all add: digits_val_def)
  ultimately show ?thesis by (simp add: versionLess_def atoi_value_def)
qed

lemma ParsePolicy_checked: "ParsePolicy raw = Inr p \<Longrightarrow> check_policy p = Inr ()"
  by (auto simp: ParsePolicy_def bind_r_eq_Inr)

lemma release_never_panics:
  assumes "ParsePolicy raw = Inr p"
  shows "release p digest res \<noteq> Inl TagPanic"
proof -
  have "releaseTag (po_MinimumVersion p) \<noteq> None"
    using ParsePolicy_checked[OF assms] by (auto simp: check_policy_def bind_r_eq_Inr fail_if_def split: if_splits)
  then show ?thesis by (auto simp: release_def Let_def versionLess_def split: option.splits bool.splits if_splits)
qed

section \<open>A build that is accepted\<close>

text \<open>
  A release verifier asked about one build: the registry answers its three requests with the index, the
  manifest and the bundle, and Sigstore vouches for the release workflow on tag v1.2.3.
\<close>

definition prov_demo_policy :: Policy where
  "prov_demo_policy = \<lparr>po_Repository = ''ghcr.io/o/b'', po_SourceRepository = ''https://github.com/o/b'',
     po_Workflow = ''.github/workflows/r.yml'', po_Issuer = ''i'', po_MinimumVersion = ''v1.0.0'', po_Revoked = []\<rparr>"

definition prov_demo_build :: string where "prov_demo_build = ''sha256:'' @ replicate 64 (CHR ''a'')"

definition prov_demo_blob :: string where "prov_demo_blob = ''sha256:'' @ hex_encode (sha256 ''b'')"

definition prov_demo_manifest :: json where
  "prov_demo_manifest = JObj [(''subject'', JObj [(''digest'', JStr prov_demo_build)]),
     (''layers'', JArr [JObj [(''mediaType'', JStr sigstoreBundlePrefix), (''digest'', JStr prov_demo_blob)]])]"

definition prov_demo_listed :: string where
  "prov_demo_listed = ''sha256:'' @ hex_encode (sha256 (json_print prov_demo_manifest))"

definition prov_demo_index :: json where
  "prov_demo_index = JObj [(''manifests'', JArr [JObj [(''digest'', JStr prov_demo_listed)]])]"

definition prov_demo_body :: "nat \<Rightarrow> bytes" where
  "prov_demo_body n = (if n = 0 then json_print prov_demo_index else if n = 1 then json_print prov_demo_manifest else ''b'')"

definition prov_demo_ok :: "bytes \<Rightarrow> http_response" where
  "prov_demo_ok b = \<lparr>hr_Status = 200, hr_Header = [], hr_Body = b, hr_End = None\<rparr>"

definition prov_demo_cert :: certificate where
  "prov_demo_cert = \<lparr>ct_SAN = ''https://github.com/o/b/.github/workflows/r.yml'' @ [CHR 0x40] @ ''refs/tags/v1.2.3'',
     ct_SourceRepositoryURI = ''https://github.com/o/b'', ct_SourceRepositoryRef = ''refs/tags/v1.2.3'',
     ct_BuildTrigger = ''push'', ct_RunnerEnvironment = ''github-hosted'', ct_SourceRepositoryDigest = ''c''\<rparr>"

definition prov_demo_result :: VerificationResult where
  "prov_demo_result = \<lparr>vr_Certificate = Some prov_demo_cert, vr_PredicateType = Some slsaProvenanceV1\<rparr>"

definition prov_demo_env :: "(nat, unit) prov_env" where
  "prov_demo_env = \<lparr>pe_http = \<lparr>hc_valid = (\<lambda>_. True), hc_get = (\<lambda>_ _ n. (Some (prov_demo_ok (prov_demo_body n)), Suc n))\<rparr>,
     pe_now = int, pe_root = None, pe_parses = (\<lambda>_. True), pe_sigstore = (\<lambda>_ _ _ _ _. Some prov_demo_result)\<rparr>"

definition prov_demo_verifier :: "unit prov_verifier" where
  "prov_demo_verifier = \<lparr>rl_policy = prov_demo_policy, rl_snapshot = ()\<rparr>"

definition prov_demo_release :: BrokerRelease where
  "prov_demo_release = \<lparr>br_Version = ''v1.2.3'', br_Digest = prov_demo_build, br_Commit = ''c''\<rparr>"

definition prov_demo_accepted :: ReleaseVerdict where
  "prov_demo_accepted = \<lparr>rv_Status = ReleaseAccepted, rv_Release = Some prov_demo_release, rv_Reason = []\<rparr>"

lemma length_escape_char: "length (escape_char c) \<le> 6"
  by (simp add: escape_char_def)

lemma length_print_str: "length (print_str s) \<le> 6 * length s + 2"
proof -
  have "length (concat (map escape_char s)) \<le> 6 * length s"
    by (induction s) (use length_escape_char in \<open>auto intro: add_mono\<close>)
  then show ?thesis by (simp add: print_str_def)
qed

lemma sha256_digest: "isSHA256Digest (''sha256:'' @ hex_encode (sha256 m))"
  using hex_encode_lower[of _ "sha256 m"] by (auto simp: isSHA256Digest_def cut_prefix_def list_all_iff)

lemma prov_demo_digests: "isSHA256Digest prov_demo_listed" "isSHA256Digest prov_demo_blob" "isSHA256Digest prov_demo_build"
  unfolding prov_demo_listed_def prov_demo_blob_def by (rule sha256_digest)+ (simp add: prov_demo_build_def isSHA256Digest_def cut_prefix_def is_lower_hex_def list_all_iff)

lemma prov_demo_lengths: "length prov_demo_listed = 71" "length prov_demo_blob = 71" "length prov_demo_build = 71"
  by (simp_all add: prov_demo_listed_def prov_demo_blob_def prov_demo_build_def)

lemma prov_demo_texts:
  "length (json_print prov_demo_index) < 2000" "length (json_print prov_demo_manifest) < 2000"
  using length_print_str[of prov_demo_listed] length_print_str[of prov_demo_blob] length_print_str[of prov_demo_build]
    length_print_str[of "''subject''"] length_print_str[of "''digest''"] length_print_str[of "''layers''"]
    length_print_str[of "''mediaType''"] length_print_str[of "''manifests''"] length_print_str[of sigstoreBundlePrefix]
  by (simp_all add: prov_demo_index_def prov_demo_manifest_def json_print.simps prov_demo_lengths sigstoreBundlePrefix_def)

lemma prov_demo_parsed:
  "json_parse (json_print prov_demo_index) = Some prov_demo_index"
  "json_parse (json_print prov_demo_manifest) = Some prov_demo_manifest"
  by (rule json_parse_print, simp add: prov_demo_index_def prov_demo_manifest_def)+

lemma prov_demo_decoded:
  "index_of prov_demo_index = Some [ds_zero\<lparr>ds_Digest := prov_demo_listed\<rparr>]"
  "manifest_of prov_demo_manifest = Some \<lparr>mn_Subject = Some (ds_zero\<lparr>ds_Digest := prov_demo_build\<rparr>),
     mn_Layers = [ds_zero\<lparr>ds_MediaType := sigstoreBundlePrefix, ds_Digest := prov_demo_blob\<rparr>]\<rparr>"
  by (simp_all add: index_of_def manifest_of_def prov_demo_index_def prov_demo_manifest_def decode_struct_def struct_field_def
      list_of_def as_array_def descriptor_into_def ds_zero_def str_into_def or_else_def)

lemma prov_demo_matches: "digestMatches (json_print prov_demo_manifest) prov_demo_listed" "digestMatches ''b'' prov_demo_blob"
  by (simp_all add: digestMatches_def prov_demo_listed_def prov_demo_blob_def)

lemma prov_demo_get:
  assumes "length (prov_demo_body n) \<le> limit"
  shows "rg_get (pe_http prov_demo_env) host name path accept limit registryAttempts \<lparr>rg_world = n, rg_tokens = []\<rparr>
     = (Inr (prov_demo_body n, 200), \<lparr>rg_world = Suc n, rg_tokens = []\<rparr>)"
  using assms by (simp add: registryAttempts_def numeral_2_eq_2 prov_demo_env_def rg_call_def prov_demo_ok_def Let_def)

lemma prov_demo_bundles:
  "bundles (pe_http prov_demo_env) (po_Repository prov_demo_policy) prov_demo_build \<lparr>rg_world = 0, rg_tokens = []\<rparr>
     = (Inr [''b''], \<lparr>rg_world = Suc (Suc (Suc 0)), rg_tokens = []\<rparr>)"
proof -
  have c: "cut_at (CHR ''/'') (po_Repository prov_demo_policy) = Some (''ghcr.io'', ''o/b'')" by (simp add: prov_demo_policy_def)
  have 0: "referrers (pe_http prov_demo_env) ''ghcr.io'' ''o/b'' prov_demo_build \<lparr>rg_world = 0, rg_tokens = []\<rparr>
      = (Inr (Some [ds_zero\<lparr>ds_Digest := prov_demo_listed\<rparr>]), \<lparr>rg_world = Suc 0, rg_tokens = []\<rparr>)"
    using prov_demo_texts(1)
    by (simp add: referrers_def prov_demo_get[of 0] prov_demo_body_def maxIndexBytes_def prov_demo_parsed prov_demo_decoded Let_def)
  have m: "attached_layers prov_demo_build prov_demo_listed (json_print prov_demo_manifest)
      = [ds_zero\<lparr>ds_MediaType := sigstoreBundlePrefix, ds_Digest := prov_demo_blob\<rparr>]"
    by (simp add: attached_layers_def prov_demo_matches prov_demo_parsed prov_demo_decoded)
  have l: "layer_bundles (pe_http prov_demo_env) ''ghcr.io'' ''o/b''
        [ds_zero\<lparr>ds_MediaType := sigstoreBundlePrefix, ds_Digest := prov_demo_blob\<rparr>] \<lparr>rg_world = Suc (Suc 0), rg_tokens = []\<rparr>
      = (Inr [''b''], \<lparr>rg_world = Suc (Suc (Suc 0)), rg_tokens = []\<rparr>)"
    using prov_demo_digests(2)
    by (simp add: prov_demo_get[of "Suc (Suc 0)"] prov_demo_body_def maxBundleBytes_def prov_demo_matches)
  have "manifest_bundles (pe_http prov_demo_env) ''ghcr.io'' ''o/b'' prov_demo_build [ds_zero\<lparr>ds_Digest := prov_demo_listed\<rparr>]
        \<lparr>rg_world = Suc 0, rg_tokens = []\<rparr> = (Inr [''b''], \<lparr>rg_world = Suc (Suc (Suc 0)), rg_tokens = []\<rparr>)"
    using prov_demo_digests(1) prov_demo_texts(2) l
    by (simp add: prov_demo_get[of "Suc 0"] prov_demo_body_def maxManifestBytes_def m del: layer_bundles.simps)
  then show ?thesis using c 0 by (simp add: bundles_def maxReferrers_def)
qed

lemma prov_demo_released: "release prov_demo_policy prov_demo_build prov_demo_result = Inr prov_demo_release"
proof -
  have t: "releaseTag ''v1.2.3'' = Some [''1'', ''2'', ''3'']" "releaseTag ''v1.0.0'' = Some [''1'', ''0'', ''0'']"
    by code_simp+
  have "digits_val ''0'' = 0" "digits_val ''1'' = 1" "digits_val ''2'' = 2" "digits_val ''3'' = 3"
    by (simp_all add: digits_val_def)
  then have "versionLess ''v1.2.3'' ''v1.0.0'' = Some False"
    by (subst version_order[OF t]) auto
  then show ?thesis
    using t by (simp add: release_def prov_demo_result_def prov_demo_cert_def prov_demo_policy_def signerPrefix_def trim_prefix_def
        prov_demo_release_def Let_def)
qed

lemma prov_demo_Verify:
  "\<exists>s'. prov_Verify prov_demo_env prov_demo_verifier ''ghcr.io/o/b'' prov_demo_build (prov_new 0) = (prov_demo_accepted, s')
     \<and> mhas (ps_cache s') prov_demo_build"
proof -
  obtain want where w: "hex_decode (trim_prefix ''sha256:'' prov_demo_build) = Some want"
    using digest_hex[OF prov_demo_digests(3)] by blast
  have "po_Repository prov_demo_policy = ''ghcr.io/o/b''" "po_Revoked prov_demo_policy = []" by (simp_all add: prov_demo_policy_def)
  then show ?thesis
    using w prov_demo_bundles prov_demo_digests(3) prov_demo_released
    by (simp add: prov_Verify_def prov_demo_verifier_def prov_new_def prov_check_def prov_judge_def prov_trust_def
        prov_demo_env_def prov_demo_accepted_def remember_def cache_verdict_def mhas_def maxCachedVerdicts_def Let_def
        split: prod.splits)
qed

theorem accepted_build_is_released_witness:
  "\<exists>s' rel. prov_Verify prov_demo_env prov_demo_verifier ''ghcr.io/o/b'' prov_demo_build (prov_new 0) = (prov_demo_accepted, s')
     \<and> rv_Release prov_demo_accepted = Some rel \<and> released prov_demo_env prov_demo_verifier prov_demo_build rel"
proof -
  obtain s' where V: "prov_Verify prov_demo_env prov_demo_verifier ''ghcr.io/o/b'' prov_demo_build (prov_new 0) = (prov_demo_accepted, s')"
    using prov_demo_Verify by blast
  have "rv_Status prov_demo_accepted = ReleaseAccepted" by (simp add: prov_demo_accepted_def)
  from accepted_build_is_released[OF prov_run.start V this] V show ?thesis by blast
qed

theorem acceptance_stands_witness:
  "\<exists>s'. prov_Verify prov_demo_env prov_demo_verifier ''ghcr.io/o/b'' prov_demo_build (prov_new 0) = (prov_demo_accepted, s')
     \<and> prov_Verify prov_demo_env prov_demo_verifier ''ghcr.io/o/b'' prov_demo_build s' = (prov_demo_accepted, s')"
proof -
  obtain s' where V: "prov_Verify prov_demo_env prov_demo_verifier ''ghcr.io/o/b'' prov_demo_build (prov_new 0) = (prov_demo_accepted, s')"
    "mhas (ps_cache s') prov_demo_build" using prov_demo_Verify by blast
  have "rv_Status prov_demo_accepted = ReleaseAccepted" by (simp add: prov_demo_accepted_def)
  from acceptance_stands[OF prov_run.start V(1) this V(2) prov_run.start] V(1) show ?thesis by blast
qed


end
