(* ===== verification/Prov_Route.thy ===== *)
theory Prov_Route
  imports Prov_Facts Route_Demo
begin

text \<open>
  The release verifier behind a router: what it means for the provider a router hands out that the
  verdicts its judge holds were given by client/provenance.
\<close>

section \<open>A judge fed by the release verifier\<close>

text \<open>
  The judge's questions and the ends of its checks, each check being a call of the verifier, with
  whatever else happens in between.
\<close>

inductive checked_run ::
    "('w, 'r) prov_env \<Rightarrow> 'r prov_verifier \<Rightarrow> 'w \<Rightarrow> judge \<Rightarrow> ('w, 'r) prov_state \<Rightarrow> bool" for E v w where
  start: "checked_run E v w [] (prov_new w)"
| ask: "checked_run E v w J s \<Longrightarrow> checked_run E v w (snd (judge_verdict t repository digest st J)) s"
| finish: "checked_run E v w J s \<Longrightarrow> mget J (build_key repository digest) = Some e \<Longrightarrow> jr_running e \<Longrightarrow>
    prov_Verify E v repository digest s = (vd, s') \<Longrightarrow>
    checked_run E v w (judge_check t (build_key repository digest) vd J) s'"
| outside: "checked_run E v w J s \<Longrightarrow> checked_run E v w J (s\<lparr>ps_registry := (ps_registry s)\<lparr>rg_world := x\<rparr>\<rparr>)"

text \<open>Every acceptance held is of a release in the policy's repository.\<close>

definition judge_released :: "('w, 'r) prov_env \<Rightarrow> 'r prov_verifier \<Rightarrow> judge \<Rightarrow> bool" where
  "judge_released E v J \<longleftrightarrow>
     (\<forall>k e vd. mget J k = Some e \<longrightarrow> jr_verdict e = Some vd \<longrightarrow> rv_Status vd = ReleaseAccepted \<longrightarrow>
        (\<exists>digest rel. k = build_key (po_Repository (rl_policy v)) digest \<and> isSHA256Digest digest
           \<and> rv_Release vd = Some rel \<and> released E v digest rel))"

lemma makeRoom_mget: "mwf J \<Longrightarrow> mget (snd (makeRoom J)) k = Some e \<Longrightarrow> mget J k = Some e"
  using mget_filter[of J "\<lambda>e. jr_running e \<or> accepted e" k]
  by (auto simp: makeRoom_def Let_def split: if_splits option.splits)

lemma judge_verdict_mget:
  assumes "mwf J" "mget (snd (judge_verdict t r d st J)) k = Some e" "jr_verdict e = Some vd"
  shows "\<exists>e0. mget J k = Some e0 \<and> jr_verdict e0 = Some vd"
proof (cases "mget J (build_key r d)")
  case None
  obtain ok J' where m: "makeRoom J = (ok, J')" by (cases "makeRoom J")
  have J': "mwf J'" "\<And>e. mget J' k = Some e \<Longrightarrow> mget J k = Some e"
    using makeRoom_keeps(1)[OF assms(1)] makeRoom_mget[OF assms(1), of k] m by simp_all
  show ?thesis
    using None m assms J'
    by (cases ok) (auto simp: judge_verdict_def judge_start_def Let_def mget_mput split: if_splits)
next
  case (Some e')
  then show ?thesis
    using assms by (auto simp: judge_verdict_def judge_start_def Let_def mget_mput split: if_splits)
qed

lemma Verify_sha256:
  "prov_Verify E v repository digest s = (vd, s') \<Longrightarrow> rv_Status vd = ReleaseAccepted \<Longrightarrow> isSHA256Digest digest"
  by (auto simp: prov_Verify_def rejected_def split: if_splits)

lemma checked_run_ok:
  "checked_run E v w J s \<Longrightarrow> judge_wf J \<and> judge_released E v J \<and> prov_ok E v s"
proof (induction rule: checked_run.induct)
  case start
  show ?case by (simp add: judge_wf_def running_checks_def judge_released_def mget_def)
next
  case (ask J s t repository digest st)
  then have "mwf J" by (simp add: judge_wf_def)
  then show ?case
    using ask.IH judge_wf_verdict[of J] judge_verdict_mget[of J]
    unfolding judge_released_def by blast
next
  case (finish J s repository digest e vd s' t)
  note p = prov_Verify_ok[OF conjunct2[OF conjunct2[OF finish.IH]] finish.hyps(4)]
  have "mwf J" using finish.IH by (simp add: judge_wf_def)
  then have "judge_released E v (judge_check t (build_key repository digest) vd J)"
    using finish p Verify_sha256[OF finish.hyps(4)]
    by (auto simp: judge_released_def judge_check_def mget_mput split: if_splits)
  then show ?case using finish.IH p judge_wf_check by blast
next
  case (outside J s x)
  then show ?case using prov_ok_outside by blast
qed

section \<open>What the gate then says\<close>

lemma sha256_length: "isSHA256Digest d \<Longrightarrow> length d = 71"
  by (auto simp: isSHA256Digest_def cut_prefix_def elim!: prefixE split: option.splits if_splits)

lemma build_key_inj:
  "isSHA256Digest d \<Longrightarrow> length d' = 71 \<Longrightarrow> build_key r d = build_key r' d' \<Longrightarrow> r = r' \<and> d = d'"
  using sha256_length[of d] append_eq_append_conv[of "r @ ''@''" "r' @ ''@''" d d'] by (simp add: build_key_def)

text \<open>The image of a state that was read from a log is digest-pinned.\<close>

lemma read_image:
  assumes "readRuntime reply q = Inr st" "st_Image st = Some im"
  shows "length (im_Digest im) = 71"
proof -
  obtain es where "state_of es st"
    using assms(1) ReadRuntimeState_log by (fastforce simp: readRuntime_def split: sum.splits)
  then obtain p r k where "parseImageUpdate p = Inr r" "im = r\<lparr>im_Index := k\<rparr>"
    using assms(2) by (auto simp: state_of_def split: option.splits)
  then show ?thesis unfolding parse_image_iff by (auto simp: isLowerHex_def)
qed

lemma accepted_runtime_image:
  assumes "build_accepted r J f" "judge_released E v J" "rf_state f = readRuntime reply q"
    and "rf_state f = Inr st" "st_Image st = Some im"
  shows "im_Repository im = po_Repository (rl_policy v) \<and> (\<exists>rel. released E v (im_Digest im) rel)
     \<and> equal_fold (im_Signer im) (rf_signer f) \<and> im_EncPub im = rf_encPub f"
proof -
  have l: "length (im_Digest im) = 71" by (rule read_image[OF _ assms(5)]) (use assms(3,4) in simp)
  obtain rv where C: "rc_Failures (CheckRuntime st (Some (judgedReleases rv (held J (runtime_asks f)))) (rf_signer f) (rf_encPub f)) = []
      \<and> rc_Unverified (CheckRuntime st (Some (judgedReleases rv (held J (runtime_asks f)))) (rf_signer f) (rf_encPub f)) = []"
    using assms(1,4) by (auto simp: build_accepted_def Let_def)
  have asks: "runtime_asks f = [(im_Repository im, im_Digest im)]"
    using assms(4,5) by (simp add: runtime_asks_def)
  let ?k = "build_key (im_Repository im) (im_Digest im)"
  have bound: "equal_fold (im_Signer im) (rf_signer f)" "im_EncPub im = rf_encPub f"
    and acc: "rv_Status (VerifyRelease (Some (judgedReleases rv (held J (runtime_asks f)))) (im_Repository im) (im_Digest im))
        = ReleaseAccepted"
    using C assms(5) unfolding CheckRuntime_clean by blast+
  obtain vd where "Option.bind (mget J ?k) jr_verdict = Some vd" "rv_Status vd = ReleaseAccepted"
    using acc asks
    by (auto simp: VerifyRelease_def judgedReleases_def held_def not_yet_def split: option.splits)
  then obtain e where e: "mget J ?k = Some e" "jr_verdict e = Some vd" "rv_Status vd = ReleaseAccepted"
    by (cases "mget J ?k") auto
  then obtain digest rel where d: "?k = build_key (po_Repository (rl_policy v)) digest" "isSHA256Digest digest"
    "released E v digest rel" using assms(2) unfolding judge_released_def by blast
  have "po_Repository (rl_policy v) = im_Repository im \<and> digest = im_Digest im"
    by (rule build_key_inj[OF d(2) l d(1)[symmetric]])
  then show ?thesis using d(3) bound by auto
qed


section \<open>A provider running the build that is accepted\<close>

definition prov_demo_log :: "(string \<times> bytes) list" where
  "prov_demo_log = [(''system-ready'', []), (''zg-image-update'',
     image_line ''ghcr.io/o/b'' (replicate 64 CHR ''a'') (hex_encode (replicate 20 CHR ''s'')) (replicate 32 CHR ''k''))]"

definition prov_demo_measured :: Measurement where
  "prov_demo_measured = demo_measurement\<lparr>RTMR3 := log_register (map log_entry prov_demo_log)\<rparr>"

definition prov_demo_quotes :: Verifier where
  "prov_demo_quotes = New \<lparr>bp_Allowed = [BootChainOf demo_measurement],
       bp_Names = (\<lambda>_. None)(BootChainOf demo_measurement := Some ''image'')\<rparr>
     [WithQuoteParser (Some (\<lambda>q. Inr (prov_demo_measured, demo_report)))]"

definition prov_demo_verified :: Verified where
  "prov_demo_verified = \<lparr>vd_EncPub = replicate 32 CHR ''k'', vd_SignerAddr = demo_signer,
     vd_Measurement = prov_demo_measured, vd_MeasurementTrusted = True, vd_MeasurementImage = ''image''\<rparr>"

definition prov_demo_runtime :: runtimeFacts where
  "prov_demo_runtime = \<lparr>rf_state = readRuntime (log_reply prov_demo_log) (RTMR3 prov_demo_measured),
     rf_signer = demo_signer, rf_encPub = replicate 32 CHR ''k''\<rparr>"

definition prov_demo_quote :: quoteResult where
  "prov_demo_quote = \<lparr>qr_encPub = replicate 32 CHR ''k'', qr_signer = demo_signer,
     qr_facts = \<lparr>qf_measurement = Some (measurementVerdict prov_demo_quotes prov_demo_verified), qf_osImage = ''image'',
       qf_composeHash = [], qf_containers = [], qf_runtime = prov_demo_runtime,
       qf_manifest = \<lparr>mf_review = Some \<lparr>cv_Blocks = [], cv_TopLevel = [], cv_LoadErr = None\<rparr>, mf_observed = 0\<rparr>,
       qf_respBind = False\<rparr>\<rparr>"

text \<open>A router that enforces all of it; the recorded deployment has no service.\<close>

definition prov_demo_router :: "unit Router" where
  "prov_demo_router = (fst demo_router)\<lparr>gr_releases := Some \<lparr>rvf_Repository = ''ghcr.io/o/b'', rvf_Verify = (\<lambda>_ _. not_yet)\<rparr>,
     gr_baseline := Some \<lparr>cb_b = [\<lparr>dp_Name = ''d'', dp_Contract = normAddr demo_address,
       dp_Providers = [normAddr demo_address], dp_Services = [], dp_TopLevel = []\<rparr>], cb_contract = demo_address\<rparr>,
     gr_providerEnforce := True\<rparr>"

definition prov_demo_provider :: Provider where
  "prov_demo_provider = \<lparr>pv_URL = [], pv_EncPubKey = replicate 32 CHR ''k'', pv_SignerAddr = demo_signer,
     pv_Address = demo_address, pv_RouterProviderIdentity = None, pv_Endpoint = [], pv_Model = [], pv_BindResponse = False\<rparr>"

definition prov_demo_image :: ImageRecord where
  "prov_demo_image = \<lparr>im_Repository = ''ghcr.io/o/b'', im_Digest = prov_demo_build, im_Signer = demo_signer,
     im_EncPub = replicate 32 CHR ''k'', im_Index = 1\<rparr>"

lemma prov_demo_quote_verified: "Verify prov_demo_quotes [CHR 0x00] = Inr prov_demo_verified"
proof -
  have "BootChain_IsZero (BootChainOf demo_measurement) = False" "BootChainOf prov_demo_measured = BootChainOf demo_measurement"
    by (simp_all add: BootChain_IsZero_def BootChainOf_def demo_measurement_def prov_demo_measured_def)
  moreover have "ParseReportData demo_report =
      Inr \<lparr>rd_EncPub = replicate 32 (CHR ''k''), rd_SignerAddr = demo_signer, rd_Version = 1\<rparr>"
    unfolding demo_report_def demo_signer_def by code_simp
  ultimately show ?thesis
    by (simp add: Verify_def prov_demo_quotes_def New_def WithQuoteParser_def Permits_def Name_def prov_demo_verified_def Let_def)
qed

lemma prov_demo_state:
  "readRuntime (log_reply prov_demo_log) (RTMR3 prov_demo_measured)
     = Inr (state_zero\<lparr>st_Entries := 2, st_Runtime := 1, st_ImageUpdates := 1, st_Image := Some prov_demo_image\<rparr>)"
proof -
  have "isLowerHex (hex_encode (replicate 20 CHR ''s'')) 40"
    using hex_encode_lower by (auto simp: isLowerHex_def list_all_iff)
  moreover have "isLowerHex (replicate 64 CHR ''a'') 64" "repo_ok ''ghcr.io/o/b''"
    by (simp_all add: isLowerHex_def list_all_iff is_lower_hex_def repo_ok_def)
  ultimately have "parseImageUpdate (image_line ''ghcr.io/o/b'' (replicate 64 CHR ''a'') (hex_encode (replicate 20 CHR ''s''))
      (replicate 32 CHR ''k'')) = Inr (prov_demo_image\<lparr>im_Index := 0\<rparr>)"
    unfolding parse_image_iff by (auto simp: prov_demo_image_def prov_demo_build_def demo_signer_def)
  moreover have "RTMR3 prov_demo_measured = log_register (map log_entry prov_demo_log)"
    by (simp add: prov_demo_measured_def)
  ultimately have "ReadRuntimeState (log_reply prov_demo_log) (RTMR3 prov_demo_measured)
      = Inr (state_zero\<lparr>st_Entries := 2, st_Runtime := 1, st_ImageUpdates := 1, st_Image := Some prov_demo_image\<rparr>)"
    by (simp only: prov_demo_log_def ready_only)
      (simp add: is_zg_def apply_record_def state_zero_def prov_demo_image_def Let_def)
  then show ?thesis by (simp add: readRuntime_def)
qed

text \<open>The verdict arrives: asked for, checked, and held.\<close>

definition prov_demo_judge :: judge where
  "prov_demo_judge = [(build_key ''ghcr.io/o/b'' prov_demo_build,
     \<lparr>jr_verdict = Some prov_demo_accepted, jr_at = 7, jr_running = False\<rparr>)]"

lemma prov_demo_checked: "\<exists>s. checked_run prov_demo_env prov_demo_verifier 0 prov_demo_judge s"
proof -
  let ?k = "build_key ''ghcr.io/o/b'' prov_demo_build"
  let ?e = "\<lparr>jr_verdict = None, jr_at = 0, jr_running = True\<rparr>"
  obtain s' where V: "prov_Verify prov_demo_env prov_demo_verifier ''ghcr.io/o/b'' prov_demo_build (prov_new 0)
      = (prov_demo_accepted, s')" using prov_demo_Verify by blast
  have "checked_run prov_demo_env prov_demo_verifier 0
      (snd (judge_verdict 0 ''ghcr.io/o/b'' prov_demo_build True [])) (prov_new 0)"
    by (intro checked_run.intros)
  then have "checked_run prov_demo_env prov_demo_verifier 0 [(?k, ?e)] (prov_new 0)"
    by (simp add: judge_verdict_def makeRoom_def judge_start_def running_checks_def maxJudgedReleases_def
        maxReleaseChecks_def Let_def)
  from checked_run.finish[OF this _ _ V, of ?e 7]
  have "checked_run prov_demo_env prov_demo_verifier 0
      (judge_check 7 ?k prov_demo_accepted [(?k, ?e)]) s'" by simp
  then show ?thesis by (auto simp: judge_check_def prov_demo_judge_def)
qed

lemma prov_demo_gate:
  "gate_passed prov_demo_router prov_demo_judge demo_address (qr_facts prov_demo_quote)"
proof -
  have "held prov_demo_judge (runtime_asks prov_demo_runtime) = [((''ghcr.io/o/b'', prov_demo_build), Some prov_demo_accepted)]"
    by (simp add: runtime_asks_def prov_demo_runtime_def prov_demo_state prov_demo_image_def held_def prov_demo_judge_def)
  then have "build_accepted prov_demo_router prov_demo_judge prov_demo_runtime"
    unfolding build_accepted_def Let_def CheckRuntime_clean
    by (simp add: prov_demo_router_def prov_demo_runtime_def prov_demo_state prov_demo_image_def VerifyRelease_def
        judgedReleases_def prov_demo_accepted_def state_zero_def equal_fold_def)
  moreover have "manifest_recorded prov_demo_router prov_demo_judge demo_address (qf_manifest (qr_facts prov_demo_quote))"
    by (simp add: manifest_recorded_def prov_demo_router_def prov_demo_quote_def Let_def CheckReview_def CheckCompose_def
        baseline_For_def Compared_def check_OK_def Complete_check_def cc_zero_def checkTopLevel_def dupes_def)
  ultimately show ?thesis by (simp add: gate_passed_def prov_demo_quote_def)
qed

lemma prov_demo_trusted:
  "trusted_provider prov_demo_router prov_demo_quotes demo_registry prov_demo_judge prov_demo_provider"
proof -
  have "from_quote prov_demo_quotes prov_demo_quote"
    unfolding from_quote_def
    by (intro exI[of _ "[CHR 0x00]"] exI[of _ "log_reply prov_demo_log"] exI[of _ prov_demo_verified] conjI
        prov_demo_quote_verified)
      (simp_all add: prov_demo_quote_def prov_demo_runtime_def prov_demo_verified_def)
  moreover have "vouched demo_registry demo_address demo_signer"
    by (rule vouchedI(1)[of _ _ "()" "demo_reading True" "()"]) (simp_all add: demo_registry_def demo_agrees)
  ultimately show ?thesis
    using prov_demo_gate demo_address_ok
    unfolding trusted_provider_def
    by (intro conjI exI[of _ prov_demo_quote]) (simp_all add: prov_demo_provider_def prov_demo_quote_def)
qed


end
